(* ===== verification/Prelude.thy ===== *)
theory Prelude
  imports Main "HOL-Library.Word" "HOL-Library.Sublist" "HOL-Library.Signed_Division"
begin

text \<open>
  Shared vocabulary of the development: fallible results, Rust's fixed-width arithmetic,
  Rust byte strings and their parsing, JSON values.

  \<^item> A \<open>Result<T, E>\<close> is \<open>'e + 'a\<close>: \<open>Inl\<close> is \<open>Err\<close>, \<open>Inr\<close> is \<open>Ok\<close>. The client crate's
    errors are strings and keep the source's wording.
  \<^item> A Rust \<open>str\<close> is its UTF-8 bytes: a HOL \<open>string\<close>, one \<open>char\<close> per byte. Binary data is an
    \<open>8 word list\<close>.
  \<^item> \<open>i64\<close>, \<open>i32\<close>, \<open>u32\<close> and \<open>u64\<close> values are \<open>int\<close> (or \<open>nat\<close>) with the checked and
    saturating operations of the standard library written out against their range.
\<close>

named_theorems result_simps \<open>equations and inversions for results\<close>
named_theorems arith_defs \<open>definitions of the fixed-width operations\<close>
named_theorems text_simps \<open>facts on decimal text\<close>

section \<open>Results\<close>

type_synonym 'a result = "string + 'a"
type_synonym bytes = "8 word list"

text \<open>\<open>and_then r f\<close> is the \<open>?\<close> operator: stop at the first error, else go on with the value.\<close>

fun and_then :: "'e + 'a \<Rightarrow> ('a \<Rightarrow> 'e + 'b) \<Rightarrow> 'e + 'b" where
  "and_then (Inl e) f = Inl e"
| "and_then (Inr x) f = f x"

fun map_err :: "('e \<Rightarrow> 'd) \<Rightarrow> 'e + 'a \<Rightarrow> 'd + 'a" where
  "map_err g (Inl e) = Inl (g e)"
| "map_err g (Inr x) = Inr x"

fun map_ok :: "('a \<Rightarrow> 'b) \<Rightarrow> 'e + 'a \<Rightarrow> 'e + 'b" where
  "map_ok g (Inl e) = Inl e"
| "map_ok g (Inr x) = Inr (g x)"

fun ok_or :: "'e \<Rightarrow> 'a option \<Rightarrow> 'e + 'a" where
  "ok_or e None = Inl e"
| "ok_or e (Some x) = Inr x"

definition ensure :: "bool \<Rightarrow> 'e \<Rightarrow> 'e + unit" where
  "ensure b e = (if b then Inr () else Inl e)"

text \<open>\<open>collect::<Result<Vec<_>, _>>()\<close>: the first error, or every value in order.\<close>

fun collect_ok :: "('e + 'a) list \<Rightarrow> 'e + 'a list" where
  "collect_ok [] = Inr []"
| "collect_ok (r # rs) = and_then r (\<lambda>x. and_then (collect_ok rs) (\<lambda>xs. Inr (x # xs)))"

lemma and_then_Inr [result_simps]: "and_then r f = Inr y \<longleftrightarrow> (\<exists>x. r = Inr x \<and> f x = Inr y)"
  by (cases r) auto

lemma and_then_Inl [result_simps]:
  "and_then r f = Inl e \<longleftrightarrow> r = Inl e \<or> (\<exists>x. r = Inr x \<and> f x = Inl e)"
  by (cases r) auto

lemma and_then_cong [fundef_cong]:
  "r = r' \<Longrightarrow> (\<And>x. r' = Inr x \<Longrightarrow> f x = f' x) \<Longrightarrow> and_then r f = and_then r' f'"
  by (cases r') auto

lemma map_err_Inr [result_simps, simp]: "map_err g r = Inr y \<longleftrightarrow> r = Inr y"
  by (cases r) auto

lemma map_err_Inl [result_simps]: "map_err g r = Inl d \<longleftrightarrow> (\<exists>e. r = Inl e \<and> d = g e)"
  by (cases r) auto

lemma map_ok_Inr [result_simps]: "map_ok g r = Inr y \<longleftrightarrow> (\<exists>x. r = Inr x \<and> y = g x)"
  by (cases r) auto

lemma map_ok_Inl [result_simps, simp]: "map_ok g r = Inl e \<longleftrightarrow> r = Inl e"
  by (cases r) auto

lemma ok_or_Inr [result_simps, simp]: "ok_or e opt = Inr x \<longleftrightarrow> opt = Some x"
  by (cases opt) auto

lemma ok_or_Inl [result_simps]: "ok_or e opt = Inl d \<longleftrightarrow> opt = None \<and> d = e"
  by (cases opt) auto

lemma ensure_Inr [result_simps, simp]: "ensure b e = Inr u \<longleftrightarrow> b"
  by (simp add: ensure_def)

lemma ensure_Inl [result_simps]: "ensure b e = Inl d \<longleftrightarrow> \<not> b \<and> d = e"
  by (auto simp: ensure_def)

lemma ensure_True [simp]: "ensure True e = Inr ()"
  by (simp add: ensure_def)

lemma ensure_False [simp]: "ensure False e = Inl e"
  by (simp add: ensure_def)

lemma and_then_ensure [simp]: "and_then (ensure b e) f = (if b then f () else Inl e)"
  by (simp add: ensure_def)

lemma collect_ok_Inr:
  "collect_ok rs = Inr xs \<longleftrightarrow> length rs = length xs \<and> list_all2 (\<lambda>r x. r = Inr x) rs xs"
  by (induction rs arbitrary: xs)
    (auto simp: result_simps list_all2_Cons1 dest: list_all2_lengthD)

section \<open>Fixed-width arithmetic\<close>

definition i64_max :: int where "i64_max = 9223372036854775807"
definition i64_min :: int where "i64_min = -9223372036854775808"
definition i32_max :: int where "i32_max = 2147483647"
definition i32_min :: int where "i32_min = -2147483648"
definition u32_max :: int where "u32_max = 4294967295"
definition u64_max :: int where "u64_max = 18446744073709551615"

lemmas int_bounds [arith_defs] =
  i64_max_def i64_min_def i32_max_def i32_min_def u32_max_def u64_max_def

definition in_i64 :: "int \<Rightarrow> bool" where "in_i64 x \<longleftrightarrow> i64_min \<le> x \<and> x \<le> i64_max"
definition in_i32 :: "int \<Rightarrow> bool" where "in_i32 x \<longleftrightarrow> i32_min \<le> x \<and> x \<le> i32_max"
definition in_u32 :: "int \<Rightarrow> bool" where "in_u32 x \<longleftrightarrow> 0 \<le> x \<and> x \<le> u32_max"
definition in_u64 :: "int \<Rightarrow> bool" where "in_u64 x \<longleftrightarrow> 0 \<le> x \<and> x \<le> u64_max"

lemmas in_range_defs [arith_defs] = in_i64_def in_i32_def in_u32_def in_u64_def

definition checked_i64 :: "int \<Rightarrow> int option" where
  "checked_i64 x = (if in_i64 x then Some x else None)"

definition checked_add :: "int \<Rightarrow> int \<Rightarrow> int option" where
  "checked_add a b = checked_i64 (a + b)"

definition checked_mul :: "int \<Rightarrow> int \<Rightarrow> int option" where
  "checked_mul a b = checked_i64 (a * b)"

definition saturate_i64 :: "int \<Rightarrow> int" where
  "saturate_i64 x = max i64_min (min i64_max x)"

definition saturating_add :: "int \<Rightarrow> int \<Rightarrow> int" where
  "saturating_add a b = saturate_i64 (a + b)"

definition saturating_sub :: "int \<Rightarrow> int \<Rightarrow> int" where
  "saturating_sub a b = saturate_i64 (a - b)"

lemma checked_add_Some [result_simps]:
  "checked_add a b = Some c \<longleftrightarrow> c = a + b \<and> in_i64 (a + b)"
  by (auto simp: checked_add_def checked_i64_def)

lemma checked_mul_Some [result_simps]:
  "checked_mul a b = Some c \<longleftrightarrow> c = a * b \<and> in_i64 (a * b)"
  by (auto simp: checked_mul_def checked_i64_def)

lemma checked_add_None [result_simps]: "checked_add a b = None \<longleftrightarrow> \<not> in_i64 (a + b)"
  by (simp add: checked_add_def checked_i64_def)

lemma checked_mul_None [result_simps]: "checked_mul a b = None \<longleftrightarrow> \<not> in_i64 (a * b)"
  by (simp add: checked_mul_def checked_i64_def)

lemma saturate_i64_range: "in_i64 (saturate_i64 x)"
  by (auto simp: saturate_i64_def arith_defs)

lemma saturate_i64_id: "in_i64 x \<Longrightarrow> saturate_i64 x = x"
  by (auto simp: saturate_i64_def in_i64_def)

text \<open>
  A saturated subtraction clamped at zero never reports more than the exact difference: this is
  how every "available balance" of the client is computed.
\<close>

lemma saturating_sub_max0:
  "in_i64 a \<Longrightarrow> max 0 (saturating_sub a b) = (if a - b \<le> i64_max then max 0 (a - b) else i64_max)"
  by (auto simp: saturating_sub_def saturate_i64_def arith_defs)

lemma saturating_sub_exact:
  "in_i64 a \<Longrightarrow> 0 \<le> b \<Longrightarrow> 0 \<le> saturating_sub a b \<Longrightarrow> saturating_sub a b = a - b"
  by (auto simp: saturating_sub_def saturate_i64_def arith_defs)

lemma saturating_sub_range: "in_i64 (saturating_sub a b)"
  by (simp add: saturating_sub_def saturate_i64_range)

section \<open>Decimal text\<close>

definition is_ascii_digit :: "char \<Rightarrow> bool" where
  "is_ascii_digit c \<longleftrightarrow> (48 :: nat) \<le> of_char c \<and> of_char c \<le> (57 :: nat)"

definition digit_val :: "char \<Rightarrow> nat" where
  "digit_val c = of_char c - 48"

definition digit_char :: "nat \<Rightarrow> char" where
  "digit_char d = ''0123456789'' ! d"

text \<open>\<open>to_string\<close> of an unsigned and of a signed integer.\<close>

fun nat_to_dec :: "nat \<Rightarrow> string" where
  "nat_to_dec n = (if n < 10 then [digit_char n] else nat_to_dec (n div 10) @ [digit_char (n mod 10)])"

declare nat_to_dec.simps [simp del]

definition int_to_dec :: "int \<Rightarrow> string" where
  "int_to_dec i = (if i < 0 then ''-'' @ nat_to_dec (nat (- i)) else nat_to_dec (nat i))"

definition dec_val :: "string \<Rightarrow> nat" where
  "dec_val s = foldl (\<lambda>acc c. acc * 10 + digit_val c) 0 s"

definition all_digits :: "string \<Rightarrow> bool" where
  "all_digits s \<longleftrightarrow> list_all is_ascii_digit s"

text \<open>\<open>str::parse::<i64>\<close> and \<open>str::parse::<u64>\<close>: optional sign (\<open>-\<close> only for \<open>i64\<close>), at least one
  digit, no overflow.\<close>

definition parse_digits :: "string \<Rightarrow> nat option" where
  "parse_digits s = (if s \<noteq> [] \<and> all_digits s then Some (dec_val s) else None)"

definition parse_i64 :: "string \<Rightarrow> int option" where
  "parse_i64 s =
     (if s \<noteq> [] \<and> hd s = CHR ''-'' then
        Option.bind (parse_digits (tl s)) (\<lambda>n. checked_i64 (- int n))
      else
        Option.bind (parse_digits (if s \<noteq> [] \<and> hd s = CHR ''+'' then tl s else s))
          (\<lambda>n. checked_i64 (int n)))"

definition parse_u64 :: "string \<Rightarrow> nat option" where
  "parse_u64 s =
     Option.bind (parse_digits (if s \<noteq> [] \<and> hd s = CHR ''+'' then tl s else s))
       (\<lambda>n. if int n \<le> u64_max then Some n else None)"

lemma of_char_digit_char: "d < 10 \<Longrightarrow> of_char (digit_char d) = 48 + d"
proof -
  assume "d < 10"
  then have "d \<in> {0, 1, 2, 3, 4, 5, 6, 7, 8, 9}" by auto
  then show ?thesis by (auto simp: digit_char_def)
qed

lemma digit_char_val [text_simps]: "d < 10 \<Longrightarrow> digit_val (digit_char d) = d"
  by (simp add: digit_val_def of_char_digit_char)

lemma is_digit_digit_char [text_simps]: "d < 10 \<Longrightarrow> is_ascii_digit (digit_char d)"
  by (simp add: is_ascii_digit_def of_char_digit_char)

lemma digit_val_less [text_simps]: "is_ascii_digit c \<Longrightarrow> digit_val c < 10"
  by (auto simp: is_ascii_digit_def digit_val_def)

lemma dec_val_foldl:
  "foldl (\<lambda>acc c. acc * 10 + digit_val c) a s = a * 10 ^ length s + dec_val s"
proof (induction s arbitrary: a)
  case Nil
  then show ?case by (simp add: dec_val_def)
next
  case (Cons c s)
  have "dec_val (c # s) = digit_val c * 10 ^ length s + dec_val s"
    using Cons.IH [of "digit_val c"] by (simp add: dec_val_def)
  with Cons.IH [of "a * 10 + digit_val c"] show ?case
    by (simp add: algebra_simps)
qed

lemma dec_val_Nil [text_simps, simp]: "dec_val [] = 0"
  by (simp add: dec_val_def)

lemma dec_val_append [text_simps]: "dec_val (s @ t) = dec_val s * 10 ^ length t + dec_val t"
  using dec_val_foldl [of "dec_val s" t] by (simp add: dec_val_def)

lemma dec_val_single [text_simps]: "dec_val [c] = digit_val c"
  by (simp add: dec_val_def)

lemma dec_val_Cons [text_simps]: "dec_val (c # s) = digit_val c * 10 ^ length s + dec_val s"
  using dec_val_append [of "[c]" s] by (simp add: dec_val_single)

lemma dec_val_zeros [text_simps]: "dec_val (replicate k (CHR ''0'')) = 0"
  by (induction k) (auto simp: text_simps digit_val_def)

lemma dec_val_less: "all_digits s \<Longrightarrow> dec_val s < 10 ^ length s"
proof (induction s)
  case Nil
  then show ?case by simp
next
  case (Cons c s)
  then have "dec_val s < 10 ^ length s" and "digit_val c < 10"
    by (auto simp: all_digits_def text_simps)
  then have "digit_val c * 10 ^ length s + dec_val s < (digit_val c + 1) * 10 ^ length s"
    by simp
  also have "\<dots> \<le> 10 * 10 ^ length s"
    using \<open>digit_val c < 10\<close> by (intro mult_right_mono) auto
  finally show ?case by (simp add: dec_val_Cons)
qed

lemma dec_val_nat_to_dec [text_simps]: "dec_val (nat_to_dec n) = n"
proof (induction n rule: nat_to_dec.induct)
  case (1 n)
  then show ?case
    by (simp add: nat_to_dec.simps [of n] text_simps)
qed

lemma nat_to_dec_nonempty [text_simps, simp]: "nat_to_dec n \<noteq> []"
  by (simp add: nat_to_dec.simps [of n])

lemma all_digits_Nil [text_simps, simp]: "all_digits []"
  by (simp add: all_digits_def)

lemma all_digits_append [text_simps]: "all_digits (s @ t) \<longleftrightarrow> all_digits s \<and> all_digits t"
  by (simp add: all_digits_def)

lemma all_digits_nat_to_dec [text_simps]: "all_digits (nat_to_dec n)"
proof (induction n rule: nat_to_dec.induct)
  case (1 n)
  then show ?case
    by (auto simp: nat_to_dec.simps [of n] all_digits_def text_simps)
qed

lemma length_nat_to_dec_le: "n < 10 ^ k \<Longrightarrow> 0 < k \<Longrightarrow> length (nat_to_dec n) \<le> k"
proof (induction n arbitrary: k rule: nat_to_dec.induct)
  case (1 n)
  show ?case
  proof (cases "n < 10")
    case True
    with 1(3) show ?thesis by (simp add: nat_to_dec.simps [of n])
  next
    case False
    with 1(2) have "k \<noteq> 1" by (cases "k = 1") auto
    with 1(3) obtain j where k: "k = Suc j" "0 < j" by (cases k) auto
    with 1(2) have "n div 10 < 10 ^ j" by auto
    with 1(1) [OF False] k have "length (nat_to_dec (n div 10)) \<le> j" by simp
    with False k show ?thesis by (simp add: nat_to_dec.simps [of n])
  qed
qed

lemma parse_digits_nat_to_dec [text_simps]: "parse_digits (nat_to_dec n) = Some n"
  by (simp add: parse_digits_def text_simps)

section \<open>Strings\<close>

text \<open>
  \<open>str::trim\<close> strips Unicode white space. On UTF-8 bytes a white-space scalar is one of the ASCII
  controls 9--13 and 32, or one of the two- and three-byte sequences below (U+0085, U+00A0, U+1680,
  U+2000--U+200A, U+2028, U+2029, U+202F, U+205F, U+3000).
\<close>

definition is_ascii_ws :: "char \<Rightarrow> bool" where
  "is_ascii_ws c \<longleftrightarrow> of_char c \<in> {9, 10, 11, 12, 13, 32 :: nat}"

definition is_ws2 :: "char \<Rightarrow> char \<Rightarrow> bool" where
  "is_ws2 a b \<longleftrightarrow> of_char a = (0xC2 :: nat) \<and> of_char b \<in> {0x85, 0xA0 :: nat}"

definition is_ws3 :: "char \<Rightarrow> char \<Rightarrow> char \<Rightarrow> bool" where
  "is_ws3 a b c \<longleftrightarrow>
     (let x = of_char a; y = of_char b; z = (of_char c :: nat)
      in (x = (0xE1 :: nat) \<and> y = (0x9A :: nat) \<and> z = 0x80)
       \<or> (x = 0xE2 \<and> y = 0x80 \<and> (0x80 \<le> z \<and> z \<le> 0x8A \<or> z \<in> {0xA8, 0xA9, 0xAF}))
       \<or> (x = 0xE2 \<and> y = 0x81 \<and> z = 0x9F)
       \<or> (x = 0xE3 \<and> y = 0x80 \<and> z = 0x80))"

fun trim_start :: "string \<Rightarrow> string" where
  "trim_start [] = []"
| "trim_start (a # r) =
     (if is_ascii_ws a then trim_start r
      else case r of
        b # r2 \<Rightarrow>
          (if is_ws2 a b then trim_start r2
           else (case r2 of
                   c # r3 \<Rightarrow> if is_ws3 a b c then trim_start r3 else a # r
                 | [] \<Rightarrow> a # r))
      | [] \<Rightarrow> a # r)"

text \<open>The same, on the reversed bytes.\<close>

fun trim_end_rev :: "string \<Rightarrow> string" where
  "trim_end_rev [] = []"
| "trim_end_rev (c # r) =
     (if is_ascii_ws c then trim_end_rev r
      else case r of
        b # r2 \<Rightarrow>
          (if is_ws2 b c then trim_end_rev r2
           else (case r2 of
                   a # r3 \<Rightarrow> if is_ws3 a b c then trim_end_rev r3 else c # r
                 | [] \<Rightarrow> c # r))
      | [] \<Rightarrow> c # r)"

definition trim :: "string \<Rightarrow> string" where
  "trim s = rev (trim_end_rev (rev (trim_start s)))"

definition trim_end_matches :: "char \<Rightarrow> string \<Rightarrow> string" where
  "trim_end_matches c s = rev (dropWhile (\<lambda>x. x = c) (rev s))"

text \<open>\<open>str::split\<close> on one character: always at least one part.\<close>

fun split_on :: "char \<Rightarrow> string \<Rightarrow> string list" where
  "split_on c [] = [[]]"
| "split_on c (x # xs) =
     (if x = c then [] # split_on c xs
      else (case split_on c xs of p # ps \<Rightarrow> (x # p) # ps | [] \<Rightarrow> [[x]]))"

fun split_once :: "char \<Rightarrow> string \<Rightarrow> (string \<times> string) option" where
  "split_once c [] = None"
| "split_once c (x # xs) =
     (if x = c then Some ([], xs)
      else map_option (\<lambda>(a, b). (x # a, b)) (split_once c xs))"

definition starts_with :: "string \<Rightarrow> string \<Rightarrow> bool" where
  "starts_with p s \<longleftrightarrow> take (length p) s = p"

definition to_ascii_lower :: "char \<Rightarrow> char" where
  "to_ascii_lower c =
     (let n = (of_char c :: nat) in if 65 \<le> n \<and> n \<le> 90 then char_of (n + 32) else c)"

lemma to_ascii_lower_idem: "to_ascii_lower (to_ascii_lower c) = to_ascii_lower c"
  by (simp add: to_ascii_lower_def Let_def take_bit_eq_mod)

definition eq_ignore_ascii_case :: "string \<Rightarrow> string \<Rightarrow> bool" where
  "eq_ignore_ascii_case s t \<longleftrightarrow> map to_ascii_lower s = map to_ascii_lower t"

definition is_ascii_alphanumeric :: "char \<Rightarrow> bool" where
  "is_ascii_alphanumeric c \<longleftrightarrow>
     (let n = (of_char c :: nat)
      in 48 \<le> n \<and> n \<le> 57 \<or> 65 \<le> n \<and> n \<le> 90 \<or> 97 \<le> n \<and> n \<le> 122)"

definition is_ascii_byte :: "char \<Rightarrow> bool" where
  "is_ascii_byte c \<longleftrightarrow> (of_char c :: nat) < 128"

definition bytes_of :: "string \<Rightarrow> bytes" where
  "bytes_of s = map of_char s"

definition string_of_bytes :: "bytes \<Rightarrow> string" where
  "string_of_bytes b = map (\<lambda>w. char_of (unat w)) b"

text \<open>Lower-case hexadecimal text of binary data.\<close>

definition hex_digit :: "nat \<Rightarrow> char" where
  "hex_digit d = ''0123456789abcdef'' ! d"

definition hex :: "bytes \<Rightarrow> string" where
  "hex b = concat (map (\<lambda>w. [hex_digit (unat w div 16), hex_digit (unat w mod 16)]) b)"

lemma unat_of_char: "unat (of_char c :: 8 word) = of_char c"
proof -
  have "of_char c < (256 :: nat)" by simp
  then have "unat (of_nat (of_char c) :: 8 word) = of_char c"
    by (subst unat_of_nat) simp
  then show ?thesis by (metis of_nat_of_char)
qed

lemma char_of_unat_of_char [simp]: "char_of (unat (of_char c :: 8 word)) = c"
  by (simp add: unat_of_char)

lemma string_of_bytes_of [text_simps, simp]: "string_of_bytes (bytes_of s) = s"
  by (induction s) (auto simp: string_of_bytes_def bytes_of_def)

lemma length_bytes_of [simp]: "length (bytes_of s) = length s"
  by (simp add: bytes_of_def)

text \<open>Text of plain ASCII without white space is not changed by trimming.\<close>

definition plain_char :: "char \<Rightarrow> bool" where
  "plain_char c \<longleftrightarrow> is_ascii_byte c \<and> \<not> is_ascii_ws c"

lemma trim_start_plain: "s \<noteq> [] \<Longrightarrow> plain_char (hd s) \<Longrightarrow> trim_start s = s"
  by (cases s) (auto simp: plain_char_def is_ascii_byte_def is_ws2_def is_ws3_def Let_def
      split: list.splits)

lemma trim_end_rev_plain: "s \<noteq> [] \<Longrightarrow> plain_char (hd s) \<Longrightarrow> trim_end_rev s = s"
  by (cases s) (auto simp: plain_char_def is_ascii_byte_def is_ws2_def is_ws3_def Let_def
      split: list.splits)

lemma trim_plain [text_simps]:
  assumes "list_all plain_char s"
  shows "trim s = s"
proof (cases "s = []")
  case False
  with assms have "plain_char (hd s)" and "plain_char (hd (rev s))"
    by (auto simp: list_all_iff hd_rev)
  with False show ?thesis
    by (simp add: trim_def trim_start_plain trim_end_rev_plain)
qed (simp add: trim_def)

text \<open>Trimming twice is trimming once.\<close>

lemma trim_start_step:
  "trim_start s = s \<or> (\<exists>x. length x < length s \<and> suffix x s \<and> trim_start s = trim_start x)"
proof (cases s)
  case (Cons a r)
  consider "r = []" | b where "r = [b]" | b c r3 where "r = b # c # r3"
    by (cases r; cases "tl r") auto
  then show ?thesis
  proof cases
    case 1
    then show ?thesis by (simp add: Cons)
  next
    case 2
    then show ?thesis
      by (simp only: Cons trim_start.simps(2) [of a r] list.case split: if_split)
        (auto intro: exI [of _ r] exI [of _ "[]"] suffix_ConsI)
  next
    case 3
    have s: "s = a # b # c # r3" by (simp add: Cons 3)
    have "trim_start s \<in> {trim_start (b # c # r3), trim_start (c # r3), trim_start r3, s}"
      unfolding s by (subst trim_start.simps(2)) (simp del: trim_start.simps)
    then consider "trim_start s = s" | x where "x \<in> {b # c # r3, c # r3, r3}" "trim_start s = trim_start x"
      by blast
    then show ?thesis
    proof cases
      case (2 x)
      then have "length x < length s" "suffix x s" by (auto simp: s intro: suffix_ConsI)
      with 2 show ?thesis by blast
    qed blast
  qed
qed simp

lemma trim_end_rev_step:
  "trim_end_rev s = s \<or> (\<exists>x. length x < length s \<and> suffix x s \<and> trim_end_rev s = trim_end_rev x)"
proof (cases s)
  case (Cons a r)
  consider "r = []" | b where "r = [b]" | b c r3 where "r = b # c # r3"
    by (cases r; cases "tl r") auto
  then show ?thesis
  proof cases
    case 1
    then show ?thesis by (simp add: Cons)
  next
    case 2
    then show ?thesis
      by (simp only: Cons trim_end_rev.simps(2) [of a r] list.case split: if_split)
        (auto intro: exI [of _ r] exI [of _ "[]"] suffix_ConsI)
  next
    case 3
    have s: "s = a # b # c # r3" by (simp add: Cons 3)
    have "trim_end_rev s \<in> {trim_end_rev (b # c # r3), trim_end_rev (c # r3), trim_end_rev r3, s}"
      unfolding s by (subst trim_end_rev.simps(2)) (simp del: trim_end_rev.simps)
    then consider "trim_end_rev s = s" | x where "x \<in> {b # c # r3, c # r3, r3}" "trim_end_rev s = trim_end_rev x"
      by blast
    then show ?thesis
    proof cases
      case (2 x)
      then have "length x < length s" "suffix x s" by (auto simp: s intro: suffix_ConsI)
      with 2 show ?thesis by blast
    qed blast
  qed
qed simp

lemma trim_start_suffix: "suffix (trim_start s) s \<and> trim_start (trim_start s) = trim_start s"
proof (induction s rule: length_induct)
  case (1 s)
  show ?case using trim_start_step [of s]
  proof
    assume "\<exists>x. length x < length s \<and> suffix x s \<and> trim_start s = trim_start x"
    then obtain x where "length x < length s" "suffix x s" "trim_start s = trim_start x" by blast
    with 1 show ?thesis by (metis suffix_order.trans)
  qed simp
qed

lemma trim_end_rev_suffix: "suffix (trim_end_rev s) s \<and> trim_end_rev (trim_end_rev s) = trim_end_rev s"
proof (induction s rule: length_induct)
  case (1 s)
  show ?case using trim_end_rev_step [of s]
  proof
    assume "\<exists>x. length x < length s \<and> suffix x s \<and> trim_end_rev s = trim_end_rev x"
    then obtain x where "length x < length s" "suffix x s" "trim_end_rev s = trim_end_rev x" by blast
    with 1 show ?thesis by (metis suffix_order.trans)
  qed simp
qed

lemma trim_start_shorter: "length x < length y \<Longrightarrow> trim_start x \<noteq> y"
  using trim_start_suffix [of x] suffix_length_le by fastforce

lemma trim_start_prefix:
  assumes fixed: "trim_start (t @ u) = t @ u"
  shows "trim_start t = t"
proof (cases t)
  case (Cons a r)
  consider "r = []" | b where "r = [b]" | b c r3 where "r = b # c # r3"
    by (cases r; cases "tl r") auto
  then show ?thesis
  proof cases
    case 1
    have "\<not> is_ascii_ws a"
      using fixed trim_start_shorter [of u "t @ u"] by (auto simp: Cons 1 simp del: trim_start.simps simp: trim_start.simps(2) [of a u])
    then show ?thesis by (simp add: Cons 1)
  next
    case 2
    have "\<not> is_ascii_ws a \<and> \<not> is_ws2 a b"
      using fixed trim_start_shorter [of "b # u" "t @ u"] trim_start_shorter [of u "t @ u"]
      by (auto simp: Cons 2 trim_start.simps(2) [of a "b # u"] simp del: trim_start.simps split: if_splits)
    then show ?thesis by (simp add: Cons 2)
  next
    case 3
    have "\<not> is_ascii_ws a \<and> \<not> is_ws2 a b \<and> \<not> is_ws3 a b c"
      using fixed trim_start_shorter [of "b # c # r3 @ u" "t @ u"] trim_start_shorter [of "c # r3 @ u" "t @ u"]
        trim_start_shorter [of "r3 @ u" "t @ u"]
      by (auto simp: Cons 3 trim_start.simps(2) [of a "b # c # r3 @ u"] simp del: trim_start.simps split: if_splits)
    then show ?thesis by (simp add: Cons 3)
  qed
qed simp

lemma trim_trim [text_simps]: "trim (trim s) = trim s"
proof -
  obtain u where u: "rev (trim_start s) = u @ trim_end_rev (rev (trim_start s))"
    using trim_end_rev_suffix by (metis suffix_def)
  then have "trim_start s = trim s @ rev u"
    by (metis trim_def rev_append rev_rev_ident)
  then have "trim_start (trim s) = trim s"
    by (metis trim_start_suffix trim_start_prefix)
  then show ?thesis
    by (simp add: trim_def trim_end_rev_suffix)
qed

lemma plain_digit [text_simps]: "is_ascii_digit c \<Longrightarrow> plain_char c"
  by (auto simp: is_ascii_digit_def plain_char_def is_ascii_byte_def is_ascii_ws_def)

lemma split_on_none [text_simps]: "c \<notin> set s \<Longrightarrow> split_on c s = [s]"
  by (induction s) auto

lemma split_on_append [text_simps]:
  "c \<notin> set s \<Longrightarrow> split_on c (s @ c # t) = s # split_on c t"
  by (induction s) auto

lemma split_once_append [text_simps]: "c \<notin> set s \<Longrightarrow> split_once c (s @ c # t) = Some (s, t)"
  by (induction s) auto

lemma split_once_Some: "split_once c s = Some (a, b) \<Longrightarrow> s = a @ c # b \<and> c \<notin> set a"
  by (induction s arbitrary: a) (auto split: if_splits)

lemma trim_end_matches_decomp:
  "s = trim_end_matches c s @ replicate (length s - length (trim_end_matches c s)) c"
proof -
  let ?t = "takeWhile (\<lambda>x. x = c) (rev s)" and ?d = "dropWhile (\<lambda>x. x = c) (rev s)"
  have "?t = replicate (length ?t) c"
    by (metis (full_types) replicate_length_same set_takeWhileD)
  moreover have "rev s = ?t @ ?d" by simp
  then have "s = rev ?d @ rev ?t" by (metis rev_append rev_rev_ident)
  moreover from this have "length s = length ?d + length ?t"
    by (metis length_append length_rev)
  ultimately show ?thesis
    by (metis trim_end_matches_def add_diff_cancel_left' length_rev rev_replicate)
qed

section \<open>Text forms\<close>

text \<open>
  A value with a text form: under the laws \<open>law\<close> of the library it is built on, everything that
  parses is well formed and the printed text of a well-formed value parses back to it.
\<close>

locale text_codec =
  fixes law :: "'l \<Rightarrow> bool"
    and ok :: "'l \<Rightarrow> 'a \<Rightarrow> bool"
    and parse :: "'l \<Rightarrow> string \<Rightarrow> 'e + 'a"
    and print :: "'l \<Rightarrow> 'a \<Rightarrow> string"
  assumes parse_ok: "law l \<Longrightarrow> parse l s = Inr a \<Longrightarrow> ok l a"
    and parse_print: "law l \<Longrightarrow> ok l a \<Longrightarrow> parse l (print l a) = Inr a"
begin

lemma print_inj: "law l \<Longrightarrow> ok l a \<Longrightarrow> ok l b \<Longrightarrow> print l a = print l b \<Longrightarrow> a = b"
  by (metis parse_print sum.inject(2))

lemma reparse: "law l \<Longrightarrow> parse l s = Inr a \<Longrightarrow> parse l (print l a) = Inr a"
  by (simp add: parse_ok parse_print)

lemma same_text_iff:
  "law l \<Longrightarrow> parse l s = Inr a \<Longrightarrow> parse l t = Inr b \<Longrightarrow> print l a = print l b \<longleftrightarrow> a = b"
  using parse_ok print_inj by metis

end

section \<open>Invariants of event sequences\<close>

text \<open>
  A component that reacts to events: an invariant that every admissible event preserves holds after
  every sequence of admissible events.
\<close>

locale preserved =
  fixes step :: "'e \<Rightarrow> 's \<Rightarrow> 's"
    and admissible :: "'e \<Rightarrow> bool"
    and inv :: "'s \<Rightarrow> bool"
  assumes step_inv: "admissible e \<Longrightarrow> inv s \<Longrightarrow> inv (step e s)"
begin

lemma fold_inv: "list_all admissible es \<Longrightarrow> inv s \<Longrightarrow> inv (fold step es s)"
  by (induction es arbitrary: s) (simp_all add: step_inv)

end

end
