(* ===== verification/Json.thy ===== *)
theory Json
  imports Prelude
begin

text \<open>
  The shape of \<open>serde_json::Value\<close> and the accessors the program calls, as that crate documents
  them: a number is a non-negative 64-bit integer, a negative 64-bit integer, or a float (kept as
  its printed text, which is all the program can observe of it); an object maps each key to one
  value. \<open>json_get\<close> is \<open>Value::get\<close> with a string key, \<open>None\<close> on anything but an object.
\<close>

datatype json_number = PosInt nat | NegInt int | Float string

datatype json =
    JNull
  | JBool bool
  | JNumber json_number
  | JString string
  | JArray "json list"
  | JObject "(string \<times> json) list"

fun json_get :: "json \<Rightarrow> string \<Rightarrow> json option" where
  "json_get (JObject m) k = map_of m k"
| "json_get _ k = None"

fun as_str :: "json \<Rightarrow> string option" where
  "as_str (JString s) = Some s"
| "as_str _ = None"

fun as_bool :: "json \<Rightarrow> bool option" where
  "as_bool (JBool b) = Some b"
| "as_bool _ = None"

fun as_array :: "json \<Rightarrow> json list option" where
  "as_array (JArray xs) = Some xs"
| "as_array _ = None"

fun as_object :: "json \<Rightarrow> (string \<times> json) list option" where
  "as_object (JObject m) = Some m"
| "as_object _ = None"

fun number_as_i64 :: "json_number \<Rightarrow> int option" where
  "number_as_i64 (PosInt n) = (if int n \<le> i64_max then Some (int n) else None)"
| "number_as_i64 (NegInt i) = checked_i64 i"
| "number_as_i64 (Float _) = None"

fun number_as_u64 :: "json_number \<Rightarrow> nat option" where
  "number_as_u64 (PosInt n) = (if int n \<le> u64_max then Some n else None)"
| "number_as_u64 _ = None"

fun as_u64 :: "json \<Rightarrow> nat option" where
  "as_u64 (JNumber n) = number_as_u64 n"
| "as_u64 _ = None"

fun number_to_string :: "json_number \<Rightarrow> string" where
  "number_to_string (PosInt n) = nat_to_dec n"
| "number_to_string (NegInt i) = int_to_dec i"
| "number_to_string (Float s) = s"

definition get_str :: "json \<Rightarrow> string \<Rightarrow> string option" where
  "get_str v k = Option.bind (json_get v k) as_str"

definition get_bool :: "json \<Rightarrow> string \<Rightarrow> bool option" where
  "get_bool v k = Option.bind (json_get v k) as_bool"

definition get_array :: "json \<Rightarrow> string \<Rightarrow> json list option" where
  "get_array v k = Option.bind (json_get v k) as_array"

text \<open>\<open>Map::remove\<close>: the removed value and the rest of the object.\<close>

definition object_remove ::
  "(string \<times> json) list \<Rightarrow> string \<Rightarrow> json option \<times> (string \<times> json) list" where
  "object_remove m k = (map_of m k, filter (\<lambda>(k', _). k' \<noteq> k) m)"

text \<open>
  \<open>fn integer\<close> of transaction.rs, dex.rs and horizon_gateway.rs: an \<open>i64\<close> from a JSON integer or
  from decimal text. \<open>fn text\<close> of the same files is \<open>get_str\<close>.
\<close>

fun integer_value :: "json option \<Rightarrow> int option" where
  "integer_value (Some (JNumber n)) = number_as_i64 n"
| "integer_value (Some (JString s)) = parse_i64 s"
| "integer_value _ = None"

lemma number_as_i64_range: "number_as_i64 n = Some i \<Longrightarrow> in_i64 i"
  by (cases n) (auto simp: checked_i64_def arith_defs split: if_splits)

lemma parse_i64_range: "parse_i64 s = Some i \<Longrightarrow> in_i64 i"
  by (auto simp: parse_i64_def checked_i64_def Option.bind_eq_Some_conv
      split: if_splits)

lemma integer_value_range: "integer_value v = Some i \<Longrightarrow> in_i64 i"
  by (induction v rule: integer_value.induct) (auto dest: number_as_i64_range parse_i64_range)

lemma map_of_object_remove [simp]:
  "map_of (snd (object_remove m k)) k' = (if k' = k then None else map_of m k')"
  by (induction m) (auto simp: object_remove_def)

end
