(* ===== verification/Amount.thy ===== *)
theory Amount
  imports Json
begin

text \<open>
  Stroop amounts of transaction.rs: seven-decimal text to \<open>i64\<close> and back, balances and sequence
  numbers read from Horizon JSON, the reserve an account must keep.
\<close>

definition stroops_per_xlm :: int where
  "stroops_per_xlm = 10000000"

text \<open>The loop \<open>for _ in fraction.len()..7 { v = v.checked_mul(10)? }\<close>.\<close>

fun scale_up :: "nat \<Rightarrow> int \<Rightarrow> int option" where
  "scale_up 0 v = Some v"
| "scale_up (Suc n) v = (case checked_mul v 10 of None \<Rightarrow> None | Some w \<Rightarrow> scale_up n w)"

definition parse_fraction :: "string option \<Rightarrow> unit + int" where
  "parse_fraction f =
     (case f of
        None \<Rightarrow> Inr 0
      | Some fraction \<Rightarrow>
          (if length fraction > 7 \<or> \<not> all_digits fraction then Inl ()
           else if fraction = [] then Inr 0
           else (case parse_i64 fraction of
                   None \<Rightarrow> Inl ()
                 | Some v \<Rightarrow> ok_or () (scale_up (7 - length fraction) v))))"

definition parse_stroops :: "string \<Rightarrow> bool \<Rightarrow> unit + int" where
  "parse_stroops raw require_positive =
     (let value = trim raw
      in if value = [] \<or> starts_with ''-'' value \<or> starts_with ''+'' value then Inl ()
         else (let parts = split_on (CHR ''.'') value;
                   whole = hd parts
               in if length parts > 2 \<or> whole = [] \<or> \<not> all_digits whole then Inl ()
                  else (case parse_i64 whole of
                          None \<Rightarrow> Inl ()
                        | Some w \<Rightarrow>
                            and_then (parse_fraction (if length parts = 2 then Some (parts ! 1) else None))
                              (\<lambda>f. case Option.bind (checked_mul w stroops_per_xlm) (\<lambda>v. checked_add v f) of
                                     None \<Rightarrow> Inl ()
                                   | Some stroops \<Rightarrow>
                                       if require_positive \<and> stroops \<le> 0 then Inl () else Inr stroops))))"

definition pad7 :: "nat \<Rightarrow> string" where
  "pad7 n = replicate (7 - length (nat_to_dec n)) (CHR ''0'') @ nat_to_dec n"

definition format_stroops :: "int \<Rightarrow> string" where
  "format_stroops value =
     (let whole = value sdiv stroops_per_xlm; fraction = value smod stroops_per_xlm
      in if fraction = 0 then int_to_dec whole
         else int_to_dec whole @ ''.'' @ trim_end_matches (CHR ''0'') (pad7 (nat \<bar>fraction\<bar>)))"

definition parse_positive_stroops :: "string \<Rightarrow> int result" where
  "parse_positive_stroops value =
     map_err (\<lambda>_. ''Amount must be greater than zero with at most 7 decimal places'')
       (parse_stroops value True)"

definition balance_stroops :: "json \<Rightarrow> string \<Rightarrow> int result" where
  "balance_stroops balance field =
     (let value = (case get_str balance field of Some s \<Rightarrow> s | None \<Rightarrow> ''0'')
      in map_err (\<lambda>_. ''Horizon returned invalid '' @ field @ '': '' @ value)
           (parse_stroops value False))"

definition account_sequence :: "json \<Rightarrow> int result" where
  "account_sequence account =
     ok_or ''Horizon returned invalid account sequence''
       (Option.bind (get_str account ''sequence'') parse_i64)"

definition minimum_balance_stroops :: "json \<Rightarrow> int \<Rightarrow> int result" where
  "minimum_balance_stroops account base_reserve =
     (let count = (\<lambda>k. case integer_value (json_get account k) of Some n \<Rightarrow> n | None \<Rightarrow> 0);
          units = max 0 (saturating_sub
                     (saturating_add (saturating_add 2 (count ''subentry_count'')) (count ''num_sponsoring''))
                     (count ''num_sponsored''))
      in ok_or ''minimum balance overflow'' (checked_mul units base_reserve))"

section \<open>Bounds of parsed amounts\<close>

lemma scale_up_Some: "scale_up n v = Some w \<Longrightarrow> w = v * 10 ^ n"
  by (induction n arbitrary: v) (fastforce simp: result_simps algebra_simps split: option.splits)+

lemma scale_up_total:
  "0 \<le> v \<Longrightarrow> v * 10 ^ n \<le> i64_max \<Longrightarrow> scale_up n v = Some (v * 10 ^ n)"
proof (induction n arbitrary: v)
  case 0
  then show ?case by simp
next
  case (Suc n)
  have "v * 10 \<le> v * 10 * 10 ^ n"
    using Suc.prems(1) mult_left_mono [of 1 "10 ^ n" "v * 10"] by simp
  also have "\<dots> \<le> i64_max" using Suc.prems(2) by (simp add: algebra_simps)
  finally have "checked_mul v 10 = Some (v * 10)"
    using Suc.prems(1) by (simp add: result_simps arith_defs)
  moreover from Suc have "scale_up n (v * 10) = Some (v * 10 * 10 ^ n)"
    by (intro Suc.IH) (auto simp: algebra_simps)
  ultimately show ?case by (simp add: algebra_simps)
qed

lemma parse_i64_digits:
  assumes "all_digits s" "s \<noteq> []"
  shows "parse_i64 s = checked_i64 (int (dec_val s))"
proof -
  obtain c r where s: "s = c # r" using assms(2) by (cases s) auto
  with assms(1) have "is_ascii_digit c" by (simp add: all_digits_def)
  then have "c \<noteq> CHR ''-''" "c \<noteq> CHR ''+''" by (auto simp: is_ascii_digit_def)
  with assms s show ?thesis by (simp add: parse_i64_def parse_digits_def)
qed

lemma parse_fraction_Inr:
  assumes "parse_fraction f = Inr v"
  shows "0 \<le> v" and "v < stroops_per_xlm"
proof -
  have "0 \<le> v \<and> v < stroops_per_xlm"
  proof (cases "f = None \<or> f = Some []")
    case True
    with assms show ?thesis
      by (auto simp: parse_fraction_def stroops_per_xlm_def split: option.splits if_splits)
  next
    case False
    then obtain t where f: "f = Some t" "t \<noteq> []" by auto
    with assms have len: "length t \<le> 7" and digits: "all_digits t"
      by (auto simp: parse_fraction_def split: if_splits)
    with assms f obtain n where n: "parse_i64 t = Some n" "scale_up (7 - length t) n = Some v"
      by (auto simp: parse_fraction_def split: if_splits option.splits)
    with f digits have "n = int (dec_val t)"
      by (auto simp: parse_i64_digits checked_i64_def split: if_splits)
    with n have v: "v = int (dec_val t) * 10 ^ (7 - length t)" by (auto dest: scale_up_Some)
    have "int (dec_val t) < 10 ^ length t" using dec_val_less [OF digits]
      by (metis of_nat_less_iff of_nat_numeral of_nat_power)
    then have "v < 10 ^ length t * 10 ^ (7 - length t)"
      unfolding v by (intro mult_strict_right_mono) auto
    also have "\<dots> = stroops_per_xlm"
      using len by (simp add: power_add [symmetric] stroops_per_xlm_def)
    finally show ?thesis using v by simp
  qed
  then show "0 \<le> v" and "v < stroops_per_xlm" by auto
qed

lemma split_on_nonempty [simp]: "split_on c s \<noteq> []"
  by (induction s) (auto split: list.splits)

lemma split_on_one: "split_on c s = [a] \<Longrightarrow> s = a"
  by (induction s arbitrary: a) (auto split: list.splits if_splits)

lemma split_on_two: "split_on c s = [a, b] \<Longrightarrow> s = a @ c # b"
proof (induction s arbitrary: a)
  case (Cons x xs)
  show ?case
  proof (cases "x = c")
    case True
    with Cons.prems show ?thesis by (auto dest: split_on_one)
  next
    case False
    with Cons.prems obtain p where "split_on c xs = [p, b]" "a = x # p"
      by (auto split: list.splits)
    with Cons.IH show ?thesis by simp
  qed
qed simp

text \<open>The stroops that digits before and after the point denote.\<close>

definition decimal_value :: "string \<Rightarrow> string \<Rightarrow> int" where
  "decimal_value w f = int (dec_val w) * stroops_per_xlm + int (dec_val f) * 10 ^ (7 - length f)"

lemma digits_not_point: "all_digits w \<Longrightarrow> CHR ''.'' \<notin> set w"
  by (auto simp: all_digits_def list_all_iff is_ascii_digit_def)

lemma digits_not_sign:
  "all_digits w \<Longrightarrow> w \<noteq> [] \<Longrightarrow> \<not> starts_with ''-'' (w @ t) \<and> \<not> starts_with ''+'' (w @ t)"
  by (cases w) (auto simp: all_digits_def starts_with_def is_ascii_digit_def)

lemma dec_val_nonneg_zero: "all_digits f \<Longrightarrow> length f \<le> 7 \<Longrightarrow>
    int (dec_val f) * 10 ^ (7 - length f) < stroops_per_xlm"
proof -
  assume f: "all_digits f" "length f \<le> 7"
  have "int (dec_val f) < 10 ^ length f"
    using dec_val_less [OF f(1)] by (metis of_nat_less_iff of_nat_numeral of_nat_power)
  then have "int (dec_val f) * 10 ^ (7 - length f) < 10 ^ length f * 10 ^ (7 - length f)"
    by (intro mult_strict_right_mono) auto
  also have "\<dots> = stroops_per_xlm"
    using f(2) by (simp add: power_add [symmetric] stroops_per_xlm_def)
  finally show ?thesis .
qed

lemma parse_fraction_digits:
  assumes "all_digits f" "length f \<le> 7"
  shows "parse_fraction (Some f) = Inr (int (dec_val f) * 10 ^ (7 - length f))"
proof (cases "f = []")
  case False
  let ?v = "int (dec_val f) * 10 ^ (7 - length f)"
  have v: "?v < stroops_per_xlm" using assms by (rule dec_val_nonneg_zero)
  then have le: "?v \<le> i64_max" by (simp add: stroops_per_xlm_def arith_defs)
  have "int (dec_val f) \<le> ?v"
    using mult_left_mono [of 1 "10 ^ (7 - length f)" "int (dec_val f)"] by simp
  with le have "parse_i64 f = Some (int (dec_val f))"
    using assms False by (simp add: parse_i64_digits checked_i64_def arith_defs)
  with False assms le show ?thesis
    by (simp add: parse_fraction_def scale_up_total)
qed (simp add: parse_fraction_def)

lemma parse_fraction_InrD:
  "parse_fraction (Some f) = Inr v \<Longrightarrow> all_digits f \<and> length f \<le> 7"
  by (auto simp: parse_fraction_def split: if_splits)

lemma whole_bound: "0 \<le> f \<Longrightarrow> int n * stroops_per_xlm + f \<le> i64_max \<Longrightarrow> int n \<le> i64_max"
  by (simp add: stroops_per_xlm_def arith_defs)

text \<open>The digits after the whole part, once white space is gone.\<close>

definition amount_text :: "string \<Rightarrow> string \<Rightarrow> string \<Rightarrow> bool" where
  "amount_text s w f \<longleftrightarrow> w \<noteq> [] \<and> all_digits w \<and> all_digits f \<and> length f \<le> 7 \<and>
     (trim s = w \<and> f = [] \<or> trim s = w @ CHR ''.'' # f)"

lemma parse_stroops_accepts:
  assumes "amount_text s w f"
  shows "parse_stroops s p =
    (if decimal_value w f \<le> i64_max \<and> (p \<longrightarrow> 0 < decimal_value w f) then Inr (decimal_value w f) else Inl ())"
proof -
  let ?fv = "int (dec_val f) * 10 ^ (7 - length f)"
  from assms have w: "w \<noteq> []" "all_digits w" and f: "all_digits f" "length f \<le> 7"
    by (auto simp: amount_text_def)
  have fv: "0 \<le> ?fv" by simp
  have nopoint: "CHR ''.'' \<notin> set w" "CHR ''.'' \<notin> set f"
    using w f by (auto dest: digits_not_point)
  define frac where "frac = (if length (split_on (CHR ''.'') (trim s)) = 2
     then Some (split_on (CHR ''.'') (trim s) ! 1) else None)"
  have parts: "split_on (CHR ''.'') (trim s) = [w] \<and> f = [] \<or> split_on (CHR ''.'') (trim s) = [w, f]"
    using assms nopoint by (auto simp: amount_text_def split_on_none split_on_append)
  have none: "parse_fraction None = Inr 0" by (simp add: parse_fraction_def)
  have hd: "hd (split_on (CHR ''.'') (trim s)) = w"
    and len: "length (split_on (CHR ''.'') (trim s)) \<le> 2"
    and frac: "parse_fraction frac = Inr ?fv"
    using parts none parse_fraction_digits [OF f] by (auto simp: frac_def)
  have sign: "trim s \<noteq> []" "\<not> starts_with ''-'' (trim s)" "\<not> starts_with ''+'' (trim s)"
    using assms digits_not_sign [of w] digits_not_sign [of w "[]"] by (auto simp: amount_text_def)
  have parse_w: "parse_i64 w = checked_i64 (int (dec_val w))" using w by (simp add: parse_i64_digits)
  have body: "parse_stroops s p = (case parse_i64 w of None \<Rightarrow> Inl () | Some n \<Rightarrow>
      (case Option.bind (checked_mul n stroops_per_xlm) (\<lambda>v. checked_add v ?fv) of
         None \<Rightarrow> Inl () | Some t \<Rightarrow> if p \<and> t \<le> 0 then Inl () else Inr t))"
    unfolding parse_stroops_def Let_def frac_def [symmetric]
    using sign hd len frac w by (simp add: not_less split: option.split)
  define W where "W = int (dec_val w) * stroops_per_xlm"
  have W: "0 \<le> W" by (simp add: W_def stroops_per_xlm_def)
  have val: "decimal_value w f = W + ?fv" by (simp add: decimal_value_def W_def)
  show ?thesis
  proof (cases "W + ?fv \<le> i64_max")
    case True
    then have "int (dec_val w) \<le> i64_max"
      using whole_bound [OF fv] by (simp add: W_def)
    then have "parse_i64 w = Some (int (dec_val w))"
      by (simp add: parse_w checked_i64_def in_i64_def i64_min_def)
    moreover have "W \<le> i64_max" using True fv by linarith
    then have "checked_mul (int (dec_val w)) stroops_per_xlm = Some W"
      using W by (simp add: checked_mul_Some W_def [symmetric] in_i64_def i64_min_def)
    moreover have "in_i64 (W + ?fv)" using True fv W unfolding in_i64_def i64_min_def by linarith
    then have "checked_add W ?fv = Some (W + ?fv)" by (simp add: checked_add_Some)
    ultimately show ?thesis unfolding body val using True by simp
  next
    case False
    then have "checked_add W ?fv = None" by (simp add: checked_add_None in_i64_def)
    then have "Option.bind (checked_mul (int (dec_val w)) stroops_per_xlm) (\<lambda>v. checked_add v ?fv) = None"
      by (auto simp: checked_mul_def checked_i64_def W_def)
    then show ?thesis
      unfolding body val parse_w using False by (simp add: checked_i64_def)
  qed
qed

lemma parse_stroops_amount_text:
  assumes "parse_stroops s p = Inr v"
  shows "\<exists>w f. amount_text s w f"
proof -
  let ?parts = "split_on (CHR ''.'') (trim s)"
  from assms have len: "length ?parts \<le> 2" and w: "hd ?parts \<noteq> []" "all_digits (hd ?parts)"
    and frac: "\<exists>u. parse_fraction (if length ?parts = 2 then Some (?parts ! 1) else None) = Inr u"
    by (auto simp: parse_stroops_def Let_def result_simps split: if_splits option.splits)
  from len consider a where "?parts = [a]" | a b where "?parts = [a, b]"
    by (cases ?parts; cases "tl ?parts") auto
  then show ?thesis
  proof cases
    case 1
    with w have "amount_text s a []"
      by (auto simp: amount_text_def all_digits_def dest: split_on_one)
    then show ?thesis by blast
  next
    case 2
    with frac have "all_digits b \<and> length b \<le> 7" by (auto dest: parse_fraction_InrD)
    with 2 w have "amount_text s a b" by (auto simp: amount_text_def dest: split_on_two)
    then show ?thesis by blast
  qed
qed

text \<open>C28. \<open>parse_stroops\<close> accepts exactly the unsigned decimals with at least one digit before
  the point and at most seven after it, whose value in stroops fits an \<open>i64\<close> (and is positive when
  that is required); the result is that value, with no rounding and no overflow.\<close>

theorem parse_stroops_iff:
  "parse_stroops s p = Inr v \<longleftrightarrow>
     (\<exists>w f. amount_text s w f \<and> v = decimal_value w f \<and> v \<le> i64_max \<and> (p \<longrightarrow> 0 < v))"
proof
  assume v: "parse_stroops s p = Inr v"
  then obtain w f where wf: "amount_text s w f" by (blast dest: parse_stroops_amount_text)
  with v show "\<exists>w f. amount_text s w f \<and> v = decimal_value w f \<and> v \<le> i64_max \<and> (p \<longrightarrow> 0 < v)"
    unfolding parse_stroops_accepts [OF wf] by (auto split: if_splits)
next
  assume "\<exists>w f. amount_text s w f \<and> v = decimal_value w f \<and> v \<le> i64_max \<and> (p \<longrightarrow> 0 < v)"
  then show "parse_stroops s p = Inr v" by (auto simp: parse_stroops_accepts)
qed

lemma parse_stroops_range:
  assumes "parse_stroops s p = Inr v"
  shows "0 \<le> v \<and> v \<le> i64_max \<and> (p \<longrightarrow> 0 < v)"
proof -
  from parse_stroops_amount_text [OF assms] obtain w f where wf: "amount_text s w f" by blast
  have "0 \<le> decimal_value w f" by (simp add: decimal_value_def stroops_per_xlm_def)
  with assms show ?thesis
    unfolding parse_stroops_accepts [OF wf] by (auto split: if_splits)
qed

section \<open>Printing and parsing back\<close>

lemma pad7_digits: "n < 10 ^ 7 \<Longrightarrow> all_digits (pad7 n) \<and> length (pad7 n) = 7 \<and> dec_val (pad7 n) = n"
  using length_nat_to_dec_le [of n 7]
  by (auto simp: pad7_def text_simps) (simp add: all_digits_def list_all_iff is_ascii_digit_def)

lemma int_to_dec_nonneg: "0 \<le> v \<Longrightarrow> int_to_dec v = nat_to_dec (nat v)"
  by (simp add: int_to_dec_def)

lemma trimmed_fraction:
  assumes "n < 10 ^ 7"
  defines "f \<equiv> trim_end_matches (CHR ''0'') (pad7 n)"
  shows "all_digits f" "length f \<le> 7" "int (dec_val f) * 10 ^ (7 - length f) = int n"
proof -
  from pad7_digits [OF assms(1)]
  have p: "all_digits (pad7 n)" "length (pad7 n) = 7" "dec_val (pad7 n) = n" by auto
  have d: "pad7 n = f @ replicate (7 - length f) (CHR ''0'')"
    unfolding f_def using trim_end_matches_decomp [of "pad7 n" "CHR ''0''"] p(2) by simp
  show "all_digits f" using p(1) d by (metis all_digits_append)
  show "length f \<le> 7" using p(2) d by (metis length_append le_add1)
  have "n = dec_val f * 10 ^ (7 - length f)"
    using p(3) d by (metis dec_val_append dec_val_zeros length_replicate add_0_right)
  then show "int (dec_val f) * 10 ^ (7 - length f) = int n" by simp
qed

lemma format_stroops_text:
  assumes "0 \<le> v"
  shows "\<exists>w f. amount_text (format_stroops v) w f \<and> decimal_value w f = v"
proof -
  define w where "w = nat_to_dec (nat (v div stroops_per_xlm))"
  define n where "n = nat (v mod stroops_per_xlm)"
  define f where "f = (if n = 0 then [] else trim_end_matches (CHR ''0'') (pad7 n))"
  have n: "n < 10 ^ 7" by (simp add: n_def stroops_per_xlm_def nat_less_iff)
  have sdiv: "v sdiv stroops_per_xlm = v div stroops_per_xlm"
    and smod: "v smod stroops_per_xlm = v mod stroops_per_xlm"
    using assms by (simp_all add: signed_divide_int_def signed_modulo_int_def stroops_per_xlm_def
        minus_mult_div_eq_mod [symmetric] sgn_if)
  have f: "all_digits f" "length f \<le> 7" "int (dec_val f) * 10 ^ (7 - length f) = int n"
    using trimmed_fraction [OF n] by (auto simp: f_def all_digits_def)
  have fmt: "format_stroops v = (if n = 0 then w else w @ CHR ''.'' # f)"
    using assms
    unfolding format_stroops_def Let_def sdiv smod
    by (auto simp: w_def f_def n_def int_to_dec_nonneg stroops_per_xlm_def pos_imp_zdiv_nonneg_iff)
  have plain: "list_all plain_char (format_stroops v)"
    using f(1) all_digits_nat_to_dec [of "nat (v div stroops_per_xlm)"] unfolding fmt
    by (auto simp: all_digits_def list_all_iff plain_digit w_def)
       (simp_all add: plain_char_def is_ascii_byte_def is_ascii_ws_def)
  have "decimal_value w f = v div stroops_per_xlm * stroops_per_xlm + v mod stroops_per_xlm"
    using assms by (simp add: decimal_value_def w_def f(3) n_def dec_val_nat_to_dec
        stroops_per_xlm_def pos_imp_zdiv_nonneg_iff)
  then have "decimal_value w f = v" by simp
  moreover have "amount_text (format_stroops v) w f"
    using f plain by (auto simp: amount_text_def fmt w_def trim_plain all_digits_nat_to_dec f_def)
  ultimately show ?thesis by blast
qed

text \<open>
  The interface the rest of the client relies on: amounts are printed and read back without loss,
  and what is read is a non-negative \<open>i64\<close>.
\<close>

locale decimal_codec =
  fixes parse :: "string \<Rightarrow> bool \<Rightarrow> unit + int"
    and print :: "int \<Rightarrow> string"
  assumes parse_print: "0 \<le> v \<Longrightarrow> v \<le> i64_max \<Longrightarrow> parse (print v) False = Inr v"
    and parse_range: "parse s p = Inr v \<Longrightarrow> 0 \<le> v \<and> v \<le> i64_max"
    and parse_positive: "parse s True = Inr v \<longleftrightarrow> parse s False = Inr v \<and> 0 < v"
begin

definition normalise :: "string \<Rightarrow> unit + string" where
  "normalise s = map_ok print (parse s False)"

lemma print_inj: "\<lbrakk>0 \<le> u; u \<le> i64_max; 0 \<le> v; v \<le> i64_max; print u = print v\<rbrakk> \<Longrightarrow> u = v"
  using parse_print by (metis sum.inject(2))

lemma normalise_parse: "normalise s = Inr t \<Longrightarrow> parse t False = parse s False"
  using parse_print parse_range by (auto simp: normalise_def result_simps)

lemma normalise_idem: "normalise s = Inr t \<Longrightarrow> normalise t = Inr t"
  using normalise_parse [of s t] by (simp add: normalise_def)

lemma parse_print_positive: "0 < v \<Longrightarrow> v \<le> i64_max \<Longrightarrow> parse (print v) True = Inr v"
  by (simp add: parse_positive parse_print)

end

lemma parse_format_stroops_aux:
  "0 \<le> v \<Longrightarrow> v \<le> i64_max \<Longrightarrow> parse_stroops (format_stroops v) False = Inr v"
  using format_stroops_text [of v] by (auto simp: parse_stroops_accepts)

lemma parse_stroops_positive:
  "parse_stroops s True = Inr v \<longleftrightarrow> parse_stroops s False = Inr v \<and> 0 < v"
proof -
  have "\<exists>w f. amount_text s w f" if "parse_stroops s True = Inr v \<or> parse_stroops s False = Inr v"
    using that parse_stroops_amount_text by blast
  then show ?thesis by (auto simp: parse_stroops_accepts split: if_splits)
qed

interpretation stroops: decimal_codec parse_stroops format_stroops
  by unfold_locales
    (auto simp: parse_format_stroops_aux parse_stroops_positive dest: parse_stroops_range)

text \<open>Printing an amount and parsing it back gives the amount, for every \<open>i64\<close> that is not
  negative; the printed text never loses a stroop.\<close>

theorem format_parse_roundtrip:
  assumes "0 \<le> v" "v \<le> i64_max"
  shows "parse_stroops (format_stroops v) False = Inr v"
  using assms by (rule stroops.parse_print)

lemma balance_stroops_range: "balance_stroops b k = Inr v \<Longrightarrow> 0 \<le> v \<and> v \<le> i64_max"
  by (auto simp: balance_stroops_def Let_def result_simps dest: stroops.parse_range split: option.splits)

lemma minimum_balance_range:
  "minimum_balance_stroops a r = Inr v \<Longrightarrow> 0 \<le> r \<Longrightarrow> 0 \<le> v \<and> v \<le> i64_max"
  by (auto simp: minimum_balance_stroops_def Let_def result_simps in_i64_def)

theorem format_parse_roundtrip_witness:
  "format_stroops 123400000 = ''12.34'' \<and> parse_stroops (format_stroops 123400000) False = Inr 123400000"
proof
  show "format_stroops 123400000 = ''12.34''"
    by (simp add: format_stroops_def pad7_def stroops_per_xlm_def int_to_dec_def nat_to_dec.simps
        digit_char_def trim_end_matches_def Let_def signed_divide_int_def signed_modulo_int_def)
  show "parse_stroops (format_stroops 123400000) False = Inr 123400000"
    by (rule format_parse_roundtrip) (simp_all add: arith_defs)
qed

theorem parse_stroops_iff_witness: "parse_stroops ''12.5'' True = Inr 125000000"
proof -
  have "amount_text ''12.5'' ''12'' ''5''"
    by (simp add: amount_text_def all_digits_def is_ascii_digit_def trim_def is_ascii_ws_def
        is_ws2_def is_ws3_def Let_def)
  moreover have "decimal_value ''12'' ''5'' = 125000000"
    by (simp add: decimal_value_def dec_val_def digit_val_def stroops_per_xlm_def)
  ultimately show ?thesis
    by (subst parse_stroops_iff) (intro exI [of _ "''12''"] exI [of _ "''5''"], simp add: arith_defs)
qed

end
