(* ===== verification/Stellar.thy ===== *)
theory Stellar
  imports Json
begin

text \<open>
  The third-party vocabulary: the shapes of the \<open>stellar_xdr\<close> types the program builds and matches
  on, and a record of the third-party functions it calls (StrKey text, Ed25519, SHA-256, XDR
  encoding, base64). Those functions have no definition here: every model that calls one takes a
  \<open>stellar_lib\<close>, and what the program relies on is a named hypothesis on it.
  An XDR type the program only carries along is opaque binary data.
\<close>

section \<open>XDR types\<close>

datatype muxed_account = MuxEd25519 bytes | MuxMuxedEd25519 nat bytes

datatype asset =
    AssetNative
  | AssetCreditAlphanum4 bytes bytes
  | AssetCreditAlphanum12 bytes bytes

datatype change_trust_asset =
    CtNative
  | CtCreditAlphanum4 bytes bytes
  | CtCreditAlphanum12 bytes bytes
  | CtPoolShare bytes

record price =
  price_n :: int
  price_d :: int

datatype operation_type =
    OtCreateAccount | OtPayment | OtPathPaymentStrictReceive | OtManageSellOffer
  | OtCreatePassiveSellOffer | OtSetOptions | OtChangeTrust | OtAllowTrust | OtAccountMerge
  | OtInflation | OtManageData | OtBumpSequence | OtManageBuyOffer | OtPathPaymentStrictSend
  | OtCreateClaimableBalance | OtClaimClaimableBalance | OtBeginSponsoringFutureReserves
  | OtEndSponsoringFutureReserves | OtRevokeSponsorship | OtClawback
  | OtClawbackClaimableBalance | OtSetTrustLineFlags | OtLiquidityPoolDeposit
  | OtLiquidityPoolWithdraw | OtInvokeHostFunction | OtExtendFootprintTtl | OtRestoreFootprint

text \<open>
  Soroban values and addresses, with the components the program reads; 256-bit values, contract
  instances and ledger keys are opaque.
\<close>

datatype sc_address = ScAccount bytes | ScContractAddress bytes | ScOtherAddress bytes

datatype sc_error = ScErrorContract int | ScErrorOther bytes

datatype sc_val =
    ScVoid
  | ScBool bool
  | ScError sc_error
  | ScU32 int
  | ScI32 int
  | ScU64 int
  | ScI64 int
  | ScTimepoint int
  | ScDuration int
  | ScU128 int int
  | ScI128 int int
  | ScU256 bytes
  | ScI256 bytes
  | ScBytes bytes
  | ScString bytes
  | ScSymbol bytes
  | ScVec "sc_val list option"
  | ScMap "(sc_val \<times> sc_val) list option"
  | ScAddressVal sc_address
  | ScOther bytes

text \<open>The call of a contract function, what an authorization entry allows, and the entries.\<close>

record invoke_contract_args =
  ic_contract_address :: sc_address
  ic_function_name :: bytes
  ic_args :: "sc_val list"

datatype authorized_function = AuthorizedContractFn invoke_contract_args | AuthorizedOther bytes

datatype soroban_invocation =
  Invocation (invocation_function: authorized_function) (sub_invocations: "soroban_invocation list")

record soroban_address_credentials =
  sac_address :: sc_address
  sac_nonce :: int
  sac_signature_expiration_ledger :: int
  sac_signature :: sc_val

datatype soroban_credentials =
    CredSourceAccount
  | CredAddress soroban_address_credentials
  | CredAddressV2 soroban_address_credentials
  | CredAddressWithDelegates soroban_address_credentials bytes

record soroban_entry =
  sae_credentials :: soroban_credentials
  sae_root_invocation :: soroban_invocation

datatype host_function = InvokeContract invoke_contract_args | OtherHostFunction bytes

record soroban_transaction_data =
  std_resource_fee :: int
  std_read_write :: "bytes list"
  std_archived_entries :: "nat list option"
  std_opaque :: bytes

datatype transaction_ext = TxExtV0 | TxExtV1 soroban_transaction_data

text \<open>
  Operation bodies: the ones the program builds have their fields, the others it recognises have
  opaque contents, and the rest is one constructor that carries its type and its contents.
\<close>

datatype operation_body =
    CreateAccountOp bytes int
  | PaymentOp muxed_account asset int
  | ManageSellOfferOp asset asset int price int
  | ManageBuyOfferOp asset asset int price int
  | ChangeTrustOp change_trust_asset int
  | ManageDataOp bytes "bytes option"
  | InvokeHostFunctionOp host_function "soroban_entry list"
  | BumpSequenceOp int
  | OtherOp operation_type bytes

fun body_discriminant :: "operation_body \<Rightarrow> operation_type" where
  "body_discriminant (CreateAccountOp _ _) = OtCreateAccount"
| "body_discriminant (PaymentOp _ _ _) = OtPayment"
| "body_discriminant (ManageSellOfferOp _ _ _ _ _) = OtManageSellOffer"
| "body_discriminant (ManageBuyOfferOp _ _ _ _ _) = OtManageBuyOffer"
| "body_discriminant (ChangeTrustOp _ _) = OtChangeTrust"
| "body_discriminant (ManageDataOp _ _) = OtManageData"
| "body_discriminant (InvokeHostFunctionOp _ _) = OtInvokeHostFunction"
| "body_discriminant (BumpSequenceOp _) = OtBumpSequence"
| "body_discriminant (OtherOp t _) = t"

record operation =
  op_source :: "muxed_account option"
  op_body :: operation_body

datatype signer_key =
    SignerEd25519 bytes
  | SignerPreAuthTx bytes
  | SignerHashX bytes
  | SignerEd25519SignedPayload bytes bytes

record time_bounds =
  min_time :: nat
  max_time :: nat

record preconditions_v2 =
  v2_time_bounds :: "time_bounds option"
  v2_extra_signers :: "signer_key list"
  v2_opaque :: bytes

datatype preconditions =
    PrecondNone
  | PrecondTime time_bounds
  | PrecondV2 preconditions_v2

datatype memo =
    MemoNone
  | MemoText bytes
  | MemoId nat
  | MemoHash bytes
  | MemoReturn bytes

record transaction =
  tx_source :: muxed_account
  tx_fee :: int
  tx_seq_num :: int
  tx_cond :: preconditions
  tx_memo :: memo
  tx_operations :: "operation list"
  tx_ext :: transaction_ext

record decorated_signature =
  sig_hint :: bytes
  sig_bytes :: bytes

datatype envelope =
    EnvTxV0 bytes "decorated_signature list"
  | EnvTx transaction "decorated_signature list"
  | EnvTxFeeBump bytes "decorated_signature list"

fun env_signatures :: "envelope \<Rightarrow> decorated_signature list" where
  "env_signatures (EnvTxV0 _ s) = s"
| "env_signatures (EnvTx _ s) = s"
| "env_signatures (EnvTxFeeBump _ s) = s"

fun with_signatures :: "envelope \<Rightarrow> decorated_signature list \<Rightarrow> envelope" where
  "with_signatures (EnvTxV0 t _) s = EnvTxV0 t s"
| "with_signatures (EnvTx t _) s = EnvTx t s"
| "with_signatures (EnvTxFeeBump t _) s = EnvTxFeeBump t s"

lemma env_signatures_with [simp]: "env_signatures (with_signatures e s) = s"
  by (cases e) auto

lemma with_signatures_with [simp]: "with_signatures (with_signatures e s) t = with_signatures e t"
  by (cases e) auto

lemma with_own_signatures [simp]: "with_signatures e (env_signatures e) = e"
  by (cases e) auto

lemma with_signatures_EnvTx [simp]: "with_signatures e s = EnvTx t u \<longleftrightarrow> u = s \<and> (\<exists>v. e = EnvTx t v)"
  by (cases e) auto

text \<open>The bounds of the XDR arrays: 20 signatures of at most 64 bytes, 100 operations.\<close>

definition max_signatures :: nat where "max_signatures = 20"
definition max_signature_bytes :: nat where "max_signature_bytes = 64"
definition max_operations_per_tx :: nat where "max_operations_per_tx = 100"

section \<open>Operation types are ordered by their XDR number\<close>

fun operation_type_code :: "operation_type \<Rightarrow> nat" where
  "operation_type_code OtCreateAccount = 0"
| "operation_type_code OtPayment = 1"
| "operation_type_code OtPathPaymentStrictReceive = 2"
| "operation_type_code OtManageSellOffer = 3"
| "operation_type_code OtCreatePassiveSellOffer = 4"
| "operation_type_code OtSetOptions = 5"
| "operation_type_code OtChangeTrust = 6"
| "operation_type_code OtAllowTrust = 7"
| "operation_type_code OtAccountMerge = 8"
| "operation_type_code OtInflation = 9"
| "operation_type_code OtManageData = 10"
| "operation_type_code OtBumpSequence = 11"
| "operation_type_code OtManageBuyOffer = 12"
| "operation_type_code OtPathPaymentStrictSend = 13"
| "operation_type_code OtCreateClaimableBalance = 14"
| "operation_type_code OtClaimClaimableBalance = 15"
| "operation_type_code OtBeginSponsoringFutureReserves = 16"
| "operation_type_code OtEndSponsoringFutureReserves = 17"
| "operation_type_code OtRevokeSponsorship = 18"
| "operation_type_code OtClawback = 19"
| "operation_type_code OtClawbackClaimableBalance = 20"
| "operation_type_code OtSetTrustLineFlags = 21"
| "operation_type_code OtLiquidityPoolDeposit = 22"
| "operation_type_code OtLiquidityPoolWithdraw = 23"
| "operation_type_code OtInvokeHostFunction = 24"
| "operation_type_code OtExtendFootprintTtl = 25"
| "operation_type_code OtRestoreFootprint = 26"

definition operation_types :: "operation_type list" where
  "operation_types =
     [OtCreateAccount, OtPayment, OtPathPaymentStrictReceive, OtManageSellOffer,
      OtCreatePassiveSellOffer, OtSetOptions, OtChangeTrust, OtAllowTrust, OtAccountMerge,
      OtInflation, OtManageData, OtBumpSequence, OtManageBuyOffer, OtPathPaymentStrictSend,
      OtCreateClaimableBalance, OtClaimClaimableBalance, OtBeginSponsoringFutureReserves,
      OtEndSponsoringFutureReserves, OtRevokeSponsorship, OtClawback,
      OtClawbackClaimableBalance, OtSetTrustLineFlags, OtLiquidityPoolDeposit,
      OtLiquidityPoolWithdraw, OtInvokeHostFunction, OtExtendFootprintTtl, OtRestoreFootprint]"

lemma operation_types_code: "operation_types ! operation_type_code a = a"
  by (cases a) (simp_all add: operation_types_def)

lemma operation_type_code_inj: "operation_type_code a = operation_type_code b \<Longrightarrow> a = b"
  by (metis operation_types_code)

instantiation operation_type :: linorder
begin

definition less_eq_operation_type :: "operation_type \<Rightarrow> operation_type \<Rightarrow> bool" where
  "less_eq_operation_type a b \<longleftrightarrow> operation_type_code a \<le> operation_type_code b"

definition less_operation_type :: "operation_type \<Rightarrow> operation_type \<Rightarrow> bool" where
  "less_operation_type a b \<longleftrightarrow> operation_type_code a < operation_type_code b"

instance
  by standard
    (auto simp: less_eq_operation_type_def less_operation_type_def intro: operation_type_code_inj)

end

section \<open>The third-party functions\<close>

datatype strkey = StrkeyPublicKeyEd25519 bytes | StrkeyContract bytes | StrkeyOther

record stellar_lib =
  strkey_from_string :: "string \<Rightarrow> strkey option"
  public_key_from_string :: "string \<Rightarrow> bytes option"
  public_key_to_string :: "bytes \<Rightarrow> string"
  private_key_from_string :: "string \<Rightarrow> bytes option"
  signer_key_from_string :: "string \<Rightarrow> signer_key option"
  signer_key_to_string :: "signer_key \<Rightarrow> string"
  muxed_from_string :: "string \<Rightarrow> muxed_account option"
  muxed_to_string :: "muxed_account \<Rightarrow> string"
  verifying_key_valid :: "bytes \<Rightarrow> bool"
  verify_strict :: "bytes \<Rightarrow> bytes \<Rightarrow> bytes \<Rightarrow> bool"
  verifying_key_of :: "bytes \<Rightarrow> bytes"
  ed25519_sign :: "bytes \<Rightarrow> bytes \<Rightarrow> bytes"
  sha256 :: "bytes \<Rightarrow> bytes"
  envelope_hash :: "envelope \<Rightarrow> bytes \<Rightarrow> string + bytes"
  envelope_to_xdr :: "envelope \<Rightarrow> string + bytes"
  envelope_from_xdr :: "bytes \<Rightarrow> nat \<Rightarrow> nat \<Rightarrow> string + envelope"
  base64_encode :: "bytes \<Rightarrow> string"
  base64_decode :: "string \<Rightarrow> bytes option"

text \<open>\<open>AccountId::from_str\<close> and its \<open>Display\<close> are the Ed25519 public-key StrKey.\<close>

definition account_id_from_string :: "stellar_lib \<Rightarrow> string \<Rightarrow> bytes option" where
  "account_id_from_string L s = public_key_from_string L s"

text \<open>
  What the program relies on: printed public keys parse back, parsed ones have 32 bytes and printed
  ones have no white space at their ends; the
  hash of an envelope is over its unsigned part; an Ed25519 signature made with a key verifies
  under it and has 64 bytes; signer keys parse back; XDR and base64 decode what they encode.
\<close>

definition public_key_codec :: "stellar_lib \<Rightarrow> bool" where
  "public_key_codec L \<longleftrightarrow>
     (\<forall>k. length k = 32 \<longrightarrow> public_key_from_string L (public_key_to_string L k) = Some k) \<and>
     (\<forall>s k. public_key_from_string L s = Some k \<longrightarrow> length k = 32)"

definition public_key_text_plain :: "stellar_lib \<Rightarrow> bool" where
  "public_key_text_plain L \<longleftrightarrow> (\<forall>k. trim (public_key_to_string L k) = public_key_to_string L k)"

definition hash_excludes_signatures :: "stellar_lib \<Rightarrow> bool" where
  "hash_excludes_signatures L \<longleftrightarrow>
     (\<forall>e s n. envelope_hash L (with_signatures e s) n = envelope_hash L e n)"

definition ed25519_correct :: "stellar_lib \<Rightarrow> bool" where
  "ed25519_correct L \<longleftrightarrow>
     (\<forall>sk m. length (verifying_key_of L sk) = 32 \<and> verifying_key_valid L (verifying_key_of L sk) \<and>
        length (ed25519_sign L sk m) = 64 \<and>
        verify_strict L (verifying_key_of L sk) m (ed25519_sign L sk m))"

definition signer_key_codec :: "stellar_lib \<Rightarrow> bool" where
  "signer_key_codec L \<longleftrightarrow> (\<forall>k. signer_key_from_string L (signer_key_to_string L k) = Some k)"

definition base64_codec :: "stellar_lib \<Rightarrow> bool" where
  "base64_codec L \<longleftrightarrow> (\<forall>b. base64_decode L (base64_encode L b) = Some b)"

lemma public_key_codecD:
  "public_key_codec L \<Longrightarrow> length k = 32 \<Longrightarrow> public_key_from_string L (public_key_to_string L k) = Some k"
  "public_key_codec L \<Longrightarrow> public_key_from_string L s = Some k \<Longrightarrow> length k = 32"
  by (auto simp: public_key_codec_def)

lemma hash_excludes_signaturesD:
  "hash_excludes_signatures L \<Longrightarrow> envelope_hash L (with_signatures e s) n = envelope_hash L e n"
  by (simp add: hash_excludes_signatures_def)

lemma ed25519_correctD:
  assumes "ed25519_correct L"
  shows "length (verifying_key_of L sk) = 32" "verifying_key_valid L (verifying_key_of L sk)"
    "length (ed25519_sign L sk m) = 64"
    "verify_strict L (verifying_key_of L sk) m (ed25519_sign L sk m)"
  using assms by (auto simp: ed25519_correct_def)

section \<open>A concrete instance for the examples\<close>

text \<open>
  The witnesses of the development run the model on this instance. It has none of the security of
  the real functions, but it satisfies every hypothesis above: key text is the key's bytes
  between two markers, a signature is the key's bytes padded to 64, and the hash of an envelope is the number of
  its operations.
\<close>

definition demo_key_text :: "bytes \<Rightarrow> string" where
  "demo_key_text k = CHR ''G'' # string_of_bytes k @ ''Z''"

definition demo_pad :: "nat \<Rightarrow> bytes \<Rightarrow> bytes" where
  "demo_pad n b = take n (b @ replicate n 0)"

definition demo_parse_key :: "string \<Rightarrow> bytes option" where
  "demo_parse_key s =
     (if s \<noteq> [] \<and> hd s = CHR ''G'' \<and> length s = 34 \<and> last s = CHR ''Z''
      then Some (bytes_of (butlast (tl s))) else None)"

definition demo_signer_key_text :: "signer_key \<Rightarrow> string" where
  "demo_signer_key_text k =
     (case k of
        SignerEd25519 b \<Rightarrow> demo_key_text b
      | SignerPreAuthTx b \<Rightarrow> CHR ''T'' # string_of_bytes b
      | SignerHashX b \<Rightarrow> CHR ''X'' # string_of_bytes b
      | SignerEd25519SignedPayload b p \<Rightarrow>
          CHR ''P'' # replicate (length b) (CHR ''1'') @ CHR ''0'' # string_of_bytes b @ string_of_bytes p)"

definition demo_parse_signer_key :: "string \<Rightarrow> signer_key option" where
  "demo_parse_signer_key s =
     (if s = [] then None
      else if hd s = CHR ''G'' then Some (SignerEd25519 (bytes_of (butlast (tl s))))
      else if hd s = CHR ''T'' then Some (SignerPreAuthTx (bytes_of (tl s)))
      else if hd s = CHR ''X'' then Some (SignerHashX (bytes_of (tl s)))
      else if hd s = CHR ''P'' then
        (let n = length (takeWhile (\<lambda>c. c = CHR ''1'') (tl s)); r = drop (Suc n) (tl s)
         in Some (SignerEd25519SignedPayload (bytes_of (take n r)) (bytes_of (drop n r))))
      else None)"

definition demo_hash :: "envelope \<Rightarrow> bytes \<Rightarrow> string + bytes" where
  "demo_hash e n =
     Inr (demo_pad 32 (case e of EnvTx t _ \<Rightarrow> [of_nat (length (tx_operations t))] | _ \<Rightarrow> []))"

definition demo_lib :: stellar_lib where
  "demo_lib = \<lparr>
     strkey_from_string = (\<lambda>s. map_option StrkeyPublicKeyEd25519 (demo_parse_key s)),
     public_key_from_string = demo_parse_key,
     public_key_to_string = demo_key_text,
     private_key_from_string = (\<lambda>s. if length s = 33 \<and> hd s = CHR ''S'' then Some (bytes_of (tl s)) else None),
     signer_key_from_string = demo_parse_signer_key,
     signer_key_to_string = demo_signer_key_text,
     muxed_from_string = (\<lambda>s. map_option MuxEd25519 (demo_parse_key s)),
     muxed_to_string = (\<lambda>m. case m of MuxEd25519 k \<Rightarrow> demo_key_text k | MuxMuxedEd25519 _ k \<Rightarrow> demo_key_text k),
     verifying_key_valid = (\<lambda>k. True),
     verify_strict = (\<lambda>k m s. s = demo_pad 64 k),
     verifying_key_of = demo_pad 32,
     ed25519_sign = (\<lambda>sk m. demo_pad 64 (demo_pad 32 sk)),
     sha256 = demo_pad 32,
     envelope_hash = demo_hash,
     envelope_to_xdr = (\<lambda>e. Inr []),
     envelope_from_xdr = (\<lambda>b depth len. Inl ''invalid''),
     base64_encode = string_of_bytes,
     base64_decode = (\<lambda>s. Some (bytes_of s)) \<rparr>"

lemma bytes_of_string_of [simp]: "bytes_of (string_of_bytes b) = b"
proof -
  have "of_char (char_of (unat w) :: char) = (w :: 8 word)" for w
  proof -
    have "unat w < 256"
      using unsigned_less [of w] by (simp only: len_bit0 len_num1) simp
    then have n: "(of_char (char_of (unat w) :: char) :: nat) = unat w" by simp
    have "of_char (char_of (unat w) :: char) = (of_nat (of_char (char_of (unat w) :: char)) :: 8 word)"
      by (simp only: of_nat_of_char)
    also have "\<dots> = w" unfolding n by simp
    finally show ?thesis .
  qed
  then show ?thesis by (induction b) (auto simp: bytes_of_def string_of_bytes_def)
qed

lemma length_string_of_bytes [simp]: "length (string_of_bytes b) = length b"
  by (simp add: string_of_bytes_def)

lemma length_demo_pad [simp]: "length (demo_pad n b) = n"
  by (simp add: demo_pad_def)

lemma demo_public_key_codec: "public_key_codec demo_lib"
  by (auto simp: public_key_codec_def demo_lib_def demo_parse_key_def demo_key_text_def split: if_splits)

lemma demo_public_key_text_plain: "public_key_text_plain demo_lib"
proof -
  have plain: "plain_char (CHR ''G'')" "plain_char (CHR ''Z'')"
    by (simp_all add: plain_char_def is_ascii_byte_def is_ascii_ws_def)
  have "trim (demo_key_text k) = demo_key_text k" for k
    using plain trim_start_plain [of "demo_key_text k"] trim_end_rev_plain [of "rev (demo_key_text k)"]
    by (simp add: trim_def demo_key_text_def)
  then show ?thesis by (simp add: public_key_text_plain_def demo_lib_def)
qed

lemma demo_hash_excludes_signatures: "hash_excludes_signatures demo_lib"
proof -
  have "demo_hash (with_signatures e s) n = demo_hash e n" for e s n
    by (cases e) (auto simp: demo_hash_def)
  then show ?thesis by (simp add: hash_excludes_signatures_def demo_lib_def)
qed

lemma demo_ed25519_correct: "ed25519_correct demo_lib"
  by (simp add: ed25519_correct_def demo_lib_def)

lemma demo_signer_key_codec: "signer_key_codec demo_lib"
proof -
  have "takeWhile (\<lambda>c. c = CHR ''1'') (replicate n (CHR ''1'') @ CHR ''0'' # s) = replicate n (CHR ''1'')"
    for n s by (induction n) auto
  then have "demo_parse_signer_key (demo_signer_key_text k) = Some k" for k
    by (cases k) (auto simp: demo_parse_signer_key_def demo_signer_key_text_def demo_key_text_def Let_def)
  then show ?thesis by (simp add: signer_key_codec_def demo_lib_def)
qed

lemma demo_base64_codec: "base64_codec demo_lib"
  by (simp add: base64_codec_def demo_lib_def)

lemmas demo_hypotheses = demo_public_key_codec demo_public_key_text_plain demo_hash_excludes_signatures demo_ed25519_correct
  demo_signer_key_codec demo_base64_codec

text \<open>A key and a one-operation transaction from it, for the examples.\<close>

definition demo_key :: bytes where "demo_key = replicate 32 7"

definition demo_tx :: "operation_body list \<Rightarrow> transaction" where
  "demo_tx bodies =
     \<lparr>tx_source = MuxEd25519 demo_key, tx_fee = 100, tx_seq_num = 1, tx_cond = PrecondNone,
      tx_memo = MemoNone, tx_operations = map (\<lambda>b. \<lparr>op_source = None, op_body = b\<rparr>) bodies,
      tx_ext = TxExtV0\<rparr>"

definition demo_env :: envelope where
  "demo_env = EnvTx (demo_tx [BumpSequenceOp 2]) []"

lemma demo_key_simps [simp]: "length demo_key = 32" "demo_pad 32 demo_key = demo_key"
  by (simp_all add: demo_key_def demo_pad_def)

lemma demo_lib_simps [simp]:
  "public_key_to_string demo_lib = demo_key_text"
  "public_key_from_string demo_lib = demo_parse_key"
  "length k = 32 \<Longrightarrow> demo_parse_key (demo_key_text k) = Some k"
  "verifying_key_valid demo_lib k"
  "verify_strict demo_lib k m s \<longleftrightarrow> s = demo_pad 64 k"
  "verifying_key_of demo_lib sk = demo_pad 32 sk"
  "ed25519_sign demo_lib sk m = demo_pad 64 (demo_pad 32 sk)"
  "envelope_to_xdr demo_lib e = Inr []"
  "envelope_hash demo_lib = demo_hash"
  "sha256 demo_lib = demo_pad 32"
  by (simp_all add: demo_lib_def demo_parse_key_def demo_key_text_def)

end
