(* ===== verification/CoreSigning.thy ===== *)
theory CoreSigning
  imports Stellar
begin

text \<open>
  core/rust/src/signer.rs, transaction.rs and message.rs: the signer traits and their
  implementations, transaction hashes, which signer conditions an envelope satisfies, and signing.
\<close>

unbundle bit_operations_syntax

section \<open>Signers (signer.rs)\<close>

datatype signer_error = InvalidSecret | InvalidPublicKey | ExternalProvider string

record transaction_signing_request =
  tsr_hash :: bytes
  tsr_xdr :: bytes
  tsr_network_passphrase :: string

record message_signing_request =
  msr_hash :: bytes
  msr_message :: bytes
  msr_encoded :: bytes

text \<open>The trait \<open>ClassicSigner\<close> and the trait \<open>MessageSigner\<close>: what a generic function can call.\<close>

record classic_signer =
  cs_public_key :: string
  cs_sign_transaction :: "transaction_signing_request \<Rightarrow> signer_error + bytes"

record message_signer =
  ms_public_key :: string
  ms_sign_message :: "message_signing_request \<Rightarrow> signer_error + bytes"

record software_signer =
  sw_signing_key :: bytes
  sw_public_key :: string

record external_signer =
  ex_public_key :: string
  ex_sign_request :: "transaction_signing_request \<Rightarrow> signer_error + bytes"

definition from_signing_key :: "stellar_lib \<Rightarrow> bytes \<Rightarrow> software_signer" where
  "from_signing_key L sk =
     \<lparr>sw_signing_key = sk, sw_public_key = public_key_to_string L (verifying_key_of L sk)\<rparr>"

definition from_secret :: "stellar_lib \<Rightarrow> string \<Rightarrow> signer_error + software_signer" where
  "from_secret L secret =
     (case private_key_from_string L (trim secret) of
        None \<Rightarrow> Inl InvalidSecret
      | Some private \<Rightarrow> Inr (from_signing_key L private))"

definition software_classic :: "stellar_lib \<Rightarrow> software_signer \<Rightarrow> classic_signer" where
  "software_classic L s =
     \<lparr>cs_public_key = sw_public_key s,
      cs_sign_transaction = (\<lambda>r. Inr (ed25519_sign L (sw_signing_key s) (tsr_hash r)))\<rparr>"

definition software_message :: "stellar_lib \<Rightarrow> software_signer \<Rightarrow> message_signer" where
  "software_message L s =
     \<lparr>ms_public_key = sw_public_key s,
      ms_sign_message = (\<lambda>r. Inr (ed25519_sign L (sw_signing_key s) (msr_hash r)))\<rparr>"

definition external_new ::
  "stellar_lib \<Rightarrow> string \<Rightarrow> (transaction_signing_request \<Rightarrow> signer_error + bytes)
     \<Rightarrow> signer_error + external_signer" where
  "external_new L public_key sign_request =
     (case public_key_from_string L (trim public_key) of
        None \<Rightarrow> Inl InvalidPublicKey
      | Some public \<Rightarrow>
          Inr \<lparr>ex_public_key = public_key_to_string L public, ex_sign_request = sign_request\<rparr>)"

definition external_classic :: "external_signer \<Rightarrow> classic_signer" where
  "external_classic s =
     \<lparr>cs_public_key = ex_public_key s, cs_sign_transaction = (\<lambda>r. ex_sign_request s r)\<rparr>"

text \<open>\<open>public.0[28..32]\<close>, in the default method \<open>ClassicSigner::signature_hint\<close>.\<close>

definition classic_signature_hint :: "stellar_lib \<Rightarrow> classic_signer \<Rightarrow> signer_error + bytes" where
  "classic_signature_hint L s =
     (case public_key_from_string L (cs_public_key s) of
        None \<Rightarrow> Inl InvalidPublicKey
      | Some public \<Rightarrow> Inr (take 4 (drop 28 public)))"

section \<open>Transaction hashes and signer conditions (transaction.rs)\<close>

datatype transaction_signing_error =
    TxXdr string
  | TxSigner signer_error
  | TxInvalidSignature
  | TxDuplicateSignature

definition xdr_decode_max_depth :: nat where "xdr_decode_max_depth = 500"

definition network_id :: "stellar_lib \<Rightarrow> string \<Rightarrow> bytes" where
  "network_id L network_passphrase = sha256 L (bytes_of network_passphrase)"

definition transaction_hash ::
  "stellar_lib \<Rightarrow> envelope \<Rightarrow> string \<Rightarrow> transaction_signing_error + bytes" where
  "transaction_hash L e network_passphrase =
     map_err TxXdr (envelope_hash L e (network_id L network_passphrase))"

definition signature_hint :: "bytes \<Rightarrow> bytes" where
  "signature_hint b =
     (if length b < 4 then b @ replicate (4 - length b) 0 else drop (length b - 4) b)"

definition parse_transaction_envelope_xdr ::
  "stellar_lib \<Rightarrow> bytes \<Rightarrow> transaction_signing_error + envelope" where
  "parse_transaction_envelope_xdr L xdr =
     map_err TxXdr (envelope_from_xdr L xdr xdr_decode_max_depth (length xdr))"

definition transaction_envelope_xdr ::
  "stellar_lib \<Rightarrow> envelope \<Rightarrow> transaction_signing_error + bytes" where
  "transaction_envelope_xdr L e = map_err TxXdr (envelope_to_xdr L e)"

text \<open>Whether one decorated signature is a valid Ed25519 signature of \<open>msg\<close> under \<open>public\<close>.\<close>

definition ed25519_decorated ::
  "stellar_lib \<Rightarrow> bytes \<Rightarrow> bytes \<Rightarrow> bytes \<Rightarrow> decorated_signature \<Rightarrow> bool" where
  "ed25519_decorated L hint public msg d \<longleftrightarrow>
     sig_hint d = hint \<and> length (sig_bytes d) = 64 \<and> verify_strict L public msg (sig_bytes d)"

fun satisfies_signer_key ::
  "stellar_lib \<Rightarrow> envelope \<Rightarrow> string \<Rightarrow> signer_key \<Rightarrow> transaction_signing_error + bool" where
  "satisfies_signer_key L e np (SignerEd25519 public) =
     and_then (ensure (verifying_key_valid L public) (TxSigner InvalidPublicKey)) (\<lambda>_.
     and_then (transaction_hash L e np) (\<lambda>hash.
       Inr (list_ex (ed25519_decorated L (signature_hint public) public hash) (env_signatures e))))"
| "satisfies_signer_key L e np (SignerPreAuthTx expected) =
     and_then (transaction_hash L e np) (\<lambda>hash. Inr (expected = hash))"
| "satisfies_signer_key L e np (SignerHashX expected) =
     Inr (list_ex (\<lambda>d. sig_hint d = signature_hint expected \<and> sha256 L (sig_bytes d) = expected)
            (env_signatures e))"
| "satisfies_signer_key L e np (SignerEd25519SignedPayload public payload) =
     and_then (ensure (verifying_key_valid L public) (TxSigner InvalidPublicKey)) (\<lambda>_.
       Inr (list_ex (ed25519_decorated L (map2 (XOR) (signature_hint public) (signature_hint payload))
              public payload) (env_signatures e)))"

definition has_valid_signature ::
  "stellar_lib \<Rightarrow> envelope \<Rightarrow> string \<Rightarrow> string \<Rightarrow> transaction_signing_error + bool" where
  "has_valid_signature L e np signer_public_key =
     (case public_key_from_string L signer_public_key of
        None \<Rightarrow> Inl (TxSigner InvalidPublicKey)
      | Some public \<Rightarrow> satisfies_signer_key L e np (SignerEd25519 public))"

definition verify_signature ::
  "stellar_lib \<Rightarrow> string \<Rightarrow> bytes \<Rightarrow> bytes \<Rightarrow> transaction_signing_error + unit" where
  "verify_signature L public_key hash signature =
     (case public_key_from_string L public_key of
        None \<Rightarrow> Inl (TxSigner InvalidPublicKey)
      | Some public \<Rightarrow>
          and_then (ensure (verifying_key_valid L public) (TxSigner InvalidPublicKey)) (\<lambda>_.
            ensure (verify_strict L public hash signature) TxInvalidSignature))"

section \<open>Signing an envelope\<close>

text \<open>The result is the new envelope; on an error the caller's envelope is left as it was.\<close>

definition sign_transaction_envelope ::
  "stellar_lib \<Rightarrow> envelope \<Rightarrow> string \<Rightarrow> classic_signer \<Rightarrow> transaction_signing_error + envelope" where
  "sign_transaction_envelope L e np signer =
     and_then (transaction_hash L e np) (\<lambda>hash.
     and_then (transaction_envelope_xdr L e) (\<lambda>xdr.
     and_then (map_err TxSigner (cs_sign_transaction signer
         \<lparr>tsr_hash = hash, tsr_xdr = xdr, tsr_network_passphrase = np\<rparr>)) (\<lambda>signature.
     and_then (verify_signature L (cs_public_key signer) hash signature) (\<lambda>_.
     and_then (map_err TxSigner (classic_signature_hint L signer)) (\<lambda>hint.
     and_then (ensure (length signature \<le> max_signature_bytes) (TxXdr ''length exceeds max'')) (\<lambda>_.
       let decorated = \<lparr>sig_hint = hint, sig_bytes = signature\<rparr>; signatures = env_signatures e
       in if decorated \<in> set signatures then Inl TxDuplicateSignature
          else and_then (ensure (length (signatures @ [decorated]) \<le> max_signatures)
                 (TxXdr ''length exceeds max''))
                 (\<lambda>_. Inr (with_signatures e (signatures @ [decorated])))))))))"

text \<open>The \<open>Display\<close> text of the two error types.\<close>

fun signer_error_text :: "signer_error \<Rightarrow> string" where
  "signer_error_text InvalidSecret = ''invalid Stellar secret key''"
| "signer_error_text InvalidPublicKey = ''invalid Stellar public key''"
| "signer_error_text (ExternalProvider m) = ''external signer failed: '' @ m"

fun signing_error_text :: "transaction_signing_error \<Rightarrow> string" where
  "signing_error_text (TxXdr _) = ''invalid Stellar transaction XDR''"
| "signing_error_text (TxSigner e) = signer_error_text e"
| "signing_error_text TxInvalidSignature = ''signer returned a signature for the wrong key or transaction hash''"
| "signing_error_text TxDuplicateSignature = ''signer has already signed this transaction''"

section \<open>SEP-53 messages (message.rs)\<close>

datatype message_signing_error = MsgSigner signer_error | MsgInvalidSignature

definition sep53_message_prefix :: bytes where
  "sep53_message_prefix = bytes_of (''Stellar Signed Message:'' @ [CHR 0x0A])"

definition sep53_message_payload :: "bytes \<Rightarrow> bytes" where
  "sep53_message_payload message = sep53_message_prefix @ message"

definition sep53_message_hash :: "stellar_lib \<Rightarrow> bytes \<Rightarrow> bytes" where
  "sep53_message_hash L message = sha256 L (sep53_message_payload message)"

definition prepare_message_signing :: "stellar_lib \<Rightarrow> bytes \<Rightarrow> message_signing_request" where
  "prepare_message_signing L message =
     (let encoded = sep53_message_payload message
      in \<lparr>msr_hash = sha256 L encoded, msr_message = message, msr_encoded = encoded\<rparr>)"

definition verify_message_signature ::
  "stellar_lib \<Rightarrow> string \<Rightarrow> bytes \<Rightarrow> bytes \<Rightarrow> message_signing_error + unit" where
  "verify_message_signature L signer_public_key message signature =
     (case public_key_from_string L signer_public_key of
        None \<Rightarrow> Inl (MsgSigner InvalidPublicKey)
      | Some public \<Rightarrow>
          and_then (ensure (verifying_key_valid L public) (MsgSigner InvalidPublicKey)) (\<lambda>_.
            ensure (verify_strict L public (sep53_message_hash L message) signature)
              MsgInvalidSignature))"

definition sign_message ::
  "stellar_lib \<Rightarrow> bytes \<Rightarrow> message_signer \<Rightarrow> message_signing_error + bytes" where
  "sign_message L message signer =
     and_then (map_err MsgSigner (ms_sign_message signer (prepare_message_signing L message)))
       (\<lambda>signature. and_then (verify_message_signature L (ms_public_key signer) message signature)
         (\<lambda>_. Inr signature))"

section \<open>What signing does\<close>

lemma verify_signature_Inr [result_simps]:
  "verify_signature L pk h s = Inr () \<longleftrightarrow>
     (\<exists>k. public_key_from_string L pk = Some k \<and> verifying_key_valid L k \<and> verify_strict L k h s)"
  by (auto simp: verify_signature_def split: option.splits)

lemma classic_signature_hint_Inr [result_simps]:
  "classic_signature_hint L s = Inr h \<longleftrightarrow>
     (\<exists>k. public_key_from_string L (cs_public_key s) = Some k \<and> h = take 4 (drop 28 k))"
  by (auto simp: classic_signature_hint_def split: option.splits)

lemma hint_of_key: "length k = 32 \<Longrightarrow> signature_hint k = take 4 (drop 28 k)"
  by (simp add: signature_hint_def)

text \<open>Everything a successful signing call established, and the envelope it leaves.\<close>

lemma sign_transaction_envelope_Inr:
  "sign_transaction_envelope L e np s = Inr e' \<longleftrightarrow>
     (\<exists>hash xdr sig k. transaction_hash L e np = Inr hash \<and> envelope_to_xdr L e = Inr xdr \<and>
        cs_sign_transaction s \<lparr>tsr_hash = hash, tsr_xdr = xdr, tsr_network_passphrase = np\<rparr> = Inr sig \<and>
        public_key_from_string L (cs_public_key s) = Some k \<and> verifying_key_valid L k \<and>
        verify_strict L k hash sig \<and> length sig \<le> max_signature_bytes \<and>
        \<lparr>sig_hint = take 4 (drop 28 k), sig_bytes = sig\<rparr> \<notin> set (env_signatures e) \<and>
        length (env_signatures e) < max_signatures \<and>
        e' = with_signatures e (env_signatures e @ [\<lparr>sig_hint = take 4 (drop 28 k), sig_bytes = sig\<rparr>]))"
  by (auto simp: sign_transaction_envelope_def transaction_envelope_xdr_def result_simps Let_def
      Suc_le_eq split: if_splits)

lemma transaction_hash_with_signatures:
  "hash_excludes_signatures L \<Longrightarrow> transaction_hash L (with_signatures e s) np = transaction_hash L e np"
  by (simp add: transaction_hash_def hash_excludes_signaturesD)

text \<open>More signatures never make a satisfied condition unsatisfied.\<close>

lemma satisfies_signer_key_mono:
  assumes "hash_excludes_signatures L" and "set (env_signatures e) \<subseteq> set sigs"
    and "satisfies_signer_key L e np k = Inr True"
  shows "satisfies_signer_key L (with_signatures e sigs) np k = Inr True"
  using assms
  by (cases k) (auto simp: transaction_hash_with_signatures list_ex_iff result_simps split: if_splits)

lemma has_valid_signature_True:
  assumes "public_key_from_string L pk = Some k" "verifying_key_valid L k"
    "transaction_hash L e np = Inr h" "d \<in> set (env_signatures e)"
    "ed25519_decorated L (signature_hint k) k h d"
  shows "has_valid_signature L e np pk = Inr True"
  using assms by (auto simp: has_valid_signature_def list_ex_iff)

text \<open>
  The trait contract: a value of an implementing type carries a public key that is the printed form
  of a 32-byte key. An implementation whose signature depends on the request's hash alone is
  deterministic.
\<close>

locale classic_signer_impl =
  fixes valid :: "stellar_lib \<Rightarrow> 's \<Rightarrow> bool"
    and as_classic :: "stellar_lib \<Rightarrow> 's \<Rightarrow> classic_signer"
  assumes canonical_key: "public_key_codec L \<Longrightarrow> ed25519_correct L \<Longrightarrow> valid L s \<Longrightarrow>
    \<exists>k. length k = 32 \<and> cs_public_key (as_classic L s) = public_key_to_string L k"
begin

lemma signature_hint_total:
  assumes "public_key_codec L" "ed25519_correct L" "valid L s"
  shows "\<exists>k. public_key_from_string L (cs_public_key (as_classic L s)) = Some k \<and>
    classic_signature_hint L (as_classic L s) = Inr (signature_hint k)"
  using canonical_key [OF assms] public_key_codecD(1) [OF assms(1)]
  by (auto simp: result_simps hint_of_key)

end

locale hash_signer_impl = classic_signer_impl +
  fixes signs :: "stellar_lib \<Rightarrow> 's \<Rightarrow> bytes \<Rightarrow> bytes"
  assumes hash_only: "valid L s \<Longrightarrow> cs_sign_transaction (as_classic L s) r = Inr (signs L s (tsr_hash r))"
begin

lemma sign_twice_duplicate:
  assumes "hash_excludes_signatures L" "valid L s"
    and sign: "sign_transaction_envelope L e np (as_classic L s) = Inr e'"
    and xdr: "envelope_to_xdr L e' = Inr x"
  shows "sign_transaction_envelope L e' np (as_classic L s) = Inl TxDuplicateSignature"
proof -
  from sign obtain h k where h: "transaction_hash L e np = Inr h"
    and k: "public_key_from_string L (cs_public_key (as_classic L s)) = Some k" "verifying_key_valid L k"
      "verify_strict L k h (signs L s h)" "length (signs L s h) \<le> max_signature_bytes"
    and e': "e' = with_signatures e (env_signatures e @
        [\<lparr>sig_hint = take 4 (drop 28 k), sig_bytes = signs L s h\<rparr>])"
    using assms(2) by (auto simp: sign_transaction_envelope_Inr hash_only)
  from h e' assms(1) have "transaction_hash L e' np = Inr h"
    by (simp add: transaction_hash_with_signatures)
  with k xdr assms(2) show ?thesis
    by (simp add: sign_transaction_envelope_def transaction_envelope_xdr_def verify_signature_def
        classic_signature_hint_def hash_only e')
qed

end

definition software_valid :: "stellar_lib \<Rightarrow> software_signer \<Rightarrow> bool" where
  "software_valid L s \<longleftrightarrow> s = from_signing_key L (sw_signing_key s)"

definition external_valid :: "stellar_lib \<Rightarrow> external_signer \<Rightarrow> bool" where
  "external_valid L s \<longleftrightarrow>
     (\<exists>t. external_new L t (ex_sign_request s) = Inr s)"

interpretation software: hash_signer_impl software_valid software_classic
  "\<lambda>L s. ed25519_sign L (sw_signing_key s)"
proof unfold_locales
  fix L s
  assume "ed25519_correct L" "software_valid L s"
  then show "\<exists>k. length k = 32 \<and> cs_public_key (software_classic L s) = public_key_to_string L k"
    by (intro exI [of _ "verifying_key_of L (sw_signing_key s)"])
      (auto simp: software_valid_def software_classic_def from_signing_key_def ed25519_correctD
        dest: arg_cong [where f = sw_public_key])
qed (simp add: software_classic_def)

interpretation external: classic_signer_impl external_valid "\<lambda>L. external_classic"
proof unfold_locales
  fix L s
  assume "public_key_codec L" "external_valid L s"
  then obtain t k where k: "public_key_from_string L (trim t) = Some k"
    and s: "\<lparr>ex_public_key = public_key_to_string L k, ex_sign_request = ex_sign_request s\<rparr> = s"
    by (auto simp: external_valid_def external_new_def split: option.splits)
  from s have "ex_public_key s = public_key_to_string L k" by (metis external_signer.select_convs(1))
  with k public_key_codecD(2) [OF \<open>public_key_codec L\<close>]
  show "\<exists>k. length k = 32 \<and> cs_public_key (external_classic s) = public_key_to_string L k"
    by (auto simp: external_classic_def)
qed

lemma from_secret_valid: "from_secret L t = Inr s \<Longrightarrow> software_valid L s"
  by (auto simp: from_secret_def software_valid_def from_signing_key_def split: option.splits)

section \<open>Properties of signing\<close>

text \<open>Every signer of the program returns 64 bytes (the trait's result type).\<close>

definition signs_64 :: "classic_signer \<Rightarrow> bool" where
  "signs_64 s \<longleftrightarrow> (\<forall>r x. cs_sign_transaction s r = Inr x \<longrightarrow> length x = 64)"

lemma sign_step:
  assumes "public_key_codec L" "hash_excludes_signatures L" "signs_64 s"
    and "sign_transaction_envelope L e np s = Inr e'"
  obtains d where "e' = with_signatures e (env_signatures e @ [d])" "d \<notin> set (env_signatures e)"
    "length (env_signatures e') \<le> max_signatures"
    "transaction_hash L e' np = transaction_hash L e np"
    "has_valid_signature L e' np (cs_public_key s) = Inr True"
proof -
  from assms(4) obtain h x sig k where h: "transaction_hash L e np = Inr h"
    and sig: "cs_sign_transaction s \<lparr>tsr_hash = h, tsr_xdr = x, tsr_network_passphrase = np\<rparr> = Inr sig"
    and k: "public_key_from_string L (cs_public_key s) = Some k" "verifying_key_valid L k"
      "verify_strict L k h sig"
    and d: "\<lparr>sig_hint = take 4 (drop 28 k), sig_bytes = sig\<rparr> \<notin> set (env_signatures e)"
      "length (env_signatures e) < max_signatures"
    and e': "e' = with_signatures e (env_signatures e @ [\<lparr>sig_hint = take 4 (drop 28 k), sig_bytes = sig\<rparr>])"
    by (auto simp: sign_transaction_envelope_Inr)
  let ?d = "\<lparr>sig_hint = take 4 (drop 28 k), sig_bytes = sig\<rparr>"
  have h': "transaction_hash L e' np = Inr h"
    using assms(2) h by (simp add: e' transaction_hash_with_signatures)
  have "length sig = 64" using assms(3) sig by (auto simp: signs_64_def)
  then have "ed25519_decorated L (signature_hint k) k h ?d"
    using k(3) public_key_codecD(2) [OF assms(1) k(1)]
    by (simp add: ed25519_decorated_def hint_of_key)
  then have "has_valid_signature L e' np (cs_public_key s) = Inr True"
    by (intro has_valid_signature_True [OF k(1,2) h', of ?d]) (simp_all add: e')
  then show thesis using that [of ?d] d h h' e' by simp
qed

text \<open>A successful \<open>sign_transaction_envelope\<close> appends exactly one new signature, stays within
  the 20 signatures of the format, leaves the transaction and its hash as they were, and the
  signer's key is then recognised as having signed.\<close>

theorem sign_appends_valid_signature:
  assumes "public_key_codec L" "hash_excludes_signatures L" "signs_64 s"
    and "sign_transaction_envelope L e np s = Inr e'"
  shows "\<exists>d. e' = with_signatures e (env_signatures e @ [d]) \<and> d \<notin> set (env_signatures e) \<and>
    length (env_signatures e') \<le> max_signatures \<and>
    transaction_hash L e' np = transaction_hash L e np \<and>
    has_valid_signature L e' np (cs_public_key s) = Inr True"
  by (rule sign_step [OF assms]) blast

text \<open>Signing never takes away what earlier signatures proved: a signer condition of any kind
  (key, hash preimage, pre-authorised transaction, signed payload) that the envelope satisfied is
  still satisfied.\<close>

theorem sign_keeps_satisfied_conditions:
  assumes "hash_excludes_signatures L"
    and "sign_transaction_envelope L e np s = Inr e'"
    and "satisfies_signer_key L e np k = Inr True"
  shows "satisfies_signer_key L e' np k = Inr True"
proof -
  from assms(2) obtain d where "e' = with_signatures e (env_signatures e @ [d])"
    by (auto simp: sign_transaction_envelope_Inr)
  with satisfies_signer_key_mono [OF assms(1) _ assms(3), of "env_signatures e @ [d]"]
  show ?thesis by auto
qed

text \<open>A software signer is deterministic, so asking it to sign what it has already signed is
  refused as a duplicate instead of adding a second copy.\<close>

theorem software_signer_signs_once:
  assumes "hash_excludes_signatures L" "software_valid L s"
    and "sign_transaction_envelope L e np (software_classic L s) = Inr e'"
    and "envelope_to_xdr L e' = Inr x"
  shows "sign_transaction_envelope L e' np (software_classic L s) = Inl TxDuplicateSignature"
  using assms by (rule software.sign_twice_duplicate)

lemma software_signs_64: "ed25519_correct L \<Longrightarrow> signs_64 (software_classic L s)"
  by (simp add: signs_64_def software_classic_def ed25519_correctD)

text \<open>A software signer signs every envelope that hashes and encodes, has room for a signature
  and does not yet carry this one: its own verification step never rejects its signature.\<close>

theorem software_signer_always_signs:
  assumes "public_key_codec L" "ed25519_correct L" "software_valid L s"
    and "transaction_hash L e np = Inr h" "envelope_to_xdr L e = Inr x"
    and "length (env_signatures e) < max_signatures"
    and "ed25519_sign L (sw_signing_key s) h \<notin> sig_bytes ` set (env_signatures e)"
  shows "\<exists>e'. sign_transaction_envelope L e np (software_classic L s) = Inr e'"
proof -
  let ?k = "verifying_key_of L (sw_signing_key s)"
  have "sw_public_key s = public_key_to_string L ?k"
    using assms(3) by (metis software_valid_def from_signing_key_def software_signer.select_convs(2))
  then have "public_key_from_string L (cs_public_key (software_classic L s)) = Some ?k"
    using assms(1,2) by (simp add: software_classic_def public_key_codecD ed25519_correctD)
  moreover have "\<lparr>sig_hint = take 4 (drop 28 ?k), sig_bytes = ed25519_sign L (sw_signing_key s) h\<rparr>
      \<notin> set (env_signatures e)"
    using assms(7) by force
  ultimately show ?thesis
    unfolding sign_transaction_envelope_Inr
    using assms ed25519_correctD [OF assms(2)]
    by (auto simp: software_classic_def max_signature_bytes_def)
qed

text \<open>A message signed by a software signer is returned as a signature that verifies for the
  signer's public key and that message (SEP-53): \<open>sign_message\<close> never fails for it.\<close>

theorem software_message_roundtrip:
  assumes "public_key_codec L" "ed25519_correct L" "from_secret L secret = Inr s"
  shows "\<exists>sig. sign_message L m (software_message L s) = Inr sig \<and> length sig = 64 \<and>
    verify_message_signature L (sw_public_key s) m sig = Inr ()"
proof -
  from assms(3) have "sw_public_key s = public_key_to_string L (verifying_key_of L (sw_signing_key s))"
    by (auto simp: from_secret_def from_signing_key_def split: option.splits)
  then have "verify_message_signature L (sw_public_key s) m
      (ed25519_sign L (sw_signing_key s) (sep53_message_hash L m)) = Inr ()"
    using assms(1,2)
    by (simp add: verify_message_signature_def public_key_codecD ed25519_correctD)
  then show ?thesis
    using assms(2)
    by (simp add: sign_message_def software_message_def prepare_message_signing_def
        sep53_message_hash_def Let_def ed25519_correctD)
qed

section \<open>Examples\<close>

definition demo_signer :: software_signer where
  "demo_signer = from_signing_key demo_lib demo_key"

definition demo_signed :: envelope where
  "demo_signed = with_signatures demo_env
     [\<lparr>sig_hint = take 4 (drop 28 demo_key), sig_bytes = demo_pad 64 demo_key\<rparr>]"

lemma demo_signer_valid: "software_valid demo_lib demo_signer"
  by (simp add: demo_signer_def software_valid_def from_signing_key_def)

lemma demo_transaction_hash: "transaction_hash demo_lib demo_env np = Inr (demo_pad 32 [1])"
  by (simp add: transaction_hash_def demo_hash_def demo_env_def demo_tx_def)

lemma demo_env_signatures: "env_signatures demo_env = []"
  by (simp add: demo_env_def)

lemma demo_sign:
  "sign_transaction_envelope demo_lib demo_env np (software_classic demo_lib demo_signer) = Inr demo_signed"
  unfolding sign_transaction_envelope_Inr
  by (simp add: demo_transaction_hash software_classic_def demo_signer_def from_signing_key_def
      demo_signed_def max_signature_bytes_def max_signatures_def demo_env_signatures)

theorem sign_appends_valid_signature_witness:
  "has_valid_signature demo_lib demo_signed ''net'' (demo_key_text demo_key) = Inr True"
  using sign_appends_valid_signature [OF demo_public_key_codec demo_hash_excludes_signatures
      software_signs_64 [OF demo_ed25519_correct] demo_sign [of "''net''"]]
  by (auto simp: software_classic_def demo_signer_def from_signing_key_def)

theorem sign_keeps_satisfied_conditions_witness:
  "satisfies_signer_key demo_lib demo_signed ''net'' (SignerPreAuthTx (demo_pad 32 [1])) = Inr True"
  by (rule sign_keeps_satisfied_conditions [OF demo_hash_excludes_signatures demo_sign])
    (simp add: demo_transaction_hash)

theorem software_signer_signs_once_witness:
  "sign_transaction_envelope demo_lib demo_signed ''net'' (software_classic demo_lib demo_signer) =
     Inl TxDuplicateSignature"
  by (rule software_signer_signs_once [OF demo_hash_excludes_signatures demo_signer_valid demo_sign
        demo_lib_simps(8)])

theorem software_signer_always_signs_witness:
  "\<exists>e'. sign_transaction_envelope demo_lib demo_env ''net'' (software_classic demo_lib demo_signer) = Inr e'"
  by (rule software_signer_always_signs [OF demo_public_key_codec demo_ed25519_correct demo_signer_valid
        demo_transaction_hash demo_lib_simps(8)])
    (simp_all add: demo_env_signatures max_signatures_def)

theorem software_message_roundtrip_witness:
  "\<exists>sig. sign_message demo_lib [104, 105] (software_message demo_lib demo_signer) = Inr sig"
proof -
  have "from_secret demo_lib (CHR ''S'' # replicate 32 (CHR ''a'')) =
      Inr (from_signing_key demo_lib (bytes_of (replicate 32 (CHR ''a''))))"
    by (simp add: from_secret_def trim_plain plain_char_def is_ascii_byte_def is_ascii_ws_def
        list_all_iff demo_lib_def)
  from software_message_roundtrip [OF demo_public_key_codec demo_ed25519_correct this]
  show ?thesis
    by (auto simp: sign_message_def software_message_def demo_signer_def from_signing_key_def
        verify_message_signature_def)
qed

end
