(* ===== verification/AgentAccess.thy ===== *)
theory AgentAccess
  imports CoreSigning
begin

text \<open>
  core/rust/src/agent_access.rs: a capability lets an automated agent sign with one account, on one
  network, inside a list of operation types, an operation count, a fee limit and an expiry time.
\<close>

section \<open>Capabilities\<close>

record agent_capability =
  cap_public_key :: string
  cap_network_passphrase :: string
  cap_allowed_operations :: "operation_type list"
  cap_max_operations :: nat
  cap_max_fee :: int
  cap_expires_at_unix :: "nat option"

record agent_authorization =
  aa_public_key :: string
  aa_operation_types :: "operation_type list"
  aa_fee :: int

datatype agent_access_error =
    InvalidCapabilityAccount
  | EmptyNetworkPassphrase
  | EmptyOperationAllowlist
  | InvalidMaxOperations
  | NetworkNotAllowed
  | CapabilityExpired
  | UnsupportedEnvelope
  | PreexistingSignatures
  | TransactionSourceNotAllowed
  | FeeLimitExceeded int int
  | NoOperations
  | OperationCountExceeded nat nat
  | OperationSourceNotAllowed nat
  | OperationNotAllowed nat operation_type
  | SignerNotAllowed
  | AgentTransactionSigning transaction_signing_error

text \<open>\<open>sort_unstable\<close> of equal values and \<open>dedup\<close> are the library's sort and \<open>remdups_adj\<close>.\<close>

definition agent_capability_new ::
  "stellar_lib \<Rightarrow> string \<Rightarrow> string \<Rightarrow> operation_type list \<Rightarrow> nat \<Rightarrow> int \<Rightarrow> nat option
     \<Rightarrow> agent_access_error + agent_capability" where
  "agent_capability_new L public_key network_passphrase allowed_operations max_operations max_fee
     expires_at_unix =
     and_then (ok_or InvalidCapabilityAccount (public_key_from_string L (trim public_key))) (\<lambda>public.
     if network_passphrase = [] then Inl EmptyNetworkPassphrase
     else if allowed_operations = [] then Inl EmptyOperationAllowlist
     else if max_operations = 0 then Inl InvalidMaxOperations
     else Inr \<lparr>cap_public_key = public_key_to_string L public,
               cap_network_passphrase = network_passphrase,
               cap_allowed_operations = remdups_adj (sort allowed_operations),
               cap_max_operations = max_operations,
               cap_max_fee = max_fee,
               cap_expires_at_unix = expires_at_unix\<rparr>)"

fun muxed_account_public_key :: "stellar_lib \<Rightarrow> muxed_account \<Rightarrow> string" where
  "muxed_account_public_key L (MuxEd25519 ed25519) = public_key_to_string L ed25519"
| "muxed_account_public_key L (MuxMuxedEd25519 _ ed25519) = public_key_to_string L ed25519"

section \<open>Authorisation\<close>

text \<open>The loop over the operations, from operation number \<open>index\<close> on.\<close>

fun authorize_operations ::
  "stellar_lib \<Rightarrow> agent_capability \<Rightarrow> muxed_account \<Rightarrow> nat \<Rightarrow> operation list
     \<Rightarrow> agent_access_error + operation_type list" where
  "authorize_operations L c tx_source_account index [] = Inr []"
| "authorize_operations L c tx_source_account index (operation # rest) =
     (let source = (case op_source operation of Some s \<Rightarrow> s | None \<Rightarrow> tx_source_account);
          operation_type = body_discriminant (op_body operation)
      in if muxed_account_public_key L source \<noteq> cap_public_key c
         then Inl (OperationSourceNotAllowed index)
         else if operation_type \<notin> set (cap_allowed_operations c)
         then Inl (OperationNotAllowed index operation_type)
         else map_ok ((#) operation_type)
                (authorize_operations L c tx_source_account (Suc index) rest))"

definition authorize_agent_transaction ::
  "stellar_lib \<Rightarrow> agent_capability \<Rightarrow> envelope \<Rightarrow> string \<Rightarrow> nat
     \<Rightarrow> agent_access_error + agent_authorization" where
  "authorize_agent_transaction L c e network_passphrase now_unix =
     (if network_passphrase \<noteq> cap_network_passphrase c then Inl NetworkNotAllowed
      else if (case cap_expires_at_unix c of Some expires_at \<Rightarrow> expires_at \<le> now_unix | None \<Rightarrow> False)
      then Inl CapabilityExpired
      else (case e of
          EnvTxV0 _ _ \<Rightarrow> Inl UnsupportedEnvelope
        | EnvTxFeeBump _ _ \<Rightarrow> Inl UnsupportedEnvelope
        | EnvTx tx signatures \<Rightarrow>
            if signatures \<noteq> [] then Inl PreexistingSignatures
            else if muxed_account_public_key L (tx_source tx) \<noteq> cap_public_key c
            then Inl TransactionSourceNotAllowed
            else if cap_max_fee c < tx_fee tx then Inl (FeeLimitExceeded (tx_fee tx) (cap_max_fee c))
            else if length (tx_operations tx) = 0 then Inl NoOperations
            else if cap_max_operations c < length (tx_operations tx)
            then Inl (OperationCountExceeded (length (tx_operations tx)) (cap_max_operations c))
            else map_ok (\<lambda>operation_types.
                   \<lparr>aa_public_key = cap_public_key c, aa_operation_types = operation_types,
                    aa_fee = tx_fee tx\<rparr>)
                 (authorize_operations L c (tx_source tx) 0 (tx_operations tx))))"

definition sign_agent_transaction ::
  "stellar_lib \<Rightarrow> agent_capability \<Rightarrow> envelope \<Rightarrow> string \<Rightarrow> nat \<Rightarrow> classic_signer
     \<Rightarrow> agent_access_error + agent_authorization \<times> envelope" where
  "sign_agent_transaction L c e network_passphrase now_unix signer =
     and_then (ok_or SignerNotAllowed (public_key_from_string L (cs_public_key signer))) (\<lambda>signer_public.
     if public_key_to_string L signer_public \<noteq> cap_public_key c then Inl SignerNotAllowed
     else and_then (authorize_agent_transaction L c e network_passphrase now_unix) (\<lambda>authorization.
          and_then (map_err AgentTransactionSigning
              (sign_transaction_envelope L e network_passphrase signer)) (\<lambda>e'.
          Inr (authorization, e'))))"

section \<open>What a capability allows\<close>

text \<open>The account an operation acts for, and the policy on one operation.\<close>

definition effective_source :: "muxed_account \<Rightarrow> operation \<Rightarrow> muxed_account" where
  "effective_source src operation = (case op_source operation of Some s \<Rightarrow> s | None \<Rightarrow> src)"

definition operation_within ::
  "stellar_lib \<Rightarrow> string \<Rightarrow> operation_type set \<Rightarrow> muxed_account \<Rightarrow> operation \<Rightarrow> bool" where
  "operation_within L account allowed src operation \<longleftrightarrow>
     muxed_account_public_key L (effective_source src operation) = account \<and>
     body_discriminant (op_body operation) \<in> allowed"

text \<open>
  The policy on a transaction, independent of the order in which the code checks it: the limits on
  the transaction as a whole, and then the policy on each operation.
\<close>

definition within_limits ::
  "stellar_lib \<Rightarrow> agent_capability \<Rightarrow> string \<Rightarrow> nat \<Rightarrow> transaction \<Rightarrow> bool" where
  "within_limits L c network_passphrase now_unix tx \<longleftrightarrow>
     network_passphrase = cap_network_passphrase c \<and>
     pred_option ((<) now_unix) (cap_expires_at_unix c) \<and>
     muxed_account_public_key L (tx_source tx) = cap_public_key c \<and>
     tx_fee tx \<le> cap_max_fee c \<and>
     length (tx_operations tx) \<in> {1..cap_max_operations c}"

definition permits :: "stellar_lib \<Rightarrow> agent_capability \<Rightarrow> muxed_account \<Rightarrow> operation \<Rightarrow> bool" where
  "permits L c = operation_within L (cap_public_key c) (set (cap_allowed_operations c))"

definition within_capability ::
  "stellar_lib \<Rightarrow> agent_capability \<Rightarrow> string \<Rightarrow> nat \<Rightarrow> transaction \<Rightarrow> bool" where
  "within_capability L c network_passphrase now_unix tx \<longleftrightarrow>
     within_limits L c network_passphrase now_unix tx \<and>
     list_all (permits L c (tx_source tx)) (tx_operations tx)"

lemma authorize_operations_Inr:
  "authorize_operations L c src i ops = Inr ts \<longleftrightarrow>
     list_all (permits L c src) ops \<and>
     ts = map (body_discriminant \<circ> op_body) ops"
  by (induction L c src i ops arbitrary: ts rule: authorize_operations.induct)
    (auto simp: permits_def operation_within_def effective_source_def result_simps Let_def split: if_splits)

lemma authorize_agent_transaction_Inr:
  "authorize_agent_transaction L c e np now = Inr a \<longleftrightarrow>
     (\<exists>tx. e = EnvTx tx [] \<and> within_capability L c np now tx \<and>
        a = \<lparr>aa_public_key = cap_public_key c,
             aa_operation_types = map (body_discriminant \<circ> op_body) (tx_operations tx),
             aa_fee = tx_fee tx\<rparr>)"
  by (auto simp: authorize_agent_transaction_def within_capability_def within_limits_def result_simps
      authorize_operations_Inr Suc_le_eq split: envelope.splits option.splits if_splits)

lemma agent_capability_new_Inr:
  "agent_capability_new L pk np ops m fee exp = Inr c \<longleftrightarrow>
     (\<exists>k. public_key_from_string L (trim pk) = Some k \<and> np \<noteq> [] \<and> ops \<noteq> [] \<and> m \<noteq> 0 \<and>
        c = \<lparr>cap_public_key = public_key_to_string L k, cap_network_passphrase = np,
             cap_allowed_operations = remdups_adj (sort ops), cap_max_operations = m,
             cap_max_fee = fee, cap_expires_at_unix = exp\<rparr>)"
  by (auto simp: agent_capability_new_def result_simps split: if_splits)

lemma sign_agent_transaction_Inr:
  "sign_agent_transaction L c e np now s = Inr (a, e') \<longleftrightarrow>
     (\<exists>k. public_key_from_string L (cs_public_key s) = Some k \<and>
        public_key_to_string L k = cap_public_key c) \<and>
     authorize_agent_transaction L c e np now = Inr a \<and>
     sign_transaction_envelope L e np s = Inr e'"
  by (auto simp: sign_agent_transaction_def result_simps split: if_splits)

text \<open>The first operation the policy forbids is the one the loop stops at.\<close>

lemma authorize_operations_split:
  assumes "list_all (permits L c src) before"
  shows "authorize_operations L c src i (before @ ops) =
    map_ok ((@) (map (body_discriminant \<circ> op_body) before))
      (authorize_operations L c src (i + length before) ops)"
  using assms
proof (induction before arbitrary: i)
  case Nil
  then show ?case by (cases "authorize_operations L c src i ops") auto
next
  case (Cons operation before)
  then show ?case
    by (cases "authorize_operations L c src (Suc i + length before) ops")
      (auto simp: permits_def operation_within_def effective_source_def Let_def)
qed

section \<open>Properties\<close>


text \<open>Conversely the checks forbid nothing else: every unsigned V1 envelope inside the
  capability is authorised, and everything the caller is told (the account, the operation types in
  order, the fee) is what the transaction holds; an envelope that carries a signature or is not a V1
  envelope never is.\<close>

theorem agent_authorization_exact:
  "(\<exists>a. authorize_agent_transaction L c e np now = Inr a) =
     (case e of
        EnvTx tx [] \<Rightarrow> within_capability L c np now tx \<and>
          authorize_agent_transaction L c e np now =
            Inr \<lparr>aa_public_key = cap_public_key c,
                 aa_operation_types = map (body_discriminant \<circ> op_body) (tx_operations tx),
                 aa_fee = tx_fee tx\<rparr>
      | _ \<Rightarrow> False)"
  by (auto simp: authorize_agent_transaction_Inr split: envelope.splits list.splits)

text \<open>A refusal names the first operation that leaves the capability: with the transaction's
  own checks passed and every earlier operation inside the capability, the error carries that
  operation's position, and says whether its source or its type is at fault.\<close>

theorem agent_rejects_first_offender:
  assumes "e = EnvTx tx []" "tx_operations tx = before @ operation # after"
    and "within_limits L c np now tx" "list_all (permits L c (tx_source tx)) before"
    and "\<not> permits L c (tx_source tx) operation"
  shows "authorize_agent_transaction L c e np now =
    Inl (if muxed_account_public_key L (effective_source (tx_source tx) operation) = cap_public_key c
         then OperationNotAllowed (length before) (body_discriminant (op_body operation))
         else OperationSourceNotAllowed (length before))"
  using assms
  by (auto simp: authorize_agent_transaction_def within_limits_def authorize_operations_split
      permits_def operation_within_def effective_source_def Let_def split: option.splits)

section \<open>Examples\<close>

definition demo_capability :: agent_capability where
  "demo_capability =
     \<lparr>cap_public_key = demo_key_text demo_key, cap_network_passphrase = ''net'',
      cap_allowed_operations = [OtPayment, OtBumpSequence], cap_max_operations = 2,
      cap_max_fee = 200, cap_expires_at_unix = Some 100\<rparr>"

lemma demo_capability_new:
  "agent_capability_new demo_lib (demo_key_text demo_key) ''net'' [OtBumpSequence, OtPayment, OtBumpSequence]
     2 200 (Some 100) = Inr demo_capability"
  using demo_public_key_text_plain
  by (simp add: agent_capability_new_Inr demo_capability_def public_key_text_plain_def
      less_eq_operation_type_def)

lemma demo_agent_sign:
  "sign_agent_transaction demo_lib demo_capability demo_env ''net'' 50 (software_classic demo_lib demo_signer) =
     Inr (\<lparr>aa_public_key = demo_key_text demo_key, aa_operation_types = [OtBumpSequence], aa_fee = 100\<rparr>,
          demo_signed)"
  by (simp add: sign_agent_transaction_Inr demo_sign)
    (simp add: software_classic_def demo_signer_def from_signing_key_def demo_capability_def
      authorize_agent_transaction_def demo_env_def demo_tx_def)


theorem agent_rejects_first_offender_witness:
  "authorize_agent_transaction demo_lib demo_capability
     (EnvTx (demo_tx [BumpSequenceOp 2, ManageDataOp [] None]) []) ''net'' 50 =
     Inl (OperationNotAllowed 1 OtManageData)"
  using agent_rejects_first_offender [of _ "demo_tx [BumpSequenceOp 2, ManageDataOp [] None]"
      "[\<lparr>op_source = None, op_body = BumpSequenceOp 2\<rparr>]" "\<lparr>op_source = None, op_body = ManageDataOp [] None\<rparr>"
      "[]" demo_lib demo_capability "''net''" 50, OF refl]
  by (simp add: demo_tx_def within_limits_def permits_def operation_within_def effective_source_def
      demo_capability_def)

end
