(* ===== verification/Asset.thy ===== *)
theory Asset
  imports Stellar
begin

text \<open>
  asset.rs of the client: the asset identity \<open>CODE:GISSUER\<close> in its text, Horizon and XDR forms.
  An \<open>AssetId\<close> wraps an XDR asset, so it is an \<open>asset\<close> here.
\<close>

section \<open>The operations\<close>

definition validate_asset_code :: "string \<Rightarrow> unit result" where
  "validate_asset_code code =
     (if code = [] \<or> length code > 12 \<or> \<not> list_all is_ascii_byte code
           \<or> \<not> list_all is_ascii_alphanumeric code
      then Inl ''issued asset code must be 1-12 ASCII letters or digits'' else Inr ())"

definition decode_code :: "bytes \<Rightarrow> string" where
  "decode_code raw = string_of_bytes (takeWhile (\<lambda>b. b \<noteq> 0) raw)"

definition pad_code :: "nat \<Rightarrow> string \<Rightarrow> bytes" where
  "pad_code n code = bytes_of code @ replicate (n - length code) 0"

definition asset_issued :: "stellar_lib \<Rightarrow> string \<Rightarrow> string \<Rightarrow> asset result" where
  "asset_issued L code issuer =
     and_then (validate_asset_code code) (\<lambda>_.
     and_then (ok_or ''asset issuer must be a Classic G address'' (account_id_from_string L issuer))
       (\<lambda>k. Inr (if length code \<le> 4 then AssetCreditAlphanum4 (pad_code 4 code) k
                 else AssetCreditAlphanum12 (pad_code 12 code) k)))"

definition asset_parse_issued :: "stellar_lib \<Rightarrow> string \<Rightarrow> asset result" where
  "asset_parse_issued L value =
     (case split_once (CHR '':'') value of
        None \<Rightarrow> Inl ''asset must be CODE:GISSUER''
      | Some (code, issuer) \<Rightarrow> asset_issued L code issuer)"

definition asset_parse :: "stellar_lib \<Rightarrow> string \<Rightarrow> asset result" where
  "asset_parse L value =
     (if eq_ignore_ascii_case value ''XLM'' then Inr AssetNative else asset_parse_issued L value)"

fun horizon_type :: "asset \<Rightarrow> string" where
  "horizon_type AssetNative = ''native''"
| "horizon_type (AssetCreditAlphanum4 _ _) = ''credit_alphanum4''"
| "horizon_type (AssetCreditAlphanum12 _ _) = ''credit_alphanum12''"

definition asset_from_horizon :: "stellar_lib \<Rightarrow> json \<Rightarrow> asset result" where
  "asset_from_horizon L value =
     (case get_str value ''asset_type'' of
        None \<Rightarrow> Inl ''Horizon returned unsupported asset type''
      | Some asset_type \<Rightarrow>
          (if asset_type = ''native'' then Inr AssetNative
           else if asset_type = ''credit_alphanum4'' \<or> asset_type = ''credit_alphanum12'' then
             and_then (ok_or ''Horizon returned malformed asset code'' (get_str value ''asset_code'')) (\<lambda>code.
             and_then (ok_or ''Horizon returned malformed asset issuer'' (get_str value ''asset_issuer'')) (\<lambda>issuer.
             and_then (asset_issued L code issuer) (\<lambda>asset.
               if horizon_type asset \<noteq> asset_type
               then Inl ''Horizon returned inconsistent asset type and code'' else Inr asset)))
           else Inl ''Horizon returned unsupported asset type''))"

fun asset_display :: "stellar_lib \<Rightarrow> asset \<Rightarrow> string" where
  "asset_display L AssetNative = ''XLM''"
| "asset_display L (AssetCreditAlphanum4 code k) = decode_code code @ '':'' @ public_key_to_string L k"
| "asset_display L (AssetCreditAlphanum12 code k) = decode_code code @ '':'' @ public_key_to_string L k"

fun is_native :: "asset \<Rightarrow> bool" where
  "is_native AssetNative = True"
| "is_native _ = False"

fun asset_code :: "asset \<Rightarrow> string option" where
  "asset_code AssetNative = None"
| "asset_code (AssetCreditAlphanum4 code _) = Some (decode_code code)"
| "asset_code (AssetCreditAlphanum12 code _) = Some (decode_code code)"

fun asset_issuer :: "stellar_lib \<Rightarrow> asset \<Rightarrow> string option" where
  "asset_issuer L AssetNative = None"
| "asset_issuer L (AssetCreditAlphanum4 _ k) = Some (public_key_to_string L k)"
| "asset_issuer L (AssetCreditAlphanum12 _ k) = Some (public_key_to_string L k)"

definition issuer_is :: "stellar_lib \<Rightarrow> asset \<Rightarrow> string \<Rightarrow> bool" where
  "issuer_is L a value \<longleftrightarrow> asset_issuer L a = Some value"

definition matches_balance :: "stellar_lib \<Rightarrow> asset \<Rightarrow> json \<Rightarrow> bool" where
  "matches_balance L a balance \<longleftrightarrow>
     (if is_native a then get_str balance ''asset_type'' = Some ''native''
      else get_str balance ''asset_code'' = asset_code a
         \<and> get_str balance ''asset_issuer'' = asset_issuer L a)"

definition asset_query :: "stellar_lib \<Rightarrow> asset \<Rightarrow> string \<Rightarrow> string" where
  "asset_query L a key_prefix =
     (if is_native a then key_prefix @ ''_asset_type=native''
      else key_prefix @ ''_asset_type='' @ horizon_type a @ ''&'' @ key_prefix @ ''_asset_code=''
           @ the (asset_code a) @ ''&'' @ key_prefix @ ''_asset_issuer='' @ the (asset_issuer L a))"

fun to_change_trust_xdr :: "asset \<Rightarrow> change_trust_asset result" where
  "to_change_trust_xdr AssetNative = Inl ''XLM does not use a trustline''"
| "to_change_trust_xdr (AssetCreditAlphanum4 code k) = Inr (CtCreditAlphanum4 code k)"
| "to_change_trust_xdr (AssetCreditAlphanum12 code k) = Inr (CtCreditAlphanum12 code k)"

section \<open>Well-formed identities\<close>

definition valid_code :: "string \<Rightarrow> bool" where
  "valid_code code \<longleftrightarrow> code \<noteq> [] \<and> length code \<le> 12 \<and> list_all is_ascii_alphanumeric code"

fun asset_ok :: "stellar_lib \<Rightarrow> asset \<Rightarrow> bool" where
  "asset_ok L AssetNative \<longleftrightarrow> True"
| "asset_ok L (AssetCreditAlphanum4 raw k) \<longleftrightarrow> length k = 32 \<and>
     (let code = decode_code raw in valid_code code \<and> length code \<le> 4 \<and> raw = pad_code 4 code)"
| "asset_ok L (AssetCreditAlphanum12 raw k) \<longleftrightarrow> length k = 32 \<and>
     (let code = decode_code raw in valid_code code \<and> 4 < length code \<and> raw = pad_code 12 code)"

lemma alphanumeric_ascii: "is_ascii_alphanumeric c \<Longrightarrow> is_ascii_byte c"
  by (auto simp: is_ascii_alphanumeric_def is_ascii_byte_def Let_def)

lemma validate_asset_code_Inr [result_simps]: "validate_asset_code code = Inr u \<longleftrightarrow> valid_code code"
  using alphanumeric_ascii by (auto simp: validate_asset_code_def valid_code_def list_all_iff)

lemma valid_code_no_colon: "valid_code code \<Longrightarrow> CHR '':'' \<notin> set code"
  by (auto simp: valid_code_def list_all_iff is_ascii_alphanumeric_def Let_def)

lemma of_char_word_eq_0: "(of_char c :: 8 word) = 0 \<longleftrightarrow> (of_char c :: nat) = 0"
proof -
  have "(of_char c :: 8 word) = 0 \<longleftrightarrow> unat (of_char c :: 8 word) = 0" by (rule unat_eq_zero [symmetric])
  then show ?thesis unfolding unat_of_char .
qed

lemma valid_code_nonzero: "valid_code code \<Longrightarrow> b \<in> set (bytes_of code) \<Longrightarrow> b \<noteq> 0"
  by (auto simp: valid_code_def list_all_iff is_ascii_alphanumeric_def Let_def bytes_of_def
      of_char_word_eq_0)

lemma decode_pad_code [simp]: "valid_code code \<Longrightarrow> decode_code (pad_code n code) = code"
proof -
  assume v: "valid_code code"
  then have "takeWhile (\<lambda>b. b \<noteq> 0) (bytes_of code @ replicate (n - length code) 0) = bytes_of code"
    by (subst takeWhile_append2) (auto dest: valid_code_nonzero)
  then show ?thesis by (simp add: decode_code_def pad_code_def)
qed

lemma asset_issued_Inr:
  "asset_issued L code issuer = Inr a \<longleftrightarrow> valid_code code \<and>
     (\<exists>k. public_key_from_string L issuer = Some k \<and>
        a = (if length code \<le> 4 then AssetCreditAlphanum4 (pad_code 4 code) k
             else AssetCreditAlphanum12 (pad_code 12 code) k))"
  by (auto simp: asset_issued_def result_simps account_id_from_string_def)

lemma asset_issued_ok:
  "public_key_codec L \<Longrightarrow> asset_issued L code issuer = Inr a \<Longrightarrow> asset_ok L a \<and> asset_code a = Some code"
  by (auto simp: asset_issued_Inr Let_def dest: public_key_codecD(2) split: if_splits)

lemma asset_parse_ok: "public_key_codec L \<Longrightarrow> asset_parse L s = Inr a \<Longrightarrow> asset_ok L a"
  by (auto simp: asset_parse_def asset_parse_issued_def asset_issued_ok split: if_splits option.splits)

lemma asset_from_horizon_ok: "public_key_codec L \<Longrightarrow> asset_from_horizon L v = Inr a \<Longrightarrow> asset_ok L a"
  by (auto simp: asset_from_horizon_def asset_issued_ok result_simps split: if_splits option.splits)

lemma not_xlm: "CHR '':'' \<in> set s \<Longrightarrow> \<not> eq_ignore_ascii_case s ''XLM''"
proof
  assume c: "CHR '':'' \<in> set s" and e: "eq_ignore_ascii_case s ''XLM''"
  have "to_ascii_lower (CHR '':'') = CHR '':''" by (simp add: to_ascii_lower_def)
  with c have "CHR '':'' \<in> set (map to_ascii_lower s)" by (metis imageI set_map)
  with e have "CHR '':'' \<in> set (map to_ascii_lower ''XLM'')"
    by (simp only: eq_ignore_ascii_case_def)
  then have "(of_char (CHR '':'') :: nat) \<in> of_char ` set (map to_ascii_lower ''XLM'')"
    by (rule imageI)
  then have "(58 :: nat) \<in> {120, 108, 109}" by (simp add: to_ascii_lower_def)
  then show False by simp
qed

lemma asset_parse_display_issued:
  assumes "public_key_codec L" "length k = 32" "valid_code code"
  shows "asset_parse L (code @ '':'' @ public_key_to_string L k) =
    Inr (if length code \<le> 4 then AssetCreditAlphanum4 (pad_code 4 code) k
         else AssetCreditAlphanum12 (pad_code 12 code) k)"
proof -
  have "\<not> eq_ignore_ascii_case (code @ '':'' @ public_key_to_string L k) ''XLM''"
    by (rule not_xlm) simp
  moreover have "split_once (CHR '':'') (code @ CHR '':'' # public_key_to_string L k) =
      Some (code, public_key_to_string L k)"
    by (rule split_once_append [OF valid_code_no_colon [OF assms(3)]])
  moreover have "asset_issued L code (public_key_to_string L k) =
      Inr (if length code \<le> 4 then AssetCreditAlphanum4 (pad_code 4 code) k
           else AssetCreditAlphanum12 (pad_code 12 code) k)"
    using assms by (simp add: asset_issued_Inr public_key_codecD)
  ultimately show ?thesis by (simp add: asset_parse_def asset_parse_issued_def)
qed

lemma xlm_is_native: "asset_parse L ''XLM'' = Inr AssetNative"
  by (simp add: asset_parse_def eq_ignore_ascii_case_def)

lemma asset_parse_display: "public_key_codec L \<Longrightarrow> asset_ok L a \<Longrightarrow> asset_parse L (asset_display L a) = Inr a"
proof (cases a)
  case (AssetCreditAlphanum4 raw k)
  assume "public_key_codec L" "asset_ok L a"
  with AssetCreditAlphanum4 show ?thesis
    using asset_parse_display_issued [of L k "decode_code raw"] by (simp add: Let_def)
next
  case (AssetCreditAlphanum12 raw k)
  assume "public_key_codec L" "asset_ok L a"
  with AssetCreditAlphanum12 show ?thesis
    using asset_parse_display_issued [of L k "decode_code raw"] by (simp add: Let_def)
qed (simp add: xlm_is_native)

interpretation asset_text: text_codec public_key_codec asset_ok asset_parse asset_display
  by unfold_locales (simp_all add: asset_parse_ok asset_parse_display)

text \<open>The Horizon fields of an asset.\<close>

definition horizon_asset_fields :: "stellar_lib \<Rightarrow> asset \<Rightarrow> (string \<times> json) list" where
  "horizon_asset_fields L a =
     (''asset_type'', JString (horizon_type a)) #
     (case asset_code a of None \<Rightarrow> [] | Some c \<Rightarrow> [(''asset_code'', JString c)]) @
     (case asset_issuer L a of None \<Rightarrow> [] | Some i \<Rightarrow> [(''asset_issuer'', JString i)])"

lemma asset_issued_display:
  assumes "public_key_codec L" "asset_ok L a" "asset_code a = Some c" "asset_issuer L a = Some i"
  shows "asset_issued L c i = Inr a"
  using assms by (cases a) (auto simp: asset_issued_Inr Let_def public_key_codecD)

lemma asset_from_horizon_fields:
  assumes "public_key_codec L" "asset_ok L a"
  shows "asset_from_horizon L (JObject (horizon_asset_fields L a)) = Inr a"
proof (cases "is_native a")
  case True
  then show ?thesis by (cases a) (simp_all add: asset_from_horizon_def horizon_asset_fields_def get_str_def)
next
  case False
  then obtain c i where ci: "asset_code a = Some c" "asset_issuer L a = Some i" by (cases a) auto
  have t: "horizon_type a = ''credit_alphanum4'' \<or> horizon_type a = ''credit_alphanum12''"
    using False by (cases a) auto
  have v: "get_str (JObject (horizon_asset_fields L a)) ''asset_type'' = Some (horizon_type a)"
    "get_str (JObject (horizon_asset_fields L a)) ''asset_code'' = Some c"
    "get_str (JObject (horizon_asset_fields L a)) ''asset_issuer'' = Some i"
    by (simp_all add: get_str_def horizon_asset_fields_def ci)
  have "horizon_type a \<noteq> ''native''" using t by auto
  with v t asset_issued_display [OF assms ci] show ?thesis
    by (simp add: asset_from_horizon_def)
qed

lemma asset_code_issuer_inj:
  assumes "public_key_codec L" "asset_ok L a" "asset_ok L b"
    and "asset_code a = asset_code b" "asset_issuer L a = asset_issuer L b"
  shows "a = b"
  by (rule asset_text.print_inj [OF assms(1-3)]) (use assms(4,5) in \<open>cases a; cases b; auto\<close>)

section \<open>Properties\<close>

text \<open>An asset has one canonical text: whatever accepted spelling it was parsed from, its
  displayed text and its Horizon fields read back as the same asset, and two parsed assets are
  displayed alike only if they are the same asset.\<close>

theorem asset_identity_roundtrip:
  assumes "public_key_codec L" "asset_parse L s = Inr a" "asset_parse L t = Inr b"
  shows "asset_parse L (asset_display L a) = Inr a \<and>
    asset_from_horizon L (JObject (horizon_asset_fields L a)) = Inr a \<and>
    (asset_display L a = asset_display L b \<longleftrightarrow> a = b)"
  using asset_text.reparse [OF assms(1,2)] asset_text.same_text_iff [OF assms]
    asset_from_horizon_fields [OF assms(1) asset_parse_ok [OF assms(1,2)]] by blast

lemma demo_parse_usd:
  "asset_parse demo_lib (''USD:'' @ demo_key_text demo_key) =
     Inr (AssetCreditAlphanum4 (pad_code 4 ''USD'') demo_key)"
  using asset_parse_display_issued [OF demo_public_key_codec demo_key_simps(1), of "''USD''"]
  by (simp add: valid_code_def is_ascii_alphanumeric_def)

theorem asset_identity_roundtrip_witness:
  "asset_display demo_lib (AssetCreditAlphanum4 (pad_code 4 ''USD'') demo_key) \<noteq>
     asset_display demo_lib AssetNative"
  using asset_identity_roundtrip [OF demo_public_key_codec demo_parse_usd xlm_is_native] by blast

end
