(* ===== verification/LedgerAuth.thy ===== *)
theory LedgerAuth
  imports CoreSigning "HOL-Library.List_Lexorder" "HOL-Library.Char_ord"
begin

text \<open>
  ledger_authorization.rs of the client: from the accounts' thresholds and signers and a transaction
  envelope to the plan of what must sign, and the summary of how far it is signed.
  A \<open>BTreeSet\<close> is a HOL set, iterated with \<open>sorted_list_of_set\<close> in the derived order of its
  elements. A \<open>u8\<close> weight is a \<open>nat\<close> that \<open>json_u8\<close> keeps below 256; the \<open>u32\<close> sum of an account's
  weights is a \<open>nat\<close> (it could only overflow with more than \<open>2 ^ 24\<close> signers).
\<close>

section \<open>The data\<close>

datatype authorization_threshold = Low | Medium | High

datatype ledger_signer_kind =
  Ed25519PublicKey | PreauthorizedTransaction | HashX | Ed25519SignedPayload

datatype ledger_signer_condition =
  Condition (lsc_kind: ledger_signer_kind) (lsc_key: string)

record weighted_ledger_signer =
  wls_condition :: ledger_signer_condition
  wls_weight :: nat

record ledger_account_authorization =
  laa_account_id :: string
  low_threshold :: nat
  medium_threshold :: nat
  high_threshold :: nat
  laa_signers :: "weighted_ledger_signer list"

datatype classic_operation_kind =
  KindCreateAccount | KindPayment | KindManageSellOffer | KindManageBuyOffer | KindChangeTrust
  | KindManageData | KindInvokeHostFunction | KindBumpSequence

datatype authorization_scope = TransactionSource | OperationScope nat classic_operation_kind

record authorization_use =
  au_scope :: authorization_scope
  au_threshold :: authorization_threshold
  au_required_weight :: nat

record account_authorization_requirement =
  aar_account_id :: string
  aar_required_weight :: nat
  aar_uses :: "authorization_use list"
  aar_signers :: "weighted_ledger_signer list"

record ledger_authorization_plan =
  lap_requirements :: "account_authorization_requirement list"
  lap_extra_signers :: "ledger_signer_condition set"

datatype ledger_signer_availability = Satisfied | LocalEd25519 | UnavailableLocally

record weighted_ledger_signer_snapshot =
  wss_condition :: ledger_signer_condition
  wss_weight :: nat
  wss_availability :: ledger_signer_availability

record extra_signer_snapshot =
  ess_condition :: ledger_signer_condition
  ess_availability :: ledger_signer_availability

record account_authorization_snapshot =
  aas_account_id :: string
  aas_required_weight :: nat
  satisfied_weight :: nat
  local_available_weight :: nat
  remaining_weight :: nat
  aas_uses :: "authorization_use list"
  aas_signers :: "weighted_ledger_signer_snapshot list"

record ledger_authorization_snapshot =
  las_transaction_hash :: string
  las_accounts :: "account_authorization_snapshot list"
  las_extra_signers :: "extra_signer_snapshot list"
  las_satisfied :: bool
  locally_satisfiable :: bool

text \<open>The derived orders: variants in the order of their declaration, then fields in order.\<close>

fun signer_kind_code :: "ledger_signer_kind \<Rightarrow> nat" where
  "signer_kind_code Ed25519PublicKey = 0"
| "signer_kind_code PreauthorizedTransaction = 1"
| "signer_kind_code HashX = 2"
| "signer_kind_code Ed25519SignedPayload = 3"

lemma signer_kind_code_inj: "signer_kind_code a = signer_kind_code b \<longleftrightarrow> a = b"
  by (cases a; cases b) auto

instantiation ledger_signer_condition :: linorder
begin

definition less_eq_ledger_signer_condition :: "ledger_signer_condition \<Rightarrow> ledger_signer_condition \<Rightarrow> bool" where
  "less_eq_ledger_signer_condition a b \<longleftrightarrow>
     signer_kind_code (lsc_kind a) < signer_kind_code (lsc_kind b) \<or>
     lsc_kind a = lsc_kind b \<and> lsc_key a \<le> lsc_key b"

definition less_ledger_signer_condition :: "ledger_signer_condition \<Rightarrow> ledger_signer_condition \<Rightarrow> bool" where
  "less_ledger_signer_condition a b \<longleftrightarrow>
     signer_kind_code (lsc_kind a) < signer_kind_code (lsc_kind b) \<or>
     lsc_kind a = lsc_kind b \<and> lsc_key a < lsc_key b"

instance
proof
  fix a b c :: ledger_signer_condition
  show "a < b \<longleftrightarrow> a \<le> b \<and> \<not> b \<le> a"
    by (auto simp: less_eq_ledger_signer_condition_def less_ledger_signer_condition_def)
  show "a \<le> a" by (simp add: less_eq_ledger_signer_condition_def)
  show "a \<le> b \<Longrightarrow> b \<le> c \<Longrightarrow> a \<le> c" by (auto simp: less_eq_ledger_signer_condition_def)
  show "a \<le> b \<Longrightarrow> b \<le> a \<Longrightarrow> a = b"
    by (auto simp: less_eq_ledger_signer_condition_def ledger_signer_condition.expand)
  have "lsc_key a \<le> lsc_key b \<or> lsc_key b \<le> lsc_key a" by (rule linear)
  then show "a \<le> b \<or> b \<le> a"
    using linorder_less_linear [of "signer_kind_code (lsc_kind a)" "signer_kind_code (lsc_kind b)"]
    by (auto simp: less_eq_ledger_signer_condition_def signer_kind_code_inj)
qed

end

section \<open>Account state from Horizon\<close>

definition json_string :: "json \<Rightarrow> string \<Rightarrow> string \<Rightarrow> string result" where
  "json_string value field label =
     ok_or (label @ '' is missing '' @ field) (get_str value field)"

definition json_u8 :: "json \<Rightarrow> string \<Rightarrow> string \<Rightarrow> nat result" where
  "json_u8 value field label =
     ok_or (label @ '' is missing '' @ field)
       (case Option.bind (json_get value field) as_u64 of
          Some n \<Rightarrow> if n \<le> 255 then Some n else None
        | None \<Rightarrow> None)"

fun signer_key_kind :: "signer_key \<Rightarrow> ledger_signer_kind" where
  "signer_key_kind (SignerEd25519 _) = Ed25519PublicKey"
| "signer_key_kind (SignerPreAuthTx _) = PreauthorizedTransaction"
| "signer_key_kind (SignerHashX _) = HashX"
| "signer_key_kind (SignerEd25519SignedPayload _ _) = Ed25519SignedPayload"

definition horizon_signer_kind :: "string \<Rightarrow> ledger_signer_kind result" where
  "horizon_signer_kind signer_type =
     (if signer_type = ''ed25519_public_key'' then Inr Ed25519PublicKey
      else if signer_type = ''preauth_tx'' then Inr PreauthorizedTransaction
      else if signer_type = ''sha256_hash'' then Inr HashX
      else if signer_type = ''ed25519_signed_payload'' then Inr Ed25519SignedPayload
      else Inl (''unsupported Horizon signer type: '' @ signer_type))"

text \<open>One turn of the loop over the account's signers, up to the duplicate check.\<close>

definition horizon_signer :: "stellar_lib \<Rightarrow> json \<Rightarrow> weighted_ledger_signer result" where
  "horizon_signer L signer =
     and_then (json_string signer ''key'' ''Horizon signer'') (\<lambda>key.
     and_then (json_string signer ''type'' ''Horizon signer'') (\<lambda>signer_type.
     and_then (horizon_signer_kind signer_type) (\<lambda>expected_kind.
     and_then (ok_or ''Horizon signer has an invalid StrKey'' (signer_key_from_string L key)) (\<lambda>parsed.
     and_then (ensure (signer_key_kind parsed = expected_kind)
        (''Horizon signer type '' @ signer_type @ '' does not match signer key'')) (\<lambda>_.
     and_then (json_u8 signer ''weight'' ''Horizon signer'') (\<lambda>weight.
       Inr \<lparr>wls_condition = Condition expected_kind key, wls_weight = weight\<rparr>))))))"

fun horizon_signers ::
  "stellar_lib \<Rightarrow> ledger_signer_condition set \<Rightarrow> json list \<Rightarrow> weighted_ledger_signer list result" where
  "horizon_signers L conditions [] = Inr []"
| "horizon_signers L conditions (signer # rest) =
     and_then (horizon_signer L signer) (\<lambda>s.
       if wls_condition s \<in> conditions
       then Inl ''Horizon account authorization contains a duplicate signer''
       else and_then (horizon_signers L (insert (wls_condition s) conditions) rest)
              (\<lambda>ss. Inr (s # ss)))"

definition authorization_from_horizon :: "stellar_lib \<Rightarrow> json \<Rightarrow> ledger_account_authorization result" where
  "authorization_from_horizon L account =
     and_then (json_string account ''account_id'' ''Horizon account authorization'') (\<lambda>account_id.
     and_then (ok_or ''Horizon account authorization has an invalid account_id''
        (account_id_from_string L account_id)) (\<lambda>_.
     and_then (ok_or ''Horizon account authorization is missing thresholds''
        (json_get account ''thresholds'')) (\<lambda>thresholds.
     and_then (json_u8 thresholds ''low_threshold'' ''Horizon account thresholds'') (\<lambda>low.
     and_then (json_u8 thresholds ''med_threshold'' ''Horizon account thresholds'') (\<lambda>med.
     and_then (json_u8 thresholds ''high_threshold'' ''Horizon account thresholds'') (\<lambda>high.
     and_then (ok_or ''Horizon account authorization is missing signers''
        (get_array account ''signers'')) (\<lambda>raw_signers.
     and_then (horizon_signers L {} raw_signers) (\<lambda>signers.
       Inr \<lparr>laa_account_id = account_id, low_threshold = low, medium_threshold = med,
            high_threshold = high, laa_signers = signers\<rparr>))))))))"

fun required_weight :: "ledger_account_authorization \<Rightarrow> authorization_threshold \<Rightarrow> nat" where
  "required_weight a Low = low_threshold a"
| "required_weight a Medium = medium_threshold a"
| "required_weight a High = high_threshold a"

section \<open>Requirements and plans\<close>

definition available_weight ::
  "account_authorization_requirement \<Rightarrow> ledger_signer_condition set \<Rightarrow> nat" where
  "available_weight r available =
     sum_list (map wls_weight (filter (\<lambda>s. wls_condition s \<in> available) (aar_signers r)))"

definition requirement_satisfiable_by ::
  "account_authorization_requirement \<Rightarrow> ledger_signer_condition set \<Rightarrow> bool" where
  "requirement_satisfiable_by r available \<longleftrightarrow> aar_required_weight r \<le> available_weight r available"

definition plan_satisfiable_by ::
  "ledger_authorization_plan \<Rightarrow> ledger_signer_condition set \<Rightarrow> bool" where
  "plan_satisfiable_by p available \<longleftrightarrow>
     lap_extra_signers p \<subseteq> available \<and>
     list_all (\<lambda>r. requirement_satisfiable_by r available) (lap_requirements p)"

definition signer_conditions :: "ledger_authorization_plan \<Rightarrow> ledger_signer_condition set" where
  "signer_conditions p =
     lap_extra_signers p \<union>
     set (concat (map (\<lambda>r. map wls_condition (aar_signers r)) (lap_requirements p)))"

definition signer_availability ::
  "ledger_signer_condition \<Rightarrow> ledger_signer_condition set \<Rightarrow> string set \<Rightarrow> ledger_signer_availability" where
  "signer_availability c satisfied local_keys =
     (if c \<in> satisfied then Satisfied
      else if lsc_kind c = Ed25519PublicKey \<and> lsc_key c \<in> local_keys then LocalEd25519
      else UnavailableLocally)"

definition available_after_local ::
  "ledger_authorization_plan \<Rightarrow> ledger_signer_condition set \<Rightarrow> string set \<Rightarrow> ledger_signer_condition set" where
  "available_after_local p satisfied local_keys =
     satisfied \<union> Set.filter (\<lambda>c. lsc_kind c = Ed25519PublicKey \<and> lsc_key c \<in> local_keys) (signer_conditions p)"

definition account_snapshot ::
  "ledger_signer_condition set \<Rightarrow> string set \<Rightarrow> ledger_signer_condition set
     \<Rightarrow> account_authorization_requirement \<Rightarrow> account_authorization_snapshot" where
  "account_snapshot satisfied local_keys after_local r =
     (let sw = available_weight r satisfied; aw = available_weight r after_local
      in \<lparr>aas_account_id = aar_account_id r, aas_required_weight = aar_required_weight r,
          satisfied_weight = sw, local_available_weight = aw - sw,
          remaining_weight = aar_required_weight r - aw, aas_uses = aar_uses r,
          aas_signers = map (\<lambda>s. \<lparr>wss_condition = wls_condition s, wss_weight = wls_weight s,
              wss_availability = signer_availability (wls_condition s) satisfied local_keys\<rparr>)
            (aar_signers r)\<rparr>)"

definition summarize_ledger_authorization ::
  "ledger_authorization_plan \<Rightarrow> ledger_signer_condition set \<Rightarrow> string set \<Rightarrow> string
     \<Rightarrow> ledger_authorization_snapshot" where
  "summarize_ledger_authorization p satisfied local_keys hash =
     (let after_local = available_after_local p satisfied local_keys
      in \<lparr>las_transaction_hash = hash,
          las_accounts = map (account_snapshot satisfied local_keys after_local) (lap_requirements p),
          las_extra_signers = map (\<lambda>c. \<lparr>ess_condition = c,
              ess_availability = signer_availability c satisfied local_keys\<rparr>)
            (sorted_list_of_set (lap_extra_signers p)),
          las_satisfied = plan_satisfiable_by p satisfied,
          locally_satisfiable = plan_satisfiable_by p after_local\<rparr>)"

section \<open>Which conditions an envelope already satisfies\<close>

text \<open>A loop that keeps the conditions passing a fallible test, in order.\<close>

fun filter_ok :: "('a \<Rightarrow> bool result) \<Rightarrow> 'a list \<Rightarrow> 'a set result" where
  "filter_ok f [] = Inr {}"
| "filter_ok f (x # xs) =
     and_then (f x) (\<lambda>keep. and_then (filter_ok f xs) (\<lambda>ys. Inr (if keep then insert x ys else ys)))"

definition ed25519_condition_satisfied ::
  "stellar_lib \<Rightarrow> envelope \<Rightarrow> string \<Rightarrow> ledger_signer_condition \<Rightarrow> bool result" where
  "ed25519_condition_satisfied L e np c =
     (if lsc_kind c \<noteq> Ed25519PublicKey then Inr False
      else map_err (\<lambda>x. ''Unable to verify existing transaction signature: '' @ signing_error_text x)
             (has_valid_signature L e np (lsc_key c)))"

definition satisfied_ed25519_conditions ::
  "stellar_lib \<Rightarrow> ledger_authorization_plan \<Rightarrow> envelope \<Rightarrow> string \<Rightarrow> ledger_signer_condition set result" where
  "satisfied_ed25519_conditions L p e np =
     filter_ok (ed25519_condition_satisfied L e np) (sorted_list_of_set (signer_conditions p))"

definition condition_satisfied ::
  "stellar_lib \<Rightarrow> envelope \<Rightarrow> string \<Rightarrow> ledger_signer_condition \<Rightarrow> bool result" where
  "condition_satisfied L e np c =
     and_then (ok_or ''Ledger authorization contains an invalid signer key''
       (signer_key_from_string L (lsc_key c))) (\<lambda>signer.
       map_err (\<lambda>x. ''Unable to verify transaction signer condition: '' @ signing_error_text x)
         (satisfies_signer_key L e np signer))"

definition satisfied_transaction_conditions ::
  "stellar_lib \<Rightarrow> ledger_authorization_plan \<Rightarrow> envelope \<Rightarrow> string \<Rightarrow> ledger_signer_condition set result" where
  "satisfied_transaction_conditions L p e np =
     filter_ok (condition_satisfied L e np) (sorted_list_of_set (signer_conditions p))"

section \<open>Planning\<close>

record required_authorization_use =
  rau_account_id :: string
  rau_scope :: authorization_scope
  rau_threshold :: authorization_threshold

fun authorization_account_id :: "stellar_lib \<Rightarrow> muxed_account \<Rightarrow> string" where
  "authorization_account_id L (MuxEd25519 k) = public_key_to_string L k"
| "authorization_account_id L (MuxMuxedEd25519 _ k) = public_key_to_string L k"

fun operation_authorization :: "operation_body \<Rightarrow> (classic_operation_kind \<times> authorization_threshold) option" where
  "operation_authorization (CreateAccountOp _ _) = Some (KindCreateAccount, Medium)"
| "operation_authorization (PaymentOp _ _ _) = Some (KindPayment, Medium)"
| "operation_authorization (ManageSellOfferOp _ _ _ _ _) = Some (KindManageSellOffer, Medium)"
| "operation_authorization (ManageBuyOfferOp _ _ _ _ _) = Some (KindManageBuyOffer, Medium)"
| "operation_authorization (ChangeTrustOp _ _) = Some (KindChangeTrust, Medium)"
| "operation_authorization (ManageDataOp _ _) = Some (KindManageData, Medium)"
| "operation_authorization (InvokeHostFunctionOp _ _) = Some (KindInvokeHostFunction, Medium)"
| "operation_authorization (BumpSequenceOp _) = Some (KindBumpSequence, Low)"
| "operation_authorization (OtherOp _ _) = None"

fun operation_uses ::
  "stellar_lib \<Rightarrow> string \<Rightarrow> nat \<Rightarrow> operation list \<Rightarrow> required_authorization_use list result" where
  "operation_uses L tx_src index [] = Inr []"
| "operation_uses L tx_src index (operation # rest) =
     (let source = (case op_source operation of Some m \<Rightarrow> authorization_account_id L m | None \<Rightarrow> tx_src)
      in and_then (ok_or (''Ledger Authorization does not yet support Classic operation #'' @ nat_to_dec index)
             (operation_authorization (op_body operation))) (\<lambda>(kind, threshold).
         and_then (operation_uses L tx_src (Suc index) rest) (\<lambda>us.
           Inr (\<lparr>rau_account_id = source, rau_scope = OperationScope index kind,
                 rau_threshold = threshold\<rparr> # us))))"

definition classic_authorization_uses ::
  "stellar_lib \<Rightarrow> envelope \<Rightarrow> required_authorization_use list result" where
  "classic_authorization_uses L e =
     (case e of
        EnvTx tx _ \<Rightarrow>
          (let src = authorization_account_id L (tx_source tx)
           in and_then (operation_uses L src 0 (tx_operations tx)) (\<lambda>us.
                Inr (\<lparr>rau_account_id = src, rau_scope = TransactionSource, rau_threshold = Low\<rparr> # us)))
      | _ \<Rightarrow> Inl ''Ledger Authorization currently supports TransactionV1Envelope only'')"

definition signer_condition_of :: "stellar_lib \<Rightarrow> signer_key \<Rightarrow> ledger_signer_condition" where
  "signer_condition_of L k = Condition (signer_key_kind k) (signer_key_to_string L k)"

fun collect_extra_signers ::
  "stellar_lib \<Rightarrow> ledger_signer_condition set \<Rightarrow> signer_key list \<Rightarrow> ledger_signer_condition set result" where
  "collect_extra_signers L conditions [] = Inr conditions"
| "collect_extra_signers L conditions (k # ks) =
     (let c = signer_condition_of L k
      in if c \<in> conditions then Inl ''PreconditionsV2.extraSigners contains a duplicate signer''
         else collect_extra_signers L (insert c conditions) ks)"

definition extra_signer_conditions ::
  "stellar_lib \<Rightarrow> envelope \<Rightarrow> ledger_signer_condition set result" where
  "extra_signer_conditions L e =
     (case e of
        EnvTx tx _ \<Rightarrow>
          (case tx_cond tx of
             PrecondV2 v2 \<Rightarrow> collect_extra_signers L {} (v2_extra_signers v2)
           | _ \<Rightarrow> Inr {})
      | _ \<Rightarrow> Inl ''Ledger Authorization currently supports TransactionV1Envelope only'')"

text \<open>The account index: a map, refusing a second state for one account.\<close>

fun index_accounts ::
  "(string \<Rightarrow> ledger_account_authorization option) \<Rightarrow> ledger_account_authorization list
     \<Rightarrow> (string \<Rightarrow> ledger_account_authorization option) result" where
  "index_accounts idx [] = Inr idx"
| "index_accounts idx (a # as) =
     (if idx (laa_account_id a) \<noteq> None
      then Inl (''duplicate ledger authorization state for '' @ laa_account_id a)
      else index_accounts (idx(laa_account_id a \<mapsto> a)) as)"

text \<open>\<open>find\<close> the requirement of the account and update it in place, or push a new one.\<close>

fun merge_requirement ::
  "string \<Rightarrow> nat \<Rightarrow> authorization_use \<Rightarrow> weighted_ledger_signer list
     \<Rightarrow> account_authorization_requirement list \<Rightarrow> account_authorization_requirement list" where
  "merge_requirement account_id weight u signers [] =
     [\<lparr>aar_account_id = account_id, aar_required_weight = weight, aar_uses = [u], aar_signers = signers\<rparr>]"
| "merge_requirement account_id weight u signers (r # rs) =
     (if aar_account_id r = account_id
      then r\<lparr>aar_required_weight := max (aar_required_weight r) weight, aar_uses := aar_uses r @ [u]\<rparr> # rs
      else r # merge_requirement account_id weight u signers rs)"

definition add_requirement ::
  "account_authorization_requirement list \<Rightarrow> (string \<Rightarrow> ledger_account_authorization option)
     \<Rightarrow> string \<Rightarrow> authorization_scope \<Rightarrow> authorization_threshold
     \<Rightarrow> account_authorization_requirement list result" where
  "add_requirement requirements accounts account_id scope threshold =
     (case accounts account_id of
        None \<Rightarrow> Inl (''missing ledger authorization state for source account '' @ account_id)
      | Some account \<Rightarrow>
          (let threshold_weight = required_weight account threshold;
               weight = max threshold_weight 1
           in Inr (merge_requirement account_id weight
                \<lparr>au_scope = scope, au_threshold = threshold, au_required_weight = threshold_weight\<rparr>
                (laa_signers account) requirements)))"

fun add_requirements ::
  "(string \<Rightarrow> ledger_account_authorization option) \<Rightarrow> account_authorization_requirement list
     \<Rightarrow> required_authorization_use list \<Rightarrow> account_authorization_requirement list result" where
  "add_requirements accounts requirements [] = Inr requirements"
| "add_requirements accounts requirements (u # us) =
     and_then (add_requirement requirements accounts (rau_account_id u) (rau_scope u) (rau_threshold u))
       (\<lambda>requirements'. add_requirements accounts requirements' us)"

definition plan_classic_ledger_authorization ::
  "stellar_lib \<Rightarrow> envelope \<Rightarrow> ledger_account_authorization list \<Rightarrow> ledger_authorization_plan result" where
  "plan_classic_ledger_authorization L e accounts =
     and_then (classic_authorization_uses L e) (\<lambda>uses.
     and_then (extra_signer_conditions L e) (\<lambda>extra.
     and_then (index_accounts Map.empty accounts) (\<lambda>idx.
     and_then (add_requirements idx [] uses) (\<lambda>requirements.
       Inr \<lparr>lap_requirements = requirements, lap_extra_signers = extra\<rparr>))))"

text \<open>Fetching the accounts; \<open>fetch\<close> is the Horizon request of the caller.\<close>

fun fetch_accounts ::
  "stellar_lib \<Rightarrow> (string \<Rightarrow> json result) \<Rightarrow> string list \<Rightarrow> ledger_account_authorization list result" where
  "fetch_accounts L fetch [] = Inr []"
| "fetch_accounts L fetch (account_id # rest) =
     and_then (fetch account_id) (\<lambda>raw.
     and_then (map_err (\<lambda>error. ''Unable to interpret ledger authorization for '' @ account_id @ '': '' @ error)
        (authorization_from_horizon L raw)) (\<lambda>account.
     and_then (ensure (laa_account_id account = account_id)
        (''Horizon returned ledger authorization for '' @ laa_account_id account @ '' while loading '' @ account_id))
       (\<lambda>_. and_then (fetch_accounts L fetch rest) (\<lambda>as. Inr (account # as)))))"

definition load_plan_with ::
  "stellar_lib \<Rightarrow> envelope \<Rightarrow> (string \<Rightarrow> json result) \<Rightarrow> ledger_authorization_plan result" where
  "load_plan_with L e fetch =
     and_then (classic_authorization_uses L e) (\<lambda>uses.
     and_then (fetch_accounts L fetch (sorted_list_of_set (set (map rau_account_id uses)))) (\<lambda>accounts.
       plan_classic_ledger_authorization L e accounts))"

section \<open>Weights and satisfaction\<close>

lemma sum_list_filter_mono:
  fixes f :: "'a \<Rightarrow> nat"
  shows "(\<And>x. P x \<Longrightarrow> Q x) \<Longrightarrow> sum_list (map f (filter P xs)) \<le> sum_list (map f (filter Q xs))"
  by (induction xs) (auto intro: add_mono trans_le_add2)

lemma available_weight_mono: "A \<subseteq> B \<Longrightarrow> available_weight r A \<le> available_weight r B"
  unfolding available_weight_def by (rule sum_list_filter_mono) auto

lemma plan_satisfiable_mono: "A \<subseteq> B \<Longrightarrow> plan_satisfiable_by p A \<Longrightarrow> plan_satisfiable_by p B"
  by (auto simp: plan_satisfiable_by_def requirement_satisfiable_by_def list_all_iff
      dest: available_weight_mono intro: le_trans)

text \<open>Only the plan's own conditions matter.\<close>

lemma available_weight_cong:
  assumes "\<And>c. c \<in> wls_condition ` set (aar_signers r) \<Longrightarrow> c \<in> A \<longleftrightarrow> c \<in> B"
  shows "available_weight r A = available_weight r B"
proof -
  have "filter (\<lambda>s. wls_condition s \<in> A) (aar_signers r) = filter (\<lambda>s. wls_condition s \<in> B) (aar_signers r)"
    by (rule filter_cong) (use assms in auto)
  then show ?thesis by (simp add: available_weight_def)
qed

lemma available_weight_insert_other:
  "c \<notin> wls_condition ` set (aar_signers r) \<Longrightarrow> available_weight r (insert c A) = available_weight r A"
  by (rule available_weight_cong) auto

lemma signer_in_conditions:
  "r \<in> set (lap_requirements p) \<Longrightarrow> s \<in> set (aar_signers r) \<Longrightarrow> wls_condition s \<in> signer_conditions p"
  by (auto simp: signer_conditions_def)

lemma finite_signer_conditions: "finite (lap_extra_signers p) \<Longrightarrow> finite (signer_conditions p)"
  by (simp add: signer_conditions_def)

lemma plan_satisfiable_cong:
  assumes "\<And>c. c \<in> signer_conditions p \<Longrightarrow> c \<in> A \<longleftrightarrow> c \<in> B"
  shows "plan_satisfiable_by p A \<longleftrightarrow> plan_satisfiable_by p B"
proof -
  have "available_weight r A = available_weight r B" if "r \<in> set (lap_requirements p)" for r
    by (rule available_weight_cong) (use assms that in \<open>auto simp: signer_in_conditions\<close>)
  moreover have "c \<in> A \<longleftrightarrow> c \<in> B" if "c \<in> lap_extra_signers p" for c
    using assms that by (auto simp: signer_conditions_def)
  ultimately show ?thesis
    by (auto simp: plan_satisfiable_by_def requirement_satisfiable_by_def list_all_iff)
qed

section \<open>The plan is what every use of an account asks for\<close>

text \<open>
  Abstractly, an authorization use is granted by a set of conditions if the account's signers among
  them weigh at least its threshold, and at least one (a zero threshold still needs a signer).
\<close>

definition use_authorized ::
  "(string \<Rightarrow> ledger_account_authorization option) \<Rightarrow> ledger_signer_condition set
     \<Rightarrow> required_authorization_use \<Rightarrow> bool" where
  "use_authorized accounts available u \<longleftrightarrow>
     (case accounts (rau_account_id u) of
        None \<Rightarrow> False
      | Some a \<Rightarrow>
          max 1 (required_weight a (rau_threshold u)) \<le>
            sum_list (map wls_weight (filter (\<lambda>s. wls_condition s \<in> available) (laa_signers a))))"

definition uses_of :: "string \<Rightarrow> required_authorization_use list \<Rightarrow> required_authorization_use list" where
  "uses_of account us = filter (\<lambda>u. rau_account_id u = account) us"

definition planned_use ::
  "ledger_account_authorization \<Rightarrow> required_authorization_use \<Rightarrow> authorization_use" where
  "planned_use a u =
     \<lparr>au_scope = rau_scope u, au_threshold = rau_threshold u,
      au_required_weight = required_weight a (rau_threshold u)\<rparr>"

definition max_weight :: "authorization_use list \<Rightarrow> nat" where
  "max_weight us = foldl (\<lambda>w u. max w (max (au_required_weight u) 1)) 0 us"

text \<open>The requirements after the uses \<open>us\<close>: one per account, its uses in order, their largest weight.\<close>

definition requirements_for ::
  "(string \<Rightarrow> ledger_account_authorization option) \<Rightarrow> required_authorization_use list
     \<Rightarrow> account_authorization_requirement list \<Rightarrow> bool" where
  "requirements_for accounts us rs \<longleftrightarrow>
     distinct (map aar_account_id rs) \<and>
     aar_account_id ` set rs = rau_account_id ` set us \<and>
     (\<forall>r \<in> set rs. \<exists>a. accounts (aar_account_id r) = Some a \<and> aar_signers r = laa_signers a \<and>
        aar_uses r = map (planned_use a) (uses_of (aar_account_id r) us) \<and>
        aar_required_weight r = max_weight (aar_uses r))"

lemma merge_requirement_ids:
  "map aar_account_id (merge_requirement account w u signers rs) =
     (if account \<in> aar_account_id ` set rs then map aar_account_id rs
      else map aar_account_id rs @ [account])"
  by (induction rs) auto

lemma merge_requirement_mem:
  assumes "distinct (map aar_account_id rs)" "r \<in> set (merge_requirement account w u signers rs)"
  shows "(aar_account_id r \<noteq> account \<and> r \<in> set rs) \<or>
    (account \<notin> aar_account_id ` set rs \<and>
      r = \<lparr>aar_account_id = account, aar_required_weight = w, aar_uses = [u], aar_signers = signers\<rparr>) \<or>
    (\<exists>q \<in> set rs. aar_account_id q = account \<and>
      r = q\<lparr>aar_required_weight := max (aar_required_weight q) w, aar_uses := aar_uses q @ [u]\<rparr>)"
  using assms
proof (induction rs)
  case (Cons q rs)
  show ?case
  proof (cases "aar_account_id q = account")
    case True
    with Cons.prems have "account \<notin> aar_account_id ` set rs" by simp
    then have "\<And>x. x \<in> set rs \<Longrightarrow> aar_account_id x \<noteq> account" by blast
    with True Cons.prems show ?thesis by auto
  next
    case False
    with Cons show ?thesis by (auto simp: eq_commute)
  qed
qed simp

lemma max_weight_snoc [simp]: "max_weight (us @ [u]) = max (max_weight us) (max (au_required_weight u) 1)"
  by (simp add: max_weight_def)

lemma max_weight_Nil [simp]: "max_weight [] = 0"
  by (simp add: max_weight_def)

lemma uses_of_snoc [simp]:
  "uses_of account (us @ [u]) = uses_of account us @ (if rau_account_id u = account then [u] else [])"
  by (simp add: uses_of_def)

lemma uses_of_none: "account \<notin> rau_account_id ` set us \<Longrightarrow> uses_of account us = []"
  by (auto simp: uses_of_def filter_empty_conv)

lemma add_requirement_for:
  assumes inv: "requirements_for accounts us rs"
    and add: "add_requirement rs accounts (rau_account_id u) (rau_scope u) (rau_threshold u) = Inr rs'"
  shows "requirements_for accounts (us @ [u]) rs'"
proof -
  from add obtain a where a: "accounts (rau_account_id u) = Some a"
    and rs': "rs' = merge_requirement (rau_account_id u) (max (required_weight a (rau_threshold u)) 1)
      (planned_use a u) (laa_signers a) rs"
    by (auto simp: add_requirement_def planned_use_def Let_def split: option.splits)
  let ?ok = "\<lambda>us r. \<exists>a. accounts (aar_account_id r) = Some a \<and> aar_signers r = laa_signers a \<and>
        aar_uses r = map (planned_use a) (uses_of (aar_account_id r) us) \<and>
        aar_required_weight r = max_weight (aar_uses r)"
  from inv have d: "distinct (map aar_account_id rs)"
    and ids: "aar_account_id ` set rs = rau_account_id ` set us"
    and ok: "\<And>r. r \<in> set rs \<Longrightarrow> ?ok us r"
    by (auto simp: requirements_for_def)
  note mem = merge_requirement_mem [OF d, of _ "rau_account_id u" "max (required_weight a (rau_threshold u)) 1"
      "planned_use a u" "laa_signers a", folded rs']
  have idl: "map aar_account_id rs' = (if rau_account_id u \<in> aar_account_id ` set rs
      then map aar_account_id rs else map aar_account_id rs @ [rau_account_id u])"
    by (simp add: rs' merge_requirement_ids)
  then have d': "distinct (map aar_account_id rs')" using d by auto
  have "set (map aar_account_id rs') = insert (rau_account_id u) (set (map aar_account_id rs))"
    unfolding idl by auto
  with ids have ids': "aar_account_id ` set rs' = rau_account_id ` set (us @ [u])" by simp
  have "?ok (us @ [u]) r" if r': "r \<in> set rs'" for r
  proof (cases "aar_account_id r = rau_account_id u")
    case False
    with mem [OF r'] have "r \<in> set rs" by auto
    with ok False show ?thesis by (auto simp: eq_commute)
  next
    case True
    show ?thesis
    proof (cases "rau_account_id u \<in> aar_account_id ` set rs")
      case False
      from True False have r: "r = \<lparr>aar_account_id = rau_account_id u,
          aar_required_weight = max (required_weight a (rau_threshold u)) 1,
          aar_uses = [planned_use a u], aar_signers = laa_signers a\<rparr>"
        using mem [OF r'] by (metis image_eqI)
      from False ids have "uses_of (rau_account_id u) us = []" by (simp add: uses_of_none)
      with a show ?thesis
        by (simp add: r max_weight_def planned_use_def)
    next
      case True': True
      from True True' obtain q where q: "q \<in> set rs" "aar_account_id q = rau_account_id u"
        and r: "r = q\<lparr>aar_required_weight := max (aar_required_weight q) (max (required_weight a (rau_threshold u)) 1),
            aar_uses := aar_uses q @ [planned_use a u]\<rparr>"
        using mem [OF r'] by blast
      from ok [OF q(1)] q(2) a show ?thesis
        by (simp add: r planned_use_def)
    qed
  qed
  with d' ids' show ?thesis by (simp add: requirements_for_def)
qed

lemma add_requirements_for:
  "add_requirements accounts rs vs = Inr rs' \<Longrightarrow> requirements_for accounts us rs \<Longrightarrow>
     requirements_for accounts (us @ vs) rs'"
proof (induction vs arbitrary: rs us)
  case (Cons v vs)
  then obtain q where "add_requirement rs accounts (rau_account_id v) (rau_scope v) (rau_threshold v) = Inr q"
    and "add_requirements accounts q vs = Inr rs'"
    by (auto simp: result_simps)
  with Cons.IH [of q "us @ [v]"] Cons.prems(2) show ?case by (simp add: add_requirement_for)
qed simp

lemma plan_requirements_for:
  assumes "plan_classic_ledger_authorization L e accounts = Inr p"
  obtains us idx where "classic_authorization_uses L e = Inr us" "index_accounts Map.empty accounts = Inr idx"
    "extra_signer_conditions L e = Inr (lap_extra_signers p)" "requirements_for idx us (lap_requirements p)"
proof -
  from assms obtain us idx rs where
    "classic_authorization_uses L e = Inr us" "index_accounts Map.empty accounts = Inr idx"
    "extra_signer_conditions L e = Inr (lap_extra_signers p)"
    "add_requirements idx [] us = Inr (lap_requirements p)"
    by (auto simp: plan_classic_ledger_authorization_def result_simps)
  moreover have "requirements_for idx [] []" by (simp add: requirements_for_def)
  ultimately show thesis using that add_requirements_for [of idx "[]" us "lap_requirements p" "[]"] by simp
qed

lemma max_weight_le_iff:
  "us \<noteq> [] \<Longrightarrow> max_weight us \<le> w \<longleftrightarrow> (\<forall>u \<in> set us. max 1 (au_required_weight u) \<le> w)"
proof (induction us rule: rev_induct)
  case (snoc u us)
  then show ?case by (cases "us = []") (auto simp: max_weight_def)
qed simp

lemma requirements_for_satisfiable:
  assumes "requirements_for accounts us rs"
  shows "list_all (\<lambda>r. requirement_satisfiable_by r A) rs \<longleftrightarrow> list_all (use_authorized accounts A) us"
proof -
  have each: "requirement_satisfiable_by r A \<longleftrightarrow> (\<forall>u \<in> set (uses_of (aar_account_id r) us). use_authorized accounts A u)"
    if r: "r \<in> set rs" for r
  proof -
    from assms r obtain a where a: "accounts (aar_account_id r) = Some a" "aar_signers r = laa_signers a"
      "aar_uses r = map (planned_use a) (uses_of (aar_account_id r) us)"
      "aar_required_weight r = max_weight (aar_uses r)"
      by (auto simp: requirements_for_def)
    have "aar_account_id r \<in> rau_account_id ` set us"
      using assms r by (auto simp: requirements_for_def)
    then have ne: "aar_uses r \<noteq> []" by (auto simp: a(3) uses_of_def filter_empty_conv)
    have "use_authorized accounts A u \<longleftrightarrow> max 1 (required_weight a (rau_threshold u)) \<le> available_weight r A"
      if "u \<in> set (uses_of (aar_account_id r) us)" for u
      using that a(1,2) by (auto simp: uses_of_def use_authorized_def available_weight_def)
    then show ?thesis
      using max_weight_le_iff [OF ne] a(3,4)
      by (auto simp: requirement_satisfiable_by_def planned_use_def)
  qed
  have "(\<forall>r \<in> set rs. \<forall>u \<in> set (uses_of (aar_account_id r) us). use_authorized accounts A u) \<longleftrightarrow>
      (\<forall>u \<in> set us. use_authorized accounts A u)"
  proof -
    have "\<exists>r \<in> set rs. u \<in> set (uses_of (aar_account_id r) us)" if "u \<in> set us" for u
      using assms that by (auto simp: requirements_for_def uses_of_def set_eq_iff image_iff)
    then show ?thesis by (auto simp: uses_of_def)
  qed
  with each show ?thesis by (simp add: list_all_iff)
qed

section \<open>Signing and the plan\<close>

lemma filter_ok_Inr:
  "filter_ok f xs = Inr ys \<longleftrightarrow>
     (\<forall>x \<in> set xs. \<exists>b. f x = Inr b) \<and> ys = {x \<in> set xs. f x = Inr True}"
proof (induction xs arbitrary: ys)
  case (Cons x xs)
  show ?case
  proof (cases "f x")
    case (Inr b)
    have "filter_ok f (x # xs) = Inr ys \<longleftrightarrow>
        (\<exists>zs. filter_ok f xs = Inr zs \<and> ys = (if b then insert x zs else zs))"
      using Inr by (auto simp: result_simps)
    also have "\<dots> \<longleftrightarrow> (\<forall>y \<in> set xs. \<exists>b. f y = Inr b) \<and>
        ys = (if b then insert x {y \<in> set xs. f y = Inr True} else {y \<in> set xs. f y = Inr True})"
      unfolding Cons.IH by auto
    also have "(if b then insert x {y \<in> set xs. f y = Inr True} else {y \<in> set xs. f y = Inr True}) =
        {y \<in> set (x # xs). f y = Inr True}"
      using Inr by auto
    finally show ?thesis using Inr by simp
  qed auto
qed auto

lemma satisfied_transaction_conditions_Inr:
  assumes "finite (lap_extra_signers p)"
  shows "satisfied_transaction_conditions L p e np = Inr S \<longleftrightarrow>
    (\<forall>c \<in> signer_conditions p. \<exists>b. condition_satisfied L e np c = Inr b) \<and>
    S = {c \<in> signer_conditions p. condition_satisfied L e np c = Inr True}"
  using finite_signer_conditions [OF assms]
  by (simp add: satisfied_transaction_conditions_def filter_ok_Inr)

lemma condition_satisfied_True:
  "condition_satisfied L e np c = Inr True \<longleftrightarrow>
     (\<exists>k. signer_key_from_string L (lsc_key c) = Some k \<and> satisfies_signer_key L e np k = Inr True)"
  by (auto simp: condition_satisfied_def result_simps)

lemma satisfied_conditions_mono:
  assumes "hash_excludes_signatures L" "finite (lap_extra_signers p)"
    and "set (env_signatures e) \<subseteq> set sigs"
    and S: "satisfied_transaction_conditions L p e np = Inr S"
    and S': "satisfied_transaction_conditions L p (with_signatures e sigs) np = Inr S'"
  shows "S \<subseteq> S'"
  using S S' satisfies_signer_key_mono [OF assms(1,3)]
  by (auto simp: satisfied_transaction_conditions_Inr [OF assms(2)] condition_satisfied_True)

lemma collect_extra_signers_finite:
  "collect_extra_signers L cs ks = Inr ds \<Longrightarrow> finite cs \<Longrightarrow> finite ds"
  by (induction ks arbitrary: cs) (auto simp: Let_def split: if_splits)

lemma extra_signer_conditions_finite: "extra_signer_conditions L e = Inr ds \<Longrightarrow> finite ds"
  by (auto simp: extra_signer_conditions_def intro: collect_extra_signers_finite
      split: envelope.splits preconditions.splits)

section \<open>Properties\<close>

text \<open>C22. The plan of a transaction asks for exactly what its source and its operations ask for: a
  set of signer conditions satisfies the plan if and only if it has every extra signer and
  authorises each use of each source account at that use's own threshold, a zero threshold still
  needing a signer.\<close>

theorem plan_satisfiable_iff_uses_authorized:
  assumes "plan_classic_ledger_authorization L e accounts = Inr p"
  shows "\<exists>us idx. classic_authorization_uses L e = Inr us \<and> index_accounts Map.empty accounts = Inr idx \<and>
    extra_signer_conditions L e = Inr (lap_extra_signers p) \<and>
    (\<forall>A. plan_satisfiable_by p A \<longleftrightarrow> lap_extra_signers p \<subseteq> A \<and> list_all (use_authorized idx A) us)"
proof -
  from assms obtain us idx where "classic_authorization_uses L e = Inr us"
    "index_accounts Map.empty accounts = Inr idx" "extra_signer_conditions L e = Inr (lap_extra_signers p)"
    and rqs: "requirements_for idx us (lap_requirements p)"
    by (rule plan_requirements_for)
  then show ?thesis
    by (auto simp: plan_satisfiable_by_def requirements_for_satisfiable [OF rqs])
qed

text \<open>A plan has one requirement per account that the transaction or an operation names as its
  source, which lists that account's uses in the order of the operations, and whose weight is the
  largest of their thresholds, at least one.\<close>

theorem plan_requirements_shape:
  assumes "plan_classic_ledger_authorization L e accounts = Inr p"
  shows "\<exists>us idx. classic_authorization_uses L e = Inr us \<and> index_accounts Map.empty accounts = Inr idx \<and>
    requirements_for idx us (lap_requirements p)"
  using assms by (rule plan_requirements_for) blast

text \<open>Signing never loses ledger authorization: if a plan is satisfied by the conditions an
  envelope satisfies, it is still satisfied by those of the signed envelope.\<close>

theorem signing_keeps_authorization:
  assumes "hash_excludes_signatures L"
    and "plan_classic_ledger_authorization L e0 accounts = Inr p"
    and "sign_transaction_envelope L e np s = Inr e'"
    and "satisfied_transaction_conditions L p e np = Inr S"
    and "satisfied_transaction_conditions L p e' np = Inr S'"
    and "plan_satisfiable_by p S"
  shows "plan_satisfiable_by p S'"
proof -
  have "finite (lap_extra_signers p)"
    using assms(2) by (rule plan_requirements_for) (simp add: extra_signer_conditions_finite)
  moreover obtain d where "e' = with_signatures e (env_signatures e @ [d])"
    using assms(3) by (auto simp: sign_transaction_envelope_Inr)
  ultimately have "S \<subseteq> S'"
    using satisfied_conditions_mono [OF assms(1) _ _ assms(4), of "env_signatures e @ [d]" S'] assms(5)
    by (simp add: subset_insertI)
  with assms(6) show ?thesis by (rule plan_satisfiable_mono [rotated])
qed

lemma available_after_local_mem:
  assumes "c \<in> signer_conditions p"
  shows "c \<in> available_after_local p S K \<longleftrightarrow> signer_availability c S K \<noteq> UnavailableLocally"
  using assms by (auto simp: available_after_local_def signer_availability_def)

text \<open>The summary shown to the user is exact: it reports the transaction as satisfied exactly
  when every account's satisfied weight reaches its requirement and every extra signer is
  satisfied, and as locally satisfiable exactly when no weight remains and no extra signer is
  unavailable; the first implies the second.\<close>

theorem summary_exact:
  fixes p S K h
  defines "view \<equiv> summarize_ledger_authorization p S K h"
  assumes "finite (lap_extra_signers p)"
  shows "(las_satisfied view \<longleftrightarrow>
      list_all (\<lambda>a. aas_required_weight a \<le> satisfied_weight a) (las_accounts view) \<and>
      list_all (\<lambda>x. ess_availability x = Satisfied) (las_extra_signers view))
    \<and> (locally_satisfiable view \<longleftrightarrow>
      list_all (\<lambda>a. remaining_weight a = 0) (las_accounts view) \<and>
      list_all (\<lambda>x. ess_availability x \<noteq> UnavailableLocally) (las_extra_signers view))
    \<and> (las_satisfied view \<longrightarrow> locally_satisfiable view)"
proof -
  have extra: "lap_extra_signers p \<subseteq> available_after_local p S K \<longleftrightarrow>
      (\<forall>c \<in> lap_extra_signers p. signer_availability c S K \<noteq> UnavailableLocally)"
    using available_after_local_mem [of _ p S K] by (auto simp: signer_conditions_def)
  have sat: "lap_extra_signers p \<subseteq> S \<longleftrightarrow> (\<forall>c \<in> lap_extra_signers p. signer_availability c S K = Satisfied)"
    by (auto simp: signer_availability_def split: if_splits)
  have "S \<subseteq> available_after_local p S K" by (simp add: available_after_local_def)
  then have "plan_satisfiable_by p S \<Longrightarrow> plan_satisfiable_by p (available_after_local p S K)"
    by (rule plan_satisfiable_mono)
  with extra sat assms(2) show ?thesis
    by (auto simp: view_def summarize_ledger_authorization_def Let_def account_snapshot_def
        plan_satisfiable_by_def requirement_satisfiable_by_def list_all_iff)
qed

section \<open>Examples\<close>

definition demo_account :: ledger_account_authorization where
  "demo_account =
     \<lparr>laa_account_id = demo_key_text demo_key, low_threshold = 0, medium_threshold = 2, high_threshold = 3,
      laa_signers = [\<lparr>wls_condition = Condition Ed25519PublicKey (demo_key_text demo_key), wls_weight = 1\<rparr>]\<rparr>"

definition demo_plan :: ledger_authorization_plan where
  "demo_plan =
     \<lparr>lap_requirements =
        [\<lparr>aar_account_id = demo_key_text demo_key, aar_required_weight = 1,
          aar_uses = [\<lparr>au_scope = TransactionSource, au_threshold = Low, au_required_weight = 0\<rparr>,
            \<lparr>au_scope = OperationScope 0 KindBumpSequence, au_threshold = Low, au_required_weight = 0\<rparr>],
          aar_signers = laa_signers demo_account\<rparr>],
      lap_extra_signers = {}\<rparr>"

lemma demo_plan_ok: "plan_classic_ledger_authorization demo_lib demo_env [demo_account] = Inr demo_plan"
  by (simp add: plan_classic_ledger_authorization_def classic_authorization_uses_def demo_env_def demo_tx_def
      extra_signer_conditions_def demo_account_def demo_plan_def add_requirement_def Let_def)

lemma demo_uses:
  "classic_authorization_uses demo_lib demo_env = Inr us \<Longrightarrow> length us = 2"
  by (auto simp: classic_authorization_uses_def demo_env_def demo_tx_def Let_def)

theorem plan_satisfiable_iff_uses_authorized_witness:
  "\<not> plan_satisfiable_by demo_plan {} \<and>
   (\<exists>us idx. length us = 2 \<and> \<not> list_all (use_authorized idx {}) us)"
proof -
  have "\<not> plan_satisfiable_by demo_plan {}"
    by (simp add: demo_plan_def plan_satisfiable_by_def requirement_satisfiable_by_def available_weight_def)
  with plan_satisfiable_iff_uses_authorized [OF demo_plan_ok] demo_uses show ?thesis
    by (auto simp: demo_plan_def)
qed

theorem plan_requirements_shape_witness:
  "\<exists>us idx. length us = 2 \<and> requirements_for idx us (lap_requirements demo_plan)"
  using plan_requirements_shape [OF demo_plan_ok] demo_uses by blast

lemma demo_conditions: "signer_conditions demo_plan = {Condition Ed25519PublicKey (demo_key_text demo_key)}"
  by (simp add: signer_conditions_def demo_plan_def demo_account_def)

lemma demo_signer_key_parse: "signer_key_from_string demo_lib (demo_key_text demo_key) = Some (SignerEd25519 demo_key)"
  by (simp add: demo_lib_def demo_parse_signer_key_def demo_key_text_def)

lemma demo_condition_signed:
  "condition_satisfied demo_lib demo_signed np (Condition Ed25519PublicKey (demo_key_text demo_key)) = Inr True"
  by (simp add: condition_satisfied_def demo_signer_key_parse demo_signed_def ed25519_decorated_def
      transaction_hash_with_signatures [OF demo_hash_excludes_signatures] demo_transaction_hash hint_of_key)

text \<open>A second signer signs the envelope that already satisfies the plan.\<close>

definition demo_cosigner :: software_signer where
  "demo_cosigner = from_signing_key demo_lib (replicate 32 9)"

definition demo_cosigned :: envelope where
  "demo_cosigned = with_signatures demo_signed (env_signatures demo_signed @
     [\<lparr>sig_hint = replicate 4 9, sig_bytes = demo_pad 64 (replicate 32 9)\<rparr>])"

lemma demo_cosign:
  "sign_transaction_envelope demo_lib demo_signed np (software_classic demo_lib demo_cosigner) = Inr demo_cosigned"
proof -
  have "demo_pad 32 (replicate 32 9) = replicate 32 9" by (simp add: demo_pad_def)
  moreover have "demo_pad 64 (replicate 32 9) \<noteq> demo_pad 64 demo_key"
    by (simp add: demo_pad_def demo_key_def numeral_eq_Suc)
  ultimately show ?thesis
    unfolding sign_transaction_envelope_Inr
    by (simp add: demo_signed_def transaction_hash_with_signatures [OF demo_hash_excludes_signatures]
        demo_transaction_hash software_classic_def demo_cosigner_def from_signing_key_def demo_cosigned_def
        max_signature_bytes_def max_signatures_def)
qed

lemma demo_condition_cosigned:
  "condition_satisfied demo_lib demo_cosigned np (Condition Ed25519PublicKey (demo_key_text demo_key)) = Inr True"
  by (simp add: condition_satisfied_def demo_signer_key_parse demo_cosigned_def demo_signed_def ed25519_decorated_def
      transaction_hash_with_signatures [OF demo_hash_excludes_signatures] demo_transaction_hash hint_of_key)

lemma demo_plan_finite: "finite (lap_extra_signers demo_plan)"
  by (simp add: demo_plan_def)

lemma demo_satisfied:
  "satisfied_transaction_conditions demo_lib demo_plan demo_signed np = Inr (signer_conditions demo_plan)"
  "satisfied_transaction_conditions demo_lib demo_plan demo_cosigned np = Inr (signer_conditions demo_plan)"
  unfolding satisfied_transaction_conditions_Inr [OF demo_plan_finite]
  by (auto simp: demo_conditions demo_condition_signed demo_condition_cosigned)

theorem signing_keeps_authorization_witness: "plan_satisfiable_by demo_plan (signer_conditions demo_plan)"
  by (rule signing_keeps_authorization [OF demo_hash_excludes_signatures demo_plan_ok demo_cosign demo_satisfied])
    (simp add: demo_conditions, simp add: demo_plan_def demo_account_def plan_satisfiable_by_def
      requirement_satisfiable_by_def available_weight_def)

theorem summary_exact_witness:
  "\<not> las_satisfied (summarize_ledger_authorization demo_plan {} {demo_key_text demo_key} ''00'')"
  using summary_exact [of demo_plan "{}" "{demo_key_text demo_key}" "''00''"]
  by (simp add: demo_plan_def demo_account_def summarize_ledger_authorization_def Let_def
      plan_satisfiable_by_def requirement_satisfiable_by_def available_weight_def)

end
