(* ===== verification/SigningSelection.thy ===== *)
theory SigningSelection
  imports LedgerAuth
begin

text \<open>
  signing_coordination.rs of the client: which of the available Ed25519 keys are asked to sign so
  that a ledger authorization plan becomes satisfied, and with how many proofs.
  The two \<open>while\<close> loops are functions with a termination proof: each turn takes a signer that was
  not yet counted, so the number of signers left decreases.
\<close>

section \<open>Selection\<close>

text \<open>\<open>Iterator::max_by_key\<close> returns the last of several maximal elements.\<close>

fun max_by_weight :: "weighted_ledger_signer list \<Rightarrow> weighted_ledger_signer option" where
  "max_by_weight [] = None"
| "max_by_weight (s # ss) =
     (case max_by_weight ss of
        None \<Rightarrow> Some s
      | Some t \<Rightarrow> if wls_weight s > wls_weight t then Some s else Some t)"

definition is_candidate ::
  "ledger_signer_condition set \<Rightarrow> string set \<Rightarrow> weighted_ledger_signer \<Rightarrow> bool" where
  "is_candidate current available s \<longleftrightarrow>
     lsc_kind (wls_condition s) = Ed25519PublicKey \<and> lsc_key (wls_condition s) \<in> available \<and>
     wls_condition s \<notin> current"

definition best_available_signer ::
  "weighted_ledger_signer list \<Rightarrow> ledger_signer_condition set \<Rightarrow> string set \<Rightarrow> weighted_ledger_signer option" where
  "best_available_signer signers current available =
     max_by_weight (filter (is_candidate current available) signers)"

lemma max_by_weight_None [simp]: "max_by_weight ss = None \<longleftrightarrow> ss = []"
  by (cases ss) (auto split: option.splits)

lemma max_by_weight_Some:
  "max_by_weight ss = Some s \<Longrightarrow> s \<in> set ss \<and> (\<forall>t \<in> set ss. wls_weight t \<le> wls_weight s)"
  by (induction ss arbitrary: s) (force split: option.splits if_splits)+

lemma best_available_None:
  "best_available_signer signers current available = None \<longleftrightarrow>
     (\<forall>s \<in> set signers. \<not> is_candidate current available s)"
  by (auto simp: best_available_signer_def filter_empty_conv)

lemma best_available_Some:
  assumes "best_available_signer signers current available = Some s"
  shows "s \<in> set signers" "is_candidate current available s"
    "\<And>t. t \<in> set signers \<Longrightarrow> is_candidate current available t \<Longrightarrow> wls_weight t \<le> wls_weight s"
  using max_by_weight_Some [OF assms [unfolded best_available_signer_def]] by auto

lemma candidates_decrease:
  assumes "s \<in> set signers" "is_candidate current available s"
  shows "length (filter (is_candidate (insert (wls_condition s) current) available) signers)
    < length (filter (is_candidate current available) signers)"
proof -
  have "filter (is_candidate (insert (wls_condition s) current) available) signers =
      filter (\<lambda>t. wls_condition t \<noteq> wls_condition s) (filter (is_candidate current available) signers)"
    by (auto simp: is_candidate_def intro: filter_cong)
  moreover have "length (filter (\<lambda>t. wls_condition t \<noteq> wls_condition s) (filter (is_candidate current available) signers))
      < length (filter (is_candidate current available) signers)"
    by (rule length_filter_less [of s]) (use assms in auto)
  ultimately show ?thesis by simp
qed

text \<open>The first loop: every extra signer must be satisfied already or be an available key.\<close>

fun select_extra ::
  "ledger_signer_condition list \<Rightarrow> string set \<Rightarrow> ledger_signer_condition set \<Rightarrow> string list
     \<Rightarrow> (ledger_signer_condition set \<times> string list) result" where
  "select_extra [] available current selected = Inr (current, selected)"
| "select_extra (c # cs) available current selected =
     (if c \<in> current then select_extra cs available current selected
      else if lsc_kind c \<noteq> Ed25519PublicKey \<or> lsc_key c \<notin> available
      then Inl (''Signing Coordination cannot satisfy required extra signer: '' @ lsc_key c)
      else select_extra cs available (insert c current) (selected @ [lsc_key c]))"

text \<open>The loop for one requirement.\<close>

function select_for ::
  "account_authorization_requirement \<Rightarrow> string set \<Rightarrow> ledger_signer_condition set \<Rightarrow> string list
     \<Rightarrow> (ledger_signer_condition set \<times> string list) result" where
  "select_for r available current selected =
     (if available_weight r current < aar_required_weight r then
        (case best_available_signer (aar_signers r) current available of
           None \<Rightarrow> Inl (''Signing Coordination cannot satisfy ledger authorization: '' @ aar_account_id r
             @ '' requires weight '' @ nat_to_dec (aar_required_weight r)
             @ '' but has '' @ nat_to_dec (available_weight r current))
         | Some signer \<Rightarrow> select_for r available (insert (wls_condition signer) current)
             (selected @ [lsc_key (wls_condition signer)]))
      else Inr (current, selected))"
  by pat_completeness auto
termination
  by (relation "measure (\<lambda>(r, available, current, selected).
        length (filter (is_candidate current available) (aar_signers r)))")
    (auto intro: candidates_decrease dest: best_available_Some(1) best_available_Some(2))

declare select_for.simps [simp del]

fun select_all ::
  "account_authorization_requirement list \<Rightarrow> string set \<Rightarrow> ledger_signer_condition set \<Rightarrow> string list
     \<Rightarrow> (ledger_signer_condition set \<times> string list) result" where
  "select_all [] available current selected = Inr (current, selected)"
| "select_all (r # rs) available current selected =
     and_then (select_for r available current selected) (\<lambda>(current', selected').
       select_all rs available current' selected')"

definition ed25519_count :: "ledger_signer_condition set \<Rightarrow> nat" where
  "ed25519_count current = card (Set.filter (\<lambda>c. lsc_kind c = Ed25519PublicKey) current)"

text \<open>The last loop: up to \<open>minimum_signatures\<close> keys in all.\<close>

function select_proofs ::
  "weighted_ledger_signer list \<Rightarrow> string set \<Rightarrow> nat \<Rightarrow> ledger_signer_condition set \<Rightarrow> string list
     \<Rightarrow> string list result" where
  "select_proofs signers available minimum current selected =
     (if ed25519_count current < minimum then
        (case best_available_signer signers current available of
           None \<Rightarrow> Inl ''Signing Coordination cannot provide the required Ed25519 proof''
         | Some signer \<Rightarrow> select_proofs signers available minimum (insert (wls_condition signer) current)
             (selected @ [lsc_key (wls_condition signer)]))
      else Inr selected)"
  by pat_completeness auto
termination
  by (relation "measure (\<lambda>(signers, available, minimum, current, selected).
        length (filter (is_candidate current available) signers))")
    (auto intro: candidates_decrease dest: best_available_Some(1) best_available_Some(2))

declare select_proofs.simps [simp del]

definition select_ed25519_signers ::
  "ledger_authorization_plan \<Rightarrow> ledger_signer_condition set \<Rightarrow> string set \<Rightarrow> nat \<Rightarrow> string list result" where
  "select_ed25519_signers p satisfied available minimum =
     and_then (select_extra (sorted_list_of_set (lap_extra_signers p)) available satisfied [])
       (\<lambda>(current, selected). and_then (select_all (lap_requirements p) available current selected)
         (\<lambda>(current', selected').
           select_proofs (concat (map aar_signers (lap_requirements p))) available minimum current' selected'))"

definition select_local_ed25519_signers ::
  "ledger_authorization_plan \<Rightarrow> ledger_signer_condition set \<Rightarrow> string set \<Rightarrow> nat \<Rightarrow> string list result" where
  "select_local_ed25519_signers p satisfied local_keys minimum =
     select_ed25519_signers p satisfied local_keys minimum"

section \<open>What the loops keep\<close>

text \<open>
  The selection so far: the counted conditions are the ones satisfied at the start and the keys
  selected, each of them usable, new and taken once.
\<close>

definition key_conditions :: "string list \<Rightarrow> ledger_signer_condition set" where
  "key_conditions keys = Condition Ed25519PublicKey ` set keys"

definition usable :: "ledger_authorization_plan \<Rightarrow> string set \<Rightarrow> ledger_signer_condition set" where
  "usable p available = {c \<in> signer_conditions p. lsc_kind c = Ed25519PublicKey \<and> lsc_key c \<in> available}"

definition selection ::
  "ledger_authorization_plan \<Rightarrow> ledger_signer_condition set \<Rightarrow> string set \<Rightarrow> ledger_signer_condition set \<Rightarrow> string list \<Rightarrow> bool" where
  "selection p satisfied available current selected \<longleftrightarrow>
     current = satisfied \<union> key_conditions selected \<and> distinct selected \<and>
     key_conditions selected \<subseteq> usable p available \<and> key_conditions selected \<inter> satisfied = {}"

lemma condition_eta: "lsc_kind c = k \<Longrightarrow> Condition k (lsc_key c) = c"
  by (cases c) auto

lemma selection_start: "selection p satisfied available satisfied []"
  by (simp add: selection_def key_conditions_def)

lemma selection_step:
  assumes "selection p satisfied available current selected"
    and "c \<notin> current" "c \<in> signer_conditions p" "lsc_kind c = Ed25519PublicKey" "lsc_key c \<in> available"
  shows "selection p satisfied available (insert c current) (selected @ [lsc_key c])"
proof -
  have "key_conditions (selected @ [lsc_key c]) = insert c (key_conditions selected)"
    using assms(4) by (simp add: key_conditions_def condition_eta)
  moreover have "lsc_key c \<notin> set selected"
  proof
    assume "lsc_key c \<in> set selected"
    then have "c \<in> key_conditions selected"
      using condition_eta [OF assms(4)] by (metis key_conditions_def imageI)
    with assms(1,2) show False by (auto simp: selection_def)
  qed
  ultimately show ?thesis
    using assms by (auto simp: selection_def usable_def)
qed

lemma selection_candidate:
  assumes "selection p satisfied available current selected"
    and "is_candidate current available s" "wls_condition s \<in> signer_conditions p"
  shows "selection p satisfied available (insert (wls_condition s) current) (selected @ [lsc_key (wls_condition s)])"
  using assms by (auto simp: is_candidate_def intro: selection_step)

lemma selection_bound:
  "selection p satisfied available current selected \<Longrightarrow> current \<subseteq> satisfied \<union> usable p available"
  by (auto simp: selection_def)

lemma select_extra_Inr:
  assumes "select_extra cs available current selected = Inr (current', selected')"
    and "selection p satisfied available current selected" "set cs \<subseteq> signer_conditions p"
  shows "selection p satisfied available current' selected' \<and> set cs \<subseteq> current' \<and> current \<subseteq> current'"
  using assms
proof (induction cs arbitrary: current selected)
  case (Cons c cs)
  show ?case
  proof (cases "c \<in> current")
    case True
    with Cons.IH [of current selected] Cons.prems show ?thesis by auto
  next
    case False
    with Cons.prems have "select_extra cs available (insert c current) (selected @ [lsc_key c]) = Inr (current', selected')"
      and "selection p satisfied available (insert c current) (selected @ [lsc_key c])"
      by (auto intro!: selection_step split: if_splits)
    with Cons.IH Cons.prems(3) show ?thesis by fastforce
  qed
qed auto

lemma select_extra_ok:
  assumes "set cs \<subseteq> current \<union> {c. lsc_kind c = Ed25519PublicKey \<and> lsc_key c \<in> available}"
  shows "\<exists>current' selected'. select_extra cs available current selected = Inr (current', selected')"
  using assms
proof (induction cs arbitrary: current selected)
  case (Cons c cs)
  then have "set cs \<subseteq> insert c current \<union> {c. lsc_kind c = Ed25519PublicKey \<and> lsc_key c \<in> available}"
    by auto
  with Cons show ?case
    using Cons.IH [of current selected] Cons.IH [of "insert c current" "selected @ [lsc_key c]"] by auto
qed simp

lemma select_for_Inr:
  assumes "select_for r available current selected = Inr (current', selected')"
    and "selection p satisfied available current selected" "r \<in> set (lap_requirements p)"
  shows "selection p satisfied available current' selected' \<and> requirement_satisfiable_by r current' \<and>
    current \<subseteq> current'"
  using assms
proof (induction r available current selected rule: select_for.induct)
  case (1 r available current selected)
  show ?case
  proof (cases "available_weight r current < aar_required_weight r")
    case True
    with 1(2) obtain s where s: "best_available_signer (aar_signers r) current available = Some s"
      and rec: "select_for r available (insert (wls_condition s) current) (selected @ [lsc_key (wls_condition s)]) =
        Inr (current', selected')"
      by (subst (asm) select_for.simps) (auto split: option.splits)
    from best_available_Some [OF s] 1(4) have "wls_condition s \<in> signer_conditions p"
      by (auto simp: signer_in_conditions)
    with best_available_Some(2) [OF s] 1(3)
    have "selection p satisfied available (insert (wls_condition s) current) (selected @ [lsc_key (wls_condition s)])"
      by (intro selection_candidate)
    from 1(1) [OF True s rec this 1(4)] show ?thesis by auto
  next
    case False
    with 1(2,3) show ?thesis
      by (subst (asm) select_for.simps) (auto simp: requirement_satisfiable_by_def)
  qed
qed

lemma available_weight_ed25519:
  assumes "\<And>s. s \<in> set (aar_signers r) \<Longrightarrow> \<not> is_candidate current available s"
    and "r \<in> set (lap_requirements p)"
  shows "available_weight r (satisfied \<union> usable p available) \<le> available_weight r (satisfied \<union> current)"
proof -
  have "available_weight r (satisfied \<union> usable p available \<union> current) = available_weight r (satisfied \<union> current)"
    by (rule available_weight_cong) (use assms in \<open>force simp: is_candidate_def usable_def\<close>)
  with available_weight_mono [of "satisfied \<union> usable p available" "satisfied \<union> usable p available \<union> current" r]
  show ?thesis by auto
qed

lemma select_for_ok:
  assumes "selection p satisfied available current selected" "r \<in> set (lap_requirements p)"
    and "requirement_satisfiable_by r (satisfied \<union> usable p available)"
  shows "\<exists>current' selected'. select_for r available current selected = Inr (current', selected')"
  using assms
proof (induction r available current selected rule: select_for.induct)
  case (1 r available current selected)
  show ?case
  proof (cases "available_weight r current < aar_required_weight r")
    case True
    show ?thesis
    proof (cases "best_available_signer (aar_signers r) current available")
      case None
      have "satisfied \<union> current = current" using 1(2) by (auto simp: selection_def)
      with None available_weight_ed25519 [of r current available p satisfied] 1(3,4) True
      show ?thesis by (auto simp: best_available_None requirement_satisfiable_by_def)
    next
      case (Some s)
      from best_available_Some [OF Some] 1(3) have "wls_condition s \<in> signer_conditions p"
        by (auto simp: signer_in_conditions)
      with best_available_Some(2) [OF Some] 1(2)
      have "selection p satisfied available (insert (wls_condition s) current) (selected @ [lsc_key (wls_condition s)])"
        by (intro selection_candidate)
      from 1(1) [OF True Some this 1(3,4)] True Some show ?thesis
        by (subst select_for.simps) simp
    qed
  qed (subst select_for.simps, simp)
qed

lemma select_all_Inr:
  assumes "select_all rs available current selected = Inr (current', selected')"
    and "selection p satisfied available current selected" "set rs \<subseteq> set (lap_requirements p)"
  shows "selection p satisfied available current' selected' \<and>
    list_all (\<lambda>r. requirement_satisfiable_by r current') rs \<and> current \<subseteq> current'"
  using assms
proof (induction rs arbitrary: current selected)
  case (Cons r rs)
  from Cons.prems(1) obtain c1 s1 where first: "select_for r available current selected = Inr (c1, s1)"
    and rest: "select_all rs available c1 s1 = Inr (current', selected')"
    by (auto simp: result_simps)
  from select_for_Inr [OF first Cons.prems(2)] Cons.prems(3)
  have 1: "selection p satisfied available c1 s1" "requirement_satisfiable_by r c1" "current \<subseteq> c1" by auto
  from Cons.IH [OF rest 1(1)] Cons.prems(3)
  have 2: "selection p satisfied available current' selected'"
    "list_all (\<lambda>r. requirement_satisfiable_by r current') rs" "c1 \<subseteq> current'" by auto
  from 1(2) available_weight_mono [OF 2(3), of r] have "requirement_satisfiable_by r current'"
    by (simp add: requirement_satisfiable_by_def)
  with 1 2 show ?case by auto
qed simp

lemma select_all_ok:
  assumes "selection p satisfied available current selected" "set rs \<subseteq> set (lap_requirements p)"
    and "list_all (\<lambda>r. requirement_satisfiable_by r (satisfied \<union> usable p available)) rs"
  shows "\<exists>current' selected'. select_all rs available current selected = Inr (current', selected')"
  using assms
proof (induction rs arbitrary: current selected)
  case (Cons r rs)
  from Cons.prems obtain c1 s1 where first: "select_for r available current selected = Inr (c1, s1)"
    using select_for_ok [OF Cons.prems(1), of r] by auto
  with select_for_Inr [OF first Cons.prems(1)] Cons.prems have "selection p satisfied available c1 s1" by simp
  with Cons.IH [of c1 s1] Cons.prems first show ?case by auto
qed simp

lemma ed25519_count_mono: "finite B \<Longrightarrow> A \<subseteq> B \<Longrightarrow> ed25519_count A \<le> ed25519_count B"
  unfolding ed25519_count_def by (rule card_mono) auto

lemma select_proofs_Inr:
  assumes "select_proofs signers available minimum current selected = Inr selected'"
    and "selection p satisfied available current selected"
    and "wls_condition ` set signers \<subseteq> signer_conditions p"
  shows "\<exists>current'. selection p satisfied available current' selected' \<and>
    minimum \<le> ed25519_count current' \<and> current \<subseteq> current'"
  using assms
proof (induction signers available minimum current selected rule: select_proofs.induct)
  case (1 signers available minimum current selected)
  show ?case
  proof (cases "ed25519_count current < minimum")
    case True
    with 1(2) obtain s where s: "best_available_signer signers current available = Some s"
      and rec: "select_proofs signers available minimum (insert (wls_condition s) current)
        (selected @ [lsc_key (wls_condition s)]) = Inr selected'"
      by (subst (asm) select_proofs.simps) (auto split: option.splits)
    from best_available_Some [OF s] 1(4) have "wls_condition s \<in> signer_conditions p" by auto
    with best_available_Some(2) [OF s] 1(3)
    have "selection p satisfied available (insert (wls_condition s) current) (selected @ [lsc_key (wls_condition s)])"
      by (intro selection_candidate)
    from 1(1) [OF True s rec this 1(4)] show ?thesis by auto
  next
    case False
    with 1(2) have "selected' = selected" by (subst (asm) select_proofs.simps) simp
    with False 1(3) show ?thesis by auto
  qed
qed

lemma select_proofs_ok:
  assumes "selection p satisfied available current selected"
    and "wls_condition ` set signers \<subseteq> signer_conditions p"
    and "usable p available \<subseteq> wls_condition ` set signers \<union> current" "finite satisfied"
    and "minimum \<le> ed25519_count (satisfied \<union> usable p available)"
  shows "\<exists>selected'. select_proofs signers available minimum current selected = Inr selected'"
  using assms
proof (induction signers available minimum current selected rule: select_proofs.induct)
  case (1 signers available minimum current selected)
  show ?case
  proof (cases "ed25519_count current < minimum")
    case True
    show ?thesis
    proof (cases "best_available_signer signers current available")
      case None
      then have "usable p available \<subseteq> current"
        using 1(4) by (force simp: best_available_None is_candidate_def usable_def)
      moreover have "satisfied \<subseteq> current" "finite current"
        using 1(2,5) by (auto simp: selection_def key_conditions_def)
      ultimately have "ed25519_count (satisfied \<union> usable p available) \<le> ed25519_count current"
        by (intro ed25519_count_mono) auto
      with True 1(6) show ?thesis by simp
    next
      case (Some s)
      from best_available_Some [OF Some] 1(3) have "wls_condition s \<in> signer_conditions p" by auto
      with best_available_Some(2) [OF Some] 1(2)
      have "selection p satisfied available (insert (wls_condition s) current) (selected @ [lsc_key (wls_condition s)])"
        by (intro selection_candidate)
      from 1(1) [OF True Some this 1(3) _ 1(5,6)] 1(4) True Some show ?thesis
        by (subst select_proofs.simps) auto
    qed
  qed (subst select_proofs.simps, simp)
qed

lemma selection_satisfies_min:
  "selection p satisfied available current selected \<Longrightarrow> finite satisfied \<Longrightarrow> finite (lap_extra_signers p) \<Longrightarrow>
     ed25519_count current \<le> ed25519_count (satisfied \<union> usable p available)"
  by (rule ed25519_count_mono)
    (auto simp: selection_def usable_def finite_signer_conditions)

lemma select_ed25519_signers_Inr:
  assumes "select_ed25519_signers p satisfied available minimum = Inr keys" "finite (lap_extra_signers p)"
  shows "\<exists>current. selection p satisfied available current keys \<and> plan_satisfiable_by p current \<and>
    minimum \<le> ed25519_count current"
proof -
  from assms(1) obtain c1 s1 c2 s2 where
    1: "select_extra (sorted_list_of_set (lap_extra_signers p)) available satisfied [] = Inr (c1, s1)"
    and 2: "select_all (lap_requirements p) available c1 s1 = Inr (c2, s2)"
    and 3: "select_proofs (concat (map aar_signers (lap_requirements p))) available minimum c2 s2 = Inr keys"
    by (auto simp: select_ed25519_signers_def result_simps)
  have a: "selection p satisfied available c1 s1" "lap_extra_signers p \<subseteq> c1"
    using select_extra_Inr [OF 1 selection_start] assms(2) by (auto simp: signer_conditions_def)
  have b: "selection p satisfied available c2 s2" "c1 \<subseteq> c2"
    "list_all (\<lambda>r. requirement_satisfiable_by r c2) (lap_requirements p)"
    using select_all_Inr [OF 2 a(1)] by auto
  obtain c3 where c: "selection p satisfied available c3 keys" "minimum \<le> ed25519_count c3" "c2 \<subseteq> c3"
    using select_proofs_Inr [OF 3 b(1)] by (auto simp: signer_conditions_def)
  from a b have "plan_satisfiable_by p c2" by (auto simp: plan_satisfiable_by_def)
  with c plan_satisfiable_mono show ?thesis by blast
qed

lemma select_ed25519_signers_ok:
  assumes "finite (lap_extra_signers p)" "finite satisfied"
    and "plan_satisfiable_by p (satisfied \<union> usable p available)"
    and "minimum \<le> ed25519_count (satisfied \<union> usable p available)"
  shows "\<exists>keys. select_ed25519_signers p satisfied available minimum = Inr keys"
proof -
  have "set (sorted_list_of_set (lap_extra_signers p)) \<subseteq>
      satisfied \<union> {c. lsc_kind c = Ed25519PublicKey \<and> lsc_key c \<in> available}"
    using assms(1,3) by (auto simp: plan_satisfiable_by_def usable_def)
  then obtain c1 s1 where
    1: "select_extra (sorted_list_of_set (lap_extra_signers p)) available satisfied [] = Inr (c1, s1)"
    using select_extra_ok by blast
  have a: "selection p satisfied available c1 s1" "lap_extra_signers p \<subseteq> c1"
    using select_extra_Inr [OF 1 selection_start] assms(1) by (auto simp: signer_conditions_def)
  obtain c2 s2 where 2: "select_all (lap_requirements p) available c1 s1 = Inr (c2, s2)"
    using select_all_ok [OF a(1), of "lap_requirements p"] assms(3) by (auto simp: plan_satisfiable_by_def)
  have b: "selection p satisfied available c2 s2" "c1 \<subseteq> c2"
    using select_all_Inr [OF 2 a(1)] by auto
  have "usable p available \<subseteq> wls_condition ` set (concat (map aar_signers (lap_requirements p))) \<union> c2"
    using a(2) b(2) by (auto simp: usable_def signer_conditions_def)
  then show ?thesis
    using select_proofs_ok [OF b(1), of "concat (map aar_signers (lap_requirements p))" minimum] assms 1 2
    by (fastforce simp: select_ed25519_signers_def signer_conditions_def)
qed

section \<open>Properties\<close>

text \<open>C23. A selection is sound: with the signatures of the selected keys the plan is satisfied and
  the asked-for number of Ed25519 proofs is reached; every selected key is available, is a signer of
  the plan that had not signed yet, and is asked only once.\<close>

theorem selection_sound:
  assumes "finite (lap_extra_signers p)"
    and "select_ed25519_signers p satisfied available minimum = Inr keys"
  shows "plan_satisfiable_by p (satisfied \<union> key_conditions keys) \<and>
    minimum \<le> ed25519_count (satisfied \<union> key_conditions keys) \<and>
    distinct keys \<and> set keys \<subseteq> available \<and>
    key_conditions keys \<subseteq> signer_conditions p - satisfied"
proof -
  obtain current where "selection p satisfied available current keys" "plan_satisfiable_by p current"
    "minimum \<le> ed25519_count current"
    using select_ed25519_signers_Inr [OF assms(2,1)] by blast
  then show ?thesis by (auto simp: selection_def usable_def key_conditions_def)
qed

text \<open>C24. The selection is complete: it fails only when it must. It finds keys if and only if all
  available keys together would satisfy the plan and reach the asked-for number of proofs.\<close>

theorem selection_complete:
  assumes "finite (lap_extra_signers p)" "finite satisfied"
  shows "(\<exists>keys. select_ed25519_signers p satisfied available minimum = Inr keys) \<longleftrightarrow>
    plan_satisfiable_by p (satisfied \<union> usable p available) \<and>
    minimum \<le> ed25519_count (satisfied \<union> usable p available)"
proof
  assume "\<exists>keys. select_ed25519_signers p satisfied available minimum = Inr keys"
  then obtain keys current where s: "selection p satisfied available current keys"
    "plan_satisfiable_by p current" "minimum \<le> ed25519_count current"
    using select_ed25519_signers_Inr [OF _ assms(1)] by blast
  with plan_satisfiable_mono [OF selection_bound [OF s(1)], of p] selection_satisfies_min [OF s(1) assms(2,1)]
  show "plan_satisfiable_by p (satisfied \<union> usable p available) \<and>
    minimum \<le> ed25519_count (satisfied \<union> usable p available)" by auto
next
  assume "plan_satisfiable_by p (satisfied \<union> usable p available) \<and>
    minimum \<le> ed25519_count (satisfied \<union> usable p available)"
  with select_ed25519_signers_ok [OF assms] show "\<exists>keys. select_ed25519_signers p satisfied available minimum = Inr keys"
    by simp
qed

text \<open>A transaction that already satisfies its plan with enough proofs is not signed again.\<close>

theorem satisfied_plan_selects_nothing:
  assumes "plan_satisfiable_by p satisfied" "finite (lap_extra_signers p)"
    and "minimum \<le> ed25519_count satisfied"
  shows "select_ed25519_signers p satisfied available minimum = Inr []"
proof -
  have "select_extra cs available satisfied [] = Inr (satisfied, [])" if "set cs \<subseteq> satisfied" for cs
    using that by (induction cs) auto
  moreover have "select_all rs available satisfied [] = Inr (satisfied, [])"
    if "list_all (\<lambda>r. requirement_satisfiable_by r satisfied) rs" for rs
    using that by (induction rs) (auto simp: select_for.simps requirement_satisfiable_by_def)
  ultimately show ?thesis
    using assms by (simp add: select_ed25519_signers_def plan_satisfiable_by_def select_proofs.simps)
qed

section \<open>Examples\<close>

lemma demo_usable: "usable demo_plan {demo_key_text demo_key} = signer_conditions demo_plan"
  by (auto simp: usable_def demo_conditions)

lemma demo_selects:
  "select_ed25519_signers demo_plan {} {demo_key_text demo_key} 1 = Inr [demo_key_text demo_key]"
  by (simp add: select_ed25519_signers_def demo_plan_def demo_account_def select_for.simps
      available_weight_def best_available_signer_def is_candidate_def select_proofs.simps ed25519_count_def)

theorem selection_sound_witness:
  "plan_satisfiable_by demo_plan ({} \<union> key_conditions [demo_key_text demo_key])"
  using selection_sound [OF demo_plan_finite demo_selects] by blast

theorem selection_complete_witness:
  "\<not> (\<exists>keys. select_ed25519_signers demo_plan {} {} 0 = Inr keys)"
  using selection_complete [OF demo_plan_finite finite.emptyI, of "{}" 0]
  by (simp add: usable_def demo_plan_def plan_satisfiable_by_def requirement_satisfiable_by_def
      available_weight_def)

theorem satisfied_plan_selects_nothing_witness:
  "select_ed25519_signers demo_plan (signer_conditions demo_plan) {} 0 = Inr []"
  by (rule satisfied_plan_selects_nothing)
    (simp_all add: demo_conditions, simp_all add: demo_plan_def demo_account_def plan_satisfiable_by_def
      requirement_satisfiable_by_def available_weight_def)

end
