(* ===== verification/TxBuilder.thy ===== *)
theory TxBuilder
  imports LedgerAuth Amount
begin

text \<open>
  Building and checking Classic transactions (transaction.rs of the client): networks, memos, the
  envelope of one or more operations, expiry. The system clock is the argument \<open>now\<close>, seconds since
  the Unix epoch, negative before it.
\<close>

section \<open>The operations\<close>

definition default_classic_transaction_timeout_seconds :: nat where
  "default_classic_transaction_timeout_seconds = 5 * 60"

definition mainnet_passphrase :: string where
  "mainnet_passphrase = ''Public Global Stellar Network ; September 2015''"

definition testnet_passphrase :: string where
  "testnet_passphrase = ''Test SDF Network ; September 2015''"

definition network_passphrase :: "string \<Rightarrow> string result" where
  "network_passphrase network =
     (if network = ''mainnet'' then Inr mainnet_passphrase
      else if network = ''testnet'' then Inr testnet_passphrase
      else Inl (''unknown network: '' @ network))"

definition parse_transaction_xdr :: "stellar_lib \<Rightarrow> bytes \<Rightarrow> envelope result" where
  "parse_transaction_xdr L xdr =
     map_err (\<lambda>e. ''invalid Stellar transaction XDR: '' @ signing_error_text e)
       (parse_transaction_envelope_xdr L xdr)"

definition transaction_xdr_bytes :: "stellar_lib \<Rightarrow> envelope \<Rightarrow> bytes result" where
  "transaction_xdr_bytes L e = map_err signing_error_text (transaction_envelope_xdr L e)"

definition transaction_hash_bytes :: "stellar_lib \<Rightarrow> envelope \<Rightarrow> string \<Rightarrow> bytes result" where
  "transaction_hash_bytes L e network =
     and_then (network_passphrase network) (\<lambda>np.
       map_err (\<lambda>x. ''Unable to hash Stellar transaction: '' @ signing_error_text x) (transaction_hash L e np))"

definition has_valid_transaction_signature ::
  "stellar_lib \<Rightarrow> envelope \<Rightarrow> string \<Rightarrow> string \<Rightarrow> bool result" where
  "has_valid_transaction_signature L e network signer_public_key =
     and_then (network_passphrase network) (\<lambda>np.
       map_err (\<lambda>x. ''unable to verify transaction signature: '' @ signing_error_text x)
         (has_valid_signature L e np signer_public_key))"

definition validate_classic_transaction_timeout_seconds :: "nat \<Rightarrow> nat result" where
  "validate_classic_transaction_timeout_seconds timeout_seconds =
     (if timeout_seconds = 0
      then Inl ''Classic transaction timeout must be greater than zero seconds'' else Inr timeout_seconds)"

definition text_memo :: "string option \<Rightarrow> memo result" where
  "text_memo m =
     (case m of
        Some value \<Rightarrow>
          (if value \<noteq> []
           then (if length value \<le> 28 then Inr (MemoText (bytes_of value))
                 else Inl ''text memo must be at most 28 bytes'')
           else Inr MemoNone)
      | None \<Rightarrow> Inr MemoNone)"

definition account_id_to_muxed :: "bytes \<Rightarrow> muxed_account" where
  "account_id_to_muxed k = MuxEd25519 k"

definition build_with_memo_and_timeout ::
  "stellar_lib \<Rightarrow> int \<Rightarrow> string \<Rightarrow> operation_body list \<Rightarrow> int \<Rightarrow> int \<Rightarrow> memo \<Rightarrow> nat \<Rightarrow> envelope result" where
  "build_with_memo_and_timeout L now src bodies current_sequence base_fee m timeout_seconds =
     and_then (validate_classic_transaction_timeout_seconds timeout_seconds) (\<lambda>timeout.
     and_then (ensure (bodies \<noteq> []) ''transaction must contain at least one operation'') (\<lambda>_.
     and_then (ok_or ''wallet source must be a Classic G address'' (account_id_from_string L src)) (\<lambda>source.
     and_then (ensure (int (length bodies) \<le> u32_max) ''too many transaction operations'') (\<lambda>_.
     and_then (ensure (length bodies \<le> max_operations_per_tx) ''too many transaction operations'') (\<lambda>_.
     let fee = base_fee * int (length bodies) in
     and_then (ensure (in_u32 fee) ''transaction fee overflow'') (\<lambda>_.
     and_then (ok_or ''account sequence overflow'' (checked_add current_sequence 1)) (\<lambda>sequence.
     and_then (ensure (0 \<le> now) ''system clock is before Unix epoch'') (\<lambda>_.
     and_then (ensure (in_u64 (now + int timeout)) ''transaction timeout overflow'') (\<lambda>_.
       Inr (EnvTx
         \<lparr>tx_source = account_id_to_muxed source, tx_fee = fee, tx_seq_num = sequence,
          tx_cond = PrecondTime \<lparr>min_time = 0, max_time = nat (now + int timeout)\<rparr>,
          tx_memo = m, tx_operations = map (\<lambda>b. \<lparr>op_source = None, op_body = b\<rparr>) bodies,
          tx_ext = TxExtV0\<rparr> []))))))))))"

definition build_operation_envelope_with_timeout ::
  "stellar_lib \<Rightarrow> int \<Rightarrow> string \<Rightarrow> operation_body list \<Rightarrow> int \<Rightarrow> int \<Rightarrow> string option \<Rightarrow> nat \<Rightarrow> envelope result" where
  "build_operation_envelope_with_timeout L now src bodies current_sequence base_fee m timeout_seconds =
     and_then (text_memo m) (\<lambda>memo.
       build_with_memo_and_timeout L now src bodies current_sequence base_fee memo timeout_seconds)"

definition build_operation_envelope ::
  "stellar_lib \<Rightarrow> int \<Rightarrow> string \<Rightarrow> operation_body list \<Rightarrow> int \<Rightarrow> int \<Rightarrow> string option \<Rightarrow> envelope result" where
  "build_operation_envelope L now src bodies current_sequence base_fee m =
     build_operation_envelope_with_timeout L now src bodies current_sequence base_fee m
       default_classic_transaction_timeout_seconds"

definition build_single_with_memo_and_timeout ::
  "stellar_lib \<Rightarrow> int \<Rightarrow> string \<Rightarrow> operation_body \<Rightarrow> int \<Rightarrow> int \<Rightarrow> memo \<Rightarrow> nat \<Rightarrow> envelope result" where
  "build_single_with_memo_and_timeout L now src body current_sequence base_fee m timeout_seconds =
     build_with_memo_and_timeout L now src [body] current_sequence base_fee m timeout_seconds"

definition build_single_with_memo ::
  "stellar_lib \<Rightarrow> int \<Rightarrow> string \<Rightarrow> operation_body \<Rightarrow> int \<Rightarrow> int \<Rightarrow> memo \<Rightarrow> envelope result" where
  "build_single_with_memo L now src body current_sequence base_fee m =
     build_single_with_memo_and_timeout L now src body current_sequence base_fee m
       default_classic_transaction_timeout_seconds"

definition build_single_with_timeout ::
  "stellar_lib \<Rightarrow> int \<Rightarrow> string \<Rightarrow> operation_body \<Rightarrow> int \<Rightarrow> int \<Rightarrow> string option \<Rightarrow> nat \<Rightarrow> envelope result" where
  "build_single_with_timeout L now src body current_sequence base_fee m timeout_seconds =
     and_then (text_memo m) (\<lambda>memo.
       build_single_with_memo_and_timeout L now src body current_sequence base_fee memo timeout_seconds)"

definition build_single_operation_envelope ::
  "stellar_lib \<Rightarrow> int \<Rightarrow> string \<Rightarrow> operation_body \<Rightarrow> int \<Rightarrow> int \<Rightarrow> string option \<Rightarrow> envelope result" where
  "build_single_operation_envelope L now src body current_sequence base_fee m =
     build_single_with_timeout L now src body current_sequence base_fee m
       default_classic_transaction_timeout_seconds"

definition ensure_not_expired_at :: "envelope \<Rightarrow> nat \<Rightarrow> unit result" where
  "ensure_not_expired_at e now_unix =
     (let check = (\<lambda>max_time.
            if max_time \<noteq> 0 \<and> now_unix > max_time
            then Inl ''Prepared transaction has expired; prepare and review the transaction again''
            else Inr ())
      in case e of
           EnvTx tx _ \<Rightarrow>
             (case tx_cond tx of
                PrecondNone \<Rightarrow> Inr ()
              | PrecondTime bounds \<Rightarrow> check (max_time bounds)
              | PrecondV2 v2 \<Rightarrow>
                  (case v2_time_bounds v2 of Some bounds \<Rightarrow> check (max_time bounds) | None \<Rightarrow> Inr ()))
         | _ \<Rightarrow> Inr ())"

definition ensure_transaction_not_expired :: "int \<Rightarrow> envelope \<Rightarrow> unit result" where
  "ensure_transaction_not_expired now e =
     and_then (ensure (0 \<le> now) ''system clock is before Unix epoch'') (\<lambda>_.
       ensure_not_expired_at e (nat now))"

section \<open>What a built transaction is\<close>

lemma build_Inr:
  "build_with_memo_and_timeout L now src bodies seq fee m timeout = Inr e \<longleftrightarrow>
     0 < timeout \<and> bodies \<noteq> [] \<and> length bodies \<le> max_operations_per_tx \<and> in_u32 (fee * int (length bodies)) \<and>
     in_i64 (seq + 1) \<and> 0 \<le> now \<and> in_u64 (now + int timeout) \<and>
     (\<exists>k. public_key_from_string L src = Some k \<and>
        e = EnvTx \<lparr>tx_source = MuxEd25519 k, tx_fee = fee * int (length bodies), tx_seq_num = seq + 1,
          tx_cond = PrecondTime \<lparr>min_time = 0, max_time = nat (now + int timeout)\<rparr>, tx_memo = m,
          tx_operations = map (\<lambda>b. \<lparr>op_source = None, op_body = b\<rparr>) bodies, tx_ext = TxExtV0\<rparr> [])"
  by (auto simp: build_with_memo_and_timeout_def validate_classic_transaction_timeout_seconds_def
      result_simps Let_def account_id_from_string_def account_id_to_muxed_def max_operations_per_tx_def
      u32_max_def split: if_splits)

lemma operation_uses_same_source:
  "operation_uses L src i (map (\<lambda>b. \<lparr>op_source = None, op_body = b\<rparr>) bodies) = Inr us \<Longrightarrow>
     \<forall>u \<in> set us. rau_account_id u = src"
  by (induction bodies arbitrary: i us) (fastforce simp: result_simps Let_def)+

lemma ensure_not_expired_built:
  assumes "build_with_memo_and_timeout L now src bodies seq fee m timeout = Inr e"
  shows "ensure_not_expired_at e t = Inr () \<longleftrightarrow> int t \<le> now + int timeout"
  using assms by (auto simp: build_Inr ensure_not_expired_at_def nat_less_iff not_less split: if_splits)

section \<open>Properties\<close>

text \<open>\<open>build_operation_envelope\<close> succeeds exactly for a Classic source, 1 to 100 operations, a fee
  that fits 32 bits, a next sequence number that fits 64 bits and a memo of at most 28 bytes, and
  then the transaction has the fee per operation times the number of operations, the next sequence
  number, exactly the given operations in order with no source of their own, a validity of five
  minutes from now, and no signature.\<close>

theorem build_operation_envelope_iff:
  "build_operation_envelope L now src bodies seq fee memo = Inr e \<longleftrightarrow>
     (case memo of Some t \<Rightarrow> length t \<le> 28 | None \<Rightarrow> True) \<and>
     bodies \<noteq> [] \<and> length bodies \<le> 100 \<and> in_u32 (fee * int (length bodies)) \<and> in_i64 (seq + 1) \<and>
     0 \<le> now \<and> in_u64 (now + 300) \<and>
     (\<exists>k. public_key_from_string L src = Some k \<and>
        e = EnvTx \<lparr>tx_source = MuxEd25519 k, tx_fee = fee * int (length bodies), tx_seq_num = seq + 1,
          tx_cond = PrecondTime \<lparr>min_time = 0, max_time = nat (now + 300)\<rparr>,
          tx_memo = (case memo of Some t \<Rightarrow> if t = [] then MemoNone else MemoText (bytes_of t) | None \<Rightarrow> MemoNone),
          tx_operations = map (\<lambda>b. \<lparr>op_source = None, op_body = b\<rparr>) bodies, tx_ext = TxExtV0\<rparr> [])"
proof -
  have memo: "text_memo memo = Inr m \<longleftrightarrow> (case memo of Some t \<Rightarrow> length t \<le> 28 | None \<Rightarrow> True) \<and>
      m = (case memo of Some t \<Rightarrow> if t = [] then MemoNone else MemoText (bytes_of t) | None \<Rightarrow> MemoNone)" for m
    by (auto simp: text_memo_def split: option.splits)
  have "build_operation_envelope L now src bodies seq fee memo = Inr e \<longleftrightarrow>
      (\<exists>m. text_memo memo = Inr m \<and> build_with_memo_and_timeout L now src bodies seq fee m 300 = Inr e)"
    by (simp add: build_operation_envelope_def build_operation_envelope_with_timeout_def and_then_Inr
        default_classic_transaction_timeout_seconds_def)
  then show ?thesis
    unfolding memo build_Inr by (simp add: max_operations_per_tx_def)
qed

text \<open>A freshly built transaction passes the expiry check from the moment it was built up to its
  timeout, and fails it at every later second.\<close>

theorem built_transaction_expiry:
  assumes "build_operation_envelope_with_timeout L now src bodies seq fee memo timeout = Inr e"
  shows "ensure_transaction_not_expired t e = Inr () \<longleftrightarrow> 0 \<le> t \<and> t \<le> now + int timeout"
proof -
  from assms obtain m where "build_with_memo_and_timeout L now src bodies seq fee m timeout = Inr e"
    by (auto simp: build_operation_envelope_with_timeout_def result_simps)
  from ensure_not_expired_built [OF this, of "nat t"] show ?thesis
    by (auto simp: ensure_transaction_not_expired_def)
qed

text \<open>A built transaction needs the authorization of its source account only: every use that the
  ledger authorization planner finds in it is a use of that account.\<close>

theorem built_transaction_uses_source:
  assumes "build_with_memo_and_timeout L now src bodies seq fee m timeout = Inr e"
    and "classic_authorization_uses L e = Inr us"
  shows "\<exists>k. public_key_from_string L src = Some k \<and> rau_account_id ` set us = {public_key_to_string L k}"
proof -
  from assms(1) obtain k where "public_key_from_string L src = Some k"
    and e: "e = EnvTx \<lparr>tx_source = MuxEd25519 k, tx_fee = fee * int (length bodies), tx_seq_num = seq + 1,
          tx_cond = PrecondTime \<lparr>min_time = 0, max_time = nat (now + int timeout)\<rparr>, tx_memo = m,
          tx_operations = map (\<lambda>b. \<lparr>op_source = None, op_body = b\<rparr>) bodies, tx_ext = TxExtV0\<rparr> []"
    by (auto simp: build_Inr)
  moreover from assms(2) have "rau_account_id ` set us = {public_key_to_string L k}"
    by (auto simp: e classic_authorization_uses_def Let_def result_simps dest!: operation_uses_same_source)
  ultimately show ?thesis by blast
qed

section \<open>Examples\<close>

lemma demo_built:
  "\<exists>e. build_with_memo_and_timeout demo_lib 1000 (demo_key_text demo_key) [BumpSequenceOp 7] 4 100 m 60 = Inr e \<and>
     (\<exists>us. classic_authorization_uses demo_lib e = Inr us)"
  unfolding build_Inr
  by (simp add: classic_authorization_uses_def Let_def max_operations_per_tx_def arith_defs)

theorem built_transaction_expiry_witness:
  "\<exists>e. ensure_transaction_not_expired 1060 e = Inr () \<and> ensure_transaction_not_expired 1061 e \<noteq> Inr ()"
proof -
  obtain e where "build_with_memo_and_timeout demo_lib 1000 (demo_key_text demo_key) [BumpSequenceOp 7] 4 100 MemoNone 60 = Inr e"
    using demo_built by blast
  then have "build_operation_envelope_with_timeout demo_lib 1000 (demo_key_text demo_key) [BumpSequenceOp 7] 4 100 None 60 = Inr e"
    by (simp add: build_operation_envelope_with_timeout_def text_memo_def)
  from built_transaction_expiry [OF this] show ?thesis by (intro exI [of _ e]) simp
qed

theorem built_transaction_uses_source_witness:
  "\<exists>us :: required_authorization_use list. rau_account_id ` set us = {demo_key_text demo_key}"
proof -
  obtain e us where "build_with_memo_and_timeout demo_lib 1000 (demo_key_text demo_key) [BumpSequenceOp 7] 4 100 MemoNone 60 = Inr e"
    "classic_authorization_uses demo_lib e = Inr us"
    using demo_built by blast
  from built_transaction_uses_source [OF this] show ?thesis by auto
qed

end
