(* ===== verification/Pending.thy ===== *)
theory Pending
  imports TxBuilder
begin

text \<open>
  The pending-transaction store of transaction.rs and \<open>submit_signed_transaction\<close>: after a submission
  of uncertain outcome the account is kept from writing again until Horizon knows the transaction or
  210 seconds have passed.

  The store is one JSON file. What reading and decoding it gives is a \<open>pending_file\<close>; the state of an
  operation is that file and the temporary one next to it. The file system, the RFC 3339 clock text
  and Horizon's answers are parameters (\<open>pending_env\<close>, \<open>lookup\<close>, \<open>submit\<close>); instants are integer
  nanoseconds. On Windows the code removes the target before the rename; that branch, compiled out
  on other systems, is not modelled.
\<close>

section \<open>State and environment\<close>

definition pending_ttl_seconds :: int where "pending_ttl_seconds = 210"

record pending_transaction =
  pt_network :: string
  pt_account :: string
  pt_tx_hash :: string
  pt_kind :: string
  pt_submitted_at :: string

datatype pending_file =
    NoFile
  | Unreadable string
  | MalformedFile string
  | PendingItems "pending_transaction list"

record pending_disk =
  pd_store :: pending_file
  pd_temporary :: "pending_transaction list option"

record pending_env =
  pe_path :: string
  pe_ttl_seconds :: int
  pe_now :: int
  pe_format_rfc3339 :: "int \<Rightarrow> string result"
  pe_parse_rfc3339 :: "string \<Rightarrow> int option"
  pe_create_dir :: "unit result"
  pe_encode :: "pending_transaction list \<Rightarrow> unit result"
  pe_write :: "unit result"
  pe_rename :: "unit result"

section \<open>The operations\<close>

definition validate_pending :: "pending_transaction \<Rightarrow> unit result" where
  "validate_pending item =
     (if list_ex (\<lambda>value. trim value = [])
           [pt_network item, pt_account item, pt_tx_hash item, pt_kind item, pt_submitted_at item]
      then Inl ''Pending transaction state is malformed: fields must be non-empty strings'' else Inr ())"

fun validate_all :: "pending_transaction list \<Rightarrow> unit result" where
  "validate_all [] = Inr ()"
| "validate_all (i # is) = and_then (validate_pending i) (\<lambda>_. validate_all is)"

definition pending_load :: "pending_env \<Rightarrow> pending_disk \<Rightarrow> pending_transaction list result" where
  "pending_load env disk =
     (case pd_store disk of
        NoFile \<Rightarrow> Inr []
      | Unreadable error \<Rightarrow> Inl (''Unable to read pending transaction state '' @ pe_path env @ '': '' @ error)
      | MalformedFile error \<Rightarrow> Inl (''Pending transaction state is malformed '' @ pe_path env @ '': '' @ error)
      | PendingItems items \<Rightarrow> and_then (validate_all items) (\<lambda>_. Inr items))"

definition pending_save ::
  "pending_env \<Rightarrow> pending_transaction list \<Rightarrow> pending_disk \<Rightarrow> unit result \<times> pending_disk" where
  "pending_save env items disk =
     (case and_then (map_err (\<lambda>e. ''Unable to create pending transaction directory: '' @ e) (pe_create_dir env))
             (\<lambda>_. map_err (\<lambda>e. ''Unable to encode pending transaction state: '' @ e) (pe_encode env items)) of
        Inl error \<Rightarrow> (Inl error, disk)
      | Inr _ \<Rightarrow>
          (case pe_write env of
             Inl e \<Rightarrow> (Inl (''Unable to persist pending transaction state '' @ pe_path env @ ''.tmp: '' @ e),
                       disk\<lparr>pd_temporary := None\<rparr>)
           | Inr _ \<Rightarrow>
               (case pe_rename env of
                  Inl e \<Rightarrow> (Inl (''Unable to replace pending transaction state '' @ pe_path env @ '': '' @ e),
                            disk\<lparr>pd_temporary := None\<rparr>)
                | Inr _ \<Rightarrow> (Inr (), disk\<lparr>pd_store := PendingItems items, pd_temporary := None\<rparr>))))"

definition same_pending :: "pending_transaction \<Rightarrow> pending_transaction \<Rightarrow> bool" where
  "same_pending a b \<longleftrightarrow>
     pt_network a = pt_network b \<and> pt_account a = pt_account b \<and> pt_tx_hash a = pt_tx_hash b"

definition pending_put ::
  "pending_env \<Rightarrow> pending_transaction \<Rightarrow> pending_disk \<Rightarrow> unit result \<times> pending_disk" where
  "pending_put env pending disk =
     (case and_then (validate_pending pending) (\<lambda>_. pending_load env disk) of
        Inl error \<Rightarrow> (Inl error, disk)
      | Inr items \<Rightarrow> pending_save env (filter (\<lambda>i. \<not> same_pending i pending) items @ [pending]) disk)"

definition pending_remember ::
  "pending_env \<Rightarrow> string \<Rightarrow> string \<Rightarrow> string \<Rightarrow> string \<Rightarrow> pending_disk \<Rightarrow> unit result \<times> pending_disk" where
  "pending_remember env network account tx_hash kind disk =
     (case pe_format_rfc3339 env (pe_now env) of
        Inl error \<Rightarrow> (Inl (''unable to format pending transaction time: '' @ error), disk)
      | Inr submitted_at \<Rightarrow>
          pending_put env \<lparr>pt_network = network, pt_account = account, pt_tx_hash = tx_hash, pt_kind = kind,
            pt_submitted_at = submitted_at\<rparr> disk)"

definition pending_age_seconds :: "pending_env \<Rightarrow> pending_transaction \<Rightarrow> int" where
  "pending_age_seconds env pending =
     (case pe_parse_rfc3339 env (pt_submitted_at pending) of
        None \<Rightarrow> i64_max
      | Some submitted \<Rightarrow> max 0 ((pe_now env - submitted) sdiv 1000000000))"

definition about_account :: "string \<Rightarrow> string \<Rightarrow> pending_transaction \<Rightarrow> bool" where
  "about_account network account item \<longleftrightarrow> pt_network item = network \<and> pt_account item = account"

text \<open>The loop: the retained items, the first hash still pending, whether anything was dropped.\<close>

fun reconcile_loop ::
  "pending_env \<Rightarrow> string \<Rightarrow> string \<Rightarrow> (string \<Rightarrow> bool result) \<Rightarrow> pending_transaction list
     \<Rightarrow> pending_transaction list \<times> string option \<times> bool
     \<Rightarrow> (pending_transaction list \<times> string option \<times> bool) result" where
  "reconcile_loop env network account lookup [] acc = Inr acc"
| "reconcile_loop env network account lookup (item # rest) (retained, pending_hash, changed) =
     (if \<not> about_account network account item
      then reconcile_loop env network account lookup rest (retained @ [item], pending_hash, changed)
      else and_then (lookup (pt_tx_hash item)) (\<lambda>found.
        if found \<or> pending_age_seconds env item \<ge> pe_ttl_seconds env
        then reconcile_loop env network account lookup rest (retained, pending_hash, True)
        else reconcile_loop env network account lookup rest
               (retained @ [item],
                (case pending_hash of None \<Rightarrow> Some (pt_tx_hash item) | Some h \<Rightarrow> Some h), changed)))"

definition reconcile_finish ::
  "pending_env \<Rightarrow> pending_transaction list \<times> string option \<times> bool \<Rightarrow> pending_disk
     \<Rightarrow> unit result \<times> pending_disk" where
  "reconcile_finish env outcome disk =
     (case outcome of (retained, pending_hash, changed) \<Rightarrow>
        (case (if changed then pending_save env retained disk else (Inr (), disk)) of
           (Inl error, disk') \<Rightarrow> (Inl error, disk')
         | (Inr _, disk') \<Rightarrow>
             ((case pending_hash of
                 Some tx_hash \<Rightarrow> Inl (''A previous transaction is still pending confirmation: '' @ tx_hash)
               | None \<Rightarrow> Inr ()), disk')))"

definition reconcile_with_async ::
  "pending_env \<Rightarrow> string \<Rightarrow> string \<Rightarrow> (string \<Rightarrow> bool result) \<Rightarrow> pending_disk \<Rightarrow> unit result \<times> pending_disk" where
  "reconcile_with_async env network account lookup disk =
     (case pending_load env disk of
        Inl error \<Rightarrow> (Inl error, disk)
      | Inr items \<Rightarrow>
          (if \<not> list_ex (about_account network account) items then (Inr (), disk)
           else (case reconcile_loop env network account lookup items ([], None, False) of
                   Inl error \<Rightarrow> (Inl error, disk)
                 | Inr outcome \<Rightarrow> reconcile_finish env outcome disk)))"

text \<open>The synchronous form: a transaction was found when the lookup returned a document.\<close>

definition reconcile_with ::
  "pending_env \<Rightarrow> string \<Rightarrow> string \<Rightarrow> (string \<Rightarrow> json option result) \<Rightarrow> pending_disk
     \<Rightarrow> unit result \<times> pending_disk" where
  "reconcile_with env network account lookup disk =
     (case pending_load env disk of
        Inl error \<Rightarrow> (Inl error, disk)
      | Inr items \<Rightarrow>
          (if \<not> list_ex (about_account network account) items then (Inr (), disk)
           else (case reconcile_loop env network account (\<lambda>h. map_ok (\<lambda>v. v \<noteq> None) (lookup h)) items ([], None, False) of
                   Inl error \<Rightarrow> (Inl error, disk)
                 | Inr outcome \<Rightarrow> reconcile_finish env outcome disk)))"

lemma reconcile_with_is_async:
  "reconcile_with env network account lookup =
     reconcile_with_async env network account (\<lambda>h. map_ok (\<lambda>v. v \<noteq> None) (lookup h))"
  by (rule ext) (simp only: reconcile_with_def reconcile_with_async_def)

section \<open>Submission\<close>

datatype submission_error = Rejected string | Uncertain string

record transaction_submission =
  ts_hash :: string
  ts_ledger :: "nat option"

definition submit_signed_transaction ::
  "stellar_lib \<Rightarrow> pending_env \<Rightarrow> (string \<Rightarrow> submission_error + json) \<Rightarrow> int \<Rightarrow> string \<Rightarrow> string \<Rightarrow> envelope
     \<Rightarrow> pending_disk \<Rightarrow> transaction_submission result \<times> pending_disk" where
  "submit_signed_transaction L env submit now account network e disk =
     (case and_then (ensure_transaction_not_expired now e) (\<lambda>_.
           and_then (network_passphrase network) (\<lambda>np.
           and_then (map_err (\<lambda>x. ''Unable to hash signed transaction: '' @ signing_error_text x)
             (transaction_hash L e np)) (\<lambda>hash.
           and_then (map_err (\<lambda>x. ''Unable to encode signed transaction: '' @ x)
             (transaction_xdr_bytes L e)) (\<lambda>xdr. Inr (hex hash, base64_encode L xdr))))) of
        Inl error \<Rightarrow> (Inl error, disk)
      | Inr (tx_hash_hex, encoded) \<Rightarrow>
          (case submit encoded of
             Inr response \<Rightarrow>
               (Inr \<lparr>ts_hash = (case get_str response ''hash'' of Some h \<Rightarrow> h | None \<Rightarrow> tx_hash_hex),
                     ts_ledger = Option.bind (json_get response ''ledger'') as_u64\<rparr>, disk)
           | Inl (Rejected message) \<Rightarrow>
               (Inl (''Transaction rejected ('' @ tx_hash_hex @ ''): '' @ message), disk)
           | Inl (Uncertain message) \<Rightarrow>
               (case pending_remember env network account tx_hash_hex ''transaction'' disk of
                  (Inr _, disk') \<Rightarrow>
                    (Inl (''Transaction submission status is uncertain for '' @ tx_hash_hex @ '': '' @ message
                       @ ''. A pending record was saved; Fresnica will check this hash before allowing another write from the account.''), disk')
                | (Inl persist_error, disk') \<Rightarrow>
                    (Inl (''Transaction submission status is uncertain for '' @ tx_hash_hex @ '': '' @ message
                       @ ''. Fresnica could not persist pending-transaction protection: '' @ persist_error
                       @ ''. Do not retry until you verify the transaction hash manually.''), disk'))))"

section \<open>What reconciling does\<close>

definition still_pending :: "pending_env \<Rightarrow> (string \<Rightarrow> bool result) \<Rightarrow> pending_transaction \<Rightarrow> bool" where
  "still_pending env lookup i \<longleftrightarrow>
     lookup (pt_tx_hash i) = Inr False \<and> pending_age_seconds env i < pe_ttl_seconds env"

lemma reconcile_loop_Inr:
  "reconcile_loop env n a lookup items (R, h, c) = Inr (R', h', c') \<longleftrightarrow>
     (\<forall>i \<in> set items. about_account n a i \<longrightarrow> \<not> isl (lookup (pt_tx_hash i))) \<and>
     R' = R @ filter (\<lambda>i. about_account n a i \<longrightarrow> still_pending env lookup i) items \<and>
     h' = (case h of Some x \<Rightarrow> Some x
           | None \<Rightarrow> map_option pt_tx_hash (find (\<lambda>i. about_account n a i \<and> still_pending env lookup i) items)) \<and>
     c' = (c \<or> (\<exists>i \<in> set items. about_account n a i \<and> \<not> still_pending env lookup i))"
proof (induction items arbitrary: R h c)
  case (Cons i items)
  show ?case
  proof (cases "about_account n a i")
    case True
    show ?thesis
    proof (cases "lookup (pt_tx_hash i)")
      case (Inr b)
      show ?thesis
      proof (cases "still_pending env lookup i")
        case True
        then have "lookup (pt_tx_hash i) = Inr False" "\<not> pe_ttl_seconds env \<le> pending_age_seconds env i"
          by (auto simp: still_pending_def)
        with \<open>about_account n a i\<close> True show ?thesis
          by (simp add: Cons.IH split: option.split)
      next
        case False
        with Inr have "b \<or> pe_ttl_seconds env \<le> pending_age_seconds env i"
          by (auto simp: still_pending_def)
        with \<open>about_account n a i\<close> Inr False show ?thesis
          by (simp add: Cons.IH split: option.split)
      qed
    qed (use True in simp)
  qed (simp add: Cons.IH split: option.split)
qed (auto split: option.splits)

lemma reconcile_loop_Inl:
  "reconcile_loop env n a lookup items acc = Inl e \<Longrightarrow>
     \<exists>i \<in> set items. about_account n a i \<and> lookup (pt_tx_hash i) = Inl e"
proof (induction items arbitrary: acc)
  case (Cons i items)
  obtain R h c where "acc = (R, h, c)" by (cases acc)
  with Cons show ?case by (fastforce simp: result_simps split: if_splits)
qed simp

definition stored :: "pending_disk \<Rightarrow> pending_transaction list \<Rightarrow> bool" where
  "stored disk items \<longleftrightarrow>
     (pd_store disk = PendingItems items \<or> pd_store disk = NoFile \<and> items = []) \<and>
     list_all (\<lambda>i. validate_pending i = Inr ()) items"

lemma validate_all_Inr [result_simps]: "validate_all is = Inr u \<longleftrightarrow> list_all (\<lambda>i. validate_pending i = Inr ()) is"
  by (induction "is") (auto simp: result_simps)

lemma pending_load_Inr: "pending_load env disk = Inr items \<longleftrightarrow> stored disk items"
  by (auto simp: pending_load_def stored_def result_simps split: pending_file.splits)

text \<open>Saving either replaces the whole store or leaves it as it was.\<close>

lemma pending_save_cases:
  obtains "pending_save env items disk = (Inr (), disk\<lparr>pd_store := PendingItems items, pd_temporary := None\<rparr>)"
  | e disk' where "pending_save env items disk = (Inl e, disk')" "pd_store disk' = pd_store disk"
  by (cases "fst (pending_save env items disk)")
    (auto simp: pending_save_def split: sum.splits prod.splits)

lemma stored_save:
  assumes "pending_save env items disk = (Inr (), disk')" "list_all (\<lambda>i. validate_pending i = Inr ()) items"
  shows "stored disk' items"
  using assms by (auto simp: pending_save_def stored_def split: sum.splits)

lemma stored_cong: "pd_store d = pd_store d' \<Longrightarrow> stored d items \<longleftrightarrow> stored d' items"
  by (simp add: stored_def)

lemma reconcile_finish_ok:
  assumes "(if c then pending_save env R disk else (Inr (), disk)) = (Inr (), disk')"
  obtains r where "reconcile_finish env (R, h, c) disk = (r, disk')" "r = Inr () \<longleftrightarrow> h = None"
  using assms by (cases h) (auto simp: reconcile_finish_def)

text \<open>The three ways a reconciliation of an account with pending items ends.\<close>

lemma reconcile_async_cases:
  assumes s: "stored disk items"
  obtains (lookup_failed) e where "reconcile_with_async env n a lookup disk = (Inl e, disk)"
      "\<exists>i \<in> set items. about_account n a i \<and> isl (lookup (pt_tx_hash i))"
  | (not_saved) e disk' where "reconcile_with_async env n a lookup disk = (Inl e, disk')" "stored disk' items"
  | (finished) r disk' where "reconcile_with_async env n a lookup disk = (r, disk')"
      "stored disk' (filter (\<lambda>i. about_account n a i \<longrightarrow> still_pending env lookup i) items)"
      "r = Inr () \<longleftrightarrow> (\<forall>i \<in> set items. about_account n a i \<longrightarrow> \<not> still_pending env lookup i)"
      "\<forall>i \<in> set items. about_account n a i \<longrightarrow> \<not> isl (lookup (pt_tx_hash i))"
proof -
  let ?kept = "filter (\<lambda>i. about_account n a i \<longrightarrow> still_pending env lookup i) items"
  have load: "pending_load env disk = Inr items" using s by (simp add: pending_load_Inr)
  have valid: "list_all (\<lambda>i. validate_pending i = Inr ()) ?kept"
    using s by (auto simp: stored_def list_all_iff)
  show thesis
  proof (cases "list_ex (about_account n a) items")
    case False
    then have none: "\<not> about_account n a i" if "i \<in> set items" for i using that by (auto simp: list_ex_iff)
    then have "?kept = items" by (auto simp: filter_id_conv)
    with False load none s show thesis
      by (intro finished [of "Inr ()" disk]) (auto simp: reconcile_with_async_def)
  next
    case True
    show thesis
    proof (cases "reconcile_loop env n a lookup items ([], None, False)")
      case (Inl e)
      have "\<exists>i \<in> set items. about_account n a i \<and> isl (lookup (pt_tx_hash i))"
        using reconcile_loop_Inl [OF Inl] by force
      with Inl load True show thesis by (intro lookup_failed) (auto simp: reconcile_with_async_def)
    next
      case (Inr outcome)
      obtain R h c where o: "outcome = (R, h, c)" by (cases outcome)
      with Inr have R: "R = ?kept"
        and look: "\<forall>i \<in> set items. about_account n a i \<longrightarrow> \<not> isl (lookup (pt_tx_hash i))"
        and h: "h = map_option pt_tx_hash (find (\<lambda>i. about_account n a i \<and> still_pending env lookup i) items)"
        and c: "c \<longleftrightarrow> (\<exists>i \<in> set items. about_account n a i \<and> \<not> still_pending env lookup i)"
        by (auto simp: reconcile_loop_Inr)
      have clear: "h = None \<longleftrightarrow> (\<forall>i \<in> set items. about_account n a i \<longrightarrow> \<not> still_pending env lookup i)"
        by (auto simp: h find_None_iff)
      have rec: "reconcile_with_async env n a lookup disk = reconcile_finish env (R, h, c) disk"
        using load True Inr o by (simp add: reconcile_with_async_def)
      show thesis
      proof (cases c)
        case False
        with c have kept: "?kept = items" by (auto simp: filter_id_conv)
        from False have save: "(if c then pending_save env R disk else (Inr (), disk)) = (Inr (), disk)" by simp
        obtain r where "reconcile_finish env (R, h, c) disk = (r, disk)" "r = Inr () \<longleftrightarrow> h = None"
          by (rule reconcile_finish_ok [OF save])
        with rec kept s clear look show thesis by (intro finished [of r disk]) simp_all
      next
        case True
        show thesis
        proof (rule pending_save_cases [of env R disk])
          let ?d = "disk\<lparr>pd_store := PendingItems R, pd_temporary := None\<rparr>"
          assume saved: "pending_save env R disk = (Inr (), ?d)"
          with True have save: "(if c then pending_save env R disk else (Inr (), disk)) = (Inr (), ?d)" by simp
          have "stored ?d ?kept" using stored_save [OF saved] valid R by simp
          moreover obtain r where "reconcile_finish env (R, h, c) disk = (r, ?d)" "r = Inr () \<longleftrightarrow> h = None"
            by (rule reconcile_finish_ok [OF save])
          ultimately show thesis using rec clear look by (intro finished [of r ?d]) simp_all
        next
          fix e disk'
          assume "pending_save env R disk = (Inl e, disk')" "pd_store disk' = pd_store disk"
          moreover from this s have "stored disk' items" using stored_cong [of disk' disk items] by simp
          ultimately show thesis
            using rec True by (intro not_saved [of e disk']) (simp_all add: reconcile_finish_def)
        qed
      qed
    qed
  qed
qed

section \<open>Sequences of submissions and reconciliations\<close>

text \<open>
  The store over time: other submissions are remembered and accounts are reconciled, each at its own
  moment (its environment). \<open>pending_key\<close> names one submitted transaction.
\<close>

datatype pending_event =
    Remembered string string string string
  | Reconciled string string "string \<Rightarrow> bool result"

fun pending_event_step :: "pending_env \<times> pending_event \<Rightarrow> pending_disk \<Rightarrow> pending_disk" where
  "pending_event_step (env, Remembered network account tx_hash kind) disk =
     snd (pending_remember env network account tx_hash kind disk)"
| "pending_event_step (env, Reconciled network account lookup) disk =
     snd (reconcile_with_async env network account lookup disk)"

definition pending_key :: "pending_transaction \<Rightarrow> string \<times> string \<times> string" where
  "pending_key i = (pt_network i, pt_account i, pt_tx_hash i)"

text \<open>The store holds a record of the transaction that is not older than \<open>t0\<close>.\<close>

definition holds_since ::
  "(string \<Rightarrow> int option) \<Rightarrow> int \<Rightarrow> string \<times> string \<times> string \<Rightarrow> pending_disk \<Rightarrow> bool" where
  "holds_since parse t0 key disk \<longleftrightarrow>
     (\<exists>items. stored disk items \<and>
        (\<exists>i \<in> set items. pending_key i = key \<and> (\<exists>t. parse (pt_submitted_at i) = Some t \<and> t0 \<le> t)))"

lemma holds_sinceI:
  "stored disk items \<Longrightarrow> i \<in> set items \<Longrightarrow> pending_key i = key \<Longrightarrow>
     parse (pt_submitted_at i) = Some t \<Longrightarrow> t0 \<le> t \<Longrightarrow> holds_since parse t0 key disk"
  by (auto simp: holds_since_def)

text \<open>
  Within 210 seconds of \<open>t0\<close>, with a clock text that parses back, and with no answer yet that the
  transaction \<open>key\<close> is known.
\<close>

definition unresolved ::
  "(string \<Rightarrow> int option) \<Rightarrow> int \<Rightarrow> string \<times> string \<times> string \<Rightarrow> pending_env \<times> pending_event \<Rightarrow> bool" where
  "unresolved parse t0 key ev \<longleftrightarrow>
     (case ev of (env, event) \<Rightarrow>
        pe_ttl_seconds env = pending_ttl_seconds \<and> pe_parse_rfc3339 env = parse \<and>
        t0 \<le> pe_now env \<and> pe_now env < t0 + pending_ttl_seconds * 1000000000 \<and>
        (\<forall>t s. pe_format_rfc3339 env t = Inr s \<longrightarrow> parse s = Some t) \<and>
        (case event of Reconciled _ _ lookup \<Rightarrow> lookup (snd (snd key)) \<noteq> Inr True | Remembered _ _ _ _ \<Rightarrow> True))"

lemma same_pending_key: "same_pending a b \<longleftrightarrow> pending_key a = pending_key b"
  by (auto simp: same_pending_def pending_key_def)

text \<open>Putting an item: either nothing changes or the store holds the new item after the others.\<close>

lemma pending_put_cases:
  assumes "stored disk items"
  obtains e disk' where "pending_put env i disk = (Inl e, disk')" "stored disk' items"
  | disk' where "pending_put env i disk = (Inr (), disk')"
      "stored disk' (filter (\<lambda>j. pending_key j \<noteq> pending_key i) items @ [i])"
proof -
  let ?items = "filter (\<lambda>j. \<not> same_pending j i) items @ [i]"
  have load: "pending_load env disk = Inr items" using assms by (simp add: pending_load_Inr)
  show thesis
  proof (cases "validate_pending i")
    case (Inl e)
    with assms show thesis by (intro that(1) [of e disk]) (simp_all add: pending_put_def)
  next
    case (Inr u)
    then have put: "pending_put env i disk = pending_save env ?items disk"
      using load by (simp add: pending_put_def)
    show thesis
    proof (rule pending_save_cases [of env ?items disk])
      let ?d = "disk\<lparr>pd_store := PendingItems ?items, pd_temporary := None\<rparr>"
      assume saved: "pending_save env ?items disk = (Inr (), ?d)"
      have "list_all (\<lambda>i. validate_pending i = Inr ()) ?items"
        using assms Inr by (auto simp: stored_def list_all_iff)
      with saved have "stored ?d ?items" by (rule stored_save)
      with put saved show thesis by (intro that(2) [of ?d]) (simp_all add: same_pending_key)
    next
      fix e disk'
      assume saved: "pending_save env ?items disk = (Inl e, disk')" "pd_store disk' = pd_store disk"
      with assms have "stored disk' items" using stored_cong [of disk' disk items] by simp
      with put saved show thesis by (intro that(1) [of e disk']) simp_all
    qed
  qed
qed

lemma age_within_ttl:
  assumes "unresolved parse t0 key (env, ev)" "parse s = Some t" "t0 \<le> t" "pt_submitted_at i = s"
  shows "pending_age_seconds env i < pe_ttl_seconds env"
proof (cases "pe_now env < t")
  case True
  then have "(pe_now env - t) sdiv 1000000000 \<le> 0"
    by (simp add: signed_divide_int_def sgn_if)
  with assms show ?thesis
    by (simp add: pending_age_seconds_def unresolved_def pending_ttl_seconds_def)
next
  case False
  then have "(pe_now env - t) sdiv 1000000000 = (pe_now env - t) div 1000000000"
    by (auto simp: signed_divide_int_def sgn_if)
  moreover have "pe_now env - t < 210 * 1000000000"
    using assms by (simp add: unresolved_def pending_ttl_seconds_def)
  then have "(pe_now env - t) div 1000000000 < 210" by linarith
  ultimately show ?thesis
    using assms by (simp add: pending_age_seconds_def unresolved_def pending_ttl_seconds_def)
qed

lemma held_is_still_pending:
  assumes "unresolved parse t0 (n, a, h) (env, Reconciled n' a' lookup)"
    and "pending_key i = (n, a, h)" "parse (pt_submitted_at i) = Some t" "t0 \<le> t"
    and "\<not> isl (lookup h)"
  shows "still_pending env lookup i"
proof -
  from assms(1,5) have "lookup h = Inr False" by (cases "lookup h") (auto simp: unresolved_def)
  with assms(2) age_within_ttl [OF assms(1,3,4), of i] show ?thesis
    by (simp add: still_pending_def pending_key_def)
qed

lemma holds_since_step:
  assumes "unresolved parse t0 key ev" "holds_since parse t0 key disk"
  shows "holds_since parse t0 key (pending_event_step ev disk)"
proof -
  obtain env event n a h where ev: "ev = (env, event)" "key = (n, a, h)" by (cases ev; cases key) auto
  from assms(2) obtain items i t where s: "stored disk items"
    and i: "i \<in> set items" "pending_key i = key" "parse (pt_submitted_at i) = Some t" "t0 \<le> t"
    by (auto simp: holds_since_def)
  show ?thesis
  proof (cases event)
    case (Remembered n' a' h' k')
    show ?thesis
    proof (cases "pe_format_rfc3339 env (pe_now env)")
      case (Inl e)
      with assms(2) show ?thesis by (simp add: ev Remembered pending_remember_def)
    next
      case (Inr at)
      let ?i = "\<lparr>pt_network = n', pt_account = a', pt_tx_hash = h', pt_kind = k', pt_submitted_at = at\<rparr>"
      have new: "parse at = Some (pe_now env)" "t0 \<le> pe_now env"
        using assms(1) Inr by (auto simp: unresolved_def ev)
      show ?thesis
      proof (rule pending_put_cases [OF s, of env ?i])
        fix e disk'
        assume "pending_put env ?i disk = (Inl e, disk')" "stored disk' items"
        with i Inr show ?thesis by (auto simp: ev Remembered pending_remember_def holds_since_def)
      next
        fix disk'
        assume "pending_put env ?i disk = (Inr (), disk')"
          and st: "stored disk' (filter (\<lambda>j. pending_key j \<noteq> pending_key ?i) items @ [?i])"
        then have "pending_event_step ev disk = disk'"
          using Inr by (simp add: ev Remembered pending_remember_def)
        moreover have "\<exists>j \<in> set (filter (\<lambda>j. pending_key j \<noteq> pending_key ?i) items @ [?i]).
            pending_key j = key \<and> (\<exists>t. parse (pt_submitted_at j) = Some t \<and> t0 \<le> t)"
          using i new by (cases "pending_key ?i = key") auto
        ultimately show ?thesis using st unfolding holds_since_def by blast
      qed
    qed
  next
    case (Reconciled n' a' lookup)
    note un = assms(1) [unfolded ev Reconciled]
    show ?thesis
    proof (rule reconcile_async_cases [OF s, of env n' a' lookup], goal_cases lookup_failed not_saved finished)
      case (lookup_failed e)
      with assms(2) show ?thesis by (simp add: ev Reconciled)
    next
      case (not_saved e disk')
      with i show ?thesis by (auto simp: ev Reconciled holds_since_def)
    next
      case (finished r disk')
      have "about_account n' a' i \<longrightarrow> still_pending env lookup i"
        using held_is_still_pending [OF un _ i(3,4)] i(1,2) finished(4) by (auto simp: ev pending_key_def)
      with i(1) have "i \<in> set (filter (\<lambda>i. about_account n' a' i \<longrightarrow> still_pending env lookup i) items)"
        by simp
      with finished(2) i(2-4) have "holds_since parse t0 key disk'" by (intro holds_sinceI)
      with finished(1) show ?thesis by (simp add: ev Reconciled)
    qed
  qed
qed

interpretation pending_block: preserved pending_event_step "unresolved parse t0 key" "holds_since parse t0 key"
  for parse t0 key
  by unfold_locales (rule holds_since_step)

lemma remember_holds:
  assumes "pending_remember env n a h k disk = (Inr (), disk')"
    and "\<And>t s. pe_format_rfc3339 env t = Inr s \<Longrightarrow> pe_parse_rfc3339 env s = Some t"
  shows "holds_since (pe_parse_rfc3339 env) (pe_now env) (n, a, h) disk'"
proof -
  from assms(1) obtain at where at: "pe_format_rfc3339 env (pe_now env) = Inr at"
    and put: "pending_put env \<lparr>pt_network = n, pt_account = a, pt_tx_hash = h, pt_kind = k, pt_submitted_at = at\<rparr> disk = (Inr (), disk')"
    by (auto simp: pending_remember_def split: sum.splits)
  from put obtain items where s: "stored disk items"
    by (auto simp: pending_put_def pending_load_Inr result_simps split: sum.splits)
  from at assms(2) have parsed: "pe_parse_rfc3339 env at = Some (pe_now env)" by simp
  let ?i = "\<lparr>pt_network = n, pt_account = a, pt_tx_hash = h, pt_kind = k, pt_submitted_at = at\<rparr>"
  show ?thesis
  proof (rule pending_put_cases [OF s, of env ?i])
    fix d
    assume "pending_put env ?i disk = (Inr (), d)"
      and st: "stored d (filter (\<lambda>j. pending_key j \<noteq> pending_key ?i) items @ [?i])"
    with put have "d = disk'" by simp
    with holds_sinceI [OF st, of ?i "(n, a, h)" "pe_parse_rfc3339 env" "pe_now env" "pe_now env"] parsed
    show ?thesis by (simp add: pending_key_def)
  qed (use put in simp)
qed

lemma reconcile_blocks:
  assumes "unresolved parse t0 (n, a, h) (env, Reconciled n a lookup)" "holds_since parse t0 (n, a, h) disk"
  shows "\<exists>msg disk'. reconcile_with_async env n a lookup disk = (Inl msg, disk')"
proof -
  from assms(2) obtain items i t where s: "stored disk items"
    and i: "i \<in> set items" "pending_key i = (n, a, h)" "parse (pt_submitted_at i) = Some t" "t0 \<le> t"
    by (auto simp: holds_since_def)
  have ab: "about_account n a i" using i(2) by (simp add: about_account_def pending_key_def)
  show ?thesis
  proof (rule reconcile_async_cases [OF s, of env n a lookup], goal_cases lookup_failed not_saved finished)
    case (finished r disk')
    have "\<not> isl (lookup h)" using finished(4) i(1,2) ab by (auto simp: pending_key_def)
    from held_is_still_pending [OF assms(1) i(2-4) this] i(1) ab finished(3) have "r \<noteq> Inr ()" by auto
    with finished(1) show ?thesis by (cases r) auto
  qed auto
qed

section \<open>Properties\<close>

text \<open>C26. Once an uncertain submission has been remembered, the account cannot start another write for
  210 seconds: whatever else is remembered or reconciled in between, for this or any other account
  and with any failures of the file system or of Horizon, checking the account is refused as long
  as Horizon has not reported that transaction.\<close>

theorem uncertain_submission_blocks_account:
  assumes "pending_remember env n a h k disk = (Inr (), disk')"
    and "\<And>t s. pe_format_rfc3339 env t = Inr s \<Longrightarrow> pe_parse_rfc3339 env s = Some t"
    and "list_all (unresolved (pe_parse_rfc3339 env) (pe_now env) (n, a, h)) events"
    and "unresolved (pe_parse_rfc3339 env) (pe_now env) (n, a, h) (env', Reconciled n a lookup)"
  shows "\<exists>msg d. reconcile_with_async env' n a lookup (fold pending_event_step events disk') = (Inl msg, d)"
  using reconcile_blocks [OF assms(4) pending_block.fold_inv [OF assms(3) remember_holds [OF assms(1,2)]]] .

text \<open>C27. When the check of an account passes, no record of that account is left, every record that
  was dropped is of a transaction Horizon reported or is at least 210 seconds (the store's limit)
  old, and the records of the other accounts are untouched and in their order.\<close>

theorem reconcile_clears_account:
  assumes "stored disk items" "reconcile_with env n a lookup disk = (Inr (), disk')"
  shows "stored disk' (filter (\<lambda>i. \<not> about_account n a i) items) \<and>
    list_all (\<lambda>i. about_account n a i \<longrightarrow>
      (\<exists>v. lookup (pt_tx_hash i) = Inr (Some v)) \<or> pe_ttl_seconds env \<le> pending_age_seconds env i) items"
proof -
  let ?look = "\<lambda>h. map_ok (\<lambda>v. v \<noteq> None) (lookup h)"
  from assms(2) have rec: "reconcile_with_async env n a ?look disk = (Inr (), disk')"
    by (simp only: reconcile_with_is_async)
  show ?thesis
  proof (rule reconcile_async_cases [OF assms(1), of env n a ?look], goal_cases lookup_failed not_saved finished)
    case (finished r d)
    with rec have d: "r = Inr ()" "d = disk'" by auto
    with finished(3) have gone: "\<forall>i \<in> set items. about_account n a i \<longrightarrow> \<not> still_pending env ?look i" by simp
    then have "filter (\<lambda>i. about_account n a i \<longrightarrow> still_pending env ?look i) items =
        filter (\<lambda>i. \<not> about_account n a i) items"
      by (intro filter_cong) auto
    with finished(2) d have 1: "stored disk' (filter (\<lambda>i. \<not> about_account n a i) items)" by simp
    have 2: "(\<exists>v. lookup (pt_tx_hash i) = Inr (Some v)) \<or> pe_ttl_seconds env \<le> pending_age_seconds env i"
      if "i \<in> set items" "about_account n a i" for i
      using gone finished(4) that
      by (cases "lookup (pt_tx_hash i)") (auto simp: still_pending_def result_simps isl_def)
    from 1 2 show ?thesis by (simp add: list_all_iff)
  qed (use rec in auto)
qed

text \<open>A submission touches the store only when its outcome is uncertain, and then exactly by
  remembering the transaction's own hash; a rejected, refused or accepted submission leaves it as
  it was, and an accepted one reports success.\<close>

theorem submit_store_effect:
  assumes "submit_signed_transaction L env submit now account network e disk = (r, disk')"
  shows "(disk' = disk \<or> (\<exists>np hash xdr m. network_passphrase network = Inr np \<and>
        transaction_hash L e np = Inr hash \<and> transaction_xdr_bytes L e = Inr xdr \<and>
        submit (base64_encode L xdr) = Inl (Uncertain m) \<and>
        disk' = snd (pending_remember env network account (hex hash) ''transaction'' disk)))
    \<and> (\<not> isl r \<longleftrightarrow> ensure_transaction_not_expired now e = Inr () \<and>
        (\<exists>np hash xdr response. network_passphrase network = Inr np \<and> transaction_hash L e np = Inr hash \<and>
           transaction_xdr_bytes L e = Inr xdr \<and> submit (base64_encode L xdr) = Inr response))"
proof (cases "ensure_transaction_not_expired now e")
  case (Inr u)
  show ?thesis
  proof (cases "network_passphrase network")
    case np: (Inr np)
    show ?thesis
    proof (cases "transaction_hash L e np")
      case hash: (Inr hash)
      show ?thesis
      proof (cases "transaction_xdr_bytes L e")
        case (Inr xdr)
        with assms \<open>ensure_transaction_not_expired now e = Inr u\<close> np hash show ?thesis
          by (auto simp: submit_signed_transaction_def split: sum.splits submission_error.splits prod.splits)
      qed (use assms Inr np hash in \<open>auto simp: submit_signed_transaction_def\<close>)
    qed (use assms Inr np in \<open>auto simp: submit_signed_transaction_def\<close>)
  qed (use assms Inr in \<open>auto simp: submit_signed_transaction_def\<close>)
qed (use assms in \<open>auto simp: submit_signed_transaction_def\<close>)

section \<open>Examples\<close>

definition demo_pending_env :: "int \<Rightarrow> pending_env" where
  "demo_pending_env now =
     \<lparr>pe_path = ''pending-transactions.json'', pe_ttl_seconds = pending_ttl_seconds, pe_now = now,
      pe_format_rfc3339 = (\<lambda>t. if t = 5 then Inr ''t5'' else Inl ''year out of range''),
      pe_parse_rfc3339 = (\<lambda>s. Some 5), pe_create_dir = Inr (), pe_encode = (\<lambda>is. Inr ()),
      pe_write = Inr (), pe_rename = Inr ()\<rparr>"

definition demo_item :: pending_transaction where
  "demo_item = \<lparr>pt_network = ''testnet'', pt_account = ''GA'', pt_tx_hash = ''ab'', pt_kind = ''transaction'',
      pt_submitted_at = ''t5''\<rparr>"

definition demo_disk :: pending_disk where
  "demo_disk = \<lparr>pd_store = PendingItems [demo_item], pd_temporary = None\<rparr>"

lemma demo_item_valid: "validate_pending demo_item = Inr ()"
  by (simp add: validate_pending_def demo_item_def trim_plain plain_char_def is_ascii_byte_def is_ascii_ws_def)

lemma demo_remember:
  "pending_remember (demo_pending_env 5) ''testnet'' ''GA'' ''ab'' ''transaction'' \<lparr>pd_store = NoFile, pd_temporary = None\<rparr> =
     (Inr (), demo_disk)"
  using demo_item_valid
  by (simp add: pending_remember_def demo_pending_env_def pending_put_def pending_load_def pending_save_def
      demo_disk_def demo_item_def)

lemma demo_unresolved:
  "now \<in> {5..1000} \<Longrightarrow>
     unresolved (pe_parse_rfc3339 (demo_pending_env 5)) (pe_now (demo_pending_env 5)) (''testnet'', ''GA'', ''ab'')
       (demo_pending_env now, Reconciled ''testnet'' a (\<lambda>h. Inr False))"
  by (simp add: unresolved_def demo_pending_env_def pending_ttl_seconds_def)

theorem uncertain_submission_blocks_account_witness:
  "\<exists>msg d. reconcile_with_async (demo_pending_env 900) ''testnet'' ''GA'' (\<lambda>h. Inr False)
     (fold pending_event_step [(demo_pending_env 7, Reconciled ''testnet'' ''GB'' (\<lambda>h. Inr False))] demo_disk) =
     (Inl msg, d)"
proof -
  have "list_all (unresolved (pe_parse_rfc3339 (demo_pending_env 5)) (pe_now (demo_pending_env 5)) (''testnet'', ''GA'', ''ab''))
      [(demo_pending_env 7, Reconciled ''testnet'' ''GB'' (\<lambda>h. Inr False))]"
    by (simp add: demo_unresolved)
  moreover have "pe_parse_rfc3339 (demo_pending_env 5) s = Some t"
    if "pe_format_rfc3339 (demo_pending_env 5) t = Inr s" for t s
    using that by (simp add: demo_pending_env_def split: if_splits)
  ultimately show ?thesis
    by (intro uncertain_submission_blocks_account [OF demo_remember _ _ demo_unresolved]) simp_all
qed

lemma demo_stored: "stored demo_disk [demo_item]"
  by (simp add: stored_def demo_disk_def demo_item_valid)

theorem reconcile_clears_account_witness:
  "\<exists>d. stored d (filter (\<lambda>i. \<not> about_account ''testnet'' ''GA'' i) [demo_item])"
proof -
  have "reconcile_with (demo_pending_env 900) ''testnet'' ''GA'' (\<lambda>h. Inr (Some JNull)) demo_disk =
      (Inr (), demo_disk\<lparr>pd_store := PendingItems []\<rparr>)"
    by (simp add: reconcile_with_def pending_load_def demo_disk_def demo_item_valid reconcile_finish_def
        pending_save_def demo_pending_env_def) (simp add: demo_item_def about_account_def)
  from reconcile_clears_account [OF demo_stored this] show ?thesis by blast
qed

theorem submit_store_effect_witness:
  "\<not> isl (fst (submit_signed_transaction demo_lib (demo_pending_env 5) (\<lambda>x. Inr JNull) 1 ''GA'' ''testnet'' demo_env demo_disk))"
proof -
  obtain r d where s: "submit_signed_transaction demo_lib (demo_pending_env 5) (\<lambda>x. Inr JNull) 1 ''GA'' ''testnet'' demo_env demo_disk = (r, d)"
    by (cases "submit_signed_transaction demo_lib (demo_pending_env 5) (\<lambda>x. Inr JNull) 1 ''GA'' ''testnet'' demo_env demo_disk")
  have "ensure_transaction_not_expired 1 demo_env = Inr ()"
    by (simp add: ensure_transaction_not_expired_def ensure_not_expired_at_def demo_env_def demo_tx_def)
  with submit_store_effect [OF s] s show ?thesis
    by (simp add: network_passphrase_def demo_transaction_hash transaction_xdr_bytes_def transaction_envelope_xdr_def)
qed

end
