(* ===== verification/DexMath.thy ===== *)
theory DexMath
  imports Amount Stellar
begin

text \<open>
  The integer arithmetic of dex.rs: offer liabilities, the 32-bit rational approximation of a decimal
  price, rounding and the seven-decimal text of prices and totals. \<open>i128\<close> values are \<open>int\<close>; the
  operations of the code on them that are checked or saturating are written out, the plain ones stay
  far inside the range (an \<open>i64\<close> times an \<open>i32\<close> is below \<open>2 ^ 95\<close>). Rust's \<open>/\<close> and \<open>%\<close> are
  \<open>div\<close> and \<open>mod\<close>: every dividend is non-negative and every divisor positive where they are used.
\<close>

definition i128_max :: int where
  "i128_max = 170141183460469231731687303715884105727"

definition i128_min :: int where
  "i128_min = -170141183460469231731687303715884105728"

definition checked_i128 :: "int \<Rightarrow> int option" where
  "checked_i128 x = (if i128_min \<le> x \<and> x \<le> i128_max then Some x else None)"

definition saturating_mul_i128 :: "int \<Rightarrow> int \<Rightarrow> int" where
  "saturating_mul_i128 a b = max i128_min (min i128_max (a * b))"

section \<open>Offer liabilities\<close>

datatype offer_side = Buy | Sell

record offer_liabilities_t =
  liability_selling :: int
  liability_buying :: int

definition ceil_div :: "int \<Rightarrow> int \<Rightarrow> int result" where
  "ceil_div numerator denominator =
     (if numerator < 0 \<or> denominator \<le> 0 then Inl ''invalid offer liability division''
      else ok_or ''offer liability overflow''
             (map_option (\<lambda>v. v div denominator) (checked_i128 (numerator + (denominator - 1)))))"

definition exchange_v10_normal_liabilities :: "int \<Rightarrow> int \<Rightarrow> int \<Rightarrow> int \<Rightarrow> (int \<times> int) result" where
  "exchange_v10_normal_liabilities n d max_wheat_send max_sheep_receive =
     (if n \<le> 0 \<or> d \<le> 0 \<or> max_wheat_send < 0 \<or> max_sheep_receive < 0
      then Inl ''invalid offer liability inputs''
      else
        (let wheat_value = min (max_wheat_send * n) (max_sheep_receive * d);
             sheep_value = min (i64_max * d) (i64_max * n);
             wheat_stays = wheat_value > sheep_value
         in and_then
              (if wheat_stays then
                 (if n > d then
                    (let wheat = sheep_value div n
                     in and_then (ceil_div (wheat * n) d) (\<lambda>sheep. Inr (wheat, sheep)))
                  else
                    (let sheep = sheep_value div d; wheat = sheep * d div n in Inr (wheat, sheep)))
               else if n > d then
                 (let wheat = wheat_value div n; sheep = wheat * n div d in Inr (wheat, sheep))
               else
                 (let sheep = wheat_value div d
                  in and_then (ceil_div (sheep * d) n) (\<lambda>wheat. Inr (wheat, sheep))))
              (\<lambda>(wheat_receive, sheep_send).
                 and_then (ok_or ''offer selling liability overflow'' (checked_i64 wheat_receive)) (\<lambda>selling.
                 and_then (ok_or ''offer buying liability overflow'' (checked_i64 sheep_send)) (\<lambda>buying.
                   Inr (selling, buying))))))"

definition offer_liabilities :: "offer_side \<Rightarrow> int \<Rightarrow> price \<Rightarrow> offer_liabilities_t result" where
  "offer_liabilities side amount p =
     (let (n, d, max_wheat_send, max_sheep_receive) =
            (case side of
               Sell \<Rightarrow> (price_n p, price_d p, amount, i64_max)
             | Buy \<Rightarrow> (price_d p, price_n p, i64_max, amount))
      in and_then (exchange_v10_normal_liabilities n d max_wheat_send max_sheep_receive) (\<lambda>(selling, buying).
           Inr \<lparr>liability_selling = selling, liability_buying = buying\<rparr>))"

definition price_ok :: "price \<Rightarrow> bool" where
  "price_ok p \<longleftrightarrow> 0 < price_n p \<and> price_n p \<le> i32_max \<and> 0 < price_d p \<and> price_d p \<le> i32_max"

lemma ceil_div_Inr:
  "ceil_div a b = Inr c \<longleftrightarrow> 0 \<le> a \<and> 0 < b \<and> a + (b - 1) \<le> i128_max \<and> c = (a + (b - 1)) div b"
  by (auto simp: ceil_div_def checked_i128_def i128_min_def)

lemma ceil_div_bounds:
  fixes a b :: int
  assumes "0 < b"
  shows "a \<le> (a + (b - 1)) div b * b" "(a + (b - 1)) div b * b < a + b"
proof -
  have "(a + (b - 1)) div b * b + (a + (b - 1)) mod b = a + (b - 1)" by simp
  moreover have "0 \<le> (a + (b - 1)) mod b" "(a + (b - 1)) mod b < b" using assms by simp_all
  ultimately show "a \<le> (a + (b - 1)) div b * b" "(a + (b - 1)) div b * b < a + b" by linarith+
qed

lemma floor_div_bounds:
  fixes a b :: int
  assumes "0 < b"
  shows "a div b * b \<le> a" "a < a div b * b + b"
proof -
  have "a div b * b + a mod b = a" by simp
  moreover have "0 \<le> a mod b" "a mod b < b" using assms by simp_all
  ultimately show "a div b * b \<le> a" "a < a div b * b + b" by linarith+
qed

text \<open>The exchange never reaches its \<open>wheat_stays\<close> branch: both sides are bounded by \<open>i64::MAX\<close>.\<close>

lemma wheat_never_stays:
  fixes n d W S :: int
  assumes "0 < n" "0 < d" "W \<le> i64_max" "S \<le> i64_max"
  shows "min (W * n) (S * d) \<le> min (i64_max * d) (i64_max * n)"
proof -
  have "W * n \<le> i64_max * n" "S * d \<le> i64_max * d"
    using assms by (simp_all add: mult_right_mono)
  then show ?thesis by (auto simp: min_le_iff_disj)
qed

lemma exchange_spec:
  assumes "0 < n" "n \<le> i32_max" "0 < d" "d \<le> i32_max" "0 \<le> W" "W \<le> i64_max" "0 \<le> S" "S \<le> i64_max"
  shows "\<exists>s b. exchange_v10_normal_liabilities n d W S = Inr (s, b) \<and>
    0 \<le> s \<and> s \<le> W \<and> 0 \<le> b \<and> b \<le> S \<and> 0 \<le> s * n - b * d \<and> s * n - b * d < min n d \<and>
    min (W * n) (S * d) < s * n + max n d"
proof -
  define V where "V = min (W * n) (S * d)"
  have V: "0 \<le> V" "V \<le> W * n" "V \<le> S * d" using assms by (auto simp: V_def)
  have stays: "\<not> V > min (i64_max * d) (i64_max * n)"
    using wheat_never_stays [OF assms(1,3,6,8)] unfolding V_def not_less .
  show ?thesis
  proof (cases "n > d")
    case True
    define s where "s = V div n"
    define b where "b = s * n div d"
    have s: "s * n \<le> V" "V < s * n + n" "0 \<le> s"
      using floor_div_bounds [OF assms(1), of V] V(1) assms(1)
      by (simp_all add: s_def pos_imp_zdiv_nonneg_iff)
    have b: "b * d \<le> s * n" "s * n < b * d + d" "0 \<le> b"
      using floor_div_bounds [OF assms(3), of "s * n"] s(3) assms(1,3)
      by (simp_all add: b_def pos_imp_zdiv_nonneg_iff)
    have "s * n \<le> W * n" "b * d \<le> S * d" using s b V by linarith+
    then have le: "s \<le> W" "b \<le> S" using assms by simp_all
    then have "exchange_v10_normal_liabilities n d W S = Inr (s, b)"
      using assms stays True s(3) b(3)
      by (simp add: exchange_v10_normal_liabilities_def Let_def V_def [symmetric] s_def [symmetric]
          b_def [symmetric] checked_i64_def in_i64_def i64_min_def)
    with s b le True show ?thesis unfolding V_def [symmetric] by auto
  next
    case False
    define b where "b = V div d"
    define s where "s = (b * d + (n - 1)) div n"
    have b: "b * d \<le> V" "V < b * d + d" "0 \<le> b"
      using floor_div_bounds [OF assms(3), of V] V(1) assms(3)
      by (simp_all add: b_def pos_imp_zdiv_nonneg_iff)
    have s: "b * d \<le> s * n" "s * n < b * d + n"
      using ceil_div_bounds [OF assms(1), of "b * d"] by (simp_all add: s_def)
    have bd: "0 \<le> b * d" using b assms by simp
    then have "0 \<le> s" unfolding s_def using assms(1) by (simp add: pos_imp_zdiv_nonneg_iff)
    have "b * d \<le> S * d" using b V by linarith
    then have "b \<le> S" using assms by simp
    have "s * n < W * n + n" using s b V by linarith
    then have "s * n < (W + 1) * n" by (simp add: algebra_simps)
    then have "s \<le> W" using assms(1) by (simp add: mult_less_cancel_right)
    have "b * d \<le> i64_max * i32_max"
      using \<open>b \<le> S\<close> assms b(3) by (intro mult_mono) auto
    then have ceil: "ceil_div (b * d) n = Inr s"
      using bd assms by (simp add: ceil_div_Inr s_def arith_defs i128_max_def)
    have "exchange_v10_normal_liabilities n d W S = Inr (s, b)"
      using assms stays False \<open>0 \<le> s\<close> b(3) \<open>s \<le> W\<close> \<open>b \<le> S\<close> ceil
      by (simp add: exchange_v10_normal_liabilities_def Let_def V_def [symmetric] b_def [symmetric]
          checked_i64_def in_i64_def i64_min_def)
    with s b \<open>0 \<le> s\<close> \<open>s \<le> W\<close> \<open>b \<le> S\<close> False show ?thesis unfolding V_def [symmetric] by auto
  qed
qed

section \<open>Rounded ratios and their text\<close>

definition round_ratio :: "int \<Rightarrow> int \<Rightarrow> int result" where
  "round_ratio numerator denominator =
     (if numerator < 0 \<or> denominator \<le> 0 then Inl ''invalid non-negative decimal ratio''
      else
        (let quotient = numerator div denominator; remainder = numerator mod denominator
         in Inr (if saturating_mul_i128 remainder 2 \<ge> denominator then quotient + 1 else quotient)))"

definition format_scaled_7 :: "int \<Rightarrow> string" where
  "format_scaled_7 value =
     (let whole = value div stroops_per_xlm; fraction = value mod stroops_per_xlm
      in int_to_dec whole @ ''.'' @ pad7 (nat fraction))"

definition format_price_ratio :: "int \<Rightarrow> int \<Rightarrow> string result" where
  "format_price_ratio n d =
     and_then (ok_or ''price display overflow'' (checked_i128 (n * stroops_per_xlm))) (\<lambda>numerator.
     and_then (ok_or ''price display overflow'' (checked_i128 (numerator * 2))) (\<lambda>twice.
       if twice < d then Inr ''<0.0000001''
       else map_ok format_scaled_7 (round_ratio numerator d)))"

definition format_price_product :: "int \<Rightarrow> price \<Rightarrow> string result" where
  "format_price_product amount p =
     and_then (ok_or ''offer total overflow'' (checked_i128 (amount * price_n p))) (\<lambda>numerator.
     and_then (round_ratio numerator (price_d p)) (\<lambda>stroops.
     and_then (ok_or ''offer total overflow'' (checked_i64 stroops)) (\<lambda>s. Inr (format_stroops s))))"

lemma round_ratio_Inr:
  assumes "0 \<le> a" "0 < b" "b \<le> i128_max"
  shows "\<exists>q. round_ratio a b = Inr q \<and> 0 \<le> q \<and> 2 * q * b \<le> 2 * a + b \<and> 2 * a + b < 2 * (q + 1) * b"
proof -
  define r where "r = a mod b"
  have r: "0 \<le> r" "r < b" "a = a div b * b + r" using assms by (simp_all add: r_def)
  have up: "saturating_mul_i128 r 2 \<ge> b \<longleftrightarrow> 2 * r \<ge> b"
    using r assms by (auto simp: saturating_mul_i128_def i128_min_def)
  have q: "0 \<le> a div b" using assms by (simp add: pos_imp_zdiv_nonneg_iff)
  define q where "q = a div b"
  have a: "a = q * b + r" using r(3) by (simp add: q_def)
  have round: "round_ratio a b = Inr (if 2 * r \<ge> b then q + 1 else q)"
    using assms up by (simp add: round_ratio_def Let_def r_def [symmetric] q_def [symmetric])
  show ?thesis
  proof (cases "2 * r \<ge> b")
    case True
    with round have "round_ratio a b = Inr (q + 1)" by simp
    moreover have "2 * (q + 1) * b \<le> 2 * a + b" "2 * a + b < 2 * (q + 1 + 1) * b"
      using True r by (simp_all add: a algebra_simps)
    ultimately show ?thesis using q by (intro exI [of _ "q + 1"]) (simp add: q_def)
  next
    case False
    with round have "round_ratio a b = Inr q" by simp
    moreover have "2 * q * b \<le> 2 * a + b" "2 * a + b < 2 * (q + 1) * b"
      using False r by (simp_all add: a algebra_simps)
    ultimately show ?thesis using q by (intro exI [of _ q]) (simp add: q_def)
  qed
qed

lemma format_scaled_7_text:
  assumes "0 \<le> v"
  shows "amount_text (format_scaled_7 v) (nat_to_dec (nat (v div stroops_per_xlm))) (pad7 (nat (v mod stroops_per_xlm)))
    \<and> decimal_value (nat_to_dec (nat (v div stroops_per_xlm))) (pad7 (nat (v mod stroops_per_xlm))) = v"
proof -
  let ?w = "nat_to_dec (nat (v div stroops_per_xlm))" and ?f = "pad7 (nat (v mod stroops_per_xlm))"
  have pos: "0 < stroops_per_xlm" by (simp add: stroops_per_xlm_def)
  have q: "0 \<le> v div stroops_per_xlm" using assms pos by (simp add: pos_imp_zdiv_nonneg_iff)
  have m: "0 \<le> v mod stroops_per_xlm" "v mod stroops_per_xlm < stroops_per_xlm" using pos by simp_all
  then have "nat (v mod stroops_per_xlm) < 10 ^ 7" by (simp add: stroops_per_xlm_def nat_less_iff)
  from pad7_digits [OF this] have f: "all_digits ?f" "length ?f = 7" "dec_val ?f = nat (v mod stroops_per_xlm)"
    by auto
  have fmt: "format_scaled_7 v = ?w @ CHR ''.'' # ?f"
    using q by (simp add: format_scaled_7_def int_to_dec_nonneg)
  have "list_all plain_char (?w @ CHR ''.'' # ?f)"
    using f(1) all_digits_nat_to_dec [of "nat (v div stroops_per_xlm)"]
    by (auto simp: all_digits_def list_all_iff plain_digit)
      (simp add: plain_char_def is_ascii_byte_def is_ascii_ws_def)
  then have "amount_text (format_scaled_7 v) ?w ?f"
    using f by (simp add: amount_text_def fmt trim_plain all_digits_nat_to_dec)
  moreover have "decimal_value ?w ?f = v div stroops_per_xlm * stroops_per_xlm + v mod stroops_per_xlm"
    using f q m by (simp add: decimal_value_def dec_val_nat_to_dec)
  ultimately show ?thesis by simp
qed

lemma parse_format_scaled_7:
  "0 \<le> v \<Longrightarrow> v \<le> i64_max \<Longrightarrow> parse_stroops (format_scaled_7 v) False = Inr v"
  using format_scaled_7_text [of v] parse_stroops_accepts [of "format_scaled_7 v" _ _ False] by auto

section \<open>Decimal prices as 32-bit ratios\<close>

definition no_price :: string where
  "no_price = ''Offer price has no Stellar int32 rational approximation''"

text \<open>
  The loop over the continued fraction: the previous and current convergents and the best ratio so
  far. A zero denominator would panic; it does not occur (\<open>stellar_price\<close> below always returns).
\<close>

function price_loop ::
  "int \<Rightarrow> int \<Rightarrow> int \<Rightarrow> int \<Rightarrow> int \<Rightarrow> int \<Rightarrow> int \<Rightarrow> int \<Rightarrow> (int \<times> int \<times> int \<times> int \<times> int \<times> int) result" where
  "price_loop num den pn pd cn cd bn bd =
     (if den \<le> 0 then Inl ''attempt to divide by zero''
      else if num > den * i32_max then Inr (pn, pd, cn, cd, bn, bd)
      else
        (let a = num div den
         in and_then (ok_or no_price (Option.bind (checked_mul a cn) (\<lambda>v. checked_add v pn))) (\<lambda>next_n.
            and_then (ok_or no_price (Option.bind (checked_mul a cd) (\<lambda>v. checked_add v pd))) (\<lambda>next_d.
              if next_n > i32_max \<or> next_d > i32_max then Inr (pn, pd, cn, cd, bn, bd)
              else if num mod den = 0 then Inr (cn, cd, next_n, next_d, next_n, next_d)
              else price_loop den (num mod den) cn cd next_n next_d next_n next_d))))"
  by pat_completeness auto
termination
  by (relation "measure (\<lambda>(num, den, _). nat den)") auto

declare price_loop.simps [simp del]

definition recovered_price :: "int \<Rightarrow> int \<Rightarrow> int \<Rightarrow> int \<Rightarrow> int \<Rightarrow> int \<Rightarrow> (int \<times> int) result" where
  "recovered_price pn pd cn cd bn bd =
     (let c1 = (if cn > 0 then min i32_max ((i32_max - pn) div cn) else i32_max);
          c2 = (if cd > 0 then min c1 ((i32_max - pd) div cd) else c1)
      in if c2 \<ge> 1 then
           and_then (ok_or no_price (Option.bind (checked_mul c2 cn) (\<lambda>v. checked_add v pn))) (\<lambda>rn.
           and_then (ok_or no_price (Option.bind (checked_mul c2 cd) (\<lambda>v. checked_add v pd))) (\<lambda>rd.
             Inr (if rn > 0 \<and> rd > 0 \<and> rn \<le> i32_max \<and> rd \<le> i32_max then (rn, rd) else (bn, bd))))
         else Inr (bn, bd))"

definition stellar_price :: "int \<Rightarrow> price result" where
  "stellar_price price_stroops =
     and_then (price_loop price_stroops stroops_per_xlm 0 1 1 0 1 0) (\<lambda>(pn, pd, cn, cd, bn, bd).
     and_then (if bn \<le> 0 \<or> bd \<le> 0 then recovered_price pn pd cn cd bn bd else Inr (bn, bd)) (\<lambda>(n, d).
       if n \<le> 0 \<or> d \<le> 0 then Inl no_price
       else and_then (ensure (in_i32 n) ''Offer price numerator exceeds int32'') (\<lambda>_.
            and_then (ensure (in_i32 d) ''Offer price denominator exceeds int32'') (\<lambda>_.
              Inr \<lparr>price_n = n, price_d = d\<rparr>))))"

definition requested_price_if_approximated :: "int \<Rightarrow> price \<Rightarrow> string option" where
  "requested_price_if_approximated price_stroops p =
     (if price_stroops * price_d p \<noteq> price_n p * stroops_per_xlm then Some (format_stroops price_stroops)
      else None)"

text \<open>
  The invariant of the loop after its first turn, for a requested ratio \<open>N / D\<close>: two consecutive
  convergents with determinant one, in terms of which numerator and denominator are recovered.
\<close>

definition price_state :: "int \<Rightarrow> int \<Rightarrow> int \<Rightarrow> int \<Rightarrow> int \<Rightarrow> int \<Rightarrow> int \<Rightarrow> int \<Rightarrow> bool" where
  "price_state N D num den pn pd cn cd \<longleftrightarrow>
     N = num * cn + den * pn \<and> D = num * cd + den * pd \<and>
     0 < den \<and> den < num \<and> 0 \<le> pn \<and> pn \<le> i32_max \<and> 0 \<le> pd \<and> 0 \<le> cn \<and> cn \<le> i32_max \<and> 1 \<le> cd \<and> cd \<le> i32_max \<and>
     pd \<le> i32_max \<and> \<bar>cn * pd - pn * cd\<bar> = 1 \<and> gcd num den = gcd N D \<and>
     (cn = 0 \<longrightarrow> pn = 1 \<and> pd = 0 \<and> cd = 1)"

text \<open>What a returned ratio \<open>n / d\<close> is to the requested \<open>N / D\<close>.\<close>

definition price_good :: "int \<Rightarrow> int \<Rightarrow> int \<Rightarrow> int \<Rightarrow> bool" where
  "price_good N D n d \<longleftrightarrow>
     1 \<le> n \<and> n \<le> i32_max \<and> 1 \<le> d \<and> d \<le> i32_max \<and> coprime n d \<and>
     \<bar>N * d - D * n\<bar> * d < D \<and> (N div gcd N D \<le> i32_max \<longrightarrow> N * d = D * n)"

lemma det_one_coprime:
  fixes a b c d :: int
  assumes "\<bar>a * d - c * b\<bar> = 1"
  shows "coprime a b"
proof (rule coprimeI)
  fix x assume "x dvd a" "x dvd b"
  then have "x dvd a * d - c * b" by (simp add: dvd_diff)
  then have "x dvd \<bar>a * d - c * b\<bar>" by simp
  with assms show "is_unit x" by simp
qed

lemma price_state_error:
  assumes "price_state N D num den pn pd cn cd"
  shows "\<bar>N * cd - D * cn\<bar> = den" "num \<le> D" "den * cd < D"
proof -
  note st = assms [unfolded price_state_def]
  have "N * cd - D * cn = den * (pn * cd - cn * pd)"
    using st by (simp add: algebra_simps)
  then have "\<bar>N * cd - D * cn\<bar> = \<bar>den\<bar> * \<bar>cn * pd - pn * cd\<bar>"
    by (simp add: abs_mult abs_minus_commute)
  then show "\<bar>N * cd - D * cn\<bar> = den" using st by simp
  have 1: "0 \<le> den * pd" using st by simp
  have "num * 1 \<le> num * cd" using st by (intro mult_left_mono) auto
  with 1 st show "num \<le> D" by linarith
  have "den * cd < num * cd" using st by (intro mult_strict_right_mono) auto
  with 1 st show "den * cd < D" by linarith
qed

lemma price_step_values:
  assumes "price_state N D num den pn pd cn cd"
  defines "a \<equiv> num div den" and "r \<equiv> num mod den"
  shows "N = den * (a * cn + pn) + r * cn" "D = den * (a * cd + pd) + r * cd"
    "\<bar>(a * cn + pn) * cd - cn * (a * cd + pd)\<bar> = 1"
proof -
  note st = assms(1) [unfolded price_state_def]
  have num: "num = den * a + r" by (simp add: a_def r_def)
  show "N = den * (a * cn + pn) + r * cn" "D = den * (a * cd + pd) + r * cd"
    using st by (simp_all add: num algebra_simps)
  have det: "(a * cn + pn) * cd - cn * (a * cd + pd) = - (cn * pd - pn * cd)"
    by (simp add: algebra_simps)
  show "\<bar>(a * cn + pn) * cd - cn * (a * cd + pd)\<bar> = 1"
    unfolding det abs_minus_cancel using st by simp
qed

lemma price_loop_state:
  assumes "price_state N D num den pn pd cn cd" "D = stroops_per_xlm" "0 < N"
  shows "\<exists>pn' pd' cn' cd' bn' bd'.
    price_loop num den pn pd cn cd cn cd = Inr (pn', pd', cn', cd', bn', bd') \<and> price_good N D bn' bd'"
  using assms
proof (induction "nat den" arbitrary: num den pn pd cn cd rule: less_induct)
  case less
  note st = less.prems(1) [unfolded price_state_def]
  define a where "a = num div den"
  define r where "r = num mod den"
  define n' where "n' = a * cn + pn"
  define d' where "d' = a * cd + pd"
  note err = price_state_error [OF less.prems(1)]
  note val = price_step_values [OF less.prems(1), folded a_def r_def, folded n'_def d'_def]
  have D: "D < i32_max" using less.prems(2) by (simp add: stroops_per_xlm_def i32_max_def)
  have r: "0 \<le> r" "r < den" using st by (simp_all add: r_def)
  have num: "num = den * a + r" by (simp add: a_def r_def)
  have a1: "1 \<le> a"
  proof (rule ccontr)
    assume "\<not> 1 \<le> a"
    then have "den * a \<le> 0" using st by (intro mult_nonneg_nonpos) auto
    with num r st show False by linarith
  qed
  have "1 * a \<le> den * a" using st a1 by (intro mult_right_mono) auto
  then have a: "1 \<le> a" "a \<le> num" using a1 num r by linarith+
  have a32: "a \<le> i32_max" using a(2) err(2) D by linarith
  have nn: "0 \<le> a * cn" "0 \<le> a * cd" "a * cn \<le> i32_max * i32_max" "a * cd \<le> i32_max * i32_max"
    using st a a32 by (auto intro!: mult_mono)
  have ok: "Option.bind (checked_mul a cn) (\<lambda>v. checked_add v pn) = Some n'"
    "Option.bind (checked_mul a cd) (\<lambda>v. checked_add v pd) = Some d'"
    using nn st by (simp_all add: bind_eq_Some_conv result_simps n'_def d'_def arith_defs)
  have first: "\<not> num > den * i32_max"
  proof -
    have "1 * i32_max \<le> den * i32_max" using st by (intro mult_right_mono) (auto simp: i32_max_def)
    with err(2) D show ?thesis by linarith
  qed
  have d'1: "1 \<le> d'"
  proof -
    have "1 * 1 \<le> a * cd" using a(1) st by (intro mult_mono) auto
    with st show ?thesis by (simp add: d'_def)
  qed
  have n'1: "1 \<le> n'"
  proof (cases "cn = 0")
    case False
    then have "1 * 1 \<le> a * cn" using a(1) st by (intro mult_mono) auto
    with st show ?thesis by (simp add: n'_def)
  qed (use st in \<open>simp add: n'_def\<close>)
  have dn: "den * n' \<le> N" "den * d' \<le> D"
    using val(1,2) r(1) st by (simp_all add: mult_nonneg_nonneg)
  have loop: "price_loop num den pn pd cn cd cn cd =
      (if n' > i32_max \<or> d' > i32_max then Inr (pn, pd, cn, cd, cn, cd)
       else if r = 0 then Inr (cn, cd, n', d', n', d')
       else price_loop den r cn cd n' d' n' d')"
    using st first
    by (subst price_loop.simps) (simp add: Let_def a_def [symmetric] r_def [symmetric] ok)
  have "1 * d' \<le> den * d'" using st d'1 by (intro mult_right_mono) auto
  then have d'32: "d' \<le> i32_max" using dn(2) D by linarith
  consider (stop) "n' > i32_max" | (exact) "n' \<le> i32_max" "r = 0" | (next_turn) "n' \<le> i32_max" "0 < r"
    using r(1) by linarith
  then show ?case
  proof cases
    case stop
    have cn1: "1 \<le> cn"
    proof (rule ccontr)
      assume "\<not> 1 \<le> cn"
      with st have "cn = 0" "pn = 1" by auto
      then have "n' = 1" by (simp add: n'_def)
      with stop show False by (simp add: i32_max_def)
    qed
    have "\<bar>N * cd - D * cn\<bar> * cd < D" using err by simp
    moreover have "coprime cn cd" by (rule det_one_coprime [of cn pd pn cd]) (use st in simp)
    moreover have "\<not> N div gcd N D \<le> i32_max"
    proof
      assume le: "N div gcd N D \<le> i32_max"
      define g where "g = gcd N D"
      have gd: "gcd num den = g" using st by (simp add: g_def)
      have "gcd num den dvd den" by (rule gcd_dvd2)
      then have g1: "g dvd den" by (simp only: gd)
      have g2: "0 < g" using less.prems(3) by (simp add: g_def)
      have g3: "g dvd N" by (simp add: g_def)
      note g = g1 g2 g3
      then have "g \<le> den" using st by (simp add: zdvd_imp_le)
      then have "g * n' \<le> den * n'" using n'1 by (intro mult_right_mono) auto
      with dn(1) have "g * n' \<le> N" by linarith
      moreover have "N = g * (N div g)" using g(3) by simp
      ultimately have "g * n' \<le> g * (N div g)" by simp
      with g(2) have "n' \<le> N div g" by simp
      with le stop show False by (simp add: g_def)
    qed
    ultimately have "price_good N D cn cd"
      using st cn1 by (simp add: price_good_def)
    with stop show ?thesis by (simp add: loop)
  next
    case exact
    then have "N = den * n'" "D = den * d'" using val(1,2) by simp_all
    then have eq: "N * d' = D * n'" by simp
    have "coprime n' d'" by (rule det_one_coprime [of n' cd cn d']) (use val(3) in simp)
    moreover have "0 < D" using less.prems(2) by (simp add: stroops_per_xlm_def)
    ultimately have "price_good N D n' d'"
      using n'1 d'1 exact d'32 eq by (simp add: price_good_def)
    with exact d'32 show ?thesis by (simp add: loop)
  next
    case next_turn
    have "gcd den r = gcd N D"
      using st by (simp add: r_def gcd_red_int [symmetric])
    then have "price_state N D den r cn cd n' d'"
      unfolding price_state_def
      using val r next_turn n'1 d'1 d'32 st by (auto simp: algebra_simps)
    moreover have "nat r < nat den" using r st by simp
    ultimately have "\<exists>pn' pd' cn' cd' bn' bd'. price_loop den r cn cd n' d' n' d' =
        Inr (pn', pd', cn', cd', bn', bd') \<and> price_good N D bn' bd'"
      using less.prems(2,3) by (intro less.hyps)
    with next_turn d'32 show ?thesis by (simp add: loop)
  qed
qed

text \<open>The first turn leads into the invariant, ends exactly, or finds the price out of range.\<close>

lemma price_loop_start:
  assumes "0 < N" "N \<le> stroops_per_xlm * i32_max"
  shows "\<exists>pn pd cn cd bn bd. price_loop N stroops_per_xlm 0 1 1 0 1 0 = Inr (pn, pd, cn, cd, bn, bd) \<and>
    price_good N stroops_per_xlm bn bd"
proof -
  define D where "D = stroops_per_xlm"
  have D: "0 < D" "D < i32_max" by (simp_all add: D_def stroops_per_xlm_def i32_max_def)
  define a where "a = N div D"
  define r where "r = N mod D"
  have N: "N = D * a + r" "0 \<le> r" "r < D" using D by (simp_all add: a_def r_def)
  have a: "0 \<le> a" using assms(1) D by (simp add: a_def pos_imp_zdiv_nonneg_iff)
  have "D * a \<le> D * i32_max" using N assms(2) unfolding D_def by linarith
  then have a32: "a \<le> i32_max" using D by simp
  have ok: "Option.bind (checked_mul a 1) (\<lambda>v. checked_add v 0) = Some a"
    "Option.bind (checked_mul a 0) (\<lambda>v. checked_add v 1) = Some 1"
    using a a32 by (simp_all add: bind_eq_Some_conv result_simps arith_defs)
  have loop: "price_loop N D 0 1 1 0 1 0 =
      (if r = 0 then Inr (1, 0, a, 1, a, 1) else price_loop D r 1 0 a 1 a 1)"
    using D assms(2) a32
    by (subst price_loop.simps)
      (simp add: Let_def a_def [symmetric] r_def [symmetric] ok D_def [symmetric] not_less i32_max_def)
  show ?thesis
  proof (cases "r = 0")
    case True
    with N(1) assms(1) D have "1 \<le> a" by (simp add: zero_less_mult_iff int_one_le_iff_zero_less)
    with True N(1) a32 D have "price_good N D a 1" by (simp add: price_good_def i32_max_def)
    with True show ?thesis by (simp add: loop D_def [symmetric])
  next
    case False
    have "gcd D r = gcd N D" by (simp add: r_def gcd_red_int [symmetric] gcd.commute)
    with False N a a32 D have "price_state N D D r 1 0 a 1"
      by (simp add: price_state_def i32_max_def algebra_simps)
    from price_loop_state [OF this D_def assms(1)] False show ?thesis
      by (simp add: loop D_def [symmetric])
  qed
qed

lemma stellar_price_spec:
  assumes "0 < N"
  shows "\<exists>p. stellar_price N = Inr p \<and> price_ok p \<and>
    (if N \<le> stroops_per_xlm * i32_max then price_good N stroops_per_xlm (price_n p) (price_d p)
     else price_n p = i32_max \<and> price_d p = 1)"
proof (cases "N \<le> stroops_per_xlm * i32_max")
  case True
  from price_loop_start [OF assms True] obtain pn pd cn cd n d
    where loop: "price_loop N stroops_per_xlm 0 1 1 0 1 0 = Inr (pn, pd, cn, cd, n, d)"
    and good: "price_good N stroops_per_xlm n d" by blast
  from good have "1 \<le> n" "n \<le> i32_max" "1 \<le> d" "d \<le> i32_max" by (simp_all add: price_good_def)
  then have "stellar_price N = Inr \<lparr>price_n = n, price_d = d\<rparr>" "price_ok \<lparr>price_n = n, price_d = d\<rparr>"
    by (simp_all add: stellar_price_def loop price_ok_def in_i32_def i32_min_def)
  with good True show ?thesis by auto
next
  case False
  then have "price_loop N stroops_per_xlm 0 1 1 0 1 0 = Inr (0, 1, 1, 0, 1, 0)"
    by (subst price_loop.simps) (simp add: stroops_per_xlm_def)
  moreover have "recovered_price 0 1 1 0 1 0 = Inr (i32_max, 1)"
    by (simp add: recovered_price_def Let_def result_simps checked_mul_def checked_add_def
        checked_i64_def arith_defs)
  ultimately have "stellar_price N = Inr \<lparr>price_n = i32_max, price_d = 1\<rparr>"
    by (simp add: stellar_price_def in_i32_def i32_min_def i32_max_def)
  with False show ?thesis by (simp add: price_ok_def i32_max_def)
qed

text \<open>
  The ratio is the last convergent of the continued fraction that fits, not always the closest one
  that fits: 300.0000001 is encoded as 300/1, and 2147483401/7158278 would be closer.
\<close>

lemma stellar_price_not_closest:
  "stellar_price 3000000001 = Inr \<lparr>price_n = 300, price_d = 1\<rparr> \<and>
   price_ok \<lparr>price_n = 2147483401, price_d = 7158278\<rparr> \<and>
   \<bar>3000000001 * 7158278 - stroops_per_xlm * 2147483401\<bar> <
     \<bar>3000000001 * 1 - stroops_per_xlm * 300\<bar> * 7158278"
proof -
  have "price_loop 3000000001 stroops_per_xlm 0 1 1 0 1 0 = Inr (1, 0, 300, 1, 300, 1)"
    by (simp add: price_loop.simps [of 3000000001] price_loop.simps [of 10000000]
        stroops_per_xlm_def i32_max_def Let_def bind_eq_Some_conv result_simps checked_mul_def
        checked_add_def checked_i64_def in_i64_def i64_min_def i64_max_def)
  then show ?thesis
    by (simp add: stellar_price_def in_i32_def i32_min_def i32_max_def price_ok_def
        stroops_per_xlm_def)
qed

section \<open>Properties\<close>

text \<open>The liabilities of an offer are always computed (no overflow) for a valid price and amount,
  and stay within what the offer asks for: a sell offer never owes more than its amount, a buy offer
  never receives more than its amount, the two sides value each other at the offer's price within
  less than one unit of the smaller side in favour of the account that already trades, and no more
  than one unit's value is left unexchanged.\<close>

theorem offer_liabilities_bounds:
  assumes "price_ok p" "0 \<le> amount" "amount \<le> i64_max"
  shows "\<exists>s b. offer_liabilities side amount p = Inr \<lparr>liability_selling = s, liability_buying = b\<rparr> \<and>
    0 \<le> s \<and> 0 \<le> b \<and> s \<le> i64_max \<and> b \<le> i64_max \<and>
    (case side of
       Sell \<Rightarrow> s \<le> amount \<and> 0 \<le> s * price_n p - b * price_d p \<and>
         s * price_n p - b * price_d p < min (price_n p) (price_d p) \<and>
         min (amount * price_n p) (i64_max * price_d p) < s * price_n p + max (price_n p) (price_d p)
     | Buy \<Rightarrow> b \<le> amount \<and> 0 \<le> s * price_d p - b * price_n p \<and>
         s * price_d p - b * price_n p < min (price_n p) (price_d p) \<and>
         min (amount * price_n p) (i64_max * price_d p) < s * price_d p + max (price_n p) (price_d p))"
proof (cases side)
  case Sell
  have "\<exists>s b. exchange_v10_normal_liabilities (price_n p) (price_d p) amount i64_max = Inr (s, b) \<and>
      0 \<le> s \<and> s \<le> amount \<and> 0 \<le> b \<and> b \<le> i64_max \<and> 0 \<le> s * price_n p - b * price_d p \<and>
      s * price_n p - b * price_d p < min (price_n p) (price_d p) \<and>
      min (amount * price_n p) (i64_max * price_d p) < s * price_n p + max (price_n p) (price_d p)"
    using assms by (intro exchange_spec) (simp_all add: price_ok_def i64_max_def)
  with Sell assms(3) show ?thesis by (fastforce simp: offer_liabilities_def)
next
  case Buy
  have "\<exists>s b. exchange_v10_normal_liabilities (price_d p) (price_n p) i64_max amount = Inr (s, b) \<and>
      0 \<le> s \<and> s \<le> i64_max \<and> 0 \<le> b \<and> b \<le> amount \<and> 0 \<le> s * price_d p - b * price_n p \<and>
      s * price_d p - b * price_n p < min (price_d p) (price_n p) \<and>
      min (i64_max * price_d p) (amount * price_n p) < s * price_d p + max (price_d p) (price_n p)"
    using assms by (intro exchange_spec) (simp_all add: price_ok_def i64_max_def)
  with Buy assms(3) show ?thesis
    by (fastforce simp: offer_liabilities_def min.commute max.commute)
qed

text \<open>Every positive decimal price gets a 32-bit ratio. Up to \<open>i32::MAX\<close> it is an
  approximation in lowest terms, off by less than one over the square of its denominator, and exact
  whenever the reduced ratio fits 32 bits; the review shows the requested price precisely when the
  encoded one differs. A higher price is encoded as \<open>i32::MAX\<close>.\<close>

theorem stellar_price_approximates:
  assumes "0 < N"
  shows "\<exists>p. stellar_price N = Inr p \<and> price_ok p \<and>
    (if N \<le> stroops_per_xlm * i32_max
     then coprime (price_n p) (price_d p) \<and>
       \<bar>N * price_d p - stroops_per_xlm * price_n p\<bar> * price_d p < stroops_per_xlm \<and>
       (requested_price_if_approximated N p = None \<longleftrightarrow> N div gcd N stroops_per_xlm \<le> i32_max)
     else price_n p = i32_max \<and> price_d p = 1 \<and> requested_price_if_approximated N p = Some (format_stroops N))"
proof -
  define D where "D = stroops_per_xlm"
  obtain p where p: "stellar_price N = Inr p" "price_ok p"
    "if N \<le> D * i32_max then price_good N D (price_n p) (price_d p) else price_n p = i32_max \<and> price_d p = 1"
    using stellar_price_spec [OF assms] unfolding D_def by blast
  have exact: "N div gcd N D \<le> i32_max" if "N * price_d p = D * price_n p"
  proof -
    define g where "g = gcd N D"
    have g: "0 < g" "g dvd N" "g dvd D" using assms by (simp_all add: g_def)
    have "coprime (N div g) (D div g)" unfolding g_def using assms by (intro div_gcd_coprime) simp
    moreover have "(N div g) * price_d p = (D div g) * price_n p"
    proof -
      have "g * ((N div g) * price_d p) = N * price_d p" using g(2) by (simp add: mult.assoc [symmetric])
      also have "\<dots> = g * ((D div g) * price_n p)" using g(3) that by (simp add: mult.assoc [symmetric])
      finally show ?thesis using g(1) by simp
    qed
    then have "(N div g) dvd (D div g) * price_n p" by (metis dvd_triv_left)
    ultimately have "(N div g) dvd price_n p" by (simp add: coprime_dvd_mult_right_iff)
    with p(2) have "N div g \<le> price_n p" by (simp add: price_ok_def zdvd_imp_le)
    with p(2) show "N div gcd N D \<le> i32_max" by (simp add: price_ok_def g_def)
  qed
  show ?thesis
  proof (cases "N \<le> D * i32_max")
    case True
    with p(3) have good: "price_good N D (price_n p) (price_d p)" by simp
    then have "requested_price_if_approximated N p = None \<longleftrightarrow> N div gcd N D \<le> i32_max"
      using exact by (auto simp: requested_price_if_approximated_def price_good_def D_def mult.commute)
    with p good True show ?thesis unfolding D_def by (auto simp: price_good_def)
  next
    case False
    with p(3) have "price_n p = i32_max" "price_d p = 1" by simp_all
    with p False show ?thesis
      unfolding D_def by (auto simp: requested_price_if_approximated_def mult.commute)
  qed
qed

text \<open>C40. A rounded ratio is the nearest integer (halves up), and the seven-decimal text the client
  shows for it reads back as exactly that number of stroops.\<close>

theorem round_ratio_nearest_and_readable:
  assumes "0 \<le> a" "0 < b" "b \<le> i128_max"
  shows "\<exists>q. round_ratio a b = Inr q \<and> 2 * q * b \<le> 2 * a + b \<and> 2 * a + b < 2 * (q + 1) * b \<and>
    (q \<le> i64_max \<longrightarrow> parse_stroops (format_scaled_7 q) False = Inr q)"
  using round_ratio_Inr [OF assms] parse_format_scaled_7 by blast

section \<open>Examples\<close>

theorem offer_liabilities_bounds_witness:
  "\<exists>s b. offer_liabilities Sell 100 \<lparr>price_n = 1, price_d = 3\<rparr> = Inr \<lparr>liability_selling = s, liability_buying = b\<rparr> \<and>
     s \<le> 100 \<and> s - b * 3 < 1"
  using offer_liabilities_bounds [of "\<lparr>price_n = 1, price_d = 3\<rparr>" 100 Sell]
  by (auto simp: price_ok_def arith_defs)

theorem stellar_price_approximates_witness:
  "\<exists>p. stellar_price 25000000 = Inr p \<and> price_ok p \<and> requested_price_if_approximated 25000000 p = None"
  using stellar_price_approximates [of 25000000]
  by (auto simp: stroops_per_xlm_def i32_max_def gcd_red_int [of 25000000] gcd_red_int [of 10000000] gcd_red_int [of 5000000])

theorem round_ratio_nearest_and_readable_witness: "round_ratio 5 2 = Inr 3"
proof -
  obtain q where q: "round_ratio 5 2 = Inr q" "2 * q * 2 \<le> 2 * 5 + 2" "2 * 5 + 2 < 2 * (q + 1) * (2 :: int)"
    using round_ratio_nearest_and_readable [of 5 2] by (auto simp: i128_max_def)
  then have "q = 3" by presburger
  with q(1) show ?thesis by simp
qed

end
