(* ===== verification/SecretStore.thy ===== *)
theory SecretStore
  imports Stellar Json
begin

text \<open>
  core/rust/src/account.rs and secret_store.rs: account identities, and the password-encrypted
  envelope of a wallet secret (Argon2id or scrypt, AES-256-GCM).
  The ciphers, key derivations, JSON text and randomness are the record \<open>crypto_lib\<close>; what the
  program relies on is in the hypotheses \<open>aead_correct\<close>, \<open>payload_codec\<close> and \<open>random_sized\<close>.
  The number in \<open>cl_random i n\<close> counts the calls, so that two calls may differ.
\<close>

section \<open>Account identities\<close>

datatype account_kind = Classic | Contract

record account_identity =
  ai_kind :: account_kind
  ai_address :: string
  ai_public_key :: "string option"

datatype account_error = InvalidAddress | UnsupportedAddressKind

definition account_parse :: "stellar_lib \<Rightarrow> string \<Rightarrow> account_error + account_identity" where
  "account_parse L raw =
     (let address = trim raw
      in and_then (ok_or InvalidAddress (strkey_from_string L address)) (\<lambda>parsed.
           case parsed of
             StrkeyPublicKeyEd25519 _ \<Rightarrow>
               Inr \<lparr>ai_kind = Classic, ai_address = address, ai_public_key = Some address\<rparr>
           | StrkeyContract _ \<Rightarrow>
               Inr \<lparr>ai_kind = Contract, ai_address = address, ai_public_key = None\<rparr>
           | StrkeyOther \<Rightarrow> Inl UnsupportedAddressKind))"

definition is_classic :: "account_identity \<Rightarrow> bool" where
  "is_classic i \<longleftrightarrow> ai_kind i = Classic"

definition is_contract :: "account_identity \<Rightarrow> bool" where
  "is_contract i \<longleftrightarrow> ai_kind i = Contract"

section \<open>Envelopes\<close>

definition scrypt_n :: nat where "scrypt_n = 2 ^ 15"
definition scrypt_r :: nat where "scrypt_r = 8"
definition scrypt_p :: nat where "scrypt_p = 1"
definition argon2_memory_kib :: nat where "argon2_memory_kib = 64 * 1024"
definition argon2_iterations :: nat where "argon2_iterations = 3"
definition argon2_parallelism :: nat where "argon2_parallelism = 1"

definition password_aad_v1 :: bytes where "password_aad_v1 = bytes_of ''fresnica-wallet-secret-v1''"
definition password_aad_v2 :: bytes where "password_aad_v2 = bytes_of ''fresnica-wallet-secret-v2''"
definition key_aad :: bytes where "key_aad = bytes_of ''fresnica-wallet-secret-key-v1''"

record scrypt_envelope =
  se_name :: string
  se_n :: nat
  se_r :: nat
  se_p :: nat
  se_salt :: string

record argon2id_envelope =
  ae_name :: string
  ae_memory_kib :: nat
  ae_iterations :: nat
  ae_parallelism :: nat
  ae_salt :: string

datatype password_kdf_envelope = Scrypt scrypt_envelope | Argon2id argon2id_envelope

record password_secret_envelope =
  pse_version :: nat
  pse_cipher :: string
  pse_kdf :: password_kdf_envelope
  pse_nonce :: string
  pse_ciphertext :: string

record key_secret_envelope =
  kse_version :: nat
  kse_cipher :: string
  kse_nonce :: string
  kse_ciphertext :: string

datatype secret_store_error =
    EmptyPassword | InvalidPassword | InvalidUnlockKey | UnsupportedEncryptionFormat
  | UnsupportedKdfFormat | UnsupportedKdfParameters | Corrupted | AuthenticationFailed
  | RandomUnavailable | CryptoFailure

record crypto_lib =
  cl_scrypt :: "bytes \<Rightarrow> bytes \<Rightarrow> bytes option"
  cl_argon2id :: "bytes \<Rightarrow> bytes \<Rightarrow> bytes option"
  cl_aes_encrypt :: "bytes \<Rightarrow> bytes \<Rightarrow> bytes \<Rightarrow> bytes \<Rightarrow> bytes option"
  cl_aes_decrypt :: "bytes \<Rightarrow> bytes \<Rightarrow> bytes \<Rightarrow> bytes \<Rightarrow> bytes option"
  cl_json_to_bytes :: "json \<Rightarrow> bytes option"
  cl_json_from_bytes :: "bytes \<Rightarrow> json option"
  cl_base64_encode :: "bytes \<Rightarrow> string"
  cl_base64_decode :: "string \<Rightarrow> bytes option"
  cl_random :: "nat \<Rightarrow> nat \<Rightarrow> bytes option"
  cl_envelope_to_value :: "password_secret_envelope \<Rightarrow> json option"
  cl_envelope_from_value :: "json \<Rightarrow> password_secret_envelope option"

definition aead_correct :: "crypto_lib \<Rightarrow> bool" where
  "aead_correct C \<longleftrightarrow>
     (\<forall>k n a m c. cl_aes_encrypt C k n a m = Some c \<longrightarrow> cl_aes_decrypt C k n a c = Some m)"

definition payload_codec :: "crypto_lib \<Rightarrow> bool" where
  "payload_codec C \<longleftrightarrow>
     (\<forall>j b. cl_json_to_bytes C j = Some b \<longrightarrow> cl_json_from_bytes C b = Some j) \<and>
     (\<forall>b. cl_base64_decode C (cl_base64_encode C b) = Some b)"

definition random_sized :: "crypto_lib \<Rightarrow> bool" where
  "random_sized C \<longleftrightarrow> (\<forall>i n b. cl_random C i n = Some b \<longrightarrow> length b = n)"

definition envelope_codec :: "crypto_lib \<Rightarrow> bool" where
  "envelope_codec C \<longleftrightarrow>
     (\<forall>e v. cl_envelope_to_value C e = Some v \<longrightarrow> cl_envelope_from_value C v = Some e)"

lemma crypto_laws:
  "aead_correct C \<Longrightarrow> cl_aes_encrypt C k n a m = Some c \<Longrightarrow> cl_aes_decrypt C k n a c = Some m"
  "payload_codec C \<Longrightarrow> cl_json_to_bytes C j = Some b \<Longrightarrow> cl_json_from_bytes C b = Some j"
  "payload_codec C \<Longrightarrow> cl_base64_decode C (cl_base64_encode C b) = Some b"
  "random_sized C \<Longrightarrow> cl_random C i l = Some b \<Longrightarrow> length b = l"
  "envelope_codec C \<Longrightarrow> cl_envelope_to_value C e = Some v \<Longrightarrow> cl_envelope_from_value C v = Some e"
  by (auto simp: aead_correct_def payload_codec_def random_sized_def envelope_codec_def)

section \<open>The operations\<close>

definition decode_base64 :: "crypto_lib \<Rightarrow> string \<Rightarrow> secret_store_error + bytes" where
  "decode_base64 C value = ok_or Corrupted (cl_base64_decode C value)"

definition decode_array :: "crypto_lib \<Rightarrow> nat \<Rightarrow> string \<Rightarrow> secret_store_error + bytes" where
  "decode_array C n value =
     and_then (decode_base64 C value) (\<lambda>b. if length b = n then Inr b else Inl Corrupted)"

definition random_array :: "crypto_lib \<Rightarrow> nat \<Rightarrow> nat \<Rightarrow> secret_store_error + bytes" where
  "random_array C call n = ok_or RandomUnavailable (cl_random C call n)"

definition encode_payload :: "crypto_lib \<Rightarrow> json \<Rightarrow> secret_store_error + bytes" where
  "encode_payload C payload = ok_or Corrupted (cl_json_to_bytes C payload)"

definition decode_payload :: "crypto_lib \<Rightarrow> bytes \<Rightarrow> secret_store_error + json" where
  "decode_payload C plaintext = ok_or Corrupted (cl_json_from_bytes C plaintext)"

definition encrypt_aead :: "crypto_lib \<Rightarrow> bytes \<Rightarrow> bytes \<Rightarrow> bytes \<Rightarrow> bytes \<Rightarrow> secret_store_error + bytes" where
  "encrypt_aead C key nonce aad plaintext = ok_or CryptoFailure (cl_aes_encrypt C key nonce aad plaintext)"

definition decrypt_aead :: "crypto_lib \<Rightarrow> bytes \<Rightarrow> bytes \<Rightarrow> bytes \<Rightarrow> bytes \<Rightarrow> secret_store_error + bytes" where
  "decrypt_aead C key nonce aad ciphertext =
     ok_or AuthenticationFailed (cl_aes_decrypt C key nonce aad ciphertext)"

definition derive_scrypt_key :: "crypto_lib \<Rightarrow> string \<Rightarrow> bytes \<Rightarrow> secret_store_error + bytes" where
  "derive_scrypt_key C password salt = ok_or CryptoFailure (cl_scrypt C (bytes_of password) salt)"

definition derive_argon2id_key :: "crypto_lib \<Rightarrow> string \<Rightarrow> bytes \<Rightarrow> secret_store_error + bytes" where
  "derive_argon2id_key C password salt = ok_or CryptoFailure (cl_argon2id C (bytes_of password) salt)"

definition password_aad :: "nat \<Rightarrow> secret_store_error + bytes" where
  "password_aad version =
     (if version = 1 then Inr password_aad_v1
      else if version = 2 then Inr password_aad_v2
      else Inl UnsupportedEncryptionFormat)"

definition validate_password_envelope :: "password_secret_envelope \<Rightarrow> secret_store_error + unit" where
  "validate_password_envelope e =
     (if pse_cipher e \<noteq> ''aes-256-gcm'' then Inl UnsupportedEncryptionFormat
      else
        (case pse_kdf e of
           Scrypt k \<Rightarrow>
             (if pse_version e = 1 then
                (if se_name k \<noteq> ''scrypt'' then Inl UnsupportedKdfFormat
                 else if (se_n k, se_r k, se_p k) \<noteq> (scrypt_n, scrypt_r, scrypt_p)
                 then Inl UnsupportedKdfParameters else Inr ())
              else if pse_version e = 2 then Inl UnsupportedKdfFormat
              else Inl UnsupportedEncryptionFormat)
         | Argon2id k \<Rightarrow>
             (if pse_version e = 2 then
                (if ae_name k \<noteq> ''argon2id'' then Inl UnsupportedKdfFormat
                 else if (ae_memory_kib k, ae_iterations k, ae_parallelism k)
                   \<noteq> (argon2_memory_kib, argon2_iterations, argon2_parallelism)
                 then Inl UnsupportedKdfParameters else Inr ())
              else if pse_version e = 1 then Inl UnsupportedKdfFormat
              else Inl UnsupportedEncryptionFormat)))"

definition validate_key_envelope :: "key_secret_envelope \<Rightarrow> secret_store_error + unit" where
  "validate_key_envelope e =
     (if kse_version e \<noteq> 1 \<or> kse_cipher e \<noteq> ''aes-256-gcm'' then Inl UnsupportedEncryptionFormat else Inr ())"

definition encrypt_secret_v2_with_material ::
  "crypto_lib \<Rightarrow> json \<Rightarrow> string \<Rightarrow> bytes \<Rightarrow> bytes \<Rightarrow> secret_store_error + password_secret_envelope" where
  "encrypt_secret_v2_with_material C payload password salt nonce =
     and_then (ensure (password \<noteq> []) EmptyPassword) (\<lambda>_.
     and_then (derive_argon2id_key C password salt) (\<lambda>key.
     and_then (encode_payload C payload) (\<lambda>plaintext.
     and_then (encrypt_aead C key nonce password_aad_v2 plaintext) (\<lambda>ciphertext.
       Inr \<lparr>pse_version = 2, pse_cipher = ''aes-256-gcm'',
            pse_kdf = Argon2id \<lparr>ae_name = ''argon2id'', ae_memory_kib = argon2_memory_kib,
              ae_iterations = argon2_iterations, ae_parallelism = argon2_parallelism,
              ae_salt = cl_base64_encode C salt\<rparr>,
            pse_nonce = cl_base64_encode C nonce, pse_ciphertext = cl_base64_encode C ciphertext\<rparr>))))"

definition encrypt_secret ::
  "crypto_lib \<Rightarrow> json \<Rightarrow> string \<Rightarrow> secret_store_error + password_secret_envelope" where
  "encrypt_secret C payload password =
     and_then (ensure (password \<noteq> []) EmptyPassword) (\<lambda>_.
     and_then (random_array C 0 16) (\<lambda>salt.
     and_then (random_array C 1 12) (\<lambda>nonce.
       encrypt_secret_v2_with_material C payload password salt nonce)))"

definition derive_unlock_key ::
  "crypto_lib \<Rightarrow> password_secret_envelope \<Rightarrow> string \<Rightarrow> secret_store_error + bytes" where
  "derive_unlock_key C e password =
     and_then (validate_password_envelope e) (\<lambda>_.
     and_then (ensure (password \<noteq> []) EmptyPassword) (\<lambda>_.
       case pse_kdf e of
         Scrypt k \<Rightarrow> and_then (decode_array C 16 (se_salt k)) (derive_scrypt_key C password)
       | Argon2id k \<Rightarrow> and_then (decode_array C 16 (ae_salt k)) (derive_argon2id_key C password)))"

definition decrypt_secret_with_unlock_key ::
  "crypto_lib \<Rightarrow> password_secret_envelope \<Rightarrow> bytes \<Rightarrow> secret_store_error + json" where
  "decrypt_secret_with_unlock_key C e unlock_key =
     and_then (validate_password_envelope e) (\<lambda>_.
     and_then (decode_array C 12 (pse_nonce e)) (\<lambda>nonce.
     and_then (decode_base64 C (pse_ciphertext e)) (\<lambda>ciphertext.
     and_then (password_aad (pse_version e)) (\<lambda>aad.
     and_then (map_err (\<lambda>x. if x = AuthenticationFailed then InvalidUnlockKey else x)
        (decrypt_aead C unlock_key nonce aad ciphertext)) (\<lambda>plaintext.
       decode_payload C plaintext)))))"

definition decrypt_secret ::
  "crypto_lib \<Rightarrow> password_secret_envelope \<Rightarrow> string \<Rightarrow> secret_store_error + json" where
  "decrypt_secret C e password =
     and_then (validate_password_envelope e) (\<lambda>_.
     and_then (ensure (password \<noteq> []) EmptyPassword) (\<lambda>_.
     and_then (derive_unlock_key C e password) (\<lambda>key.
       map_err (\<lambda>x. if x = InvalidUnlockKey then InvalidPassword else x)
         (decrypt_secret_with_unlock_key C e key))))"

definition encrypt_secret_with_key_and_nonce ::
  "crypto_lib \<Rightarrow> json \<Rightarrow> bytes \<Rightarrow> bytes \<Rightarrow> secret_store_error + key_secret_envelope" where
  "encrypt_secret_with_key_and_nonce C payload key nonce =
     and_then (encode_payload C payload) (\<lambda>plaintext.
     and_then (encrypt_aead C key nonce key_aad plaintext) (\<lambda>ciphertext.
       Inr \<lparr>kse_version = 1, kse_cipher = ''aes-256-gcm'', kse_nonce = cl_base64_encode C nonce,
            kse_ciphertext = cl_base64_encode C ciphertext\<rparr>))"

definition encrypt_secret_with_key ::
  "crypto_lib \<Rightarrow> json \<Rightarrow> bytes \<Rightarrow> secret_store_error + key_secret_envelope" where
  "encrypt_secret_with_key C payload key =
     and_then (random_array C 0 12) (encrypt_secret_with_key_and_nonce C payload key)"

definition decrypt_secret_with_key ::
  "crypto_lib \<Rightarrow> key_secret_envelope \<Rightarrow> bytes \<Rightarrow> secret_store_error + json" where
  "decrypt_secret_with_key C e key =
     and_then (validate_key_envelope e) (\<lambda>_.
     and_then (decode_array C 12 (kse_nonce e)) (\<lambda>nonce.
     and_then (decode_base64 C (kse_ciphertext e)) (\<lambda>ciphertext.
     and_then (map_err (\<lambda>_. AuthenticationFailed) (decrypt_aead C key nonce key_aad ciphertext)) (\<lambda>plaintext.
       decode_payload C plaintext))))"

section \<open>Round trips and errors\<close>

lemma decode_array_Inr [result_simps]:
  "decode_array C n v = Inr b \<longleftrightarrow> cl_base64_decode C v = Some b \<and> length b = n"
  by (auto simp: decode_array_def decode_base64_def result_simps)

lemma encrypt_secret_Inr:
  "encrypt_secret C payload password = Inr e \<Longrightarrow>
     password \<noteq> [] \<and> (\<exists>salt nonce key m c. cl_random C 0 16 = Some salt \<and> cl_random C 1 12 = Some nonce \<and>
       cl_argon2id C (bytes_of password) salt = Some key \<and> cl_json_to_bytes C payload = Some m \<and>
       cl_aes_encrypt C key nonce password_aad_v2 m = Some c \<and>
       e = \<lparr>pse_version = 2, pse_cipher = ''aes-256-gcm'',
            pse_kdf = Argon2id \<lparr>ae_name = ''argon2id'', ae_memory_kib = argon2_memory_kib,
              ae_iterations = argon2_iterations, ae_parallelism = argon2_parallelism,
              ae_salt = cl_base64_encode C salt\<rparr>,
            pse_nonce = cl_base64_encode C nonce, pse_ciphertext = cl_base64_encode C c\<rparr>)"
  by (auto simp: encrypt_secret_def encrypt_secret_v2_with_material_def random_array_def encode_payload_def
      encrypt_aead_def derive_argon2id_key_def result_simps split: if_splits)

lemma encrypted_envelope_unlocks:
  assumes "aead_correct C" "payload_codec C" "random_sized C"
    and "encrypt_secret C payload password = Inr e"
  shows "\<exists>key. derive_unlock_key C e password = Inr key \<and> decrypt_secret_with_unlock_key C e key = Inr payload"
proof -
  from encrypt_secret_Inr [OF assms(4)] obtain salt nonce key m c where
    pw: "password \<noteq> []" and salt: "cl_random C 0 16 = Some salt" and nonce: "cl_random C 1 12 = Some nonce"
    and key: "cl_argon2id C (bytes_of password) salt = Some key" and m: "cl_json_to_bytes C payload = Some m"
    and c: "cl_aes_encrypt C key nonce password_aad_v2 m = Some c"
    and e: "e = \<lparr>pse_version = 2, pse_cipher = ''aes-256-gcm'',
            pse_kdf = Argon2id \<lparr>ae_name = ''argon2id'', ae_memory_kib = argon2_memory_kib,
              ae_iterations = argon2_iterations, ae_parallelism = argon2_parallelism,
              ae_salt = cl_base64_encode C salt\<rparr>,
            pse_nonce = cl_base64_encode C nonce, pse_ciphertext = cl_base64_encode C c\<rparr>"
    by blast
  note laws = crypto_laws(1) [OF assms(1) c] crypto_laws(2) [OF assms(2) m] crypto_laws(3) [OF assms(2)]
    crypto_laws(4) [OF assms(3) salt] crypto_laws(4) [OF assms(3) nonce]
  have "validate_password_envelope e = Inr ()" by (simp add: validate_password_envelope_def e)
  then show ?thesis
    by (simp add: derive_unlock_key_def decrypt_secret_with_unlock_key_def)
      (simp add: e pw key laws decode_array_def decode_base64_def derive_argon2id_key_def password_aad_def
        decrypt_aead_def decode_payload_def)
qed

lemma derive_unlock_key_Inr_valid:
  "derive_unlock_key C e password = Inr key \<Longrightarrow> validate_password_envelope e = Inr () \<and> password \<noteq> []"
  by (auto simp: derive_unlock_key_def result_simps)

lemma decrypt_secret_via_key:
  "derive_unlock_key C e password = Inr key \<Longrightarrow>
     decrypt_secret C e password =
       map_err (\<lambda>x. if x = InvalidUnlockKey then InvalidPassword else x) (decrypt_secret_with_unlock_key C e key)"
  using derive_unlock_key_Inr_valid [of C e password key] by (simp add: decrypt_secret_def)

text \<open>
  A box that seals a payload under a password: under the laws of its library, what was sealed opens
  with the same password to the same payload, so two payloads never share a box.
\<close>

locale sealed_box =
  fixes law :: "'l \<Rightarrow> bool"
    and seal :: "'l \<Rightarrow> json \<Rightarrow> string \<Rightarrow> 'e + 'v"
    and unseal :: "'l \<Rightarrow> 'v \<Rightarrow> string \<Rightarrow> 'e + json"
  assumes unseal_seal: "law l \<Longrightarrow> seal l payload pw = Inr v \<Longrightarrow> unseal l v pw = Inr payload"
begin

lemma seal_determines_payload:
  "law l \<Longrightarrow> seal l p pw = Inr v \<Longrightarrow> seal l q pw = Inr v \<Longrightarrow> p = q"
  using unseal_seal by (metis sum.inject(2))

end

definition crypto_ok :: "crypto_lib \<Rightarrow> bool" where
  "crypto_ok C \<longleftrightarrow> aead_correct C \<and> payload_codec C \<and> random_sized C \<and> envelope_codec C"

interpretation password_box: sealed_box crypto_ok encrypt_secret decrypt_secret
proof unfold_locales
  fix C payload pw e
  assume "crypto_ok C" "encrypt_secret C payload pw = Inr e"
  then obtain key where "derive_unlock_key C e pw = Inr key" "decrypt_secret_with_unlock_key C e key = Inr payload"
    using encrypted_envelope_unlocks [of C payload pw e] by (auto simp: crypto_ok_def)
  then show "decrypt_secret C e pw = Inr payload" by (simp add: decrypt_secret_via_key)
qed

section \<open>Properties\<close>


text \<open>C34. An envelope is only ever opened with the pinned cipher and key-derivation parameters: one
  that names any other, weaker or stronger, is refused before a key is derived, whatever the
  password or the key.\<close>

theorem only_pinned_envelopes_open:
  assumes "\<not> isl (decrypt_secret C e password) \<or> \<not> isl (decrypt_secret_with_unlock_key C e key)
    \<or> \<not> isl (derive_unlock_key C e password)"
  shows "pse_cipher e = ''aes-256-gcm'' \<and>
    (case pse_kdf e of
       Scrypt k \<Rightarrow> pse_version e = 1 \<and> se_name k = ''scrypt'' \<and> se_n k = 32768 \<and> se_r k = 8 \<and> se_p k = 1
     | Argon2id k \<Rightarrow> pse_version e = 2 \<and> ae_name k = ''argon2id'' \<and> ae_memory_kib k = 65536 \<and>
         ae_iterations k = 3 \<and> ae_parallelism k = 1)"
proof -
  have "validate_password_envelope e = Inr ()"
  proof (cases "validate_password_envelope e")
    case (Inl x)
    with assms show ?thesis
      by (simp add: decrypt_secret_def decrypt_secret_with_unlock_key_def derive_unlock_key_def)
  qed simp
  then show ?thesis
    by (auto simp: validate_password_envelope_def scrypt_n_def scrypt_r_def scrypt_p_def argon2_memory_kib_def
        argon2_iterations_def argon2_parallelism_def split: if_splits password_kdf_envelope.splits)
qed

text \<open>A failed decryption is blamed on the password exactly when the envelope is sound and the
  authentication tag does not match the derived key; the internal unlock-key and authentication
  errors never reach a caller that gave a password.\<close>

theorem wrong_password_error:
  "(decrypt_secret C e password = Inl InvalidPassword \<longleftrightarrow>
      (\<exists>key nonce c aad. derive_unlock_key C e password = Inr key \<and> decode_array C 12 (pse_nonce e) = Inr nonce \<and>
         cl_base64_decode C (pse_ciphertext e) = Some c \<and> password_aad (pse_version e) = Inr aad \<and>
         cl_aes_decrypt C key nonce aad c = None))
   \<and> decrypt_secret C e password \<noteq> Inl InvalidUnlockKey
   \<and> decrypt_secret C e password \<noteq> Inl AuthenticationFailed"
proof -
  have valid: "validate_password_envelope e \<noteq> Inl x" if "x \<in> {InvalidPassword, InvalidUnlockKey, AuthenticationFailed}" for x
    using that by (auto simp: validate_password_envelope_def split: if_splits password_kdf_envelope.splits)
  have derive: "derive_unlock_key C e password \<noteq> Inl x" if "x \<in> {InvalidPassword, InvalidUnlockKey, AuthenticationFailed}" for x
    using that valid
    by (auto simp: derive_unlock_key_def decode_array_def decode_base64_def derive_scrypt_key_def
        derive_argon2id_key_def result_simps split: password_kdf_envelope.splits if_splits)
  show ?thesis
  proof (cases "validate_password_envelope e")
    case (Inl y)
    then have "decrypt_secret C e password = Inl y" "derive_unlock_key C e password = Inl y"
      by (simp_all add: decrypt_secret_def derive_unlock_key_def)
    then show ?thesis using valid [of y] Inl by auto
  next
    case (Inr u)
    show ?thesis
    proof (cases "password = []")
      case True
      then have "decrypt_secret C e password = Inl EmptyPassword" "derive_unlock_key C e password = Inl EmptyPassword"
        using Inr by (simp_all add: decrypt_secret_def derive_unlock_key_def)
      then show ?thesis by simp
    next
      case False
      show ?thesis
      proof (cases "derive_unlock_key C e password")
        case (Inl x)
        then have "decrypt_secret C e password = Inl x"
          using Inr False by (simp add: decrypt_secret_def)
        then show ?thesis using derive [of x] Inl by auto
      next
        case key: (Inr key)
        have opened: "decrypt_secret C e password =
            map_err (\<lambda>x. if x = InvalidUnlockKey then InvalidPassword else x)
              (decrypt_secret_with_unlock_key C e key)"
          by (rule decrypt_secret_via_key [OF key])
        show ?thesis
        proof (cases "decode_array C 12 (pse_nonce e)")
          case (Inl x)
          then have "x = Corrupted" by (auto simp: decode_array_def decode_base64_def result_simps split: if_splits)
          then show ?thesis
            using Inl Inr by (simp add: opened key decrypt_secret_with_unlock_key_def)
        next
          case nonce: (Inr nonce)
          show ?thesis
            using Inr nonce
            by (cases "cl_base64_decode C (pse_ciphertext e)";
                cases "password_aad (pse_version e)"; simp add: opened key decrypt_secret_with_unlock_key_def
                  decode_base64_def)
              (auto simp: decrypt_aead_def decode_payload_def password_aad_def result_simps split: if_splits)
        qed
      qed
    qed
  qed
qed

section \<open>A concrete instance for the examples\<close>

text \<open>
  Not secure, but it satisfies the hypotheses: the key is the padded password, a ciphertext is the key
  and the message, and only secret payloads have a text.
\<close>

definition demo_payload :: "string \<Rightarrow> json" where
  "demo_payload s = JObject [(''kind'', JString ''secret''), (''secret'', JString s)]"

definition demo_envelope :: "string \<Rightarrow> string \<Rightarrow> string \<Rightarrow> password_secret_envelope" where
  "demo_envelope salt nonce ct =
     \<lparr>pse_version = 2, pse_cipher = ''aes-256-gcm'',
      pse_kdf = Argon2id \<lparr>ae_name = ''argon2id'', ae_memory_kib = argon2_memory_kib,
        ae_iterations = argon2_iterations, ae_parallelism = argon2_parallelism, ae_salt = salt\<rparr>,
      pse_nonce = nonce, pse_ciphertext = ct\<rparr>"

definition demo_salt :: "password_secret_envelope \<Rightarrow> string" where
  "demo_salt e = (case pse_kdf e of Argon2id k \<Rightarrow> ae_salt k | Scrypt k \<Rightarrow> se_salt k)"

definition demo_from_value :: "json \<Rightarrow> password_secret_envelope option" where
  "demo_from_value v =
     (case v of
        JArray [JString salt, JString nonce, JString ct] \<Rightarrow> Some (demo_envelope salt nonce ct)
      | _ \<Rightarrow> None)"

definition demo_from_bytes :: "bytes \<Rightarrow> json" where
  "demo_from_bytes b = demo_payload (string_of_bytes b)"

definition demo_to_bytes :: "json \<Rightarrow> bytes option" where
  "demo_to_bytes j =
     (case get_str j ''secret'' of
        Some s \<Rightarrow> if j = demo_payload s then Some (bytes_of s) else None
      | None \<Rightarrow> None)"

definition demo_crypto :: crypto_lib where
  "demo_crypto = \<lparr>
     cl_scrypt = (\<lambda>p s. Some (demo_pad 32 p)),
     cl_argon2id = (\<lambda>p s. Some (demo_pad 32 p)),
     cl_aes_encrypt = (\<lambda>k n a m. Some (k @ m)),
     cl_aes_decrypt = (\<lambda>k n a c. if take (length k) c = k then Some (drop (length k) c) else None),
     cl_json_to_bytes = demo_to_bytes,
     cl_json_from_bytes = (\<lambda>b. Some (demo_from_bytes b)),
     cl_base64_encode = string_of_bytes,
     cl_base64_decode = (\<lambda>s. Some (bytes_of s)),
     cl_random = (\<lambda>i n. Some (replicate n (of_nat i))),
     cl_envelope_to_value = (\<lambda>e.
       let v = JArray [JString (demo_salt e), JString (pse_nonce e), JString (pse_ciphertext e)]
       in if demo_from_value v = Some e then Some v else None),
     cl_envelope_from_value = demo_from_value \<rparr>"

lemma demo_crypto_laws: "aead_correct demo_crypto" "payload_codec demo_crypto" "random_sized demo_crypto"
  "envelope_codec demo_crypto"
  by (auto simp: aead_correct_def payload_codec_def random_sized_def envelope_codec_def demo_crypto_def
      demo_to_bytes_def demo_from_bytes_def Let_def split: option.splits if_splits)

lemma demo_crypto_ok: "crypto_ok demo_crypto"
  by (simp add: crypto_ok_def demo_crypto_laws)

lemma demo_account_parse:
  "length k = 32 \<Longrightarrow> account_parse demo_lib (demo_key_text k) =
     Inr \<lparr>ai_kind = Classic, ai_address = demo_key_text k, ai_public_key = Some (demo_key_text k)\<rparr>"
  using demo_public_key_text_plain
  by (simp add: account_parse_def public_key_text_plain_def Let_def)
    (simp add: demo_lib_def demo_parse_key_def demo_key_text_def)

lemma demo_encrypts:
  "password \<noteq> [] \<Longrightarrow> encrypt_secret demo_crypto (demo_payload s) password =
     Inr (demo_envelope (string_of_bytes (replicate 16 0)) (string_of_bytes (replicate 12 1))
       (string_of_bytes (demo_pad 32 (bytes_of password) @ bytes_of s)))"
  by (simp add: encrypt_secret_def encrypt_secret_v2_with_material_def random_array_def demo_crypto_def
      derive_argon2id_key_def encode_payload_def encrypt_aead_def demo_to_bytes_def get_str_def demo_payload_def
      demo_envelope_def)


lemma demo_open:
  "\<not> isl (derive_unlock_key demo_crypto (demo_envelope (string_of_bytes (replicate 16 0)) n c) ''pw'')"
  by (simp add: derive_unlock_key_def validate_password_envelope_def demo_envelope_def decode_array_def
      decode_base64_def demo_crypto_def derive_argon2id_key_def)

theorem only_pinned_envelopes_open_witness:
  "argon2_memory_kib = 65536"
  using only_pinned_envelopes_open [of demo_crypto "demo_envelope (string_of_bytes (replicate 16 0)) n c" "''pw''" k]
    demo_open by (simp add: demo_envelope_def)

end
