(* ===== verification/Soroban.thy ===== *)
theory Soroban
  imports CoreSigning
begin

text \<open>
  core/rust/src/soroban_authorization.rs and the Soroban signers of signer.rs: the preimage of an
  authorization entry, which credentials may be signed directly, and the signature vector.
  The XDR types are those of Stellar.thy; XDR encoding is the record \<open>soroban_lib\<close>
  (\<open>entry_to_xdr_within\<close> encodes with a bound on the depth).
\<close>

section \<open>Preimages and the XDR library\<close>

text \<open>\<open>HashIdPreimage\<close>: the two kinds an authorization has (network, nonce, expiration ledger, the
  address of the second kind, the invocation); the other kinds are opaque.\<close>

datatype soroban_preimage =
    PreimageAuthorization bytes int int soroban_invocation
  | PreimageAuthorizationWithAddress bytes int int sc_address soroban_invocation
  | PreimageOther bytes

record soroban_lib =
  entry_to_xdr :: "soroban_entry \<Rightarrow> string + bytes"
  entry_to_xdr_within :: "nat \<Rightarrow> soroban_entry \<Rightarrow> string + bytes"
  entry_from_xdr :: "bytes \<Rightarrow> nat \<Rightarrow> nat \<Rightarrow> string + soroban_entry"
  preimage_to_xdr :: "soroban_preimage \<Rightarrow> string + bytes"
  preimage_from_xdr :: "bytes \<Rightarrow> nat \<Rightarrow> string + soroban_preimage"
  contract_from_string :: "string \<Rightarrow> bytes option"
  contract_to_string :: "bytes \<Rightarrow> string"

section \<open>Signers (signer.rs)\<close>

record soroban_signing_request =
  ssr_hash :: bytes
  ssr_entry_xdr :: bytes
  ssr_preimage_xdr :: bytes
  ssr_network_passphrase :: string

record soroban_signer =
  so_public_key :: string
  so_sign :: "soroban_signing_request \<Rightarrow> signer_error + bytes"

definition software_soroban :: "stellar_lib \<Rightarrow> software_signer \<Rightarrow> soroban_signer" where
  "software_soroban L s =
     \<lparr>so_public_key = sw_public_key s,
      so_sign = (\<lambda>r. Inr (ed25519_sign L (sw_signing_key s) (ssr_hash r)))\<rparr>"

definition external_soroban_new ::
  "stellar_lib \<Rightarrow> string \<Rightarrow> (soroban_signing_request \<Rightarrow> signer_error + bytes)
     \<Rightarrow> signer_error + soroban_signer" where
  "external_soroban_new L public_key sign_request =
     (case public_key_from_string L (trim public_key) of
        None \<Rightarrow> Inl InvalidPublicKey
      | Some public \<Rightarrow>
          Inr \<lparr>so_public_key = public_key_to_string L public, so_sign = sign_request\<rparr>)"

section \<open>Preimages and requests\<close>

datatype soroban_signing_error =
    SaXdr string
  | SaSigner signer_error
  | SourceAccountCredential
  | NonAccountCredential
  | DelegatedCredentialRequiresProvider
  | SaInvalidSignature
  | SaDuplicateSignature
  | InvalidSignaturePayload
  | UnsupportedSignaturePayload

definition soroban_xdr_decode_max_depth :: nat where "soroban_xdr_decode_max_depth = 500"

definition parse_soroban_authorization_entry_xdr ::
  "soroban_lib \<Rightarrow> bytes \<Rightarrow> soroban_signing_error + soroban_entry" where
  "parse_soroban_authorization_entry_xdr S xdr =
     map_err SaXdr (entry_from_xdr S xdr soroban_xdr_decode_max_depth (length xdr))"

definition soroban_authorization_entry_xdr ::
  "soroban_lib \<Rightarrow> soroban_entry \<Rightarrow> soroban_signing_error + bytes" where
  "soroban_authorization_entry_xdr S e = map_err SaXdr (entry_to_xdr S e)"

definition address_bound_preimage ::
  "soroban_entry \<Rightarrow> soroban_address_credentials \<Rightarrow> bytes \<Rightarrow> soroban_preimage" where
  "address_bound_preimage e c net =
     PreimageAuthorizationWithAddress net (sac_nonce c) (sac_signature_expiration_ledger c)
       (sac_address c) (sae_root_invocation e)"

definition soroban_authorization_preimage ::
  "stellar_lib \<Rightarrow> soroban_entry \<Rightarrow> string \<Rightarrow> soroban_signing_error + soroban_preimage" where
  "soroban_authorization_preimage L e np =
     (let net = network_id L np
      in case sae_credentials e of
           CredSourceAccount \<Rightarrow> Inl SourceAccountCredential
         | CredAddress c \<Rightarrow>
             Inr (PreimageAuthorization net (sac_nonce c) (sac_signature_expiration_ledger c)
               (sae_root_invocation e))
         | CredAddressV2 c \<Rightarrow> Inr (address_bound_preimage e c net)
         | CredAddressWithDelegates c _ \<Rightarrow> Inr (address_bound_preimage e c net))"

definition prepare_soroban_authorization_signing ::
  "stellar_lib \<Rightarrow> soroban_lib \<Rightarrow> soroban_entry \<Rightarrow> string
     \<Rightarrow> soroban_signing_error + soroban_signing_request" where
  "prepare_soroban_authorization_signing L S e np =
     and_then (soroban_authorization_entry_xdr S e) (\<lambda>entry_xdr.
     and_then (soroban_authorization_preimage L e np) (\<lambda>preimage.
     and_then (map_err SaXdr (preimage_to_xdr S preimage)) (\<lambda>preimage_xdr.
       Inr \<lparr>ssr_hash = sha256 L preimage_xdr, ssr_entry_xdr = entry_xdr,
            ssr_preimage_xdr = preimage_xdr, ssr_network_passphrase = np\<rparr>)))"

section \<open>Signing an entry\<close>

definition ensure_direct_account_credential :: "soroban_entry \<Rightarrow> soroban_signing_error + unit" where
  "ensure_direct_account_credential e =
     and_then
       (case sae_credentials e of
          CredSourceAccount \<Rightarrow> Inl SourceAccountCredential
        | CredAddress c \<Rightarrow> Inr c
        | CredAddressV2 c \<Rightarrow> Inr c
        | CredAddressWithDelegates _ _ \<Rightarrow> Inl DelegatedCredentialRequiresProvider)
       (\<lambda>c. case sac_address c of ScAccount _ \<Rightarrow> Inr () | _ \<Rightarrow> Inl NonAccountCredential)"

definition verify_soroban_signature ::
  "stellar_lib \<Rightarrow> string \<Rightarrow> bytes \<Rightarrow> bytes \<Rightarrow> soroban_signing_error + unit" where
  "verify_soroban_signature L public_key hash signature =
     and_then (ok_or (SaSigner InvalidPublicKey) (public_key_from_string L public_key)) (\<lambda>public.
     and_then (ensure (verifying_key_valid L public) (SaSigner InvalidPublicKey)) (\<lambda>_.
       ensure (verify_strict L public hash signature) SaInvalidSignature))"

text \<open>The two symbols and the two byte strings are within their XDR bounds.\<close>

definition ed25519_signature_value ::
  "stellar_lib \<Rightarrow> string \<Rightarrow> bytes \<Rightarrow> soroban_signing_error + sc_val" where
  "ed25519_signature_value L public_key signature =
     and_then (ok_or (SaSigner InvalidPublicKey) (public_key_from_string L public_key)) (\<lambda>public.
       Inr (ScMap (Some [(ScSymbol (bytes_of ''public_key''), ScBytes public),
                         (ScSymbol (bytes_of ''signature''), ScBytes signature)])))"

definition existing_signatures :: "sc_val \<Rightarrow> soroban_signing_error + sc_val list" where
  "existing_signatures v =
     (case v of
        ScVoid \<Rightarrow> Inr []
      | ScVec (Some vs) \<Rightarrow> Inr vs
      | ScVec None \<Rightarrow> Inl InvalidSignaturePayload
      | _ \<Rightarrow> Inl UnsupportedSignaturePayload)"

definition appended_signature :: "sc_val \<Rightarrow> sc_val \<Rightarrow> soroban_signing_error + sc_val" where
  "appended_signature v signed_value =
     and_then (existing_signatures v) (\<lambda>existing.
       if signed_value \<in> set existing then Inl SaDuplicateSignature
       else and_then (ensure (int (length (existing @ [signed_value])) \<le> u32_max) (SaXdr ''length exceeds max''))
              (\<lambda>_. Inr (ScVec (Some (existing @ [signed_value])))))"

definition append_signature :: "soroban_entry \<Rightarrow> sc_val \<Rightarrow> soroban_signing_error + soroban_entry" where
  "append_signature e signed_value =
     (case sae_credentials e of
        CredAddress c \<Rightarrow>
          map_ok (\<lambda>v. e\<lparr>sae_credentials := CredAddress (c\<lparr>sac_signature := v\<rparr>)\<rparr>)
            (appended_signature (sac_signature c) signed_value)
      | CredAddressV2 c \<Rightarrow>
          map_ok (\<lambda>v. e\<lparr>sae_credentials := CredAddressV2 (c\<lparr>sac_signature := v\<rparr>)\<rparr>)
            (appended_signature (sac_signature c) signed_value)
      | CredSourceAccount \<Rightarrow> Inl SourceAccountCredential
      | CredAddressWithDelegates _ _ \<Rightarrow> Inl DelegatedCredentialRequiresProvider)"

definition sign_soroban_authorization_entry ::
  "stellar_lib \<Rightarrow> soroban_lib \<Rightarrow> soroban_entry \<Rightarrow> string \<Rightarrow> soroban_signer
     \<Rightarrow> soroban_signing_error + soroban_entry" where
  "sign_soroban_authorization_entry L S e np signer =
     and_then (ensure_direct_account_credential e) (\<lambda>_.
     and_then (prepare_soroban_authorization_signing L S e np) (\<lambda>request.
     and_then (map_err SaSigner (so_sign signer request)) (\<lambda>signature.
     and_then (verify_soroban_signature L (so_public_key signer) (ssr_hash request) signature) (\<lambda>_.
     and_then (ed25519_signature_value L (so_public_key signer) signature) (\<lambda>signed_value.
       append_signature e signed_value)))))"

section \<open>What signing an entry does\<close>

text \<open>The credentials a direct signature goes to, and the signature values they hold.\<close>

fun direct_credentials :: "soroban_credentials \<Rightarrow> soroban_address_credentials option" where
  "direct_credentials (CredAddress c) = Some c"
| "direct_credentials (CredAddressV2 c) = Some c"
| "direct_credentials _ = None"

fun with_direct_signature :: "sc_val \<Rightarrow> soroban_credentials \<Rightarrow> soroban_credentials" where
  "with_direct_signature v (CredAddress c) = CredAddress (c\<lparr>sac_signature := v\<rparr>)"
| "with_direct_signature v (CredAddressV2 c) = CredAddressV2 (c\<lparr>sac_signature := v\<rparr>)"
| "with_direct_signature v c = c"

text \<open>A signature value an entry may carry: a key and that key's signature of the entry's hash.\<close>

definition valid_entry_signature ::
  "stellar_lib \<Rightarrow> soroban_lib \<Rightarrow> soroban_entry \<Rightarrow> string \<Rightarrow> sc_val \<Rightarrow> bool" where
  "valid_entry_signature L S e np v \<longleftrightarrow>
     (\<exists>k sig p x. v = ScMap (Some [(ScSymbol (bytes_of ''public_key''), ScBytes k),
                                 (ScSymbol (bytes_of ''signature''), ScBytes sig)]) \<and>
        soroban_authorization_preimage L e np = Inr p \<and> preimage_to_xdr S p = Inr x \<and>
        verifying_key_valid L k \<and> verify_strict L k (sha256 L x) sig)"

lemma preimage_ignores_signature:
  "soroban_authorization_preimage L (e\<lparr>sae_credentials := with_direct_signature v (sae_credentials e)\<rparr>) np =
     soroban_authorization_preimage L e np"
  by (cases "sae_credentials e")
    (auto simp: soroban_authorization_preimage_def address_bound_preimage_def Let_def)

lemma appended_signature_Inr:
  "appended_signature u v = Inr w \<longleftrightarrow>
     (\<exists>old. existing_signatures u = Inr old \<and> v \<notin> set old \<and> int (length old) < u32_max \<and>
        w = ScVec (Some (old @ [v])))"
proof (cases "existing_signatures u")
  case (Inr old)
  have "int (length (old @ [v])) \<le> u32_max \<longleftrightarrow> int (length old) < u32_max" by auto
  then show ?thesis unfolding appended_signature_def Inr by (simp add: ensure_def eq_commute)
qed (simp add: appended_signature_def)

lemma append_signature_Inr:
  "append_signature e v = Inr e' \<longleftrightarrow>
     (\<exists>c old. direct_credentials (sae_credentials e) = Some c \<and> existing_signatures (sac_signature c) = Inr old \<and>
        v \<notin> set old \<and> int (length old) < u32_max \<and>
        e' = e\<lparr>sae_credentials := with_direct_signature (ScVec (Some (old @ [v]))) (sae_credentials e)\<rparr>)"
  by (cases "sae_credentials e")
    (auto simp: append_signature_def appended_signature_Inr result_simps)

lemma sign_soroban_Inr:
  assumes "sign_soroban_authorization_entry L S e np s = Inr e'"
  obtains c a old v where "direct_credentials (sae_credentials e) = Some c" "sac_address c = ScAccount a"
    "existing_signatures (sac_signature c) = Inr old" "v \<notin> set old" "valid_entry_signature L S e np v"
    "\<exists>sig. ed25519_signature_value L (so_public_key s) sig = Inr v"
    "e' = e\<lparr>sae_credentials := with_direct_signature (ScVec (Some (old @ [v]))) (sae_credentials e)\<rparr>"
proof -
  from assms obtain req sig v where direct: "ensure_direct_account_credential e = Inr ()"
    and req: "prepare_soroban_authorization_signing L S e np = Inr req"
    and verify: "verify_soroban_signature L (so_public_key s) (ssr_hash req) sig = Inr ()"
    and v: "ed25519_signature_value L (so_public_key s) sig = Inr v"
    and app: "append_signature e v = Inr e'"
    by (auto simp: sign_soroban_authorization_entry_def result_simps)
  from app obtain c old where c: "direct_credentials (sae_credentials e) = Some c"
    "existing_signatures (sac_signature c) = Inr old" "v \<notin> set old"
    "e' = e\<lparr>sae_credentials := with_direct_signature (ScVec (Some (old @ [v]))) (sae_credentials e)\<rparr>"
    unfolding append_signature_Inr by blast
  from direct c(1) obtain a where "sac_address c = ScAccount a"
    by (cases "sae_credentials e"; cases "sac_address c")
      (auto simp: ensure_direct_account_credential_def)
  moreover have "valid_entry_signature L S e np v"
    using req verify v
    by (auto simp: valid_entry_signature_def prepare_soroban_authorization_signing_def
        verify_soroban_signature_def ed25519_signature_value_def result_simps split: if_splits)
  ultimately show thesis using that c v by blast
qed

lemma valid_entry_signature_with:
  "valid_entry_signature L S (e\<lparr>sae_credentials := with_direct_signature v (sae_credentials e)\<rparr>) np w =
     valid_entry_signature L S e np w"
  by (simp add: valid_entry_signature_def preimage_ignores_signature)

section \<open>Properties\<close>

text \<open>Signing an authorization entry succeeds only for the credential of a classic account without
  delegates, and then changes nothing but the credential's signature: one new signature value is
  appended, it is a valid Ed25519 signature by the signer's key over the entry's own preimage (with
  the network, nonce, expiry and invocation in it), it was not there before, and every earlier
  signature is as valid for the new entry as it was.\<close>

theorem soroban_signing_appends_valid_signature:
  assumes "sign_soroban_authorization_entry L S e np s = Inr e'"
  shows "\<exists>c a old v. direct_credentials (sae_credentials e) = Some c \<and> sac_address c = ScAccount a \<and>
    existing_signatures (sac_signature c) = Inr old \<and> v \<notin> set old \<and>
    e' = e\<lparr>sae_credentials := with_direct_signature (ScVec (Some (old @ [v]))) (sae_credentials e)\<rparr> \<and>
    (\<exists>sig. ed25519_signature_value L (so_public_key s) sig = Inr v) \<and>
    valid_entry_signature L S e' np v \<and>
    valid_entry_signature L S e' np = valid_entry_signature L S e np"
  using assms
proof (rule sign_soroban_Inr, goal_cases signed)
  case (signed c a old v)
  from signed(7) have same: "valid_entry_signature L S e' np = valid_entry_signature L S e np"
    by (auto simp: valid_entry_signature_with)
  show ?case
    by (intro exI [of _ c] exI [of _ a] exI [of _ old] exI [of _ v] conjI signed(1-4) signed(6,7) same)
      (simp only: same signed(5))
qed

section \<open>Examples\<close>

text \<open>Contract addresses of the examples: a C before the text of the same bytes as a key.\<close>

definition demo_contract_text :: "bytes \<Rightarrow> string" where
  "demo_contract_text b = CHR ''C'' # demo_key_text b"

definition demo_contract_parse :: "string \<Rightarrow> bytes option" where
  "demo_contract_parse s = (if s \<noteq> [] \<and> hd s = CHR ''C'' then demo_parse_key (tl s) else None)"

definition demo_soroban_lib :: soroban_lib where
  "demo_soroban_lib =
     \<lparr>entry_to_xdr = (\<lambda>e. Inr []), entry_to_xdr_within = (\<lambda>depth e. Inr []), entry_from_xdr = (\<lambda>b depth len. Inl ''invalid''),
      preimage_to_xdr = (\<lambda>p. Inr []), preimage_from_xdr = (\<lambda>b depth. Inl ''invalid''),
      contract_from_string = demo_contract_parse, contract_to_string = demo_contract_text\<rparr>"

definition demo_invocation :: soroban_invocation where
  "demo_invocation = Invocation (AuthorizedContractFn
     \<lparr>ic_contract_address = ScContractAddress (replicate 32 3), ic_function_name = bytes_of ''transfer'', ic_args = []\<rparr>) []"

definition demo_entry :: "sc_val \<Rightarrow> soroban_entry" where
  "demo_entry v =
     \<lparr>sae_credentials = CredAddress \<lparr>sac_address = ScAccount demo_key, sac_nonce = 1,
        sac_signature_expiration_ledger = 9, sac_signature = v\<rparr>, sae_root_invocation = demo_invocation\<rparr>"

definition demo_signature_value :: sc_val where
  "demo_signature_value =
     ScMap (Some [(ScSymbol (bytes_of ''public_key''), ScBytes demo_key),
                  (ScSymbol (bytes_of ''signature''), ScBytes (demo_pad 64 demo_key))])"

lemma demo_soroban_sign:
  "sign_soroban_authorization_entry demo_lib demo_soroban_lib (demo_entry ScVoid) np
     (software_soroban demo_lib demo_signer) = Inr (demo_entry (ScVec (Some [demo_signature_value])))"
  by (simp add: sign_soroban_authorization_entry_def ensure_direct_account_credential_def demo_entry_def
      prepare_soroban_authorization_signing_def soroban_authorization_entry_xdr_def
      soroban_authorization_preimage_def demo_soroban_lib_def software_soroban_def demo_signer_def
      from_signing_key_def verify_soroban_signature_def ed25519_signature_value_def append_signature_def
      appended_signature_def existing_signatures_def demo_signature_value_def u32_max_def Let_def)

theorem soroban_signing_appends_valid_signature_witness:
  "valid_entry_signature demo_lib demo_soroban_lib (demo_entry (ScVec (Some [demo_signature_value]))) ''net''
     demo_signature_value"
proof -
  obtain old v where "existing_signatures ScVoid = Inr old"
    "ScVec (Some [demo_signature_value]) = ScVec (Some (old @ [v]))"
    "valid_entry_signature demo_lib demo_soroban_lib (demo_entry (ScVec (Some [demo_signature_value]))) ''net'' v"
    using soroban_signing_appends_valid_signature [OF demo_soroban_sign [of "''net''"]]
    by (auto simp: demo_entry_def)
  then show ?thesis by (simp add: existing_signatures_def)
qed

end
