(* ===== verification/Protection.thy ===== *)
theory Protection
  imports SecretStore Soroban
begin

text \<open>
  core/rust/src/protection.rs, wallet.rs, wallet_material.rs and protected_signer.rs: the registry of
  protection providers and its envelope format, mnemonic derivation, protecting signing material,
  and signing with protected material bound to the expected identity.
  The registry's \<open>HashMap\<close> is a map; a provider is a record of the trait's methods. The BIP-39 and
  SLIP-10 libraries are the record \<open>mnemonic_lib\<close>.
\<close>

section \<open>The registry (protection.rs)\<close>

datatype protection_error =
    PeSecretStore secret_store_error
  | ProviderUnavailable string
  | UnsupportedProtectionKind string
  | CorruptedMetadata
  | UnsupportedFormat
  | UnsupportedVersion

definition protected_secret_format :: string where
  "protected_secret_format = ''fresnica-protected-secret''"

definition protected_secret_version :: nat where "protected_secret_version = 1"

datatype protection_credential = Password string

fun password_value :: "protection_credential \<Rightarrow> string" where
  "password_value (Password p) = p"

record protection_provider =
  pp_kind :: string
  pp_protect :: "json \<Rightarrow> protection_credential \<Rightarrow> protection_error + json"
  pp_unprotect :: "json \<Rightarrow> protection_credential \<Rightarrow> protection_error + json"

definition password_protect :: "crypto_lib \<Rightarrow> json \<Rightarrow> protection_credential \<Rightarrow> protection_error + json" where
  "password_protect C payload credential =
     and_then (map_err PeSecretStore (encrypt_secret C payload (password_value credential))) (\<lambda>e.
       ok_or CorruptedMetadata (cl_envelope_to_value C e))"

definition password_unprotect :: "crypto_lib \<Rightarrow> json \<Rightarrow> protection_credential \<Rightarrow> protection_error + json" where
  "password_unprotect C v credential =
     and_then (ok_or CorruptedMetadata (cl_envelope_from_value C v)) (\<lambda>e.
       map_err PeSecretStore (decrypt_secret C e (password_value credential)))"

definition password_provider :: "crypto_lib \<Rightarrow> protection_provider" where
  "password_provider C =
     \<lparr>pp_kind = ''password'', pp_protect = password_protect C, pp_unprotect = password_unprotect C\<rparr>"

type_synonym registry = "string \<Rightarrow> protection_provider option"

definition registry_register :: "registry \<Rightarrow> protection_provider \<Rightarrow> registry" where
  "registry_register R p = R(pp_kind p \<mapsto> p)"

definition registry_new :: "crypto_lib \<Rightarrow> registry" where
  "registry_new C = registry_register Map.empty (password_provider C)"

definition registry_provider :: "registry \<Rightarrow> string \<Rightarrow> protection_error + protection_provider" where
  "registry_provider R kind = ok_or (ProviderUnavailable kind) (R kind)"

definition is_legacy_password :: "json \<Rightarrow> bool" where
  "is_legacy_password v \<longleftrightarrow>
     (case as_object v of
        None \<Rightarrow> False
      | Some m \<Rightarrow> get_str v ''format'' \<noteq> Some protected_secret_format \<and>
          get_str v ''cipher'' = Some ''aes-256-gcm'' \<and> map_of m ''kdf'' \<noteq> None)"

definition kind_for :: "json \<Rightarrow> protection_error + string" where
  "kind_for v =
     (case as_object v of
        None \<Rightarrow> Inl CorruptedMetadata
      | Some m \<Rightarrow>
          (if get_str v ''format'' = Some protected_secret_format then
             (if Option.bind (json_get v ''version'') as_u64 \<noteq> Some protected_secret_version
              then Inl UnsupportedVersion
              else ok_or CorruptedMetadata
                     (Option.bind (json_get v ''protection'') (\<lambda>p.
                        case as_object p of None \<Rightarrow> None | Some _ \<Rightarrow> get_str p ''type'')))
           else if is_legacy_password v then Inr ''password''
           else Inl UnsupportedFormat))"

definition registry_wrap :: "registry \<Rightarrow> string \<Rightarrow> json \<Rightarrow> protection_error + json" where
  "registry_wrap R kind provider_envelope =
     and_then (registry_provider R kind) (\<lambda>_.
       Inr (JObject [(''format'', JString protected_secret_format),
                     (''version'', JNumber (PosInt protected_secret_version)),
                     (''protection'', JObject [(''type'', JString kind)]),
                     (''payload'', provider_envelope)]))"

definition password_provider_envelope :: "json \<Rightarrow> protection_error + json" where
  "password_provider_envelope v =
     and_then (kind_for v) (\<lambda>kind.
       if kind \<noteq> ''password'' then Inl (UnsupportedProtectionKind kind)
       else if is_legacy_password v then Inr v
       else ok_or CorruptedMetadata (json_get v ''payload''))"

definition registry_protect :: "registry \<Rightarrow> json \<Rightarrow> protection_credential \<Rightarrow> protection_error + json" where
  "registry_protect R payload credential =
     and_then (registry_provider R ''password'') (\<lambda>provider.
     and_then (pp_protect provider payload credential) (\<lambda>e. registry_wrap R ''password'' e))"

definition registry_unprotect :: "registry \<Rightarrow> json \<Rightarrow> protection_credential \<Rightarrow> protection_error + json" where
  "registry_unprotect R v credential =
     and_then (password_provider_envelope v) (\<lambda>e.
     and_then (registry_provider R ''password'') (\<lambda>provider. pp_unprotect provider e credential))"

definition registry_derive_unlock_key :: "crypto_lib \<Rightarrow> json \<Rightarrow> string \<Rightarrow> protection_error + bytes" where
  "registry_derive_unlock_key C v password =
     and_then (password_provider_envelope v) (\<lambda>pe.
     and_then (ok_or CorruptedMetadata (cl_envelope_from_value C pe)) (\<lambda>e.
       map_err PeSecretStore (derive_unlock_key C e password)))"

definition unprotect_with_unlock_key :: "crypto_lib \<Rightarrow> json \<Rightarrow> bytes \<Rightarrow> protection_error + json" where
  "unprotect_with_unlock_key C v unlock_key =
     and_then (password_provider_envelope v) (\<lambda>pe.
     and_then (ok_or CorruptedMetadata (cl_envelope_from_value C pe)) (\<lambda>e.
       map_err PeSecretStore (decrypt_secret_with_unlock_key C e unlock_key)))"

definition migrate_legacy_password :: "registry \<Rightarrow> json \<Rightarrow> protection_error + json" where
  "migrate_legacy_password R v =
     (if \<not> is_legacy_password v then Inr v else registry_wrap R ''password'' v)"

section \<open>Mnemonics (wallet.rs)\<close>

datatype mnemonic_language =
    English | SimplifiedChinese | TraditionalChinese | French | Italian | Japanese | Korean | Spanish

definition supported_mnemonic_languages :: "(string \<times> mnemonic_language) list" where
  "supported_mnemonic_languages =
     [(''english'', English), (''chinese_simplified'', SimplifiedChinese),
      (''chinese_traditional'', TraditionalChinese), (''french'', French), (''italian'', Italian),
      (''japanese'', Japanese), (''korean'', Korean), (''spanish'', Spanish)]"

datatype wallet_derivation_error =
    UnsupportedLanguage string | InvalidMnemonic | AmbiguousLanguage | InvalidIndex
  | InvalidStrength | WdRandomUnavailable

record mnemonic_lib =
  ml_parse_in :: "mnemonic_language \<Rightarrow> string \<Rightarrow> bytes option"
  ml_from_entropy_in :: "mnemonic_language \<Rightarrow> bytes \<Rightarrow> string option"
  ml_to_seed :: "bytes \<Rightarrow> string \<Rightarrow> bytes"
  ml_derive_path :: "bytes \<Rightarrow> string \<Rightarrow> bytes option"

definition max_account_index :: nat where "max_account_index = 2 ^ 31 - 1"

definition mnemonic_language_named :: "string \<Rightarrow> wallet_derivation_error + mnemonic_language" where
  "mnemonic_language_named language =
     ok_or (UnsupportedLanguage language) (map_of supported_mnemonic_languages language)"

definition generate_mnemonic_phrase ::
  "crypto_lib \<Rightarrow> mnemonic_lib \<Rightarrow> string \<Rightarrow> nat \<Rightarrow> wallet_derivation_error + string" where
  "generate_mnemonic_phrase C M language strength =
     and_then (if strength \<in> {128, 160, 192, 224, 256} then Inr (strength div 8) else Inl InvalidStrength)
       (\<lambda>entropy_bytes.
     and_then (ok_or WdRandomUnavailable (cl_random C 0 entropy_bytes)) (\<lambda>entropy.
     and_then (mnemonic_language_named language) (\<lambda>l.
       ok_or InvalidStrength (ml_from_entropy_in M l entropy))))"

fun detect_loop ::
  "mnemonic_lib \<Rightarrow> string \<Rightarrow> (string \<times> mnemonic_language) list \<Rightarrow> string option
     \<Rightarrow> wallet_derivation_error + string option" where
  "detect_loop M mnemonic [] detected = Inr detected"
| "detect_loop M mnemonic ((name, l) # rest) detected =
     (if ml_parse_in M l mnemonic \<noteq> None then
        (if detected \<noteq> None then Inl AmbiguousLanguage else detect_loop M mnemonic rest (Some name))
      else detect_loop M mnemonic rest detected)"

definition detect_mnemonic_language :: "mnemonic_lib \<Rightarrow> string \<Rightarrow> wallet_derivation_error + string" where
  "detect_mnemonic_language M mnemonic =
     and_then (detect_loop M (trim mnemonic) supported_mnemonic_languages None) (ok_or InvalidMnemonic)"

definition derivation_path :: "nat \<Rightarrow> string" where
  "derivation_path index = ''m/44'' @ [CHR 0x27] @ ''/148'' @ [CHR 0x27] @ ''/'' @ nat_to_dec index @ [CHR 0x27]"

definition derive_key ::
  "mnemonic_lib \<Rightarrow> string \<Rightarrow> string \<Rightarrow> nat \<Rightarrow> string \<Rightarrow> wallet_derivation_error + bytes" where
  "derive_key M mnemonic passphrase index language =
     and_then (ensure (index \<le> max_account_index) InvalidIndex) (\<lambda>_.
     and_then (mnemonic_language_named language) (\<lambda>l.
     and_then (ok_or InvalidMnemonic (ml_parse_in M l (trim mnemonic))) (\<lambda>m.
       ok_or InvalidIndex (ml_derive_path M (ml_to_seed M m passphrase) (derivation_path index)))))"

definition derive_classic_public_key ::
  "stellar_lib \<Rightarrow> mnemonic_lib \<Rightarrow> string \<Rightarrow> string \<Rightarrow> nat \<Rightarrow> string \<Rightarrow> wallet_derivation_error + string" where
  "derive_classic_public_key L M mnemonic passphrase index language =
     and_then (derive_key M mnemonic passphrase index language) (\<lambda>k.
       Inr (public_key_to_string L (verifying_key_of L k)))"

definition derive_classic_signer ::
  "stellar_lib \<Rightarrow> mnemonic_lib \<Rightarrow> string \<Rightarrow> string \<Rightarrow> nat \<Rightarrow> string \<Rightarrow> wallet_derivation_error + software_signer" where
  "derive_classic_signer L M mnemonic passphrase index language =
     and_then (derive_key M mnemonic passphrase index language) (\<lambda>k. Inr (from_signing_key L k))"

section \<open>Protecting signing material (wallet_material.rs)\<close>

datatype wallet_material_error =
    WmProtection protection_error | WmSigner signer_error | WmDerivation wallet_derivation_error

record protected_wallet_material =
  pwm_public_key :: string
  pwm_envelope :: json

record generated_protected_mnemonic =
  gpm_wallet :: protected_wallet_material
  gpm_mnemonic :: string

definition protect_secret_signing_material ::
  "stellar_lib \<Rightarrow> registry \<Rightarrow> string \<Rightarrow> string \<Rightarrow> wallet_material_error + protected_wallet_material" where
  "protect_secret_signing_material L R raw passcode =
     (let secret = trim raw
      in and_then (map_err WmSigner (from_secret L secret)) (\<lambda>signer.
         and_then (map_err WmProtection (registry_protect R
             (JObject [(''kind'', JString ''secret''), (''secret'', JString secret)]) (Password passcode))) (\<lambda>e.
           Inr \<lparr>pwm_public_key = sw_public_key signer, pwm_envelope = e\<rparr>)))"

definition protect_mnemonic_signing_material ::
  "stellar_lib \<Rightarrow> mnemonic_lib \<Rightarrow> registry \<Rightarrow> string \<Rightarrow> string \<Rightarrow> nat \<Rightarrow> string option \<Rightarrow> string
     \<Rightarrow> wallet_material_error + protected_wallet_material" where
  "protect_mnemonic_signing_material L M R raw passphrase index language passcode =
     (let mnemonic = trim raw
      in and_then (case language of
             Some l \<Rightarrow> if l \<noteq> [] then Inr l else map_err WmDerivation (detect_mnemonic_language M mnemonic)
           | None \<Rightarrow> map_err WmDerivation (detect_mnemonic_language M mnemonic)) (\<lambda>lang.
         and_then (map_err WmDerivation (derive_classic_public_key L M mnemonic passphrase index lang)) (\<lambda>public_key.
         and_then (map_err WmProtection (registry_protect R
             (JObject [(''kind'', JString ''mnemonic''), (''mnemonic'', JString mnemonic),
                       (''mnemonic_passphrase'', JString passphrase), (''index'', JNumber (PosInt index)),
                       (''language'', JString lang)]) (Password passcode))) (\<lambda>e.
           Inr \<lparr>pwm_public_key = public_key, pwm_envelope = e\<rparr>))))"

definition generate_protected_mnemonic ::
  "stellar_lib \<Rightarrow> crypto_lib \<Rightarrow> mnemonic_lib \<Rightarrow> registry \<Rightarrow> string \<Rightarrow> nat \<Rightarrow> string \<Rightarrow> nat \<Rightarrow> string
     \<Rightarrow> wallet_material_error + generated_protected_mnemonic" where
  "generate_protected_mnemonic L C M R language strength passphrase index passcode =
     and_then (map_err WmDerivation (generate_mnemonic_phrase C M language strength)) (\<lambda>mnemonic.
     and_then (protect_mnemonic_signing_material L M R mnemonic passphrase index (Some language) passcode) (\<lambda>w.
       Inr \<lparr>gpm_wallet = w, gpm_mnemonic = mnemonic\<rparr>))"

section \<open>Signing with protected material (protected_signer.rs)\<close>

datatype protected_signer_error =
    PsProtection protection_error | PsSigner signer_error | PsDerivation wallet_derivation_error
  | InvalidSigningMaterial | UnsupportedSigningMaterial | InvalidExpectedPublicKey | IdentityMismatch

datatype protected_signing_error =
    SigningUnlock protected_signer_error
  | SigningTransaction transaction_signing_error
  | SigningMessage message_signing_error
  | SigningSorobanAuthorization soroban_signing_error

datatype exported_signing_material =
    MaterialSecret string
  | MaterialMnemonic string string nat string

fun material_signer ::
  "stellar_lib \<Rightarrow> mnemonic_lib \<Rightarrow> exported_signing_material \<Rightarrow> protected_signer_error + software_signer" where
  "material_signer L M (MaterialSecret secret) = map_err PsSigner (from_secret L secret)"
| "material_signer L M (MaterialMnemonic mnemonic passphrase index language) =
     map_err PsDerivation (derive_classic_signer L M mnemonic passphrase index language)"

fun take_string_value :: "json option \<Rightarrow> protected_signer_error + string" where
  "take_string_value (Some (JString v)) = Inr v"
| "take_string_value _ = Inl InvalidSigningMaterial"

fun take_optional_sensitive :: "json option \<Rightarrow> protected_signer_error + string option" where
  "take_optional_sensitive None = Inr None"
| "take_optional_sensitive (Some JNull) = Inr None"
| "take_optional_sensitive (Some (JString v)) = Inr (Some v)"
| "take_optional_sensitive _ = Inl InvalidSigningMaterial"

fun take_optional_index :: "json option \<Rightarrow> protected_signer_error + nat" where
  "take_optional_index None = Inr 0"
| "take_optional_index (Some JNull) = Inr 0"
| "take_optional_index (Some (JNumber n)) = ok_or InvalidSigningMaterial (number_as_u64 n)"
| "take_optional_index _ = Inl InvalidSigningMaterial"

definition take_optional_language ::
  "mnemonic_lib \<Rightarrow> json option \<Rightarrow> string \<Rightarrow> protected_signer_error + string" where
  "take_optional_language M v mnemonic =
     (case v of
        None \<Rightarrow> map_err PsDerivation (detect_mnemonic_language M mnemonic)
      | Some JNull \<Rightarrow> map_err PsDerivation (detect_mnemonic_language M mnemonic)
      | Some (JString l) \<Rightarrow> if l \<noteq> [] then Inr l else Inl InvalidSigningMaterial
      | Some _ \<Rightarrow> Inl InvalidSigningMaterial)"

text \<open>
  The keys removed from the object are distinct, so each lookup may be made in the original object;
  the order in which errors are reported is the code's: the three sensitive strings, then the kind.
\<close>

definition signing_material_from_payload ::
  "mnemonic_lib \<Rightarrow> json \<Rightarrow> protected_signer_error + exported_signing_material" where
  "signing_material_from_payload M payload =
     (case as_object payload of
        None \<Rightarrow> Inl InvalidSigningMaterial
      | Some m \<Rightarrow>
          and_then (take_optional_sensitive (map_of m ''secret'')) (\<lambda>secret.
          and_then (take_optional_sensitive (map_of m ''mnemonic'')) (\<lambda>mnemonic.
          and_then (take_optional_sensitive (map_of m ''mnemonic_passphrase'')) (\<lambda>passphrase.
          and_then (take_string_value (map_of m ''kind'')) (\<lambda>kind.
            if kind = ''secret'' then map_ok MaterialSecret (ok_or InvalidSigningMaterial secret)
            else if kind = ''mnemonic'' then
              and_then (ok_or InvalidSigningMaterial mnemonic) (\<lambda>phrase.
              and_then (take_optional_index (map_of m ''index'')) (\<lambda>index.
              and_then (take_optional_language M (map_of m ''language'') phrase) (\<lambda>language.
                Inr (MaterialMnemonic phrase (case passphrase of Some p \<Rightarrow> p | None \<Rightarrow> []) index language))))
            else Inl UnsupportedSigningMaterial)))))"

definition ensure_expected_identity ::
  "stellar_lib \<Rightarrow> software_signer \<Rightarrow> string \<Rightarrow> protected_signer_error + unit" where
  "ensure_expected_identity L signer expected_public_key =
     and_then (ok_or InvalidExpectedPublicKey (public_key_from_string L (trim expected_public_key))) (\<lambda>expected.
       ensure (sw_public_key signer = public_key_to_string L expected) IdentityMismatch)"

definition software_signer_from_payload ::
  "stellar_lib \<Rightarrow> mnemonic_lib \<Rightarrow> json \<Rightarrow> protected_signer_error + software_signer" where
  "software_signer_from_payload L M payload =
     and_then (signing_material_from_payload M payload) (material_signer L M)"

fun map_passcode_verification_error :: "protection_error \<Rightarrow> protected_signer_error" where
  "map_passcode_verification_error (PeSecretStore InvalidUnlockKey) = PsProtection (PeSecretStore InvalidPassword)"
| "map_passcode_verification_error e = PsProtection e"

definition derive_verified_unlock_key ::
  "stellar_lib \<Rightarrow> crypto_lib \<Rightarrow> mnemonic_lib \<Rightarrow> json \<Rightarrow> string \<Rightarrow> string \<Rightarrow> protected_signer_error + bytes" where
  "derive_verified_unlock_key L C M v passcode expected_public_key =
     and_then (map_err PsProtection (registry_derive_unlock_key C v passcode)) (\<lambda>key.
     and_then (map_err map_passcode_verification_error (unprotect_with_unlock_key C v key)) (\<lambda>payload.
     and_then (software_signer_from_payload L M payload) (\<lambda>signer.
     and_then (ensure_expected_identity L signer expected_public_key) (\<lambda>_. Inr key))))"

definition unlock_software_signer ::
  "stellar_lib \<Rightarrow> crypto_lib \<Rightarrow> mnemonic_lib \<Rightarrow> json \<Rightarrow> bytes \<Rightarrow> string \<Rightarrow> protected_signer_error + software_signer" where
  "unlock_software_signer L C M v unlock_key expected_public_key =
     and_then (map_err PsProtection (unprotect_with_unlock_key C v unlock_key)) (\<lambda>payload.
     and_then (software_signer_from_payload L M payload) (\<lambda>signer.
     and_then (ensure_expected_identity L signer expected_public_key) (\<lambda>_. Inr signer)))"

definition sign_protected_transaction_envelope ::
  "stellar_lib \<Rightarrow> crypto_lib \<Rightarrow> mnemonic_lib \<Rightarrow> json \<Rightarrow> bytes \<Rightarrow> string \<Rightarrow> envelope \<Rightarrow> string
     \<Rightarrow> protected_signing_error + envelope" where
  "sign_protected_transaction_envelope L C M v unlock_key expected e np =
     and_then (map_err SigningUnlock (unlock_software_signer L C M v unlock_key expected)) (\<lambda>signer.
       map_err SigningTransaction (sign_transaction_envelope L e np (software_classic L signer)))"

definition sign_protected_message ::
  "stellar_lib \<Rightarrow> crypto_lib \<Rightarrow> mnemonic_lib \<Rightarrow> json \<Rightarrow> bytes \<Rightarrow> string \<Rightarrow> bytes \<Rightarrow> protected_signing_error + bytes" where
  "sign_protected_message L C M v unlock_key expected message =
     and_then (map_err SigningUnlock (unlock_software_signer L C M v unlock_key expected)) (\<lambda>signer.
       map_err SigningMessage (sign_message L message (software_message L signer)))"

definition sign_protected_soroban_authorization_entry ::
  "stellar_lib \<Rightarrow> soroban_lib \<Rightarrow> crypto_lib \<Rightarrow> mnemonic_lib \<Rightarrow> json \<Rightarrow> bytes \<Rightarrow> string \<Rightarrow> soroban_entry \<Rightarrow> string
     \<Rightarrow> protected_signing_error + soroban_entry" where
  "sign_protected_soroban_authorization_entry L S C M v unlock_key expected e np =
     and_then (map_err SigningUnlock (unlock_software_signer L C M v unlock_key expected)) (\<lambda>signer.
       map_err SigningSorobanAuthorization
         (sign_soroban_authorization_entry L S e np (software_soroban L signer)))"

definition export_signing_material ::
  "stellar_lib \<Rightarrow> mnemonic_lib \<Rightarrow> registry \<Rightarrow> json \<Rightarrow> string \<Rightarrow> string
     \<Rightarrow> protected_signer_error + exported_signing_material" where
  "export_signing_material L M R v passcode expected_public_key =
     and_then (map_err PsProtection (registry_unprotect R v (Password passcode))) (\<lambda>payload.
     and_then (signing_material_from_payload M payload) (\<lambda>material.
     and_then (material_signer L M material) (\<lambda>signer.
     and_then (ensure_expected_identity L signer expected_public_key) (\<lambda>_. Inr material))))"

section \<open>Boxes of the registry\<close>

lemma get_str_object [simp]: "get_str (JObject m) k = Option.bind (map_of m k) as_str"
  by (simp add: get_str_def)

interpretation provider_box: sealed_box crypto_ok
  "\<lambda>C payload pw. password_protect C payload (Password pw)" "\<lambda>C v pw. password_unprotect C v (Password pw)"
proof unfold_locales
  fix C payload pw v
  assume C: "crypto_ok C" and "password_protect C payload (Password pw) = Inr v"
  then obtain e where "encrypt_secret C payload pw = Inr e" "cl_envelope_to_value C e = Some v"
    by (auto simp: password_protect_def result_simps)
  with password_box.unseal_seal [OF C] crypto_laws(5) [of C e v] C
  show "password_unprotect C v (Password pw) = Inr payload"
    by (simp add: password_unprotect_def crypto_ok_def)
qed

lemma registry_new_provider [simp]:
  "registry_provider (registry_new C) kind =
     (if kind = ''password'' then Inr (password_provider C) else Inl (ProviderUnavailable kind))"
  by (simp add: registry_provider_def registry_new_def registry_register_def password_provider_def)

lemma wrapped_not_legacy:
  "registry_wrap R kind v = Inr w \<Longrightarrow> \<not> is_legacy_password w"
  by (auto simp: registry_wrap_def result_simps is_legacy_password_def)

text \<open>What was wrapped as a password envelope is what is unwrapped.\<close>

lemma unwrap_wrapped:
  "registry_wrap R ''password'' v = Inr w \<Longrightarrow> password_provider_envelope w = Inr v"
  by (auto simp: registry_wrap_def result_simps password_provider_envelope_def kind_for_def
      is_legacy_password_def protected_secret_version_def u64_max_def)

lemma registry_protect_new:
  "registry_protect (registry_new C) payload (Password pw) = Inr w \<Longrightarrow>
     \<exists>v. password_protect C payload (Password pw) = Inr v \<and> password_provider_envelope w = Inr v"
  by (auto simp: registry_protect_def result_simps password_provider_def intro: unwrap_wrapped)

interpretation registry_box: sealed_box crypto_ok
  "\<lambda>C payload pw. registry_protect (registry_new C) payload (Password pw)"
  "\<lambda>C v pw. registry_unprotect (registry_new C) v (Password pw)"
proof unfold_locales
  fix C payload pw w
  assume C: "crypto_ok C" and "registry_protect (registry_new C) payload (Password pw) = Inr w"
  then obtain v where "password_protect C payload (Password pw) = Inr v" "password_provider_envelope w = Inr v"
    by (blast dest: registry_protect_new)
  with provider_box.unseal_seal [OF C] show "registry_unprotect (registry_new C) w (Password pw) = Inr payload"
    by (simp add: registry_unprotect_def password_provider_def)
qed

lemma registry_unlock:
  assumes "crypto_ok C" "registry_protect (registry_new C) payload (Password pw) = Inr w"
  shows "\<exists>key. registry_derive_unlock_key C w pw = Inr key \<and> unprotect_with_unlock_key C w key = Inr payload"
proof -
  from registry_protect_new [OF assms(2)] obtain v e where "password_provider_envelope w = Inr v"
    and e: "encrypt_secret C payload pw = Inr e" "cl_envelope_from_value C v = Some e"
    using assms(1) crypto_laws(5) [of C] by (auto simp: password_protect_def result_simps crypto_ok_def)
  with encrypted_envelope_unlocks [OF _ _ _ e(1)] assms(1) show ?thesis
    by (simp add: registry_derive_unlock_key_def unprotect_with_unlock_key_def crypto_ok_def)
qed

section \<open>Identity\<close>

lemma material_signer_valid: "material_signer L M m = Inr s \<Longrightarrow> software_valid L s"
  by (cases m) (auto simp: result_simps derive_classic_signer_def software_valid_def from_signing_key_def
      dest: from_secret_valid)

lemma unlock_software_signer_Inr:
  assumes "unlock_software_signer L C M v key expected = Inr s"
  shows "software_valid L s \<and>
    (\<exists>k. public_key_from_string L (trim expected) = Some k \<and> sw_public_key s = public_key_to_string L k)"
  using assms
  by (auto simp: unlock_software_signer_def software_signer_from_payload_def ensure_expected_identity_def
      result_simps dest: material_signer_valid)

lemma from_secret_identity:
  assumes "public_key_codec L" "public_key_text_plain L" "ed25519_correct L" "from_secret L t = Inr s"
  shows "ensure_expected_identity L s (sw_public_key s) = Inr ()"
proof -
  let ?k = "verifying_key_of L (sw_signing_key s)"
  have "sw_public_key s = public_key_to_string L ?k"
    using assms(4) by (auto simp: from_secret_def from_signing_key_def split: option.splits)
  then show ?thesis
    using assms(1-3)
    by (simp add: ensure_expected_identity_def public_key_text_plain_def public_key_codecD ed25519_correctD)
qed

lemma protected_secret_Inr:
  assumes "protect_secret_signing_material L R raw pw = Inr w"
  obtains s where "from_secret L (trim raw) = Inr s" "pwm_public_key w = sw_public_key s"
    "registry_protect R (JObject [(''kind'', JString ''secret''), (''secret'', JString (trim raw))]) (Password pw) = Inr (pwm_envelope w)"
  using assms by (auto simp: protect_secret_signing_material_def Let_def result_simps)

lemma secret_payload_material:
  "signing_material_from_payload M (JObject [(''kind'', JString ''secret''), (''secret'', JString s)]) = Inr (MaterialSecret s)"
  by (simp add: signing_material_from_payload_def)

section \<open>Which language a phrase is in\<close>

lemma detect_loop_Inr:
  "detect_loop M m ls d = Inr d' \<longleftrightarrow>
     (case filter (\<lambda>(n, l). ml_parse_in M l m \<noteq> None) ls of
        [] \<Rightarrow> d' = d
      | [(n, l)] \<Rightarrow> d = None \<and> d' = Some n
      | _ \<Rightarrow> False)"
proof (induction M m ls d rule: detect_loop.induct)
  case (2 M m n l rest d)
  show ?case
  proof (cases "ml_parse_in M l m = None")
    case True
    with 2(2) show ?thesis by simp
  next
    case False
    show ?thesis
    proof (cases d)
      case None
      with False 2(1) [OF False] show ?thesis
        by (cases "filter (\<lambda>(n, l). \<exists>y. ml_parse_in M l m = Some y) rest") (auto split: list.splits)
    next
      case (Some x)
      with False show ?thesis
        by (cases "filter (\<lambda>(n, l). \<exists>y. ml_parse_in M l m = Some y) rest") (auto split: list.splits)
    qed
  qed
qed auto

section \<open>Properties\<close>

text \<open>A wallet whose secret was protected under a passcode can be used with that passcode, and
  only as the identity it was created with: the verified unlock key is derived for the stored public
  key, it unlocks a signer with that public key, and the export gives back the secret.\<close>

lemma protected_secret_usable:
  assumes "crypto_ok C" "public_key_codec L" "public_key_text_plain L" "ed25519_correct L"
    and "protect_secret_signing_material L (registry_new C) raw pw = Inr w"
  shows "(\<exists>key s. derive_verified_unlock_key L C M (pwm_envelope w) pw (pwm_public_key w) = Inr key \<and>
      unlock_software_signer L C M (pwm_envelope w) key (pwm_public_key w) = Inr s \<and>
      sw_public_key s = pwm_public_key w) \<and>
    export_signing_material L M (registry_new C) (pwm_envelope w) pw (pwm_public_key w) = Inr (MaterialSecret (trim raw))"
proof -
  from assms(5) obtain s where s: "from_secret L (trim raw) = Inr s" "pwm_public_key w = sw_public_key s"
    and box: "registry_protect (registry_new C) (JObject [(''kind'', JString ''secret''), (''secret'', JString (trim raw))]) (Password pw) = Inr (pwm_envelope w)"
    by (rule protected_secret_Inr)
  have id: "ensure_expected_identity L s (pwm_public_key w) = Inr ()"
    using from_secret_identity [OF assms(2-4) s(1)] s(2) by simp
  from registry_unlock [OF assms(1) box] registry_box.unseal_seal [OF assms(1) box] show ?thesis
    using id s
    by (auto simp: derive_verified_unlock_key_def unlock_software_signer_def software_signer_from_payload_def
        secret_payload_material export_signing_material_def)
qed

text \<open>C30. Protected signing is bound to the expected identity: if it succeeds, the material in the
  envelope was that of the expected public key, and the transaction carries one more signature,
  which is valid for that key.\<close>

theorem protected_signing_bound_to_identity:
  assumes "public_key_codec L" "hash_excludes_signatures L" "ed25519_correct L"
    and "sign_protected_transaction_envelope L C M v key expected e np = Inr e'"
  shows "\<exists>k s d. public_key_from_string L (trim expected) = Some k \<and>
    unlock_software_signer L C M v key expected = Inr s \<and> sw_public_key s = public_key_to_string L k \<and>
    e' = with_signatures e (env_signatures e @ [d]) \<and>
    has_valid_signature L e' np (public_key_to_string L k) = Inr True"
proof -
  from assms(4) obtain s where s: "unlock_software_signer L C M v key expected = Inr s"
    and sign: "sign_transaction_envelope L e np (software_classic L s) = Inr e'"
    by (auto simp: sign_protected_transaction_envelope_def result_simps)
  from unlock_software_signer_Inr [OF s] obtain k where
    "public_key_from_string L (trim expected) = Some k" "sw_public_key s = public_key_to_string L k" by blast
  moreover obtain d where "e' = with_signatures e (env_signatures e @ [d])"
    "has_valid_signature L e' np (cs_public_key (software_classic L s)) = Inr True"
    by (rule sign_step [OF assms(1,2) software_signs_64 [OF assms(3)] sign])
  ultimately show ?thesis using s by (auto simp: software_classic_def)
qed

text \<open>Migrating a legacy envelope changes its wrapping only: the result is in the current format,
  opens with exactly the same passwords and unlock keys to the same payloads or errors, and is not
  migrated again.\<close>

theorem migration_preserves_opening:
  assumes "migrate_legacy_password (registry_new C) v = Inr v'"
  shows "\<not> is_legacy_password v' \<and>
    registry_unprotect (registry_new C) v' cred = registry_unprotect (registry_new C) v cred \<and>
    unprotect_with_unlock_key C v' key = unprotect_with_unlock_key C v key \<and>
    migrate_legacy_password (registry_new C) v' = Inr v'"
proof (cases "is_legacy_password v")
  case False
  with assms show ?thesis by (simp add: migrate_legacy_password_def)
next
  case True
  with assms have w: "registry_wrap (registry_new C) ''password'' v = Inr v'"
    by (simp add: migrate_legacy_password_def)
  have "password_provider_envelope v = Inr v"
    using True by (auto simp: password_provider_envelope_def kind_for_def is_legacy_password_def split: option.splits)
  with unwrap_wrapped [OF w] wrapped_not_legacy [OF w] show ?thesis
    by (simp add: registry_unprotect_def unprotect_with_unlock_key_def migrate_legacy_password_def)
qed

text \<open>A mnemonic's language is detected only when it is the single supported language in which
  the trimmed phrase is valid; a phrase valid in two languages or in none is refused.\<close>

theorem detected_language_unique:
  "detect_mnemonic_language M phrase = Inr name \<longleftrightarrow>
     (\<exists>l. filter (\<lambda>(n, l). ml_parse_in M l (trim phrase) \<noteq> None) supported_mnemonic_languages = [(name, l)])"
proof -
  let ?f = "filter (\<lambda>(n, l). ml_parse_in M l (trim phrase) \<noteq> None) supported_mnemonic_languages"
  have "detect_mnemonic_language M phrase = Inr name \<longleftrightarrow>
      detect_loop M (trim phrase) supported_mnemonic_languages None = Inr (Some name)"
    by (auto simp: detect_mnemonic_language_def result_simps)
  also have "\<dots> \<longleftrightarrow> (\<exists>l. ?f = [(name, l)])"
    unfolding detect_loop_Inr by (cases ?f; cases "tl ?f") (auto split: prod.splits list.splits)
  finally show ?thesis .
qed

section \<open>Examples\<close>

definition demo_mnemonics :: mnemonic_lib where
  "demo_mnemonics = \<lparr>ml_parse_in = (\<lambda>l s. None), ml_from_entropy_in = (\<lambda>l b. None),
     ml_to_seed = (\<lambda>m p. m), ml_derive_path = (\<lambda>s p. None)\<rparr>"

definition demo_secret :: string where "demo_secret = CHR ''S'' # replicate 32 (CHR ''a'')"

lemma demo_secret_trim [simp]: "trim demo_secret = demo_secret"
  by (simp add: demo_secret_def trim_plain plain_char_def is_ascii_byte_def is_ascii_ws_def list_all_iff)

lemma demo_from_secret: "from_secret demo_lib demo_secret = Inr (from_signing_key demo_lib (bytes_of (replicate 32 (CHR ''a''))))"
  by (simp add: from_secret_def) (simp add: demo_secret_def demo_lib_def)

lemma demo_protected:
  "pw \<noteq> [] \<Longrightarrow> \<exists>w. protect_secret_signing_material demo_lib (registry_new demo_crypto) demo_secret pw = Inr w"
  using demo_encrypts [of pw demo_secret]
  by (simp add: protect_secret_signing_material_def demo_from_secret registry_protect_def password_provider_def
      password_protect_def demo_payload_def registry_wrap_def)
    (simp add: demo_crypto_def demo_from_value_def demo_envelope_def demo_salt_def)

lemma protected_secret_usable_witness:
  "\<exists>w key. protect_secret_signing_material demo_lib (registry_new demo_crypto) demo_secret ''pw'' = Inr w \<and>
     derive_verified_unlock_key demo_lib demo_crypto demo_mnemonics (pwm_envelope w) ''pw'' (pwm_public_key w) = Inr key"
proof -
  obtain w where w: "protect_secret_signing_material demo_lib (registry_new demo_crypto) demo_secret ''pw'' = Inr w"
    using demo_protected [of "''pw''"] by blast
  from protected_secret_usable [OF demo_crypto_ok demo_public_key_codec demo_public_key_text_plain
      demo_ed25519_correct w, of demo_mnemonics] w
  show ?thesis by auto
qed

lemma demo_protected_signs:
  "\<exists>e'. sign_transaction_envelope demo_lib demo_env np (software_classic demo_lib (from_signing_key demo_lib sk)) = Inr e'"
  unfolding sign_transaction_envelope_Inr
  by (simp add: demo_transaction_hash software_classic_def from_signing_key_def max_signature_bytes_def
      max_signatures_def demo_env_signatures)

lemma demo_unlocks:
  "\<exists>v key. unlock_software_signer demo_lib demo_crypto demo_mnemonics v key (public_key_to_string demo_lib (bytes_of (replicate 32 (CHR ''a'')))) =
     Inr (from_signing_key demo_lib (bytes_of (replicate 32 (CHR ''a''))))"
proof -
  have pad: "demo_pad 32 (bytes_of (replicate 32 (CHR ''a''))) = bytes_of (replicate 32 (CHR ''a''))"
    by (simp add: demo_pad_def)
  obtain w where "protect_secret_signing_material demo_lib (registry_new demo_crypto) demo_secret ''pw'' = Inr w"
    using demo_protected [of "''pw''"] by blast
  then obtain s where s: "from_secret demo_lib (trim demo_secret) = Inr s" "pwm_public_key w = sw_public_key s"
    "registry_protect (registry_new demo_crypto) (JObject [(''kind'', JString ''secret''), (''secret'', JString (trim demo_secret))]) (Password ''pw'') = Inr (pwm_envelope w)"
    by (rule protected_secret_Inr)
  from registry_unlock [OF demo_crypto_ok s(3)] obtain key where
    "unprotect_with_unlock_key demo_crypto (pwm_envelope w) key = Inr (JObject [(''kind'', JString ''secret''), (''secret'', JString demo_secret)])"
    by auto
  moreover have "ensure_expected_identity demo_lib s (sw_public_key s) = Inr ()"
    by (rule from_secret_identity [OF demo_public_key_codec demo_public_key_text_plain demo_ed25519_correct s(1)])
  moreover have se: "s = from_signing_key demo_lib (bytes_of (replicate 32 (CHR ''a'')))"
    using s(1) by (simp add: demo_from_secret)
  moreover have "sw_public_key s = public_key_to_string demo_lib (bytes_of (replicate 32 (CHR ''a'')))"
    by (simp add: se from_signing_key_def pad)
  ultimately have "unlock_software_signer demo_lib demo_crypto demo_mnemonics (pwm_envelope w) key
      (public_key_to_string demo_lib (bytes_of (replicate 32 (CHR ''a'')))) = Inr s"
    using s(1) by (simp add: unlock_software_signer_def software_signer_from_payload_def secret_payload_material)
  with se show ?thesis by blast
qed

theorem protected_signing_bound_to_identity_witness:
  "\<exists>e' pk. has_valid_signature demo_lib e' ''net'' pk = Inr True"
proof -
  let ?pk = "public_key_to_string demo_lib (bytes_of (replicate 32 (CHR ''a'')))"
  obtain v key where u: "unlock_software_signer demo_lib demo_crypto demo_mnemonics v key ?pk =
      Inr (from_signing_key demo_lib (bytes_of (replicate 32 (CHR ''a''))))"
    using demo_unlocks by blast
  obtain e' where "sign_transaction_envelope demo_lib demo_env ''net''
      (software_classic demo_lib (from_signing_key demo_lib (bytes_of (replicate 32 (CHR ''a''))))) = Inr e'"
    using demo_protected_signs by blast
  with u have "sign_protected_transaction_envelope demo_lib demo_crypto demo_mnemonics v key ?pk demo_env ''net'' = Inr e'"
    by (simp add: sign_protected_transaction_envelope_def)
  from protected_signing_bound_to_identity [OF demo_public_key_codec demo_hash_excludes_signatures
      demo_ed25519_correct this]
  show ?thesis by blast
qed

theorem migration_preserves_opening_witness:
  "\<exists>v'. migrate_legacy_password (registry_new demo_crypto)
      (JObject [(''cipher'', JString ''aes-256-gcm''), (''kdf'', JNull)]) = Inr v' \<and> \<not> is_legacy_password v'"
proof -
  have "\<exists>v'. migrate_legacy_password (registry_new demo_crypto)
      (JObject [(''cipher'', JString ''aes-256-gcm''), (''kdf'', JNull)]) = Inr v'"
    by (simp add: migrate_legacy_password_def registry_wrap_def)
  with migration_preserves_opening show ?thesis by blast
qed

end
