(* ===== verification/ClientApi.thy ===== *)
theory ClientApi
  imports Protection
begin

text \<open>
  core/rust/src/client_api.rs: the facade of the core. Every operation parses its arguments, calls the
  component that does the work, and turns that component's error into one of nine codes and a
  message: a fixed one, except for \<open>InvalidInput\<close> and \<open>CoreError\<close>, which carry the \<open>Display\<close> text of the
  component's error.
\<close>

section \<open>Errors\<close>

datatype client_error_code =
    CodeInvalidInput | CodeInvalidPasscode | CodeInvalidUnlockKey | CodeInvalidProtectedData
  | CodeIdentityMismatch | CodeInvalidTransaction | CodeInvalidAuthorization
  | CodeInvalidMessageSignature | CodeCoreError

fun error_code_str :: "client_error_code \<Rightarrow> string" where
  "error_code_str CodeInvalidInput = ''invalid-input''"
| "error_code_str CodeInvalidPasscode = ''invalid-passcode''"
| "error_code_str CodeInvalidUnlockKey = ''invalid-unlock-key''"
| "error_code_str CodeInvalidProtectedData = ''invalid-protected-data''"
| "error_code_str CodeIdentityMismatch = ''identity-mismatch''"
| "error_code_str CodeInvalidTransaction = ''invalid-transaction''"
| "error_code_str CodeInvalidAuthorization = ''invalid-authorization''"
| "error_code_str CodeInvalidMessageSignature = ''invalid-message-signature''"
| "error_code_str CodeCoreError = ''core-error''"

datatype client_api_error = ClientApiError (cae_code: client_error_code) (cae_message: string)

definition invalid_input :: "string \<Rightarrow> client_api_error" where
  "invalid_input message = ClientApiError CodeInvalidInput message"

definition invalid_passcode :: client_api_error where
  "invalid_passcode = ClientApiError CodeInvalidPasscode ''invalid wallet passcode''"

definition invalid_unlock_key :: client_api_error where
  "invalid_unlock_key = ClientApiError CodeInvalidUnlockKey ''invalid wallet unlock key''"

definition invalid_protected_data :: client_api_error where
  "invalid_protected_data =
     ClientApiError CodeInvalidProtectedData ''protected signer data is corrupted or unsupported''"

definition identity_mismatch :: client_api_error where
  "identity_mismatch =
     ClientApiError CodeIdentityMismatch ''signer identity does not match expected signer''"

definition invalid_transaction :: client_api_error where
  "invalid_transaction =
     ClientApiError CodeInvalidTransaction ''invalid Stellar transaction or signature''"

definition invalid_authorization :: client_api_error where
  "invalid_authorization =
     ClientApiError CodeInvalidAuthorization ''invalid Soroban authorization entry or signature''"

definition invalid_message_signature :: client_api_error where
  "invalid_message_signature =
     ClientApiError CodeInvalidMessageSignature ''invalid SEP-53 message signature''"

definition core_error :: "string \<Rightarrow> client_api_error" where
  "core_error message = ClientApiError CodeCoreError message"

text \<open>\<open>Display\<close> text of the errors a message is built from.\<close>

fun account_error_text :: "account_error \<Rightarrow> string" where
  "account_error_text InvalidAddress = ''invalid Stellar address''"
| "account_error_text UnsupportedAddressKind = ''unsupported Stellar address kind''"

fun derivation_error_text :: "wallet_derivation_error \<Rightarrow> string" where
  "derivation_error_text (UnsupportedLanguage l) = ''unsupported mnemonic language: '' @ l"
| "derivation_error_text InvalidMnemonic = ''invalid Stellar mnemonic phrase''"
| "derivation_error_text AmbiguousLanguage = ''mnemonic language is ambiguous; specify it explicitly''"
| "derivation_error_text InvalidIndex = ''invalid Stellar account index''"
| "derivation_error_text InvalidStrength = ''invalid mnemonic entropy strength''"
| "derivation_error_text WdRandomUnavailable = ''secure randomness is unavailable''"

section \<open>Classification\<close>

fun classify_secret_store_error :: "secret_store_error \<Rightarrow> client_api_error" where
  "classify_secret_store_error EmptyPassword = invalid_passcode"
| "classify_secret_store_error InvalidPassword = invalid_passcode"
| "classify_secret_store_error InvalidUnlockKey = invalid_unlock_key"
| "classify_secret_store_error UnsupportedEncryptionFormat = invalid_protected_data"
| "classify_secret_store_error UnsupportedKdfFormat = invalid_protected_data"
| "classify_secret_store_error UnsupportedKdfParameters = invalid_protected_data"
| "classify_secret_store_error Corrupted = invalid_protected_data"
| "classify_secret_store_error AuthenticationFailed = invalid_protected_data"
| "classify_secret_store_error RandomUnavailable = core_error ''secure randomness is unavailable''"
| "classify_secret_store_error CryptoFailure = core_error ''wallet secret cryptography failed''"

fun classify_protection_error :: "protection_error \<Rightarrow> client_api_error" where
  "classify_protection_error (PeSecretStore e) = classify_secret_store_error e"
| "classify_protection_error (UnsupportedProtectionKind _) = invalid_protected_data"
| "classify_protection_error CorruptedMetadata = invalid_protected_data"
| "classify_protection_error UnsupportedFormat = invalid_protected_data"
| "classify_protection_error UnsupportedVersion = invalid_protected_data"
| "classify_protection_error (ProviderUnavailable k) =
     core_error (''protection provider is not available: '' @ k)"

fun classify_wallet_material_error :: "wallet_material_error \<Rightarrow> client_api_error" where
  "classify_wallet_material_error (WmSigner e) = invalid_input (signer_error_text e)"
| "classify_wallet_material_error (WmDerivation e) = invalid_input (derivation_error_text e)"
| "classify_wallet_material_error (WmProtection e) = classify_protection_error e"

fun classify_protected_signer_error :: "protected_signer_error \<Rightarrow> client_api_error" where
  "classify_protected_signer_error (PsProtection e) = classify_protection_error e"
| "classify_protected_signer_error InvalidExpectedPublicKey =
     invalid_input ''expected_signer_public_key is invalid''"
| "classify_protected_signer_error IdentityMismatch = identity_mismatch"
| "classify_protected_signer_error (PsSigner _) = invalid_protected_data"
| "classify_protected_signer_error (PsDerivation _) = invalid_protected_data"
| "classify_protected_signer_error InvalidSigningMaterial = invalid_protected_data"
| "classify_protected_signer_error UnsupportedSigningMaterial = invalid_protected_data"

fun classify_external_signer_error :: "signer_error \<Rightarrow> client_api_error" where
  "classify_external_signer_error InvalidPublicKey = invalid_input ''signer_public_key is invalid''"
| "classify_external_signer_error InvalidSecret = invalid_input (signer_error_text InvalidSecret)"
| "classify_external_signer_error (ExternalProvider m) = core_error (signer_error_text (ExternalProvider m))"

fun classify_external_transaction_error :: "transaction_signing_error \<Rightarrow> client_api_error" where
  "classify_external_transaction_error (TxSigner e) = classify_external_signer_error e"
| "classify_external_transaction_error (TxXdr _) = invalid_transaction"
| "classify_external_transaction_error TxInvalidSignature = invalid_transaction"
| "classify_external_transaction_error TxDuplicateSignature = invalid_transaction"

fun classify_message_signing_error :: "message_signing_error \<Rightarrow> client_api_error" where
  "classify_message_signing_error (MsgSigner e) = classify_external_signer_error e"
| "classify_message_signing_error MsgInvalidSignature = invalid_message_signature"

fun classify_soroban_authorization_error :: "soroban_signing_error \<Rightarrow> client_api_error" where
  "classify_soroban_authorization_error (SaSigner e) = classify_external_signer_error e"
| "classify_soroban_authorization_error (SaXdr _) = invalid_authorization"
| "classify_soroban_authorization_error SourceAccountCredential = invalid_authorization"
| "classify_soroban_authorization_error NonAccountCredential = invalid_authorization"
| "classify_soroban_authorization_error DelegatedCredentialRequiresProvider = invalid_authorization"
| "classify_soroban_authorization_error SaInvalidSignature = invalid_authorization"
| "classify_soroban_authorization_error SaDuplicateSignature = invalid_authorization"
| "classify_soroban_authorization_error InvalidSignaturePayload = invalid_authorization"
| "classify_soroban_authorization_error UnsupportedSignaturePayload = invalid_authorization"

fun classify_protected_signing_error :: "protected_signing_error \<Rightarrow> client_api_error" where
  "classify_protected_signing_error (SigningUnlock e) = classify_protected_signer_error e"
| "classify_protected_signing_error (SigningTransaction _) = invalid_transaction"
| "classify_protected_signing_error (SigningMessage e) = classify_message_signing_error e"
| "classify_protected_signing_error (SigningSorobanAuthorization e) = classify_soroban_authorization_error e"

section \<open>Wallet operations\<close>

record client_protected_signer =
  cps_signer_public_key :: string
  cps_envelope :: json

record client_generated_mnemonic =
  cgm_signer :: client_protected_signer
  cgm_mnemonic :: string
  cgm_language :: string
  cgm_index :: nat

definition client_parse_account :: "stellar_lib \<Rightarrow> string \<Rightarrow> client_api_error + account_identity" where
  "client_parse_account L address =
     map_err (\<lambda>e. invalid_input (account_error_text e)) (account_parse L address)"

definition ensure_expected_signer_public_key ::
  "stellar_lib \<Rightarrow> string \<Rightarrow> string option \<Rightarrow> client_api_error + unit" where
  "ensure_expected_signer_public_key L actual expected_signer_public_key =
     (case expected_signer_public_key of
        None \<Rightarrow> Inr ()
      | Some expected \<Rightarrow>
          and_then (map_err (\<lambda>_. invalid_input ''expected_signer_public_key is invalid'')
             (account_parse L expected)) (\<lambda>identity.
            if \<not> is_classic identity
            then Inl (invalid_input ''expected_signer_public_key must be a classic G address'')
            else ensure (ai_public_key identity = Some actual) identity_mismatch))"

definition client_protect_secret ::
  "stellar_lib \<Rightarrow> registry \<Rightarrow> string \<Rightarrow> string \<Rightarrow> string option \<Rightarrow> client_api_error + client_protected_signer" where
  "client_protect_secret L R secret passcode expected =
     and_then (map_err classify_wallet_material_error (protect_secret_signing_material L R secret passcode))
       (\<lambda>protected.
     and_then (ensure_expected_signer_public_key L (pwm_public_key protected) expected) (\<lambda>_.
       Inr \<lparr>cps_signer_public_key = pwm_public_key protected, cps_envelope = pwm_envelope protected\<rparr>))"

definition client_protect_mnemonic ::
  "stellar_lib \<Rightarrow> mnemonic_lib \<Rightarrow> registry \<Rightarrow> string \<Rightarrow> string \<Rightarrow> nat \<Rightarrow> string option \<Rightarrow> string \<Rightarrow> string option
     \<Rightarrow> client_api_error + client_protected_signer" where
  "client_protect_mnemonic L M R mnemonic passphrase index language passcode expected =
     and_then (map_err classify_wallet_material_error
         (protect_mnemonic_signing_material L M R mnemonic passphrase index language passcode)) (\<lambda>protected.
     and_then (ensure_expected_signer_public_key L (pwm_public_key protected) expected) (\<lambda>_.
       Inr \<lparr>cps_signer_public_key = pwm_public_key protected, cps_envelope = pwm_envelope protected\<rparr>))"

definition client_generate_mnemonic ::
  "stellar_lib \<Rightarrow> crypto_lib \<Rightarrow> mnemonic_lib \<Rightarrow> registry \<Rightarrow> string \<Rightarrow> nat \<Rightarrow> string \<Rightarrow> nat \<Rightarrow> string
     \<Rightarrow> client_api_error + client_generated_mnemonic" where
  "client_generate_mnemonic L C M R language strength passphrase index passcode =
     and_then (map_err classify_wallet_material_error
         (generate_protected_mnemonic L C M R language strength passphrase index passcode)) (\<lambda>generated.
       Inr \<lparr>cgm_signer =
              \<lparr>cps_signer_public_key = pwm_public_key (gpm_wallet generated),
               cps_envelope = pwm_envelope (gpm_wallet generated)\<rparr>,
            cgm_mnemonic = gpm_mnemonic generated, cgm_language = language, cgm_index = index\<rparr>)"

definition client_reveal ::
  "stellar_lib \<Rightarrow> mnemonic_lib \<Rightarrow> registry \<Rightarrow> json \<Rightarrow> string \<Rightarrow> string
     \<Rightarrow> client_api_error + exported_signing_material" where
  "client_reveal L M R v passcode expected =
     map_err classify_protected_signer_error (export_signing_material L M R v passcode expected)"

definition client_derive_mnemonic_signer ::
  "stellar_lib \<Rightarrow> mnemonic_lib \<Rightarrow> registry \<Rightarrow> json \<Rightarrow> string \<Rightarrow> string \<Rightarrow> nat
     \<Rightarrow> client_api_error + client_protected_signer" where
  "client_derive_mnemonic_signer L M R v passcode expected index =
     and_then (client_reveal L M R v passcode expected) (\<lambda>material.
       case material of
         MaterialMnemonic mnemonic passphrase _ language \<Rightarrow>
           client_protect_mnemonic L M R mnemonic passphrase index (Some language) passcode None
       | MaterialSecret _ \<Rightarrow> Inl (invalid_input ''source protected signer is not mnemonic-backed''))"

definition client_reprotect ::
  "stellar_lib \<Rightarrow> mnemonic_lib \<Rightarrow> registry \<Rightarrow> json \<Rightarrow> string \<Rightarrow> string \<Rightarrow> string
     \<Rightarrow> client_api_error + client_protected_signer" where
  "client_reprotect L M R v current_passcode new_passcode expected =
     and_then (client_reveal L M R v current_passcode expected) (\<lambda>material.
       case material of
         MaterialSecret secret \<Rightarrow> client_protect_secret L R secret new_passcode (Some expected)
       | MaterialMnemonic mnemonic passphrase index language \<Rightarrow>
           client_protect_mnemonic L M R mnemonic passphrase index (Some language) new_passcode (Some expected))"

definition client_derive_unlock_key ::
  "stellar_lib \<Rightarrow> crypto_lib \<Rightarrow> mnemonic_lib \<Rightarrow> json \<Rightarrow> string \<Rightarrow> string \<Rightarrow> client_api_error + bytes" where
  "client_derive_unlock_key L C M v passcode expected =
     map_err classify_protected_signer_error (derive_verified_unlock_key L C M v passcode expected)"

definition client_validate_unlock_key ::
  "stellar_lib \<Rightarrow> crypto_lib \<Rightarrow> mnemonic_lib \<Rightarrow> json \<Rightarrow> bytes \<Rightarrow> string \<Rightarrow> client_api_error + unit" where
  "client_validate_unlock_key L C M v unlock_key expected =
     and_then (map_err classify_protected_signer_error (unlock_software_signer L C M v unlock_key expected))
       (\<lambda>_. Inr ())"

section \<open>Signing operations\<close>

definition client_sign_transaction_xdr ::
  "stellar_lib \<Rightarrow> crypto_lib \<Rightarrow> mnemonic_lib \<Rightarrow> json \<Rightarrow> bytes \<Rightarrow> string \<Rightarrow> bytes \<Rightarrow> string
     \<Rightarrow> client_api_error + bytes" where
  "client_sign_transaction_xdr L C M v unlock_key expected xdr np =
     and_then (map_err (\<lambda>_. invalid_transaction) (parse_transaction_envelope_xdr L xdr)) (\<lambda>e.
     and_then (map_err classify_protected_signing_error
         (sign_protected_transaction_envelope L C M v unlock_key expected e np)) (\<lambda>e'.
       map_err (\<lambda>_. invalid_transaction) (transaction_envelope_xdr L e')))"

definition client_sign_message ::
  "stellar_lib \<Rightarrow> crypto_lib \<Rightarrow> mnemonic_lib \<Rightarrow> json \<Rightarrow> bytes \<Rightarrow> string \<Rightarrow> bytes \<Rightarrow> client_api_error + bytes" where
  "client_sign_message L C M v unlock_key expected message =
     map_err classify_protected_signing_error (sign_protected_message L C M v unlock_key expected message)"

definition client_sign_soroban_authorization_xdr ::
  "stellar_lib \<Rightarrow> soroban_lib \<Rightarrow> crypto_lib \<Rightarrow> mnemonic_lib \<Rightarrow> json \<Rightarrow> bytes \<Rightarrow> string \<Rightarrow> bytes \<Rightarrow> string
     \<Rightarrow> client_api_error + bytes" where
  "client_sign_soroban_authorization_xdr L S C M v unlock_key expected xdr np =
     and_then (map_err classify_soroban_authorization_error (parse_soroban_authorization_entry_xdr S xdr)) (\<lambda>e.
     and_then (map_err classify_protected_signing_error
         (sign_protected_soroban_authorization_entry L S C M v unlock_key expected e np)) (\<lambda>e'.
       map_err classify_soroban_authorization_error (soroban_authorization_entry_xdr S e')))"

definition client_prepare_ed25519_signing ::
  "stellar_lib \<Rightarrow> bytes \<Rightarrow> string \<Rightarrow> client_api_error + transaction_signing_request" where
  "client_prepare_ed25519_signing L xdr np =
     and_then (map_err (\<lambda>_. invalid_transaction) (parse_transaction_envelope_xdr L xdr)) (\<lambda>e.
     and_then (map_err (\<lambda>_. invalid_transaction) (transaction_hash L e np)) (\<lambda>hash.
     and_then (map_err (\<lambda>_. invalid_transaction) (transaction_envelope_xdr L e)) (\<lambda>xdr'.
       Inr \<lparr>tsr_hash = hash, tsr_xdr = xdr', tsr_network_passphrase = np\<rparr>)))"

definition client_prepare_message_signing :: "stellar_lib \<Rightarrow> bytes \<Rightarrow> message_signing_request" where
  "client_prepare_message_signing L message = prepare_message_signing L message"

definition client_prepare_soroban_authorization_signing ::
  "stellar_lib \<Rightarrow> soroban_lib \<Rightarrow> bytes \<Rightarrow> string \<Rightarrow> client_api_error + soroban_signing_request" where
  "client_prepare_soroban_authorization_signing L S xdr np =
     and_then (map_err classify_soroban_authorization_error (parse_soroban_authorization_entry_xdr S xdr)) (\<lambda>e.
       map_err classify_soroban_authorization_error (prepare_soroban_authorization_signing L S e np))"

text \<open>\<open>signature.try_into()\<close> to 64 bytes.\<close>

definition signature_64 :: "bytes \<Rightarrow> client_api_error + bytes" where
  "signature_64 signature =
     (if length signature = 64 then Inr signature else Inl (invalid_input ''signature must be 64 bytes''))"

definition client_apply_ed25519_signature ::
  "stellar_lib \<Rightarrow> bytes \<Rightarrow> string \<Rightarrow> string \<Rightarrow> bytes \<Rightarrow> client_api_error + bytes" where
  "client_apply_ed25519_signature L xdr np signer_public_key raw =
     and_then (signature_64 raw) (\<lambda>signature.
     and_then (map_err classify_external_signer_error
         (external_new L signer_public_key (\<lambda>_. Inr signature))) (\<lambda>signer.
     and_then (map_err (\<lambda>_. invalid_transaction) (parse_transaction_envelope_xdr L xdr)) (\<lambda>e.
     and_then (map_err classify_external_transaction_error
         (sign_transaction_envelope L e np (external_classic signer))) (\<lambda>e'.
       map_err (\<lambda>_. invalid_transaction) (transaction_envelope_xdr L e')))))"

definition client_verify_message_signature ::
  "stellar_lib \<Rightarrow> bytes \<Rightarrow> string \<Rightarrow> bytes \<Rightarrow> client_api_error + unit" where
  "client_verify_message_signature L message signer_public_key raw =
     and_then (signature_64 raw) (\<lambda>signature.
       map_err classify_message_signing_error (verify_message_signature L signer_public_key message signature))"

definition client_apply_soroban_ed25519_signature ::
  "stellar_lib \<Rightarrow> soroban_lib \<Rightarrow> bytes \<Rightarrow> string \<Rightarrow> string \<Rightarrow> bytes \<Rightarrow> client_api_error + bytes" where
  "client_apply_soroban_ed25519_signature L S xdr np signer_public_key raw =
     and_then (signature_64 raw) (\<lambda>signature.
     and_then (map_err classify_external_signer_error
         (external_soroban_new L signer_public_key (\<lambda>_. Inr signature))) (\<lambda>signer.
     and_then (map_err classify_soroban_authorization_error (parse_soroban_authorization_entry_xdr S xdr)) (\<lambda>e.
     and_then (map_err classify_soroban_authorization_error
         (sign_soroban_authorization_entry L S e np signer)) (\<lambda>e'.
       map_err classify_soroban_authorization_error (soroban_authorization_entry_xdr S e')))))"

section \<open>Reprotecting\<close>

lemma ensure_expected_Inr:
  "ensure_expected_signer_public_key L pk (Some expected) = Inr () \<longleftrightarrow>
     (\<exists>i. account_parse L expected = Inr i \<and> is_classic i \<and> ai_public_key i = Some pk)"
  by (auto simp: ensure_expected_signer_public_key_def result_simps split: if_splits)

text \<open>What material a caller may get out of an envelope: a mnemonic's language is named.\<close>

fun material_named :: "exported_signing_material \<Rightarrow> bool" where
  "material_named (MaterialSecret _) = True"
| "material_named (MaterialMnemonic _ _ _ language) = (language \<noteq> [])"

lemma detect_loop_name:
  "detect_loop M m ls d = Inr (Some n) \<Longrightarrow> d = Some n \<or> n \<in> fst ` set ls"
  by (induction M m ls d rule: detect_loop.induct) (auto split: if_splits)

lemma detected_language_named: "detect_mnemonic_language M m = Inr l \<Longrightarrow> l \<noteq> []"
proof -
  assume "detect_mnemonic_language M m = Inr l"
  then have "l \<in> fst ` set supported_mnemonic_languages"
    using detect_loop_name [of M "trim m" supported_mnemonic_languages None l]
    by (auto simp: detect_mnemonic_language_def result_simps)
  then show "l \<noteq> []" by (auto simp: supported_mnemonic_languages_def)
qed

lemma taken_language_named: "take_optional_language M v m = Inr l \<Longrightarrow> l \<noteq> []"
proof (cases v)
  case (Some j)
  assume "take_optional_language M v m = Inr l"
  with Some show ?thesis
    by (cases j) (auto simp: take_optional_language_def dest: detected_language_named split: if_splits)
qed (auto simp: take_optional_language_def dest: detected_language_named)

lemma payload_material_named:
  assumes "signing_material_from_payload M v = Inr m"
  shows "material_named m"
proof -
  from assms obtain o1 where "as_object v = Some o1" by (auto simp: signing_material_from_payload_def split: option.splits)
  with assms consider s where "m = MaterialSecret s"
    | phrase i l p where "take_optional_language M (map_of o1 ''language'') phrase = Inr l" "m = MaterialMnemonic phrase p i l"
    unfolding signing_material_from_payload_def
    by (fastforce simp only: option.case and_then_Inr map_ok_Inr sum.inject split: if_split_asm)
  then show ?thesis by cases (auto dest: taken_language_named)
qed

lemma trimmed_secret_signer: "material_signer L M (MaterialSecret (trim secret)) = material_signer L M (MaterialSecret secret)"
  by (simp add: from_secret_def trim_trim)

lemma trimmed_mnemonic_signer:
  "material_signer L M (MaterialMnemonic (trim m) p i l) = material_signer L M (MaterialMnemonic m p i l)"
  by (simp add: derive_classic_signer_def derive_key_def trim_trim)

lemma mnemonic_payload_material:
  "l \<noteq> [] \<Longrightarrow> i \<le> max_account_index \<Longrightarrow> signing_material_from_payload M
     (JObject [(''kind'', JString ''mnemonic''), (''mnemonic'', JString m), (''mnemonic_passphrase'', JString p),
               (''index'', JNumber (PosInt i)), (''language'', JString l)]) = Inr (MaterialMnemonic m p i l)"
  by (simp add: signing_material_from_payload_def take_optional_language_def max_account_index_def u64_max_def)

text \<open>Protecting known material again: what is in the new envelope, and whose key it is.\<close>

lemma protect_secret_again:
  assumes "client_protect_secret L R secret pw (Some expected) = Inr w"
  shows "\<exists>payload s. registry_protect R payload (Password pw) = Inr (cps_envelope w) \<and>
    signing_material_from_payload M payload = Inr (MaterialSecret (trim secret)) \<and>
    material_signer L M (MaterialSecret (trim secret)) = Inr s \<and> cps_signer_public_key w = sw_public_key s"
proof -
  from assms obtain x where x: "protect_secret_signing_material L R secret pw = Inr x"
    "cps_signer_public_key w = pwm_public_key x" "cps_envelope w = pwm_envelope x"
    by (auto simp: client_protect_secret_def result_simps)
  from x(1) obtain s where "from_secret L (trim secret) = Inr s" "pwm_public_key x = sw_public_key s"
    "registry_protect R (JObject [(''kind'', JString ''secret''), (''secret'', JString (trim secret))]) (Password pw) = Inr (pwm_envelope x)"
    by (rule protected_secret_Inr)
  with x show ?thesis by (auto simp: secret_payload_material)
qed

lemma protect_mnemonic_again:
  assumes "client_protect_mnemonic L M R m p i (Some l) pw (Some expected) = Inr w" "l \<noteq> []"
  shows "\<exists>payload s. registry_protect R payload (Password pw) = Inr (cps_envelope w) \<and>
    signing_material_from_payload M payload = Inr (MaterialMnemonic (trim m) p i l) \<and>
    material_signer L M (MaterialMnemonic (trim m) p i l) = Inr s \<and> cps_signer_public_key w = sw_public_key s"
proof -
  from assms obtain x where x: "protect_mnemonic_signing_material L M R m p i (Some l) pw = Inr x"
    "cps_signer_public_key w = pwm_public_key x" "cps_envelope w = pwm_envelope x"
    by (auto simp: client_protect_mnemonic_def result_simps)
  from x(1) assms(2) obtain k where k: "derive_key M (trim m) p i l = Inr k"
    "pwm_public_key x = public_key_to_string L (verifying_key_of L k)"
    "registry_protect R (JObject [(''kind'', JString ''mnemonic''), (''mnemonic'', JString (trim m)),
       (''mnemonic_passphrase'', JString p), (''index'', JNumber (PosInt i)), (''language'', JString l)]) (Password pw) = Inr (pwm_envelope x)"
    by (auto simp: protect_mnemonic_signing_material_def Let_def result_simps derive_classic_public_key_def)
  from k(1) have "i \<le> max_account_index" by (auto simp: derive_key_def split: if_splits)
  with assms(2) have "signing_material_from_payload M (JObject [(''kind'', JString ''mnemonic''), (''mnemonic'', JString (trim m)),
       (''mnemonic_passphrase'', JString p), (''index'', JNumber (PosInt i)), (''language'', JString l)]) = Inr (MaterialMnemonic (trim m) p i l)"
    by (rule mnemonic_payload_material)
  moreover have "material_signer L M (MaterialMnemonic (trim m) p i l) = Inr (from_signing_key L k)"
    using k(1) by (simp add: derive_classic_signer_def)
  ultimately show ?thesis
    using k x by (fastforce simp: from_signing_key_def)
qed

lemma client_reveal_Inr:
  "client_reveal L M R v pw expected = Inr m \<longleftrightarrow>
     (\<exists>payload s. registry_unprotect R v (Password pw) = Inr payload \<and>
        signing_material_from_payload M payload = Inr m \<and> material_signer L M m = Inr s \<and>
        ensure_expected_identity L s expected = Inr ())"
  by (auto simp: client_reveal_def export_signing_material_def result_simps)

text \<open>Reprotecting seals a payload whose signer is the one that was revealed.\<close>

lemma client_reprotect_box:
  assumes "client_reprotect L M R v old new expected = Inr w"
  shows "\<exists>m m' payload s. client_reveal L M R v old expected = Inr m \<and>
    material_signer L M m = Inr s \<and> ensure_expected_identity L s expected = Inr () \<and>
    registry_protect R payload (Password new) = Inr (cps_envelope w) \<and>
    signing_material_from_payload M payload = Inr m' \<and> material_signer L M m' = Inr s \<and>
    cps_signer_public_key w = sw_public_key s"
proof -
  from assms obtain m where m: "client_reveal L M R v old expected = Inr m"
    by (auto simp: client_reprotect_def result_simps)
  then obtain s where s: "material_signer L M m = Inr s" "ensure_expected_identity L s expected = Inr ()"
    "material_named m"
    by (auto simp: client_reveal_Inr dest: payload_material_named)
  show ?thesis
  proof (cases m)
    case (MaterialSecret secret)
    with assms m have "client_protect_secret L R secret new (Some expected) = Inr w"
      by (simp add: client_reprotect_def)
    from protect_secret_again [OF this, of M] obtain payload s' where
      "registry_protect R payload (Password new) = Inr (cps_envelope w)"
      "signing_material_from_payload M payload = Inr (MaterialSecret (trim secret))"
      "material_signer L M (MaterialSecret (trim secret)) = Inr s'" "cps_signer_public_key w = sw_public_key s'"
      by blast
    moreover from this(3) s(1) MaterialSecret have "s' = s" by (simp only: trimmed_secret_signer sum.inject)
    ultimately show ?thesis using m s by blast
  next
    case (MaterialMnemonic mn p i l)
    with assms m have "client_protect_mnemonic L M R mn p i (Some l) new (Some expected) = Inr w"
      by (simp add: client_reprotect_def)
    from protect_mnemonic_again [OF this] s(3) MaterialMnemonic obtain payload s' where
      "registry_protect R payload (Password new) = Inr (cps_envelope w)"
      "signing_material_from_payload M payload = Inr (MaterialMnemonic (trim mn) p i l)"
      "material_signer L M (MaterialMnemonic (trim mn) p i l) = Inr s'" "cps_signer_public_key w = sw_public_key s'"
      by auto
    moreover from this(3) s(1) MaterialMnemonic have "s' = s" by (simp only: trimmed_mnemonic_signer sum.inject)
    ultimately show ?thesis using m s by blast
  qed
qed

section \<open>Properties\<close>

text \<open>Changing the passcode of protected signing material keeps the signer: the new envelope opens
  with the new passcode, for the same expected account, to material of the same signing key, its
  reported public key is that key's, and an unlock key is derived for it. The old passcode must
  have opened the old envelope as that account.\<close>

theorem reprotect_keeps_signer:
  assumes "crypto_ok C" "client_reprotect L M (registry_new C) v old new expected = Inr w"
  shows "\<exists>m m' s key. client_reveal L M (registry_new C) v old expected = Inr m \<and>
    client_reveal L M (registry_new C) (cps_envelope w) new expected = Inr m' \<and>
    material_signer L M m = Inr s \<and> material_signer L M m' = Inr s \<and>
    cps_signer_public_key w = sw_public_key s \<and>
    client_derive_unlock_key L C M (cps_envelope w) new expected = Inr key \<and>
    client_validate_unlock_key L C M (cps_envelope w) key expected = Inr ()"
proof -
  from client_reprotect_box [OF assms(2)] obtain m m' payload s where
    m: "client_reveal L M (registry_new C) v old expected = Inr m" "material_signer L M m = Inr s"
    and id: "ensure_expected_identity L s expected = Inr ()"
    and box: "registry_protect (registry_new C) payload (Password new) = Inr (cps_envelope w)"
    and m': "signing_material_from_payload M payload = Inr m'" "material_signer L M m' = Inr s"
    and pk: "cps_signer_public_key w = sw_public_key s"
    by blast
  from registry_unlock [OF assms(1) box] obtain key where
    key: "registry_derive_unlock_key C (cps_envelope w) new = Inr key"
      "unprotect_with_unlock_key C (cps_envelope w) key = Inr payload" by blast
  have "client_reveal L M (registry_new C) (cps_envelope w) new expected = Inr m'"
    using registry_box.unseal_seal [OF assms(1) box] m' id by (auto simp: client_reveal_Inr)
  moreover have "client_derive_unlock_key L C M (cps_envelope w) new expected = Inr key"
    "client_validate_unlock_key L C M (cps_envelope w) key expected = Inr ()"
    using key m' id
    by (simp_all add: client_derive_unlock_key_def derive_verified_unlock_key_def
        client_validate_unlock_key_def unlock_software_signer_def software_signer_from_payload_def)
  ultimately show ?thesis using m m'(2) pk by blast
qed

section \<open>Examples\<close>

lemma demo_reprotect:
  "\<exists>v w. client_reprotect demo_lib demo_mnemonics (registry_new demo_crypto) v ''pw'' ''new''
     (demo_key_text (bytes_of (replicate 32 (CHR ''a'')))) = Inr w"
proof -
  let ?k = "bytes_of (replicate 32 (CHR ''a''))" and ?R = "registry_new demo_crypto"
  let ?s = "from_signing_key demo_lib ?k"
  have k: "demo_pad 32 ?k = ?k" by (simp add: demo_pad_def)
  obtain v where v: "protect_secret_signing_material demo_lib ?R demo_secret ''pw'' = Inr v"
    using demo_protected [of "''pw''"] by blast
  obtain w where w: "protect_secret_signing_material demo_lib ?R demo_secret ''new'' = Inr w"
    using demo_protected [of "''new''"] by blast
  have pk: "pwm_public_key w = demo_key_text ?k"
    using w by (rule protected_secret_Inr) (simp add: demo_from_secret from_signing_key_def k)
  have box: "registry_protect ?R (JObject [(''kind'', JString ''secret''), (''secret'', JString demo_secret)])
      (Password ''pw'') = Inr (pwm_envelope v)"
    using v by (rule protected_secret_Inr) simp
  have "ensure_expected_identity demo_lib ?s (demo_key_text ?k) = Inr ()"
    using from_secret_identity [OF demo_public_key_codec demo_public_key_text_plain demo_ed25519_correct
        demo_from_secret] by (simp add: from_signing_key_def k)
  then have "client_reveal demo_lib demo_mnemonics ?R (pwm_envelope v) ''pw'' (demo_key_text ?k) =
      Inr (MaterialSecret demo_secret)"
    using registry_box.unseal_seal [OF demo_crypto_ok box]
    by (auto simp: client_reveal_Inr secret_payload_material demo_from_secret)
  moreover have "ensure_expected_signer_public_key demo_lib (demo_key_text ?k) (Some (demo_key_text ?k)) = Inr ()"
    by (simp add: ensure_expected_Inr demo_account_parse is_classic_def)
  ultimately show ?thesis
    using w pk
    by (intro exI [of _ "pwm_envelope v"]) (simp add: client_reprotect_def client_protect_secret_def)
qed

theorem reprotect_keeps_signer_witness:
  "\<exists>v w m. client_reprotect demo_lib demo_mnemonics (registry_new demo_crypto) v ''pw'' ''new''
       (demo_key_text (bytes_of (replicate 32 (CHR ''a'')))) = Inr w \<and>
     client_reveal demo_lib demo_mnemonics (registry_new demo_crypto) (cps_envelope w) ''new''
       (demo_key_text (bytes_of (replicate 32 (CHR ''a'')))) = Inr m"
  using demo_reprotect reprotect_keeps_signer [OF demo_crypto_ok] by blast

end
