(* ===== verification/Sdk.thy ===== *)
theory Sdk
  imports ClientApi
begin

text \<open>
  sdk/rust/src/lib.rs: the platform-neutral SDK over the core facade. Envelopes cross its boundary as
  JSON text, unlock keys as byte lists, indices as 32-bit integers; every error becomes one of nine
  stable codes with the core's message. \<open>serde_json\<close>'s text form is the pair of functions
  \<open>lib_json_to_string\<close> and \<open>lib_json_from_string\<close> of \<open>sdk_libs\<close>, with the other libraries of the core.
\<close>

section \<open>Errors and conversions\<close>

record sdk_libs =
  lib_stellar :: stellar_lib
  lib_soroban :: soroban_lib
  lib_crypto :: crypto_lib
  lib_mnemonic :: mnemonic_lib
  lib_json_to_string :: "json \<Rightarrow> string + string"
  lib_json_from_string :: "string \<Rightarrow> string + json"

datatype sdk_error_code =
    SdkInvalidInput | SdkInvalidPasscode | SdkInvalidUnlockKey | SdkInvalidProtectedData
  | SdkIdentityMismatch | SdkInvalidTransaction | SdkInvalidAuthorization
  | SdkInvalidMessageSignature | SdkCoreError

fun sdk_error_code_str :: "sdk_error_code \<Rightarrow> string" where
  "sdk_error_code_str SdkInvalidInput = ''invalid-input''"
| "sdk_error_code_str SdkInvalidPasscode = ''invalid-passcode''"
| "sdk_error_code_str SdkInvalidUnlockKey = ''invalid-unlock-key''"
| "sdk_error_code_str SdkInvalidProtectedData = ''invalid-protected-data''"
| "sdk_error_code_str SdkIdentityMismatch = ''identity-mismatch''"
| "sdk_error_code_str SdkInvalidTransaction = ''invalid-transaction''"
| "sdk_error_code_str SdkInvalidAuthorization = ''invalid-authorization''"
| "sdk_error_code_str SdkInvalidMessageSignature = ''invalid-message-signature''"
| "sdk_error_code_str SdkCoreError = ''core-error''"

datatype sdk_error = SdkError (sdk_code: sdk_error_code) (sdk_message: string)

fun sdk_code_from_client :: "client_error_code \<Rightarrow> sdk_error_code" where
  "sdk_code_from_client CodeInvalidInput = SdkInvalidInput"
| "sdk_code_from_client CodeInvalidPasscode = SdkInvalidPasscode"
| "sdk_code_from_client CodeInvalidUnlockKey = SdkInvalidUnlockKey"
| "sdk_code_from_client CodeInvalidProtectedData = SdkInvalidProtectedData"
| "sdk_code_from_client CodeIdentityMismatch = SdkIdentityMismatch"
| "sdk_code_from_client CodeInvalidTransaction = SdkInvalidTransaction"
| "sdk_code_from_client CodeInvalidAuthorization = SdkInvalidAuthorization"
| "sdk_code_from_client CodeInvalidMessageSignature = SdkInvalidMessageSignature"
| "sdk_code_from_client CodeCoreError = SdkCoreError"

definition sdk_error_from :: "client_api_error \<Rightarrow> sdk_error" where
  "sdk_error_from e = SdkError (sdk_code_from_client (cae_code e)) (cae_message e)"

record sdk_protected_software_signer =
  sps_signer_public_key :: string
  sps_envelope_json :: string

record sdk_generated_mnemonic =
  sgm_signer :: sdk_protected_software_signer
  sgm_mnemonic :: string
  sgm_language :: string
  sgm_index :: nat

datatype sdk_signing_material_kind = SdkSecret | SdkMnemonic

record sdk_exported_signing_material =
  sem_kind :: sdk_signing_material_kind
  sem_secret :: "string option"
  sem_mnemonic :: "string option"
  sem_mnemonic_passphrase :: "string option"
  sem_index :: "nat option"
  sem_language :: "string option"

definition sdk_protected_signer ::
  "sdk_libs \<Rightarrow> client_protected_signer \<Rightarrow> sdk_error + sdk_protected_software_signer" where
  "sdk_protected_signer B p =
     and_then (map_err (\<lambda>error. SdkError SdkCoreError
         (''unable to serialize protected signer envelope: '' @ error))
       (lib_json_to_string B (cps_envelope p))) (\<lambda>envelope_json.
       Inr \<lparr>sps_signer_public_key = cps_signer_public_key p, sps_envelope_json = envelope_json\<rparr>)"

definition sdk_parse_envelope :: "sdk_libs \<Rightarrow> string \<Rightarrow> sdk_error + json" where
  "sdk_parse_envelope B envelope_json =
     map_err (\<lambda>_. SdkError SdkInvalidProtectedData ''protected signer envelope is not valid JSON'')
       (lib_json_from_string B envelope_json)"

definition sdk_unlock_key :: "bytes \<Rightarrow> sdk_error + bytes" where
  "sdk_unlock_key b =
     (if length b \<noteq> 32
      then Inl (SdkError SdkInvalidUnlockKey ''wallet unlock key must be exactly 32 bytes'')
      else Inr b)"

text \<open>\<open>usize\<close> is taken as 64 bits wide; \<open>usize::try_from(u32)\<close> then never fails.\<close>

definition sdk_usize :: "nat \<Rightarrow> string \<Rightarrow> sdk_error + nat" where
  "sdk_usize v field =
     (if int v \<le> u64_max then Inr v
      else Inl (SdkError SdkInvalidInput (field @ '' is outside the supported range'')))"

definition sdk_u32 :: "nat \<Rightarrow> string \<Rightarrow> sdk_error + nat" where
  "sdk_u32 v field =
     (if int v \<le> u32_max then Inr v
      else Inl (SdkError SdkInvalidProtectedData (field @ '' is outside the SDK range'')))"

section \<open>Wallet operations\<close>

definition sdk_parse_account :: "sdk_libs \<Rightarrow> string \<Rightarrow> sdk_error + account_identity" where
  "sdk_parse_account B address = map_err sdk_error_from (client_parse_account (lib_stellar B) address)"

definition sdk_protect_secret ::
  "sdk_libs \<Rightarrow> string \<Rightarrow> string \<Rightarrow> string option \<Rightarrow> sdk_error + sdk_protected_software_signer" where
  "sdk_protect_secret B secret passcode expected =
     and_then (map_err sdk_error_from
         (client_protect_secret (lib_stellar B) (registry_new (lib_crypto B)) secret passcode expected))
       (sdk_protected_signer B)"

definition sdk_protect_mnemonic ::
  "sdk_libs \<Rightarrow> string \<Rightarrow> string \<Rightarrow> nat \<Rightarrow> string option \<Rightarrow> string \<Rightarrow> string option
     \<Rightarrow> sdk_error + sdk_protected_software_signer" where
  "sdk_protect_mnemonic B mnemonic passphrase index language passcode expected =
     and_then (sdk_usize index ''index'') (\<lambda>i.
     and_then (map_err sdk_error_from (client_protect_mnemonic (lib_stellar B) (lib_mnemonic B)
         (registry_new (lib_crypto B)) mnemonic passphrase i language passcode expected))
       (sdk_protected_signer B))"

definition sdk_generate_mnemonic ::
  "sdk_libs \<Rightarrow> string \<Rightarrow> nat \<Rightarrow> string \<Rightarrow> nat \<Rightarrow> string \<Rightarrow> sdk_error + sdk_generated_mnemonic" where
  "sdk_generate_mnemonic B language strength passphrase index passcode =
     and_then (sdk_usize strength ''strength'') (\<lambda>bits.
     and_then (sdk_usize index ''index'') (\<lambda>i.
     and_then (map_err sdk_error_from (client_generate_mnemonic (lib_stellar B) (lib_crypto B)
         (lib_mnemonic B) (registry_new (lib_crypto B)) language bits passphrase i passcode)) (\<lambda>generated.
     and_then (sdk_protected_signer B (cgm_signer generated)) (\<lambda>signer.
     and_then (sdk_u32 (cgm_index generated) ''index'') (\<lambda>i'.
       Inr \<lparr>sgm_signer = signer, sgm_mnemonic = cgm_mnemonic generated,
            sgm_language = cgm_language generated, sgm_index = i'\<rparr>)))))"

definition sdk_derive_mnemonic_signer ::
  "sdk_libs \<Rightarrow> string \<Rightarrow> string \<Rightarrow> string \<Rightarrow> nat \<Rightarrow> sdk_error + sdk_protected_software_signer" where
  "sdk_derive_mnemonic_signer B source_envelope_json passcode expected index =
     and_then (sdk_parse_envelope B source_envelope_json) (\<lambda>envelope.
     and_then (sdk_usize index ''index'') (\<lambda>i.
     and_then (map_err sdk_error_from (client_derive_mnemonic_signer (lib_stellar B) (lib_mnemonic B)
         (registry_new (lib_crypto B)) envelope passcode expected i))
       (sdk_protected_signer B)))"

definition sdk_reprotect ::
  "sdk_libs \<Rightarrow> string \<Rightarrow> string \<Rightarrow> string \<Rightarrow> string \<Rightarrow> sdk_error + sdk_protected_software_signer" where
  "sdk_reprotect B envelope_json current_passcode new_passcode expected =
     and_then (sdk_parse_envelope B envelope_json) (\<lambda>envelope.
     and_then (map_err sdk_error_from (client_reprotect (lib_stellar B) (lib_mnemonic B)
         (registry_new (lib_crypto B)) envelope current_passcode new_passcode expected))
       (sdk_protected_signer B))"

definition sdk_derive_unlock_key :: "sdk_libs \<Rightarrow> string \<Rightarrow> string \<Rightarrow> string \<Rightarrow> sdk_error + bytes" where
  "sdk_derive_unlock_key B envelope_json passcode expected =
     and_then (sdk_parse_envelope B envelope_json) (\<lambda>envelope.
       map_err sdk_error_from (client_derive_unlock_key (lib_stellar B) (lib_crypto B) (lib_mnemonic B)
         envelope passcode expected))"

definition sdk_validate_unlock_key :: "sdk_libs \<Rightarrow> string \<Rightarrow> bytes \<Rightarrow> string \<Rightarrow> sdk_error + unit" where
  "sdk_validate_unlock_key B envelope_json unlock_key expected =
     and_then (sdk_parse_envelope B envelope_json) (\<lambda>envelope.
     and_then (sdk_unlock_key unlock_key) (\<lambda>key.
       map_err sdk_error_from (client_validate_unlock_key (lib_stellar B) (lib_crypto B) (lib_mnemonic B)
         envelope key expected)))"

definition sdk_reveal :: "sdk_libs \<Rightarrow> string \<Rightarrow> string \<Rightarrow> string \<Rightarrow> sdk_error + sdk_exported_signing_material" where
  "sdk_reveal B envelope_json fresh_passcode expected =
     and_then (sdk_parse_envelope B envelope_json) (\<lambda>envelope.
     and_then (map_err sdk_error_from (client_reveal (lib_stellar B) (lib_mnemonic B)
         (registry_new (lib_crypto B)) envelope fresh_passcode expected)) (\<lambda>material.
       case material of
         MaterialSecret secret \<Rightarrow>
           Inr \<lparr>sem_kind = SdkSecret, sem_secret = Some secret, sem_mnemonic = None,
                sem_mnemonic_passphrase = None, sem_index = None, sem_language = None\<rparr>
       | MaterialMnemonic mnemonic passphrase index language \<Rightarrow>
           and_then (sdk_u32 index ''index'') (\<lambda>i.
             Inr \<lparr>sem_kind = SdkMnemonic, sem_secret = None, sem_mnemonic = Some mnemonic,
                  sem_mnemonic_passphrase = Some passphrase, sem_index = Some i,
                  sem_language = Some language\<rparr>)))"

section \<open>Signing operations\<close>

definition sdk_sign_transaction_xdr ::
  "sdk_libs \<Rightarrow> string \<Rightarrow> bytes \<Rightarrow> string \<Rightarrow> bytes \<Rightarrow> string \<Rightarrow> sdk_error + bytes" where
  "sdk_sign_transaction_xdr B envelope_json unlock_key expected xdr np =
     and_then (sdk_parse_envelope B envelope_json) (\<lambda>envelope.
     and_then (sdk_unlock_key unlock_key) (\<lambda>key.
       map_err sdk_error_from (client_sign_transaction_xdr (lib_stellar B) (lib_crypto B) (lib_mnemonic B)
         envelope key expected xdr np)))"

definition sdk_sign_transaction_xdr_with_passcode ::
  "sdk_libs \<Rightarrow> string \<Rightarrow> string \<Rightarrow> string \<Rightarrow> bytes \<Rightarrow> string \<Rightarrow> sdk_error + bytes" where
  "sdk_sign_transaction_xdr_with_passcode B envelope_json passcode expected xdr np =
     and_then (sdk_parse_envelope B envelope_json) (\<lambda>envelope.
     and_then (map_err sdk_error_from (client_derive_unlock_key (lib_stellar B) (lib_crypto B)
         (lib_mnemonic B) envelope passcode expected)) (\<lambda>key.
       map_err sdk_error_from (client_sign_transaction_xdr (lib_stellar B) (lib_crypto B) (lib_mnemonic B)
         envelope key expected xdr np)))"

definition sdk_sign_message ::
  "sdk_libs \<Rightarrow> string \<Rightarrow> bytes \<Rightarrow> string \<Rightarrow> bytes \<Rightarrow> sdk_error + bytes" where
  "sdk_sign_message B envelope_json unlock_key expected message =
     and_then (sdk_parse_envelope B envelope_json) (\<lambda>envelope.
     and_then (sdk_unlock_key unlock_key) (\<lambda>key.
       map_err sdk_error_from (client_sign_message (lib_stellar B) (lib_crypto B) (lib_mnemonic B)
         envelope key expected message)))"

definition sdk_sign_message_with_passcode ::
  "sdk_libs \<Rightarrow> string \<Rightarrow> string \<Rightarrow> string \<Rightarrow> bytes \<Rightarrow> sdk_error + bytes" where
  "sdk_sign_message_with_passcode B envelope_json passcode expected message =
     and_then (sdk_parse_envelope B envelope_json) (\<lambda>envelope.
     and_then (map_err sdk_error_from (client_derive_unlock_key (lib_stellar B) (lib_crypto B)
         (lib_mnemonic B) envelope passcode expected)) (\<lambda>key.
       map_err sdk_error_from (client_sign_message (lib_stellar B) (lib_crypto B) (lib_mnemonic B)
         envelope key expected message)))"

definition sdk_sign_soroban_authorization_xdr ::
  "sdk_libs \<Rightarrow> string \<Rightarrow> bytes \<Rightarrow> string \<Rightarrow> bytes \<Rightarrow> string \<Rightarrow> sdk_error + bytes" where
  "sdk_sign_soroban_authorization_xdr B envelope_json unlock_key expected xdr np =
     and_then (sdk_parse_envelope B envelope_json) (\<lambda>envelope.
     and_then (sdk_unlock_key unlock_key) (\<lambda>key.
       map_err sdk_error_from (client_sign_soroban_authorization_xdr (lib_stellar B) (lib_soroban B)
         (lib_crypto B) (lib_mnemonic B) envelope key expected xdr np)))"

definition sdk_sign_soroban_authorization_xdr_with_passcode ::
  "sdk_libs \<Rightarrow> string \<Rightarrow> string \<Rightarrow> string \<Rightarrow> bytes \<Rightarrow> string \<Rightarrow> sdk_error + bytes" where
  "sdk_sign_soroban_authorization_xdr_with_passcode B envelope_json passcode expected xdr np =
     and_then (sdk_parse_envelope B envelope_json) (\<lambda>envelope.
     and_then (map_err sdk_error_from (client_derive_unlock_key (lib_stellar B) (lib_crypto B)
         (lib_mnemonic B) envelope passcode expected)) (\<lambda>key.
       map_err sdk_error_from (client_sign_soroban_authorization_xdr (lib_stellar B) (lib_soroban B)
         (lib_crypto B) (lib_mnemonic B) envelope key expected xdr np)))"

definition sdk_prepare_ed25519_signing ::
  "sdk_libs \<Rightarrow> bytes \<Rightarrow> string \<Rightarrow> sdk_error + transaction_signing_request" where
  "sdk_prepare_ed25519_signing B xdr np =
     map_err sdk_error_from (client_prepare_ed25519_signing (lib_stellar B) xdr np)"

definition sdk_prepare_message_signing :: "sdk_libs \<Rightarrow> bytes \<Rightarrow> message_signing_request" where
  "sdk_prepare_message_signing B message = client_prepare_message_signing (lib_stellar B) message"

definition sdk_prepare_soroban_authorization_signing ::
  "sdk_libs \<Rightarrow> bytes \<Rightarrow> string \<Rightarrow> sdk_error + soroban_signing_request" where
  "sdk_prepare_soroban_authorization_signing B xdr np =
     map_err sdk_error_from
       (client_prepare_soroban_authorization_signing (lib_stellar B) (lib_soroban B) xdr np)"

definition sdk_apply_ed25519_signature ::
  "sdk_libs \<Rightarrow> bytes \<Rightarrow> string \<Rightarrow> string \<Rightarrow> bytes \<Rightarrow> sdk_error + bytes" where
  "sdk_apply_ed25519_signature B xdr np signer_public_key signature =
     map_err sdk_error_from (client_apply_ed25519_signature (lib_stellar B) xdr np signer_public_key signature)"

definition sdk_verify_message_signature ::
  "sdk_libs \<Rightarrow> bytes \<Rightarrow> string \<Rightarrow> bytes \<Rightarrow> sdk_error + unit" where
  "sdk_verify_message_signature B message signer_public_key signature =
     map_err sdk_error_from (client_verify_message_signature (lib_stellar B) message signer_public_key signature)"

definition sdk_apply_soroban_ed25519_signature ::
  "sdk_libs \<Rightarrow> bytes \<Rightarrow> string \<Rightarrow> string \<Rightarrow> bytes \<Rightarrow> sdk_error + bytes" where
  "sdk_apply_soroban_ed25519_signature B xdr np signer_public_key signature =
     map_err sdk_error_from (client_apply_soroban_ed25519_signature (lib_stellar B) (lib_soroban B) xdr np
       signer_public_key signature)"

section \<open>The two ways to sign\<close>

text \<open>The crates' output buffers are 32 bytes long.\<close>

definition kdf_sized :: "crypto_lib \<Rightarrow> bool" where
  "kdf_sized C \<longleftrightarrow>
     (\<forall>p s k. cl_scrypt C p s = Some k \<or> cl_argon2id C p s = Some k \<longrightarrow> length k = 32)"

lemma derive_unlock_key_sized:
  "kdf_sized C \<Longrightarrow> derive_unlock_key C e password = Inr key \<Longrightarrow> length key = 32"
  by (auto simp: kdf_sized_def derive_unlock_key_def derive_scrypt_key_def derive_argon2id_key_def result_simps
      split: password_kdf_envelope.splits if_splits)

lemma client_unlock_key_sized:
  "kdf_sized C \<Longrightarrow> client_derive_unlock_key L C M v passcode expected = Inr key \<Longrightarrow> length key = 32"
  by (auto simp: client_derive_unlock_key_def derive_verified_unlock_key_def registry_derive_unlock_key_def
      result_simps dest: derive_unlock_key_sized)

text \<open>
  A passcode routine that derives a key and goes on with it is the key routine run on the derived key:
  the second parse of the same envelope and the length check change nothing.
\<close>

lemma passcode_via_key:
  assumes "kdf_sized (lib_crypto B)"
  shows "and_then (sdk_parse_envelope B j) (\<lambda>envelope.
      and_then (map_err sdk_error_from (client_derive_unlock_key (lib_stellar B) (lib_crypto B)
         (lib_mnemonic B) envelope passcode expected)) (f envelope)) =
    and_then (sdk_derive_unlock_key B j passcode expected) (\<lambda>key.
      and_then (sdk_parse_envelope B j) (\<lambda>envelope. and_then (sdk_unlock_key key) (f envelope)))"
proof (cases "sdk_parse_envelope B j")
  case (Inr envelope)
  show ?thesis
  proof (cases "client_derive_unlock_key (lib_stellar B) (lib_crypto B) (lib_mnemonic B) envelope passcode expected")
    case (Inr key)
    with client_unlock_key_sized [OF assms] have "length key = 32" by blast
    with \<open>sdk_parse_envelope B j = Inr envelope\<close> Inr show ?thesis
      by (simp add: sdk_derive_unlock_key_def sdk_unlock_key_def)
  qed (simp add: Inr sdk_derive_unlock_key_def)
qed (simp add: sdk_derive_unlock_key_def)

text \<open>An error keeps its code's text and its message from the core to the caller of the SDK.\<close>

lemma sdk_error_text_kept:
  "sdk_error_code_str (sdk_code (sdk_error_from e)) = error_code_str (cae_code e) \<and>
   sdk_message (sdk_error_from e) = cae_message e"
  by (cases "cae_code e") (simp_all add: sdk_error_from_def)

text \<open>Signing with a passcode is signing with the unlock key that the passcode derives: for
  transactions, messages and Soroban entries, the one-step operation gives the result, error
  included, of deriving the key and handing it back to the key operation. The key derivations give
  32 bytes.\<close>

theorem passcode_signing_is_key_signing:
  assumes "kdf_sized (lib_crypto B)"
  shows "sdk_sign_transaction_xdr_with_passcode B j passcode expected xdr np =
      and_then (sdk_derive_unlock_key B j passcode expected) (\<lambda>key.
        sdk_sign_transaction_xdr B j key expected xdr np) \<and>
    sdk_sign_message_with_passcode B j passcode expected message =
      and_then (sdk_derive_unlock_key B j passcode expected) (\<lambda>key.
        sdk_sign_message B j key expected message) \<and>
    sdk_sign_soroban_authorization_xdr_with_passcode B j passcode expected xdr np =
      and_then (sdk_derive_unlock_key B j passcode expected) (\<lambda>key.
        sdk_sign_soroban_authorization_xdr B j key expected xdr np)"
  unfolding sdk_sign_transaction_xdr_with_passcode_def sdk_sign_message_with_passcode_def
    sdk_sign_soroban_authorization_xdr_with_passcode_def sdk_sign_transaction_xdr_def
    sdk_sign_message_def sdk_sign_soroban_authorization_xdr_def passcode_via_key [OF assms]
  by (rule conjI refl)+

lemma demo_kdf_sized: "kdf_sized demo_crypto"
  by (simp add: kdf_sized_def demo_crypto_def demo_pad_def min_def)

theorem passcode_signing_is_key_signing_witness:
  "sdk_sign_message_with_passcode
      \<lparr>lib_stellar = demo_lib, lib_soroban = demo_soroban_lib, lib_crypto = demo_crypto,
       lib_mnemonic = demo_mnemonics, lib_json_to_string = (\<lambda>_. Inl ''x''), lib_json_from_string = (\<lambda>_. Inl ''x'')\<rparr>
      ''?'' ''pw'' ''G'' [] =
   Inl (SdkError SdkInvalidProtectedData ''protected signer envelope is not valid JSON'')"
  by (subst passcode_signing_is_key_signing [THEN conjunct2, THEN conjunct1])
    (simp_all add: demo_kdf_sized sdk_derive_unlock_key_def sdk_parse_envelope_def)

end
