(* ===== verification/Storage.thy ===== *)
theory Storage
  imports SecretStore "HOL-Library.List_Lexorder" "HOL-Library.Char_ord"
begin

text \<open>
  storage.rs: wallet records, one JSON file each in the wallet directory, the default-wallet file and
  backups.

  The state is what is on disk: for each file name of the directory what reading and decoding the
  file gives, the text of \<open>.default\<close>, and the backup files by path. The file system (whether a write,
  a rename or a removal works, the order of a directory listing), JSON encoding and
  Unicode lower case are parameters (\<open>wallet_env\<close>). The temporary file of \<open>atomic_write\<close> is not part
  of the state: its name ends in \<open>.tmp\<close> and no operation reads it. The Windows branch, which
  removes the target before the rename, is not modelled.
\<close>

section \<open>State and environment\<close>

definition backup_format :: string where "backup_format = ''fresnica-wallet-backup''"
definition backup_version :: nat where "backup_version = 1"

record wallet_record =
  wr_name :: string
  wr_address :: string
  wr_wallet_type :: string
  wr_network :: string
  wr_secret :: "json option"
  wr_metadata :: "(string \<times> json) list"

definition watch_only :: "wallet_record \<Rightarrow> bool" where
  "watch_only r \<longleftrightarrow> wr_wallet_type r = ''watch-only''"

record wallet_backup =
  wb_format :: string
  wb_version :: nat
  wb_wallet :: wallet_record

datatype wallet_file = UnreadableWallet string | MalformedWallet string | WalletFile wallet_record
datatype default_file = NoDefault | UnreadableDefault string | DefaultText string
datatype backup_file = NoBackup | UnreadableBackup string | MalformedBackup string | BackupFile wallet_backup

record wallet_disk =
  wd_files :: "string \<Rightarrow> wallet_file option"
  wd_default :: default_file
  wd_backups :: "string \<Rightarrow> backup_file"

record wallet_env =
  we_directory :: string
  we_default_path :: string
  we_encode :: "wallet_record \<Rightarrow> unit result"
  we_write :: "string \<Rightarrow> unit result"
  we_restrict :: "string \<Rightarrow> unit result"
  we_rename :: "string \<Rightarrow> unit result"
  we_remove :: "string \<Rightarrow> unit result"
  we_create_parent :: "string \<Rightarrow> unit result"
  we_read_dir :: "(string \<Rightarrow> wallet_file option) \<Rightarrow> string result list result"
  we_lowercase :: "string \<Rightarrow> string"

text \<open>What a directory listing returns: every file once, in some order, without an error.\<close>

definition listing_complete :: "wallet_env \<Rightarrow> bool" where
  "listing_complete env \<longleftrightarrow>
     (\<forall>files. finite (dom files) \<longrightarrow>
        (\<exists>names. we_read_dir env files = Inr (map Inr names) \<and> distinct names \<and> set names = dom files))"

section \<open>Records\<close>

definition validate_record :: "stellar_lib \<Rightarrow> wallet_record \<Rightarrow> unit result" where
  "validate_record L r =
     (if trim (wr_name r) = [] then Inl ''wallet name cannot be empty''
      else if wr_wallet_type r \<notin> {''watch-only'', ''secret'', ''mnemonic''}
      then Inl (''unsupported wallet type: '' @ wr_wallet_type r)
      else if wr_network r \<notin> {''mainnet'', ''testnet''} then Inl (''unknown network: '' @ wr_network r)
      else and_then (map_err (\<lambda>_. ''invalid Stellar wallet address'') (account_parse L (wr_address r)))
        (\<lambda>identity.
          if ai_kind identity \<noteq> Classic \<or> ai_address identity \<noteq> wr_address r
          then Inl ''wallet address must be a canonical Classic G address''
          else if watch_only r then
            (if wr_secret r \<noteq> None then Inl ''watch-only wallet contains signing material'' else Inr ())
          else if Option.bind (wr_secret r) as_object = None
          then Inl ''encrypted signing material is missing''
          else Inr ()))"

section \<open>Files\<close>

definition wallet_path :: "stellar_lib \<Rightarrow> string \<Rightarrow> string" where
  "wallet_path L name = hex (sha256 L (bytes_of name)) @ ''.wallet.json''"

definition ends_with :: "string \<Rightarrow> string \<Rightarrow> bool" where
  "ends_with ending s \<longleftrightarrow> length ending \<le> length s \<and> drop (length s - length ending) s = ending"

text \<open>\<open>atomic_write\<close>: whether the new contents are in place when it returns.\<close>

definition atomic_write :: "wallet_env \<Rightarrow> string \<Rightarrow> unit result" where
  "atomic_write env path =
     and_then (map_err (\<lambda>e. ''unable to write '' @ path @ '': '' @ e) (we_write env path)) (\<lambda>_.
     and_then (map_err (\<lambda>e. ''unable to protect wallet file: '' @ e) (we_restrict env path)) (\<lambda>_.
     and_then (map_err (\<lambda>e. ''unable to replace '' @ path @ '': '' @ e) (we_rename env path)) (\<lambda>_. Inr ())))"

definition storage_save ::
  "stellar_lib \<Rightarrow> wallet_env \<Rightarrow> wallet_record \<Rightarrow> bool \<Rightarrow> wallet_disk \<Rightarrow> unit result \<times> wallet_disk" where
  "storage_save L env record overwrite disk =
     (let path = wallet_path L (wr_name record)
      in case and_then (validate_record L record) (\<lambda>_.
           if wd_files disk path \<noteq> None \<and> \<not> overwrite
           then Inl (''wallet already exists: '' @ wr_name record)
           else and_then (map_err (\<lambda>e. ''unable to encode wallet record: '' @ e) (we_encode env record))
                  (\<lambda>_. atomic_write env (we_directory env @ ''/'' @ path))) of
           Inl error \<Rightarrow> (Inl error, disk)
         | Inr _ \<Rightarrow> (Inr (), disk\<lparr>wd_files := (wd_files disk)(path \<mapsto> WalletFile record)\<rparr>))"

definition storage_load :: "stellar_lib \<Rightarrow> string \<Rightarrow> wallet_disk \<Rightarrow> wallet_record result" where
  "storage_load L name disk =
     (case wd_files disk (wallet_path L name) of
        None \<Rightarrow> Inl (''wallet not found: '' @ name)
      | Some (UnreadableWallet _) \<Rightarrow> Inl (''wallet not found: '' @ name)
      | Some (MalformedWallet e) \<Rightarrow> Inl (''invalid wallet record '' @ name @ '': '' @ e)
      | Some (WalletFile record) \<Rightarrow>
          if wr_name record \<noteq> name then Inl (''wallet not found: '' @ name)
          else and_then (validate_record L record) (\<lambda>_. Inr record))"

text \<open>The loop of \<open>list\<close> over the directory entries.\<close>

fun list_entries ::
  "stellar_lib \<Rightarrow> wallet_env \<Rightarrow> wallet_disk \<Rightarrow> string result list \<Rightarrow> wallet_record list result" where
  "list_entries L env disk [] = Inr []"
| "list_entries L env disk (entry # rest) =
     and_then (map_err (\<lambda>e. ''unable to list wallets: '' @ e) entry) (\<lambda>name.
       if \<not> ends_with ''.wallet.json'' name then list_entries L env disk rest
       else and_then
         (case wd_files disk name of
            Some (WalletFile record) \<Rightarrow> and_then (validate_record L record) (\<lambda>_. Inr record)
          | Some (MalformedWallet e) \<Rightarrow>
              Inl (''invalid wallet record '' @ we_directory env @ ''/'' @ name @ '': '' @ e)
          | Some (UnreadableWallet e) \<Rightarrow> Inl (''unable to read wallet record: '' @ e)
          | None \<Rightarrow> Inl ''unable to read wallet record: not found'')
         (\<lambda>record. map_ok ((#) record) (list_entries L env disk rest)))"

definition storage_list ::
  "stellar_lib \<Rightarrow> wallet_env \<Rightarrow> wallet_disk \<Rightarrow> wallet_record list result" where
  "storage_list L env disk =
     and_then (map_err (\<lambda>e. ''unable to list wallets: '' @ e) (we_read_dir env (wd_files disk))) (\<lambda>entries.
     and_then (list_entries L env disk entries) (\<lambda>records.
       Inr (sort_key (\<lambda>r. we_lowercase env (wr_name r)) records)))"

section \<open>The default wallet\<close>

definition default_name :: "wallet_disk \<Rightarrow> string option result" where
  "default_name disk =
     (case wd_default disk of
        NoDefault \<Rightarrow> Inr None
      | UnreadableDefault e \<Rightarrow> Inl (''unable to read default wallet: '' @ e)
      | DefaultText t \<Rightarrow> Inr (if trim t = [] then None else Some (trim t)))"

definition set_default ::
  "stellar_lib \<Rightarrow> wallet_env \<Rightarrow> string \<Rightarrow> wallet_disk \<Rightarrow> unit result \<times> wallet_disk" where
  "set_default L env name disk =
     (case and_then (storage_load L name disk) (\<lambda>_. atomic_write env (we_default_path env)) of
        Inl error \<Rightarrow> (Inl error, disk)
      | Inr _ \<Rightarrow> (Inr (), disk\<lparr>wd_default := DefaultText (name @ [CHR 0x0A])\<rparr>))"

definition storage_resolve ::
  "stellar_lib \<Rightarrow> wallet_env \<Rightarrow> string option \<Rightarrow> wallet_disk \<Rightarrow> wallet_record result" where
  "storage_resolve L env name disk =
     (case name of
        Some n \<Rightarrow> storage_load L n disk
      | None \<Rightarrow>
          and_then (default_name disk) (\<lambda>chosen.
            case chosen of
              Some n \<Rightarrow> storage_load L n disk
            | None \<Rightarrow>
                and_then (storage_list L env disk) (\<lambda>records.
                  if length records = 1 then Inr (hd records) else Inl ''no default wallet selected'')))"

definition storage_delete ::
  "stellar_lib \<Rightarrow> wallet_env \<Rightarrow> string \<Rightarrow> wallet_disk \<Rightarrow> unit result \<times> wallet_disk" where
  "storage_delete L env name disk =
     (let path = wallet_path L name
      in if wd_files disk path = None then (Inl (''wallet not found: '' @ name), disk)
         else (case we_remove env (we_directory env @ ''/'' @ path) of
             Inl e \<Rightarrow> (Inl (''unable to delete wallet: '' @ e), disk)
           | Inr _ \<Rightarrow>
               (let disk' = disk\<lparr>wd_files := (wd_files disk)(path := None)\<rparr>
                in case default_name disk' of
                     Inl error \<Rightarrow> (Inl error, disk')
                   | Inr chosen \<Rightarrow>
                       (Inr (), if chosen = Some name \<and> we_remove env (we_default_path env) = Inr ()
                                then disk'\<lparr>wd_default := NoDefault\<rparr> else disk'))))"

section \<open>Backups\<close>

definition write_backup ::
  "stellar_lib \<Rightarrow> wallet_env \<Rightarrow> wallet_record \<Rightarrow> string \<Rightarrow> bool \<Rightarrow> wallet_disk \<Rightarrow> unit result \<times> wallet_disk" where
  "write_backup L env record destination overwrite disk =
     (case and_then (validate_record L record) (\<lambda>_.
        if wd_backups disk destination \<noteq> NoBackup \<and> \<not> overwrite
        then Inl (''backup file already exists: '' @ destination)
        else and_then (map_err (\<lambda>e. ''unable to create backup directory: '' @ e)
                 (we_create_parent env destination)) (\<lambda>_.
             and_then (map_err (\<lambda>e. ''unable to encode wallet backup: '' @ e) (we_encode env record)) (\<lambda>_.
               atomic_write env destination))) of
        Inl error \<Rightarrow> (Inl error, disk)
      | Inr _ \<Rightarrow>
          (Inr (), disk\<lparr>wd_backups := (wd_backups disk)(destination :=
             BackupFile \<lparr>wb_format = backup_format, wb_version = backup_version, wb_wallet = record\<rparr>)\<rparr>))"

definition read_backup :: "stellar_lib \<Rightarrow> string \<Rightarrow> wallet_disk \<Rightarrow> wallet_record result" where
  "read_backup L path disk =
     (case wd_backups disk path of
        NoBackup \<Rightarrow> Inl (''unable to read wallet backup '' @ path @ '': not found'')
      | UnreadableBackup e \<Rightarrow> Inl (''unable to read wallet backup '' @ path @ '': '' @ e)
      | MalformedBackup e \<Rightarrow> Inl (''invalid wallet backup: '' @ e)
      | BackupFile backup \<Rightarrow>
          if wb_format backup \<noteq> backup_format \<or> wb_version backup \<noteq> backup_version
          then Inl ''unsupported wallet backup format''
          else and_then (validate_record L (wb_wallet backup)) (\<lambda>_. Inr (wb_wallet backup)))"

section \<open>The store as a component\<close>

text \<open>Every file holds a valid record, under the file name that belongs to the record's name.\<close>

definition wallet_store_ok :: "stellar_lib \<Rightarrow> wallet_disk \<Rightarrow> bool" where
  "wallet_store_ok L disk \<longleftrightarrow>
     finite (dom (wd_files disk)) \<and>
     (\<forall>p f. wd_files disk p = Some f \<longrightarrow>
        (\<exists>r. f = WalletFile r \<and> validate_record L r = Inr () \<and> p = wallet_path L (wr_name r)))"

definition stored_records :: "wallet_disk \<Rightarrow> wallet_record set" where
  "stored_records disk = {r. WalletFile r \<in> ran (wd_files disk)}"

datatype wallet_event =
    SaveWallet wallet_record bool
  | DeleteWallet string
  | SetDefaultWallet string
  | BackupWallet wallet_record string bool

fun wallet_event_step :: "stellar_lib \<Rightarrow> wallet_env \<times> wallet_event \<Rightarrow> wallet_disk \<Rightarrow> wallet_disk" where
  "wallet_event_step L (env, SaveWallet r overwrite) disk = snd (storage_save L env r overwrite disk)"
| "wallet_event_step L (env, DeleteWallet name) disk = snd (storage_delete L env name disk)"
| "wallet_event_step L (env, SetDefaultWallet name) disk = snd (set_default L env name disk)"
| "wallet_event_step L (env, BackupWallet r destination overwrite) disk =
     snd (write_backup L env r destination overwrite disk)"

lemma storage_save_cases:
  "storage_save L env r ow disk = (Inr (), disk\<lparr>wd_files := (wd_files disk)(wallet_path L (wr_name r) \<mapsto> WalletFile r)\<rparr>) \<and>
     validate_record L r = Inr () \<and> (ow \<or> wd_files disk (wallet_path L (wr_name r)) = None) \<or>
   (\<exists>e. storage_save L env r ow disk = (Inl e, disk))"
  by (auto simp: storage_save_def Let_def result_simps split: sum.splits)

lemma storage_delete_files:
  "wd_files (snd (storage_delete L env name disk)) =
     (if fst (storage_delete L env name disk) = Inr () \<or> wd_files (snd (storage_delete L env name disk)) \<noteq> wd_files disk
      then (wd_files disk)(wallet_path L name := None) else wd_files disk)"
  by (auto simp: storage_delete_def Let_def split: sum.splits)

lemma storage_delete_cases:
  "wd_files (snd (storage_delete L env name disk)) \<in>
     {wd_files disk, (wd_files disk)(wallet_path L name := None)}"
  using storage_delete_files [of L env name disk] by (auto split: if_splits)

lemma set_default_files: "wd_files (snd (set_default L env name disk)) = wd_files disk"
  by (auto simp: set_default_def split: sum.splits)

lemma write_backup_files: "wd_files (snd (write_backup L env r dest ow disk)) = wd_files disk"
  by (auto simp: write_backup_def split: sum.splits)

lemma wallet_store_step: "wallet_store_ok L disk \<Longrightarrow> wallet_store_ok L (wallet_event_step L ev disk)"
proof -
  assume ok: "wallet_store_ok L disk"
  have same: "wd_files d = wd_files disk \<Longrightarrow> wallet_store_ok L d" for d
    using ok by (simp add: wallet_store_ok_def)
  obtain env e where ev: "ev = (env, e)" by (cases ev)
  show ?thesis
  proof (cases e)
    case (SaveWallet r ow)
    with ok storage_save_cases [of L env r ow disk] show ?thesis
      by (auto simp: ev wallet_store_ok_def split: if_splits)
  next
    case (DeleteWallet name)
    have "wallet_store_ok L d" if "wd_files d = (wd_files disk)(wallet_path L name := None)" for d
      using ok that by (auto simp: wallet_store_ok_def dom_def split: if_splits
          elim: rev_finite_subset)
    with same storage_delete_cases [of L env name disk] show ?thesis
      by (auto simp: ev DeleteWallet)
  qed (auto simp: ev set_default_files write_backup_files intro: same)
qed

interpretation wallet_store: preserved "wallet_event_step L" "\<lambda>ev. True" "wallet_store_ok L" for L
  by unfold_locales (rule wallet_store_step)

lemma ends_with_wallet_path: "ends_with ''.wallet.json'' (wallet_path L name)"
  by (simp add: ends_with_def wallet_path_def)

lemma list_entries_ok:
  assumes "wallet_store_ok L disk" "set names \<subseteq> dom (wd_files disk)"
  shows "\<exists>rs. list_entries L env disk (map Inr names) = Inr rs \<and>
    map (\<lambda>r. wallet_path L (wr_name r)) rs = names \<and> list_all (\<lambda>r. validate_record L r = Inr () \<and>
      wd_files disk (wallet_path L (wr_name r)) = Some (WalletFile r)) rs"
  using assms(2)
proof (induction names)
  case (Cons name names)
  then obtain rs where rs: "list_entries L env disk (map Inr names) = Inr rs"
    "map (\<lambda>r. wallet_path L (wr_name r)) rs = names"
    "list_all (\<lambda>r. validate_record L r = Inr () \<and>
      wd_files disk (wallet_path L (wr_name r)) = Some (WalletFile r)) rs"
    by auto
  from Cons.prems assms(1) obtain r where "wd_files disk name = Some (WalletFile r)"
    "validate_record L r = Inr ()" "name = wallet_path L (wr_name r)"
    by (fastforce simp: wallet_store_ok_def)
  with rs show ?case
    by (intro exI [of _ "r # rs"]) (simp add: ends_with_wallet_path)
qed simp

lemma storage_load_stored:
  assumes "validate_record L r = Inr ()" "wd_files disk (wallet_path L (wr_name r)) = Some (WalletFile r)"
  shows "storage_load L (wr_name r) disk = Inr r"
  using assms by (simp add: storage_load_def)

lemma storage_list_ok:
  assumes "listing_complete env" "wallet_store_ok L disk"
  shows "\<exists>rs. storage_list L env disk = Inr rs \<and> set rs = stored_records disk \<and> distinct rs \<and>
    sorted (map (\<lambda>r. we_lowercase env (wr_name r)) rs) \<and>
    list_all (\<lambda>r. storage_load L (wr_name r) disk = Inr r) rs"
proof -
  from assms obtain names where names: "we_read_dir env (wd_files disk) = Inr (map Inr names)"
    "distinct names" "set names = dom (wd_files disk)"
    unfolding listing_complete_def wallet_store_ok_def by meson
  from list_entries_ok [OF assms(2), of names env] names(3) obtain rs
    where rs: "list_entries L env disk (map Inr names) = Inr rs"
      "map (\<lambda>r. wallet_path L (wr_name r)) rs = names"
      "list_all (\<lambda>r. validate_record L r = Inr () \<and>
        wd_files disk (wallet_path L (wr_name r)) = Some (WalletFile r)) rs"
    by auto
  have "r \<in> set rs" if "wd_files disk p = Some (WalletFile r)" for p r
  proof -
    from that names(3) have "p \<in> set names" by auto
    with rs(2) obtain r' where "r' \<in> set rs" "p = wallet_path L (wr_name r')" by auto
    with rs(3) that show ?thesis by (auto simp: list_all_iff)
  qed
  with rs(3) have "set rs = stored_records disk"
    by (auto simp: stored_records_def list_all_iff ran_def)
  moreover from rs(2) names(2) have "distinct rs" by (metis distinct_map)
  moreover have "list_all (\<lambda>r. storage_load L (wr_name r) disk = Inr r) rs"
    using rs(3) by (auto simp: list_all_iff storage_load_stored)
  ultimately show ?thesis
    using rs(1) names(1) by (simp add: storage_list_def list_all_iff)
qed

section \<open>The default file\<close>

text \<open>The line feed that \<open>set_default\<close> writes is trimmed again when the name is read.\<close>

lemma newline_ws [simp]:
  "is_ascii_ws (CHR 0x0A)" "\<not> is_ws2 a (CHR 0x0A)" "\<not> is_ws3 a b (CHR 0x0A)"
  by (simp_all add: is_ascii_ws_def is_ws2_def is_ws3_def Let_def)

lemma trim_start_newline:
  "trim_start (s @ [CHR 0x0A]) = (if trim_start s = [] then [] else trim_start s @ [CHR 0x0A])"
proof (induction s rule: trim_start.induct)
  case (2 a r)
  consider "r = []" | b where "r = [b]" | b c r3 where "r = b # c # r3"
    by (cases r; cases "tl r") auto
  then show ?case
    using 2 by cases simp_all
qed simp

lemma trim_newline: "trim (s @ [CHR 0x0A]) = trim s"
  by (simp add: trim_def trim_start_newline)

lemma set_default_Inr:
  "set_default L env name disk = (Inr (), disk') \<longleftrightarrow>
     (\<exists>r. storage_load L name disk = Inr r) \<and> atomic_write env (we_default_path env) = Inr () \<and>
     disk' = disk\<lparr>wd_default := DefaultText (name @ [CHR 0x0A])\<rparr>"
  by (auto simp: set_default_def result_simps split: sum.splits)

lemma storage_load_Inr:
  "storage_load L name disk = Inr r \<longleftrightarrow>
     wd_files disk (wallet_path L name) = Some (WalletFile r) \<and> wr_name r = name \<and>
     validate_record L r = Inr ()"
  by (auto simp: storage_load_def result_simps split: option.splits wallet_file.splits if_splits)

lemma validate_record_name: "validate_record L r = Inr () \<Longrightarrow> trim (wr_name r) \<noteq> []"
  by (auto simp: validate_record_def)

section \<open>Properties\<close>


text \<open>A wallet that was saved is the wallet that is loaded: the record comes back unchanged, no
  existing file was replaced unless the caller asked for it, no other wallet's file changed, the
  record names a canonical Classic account, and its signing material is present exactly when the
  wallet is not watch-only. A failed save changes nothing on disk.\<close>

theorem saved_wallet_loads:
  "case storage_save L env r overwrite disk of
     (Inr _, disk') \<Rightarrow>
       storage_load L (wr_name r) disk' = Inr r \<and>
       wd_files disk' = (wd_files disk)(wallet_path L (wr_name r) \<mapsto> WalletFile r) \<and>
       wd_default disk' = wd_default disk \<and>
       (overwrite \<or> wd_files disk (wallet_path L (wr_name r)) = None) \<and>
       (\<exists>i. account_parse L (wr_address r) = Inr i \<and> is_classic i \<and> ai_address i = wr_address r) \<and>
       (watch_only r = (wr_secret r = None))
   | (Inl _, disk') \<Rightarrow> disk' = disk"
proof (cases "storage_save L env r overwrite disk = (Inr (), disk\<lparr>wd_files := (wd_files disk)(wallet_path L (wr_name r) \<mapsto> WalletFile r)\<rparr>) \<and>
     validate_record L r = Inr () \<and> (overwrite \<or> wd_files disk (wallet_path L (wr_name r)) = None)")
  case True
  then show ?thesis
    by (auto simp: storage_load_Inr, auto simp: validate_record_def is_classic_def result_simps split: if_splits)
next
  case False
  with storage_save_cases [of L env r overwrite disk] show ?thesis by auto
qed

text \<open>C37. After \<open>set_default\<close> the name that is resolved without an argument is the chosen one with its
  surrounding white space removed. For a name without such white space that is the chosen wallet;
  for a wallet whose name begins or ends with white space (which \<open>validate_record\<close> accepts) it is a
  different wallet or none, and never the chosen one.\<close>

theorem default_wallet_resolves:
  assumes "set_default L env name disk = (Inr (), disk')"
  shows "storage_resolve L env None disk' = storage_load L (trim name) disk \<and>
    (if trim name = name then \<exists>r. storage_resolve L env None disk' = Inr r \<and> wr_name r = name
     else \<forall>r. storage_resolve L env None disk' = Inr r \<longrightarrow> wr_name r \<noteq> name)"
proof -
  from assms obtain r where r: "storage_load L name disk = Inr r"
    and d: "disk' = disk\<lparr>wd_default := DefaultText (name @ [CHR 0x0A])\<rparr>"
    by (auto simp: set_default_Inr)
  from r have "trim name \<noteq> []"
    using validate_record_name by (auto simp: storage_load_Inr)
  then have "default_name disk' = Inr (Some (trim name))"
    by (simp add: d default_name_def trim_newline)
  moreover have "storage_load L n disk' = storage_load L n disk" for n
    by (simp add: d storage_load_def)
  ultimately have eq: "storage_resolve L env None disk' = storage_load L (trim name) disk"
    by (simp add: storage_resolve_def)
  then show ?thesis
    using r by (auto simp: storage_load_Inr)
qed

section \<open>Examples\<close>

definition demo_wallet_env :: wallet_env where
  "demo_wallet_env =
     \<lparr>we_directory = ''wallets'', we_default_path = ''wallets/.default'', we_encode = (\<lambda>r. Inr ()),
      we_write = (\<lambda>p. Inr ()), we_restrict = (\<lambda>p. Inr ()), we_rename = (\<lambda>p. Inr ()),
      we_remove = (\<lambda>p. Inr ()), we_create_parent = (\<lambda>p. Inr ()),
      we_read_dir = (\<lambda>files. Inr (map Inr (sorted_list_of_set (dom files)))), we_lowercase = (\<lambda>s. s)\<rparr>"

definition demo_wallet :: "string \<Rightarrow> wallet_record" where
  "demo_wallet name =
     \<lparr>wr_name = name, wr_address = demo_key_text demo_key, wr_wallet_type = ''watch-only'',
      wr_network = ''testnet'', wr_secret = None, wr_metadata = []\<rparr>"

definition empty_wallet_disk :: wallet_disk where
  "empty_wallet_disk = \<lparr>wd_files = (\<lambda>p. None), wd_default = NoDefault, wd_backups = (\<lambda>p. NoBackup)\<rparr>"

lemma demo_listing: "listing_complete demo_wallet_env"
  by (auto simp: listing_complete_def demo_wallet_env_def intro!: exI [of _ "sorted_list_of_set (dom _)"])

lemma demo_wallet_valid: "trim name \<noteq> [] \<Longrightarrow> validate_record demo_lib (demo_wallet name) = Inr ()"
  by (simp add: validate_record_def demo_wallet_def demo_account_parse watch_only_def)

definition demo_wallet_disk :: wallet_disk where
  "demo_wallet_disk = empty_wallet_disk
     \<lparr>wd_files := [wallet_path demo_lib ''a'' \<mapsto> WalletFile (demo_wallet ''a'')]\<rparr>"

lemma trim_a: "trim ''a'' = ''a''"
  by (simp add: trim_plain plain_char_def is_ascii_byte_def is_ascii_ws_def)


theorem default_wallet_resolves_witness:
  "\<exists>r. storage_resolve demo_lib demo_wallet_env None
     (demo_wallet_disk\<lparr>wd_default := DefaultText (''a'' @ [CHR 0x0A])\<rparr>) = Inr r \<and> wr_name r = ''a''"
proof -
  have "storage_load demo_lib ''a'' demo_wallet_disk = Inr (demo_wallet ''a'')"
    using demo_wallet_valid [of "''a''"] trim_a
    by (simp add: storage_load_Inr demo_wallet_disk_def demo_wallet_def)
  then have "set_default demo_lib demo_wallet_env ''a'' demo_wallet_disk =
      (Inr (), demo_wallet_disk\<lparr>wd_default := DefaultText (''a'' @ [CHR 0x0A])\<rparr>)"
    by (simp add: set_default_Inr) (simp add: atomic_write_def demo_wallet_env_def)
  from default_wallet_resolves [OF this, THEN conjunct2] show ?thesis
    by (simp only: trim_a simp_thms if_True)
qed

end
