(* ===== verification/Wallets.thy ===== *)
theory Wallets
  imports Sdk Storage
begin

text \<open>
  wallet.rs and system_auth.rs: wallet records made from secrets and mnemonics through the SDK, the
  passcode policy over the whole store, attaching and detaching signing material, and the unlock keys
  kept in a system keystore. Zeroisation of temporaries has no model. \<open>usize\<close> is 64 bits wide.
\<close>

section \<open>Helpers\<close>

definition validate_new_passphrase :: "string \<Rightarrow> unit result" where
  "validate_new_passphrase passphrase = ensure (passphrase \<noteq> []) ''Fresnica passphrase cannot be empty''"

definition ensure_watch_only :: "wallet_record \<Rightarrow> unit result" where
  "ensure_watch_only r =
     (if \<not> watch_only r \<or> wr_secret r \<noteq> None then Inl ''wallet already has signing material'' else Inr ())"

definition map_attach_error :: "sdk_error \<Rightarrow> string" where
  "map_attach_error e =
     (if sdk_code e = SdkIdentityMismatch then ''signing material does not match watch-only address''
      else sdk_message e)"

definition record_envelope_json :: "sdk_libs \<Rightarrow> wallet_record \<Rightarrow> string result" where
  "record_envelope_json B r =
     and_then (ok_or ''watch-only wallet has no signing material'' (wr_secret r)) (\<lambda>envelope.
       map_err (\<lambda>e. ''unable to serialize protected signer envelope: '' @ e) (lib_json_to_string B envelope))"

definition wallet_parse_envelope :: "sdk_libs \<Rightarrow> string \<Rightarrow> json result" where
  "wallet_parse_envelope B envelope_json =
     map_err (\<lambda>e. ''SDK returned an invalid protected signer envelope: '' @ e)
       (lib_json_from_string B envelope_json)"

definition wallet_u32 :: "nat \<Rightarrow> string \<Rightarrow> nat result" where
  "wallet_u32 v field = (if int v \<le> u32_max then Inr v else Inl (field @ '' is too large''))"

definition validate_name_and_network :: "string \<Rightarrow> string \<Rightarrow> unit result" where
  "validate_name_and_network name network =
     (if trim name = [] then Inl ''wallet name cannot be empty''
      else if network \<notin> {''mainnet'', ''testnet''} then Inl (''unknown network: '' @ network)
      else Inr ())"

definition mnemonic_metadata :: "nat \<Rightarrow> string \<Rightarrow> (string \<times> json) list" where
  "mnemonic_metadata index language =
     (if int index \<le> u64_max then [(''index'', JNumber (PosInt index))] else []) @
     [(''language'', JString language)]"

text \<open>The language given by the caller, or the detected one.\<close>

definition chosen_language :: "sdk_libs \<Rightarrow> string option \<Rightarrow> string \<Rightarrow> string result" where
  "chosen_language B language mnemonic =
     (case language of
        Some l \<Rightarrow> if l \<noteq> [] then Inr l
          else map_err derivation_error_text (detect_mnemonic_language (lib_mnemonic B) mnemonic)
      | None \<Rightarrow> map_err derivation_error_text (detect_mnemonic_language (lib_mnemonic B) mnemonic))"

section \<open>Making records\<close>

definition import_watch_record :: "sdk_libs \<Rightarrow> string \<Rightarrow> string \<Rightarrow> string \<Rightarrow> wallet_record result" where
  "import_watch_record B name network address =
     and_then (validate_name_and_network name network) (\<lambda>_.
     and_then (map_err (\<lambda>_. ''invalid Stellar G address'') (sdk_parse_account B address)) (\<lambda>identity.
       if ai_kind identity \<noteq> Classic then Inl ''watch-only wallet requires a Classic G address''
       else Inr \<lparr>wr_name = name, wr_address = ai_address identity, wr_wallet_type = ''watch-only'',
                 wr_network = network, wr_secret = None, wr_metadata = []\<rparr>))"

definition import_secret_record ::
  "sdk_libs \<Rightarrow> string \<Rightarrow> string \<Rightarrow> string \<Rightarrow> string \<Rightarrow> wallet_record result" where
  "import_secret_record B name network secret passcode =
     and_then (validate_name_and_network name network) (\<lambda>_.
     and_then (validate_new_passphrase passcode) (\<lambda>_.
     and_then (map_err sdk_message (sdk_protect_secret B secret passcode None)) (\<lambda>protected.
     and_then (wallet_parse_envelope B (sps_envelope_json protected)) (\<lambda>envelope.
       Inr \<lparr>wr_name = name, wr_address = sps_signer_public_key protected, wr_wallet_type = ''secret'',
            wr_network = network, wr_secret = Some envelope, wr_metadata = []\<rparr>))))"

definition import_mnemonic_record ::
  "sdk_libs \<Rightarrow> string \<Rightarrow> string \<Rightarrow> string \<Rightarrow> string \<Rightarrow> nat \<Rightarrow> string option \<Rightarrow> string \<Rightarrow> wallet_record result" where
  "import_mnemonic_record B name network mnemonic passphrase index language passcode =
     and_then (validate_name_and_network name network) (\<lambda>_.
     and_then (validate_new_passphrase passcode) (\<lambda>_.
     and_then (chosen_language B language mnemonic) (\<lambda>l.
     and_then (wallet_u32 index ''index'') (\<lambda>i.
     and_then (map_err sdk_message
         (sdk_protect_mnemonic B mnemonic passphrase i (Some l) passcode None)) (\<lambda>protected.
     and_then (wallet_parse_envelope B (sps_envelope_json protected)) (\<lambda>envelope.
       Inr \<lparr>wr_name = name, wr_address = sps_signer_public_key protected, wr_wallet_type = ''mnemonic'',
            wr_network = network, wr_secret = Some envelope, wr_metadata = mnemonic_metadata index l\<rparr>))))))"

definition create_mnemonic_record ::
  "sdk_libs \<Rightarrow> string \<Rightarrow> string \<Rightarrow> string \<Rightarrow> nat \<Rightarrow> string \<Rightarrow> nat \<Rightarrow> string \<Rightarrow> (wallet_record \<times> string) result" where
  "create_mnemonic_record B name network passphrase index language strength passcode =
     and_then (validate_name_and_network name network) (\<lambda>_.
     and_then (validate_new_passphrase passcode) (\<lambda>_.
     and_then (wallet_u32 strength ''strength'') (\<lambda>s.
     and_then (wallet_u32 index ''index'') (\<lambda>i.
     and_then (map_err sdk_message (sdk_generate_mnemonic B language s passphrase i passcode)) (\<lambda>generated.
     and_then (wallet_parse_envelope B (sps_envelope_json (sgm_signer generated))) (\<lambda>envelope.
       Inr (\<lparr>wr_name = name, wr_address = sps_signer_public_key (sgm_signer generated),
             wr_wallet_type = ''mnemonic'', wr_network = network, wr_secret = Some envelope,
             wr_metadata = mnemonic_metadata index (sgm_language generated)\<rparr>,
            sgm_mnemonic generated)))))))"

definition attach_secret_record ::
  "sdk_libs \<Rightarrow> wallet_record \<Rightarrow> string \<Rightarrow> string \<Rightarrow> wallet_record result" where
  "attach_secret_record B r secret passcode =
     and_then (ensure_watch_only r) (\<lambda>_.
     and_then (validate_new_passphrase passcode) (\<lambda>_.
     and_then (map_err map_attach_error (sdk_protect_secret B secret passcode (Some (wr_address r)))) (\<lambda>protected.
     and_then (wallet_parse_envelope B (sps_envelope_json protected)) (\<lambda>envelope.
       Inr (r\<lparr>wr_wallet_type := ''secret'', wr_secret := Some envelope, wr_metadata := []\<rparr>)))))"

definition attach_mnemonic_record ::
  "sdk_libs \<Rightarrow> wallet_record \<Rightarrow> string \<Rightarrow> string \<Rightarrow> nat \<Rightarrow> string option \<Rightarrow> string \<Rightarrow> wallet_record result" where
  "attach_mnemonic_record B r mnemonic passphrase index language passcode =
     and_then (ensure_watch_only r) (\<lambda>_.
     and_then (validate_new_passphrase passcode) (\<lambda>_.
     and_then (chosen_language B language mnemonic) (\<lambda>l.
     and_then (wallet_u32 index ''index'') (\<lambda>i.
     and_then (map_err map_attach_error
         (sdk_protect_mnemonic B mnemonic passphrase i (Some l) passcode (Some (wr_address r)))) (\<lambda>protected.
     and_then (wallet_parse_envelope B (sps_envelope_json protected)) (\<lambda>envelope.
       Inr (r\<lparr>wr_wallet_type := ''mnemonic'', wr_secret := Some envelope,
              wr_metadata := mnemonic_metadata index l\<rparr>)))))))"

section \<open>Passcodes\<close>

definition verify_passcode :: "sdk_libs \<Rightarrow> wallet_record \<Rightarrow> string \<Rightarrow> unit result" where
  "verify_passcode B r passcode =
     and_then (record_envelope_json B r) (\<lambda>envelope_json.
     and_then (map_err (\<lambda>_. ''invalid Fresnica passphrase'')
         (sdk_derive_unlock_key B envelope_json passcode (wr_address r))) (\<lambda>_. Inr ()))"

definition detach_signer_record :: "sdk_libs \<Rightarrow> wallet_record \<Rightarrow> string \<Rightarrow> wallet_record result" where
  "detach_signer_record B r passcode =
     (if watch_only r then Inl ''wallet is already watch-only''
      else and_then (verify_passcode B r passcode) (\<lambda>_.
        Inr (r\<lparr>wr_wallet_type := ''watch-only'', wr_secret := None, wr_metadata := []\<rparr>)))"

definition has_app_passcode :: "sdk_libs \<Rightarrow> wallet_env \<Rightarrow> wallet_disk \<Rightarrow> bool result" where
  "has_app_passcode B env disk =
     and_then (storage_list (lib_stellar B) env disk) (\<lambda>records.
       Inr (list_ex (\<lambda>r. \<not> watch_only r \<and> wr_secret r \<noteq> None) records))"

fun verify_all :: "sdk_libs \<Rightarrow> wallet_record list \<Rightarrow> string \<Rightarrow> unit result" where
  "verify_all B [] passcode = Inr ()"
| "verify_all B (r # rest) passcode =
     (if watch_only r \<or> wr_secret r = None then verify_all B rest passcode
      else and_then (verify_passcode B r passcode) (\<lambda>_. verify_all B rest passcode))"

definition validate_app_passcode ::
  "sdk_libs \<Rightarrow> wallet_env \<Rightarrow> wallet_disk \<Rightarrow> string \<Rightarrow> unit result" where
  "validate_app_passcode B env disk passcode =
     and_then (storage_list (lib_stellar B) env disk) (\<lambda>records. verify_all B records passcode)"

definition validate_restore_signer_compatibility ::
  "sdk_libs \<Rightarrow> wallet_record \<Rightarrow> string \<Rightarrow> unit result" where
  "validate_restore_signer_compatibility B r passcode =
     (if watch_only r then Inr ()
      else map_err (\<lambda>_. ''backup does not use the current Fresnica passphrase'')
             (verify_passcode B r passcode))"

datatype revealed_signing_material =
    RevealedSecret string
  | RevealedMnemonic string string nat string

definition reveal_record :: "sdk_libs \<Rightarrow> wallet_record \<Rightarrow> string \<Rightarrow> revealed_signing_material result" where
  "reveal_record B r passcode =
     and_then (record_envelope_json B r) (\<lambda>envelope_json.
     and_then (map_err sdk_message (sdk_reveal B envelope_json passcode (wr_address r))) (\<lambda>material.
       case sem_kind material of
         SdkSecret \<Rightarrow>
           map_ok RevealedSecret (ok_or ''SDK returned secret material without a secret'' (sem_secret material))
       | SdkMnemonic \<Rightarrow>
           and_then (ok_or ''SDK returned mnemonic material without a mnemonic'' (sem_mnemonic material)) (\<lambda>m.
           and_then (ok_or ''SDK returned mnemonic material without a mnemonic passphrase field''
               (sem_mnemonic_passphrase material)) (\<lambda>p.
           and_then (ok_or ''SDK returned mnemonic material without an index'' (sem_index material)) (\<lambda>i.
           and_then (ok_or ''SDK returned mnemonic material without a language'' (sem_language material)) (\<lambda>l.
             if int i \<le> u64_max then Inr (RevealedMnemonic m p i l)
             else Inl ''mnemonic index is unsupported on this platform''))))))"

section \<open>System authentication (system_auth.rs)\<close>

definition system_auth_unlock_key_length :: nat where "system_auth_unlock_key_length = 32"

record system_auth_slot_t =
  slot_signer_public_key :: string
  slot_envelope_fingerprint :: string

definition storage_id :: "system_auth_slot_t \<Rightarrow> string" where
  "storage_id slot = slot_signer_public_key slot @ '':'' @ slot_envelope_fingerprint slot"

record system_auth_enrollment =
  enr_slot :: system_auth_slot_t
  enr_unlock_key :: bytes

datatype system_auth_release = ReleasedKey bytes | PassphraseRequired | Cancelled | ReleaseFailed string

record system_auth_provider =
  sap_public_key :: string
  sap_release :: "system_auth_slot_t \<Rightarrow> system_auth_release"

definition system_auth_provider_new ::
  "stellar_lib \<Rightarrow> string \<Rightarrow> (system_auth_slot_t \<Rightarrow> system_auth_release) \<Rightarrow> system_auth_provider result" where
  "system_auth_provider_new L public_key release =
     and_then (ok_or ''system-auth provider requires a valid Stellar Ed25519 public key''
         (public_key_from_string L (trim public_key))) (\<lambda>k.
       Inr \<lparr>sap_public_key = public_key_to_string L k, sap_release = release\<rparr>)"

definition system_auth_release_key ::
  "system_auth_provider \<Rightarrow> system_auth_slot_t \<Rightarrow> system_auth_release result" where
  "system_auth_release_key p slot =
     (if slot_signer_public_key slot \<noteq> sap_public_key p
      then Inl ''system-auth provider slot does not match signer identity''
      else
        (case sap_release p slot of
           ReleasedKey key \<Rightarrow>
             if length key \<noteq> system_auth_unlock_key_length
             then Inl (''system-auth provider returned '' @ nat_to_dec (length key) @ '' bytes; expected 32'')
             else Inr (ReleasedKey key)
         | release \<Rightarrow> Inr release))"

definition system_auth_slot :: "sdk_libs \<Rightarrow> wallet_record \<Rightarrow> system_auth_slot_t result" where
  "system_auth_slot B r =
     (if watch_only r \<or> wr_secret r = None then Inl ''watch-only wallet has no software unlock key''
      else and_then (record_envelope_json B r) (\<lambda>envelope_json.
        Inr \<lparr>slot_signer_public_key = wr_address r,
             slot_envelope_fingerprint = hex (sha256 (lib_stellar B) (bytes_of envelope_json))\<rparr>))"

definition prepare_system_auth_enrollment ::
  "sdk_libs \<Rightarrow> wallet_record \<Rightarrow> string \<Rightarrow> system_auth_enrollment result" where
  "prepare_system_auth_enrollment B r passphrase =
     and_then (system_auth_slot B r) (\<lambda>slot.
     and_then (record_envelope_json B r) (\<lambda>envelope_json.
     and_then (map_err (\<lambda>e. if sdk_code e = SdkInvalidPasscode then ''invalid Fresnica passphrase''
           else ''unable to prepare system-auth enrollment: '' @ sdk_message e)
         (sdk_derive_unlock_key B envelope_json passphrase (wr_address r))) (\<lambda>key.
       if length key \<noteq> system_auth_unlock_key_length
       then Inl ''SDK returned an invalid wallet unlock key length''
       else Inr \<lparr>enr_slot = slot, enr_unlock_key = key\<rparr>)))"

section \<open>What an imported wallet can do\<close>

definition json_text_codec :: "sdk_libs \<Rightarrow> bool" where
  "json_text_codec B \<longleftrightarrow>
     (\<forall>j t. lib_json_to_string B j = Inr t \<longrightarrow> lib_json_from_string B t = Inr j)"

definition wallet_laws :: "sdk_libs \<Rightarrow> bool" where
  "wallet_laws B \<longleftrightarrow> crypto_ok (lib_crypto B) \<and> public_key_codec (lib_stellar B) \<and>
     public_key_text_plain (lib_stellar B) \<and> ed25519_correct (lib_stellar B) \<and> json_text_codec B \<and>
     kdf_sized (lib_crypto B)"

lemma json_text_codecD:
  "json_text_codec B \<Longrightarrow> lib_json_to_string B j = Inr t \<Longrightarrow> lib_json_from_string B t = Inr j"
  by (auto simp: json_text_codec_def)

text \<open>The record holds the protected envelope and the public key of the secret.\<close>

lemma import_secret_record_Inr:
  assumes "json_text_codec B" "import_secret_record B name network secret passcode = Inr r"
  shows "\<exists>w t. protect_secret_signing_material (lib_stellar B) (registry_new (lib_crypto B)) secret passcode = Inr w \<and>
    wr_secret r = Some (pwm_envelope w) \<and> wr_address r = pwm_public_key w \<and> wr_name r = name \<and>
    wr_network r = network \<and> wr_wallet_type r = ''secret'' \<and>
    lib_json_to_string B (pwm_envelope w) = Inr t \<and> lib_json_from_string B t = Inr (pwm_envelope w)"
  using assms(2) json_text_codecD [OF assms(1)]
  by (fastforce simp: import_secret_record_def sdk_protect_secret_def client_protect_secret_def sdk_protected_signer_def
      wallet_parse_envelope_def ensure_expected_signer_public_key_def result_simps)

text \<open>A wallet imported from a secret works with its passcode and only gives back what was put in:
  the passcode verifies, the revealed material is the imported secret (without surrounding white
  space), an unlock key can be enrolled in a system keystore for the wallet's own address, and
  detaching the signer leaves a watch-only wallet of the same name and address.\<close>

theorem imported_secret_wallet_works:
  assumes "wallet_laws B" "import_secret_record B name network secret passcode = Inr r"
  shows "verify_passcode B r passcode = Inr () \<and>
    reveal_record B r passcode = Inr (RevealedSecret (trim secret)) \<and>
    (\<exists>enrollment. prepare_system_auth_enrollment B r passcode = Inr enrollment \<and>
       slot_signer_public_key (enr_slot enrollment) = wr_address r \<and> length (enr_unlock_key enrollment) = 32) \<and>
    (\<exists>r'. detach_signer_record B r passcode = Inr r' \<and> watch_only r' \<and> wr_secret r' = None \<and>
       wr_name r' = name \<and> wr_address r' = wr_address r)"
proof -
  have laws: "crypto_ok (lib_crypto B)" "public_key_codec (lib_stellar B)" "public_key_text_plain (lib_stellar B)"
    "ed25519_correct (lib_stellar B)" "json_text_codec B" "kdf_sized (lib_crypto B)"
    using assms(1) by (simp_all add: wallet_laws_def)
  from import_secret_record_Inr [OF laws(5) assms(2)] obtain w t where
    w: "protect_secret_signing_material (lib_stellar B) (registry_new (lib_crypto B)) secret passcode = Inr w"
    and r: "wr_secret r = Some (pwm_envelope w)" "wr_address r = pwm_public_key w" "wr_name r = name"
      "wr_wallet_type r = ''secret''"
    and t: "lib_json_to_string B (pwm_envelope w) = Inr t" "lib_json_from_string B t = Inr (pwm_envelope w)"
    by blast
  from protected_secret_usable [OF laws(1-4) w, of "lib_mnemonic B"] obtain key where
    key: "derive_verified_unlock_key (lib_stellar B) (lib_crypto B) (lib_mnemonic B) (pwm_envelope w) passcode (pwm_public_key w) = Inr key"
    and export: "export_signing_material (lib_stellar B) (lib_mnemonic B) (registry_new (lib_crypto B)) (pwm_envelope w) passcode (pwm_public_key w) =
      Inr (MaterialSecret (trim secret))" by blast
  have env: "record_envelope_json B r = Inr t" using r t by (simp add: record_envelope_json_def)
  have dk: "sdk_derive_unlock_key B t passcode (wr_address r) = Inr key"
    using key r t by (simp add: sdk_derive_unlock_key_def sdk_parse_envelope_def client_derive_unlock_key_def)
  have "length key = 32"
    using client_unlock_key_sized [OF laws(6)] key by (fastforce simp: client_derive_unlock_key_def)
  then have "\<exists>enrollment. prepare_system_auth_enrollment B r passcode = Inr enrollment \<and>
       slot_signer_public_key (enr_slot enrollment) = wr_address r \<and> length (enr_unlock_key enrollment) = 32"
    using dk env r
    by (simp add: prepare_system_auth_enrollment_def system_auth_slot_def watch_only_def system_auth_unlock_key_length_def)
  moreover have verify: "verify_passcode B r passcode = Inr ()"
    using dk env by (simp add: verify_passcode_def)
  moreover have "reveal_record B r passcode = Inr (RevealedSecret (trim secret))"
    using env export r t by (simp add: reveal_record_def sdk_reveal_def sdk_parse_envelope_def client_reveal_def)
  ultimately show ?thesis using r by (simp add: detach_signer_record_def watch_only_def)
qed

text \<open>Attaching a secret to a watch-only wallet never changes whose wallet it is.\<close>

lemma attached_secret_matches:
  assumes "attach_secret_record B r secret passcode = Inr r'"
  shows "wr_address r' = wr_address r \<and> wr_name r' = wr_name r \<and> watch_only r \<and>
    (\<exists>i w. account_parse (lib_stellar B) (wr_address r) = Inr i \<and> ai_public_key i = Some (pwm_public_key w) \<and>
       protect_secret_signing_material (lib_stellar B) (registry_new (lib_crypto B)) secret passcode = Inr w)"
  using assms
  by (fastforce simp: attach_secret_record_def ensure_watch_only_def sdk_protect_secret_def client_protect_secret_def
      ensure_expected_Inr result_simps split: if_split_asm)

section \<open>Examples\<close>

theorem imported_secret_wallet_works_witness:
  "\<exists>B r. import_secret_record B ''w'' ''testnet'' demo_secret ''pw'' = Inr r \<and>
     reveal_record B r ''pw'' = Inr (RevealedSecret (trim demo_secret))"
proof -
  obtain w where w: "protect_secret_signing_material demo_lib (registry_new demo_crypto) demo_secret ''pw'' = Inr w"
    using demo_protected [of "''pw''"] by blast
  define B where "B = \<lparr>lib_stellar = demo_lib, lib_soroban = demo_soroban_lib, lib_crypto = demo_crypto,
     lib_mnemonic = demo_mnemonics,
     lib_json_to_string = (\<lambda>j. if j = pwm_envelope w then Inr ''{}'' else Inl ''?''),
     lib_json_from_string = (\<lambda>_. Inr (pwm_envelope w))\<rparr>"
  have laws: "wallet_laws B"
    using demo_crypto_ok demo_hypotheses demo_kdf_sized by (simp add: wallet_laws_def B_def json_text_codec_def)
  have "trim ''w'' = ''w''" by (simp add: trim_plain plain_char_def is_ascii_byte_def is_ascii_ws_def)
  then have "\<exists>r. import_secret_record B ''w'' ''testnet'' demo_secret ''pw'' = Inr r"
    using w
    by (simp add: import_secret_record_def validate_name_and_network_def validate_new_passphrase_def sdk_protect_secret_def
        client_protect_secret_def sdk_protected_signer_def ensure_expected_signer_public_key_def wallet_parse_envelope_def B_def)
  with imported_secret_wallet_works [OF laws] show ?thesis by blast
qed

end
