(* ===== verification/Coordination.thy ===== *)
theory Coordination
  imports Wallets SigningSelection Pending TxBuilder
begin

text \<open>
  signing_coordination.rs around the selection, and the parts of transaction.rs that open wallets:
  which wallet a command writes from, signing with the local wallets, system keystores and external
  providers that a selection chose, the review of a prepared transaction, and signing followed by
  submission.

  A \<open>&mut TransactionEnvelope\<close> is returned beside the result, so that what a failed call leaves in it
  is modelled. A \<open>BTreeMap\<close> is a map, iterated in key order. An \<open>expect\<close> that fails is an \<open>Inl\<close> whose text
  starts with \<open>panic\<close>; \<open>prepared_lookups_succeed\<close> (Coordinated.thy) shows that a selected signer never meets one.
\<close>

section \<open>The wallet of a command (transaction.rs)\<close>

definition quoted :: "string \<Rightarrow> string" where
  "quoted s = [CHR 0x22] @ s @ [CHR 0x22]"

definition resolve_network_wallet ::
  "stellar_lib \<Rightarrow> wallet_env \<Rightarrow> wallet_disk \<Rightarrow> string \<Rightarrow> string option \<Rightarrow> wallet_record result" where
  "resolve_network_wallet L env disk network name =
     and_then (storage_resolve L env name disk) (\<lambda>r.
       if wr_network r \<noteq> network
       then Inl (''wallet '' @ quoted (wr_name r) @ '' is configured for '' @ wr_network r
         @ ''; invoke with --network '' @ wr_network r)
       else Inr r)"

definition reconcile_and_ensure_clear ::
  "pending_env \<Rightarrow> (string \<Rightarrow> json option result) \<Rightarrow> string \<Rightarrow> string \<Rightarrow> pending_disk \<Rightarrow> unit result \<times> pending_disk" where
  "reconcile_and_ensure_clear penv get_transaction network account pdisk =
     reconcile_with penv network account get_transaction pdisk"

definition resolve_write_wallet ::
  "stellar_lib \<Rightarrow> wallet_env \<Rightarrow> wallet_disk \<Rightarrow> pending_env \<Rightarrow> (string \<Rightarrow> json option result) \<Rightarrow> string
     \<Rightarrow> string option \<Rightarrow> pending_disk \<Rightarrow> wallet_record result \<times> pending_disk" where
  "resolve_write_wallet L env disk penv get_transaction network name pdisk =
     (case resolve_network_wallet L env disk network name of
        Inl error \<Rightarrow> (Inl error, pdisk)
      | Inr r \<Rightarrow>
          (case reconcile_and_ensure_clear penv get_transaction network (wr_address r) pdisk of
             (Inl error, pdisk') \<Rightarrow> (Inl error, pdisk')
           | (Inr _, pdisk') \<Rightarrow> (Inr r, pdisk')))"

definition sign_transaction_xdr_with_unlock_key ::
  "sdk_libs \<Rightarrow> wallet_record \<Rightarrow> string \<Rightarrow> bytes \<Rightarrow> bytes \<Rightarrow> bytes result" where
  "sign_transaction_xdr_with_unlock_key B r network xdr unlock_key =
     (if watch_only r \<or> wr_secret r = None then Inl (''wallet '' @ quoted (wr_name r) @ '' is watch-only'')
      else
        and_then (ok_or ''wallet has no protected signing material'' (wr_secret r)) (\<lambda>protected.
        and_then (map_err (\<lambda>e. ''Unable to encode protected signing material: '' @ e)
            (lib_json_to_string B protected)) (\<lambda>protected_json.
        and_then (network_passphrase network) (\<lambda>np.
          map_err (\<lambda>e. if sdk_code e = SdkInvalidUnlockKey
              then ''Unable to unlock wallet: invalid system-auth unlock key''
              else ''Unable to sign transaction: '' @ sdk_message e)
            (sdk_sign_transaction_xdr B protected_json unlock_key (wr_address r) xdr np)))))"

definition sign_transaction_xdr_with_passcode ::
  "sdk_libs \<Rightarrow> wallet_record \<Rightarrow> string \<Rightarrow> bytes \<Rightarrow> string \<Rightarrow> bytes result" where
  "sign_transaction_xdr_with_passcode B r network xdr passcode =
     (if watch_only r \<or> wr_secret r = None then Inl (''wallet '' @ quoted (wr_name r) @ '' is watch-only'')
      else
        and_then (ok_or ''wallet has no protected signing material'' (wr_secret r)) (\<lambda>protected.
        and_then (map_err (\<lambda>e. ''Unable to encode protected signing material: '' @ e)
            (lib_json_to_string B protected)) (\<lambda>protected_json.
        and_then (network_passphrase network) (\<lambda>np.
          map_err (\<lambda>e. if sdk_code e = SdkInvalidPasscode
              then ''Unable to unlock wallet: invalid Fresnica passcode''
              else ''Unable to sign transaction: '' @ sdk_message e)
            (sdk_sign_transaction_xdr_with_passcode B protected_json passcode (wr_address r) xdr np)))))"

section \<open>Providers and messages\<close>

definition local_software_passphrase_required :: string where
  "local_software_passphrase_required =
     ''Fresnica passphrase is required for selected local software signers''"

record sep53_message_signature =
  sms_wallet_name :: string
  sms_signer_public_key :: string
  sms_signature :: bytes

record external_provider =
  xp_public_key :: string
  xp_sign :: "transaction_signing_request \<Rightarrow> bytes result"

definition external_provider_new ::
  "stellar_lib \<Rightarrow> string \<Rightarrow> (transaction_signing_request \<Rightarrow> bytes result) \<Rightarrow> external_provider result" where
  "external_provider_new L public_key sign_request =
     and_then (ok_or ''external signer must use a valid Stellar Ed25519 public key''
         (public_key_from_string L (trim public_key))) (\<lambda>k.
       Inr \<lparr>xp_public_key = public_key_to_string L k, xp_sign = sign_request\<rparr>)"

text \<open>The loop that finds the only provider of an address.\<close>

fun find_only_provider ::
  "string \<Rightarrow> system_auth_provider list \<Rightarrow> system_auth_provider option \<Rightarrow> system_auth_provider option result" where
  "find_only_provider address [] found = Inr found"
| "find_only_provider address (p # ps) found =
     (if sap_public_key p \<noteq> address then find_only_provider address ps found
      else if found \<noteq> None then Inl (''duplicate system-auth provider: '' @ address)
      else find_only_provider address ps (Some p))"

definition sign_sep53_message_with_system_auth ::
  "sdk_libs \<Rightarrow> wallet_record \<Rightarrow> bytes \<Rightarrow> string option \<Rightarrow> system_auth_provider list
     \<Rightarrow> sep53_message_signature result" where
  "sign_sep53_message_with_system_auth B r message passcode providers =
     (if watch_only r \<or> wr_secret r = None
      then Inl (''wallet '' @ quoted (wr_name r) @ '' has no local software signer'')
      else
        and_then (find_only_provider (wr_address r) providers None) (\<lambda>matching.
        and_then (record_envelope_json B r) (\<lambda>envelope_json.
        and_then
          (case matching of
             Some provider \<Rightarrow>
               and_then (system_auth_slot B r) (\<lambda>slot.
               and_then (map_err (\<lambda>e. ''System authentication for '' @ wr_address r @ '' failed: '' @ e)
                   (system_auth_release_key provider slot)) (\<lambda>release.
                 case release of
                   ReleasedKey key \<Rightarrow>
                     map_err (\<lambda>e. if sdk_code e = SdkInvalidUnlockKey
                         then ''Unable to unlock wallet: invalid system-auth unlock key''
                         else ''Unable to sign SEP-53 message: '' @ sdk_message e)
                       (sdk_sign_message B envelope_json key (wr_address r) message)
                 | PassphraseRequired \<Rightarrow> Inl local_software_passphrase_required
                 | Cancelled \<Rightarrow> Inl ''System authentication cancelled''
                 | ReleaseFailed error \<Rightarrow>
                     Inl (''System authentication for '' @ wr_address r @ '' failed: '' @ error)))
           | None \<Rightarrow>
               and_then (ok_or local_software_passphrase_required passcode) (\<lambda>pass.
                 map_err (\<lambda>e. if sdk_code e = SdkInvalidPasscode
                     then ''Unable to unlock wallet: invalid Fresnica passphrase''
                     else ''Unable to sign SEP-53 message: '' @ sdk_message e)
                   (sdk_sign_message_with_passcode B envelope_json pass (wr_address r) message)))
          (\<lambda>signature. Inr \<lparr>sms_wallet_name = wr_name r, sms_signer_public_key = wr_address r,
             sms_signature = signature\<rparr>))))"

section \<open>Local signing records\<close>

text \<open>Collecting into a \<open>BTreeMap\<close> by address: a later record of the listing replaces an earlier one.\<close>

definition local_signing_records ::
  "stellar_lib \<Rightarrow> wallet_env \<Rightarrow> wallet_disk \<Rightarrow> string \<Rightarrow> (string \<rightharpoonup> wallet_record) result" where
  "local_signing_records L env disk network =
     and_then (storage_list L env disk) (\<lambda>records.
       Inr (map_of (rev (map (\<lambda>r. (wr_address r, r))
         (filter (\<lambda>r. wr_network r = network \<and> \<not> watch_only r \<and> wr_secret r \<noteq> None) records)))))"

definition review_ledger_authorization ::
  "stellar_lib \<Rightarrow> wallet_env \<Rightarrow> wallet_disk \<Rightarrow> ledger_authorization_plan \<Rightarrow> string \<Rightarrow> envelope
     \<Rightarrow> ledger_authorization_snapshot result" where
  "review_ledger_authorization L env disk p network e =
     and_then (network_passphrase network) (\<lambda>np.
     and_then (satisfied_transaction_conditions L p e np) (\<lambda>satisfied.
     and_then (local_signing_records L env disk network) (\<lambda>records.
     and_then (transaction_hash_bytes L e network) (\<lambda>hash.
       Inr (summarize_ledger_authorization p satisfied (dom records) (hex hash))))))"

definition prepared_classic_authorization_snapshot ::
  "stellar_lib \<Rightarrow> wallet_env \<Rightarrow> wallet_disk \<Rightarrow> string \<Rightarrow> envelope \<Rightarrow> json \<Rightarrow> ledger_authorization_snapshot result" where
  "prepared_classic_authorization_snapshot L env disk network e source_account =
     and_then (map_err (\<lambda>x. ''Unable to interpret prepared transaction authorization: '' @ x)
         (authorization_from_horizon L source_account)) (\<lambda>account.
     and_then (plan_classic_ledger_authorization L e [account]) (\<lambda>p.
       review_ledger_authorization L env disk p network e))"

section \<open>Signing with providers\<close>

fun index_system_auth ::
  "(string \<rightharpoonup> wallet_record) \<Rightarrow> system_auth_provider list \<Rightarrow> (string \<rightharpoonup> system_auth_provider)
     \<Rightarrow> (string \<rightharpoonup> system_auth_provider) result" where
  "index_system_auth records [] acc = Inr acc"
| "index_system_auth records (p # ps) acc =
     (if records (sap_public_key p) = None
      then Inl (''system-auth provider '' @ sap_public_key p @ '' has no matching local protected software signer'')
      else if acc (sap_public_key p) \<noteq> None
      then Inl (''duplicate system-auth provider: '' @ sap_public_key p)
      else index_system_auth records ps (acc(sap_public_key p \<mapsto> p)))"

fun index_external ::
  "external_provider list \<Rightarrow> (string \<rightharpoonup> external_provider) \<Rightarrow> (string \<rightharpoonup> external_provider) result" where
  "index_external [] acc = Inr acc"
| "index_external (p # ps) acc =
     (if acc (xp_public_key p) \<noteq> None
      then Inl (''duplicate external Ed25519 signer provider: '' @ xp_public_key p)
      else index_external ps (acc(xp_public_key p \<mapsto> p)))"

fun verify_selected :: "sdk_libs \<Rightarrow> (string \<rightharpoonup> wallet_record) \<Rightarrow> string \<Rightarrow> string list \<Rightarrow> unit result" where
  "verify_selected B records passcode [] = Inr ()"
| "verify_selected B records passcode (key # keys) =
     (case records key of
        None \<Rightarrow> Inl ''panic: selected local signer must come from local records''
      | Some r \<Rightarrow> and_then (verify_passcode B r passcode) (\<lambda>_. verify_selected B records passcode keys))"

text \<open>One turn of the signing loop, for an external provider and for a local record.\<close>

definition sign_external_step ::
  "sdk_libs \<Rightarrow> string \<Rightarrow> external_provider \<Rightarrow> string \<Rightarrow> envelope \<Rightarrow> envelope result" where
  "sign_external_step B np provider key e =
     and_then (map_err (\<lambda>x. ''Unable to encode transaction before signing: '' @ x)
         (transaction_xdr_bytes (lib_stellar B) e)) (\<lambda>xdr.
     and_then (map_err (\<lambda>x. ''Unable to prepare external signing request: '' @ sdk_message x)
         (sdk_prepare_ed25519_signing B xdr np)) (\<lambda>request.
     and_then (map_err (\<lambda>x. ''External signer '' @ key @ '' failed: '' @ x) (xp_sign provider request)) (\<lambda>signature.
     and_then (map_err (\<lambda>x. ''External signer '' @ key @ '' returned an invalid signature: '' @ sdk_message x)
         (sdk_apply_ed25519_signature B xdr np key signature)) (\<lambda>signed_xdr.
       parse_transaction_xdr (lib_stellar B) signed_xdr))))"

definition sign_system_auth_step ::
  "sdk_libs \<Rightarrow> string \<Rightarrow> system_auth_provider \<Rightarrow> wallet_record \<Rightarrow> string \<Rightarrow> bytes \<Rightarrow> envelope result" where
  "sign_system_auth_step B network provider r key xdr =
     and_then (system_auth_slot B r) (\<lambda>slot.
     and_then (map_err (\<lambda>x. ''System authentication for '' @ key @ '' failed: '' @ x)
         (system_auth_release_key provider slot)) (\<lambda>release.
       case release of
         ReleasedKey unlock_key \<Rightarrow>
           and_then (sign_transaction_xdr_with_unlock_key B r network xdr unlock_key)
             (parse_transaction_xdr (lib_stellar B))
       | PassphraseRequired \<Rightarrow> Inl local_software_passphrase_required
       | Cancelled \<Rightarrow> Inl ''System authentication cancelled''
       | ReleaseFailed error \<Rightarrow> Inl (''System authentication for '' @ key @ '' failed: '' @ error)))"

definition sign_key_step ::
  "sdk_libs \<Rightarrow> string \<Rightarrow> string \<Rightarrow> (string \<rightharpoonup> wallet_record) \<Rightarrow> (string \<rightharpoonup> system_auth_provider)
     \<Rightarrow> (string \<rightharpoonup> external_provider) \<Rightarrow> string option \<Rightarrow> string \<Rightarrow> envelope \<Rightarrow> envelope result" where
  "sign_key_step B network np records system_auth providers passcode key e =
     (case providers key of
        Some provider \<Rightarrow> sign_external_step B np provider key e
      | None \<Rightarrow>
          (case records key of
             None \<Rightarrow> Inl ''panic: selected signer must be available locally or externally''
           | Some r \<Rightarrow>
               and_then (map_err (\<lambda>x. ''Unable to encode transaction before signing: '' @ x)
                   (transaction_xdr_bytes (lib_stellar B) e)) (\<lambda>xdr.
                 case system_auth key of
                   Some provider \<Rightarrow> sign_system_auth_step B network provider r key xdr
                 | None \<Rightarrow>
                     and_then (ok_or ''panic: local signer passcode was preflighted'' passcode) (\<lambda>pass.
                     and_then (sign_transaction_xdr_with_passcode B r network xdr pass)
                       (parse_transaction_xdr (lib_stellar B))))))"

text \<open>The loop over the selected keys; the envelope is replaced after each signature.\<close>

fun sign_keys :: "(string \<Rightarrow> envelope \<Rightarrow> envelope result) \<Rightarrow> string list \<Rightarrow> envelope \<Rightarrow> unit result \<times> envelope" where
  "sign_keys step [] e = (Inr (), e)"
| "sign_keys step (key # keys) e =
     (case step key e of
        Inl error \<Rightarrow> (Inl error, e)
      | Inr e' \<Rightarrow> sign_keys step keys e')"

text \<open>What is decided before anything is signed: the maps and the selected keys.\<close>

definition prepare_signing ::
  "sdk_libs \<Rightarrow> wallet_env \<Rightarrow> wallet_disk \<Rightarrow> ledger_authorization_plan \<Rightarrow> ledger_signer_condition set
     \<Rightarrow> string set \<Rightarrow> nat \<Rightarrow> string \<Rightarrow> string option \<Rightarrow> system_auth_provider list \<Rightarrow> external_provider list
     \<Rightarrow> (string \<times> (string \<rightharpoonup> wallet_record) \<times> (string \<rightharpoonup> system_auth_provider) \<times>
          (string \<rightharpoonup> external_provider) \<times> string list) result" where
  "prepare_signing B env disk p satisfied excluded minimum network passcode system_auths externals =
     and_then (network_passphrase network) (\<lambda>np.
     and_then (local_signing_records (lib_stellar B) env disk network) (\<lambda>records.
     and_then (index_system_auth records system_auths Map.empty) (\<lambda>system_auth.
     and_then (index_external externals Map.empty) (\<lambda>providers.
     and_then (case find (\<lambda>key. system_auth key \<noteq> None) (sorted_list_of_set (dom providers)) of
         Some key \<Rightarrow> Inl (''signer '' @ key @ '' is configured as both system-auth and external provider'')
       | None \<Rightarrow> Inr ()) (\<lambda>_.
     and_then (select_ed25519_signers p satisfied
         {key \<in> dom records \<union> dom providers. key \<notin> excluded} minimum) (\<lambda>selected.
     and_then
       (let local_selected = filter (\<lambda>key. providers key = None \<and> system_auth key = None) selected
        in if local_selected = [] then Inr ()
           else and_then (ok_or local_software_passphrase_required passcode) (\<lambda>pass.
             verify_selected B records pass local_selected)) (\<lambda>_.
       Inr (np, records, system_auth, providers, selected))))))))"

definition sign_needed_with_ed25519_providers ::
  "sdk_libs \<Rightarrow> wallet_env \<Rightarrow> wallet_disk \<Rightarrow> ledger_authorization_plan \<Rightarrow> ledger_signer_condition set
     \<Rightarrow> string set \<Rightarrow> nat \<Rightarrow> string \<Rightarrow> string option \<Rightarrow> system_auth_provider list \<Rightarrow> external_provider list
     \<Rightarrow> envelope \<Rightarrow> unit result \<times> envelope" where
  "sign_needed_with_ed25519_providers B env disk p satisfied excluded minimum network passcode
     system_auths externals e =
     (case prepare_signing B env disk p satisfied excluded minimum network passcode system_auths externals of
        Inl error \<Rightarrow> (Inl error, e)
      | Inr (np, records, system_auth, providers, selected) \<Rightarrow>
          sign_keys (sign_key_step B network np records system_auth providers passcode) selected e)"

definition ensure_coordinated ::
  "stellar_lib \<Rightarrow> ledger_authorization_plan \<Rightarrow> string \<Rightarrow> envelope \<Rightarrow> unit result" where
  "ensure_coordinated L p np e =
     and_then (satisfied_transaction_conditions L p e np) (\<lambda>satisfied.
       ensure (plan_satisfiable_by p satisfied) ''Signing Coordination did not satisfy ledger authorization'')"

definition sign_with_ed25519_providers ::
  "sdk_libs \<Rightarrow> wallet_env \<Rightarrow> wallet_disk \<Rightarrow> ledger_authorization_plan \<Rightarrow> string \<Rightarrow> string option
     \<Rightarrow> system_auth_provider list \<Rightarrow> external_provider list \<Rightarrow> envelope \<Rightarrow> unit result \<times> envelope" where
  "sign_with_ed25519_providers B env disk p network passcode system_auths externals e =
     (case and_then (network_passphrase network) (\<lambda>np.
        and_then (satisfied_transaction_conditions (lib_stellar B) p e np) (\<lambda>satisfied. Inr (np, satisfied))) of
        Inl error \<Rightarrow> (Inl error, e)
      | Inr (np, satisfied) \<Rightarrow>
          (case sign_needed_with_ed25519_providers B env disk p satisfied {} 0 network passcode
              system_auths externals e of
             (Inl error, e') \<Rightarrow> (Inl error, e')
           | (Inr _, e') \<Rightarrow> (ensure_coordinated (lib_stellar B) p np e', e')))"

section \<open>Signing with the local wallets only\<close>

definition sign_local_step ::
  "sdk_libs \<Rightarrow> string \<Rightarrow> (string \<rightharpoonup> wallet_record) \<Rightarrow> string \<Rightarrow> string \<Rightarrow> envelope \<Rightarrow> envelope result" where
  "sign_local_step B network records passcode key e =
     (case records key of
        None \<Rightarrow> Inl ''panic: selected signer must come from local records''
      | Some r \<Rightarrow>
          and_then (map_err (\<lambda>x. ''Unable to encode transaction before signing: '' @ x)
              (transaction_xdr_bytes (lib_stellar B) e)) (\<lambda>xdr.
          and_then (sign_transaction_xdr_with_passcode B r network xdr passcode)
            (parse_transaction_xdr (lib_stellar B))))"

definition sign_needed_local_ed25519 ::
  "sdk_libs \<Rightarrow> wallet_env \<Rightarrow> wallet_disk \<Rightarrow> ledger_authorization_plan \<Rightarrow> ledger_signer_condition set
     \<Rightarrow> string set \<Rightarrow> nat \<Rightarrow> string \<Rightarrow> string \<Rightarrow> envelope \<Rightarrow> unit result \<times> envelope" where
  "sign_needed_local_ed25519 B env disk p satisfied excluded minimum network passcode e =
     (case and_then (local_signing_records (lib_stellar B) env disk network) (\<lambda>records.
        and_then (select_local_ed25519_signers p satisfied {key \<in> dom records. key \<notin> excluded} minimum)
          (\<lambda>selected. Inr (records, selected))) of
        Inl error \<Rightarrow> (Inl error, e)
      | Inr (records, selected) \<Rightarrow> sign_keys (sign_local_step B network records passcode) selected e)"

definition sign_with_local_ed25519 ::
  "sdk_libs \<Rightarrow> wallet_env \<Rightarrow> wallet_disk \<Rightarrow> ledger_authorization_plan \<Rightarrow> string \<Rightarrow> string \<Rightarrow> envelope
     \<Rightarrow> unit result \<times> envelope" where
  "sign_with_local_ed25519 B env disk p network passcode e =
     (case and_then (network_passphrase network) (\<lambda>np.
        and_then (satisfied_transaction_conditions (lib_stellar B) p e np) (\<lambda>satisfied. Inr (np, satisfied))) of
        Inl error \<Rightarrow> (Inl error, e)
      | Inr (np, satisfied) \<Rightarrow>
          (case sign_needed_local_ed25519 B env disk p satisfied {} 0 network passcode e of
             (Inl error, e') \<Rightarrow> (Inl error, e')
           | (Inr _, e') \<Rightarrow> (ensure_coordinated (lib_stellar B) p np e', e')))"

section \<open>Signing and submitting (transaction.rs)\<close>

text \<open>The clock is read once before signing and once before submission.\<close>

definition sign_and_submit_by ::
  "(ledger_authorization_plan \<Rightarrow> envelope \<Rightarrow> unit result \<times> envelope) \<Rightarrow> stellar_lib \<Rightarrow> pending_env
     \<Rightarrow> (string \<Rightarrow> json result) \<Rightarrow> (string \<Rightarrow> submission_error + json) \<Rightarrow> int \<Rightarrow> int \<Rightarrow> wallet_record \<Rightarrow> string
     \<Rightarrow> envelope \<Rightarrow> pending_disk \<Rightarrow> transaction_submission result \<times> envelope \<times> pending_disk" where
  "sign_and_submit_by sign L penv fetch submit now now' r network e pdisk =
     (case and_then (ensure_transaction_not_expired now e) (\<lambda>_. load_plan_with L e fetch) of
        Inl error \<Rightarrow> (Inl error, e, pdisk)
      | Inr p \<Rightarrow>
          (case sign p e of
             (Inl error, e') \<Rightarrow> (Inl error, e', pdisk)
           | (Inr _, e') \<Rightarrow>
               (case submit_signed_transaction L penv submit now' (wr_address r) network e' pdisk of
                  (result, pdisk') \<Rightarrow> (result, e', pdisk'))))"

definition sign_and_submit where
  "sign_and_submit B env disk penv fetch submit now now' r network passcode =
     sign_and_submit_by (\<lambda>p. sign_with_local_ed25519 B env disk p network passcode)
       (lib_stellar B) penv fetch submit now now' r network"

definition sign_and_submit_with_providers where
  "sign_and_submit_with_providers B env disk penv fetch submit now now' r network passcode system_auths externals =
     sign_and_submit_by (\<lambda>p. sign_with_ed25519_providers B env disk p network passcode system_auths externals)
       (lib_stellar B) penv fetch submit now now' r network"

end
