(* ===== verification/ContractSpec.thy ===== *)
theory ContractSpec
  imports Coordination
begin

text \<open>
  contract.rs, the typed interface of a contract: the types of its specification, how a parameter can be
  supplied, what the interface says, and the check of a value against its type.

  A specification entry is the XDR entry with its names and documentation already read as text
  (\<open>to_utf8_string_lossy\<close>, which the program applies to every one of them). The specification object of
  \<open>soroban_spec_tools\<close> is the record \<open>contract_spec\<close> of its answers: \<open>cs_table\<close> is what \<open>find\<close> gives.
\<close>

section \<open>Ordered text and the maps keyed by it\<close>

text \<open>\<open>Ord for String\<close> compares the bytes.\<close>

fun str_less :: "string \<Rightarrow> string \<Rightarrow> bool" where
  "str_less xs [] \<longleftrightarrow> False"
| "str_less [] (y # ys) \<longleftrightarrow> True"
| "str_less (x # xs) (y # ys) \<longleftrightarrow>
     (of_char x :: nat) < of_char y \<or> (of_char x :: nat) = of_char y \<and> str_less xs ys"

text \<open>A \<open>BTreeMap\<close> with text keys, and \<open>serde_json::Map\<close> as that crate builds it by default: its entries
  in key order.\<close>

fun btree_insert :: "string \<Rightarrow> 'v \<Rightarrow> (string \<times> 'v) list \<Rightarrow> (string \<times> 'v) list" where
  "btree_insert k v [] = [(k, v)]"
| "btree_insert k v ((k', v') # m) =
     (if k = k' then (k, v) # m else if str_less k k' then (k, v) # (k', v') # m
      else (k', v') # btree_insert k v m)"

definition btree_remove :: "string \<Rightarrow> (string \<times> 'v) list \<Rightarrow> (string \<times> 'v) list" where
  "btree_remove k m = filter (\<lambda>(k', _). k' \<noteq> k) m"

lemma map_of_btree_insert [simp]: "map_of (btree_insert k v m) = (map_of m)(k \<mapsto> v)"
  by (induction m) auto

lemma map_of_btree_remove [simp]: "map_of (btree_remove k m) = (map_of m)(k := None)"
  by (induction m) (auto simp: btree_remove_def fun_eq_iff)

lemma str_less_irrefl [simp]: "\<not> str_less s s"
  by (induction s) auto

lemma str_less_antisym: "str_less s t \<Longrightarrow> \<not> str_less t s"
  by (induction s t rule: str_less.induct) auto

lemma str_less_Nil: "str_less [] s \<longleftrightarrow> s \<noteq> []"
  by (cases s) auto

lemma str_less_linear: "s = t \<or> str_less s t \<or> str_less t s"
  by (induction s t rule: str_less.induct) (auto simp: str_less_Nil linorder_neq_iff [where 'a = nat])

lemma str_less_trans: "str_less s t \<Longrightarrow> str_less t u \<Longrightarrow> str_less s u"
proof (induction s t arbitrary: u rule: str_less.induct)
  case (2 y ys)
  then show ?case by (cases u) auto
next
  case (3 x xs y ys)
  then show ?case by (cases u) auto
qed simp

text \<open>A loop that stops at the first error and keeps no value.\<close>

fun each_ok :: "('a \<Rightarrow> 'e + unit) \<Rightarrow> 'a list \<Rightarrow> 'e + unit" where
  "each_ok f [] = Inr ()"
| "each_ok f (x # xs) = and_then (f x) (\<lambda>_. each_ok f xs)"

lemma each_ok_cong [fundef_cong]: "xs = ys \<Longrightarrow> (\<And>x. x \<in> set ys \<Longrightarrow> f x = g x) \<Longrightarrow> each_ok f xs = each_ok g ys"
  by (induction ys arbitrary: xs) auto

lemma each_ok_Inr [result_simps]: "each_ok f xs = Inr u \<longleftrightarrow> (\<forall>x\<in>set xs. f x = Inr ())"
  by (induction xs) (auto simp: and_then_Inr)

section \<open>The specification (soroban_spec_tools, stellar_xdr)\<close>

datatype spec_type =
    TyVal | TyBool | TyVoid | TyError | TyU32 | TyI32 | TyU64 | TyI64 | TyTimepoint | TyDuration
  | TyU128 | TyI128 | TyU256 | TyI256 | TyBytes | TyString | TySymbol | TyAddress | TyMuxedAddress
  | TyOption spec_type
  | TyResult spec_type spec_type
  | TyVec spec_type
  | TyMap spec_type spec_type
  | TyTuple "spec_type list"
  | TyBytesN nat
  | TyUdt string

record spec_field =
  sf_name :: string
  sf_doc :: string
  sf_type :: spec_type

record spec_function =
  sfn_name :: string
  sfn_doc :: string
  sfn_inputs :: "spec_field list"
  sfn_outputs :: "spec_type list"

record spec_struct =
  ss_name :: string
  ss_doc :: string
  ss_lib :: string
  ss_fields :: "spec_field list"

datatype spec_case =
    CaseVoid (case_name: string) (case_doc: string)
  | CaseTuple (case_name: string) (case_doc: string) (case_types: "spec_type list")

record spec_union =
  su_name :: string
  su_doc :: string
  su_lib :: string
  su_cases :: "spec_case list"

record spec_enum_case =
  sec_name :: string
  sec_doc :: string
  sec_value :: int

record spec_enum =
  sen_name :: string
  sen_doc :: string
  sen_lib :: string
  sen_cases :: "spec_enum_case list"

datatype spec_entry =
    SpecFunction spec_function
  | SpecStruct spec_struct
  | SpecUnion spec_union
  | SpecEnum spec_enum
  | SpecErrorEnum spec_enum
  | SpecOther bytes

record contract_spec =
  cs_table :: "(string \<times> spec_entry) list"
  cs_find_error :: "string \<Rightarrow> string"
  cs_find_function :: "string \<Rightarrow> string + spec_function"
  cs_find_functions :: "string + spec_function list"
  cs_example :: "spec_type \<Rightarrow> string option"
  cs_from_string :: "string \<Rightarrow> spec_type \<Rightarrow> string + sc_val"
  cs_from_json :: "json \<Rightarrow> spec_type \<Rightarrow> string + sc_val"
  cs_xdr_to_json :: "sc_val \<Rightarrow> spec_type \<Rightarrow> string + json"

record spec_lib =
  spl_spec_new :: "spec_entry list \<Rightarrow> contract_spec"
  spl_sanitize :: "string \<Rightarrow> string"
  spl_type_name :: "spec_type \<Rightarrow> string"
  spl_lossy :: "bytes \<Rightarrow> string"
  spl_scval_to_base64 :: "nat \<Rightarrow> sc_val \<Rightarrow> string + string"
  spl_scval_from_base64 :: "nat \<Rightarrow> string \<Rightarrow> string + sc_val"
  spl_json_from_str :: "string \<Rightarrow> string + json"
  spl_json_to_string :: "json \<Rightarrow> string + string"

definition cs_find :: "contract_spec \<Rightarrow> string \<Rightarrow> string + spec_entry" where
  "cs_find S n = ok_or (cs_find_error S n) (map_of (cs_table S) n)"

definition contract_argument_xdr_depth_limit :: nat where "contract_argument_xdr_depth_limit = 500"
definition sep41_interface_version :: string where "sep41_interface_version = ''0.5.1''"
definition contract_abi_schema :: string where "contract_abi_schema = ''fresnica-soroban-abi-v1''"

section \<open>Types as the interface shows them\<close>

text \<open>\<open>strs.join(sep)\<close>.\<close>

fun join :: "string \<Rightarrow> string list \<Rightarrow> string" where
  "join sep [] = []"
| "join sep [s] = s"
| "join sep (s # t # ts) = s @ sep @ join sep (t # ts)"

fun contract_type_name :: "spec_lib \<Rightarrow> spec_type \<Rightarrow> string" where
  "contract_type_name P TyMuxedAddress = ''muxed_address''"
| "contract_type_name P (TyOption t) = ''option<'' @ contract_type_name P t @ ''>''"
| "contract_type_name P (TyResult t e) = ''result<'' @ contract_type_name P t @ '','' @ contract_type_name P e @ ''>''"
| "contract_type_name P (TyVec t) = ''vec<'' @ contract_type_name P t @ ''>''"
| "contract_type_name P (TyMap k v) = ''map<'' @ contract_type_name P k @ '','' @ contract_type_name P v @ ''>''"
| "contract_type_name P (TyTuple ts) = ''('' @ join '','' (map (contract_type_name P) ts) @ '')''"
| "contract_type_name P (TyBytesN n) = ''bytes['' @ nat_to_dec n @ '']''"
| "contract_type_name P (TyUdt n) = spl_sanitize P n"
| "contract_type_name P other = map to_ascii_lower (spl_type_name P other)"

datatype contract_abi_type =
    AbiPrimitive string
  | AbiOption contract_abi_type
  | AbiResult contract_abi_type contract_abi_type
  | AbiVec contract_abi_type
  | AbiMap contract_abi_type contract_abi_type
  | AbiTuple "contract_abi_type list"
  | AbiBytesN nat
  | AbiUdt string

fun abi_type_from_spec :: "spec_lib \<Rightarrow> spec_type \<Rightarrow> contract_abi_type" where
  "abi_type_from_spec P (TyOption t) = AbiOption (abi_type_from_spec P t)"
| "abi_type_from_spec P (TyResult t e) = AbiResult (abi_type_from_spec P t) (abi_type_from_spec P e)"
| "abi_type_from_spec P (TyVec t) = AbiVec (abi_type_from_spec P t)"
| "abi_type_from_spec P (TyMap k v) = AbiMap (abi_type_from_spec P k) (abi_type_from_spec P v)"
| "abi_type_from_spec P (TyTuple ts) = AbiTuple (map (abi_type_from_spec P) ts)"
| "abi_type_from_spec P (TyBytesN n) = AbiBytesN n"
| "abi_type_from_spec P (TyUdt n) = AbiUdt n"
| "abi_type_from_spec P other = AbiPrimitive (contract_type_name P other)"

record contract_parameter_type =
  cpt_name :: string
  cpt_example :: "string option"
  cpt_abi :: contract_abi_type

definition parameter_type_from_spec :: "spec_lib \<Rightarrow> contract_spec \<Rightarrow> spec_type \<Rightarrow> contract_parameter_type" where
  "parameter_type_from_spec P S t =
     \<lparr>cpt_name = contract_type_name P t, cpt_example = cs_example S t, cpt_abi = abi_type_from_spec P t\<rparr>"

section \<open>How a parameter can be supplied\<close>

datatype input_composition = TypedJson | DynamicScValJson | ScValXdrSuccessOnly | Unsupported

fun composition_mode :: "input_composition \<Rightarrow> string" where
  "composition_mode TypedJson = ''typed_json''"
| "composition_mode DynamicScValJson = ''dynamic_scval_json''"
| "composition_mode ScValXdrSuccessOnly = ''scval_xdr_success_only''"
| "composition_mode Unsupported = ''unsupported''"

definition composition_guided :: "input_composition \<Rightarrow> bool" where
  "composition_guided c \<longleftrightarrow> c = TypedJson"

fun merge_input_composition :: "input_composition \<Rightarrow> input_composition \<Rightarrow> input_composition" where
  "merge_input_composition l r =
     (if l = Unsupported \<or> r = Unsupported then Unsupported
      else if l = ScValXdrSuccessOnly \<or> r = ScValXdrSuccessOnly then ScValXdrSuccessOnly
      else if l = DynamicScValJson \<or> r = DynamicScValJson then DynamicScValJson
      else TypedJson)"

text \<open>Whether the struct is a tuple struct: its fields are \<open>0\<close>, \<open>1\<close>, \<dots>; else its names must ascend.\<close>

definition contract_struct_is_tuple :: "spec_struct \<Rightarrow> bool result" where
  "contract_struct_is_tuple s =
     (let names = map sf_name (ss_fields s) in
      if names \<noteq> [] \<and> hd names = ''0''
      then (if names = map nat_to_dec [0..<length names] then Inr True
            else Inl (''tuple struct '' @ ss_name s @ '' does not use canonical numeric field order''))
      else if ''0'' \<in> set names
      then Inl (''tuple struct '' @ ss_name s @ '' does not begin with field 0'')
      else if \<not> successively str_less names
      then Inl (''named struct '' @ ss_name s @
             '' does not use canonical field order required for safe Contract-Spec normalization'')
      else Inr False)"

text \<open>The names of the table that are not being visited: what bounds the descent into user types.\<close>

definition unvisited :: "contract_spec \<Rightarrow> string list \<Rightarrow> nat" where
  "unvisited S visited = card (fst ` set (cs_table S) - set visited)"

lemma cs_find_Inr [simp]: "cs_find S n = Inr e \<longleftrightarrow> map_of (cs_table S) n = Some e"
  by (simp add: cs_find_def)

lemma unvisited_visit [simp]:
  assumes "map_of (cs_table S) n = Some e" and "n \<notin> set visited"
  shows "unvisited S (n # visited) < unvisited S visited"
proof -
  have "n \<in> fst ` set (cs_table S)"
    using assms(1) by (metis map_of_SomeD fst_conv image_eqI)
  then have "fst ` set (cs_table S) - set (n # visited) \<subset> fst ` set (cs_table S) - set visited"
    using assms(2) by auto
  then show ?thesis unfolding unvisited_def by (rule psubset_card_mono [rotated]) simp
qed

lemma size_in_list: "t \<in> set ts \<Longrightarrow> size t < Suc (size_list size ts)"
  by (metis less_Suc_eq_le size_list_estimation' le_refl)

text \<open>The state \<open>visited_udts\<close> is pushed before and popped after the type's own entry is read, so each
  branch sees the names on its path.\<close>

function contract_input_composition :: "contract_spec \<Rightarrow> spec_type \<Rightarrow> string list \<Rightarrow> input_composition" where
  "contract_input_composition S TyVal visited = DynamicScValJson"
| "contract_input_composition S TyError visited = Unsupported"
| "contract_input_composition S (TyResult t e) visited =
     (if contract_input_composition S t visited = Unsupported then Unsupported else ScValXdrSuccessOnly)"
| "contract_input_composition S (TyOption t) visited = contract_input_composition S t visited"
| "contract_input_composition S (TyVec t) visited = contract_input_composition S t visited"
| "contract_input_composition S (TyMap k v) visited =
     merge_input_composition (contract_input_composition S k visited) (contract_input_composition S v visited)"
| "contract_input_composition S (TyTuple ts) visited =
     foldl (\<lambda>support t. merge_input_composition support (contract_input_composition S t visited)) TypedJson ts"
| "contract_input_composition S (TyUdt n) visited =
     (if n \<in> set visited then TypedJson
      else case cs_find S n of
             Inr (SpecStruct s) \<Rightarrow>
               (case contract_struct_is_tuple s of
                  Inl _ \<Rightarrow> Unsupported
                | Inr _ \<Rightarrow> foldl (\<lambda>support f. merge_input_composition support
                     (contract_input_composition S (sf_type f) (n # visited))) TypedJson (ss_fields s))
           | Inr (SpecUnion u) \<Rightarrow>
               foldl (\<lambda>support c. merge_input_composition support
                 (case c of CaseVoid _ _ \<Rightarrow> TypedJson
                  | CaseTuple _ _ ts \<Rightarrow> foldl (\<lambda>support t. merge_input_composition support
                      (contract_input_composition S t (n # visited))) TypedJson ts)) TypedJson (su_cases u)
           | Inr (SpecEnum _) \<Rightarrow> TypedJson
           | Inr _ \<Rightarrow> Unsupported
           | Inl _ \<Rightarrow> Unsupported)"
| "contract_input_composition S TyBool visited = TypedJson"
| "contract_input_composition S TyVoid visited = TypedJson"
| "contract_input_composition S TyU32 visited = TypedJson"
| "contract_input_composition S TyI32 visited = TypedJson"
| "contract_input_composition S TyU64 visited = TypedJson"
| "contract_input_composition S TyI64 visited = TypedJson"
| "contract_input_composition S TyTimepoint visited = TypedJson"
| "contract_input_composition S TyDuration visited = TypedJson"
| "contract_input_composition S TyU128 visited = TypedJson"
| "contract_input_composition S TyI128 visited = TypedJson"
| "contract_input_composition S TyU256 visited = TypedJson"
| "contract_input_composition S TyI256 visited = TypedJson"
| "contract_input_composition S TyBytes visited = TypedJson"
| "contract_input_composition S TyString visited = TypedJson"
| "contract_input_composition S TySymbol visited = TypedJson"
| "contract_input_composition S TyAddress visited = TypedJson"
| "contract_input_composition S TyMuxedAddress visited = TypedJson"
| "contract_input_composition S (TyBytesN _) visited = TypedJson"
  by pat_completeness auto
termination
  by (relation "measures [\<lambda>(S, t, visited). unvisited S visited, \<lambda>(S, t, visited). size t]")
    (auto simp: size_in_list)

text \<open>The check before a value is shown as JSON.\<close>

function ensure_contract_type_normalization_safe :: "contract_spec \<Rightarrow> spec_type \<Rightarrow> string list \<Rightarrow> unit result" where
  "ensure_contract_type_normalization_safe S t visited =
     (case t of
        TyOption t \<Rightarrow> ensure_contract_type_normalization_safe S t visited
      | TyResult t e \<Rightarrow> ensure_contract_type_normalization_safe S t visited
      | TyVec t \<Rightarrow> ensure_contract_type_normalization_safe S t visited
      | TyMap k v \<Rightarrow> and_then (ensure_contract_type_normalization_safe S k visited) (\<lambda>_.
          ensure_contract_type_normalization_safe S v visited)
      | TyTuple ts \<Rightarrow> each_ok (\<lambda>t. ensure_contract_type_normalization_safe S t visited) ts
      | TyError \<Rightarrow> Inl ''Contract Spec Error values cannot be safely normalized as ordinary contract values''
      | TyUdt n \<Rightarrow>
          (if n \<in> set visited then Inr ()
           else case cs_find S n of
                  Inl error \<Rightarrow> Inl (''unable to resolve user-defined type '' @ n @ '': '' @ error)
                | Inr (SpecStruct s) \<Rightarrow>
                    (case contract_struct_is_tuple s of
                       Inl error \<Rightarrow> Inl error
                     | Inr _ \<Rightarrow> each_ok (\<lambda>f. ensure_contract_type_normalization_safe S (sf_type f) (n # visited))
                         (ss_fields s))
                | Inr (SpecUnion u) \<Rightarrow>
                    each_ok (\<lambda>c. case c of CaseVoid _ _ \<Rightarrow> Inr ()
                      | CaseTuple _ _ ts \<Rightarrow>
                          each_ok (\<lambda>t. ensure_contract_type_normalization_safe S t (n # visited)) ts) (su_cases u)
                | Inr (SpecEnum _) \<Rightarrow> Inr ()
                | Inr (SpecErrorEnum _) \<Rightarrow>
                    Inl (''error enum '' @ n @ '' cannot be safely normalized as an ordinary contract value'')
                | Inr _ \<Rightarrow> Inl (''Contract Spec entry '' @ n @ '' is not a user-defined value type''))
      | _ \<Rightarrow> Inr ())"
  by pat_completeness auto
termination
  by (relation "measures [\<lambda>(S, t, visited). unvisited S visited, \<lambda>(S, t, visited). size t]")
    (auto simp: size_in_list)

declare ensure_contract_type_normalization_safe.simps [simp del] cs_find_Inr [simp del]

lemma merge_unsupported [simp]:
  "merge_input_composition l r = Unsupported \<longleftrightarrow> l = Unsupported \<or> r = Unsupported"
  by simp

lemma foldl_merge_unsupported [simp]:
  "foldl (\<lambda>s x. merge_input_composition s (f x)) a xs = Unsupported \<longleftrightarrow>
     a = Unsupported \<or> (\<exists>x\<in>set xs. f x = Unsupported)"
  by (induction xs arbitrary: a) (auto simp del: merge_input_composition.simps)

lemma isl_each_ok [simp]: "isl (each_ok f xs) \<longleftrightarrow> (\<exists>x\<in>set xs. isl (f x))"
proof (induction xs)
  case (Cons x xs)
  then show ?case by (cases "f x") auto
qed simp

lemma isl_and_then: "isl (and_then r f) \<longleftrightarrow> isl r \<or> (\<exists>x. r = Inr x \<and> isl (f x))"
  by (cases r) auto

lemma isl_and_then_unit: "isl (and_then r (\<lambda>_. q)) \<longleftrightarrow> isl r \<or> isl q"
  by (cases r) auto

declare merge_input_composition.simps [simp del]

lemma composition_normalization:
  "contract_input_composition S t visited = Unsupported \<longleftrightarrow> isl (ensure_contract_type_normalization_safe S t visited)"
proof (induction S t visited rule: contract_input_composition.induct)
  case (8 S n visited)
  show ?case
  proof (cases "n \<in> set visited \<or> isl (cs_find S n)")
    case True
    then show ?thesis
      by (auto simp: ensure_contract_type_normalization_safe.simps [of S "TyUdt n"] isl_def)
  next
    case False
    then obtain e where new: "n \<notin> set visited" and e: "cs_find S n = Inr e"
      by (cases "cs_find S n") auto
    show ?thesis
    proof (cases e)
      case (SpecStruct s)
      then show ?thesis
        using new e 8 by (cases "contract_struct_is_tuple s")
          (auto simp: ensure_contract_type_normalization_safe.simps [of S "TyUdt n"])
    next
      case (SpecUnion u)
      have case_iff: "(case c of CaseVoid _ _ \<Rightarrow> TypedJson
            | CaseTuple _ _ ts \<Rightarrow> foldl (\<lambda>support t. merge_input_composition support
                (contract_input_composition S t (n # visited))) TypedJson ts) = Unsupported \<longleftrightarrow>
          isl (case c of CaseVoid _ _ \<Rightarrow> Inr ()
            | CaseTuple _ _ ts \<Rightarrow> each_ok (\<lambda>t. ensure_contract_type_normalization_safe S t (n # visited)) ts)"
        if "c \<in> set (su_cases u)" for c
        using 8(2) [OF new e SpecUnion that] by (cases c) auto
      then show ?thesis
        using new e SpecUnion by (auto simp: ensure_contract_type_normalization_safe.simps [of S "TyUdt n"])
    qed (use new e in \<open>simp_all add: ensure_contract_type_normalization_safe.simps [of S "TyUdt n"]\<close>)
  qed
qed (simp_all add: ensure_contract_type_normalization_safe.simps [of _ "TyVal"] ensure_contract_type_normalization_safe.simps isl_and_then_unit)

section \<open>The interface of a contract\<close>

record contract_parameter =
  cp_name :: string
  cp_doc :: string
  cp_value_type :: contract_parameter_type
  cp_composition :: input_composition

record contract_function =
  cfn_name :: string
  cfn_doc :: string
  cfn_inputs :: "contract_parameter list"
  cfn_outputs :: "contract_parameter_type list"

record contract_abi_field =
  caf_name :: string
  caf_doc :: string
  caf_value_type :: contract_abi_type

datatype union_case_payload = PayloadVoid | PayloadTuple "contract_abi_type list"

record contract_abi_union_case =
  cau_name :: string
  cau_doc :: string
  cau_payload :: union_case_payload

record contract_abi_enum_case =
  cae_name :: string
  cae_doc :: string
  cae_value :: int

datatype user_type =
    UserStruct string string string "contract_abi_field list"
  | UserUnion string string string "contract_abi_union_case list"
  | UserEnum string string string "contract_abi_enum_case list"
  | UserErrorEnum string string string "contract_abi_enum_case list"

definition abi_enum_case :: "spec_enum_case \<Rightarrow> contract_abi_enum_case" where
  "abi_enum_case c = \<lparr>cae_name = sec_name c, cae_doc = sec_doc c, cae_value = sec_value c\<rparr>"

fun contract_user_type :: "spec_lib \<Rightarrow> spec_entry \<Rightarrow> user_type option" where
  "contract_user_type P (SpecStruct s) =
     Some (UserStruct (ss_name s) (ss_doc s) (ss_lib s)
       (map (\<lambda>f. \<lparr>caf_name = sf_name f, caf_doc = sf_doc f, caf_value_type = abi_type_from_spec P (sf_type f)\<rparr>)
         (ss_fields s)))"
| "contract_user_type P (SpecUnion u) =
     Some (UserUnion (su_name u) (su_doc u) (su_lib u)
       (map (\<lambda>c. case c of
            CaseVoid n d \<Rightarrow> \<lparr>cau_name = n, cau_doc = d, cau_payload = PayloadVoid\<rparr>
          | CaseTuple n d ts \<Rightarrow>
              \<lparr>cau_name = n, cau_doc = d, cau_payload = PayloadTuple (map (abi_type_from_spec P) ts)\<rparr>)
         (su_cases u)))"
| "contract_user_type P (SpecEnum e) =
     Some (UserEnum (sen_name e) (sen_doc e) (sen_lib e) (map abi_enum_case (sen_cases e)))"
| "contract_user_type P (SpecErrorEnum e) =
     Some (UserErrorEnum (sen_name e) (sen_doc e) (sen_lib e) (map abi_enum_case (sen_cases e)))"
| "contract_user_type P (SpecFunction _) = None"
| "contract_user_type P (SpecOther _) = None"

record contract_metadata_entry =
  cme_key :: string
  cme_value :: string

definition metadata_from_xdr :: "spec_lib \<Rightarrow> bytes \<times> bytes \<Rightarrow> contract_metadata_entry" where
  "metadata_from_xdr P e = \<lparr>cme_key = spl_lossy P (fst e), cme_value = spl_lossy P (snd e)\<rparr>"

record sep41_evidence =
  s41_native_sac :: bool
  s41_sep47_declared :: bool
  s41_current_interface_compatible :: bool

record contract_capabilities =
  cc_sep41 :: sep41_evidence

datatype executable_kind = StellarAssetExecutable | WasmExecutable | ExternalRefExecutable

fun executable_kind_str :: "executable_kind \<Rightarrow> string" where
  "executable_kind_str StellarAssetExecutable = ''stellar_asset''"
| "executable_kind_str WasmExecutable = ''wasm''"
| "executable_kind_str ExternalRefExecutable = ''external_ref''"

record executable_observation =
  eo_kind :: executable_kind
  eo_wasm_hash :: "string option"

definition metadata_declares_sep :: "contract_metadata_entry list \<Rightarrow> string \<Rightarrow> bool" where
  "metadata_declares_sep metadata sep \<longleftrightarrow>
     list_ex (\<lambda>v. v = sep) (map trim (concat (map (\<lambda>e. split_on (CHR '','') (cme_value e))
       (filter (\<lambda>e. cme_key e = ''sep'') metadata))))"

fun find_spec_function :: "spec_entry list \<Rightarrow> string \<Rightarrow> spec_function option" where
  "find_spec_function [] name = None"
| "find_spec_function (SpecFunction f # entries) name =
     (if sfn_name f = name then Some f else find_spec_function entries name)"
| "find_spec_function (_ # entries) name = find_spec_function entries name"

definition function_signature_matches ::
  "spec_lib \<Rightarrow> spec_entry list \<Rightarrow> string \<Rightarrow> string list \<Rightarrow> string list \<Rightarrow> bool" where
  "function_signature_matches P entries name inputs outputs \<longleftrightarrow>
     (case find_spec_function entries name of
        None \<Rightarrow> False
      | Some f \<Rightarrow>
          length (sfn_inputs f) = length inputs \<and> length (sfn_outputs f) = length outputs \<and>
          list_all (\<lambda>(i, expected). contract_type_name P (sf_type i) = expected) (zip (sfn_inputs f) inputs) \<and>
          list_all (\<lambda>(t, expected). contract_type_name P t = expected) (zip (sfn_outputs f) outputs))"

definition sep41_interface_compatible :: "spec_lib \<Rightarrow> spec_entry list \<Rightarrow> bool" where
  "sep41_interface_compatible P entries \<longleftrightarrow>
     function_signature_matches P entries ''allowance'' [''address'', ''address''] [''i128''] \<and>
     function_signature_matches P entries ''approve'' [''address'', ''address'', ''i128'', ''u32''] [] \<and>
     function_signature_matches P entries ''balance'' [''address''] [''i128''] \<and>
     function_signature_matches P entries ''transfer'' [''address'', ''muxed_address'', ''i128''] [] \<and>
     function_signature_matches P entries ''transfer_from'' [''address'', ''address'', ''address'', ''i128''] [] \<and>
     function_signature_matches P entries ''burn'' [''address'', ''i128''] [] \<and>
     function_signature_matches P entries ''burn_from'' [''address'', ''address'', ''i128''] [] \<and>
     function_signature_matches P entries ''decimals'' [] [''u32''] \<and>
     function_signature_matches P entries ''name'' [] [''string''] \<and>
     function_signature_matches P entries ''symbol'' [] [''string'']"

definition capabilities_from_spec ::
  "spec_lib \<Rightarrow> executable_observation \<Rightarrow> contract_metadata_entry list \<Rightarrow> spec_entry list \<Rightarrow> contract_capabilities" where
  "capabilities_from_spec P executable metadata entries =
     \<lparr>cc_sep41 = \<lparr>s41_native_sac = (eo_kind executable = StellarAssetExecutable),
        s41_sep47_declared = metadata_declares_sep metadata ''41'',
        s41_current_interface_compatible = sep41_interface_compatible P entries\<rparr>\<rparr>"

definition contract_function_view :: "spec_lib \<Rightarrow> contract_spec \<Rightarrow> spec_function \<Rightarrow> contract_function" where
  "contract_function_view P S f =
     \<lparr>cfn_name = spl_sanitize P (sfn_name f), cfn_doc = sfn_doc f,
      cfn_inputs = map (\<lambda>i. \<lparr>cp_name = spl_sanitize P (sf_name i), cp_doc = sf_doc i,
          cp_value_type = parameter_type_from_spec P S (sf_type i),
          cp_composition = contract_input_composition S (sf_type i) []\<rparr>) (sfn_inputs f),
      cfn_outputs = map (parameter_type_from_spec P S) (sfn_outputs f)\<rparr>"

record contract_interface =
  ci_contract_id :: string
  ci_executable :: executable_observation
  ci_metadata :: "contract_metadata_entry list"
  ci_capabilities :: contract_capabilities
  ci_functions :: "contract_function list"
  ci_user_types :: "user_type list"

definition interface_from_spec ::
  "spec_lib \<Rightarrow> string \<Rightarrow> executable_observation \<Rightarrow> contract_metadata_entry list \<Rightarrow> spec_entry list \<Rightarrow> contract_interface" where
  "interface_from_spec P contract_id executable metadata entries =
     (let S = spl_spec_new P entries in
      \<lparr>ci_contract_id = contract_id, ci_executable = executable, ci_metadata = metadata,
       ci_capabilities = capabilities_from_spec P executable metadata entries,
       ci_functions = List.map_filter (\<lambda>e. case e of SpecFunction f \<Rightarrow> Some (contract_function_view P S f) | _ \<Rightarrow> None)
         entries,
       ci_user_types = List.map_filter (contract_user_type P) entries\<rparr>)"

definition interface_function :: "contract_interface \<Rightarrow> string \<Rightarrow> contract_function option" where
  "interface_function i name = find (\<lambda>f. cfn_name f = name) (ci_functions i)"

section \<open>The check of a value against its type\<close>

fun type_matches_primitive :: "spec_type \<Rightarrow> sc_val \<Rightarrow> bool" where
  "type_matches_primitive TyVal v \<longleftrightarrow> True"
| "type_matches_primitive TyBool v \<longleftrightarrow> (case v of ScBool _ \<Rightarrow> True | _ \<Rightarrow> False)"
| "type_matches_primitive TyVoid v \<longleftrightarrow> v = ScVoid"
| "type_matches_primitive TyError v \<longleftrightarrow> (case v of ScError _ \<Rightarrow> True | _ \<Rightarrow> False)"
| "type_matches_primitive TyU32 v \<longleftrightarrow> (case v of ScU32 _ \<Rightarrow> True | _ \<Rightarrow> False)"
| "type_matches_primitive TyI32 v \<longleftrightarrow> (case v of ScI32 _ \<Rightarrow> True | _ \<Rightarrow> False)"
| "type_matches_primitive TyU64 v \<longleftrightarrow> (case v of ScU64 _ \<Rightarrow> True | _ \<Rightarrow> False)"
| "type_matches_primitive TyI64 v \<longleftrightarrow> (case v of ScI64 _ \<Rightarrow> True | _ \<Rightarrow> False)"
| "type_matches_primitive TyTimepoint v \<longleftrightarrow> (case v of ScTimepoint _ \<Rightarrow> True | _ \<Rightarrow> False)"
| "type_matches_primitive TyDuration v \<longleftrightarrow> (case v of ScDuration _ \<Rightarrow> True | _ \<Rightarrow> False)"
| "type_matches_primitive TyU128 v \<longleftrightarrow> (case v of ScU128 _ _ \<Rightarrow> True | _ \<Rightarrow> False)"
| "type_matches_primitive TyI128 v \<longleftrightarrow> (case v of ScI128 _ _ \<Rightarrow> True | _ \<Rightarrow> False)"
| "type_matches_primitive TyU256 v \<longleftrightarrow> (case v of ScU256 _ \<Rightarrow> True | _ \<Rightarrow> False)"
| "type_matches_primitive TyI256 v \<longleftrightarrow> (case v of ScI256 _ \<Rightarrow> True | _ \<Rightarrow> False)"
| "type_matches_primitive TyBytes v \<longleftrightarrow> (case v of ScBytes _ \<Rightarrow> True | _ \<Rightarrow> False)"
| "type_matches_primitive (TyBytesN n) v \<longleftrightarrow> (case v of ScBytes b \<Rightarrow> length b = n | _ \<Rightarrow> False)"
| "type_matches_primitive TyString v \<longleftrightarrow> (case v of ScString _ \<Rightarrow> True | _ \<Rightarrow> False)"
| "type_matches_primitive TySymbol v \<longleftrightarrow> (case v of ScSymbol _ \<Rightarrow> True | _ \<Rightarrow> False)"
| "type_matches_primitive TyAddress v \<longleftrightarrow> (case v of ScAddressVal _ \<Rightarrow> True | _ \<Rightarrow> False)"
| "type_matches_primitive TyMuxedAddress v \<longleftrightarrow> (case v of ScAddressVal _ \<Rightarrow> True | _ \<Rightarrow> False)"
| "type_matches_primitive _ v \<longleftrightarrow> False"

definition type_mismatch :: "spec_lib \<Rightarrow> spec_type \<Rightarrow> unit result" where
  "type_mismatch P t = Inl (''ScVal does not match Contract Spec type '' @ contract_type_name P t)"

function validate_scval_against_type ::
  "spec_lib \<Rightarrow> contract_spec \<Rightarrow> sc_val \<Rightarrow> spec_type \<Rightarrow> nat \<Rightarrow> unit result" where
  "validate_scval_against_type P S v t depth =
     (if depth > contract_argument_xdr_depth_limit then Inl ''contract value exceeds the supported nesting depth''
      else
        (case t of
           TyOption t1 \<Rightarrow>
             (if v = ScVoid then Inr () else validate_scval_against_type P S v t1 (depth + 1))
         | TyResult t1 _ \<Rightarrow>
             (case v of
                ScError _ \<Rightarrow> Inl ''Result error values cannot be normalized as successful contract values''
              | _ \<Rightarrow> validate_scval_against_type P S v t1 (depth + 1))
         | TyVec t1 \<Rightarrow>
             (case v of
                ScVec (Some vs) \<Rightarrow> each_ok (\<lambda>x. validate_scval_against_type P S x t1 (depth + 1)) vs
              | _ \<Rightarrow> type_mismatch P t)
         | TyMap tk tv \<Rightarrow>
             (case v of
                ScMap (Some es) \<Rightarrow>
                  each_ok (\<lambda>(k, x). and_then (validate_scval_against_type P S k tk (depth + 1)) (\<lambda>_.
                    validate_scval_against_type P S x tv (depth + 1))) es
              | _ \<Rightarrow> type_mismatch P t)
         | TyTuple ts \<Rightarrow>
             (case v of
                ScVec (Some vs) \<Rightarrow>
                  (if length vs = length ts
                   then each_ok (\<lambda>(x, u). validate_scval_against_type P S x u (depth + 1)) (zip vs ts)
                   else type_mismatch P t)
              | _ \<Rightarrow> type_mismatch P t)
         | TyUdt n \<Rightarrow>
             (case cs_find S n of
                Inl error \<Rightarrow> Inl (''unable to resolve user-defined type '' @ n @ '': '' @ error)
              | Inr (SpecStruct s) \<Rightarrow>
                  (if ss_fields s \<noteq> [] \<and> sf_name (hd (ss_fields s)) = ''0''
                   then (case v of
                      ScVec (Some vs) \<Rightarrow>
                        (if length vs \<noteq> length (ss_fields s)
                         then Inl (''tuple struct '' @ n @ '' requires '' @ nat_to_dec (length (ss_fields s)) @
                                '' values but ScVal contains '' @ nat_to_dec (length vs))
                         else each_ok (\<lambda>(x, f). validate_scval_against_type P S x (sf_type f) (depth + 1))
                                (zip vs (ss_fields s)))
                    | _ \<Rightarrow> type_mismatch P t)
                   else (case v of
                      ScMap (Some es) \<Rightarrow>
                        (if length es \<noteq> length (ss_fields s)
                         then Inl (''struct '' @ n @ '' requires '' @ nat_to_dec (length (ss_fields s)) @
                                '' fields but ScVal contains '' @ nat_to_dec (length es))
                         else each_ok (\<lambda>(k, x). case k of
                                ScSymbol b \<Rightarrow>
                                  (let key = spl_lossy P b in
                                   case find (\<lambda>f. sf_name f = key) (ss_fields s) of
                                     None \<Rightarrow> Inl (''unknown field '' @ quoted key @ '' for struct '' @ n)
                                   | Some f \<Rightarrow> validate_scval_against_type P S x (sf_type f) (depth + 1))
                              | _ \<Rightarrow> Inl (''struct '' @ n @ '' contains a non-symbol field key'')) es)
                    | _ \<Rightarrow> type_mismatch P t))
              | Inr (SpecUnion u) \<Rightarrow>
                  (case v of
                     ScVec (Some vs) \<Rightarrow>
                       (case vs of
                          ScSymbol b # payload \<Rightarrow>
                            (let name = spl_lossy P b in
                             case find (\<lambda>c. case_name c = name) (su_cases u) of
                               None \<Rightarrow> Inl (''unknown case '' @ quoted name @ '' for union '' @ n)
                             | Some (CaseVoid _ _) \<Rightarrow>
                                 (if length vs = 1 then Inr ()
                                  else Inl (''void case '' @ quoted name @ '' for union '' @ n @
                                         '' contains an unexpected payload''))
                             | Some (CaseTuple _ _ ts) \<Rightarrow>
                                 (if length vs \<noteq> length ts + 1
                                  then Inl (''case '' @ quoted name @ '' for union '' @ n @ '' requires '' @
                                         nat_to_dec (length ts) @ '' payload values but ScVal contains '' @
                                         nat_to_dec (length vs - 1))
                                  else each_ok (\<lambda>(x, u). validate_scval_against_type P S x u (depth + 1))
                                         (zip payload ts)))
                        | _ \<Rightarrow> Inl (''union '' @ n @ '' requires a symbol case discriminator''))
                   | _ \<Rightarrow> type_mismatch P t)
              | Inr (SpecEnum e) \<Rightarrow>
                  (case v of
                     ScU32 x \<Rightarrow> if list_ex (\<lambda>c. sec_value c = x) (sen_cases e) then Inr () else type_mismatch P t
                   | _ \<Rightarrow> type_mismatch P t)
              | Inr (SpecErrorEnum e) \<Rightarrow>
                  (case v of
                     ScError (ScErrorContract x) \<Rightarrow>
                       if list_ex (\<lambda>c. sec_value c = x) (sen_cases e) then Inr () else type_mismatch P t
                   | _ \<Rightarrow> type_mismatch P t)
              | Inr _ \<Rightarrow> Inl (''Contract Spec entry '' @ n @ '' is not a user-defined value type''))
         | _ \<Rightarrow> (if type_matches_primitive t v then Inr () else type_mismatch P t)))"
  by pat_completeness auto
termination
  by (relation "measure (\<lambda>(P, S, v, t, depth). Suc contract_argument_xdr_depth_limit - depth)") auto

declare validate_scval_against_type.simps [simp del]

section \<open>The typing relation\<close>

text \<open>\<open>conforms P S n v t\<close>: the value has the type, in a specification \<open>S\<close>, with at most \<open>n\<close> levels of nesting.\<close>

definition is_tuple_struct :: "spec_struct \<Rightarrow> bool" where
  "is_tuple_struct s \<longleftrightarrow> ss_fields s \<noteq> [] \<and> sf_name (hd (ss_fields s)) = ''0''"

inductive conforms :: "spec_lib \<Rightarrow> contract_spec \<Rightarrow> nat \<Rightarrow> sc_val \<Rightarrow> spec_type \<Rightarrow> bool"
  for P :: spec_lib and S :: contract_spec where
  conforms_primitive: "type_matches_primitive t v \<Longrightarrow> conforms P S (Suc n) v t"
| conforms_none: "conforms P S (Suc n) ScVoid (TyOption t)"
| conforms_some: "conforms P S n v t \<Longrightarrow> conforms P S (Suc n) v (TyOption t)"
| conforms_ok: "\<forall>e. v \<noteq> ScError e \<Longrightarrow> conforms P S n v t \<Longrightarrow> conforms P S (Suc n) v (TyResult t e)"
| conforms_vec: "\<forall>x\<in>set vs. conforms P S n x t \<Longrightarrow> conforms P S (Suc n) (ScVec (Some vs)) (TyVec t)"
| conforms_map: "\<forall>(k, x)\<in>set es. conforms P S n k tk \<and> conforms P S n x tv \<Longrightarrow>
    conforms P S (Suc n) (ScMap (Some es)) (TyMap tk tv)"
| conforms_tuple: "list_all2 (conforms P S n) vs ts \<Longrightarrow> conforms P S (Suc n) (ScVec (Some vs)) (TyTuple ts)"
| conforms_tuple_struct: "cs_find S name = Inr (SpecStruct s) \<Longrightarrow> is_tuple_struct s \<Longrightarrow>
    list_all2 (\<lambda>x f. conforms P S n x (sf_type f)) vs (ss_fields s) \<Longrightarrow>
    conforms P S (Suc n) (ScVec (Some vs)) (TyUdt name)"
| conforms_struct: "cs_find S name = Inr (SpecStruct s) \<Longrightarrow> \<not> is_tuple_struct s \<Longrightarrow>
    length es = length (ss_fields s) \<Longrightarrow>
    \<forall>(k, x)\<in>set es. \<exists>b f. k = ScSymbol b \<and> find (\<lambda>f. sf_name f = spl_lossy P b) (ss_fields s) = Some f \<and>
      conforms P S n x (sf_type f) \<Longrightarrow>
    conforms P S (Suc n) (ScMap (Some es)) (TyUdt name)"
| conforms_union_void: "cs_find S name = Inr (SpecUnion u) \<Longrightarrow>
    find (\<lambda>c. case_name c = spl_lossy P b) (su_cases u) = Some (CaseVoid cn d) \<Longrightarrow>
    conforms P S (Suc n) (ScVec (Some [ScSymbol b])) (TyUdt name)"
| conforms_union_tuple: "cs_find S name = Inr (SpecUnion u) \<Longrightarrow>
    find (\<lambda>c. case_name c = spl_lossy P b) (su_cases u) = Some (CaseTuple cn d ts) \<Longrightarrow>
    list_all2 (conforms P S n) payload ts \<Longrightarrow>
    conforms P S (Suc n) (ScVec (Some (ScSymbol b # payload))) (TyUdt name)"
| conforms_enum: "cs_find S name = Inr (SpecEnum e) \<Longrightarrow> x \<in> sec_value ` set (sen_cases e) \<Longrightarrow>
    conforms P S (Suc n) (ScU32 x) (TyUdt name)"
| conforms_error_enum: "cs_find S name = Inr (SpecErrorEnum e) \<Longrightarrow> x \<in> sec_value ` set (sen_cases e) \<Longrightarrow>
    conforms P S (Suc n) (ScError (ScErrorContract x)) (TyUdt name)"
  monos list_all2_mono

inductive_simps conforms_0 [simp]: "conforms P S 0 v t"
inductive_simps conforms_option: "conforms P S (Suc n) v (TyOption t)"
inductive_simps conforms_result: "conforms P S (Suc n) v (TyResult t e)"
inductive_simps conforms_vec_iff: "conforms P S (Suc n) v (TyVec t)"
inductive_simps conforms_map_iff: "conforms P S (Suc n) v (TyMap tk tv)"
inductive_simps conforms_tuple_iff: "conforms P S (Suc n) v (TyTuple ts)"
inductive_simps conforms_udt: "conforms P S (Suc n) v (TyUdt name)"
inductive_cases conforms_cases: "conforms P S (Suc n) v t"

lemma each_ok_pairs: "each_ok (\<lambda>(k, x). f k x) es = Inr u \<longleftrightarrow> (\<forall>(k, x)\<in>set es. f k x = Inr ())"
  by (auto simp: each_ok_Inr)

lemma each_ok_zip:
  "length vs = length ts \<Longrightarrow> each_ok (\<lambda>(x, t). f x t) (zip vs ts) = Inr u \<longleftrightarrow> list_all2 (\<lambda>x t. f x t = Inr ()) vs ts"
  by (auto simp: each_ok_Inr list_all2_iff)

lemma mismatch_not_ok [simp]: "type_mismatch P t \<noteq> Inr u"
  by (simp add: type_mismatch_def)

lemma list_ex_image: "list_ex (\<lambda>c. f c = x) cs \<longleftrightarrow> x \<in> f ` set cs"
  by (auto simp: list_ex_iff)

lemmas validate_step = validate_scval_against_type.simps

text \<open>The primitive types: all but the seven that have components or a name.\<close>

fun composite_type :: "spec_type \<Rightarrow> bool" where
  "composite_type (TyOption _) \<longleftrightarrow> True"
| "composite_type (TyResult _ _) \<longleftrightarrow> True"
| "composite_type (TyVec _) \<longleftrightarrow> True"
| "composite_type (TyMap _ _) \<longleftrightarrow> True"
| "composite_type (TyTuple _) \<longleftrightarrow> True"
| "composite_type (TyUdt _) \<longleftrightarrow> True"
| "composite_type _ \<longleftrightarrow> False"

lemma conforms_primitive_iff: "\<not> composite_type t \<Longrightarrow> conforms P S (Suc n) v t \<longleftrightarrow> type_matches_primitive t v"
  by (auto intro: conforms_primitive elim: conforms_cases)

lemma validate_primitive:
  "\<not> composite_type t \<Longrightarrow> d \<le> contract_argument_xdr_depth_limit \<Longrightarrow>
     validate_scval_against_type P S v t d = Inr () \<longleftrightarrow> type_matches_primitive t v"
  by (cases t) (simp_all add: validate_step [of P S v _ d])

lemma validate_udt:
  assumes "d \<le> contract_argument_xdr_depth_limit"
    and below: "\<And>v t. validate_scval_against_type P S v t (d + 1) = Inr () \<longleftrightarrow> conforms P S n v t"
  shows "validate_scval_against_type P S v (TyUdt name) d = Inr () \<longleftrightarrow> conforms P S (Suc n) v (TyUdt name)"
proof (cases "cs_find S name")
  case (Inl e)
  then have "map_of (cs_table S) name = None" by (auto simp: cs_find_def ok_or_Inl)
  with Inl assms(1) show ?thesis by (simp add: validate_step [of P S v _ d] conforms_udt)
next
  case (Inr e)
  note step = validate_step [of P S _ "TyUdt name" d]
  have vec: "(case v of ScVec (Some vs) \<Rightarrow> f vs | _ \<Rightarrow> type_mismatch P t) = Inr () \<longleftrightarrow>
      (\<exists>vs. v = ScVec (Some vs) \<and> f vs = Inr ())" for f t
    by (auto split: sc_val.splits option.splits)
  have vmap: "(case v of ScMap (Some es) \<Rightarrow> f es | _ \<Rightarrow> type_mismatch P t) = Inr () \<longleftrightarrow>
      (\<exists>es. v = ScMap (Some es) \<and> f es = Inr ())" for f t
    by (auto split: sc_val.splits option.splits)
  show ?thesis
  proof (cases e)
    case (SpecStruct s)
    show ?thesis
    proof (cases "is_tuple_struct s")
      case True
      then show ?thesis
        using assms(1) Inr SpecStruct
        by (simp add: step conforms_udt is_tuple_struct_def vec)
          (auto simp: each_ok_zip below [simplified] dest: list_all2_lengthD split: if_splits)
    next
      case False
      then have nt: "\<not> (ss_fields s \<noteq> [] \<and> sf_name (hd (ss_fields s)) = ''0'')" by (simp add: is_tuple_struct_def)
      have entry: "(case k of ScSymbol b \<Rightarrow>
             (let key = spl_lossy P b in
              case find (\<lambda>f. sf_name f = key) (ss_fields s) of
                None \<Rightarrow> Inl (''unknown field '' @ quoted key @ '' for struct '' @ name)
              | Some f \<Rightarrow> validate_scval_against_type P S x (sf_type f) (d + 1))
           | _ \<Rightarrow> Inl (''struct '' @ name @ '' contains a non-symbol field key'')) = Inr () \<longleftrightarrow>
         (\<exists>b f. k = ScSymbol b \<and> find (\<lambda>f. sf_name f = spl_lossy P b) (ss_fields s) = Some f \<and>
            conforms P S n x (sf_type f))" for k x
        by (cases k) (auto simp: Let_def below [simplified] split: option.split)
      have "validate_scval_against_type P S v (TyUdt name) d = Inr () \<longleftrightarrow>
          (\<exists>es. v = ScMap (Some es) \<and> length es = length (ss_fields s) \<and>
             (\<forall>(k, x)\<in>set es. \<exists>b f. k = ScSymbol b \<and>
                find (\<lambda>f. sf_name f = spl_lossy P b) (ss_fields s) = Some f \<and> conforms P S n x (sf_type f)))"
        using assms(1) nt
        by (simp add: step Inr SpecStruct vmap entry each_ok_pairs cong: if_cong) auto
      then show ?thesis
        using Inr SpecStruct False by (auto simp: conforms_udt)
    qed
  next
    case (SpecUnion u)
    show ?thesis
    proof (cases "\<exists>b payload. v = ScVec (Some (ScSymbol b # payload))")
      case True
      then obtain b payload where v: "v = ScVec (Some (ScSymbol b # payload))" by blast
      note facts = step Inr SpecUnion v conforms_udt Let_def
      consider "find (\<lambda>c. case_name c = spl_lossy P b) (su_cases u) = None"
        | cn dc where "find (\<lambda>c. case_name c = spl_lossy P b) (su_cases u) = Some (CaseVoid cn dc)"
        | cn dc ts where "find (\<lambda>c. case_name c = spl_lossy P b) (su_cases u) = Some (CaseTuple cn dc ts)"
        by (metis option.exhaust spec_case.exhaust)
      then show ?thesis
      proof cases
        case (3 cn dc ts)
        then show ?thesis
          using assms(1) by (cases "length payload = length ts")
            (simp_all add: facts each_ok_zip below [simplified], auto dest: list_all2_lengthD)
      qed (use assms(1) in \<open>simp_all add: facts\<close>)
    next
      case False
      have shape: "(case vs of ScSymbol b # payload \<Rightarrow> f b payload | _ \<Rightarrow> Inl m) = Inr () \<longleftrightarrow>
          (\<exists>b payload. vs = ScSymbol b # payload \<and> f b payload = Inr ())" for vs f and m :: string
        by (auto split: list.split sc_val.split)
      have "validate_scval_against_type P S v (TyUdt name) d \<noteq> Inr ()"
        using assms(1) False by (simp add: step Inr SpecUnion vec shape) blast
      moreover have "\<not> conforms P S (Suc n) v (TyUdt name)"
        using False by (auto simp: conforms_udt Inr SpecUnion)
      ultimately show ?thesis by blast
    qed
  next
    case (SpecEnum en)
    then show ?thesis
      using assms(1) Inr by (cases v) (auto simp: step conforms_udt list_ex_image)
  next
    case (SpecErrorEnum en)
    have "(case v of ScError (ScErrorContract x) \<Rightarrow>
          if list_ex (\<lambda>c. sec_value c = x) (sen_cases en) then Inr () else type_mismatch P t
        | _ \<Rightarrow> type_mismatch P t) = Inr () \<longleftrightarrow> (\<exists>x. v = ScError (ScErrorContract x) \<and> x \<in> sec_value ` set (sen_cases en))" for t
      by (auto simp: list_ex_image split: sc_val.split sc_error.split)
    then show ?thesis
      using assms(1) Inr SpecErrorEnum by (simp add: step conforms_udt)
  qed (use assms(1) Inr in \<open>simp_all add: step conforms_udt\<close>)
qed

lemma validate_conforms:
  "d + n = Suc contract_argument_xdr_depth_limit \<Longrightarrow>
     validate_scval_against_type P S v t d = Inr () \<longleftrightarrow> conforms P S n v t"
proof (induction n arbitrary: v t d)
  case 0
  then show ?case by (simp add: validate_step [of P S v t "Suc contract_argument_xdr_depth_limit"])
next
  case (Suc n)
  then have d: "d \<le> contract_argument_xdr_depth_limit"
    and below: "validate_scval_against_type P S v t (d + 1) = Inr () \<longleftrightarrow> conforms P S n v t" for v t
    by simp_all
  note [simp] = below [simplified]
  show ?case
  proof (cases "composite_type t")
    case False
    then show ?thesis using d by (simp add: conforms_primitive_iff validate_primitive)
  next
    case True
    then show ?thesis
    proof (cases t)
      case (TyOption t1)
      then show ?thesis using d by (simp add: validate_step [of P S v _ d] conforms_option)
    next
      case (TyResult t1 e)
      then show ?thesis
        using d by (cases v) (simp_all add: validate_step [of P S _ _ d] conforms_result)
    next
      case (TyVec t1)
      then show ?thesis
        using d by (auto simp: validate_step [of P S _ _ d] conforms_vec_iff each_ok_Inr split: sc_val.split option.split)
    next
      case (TyMap tk tv)
      have pair: "each_ok (\<lambda>(k, x). and_then (validate_scval_against_type P S k tk (d + 1)) (\<lambda>_.
          validate_scval_against_type P S x tv (d + 1))) es = Inr () \<longleftrightarrow>
        (\<forall>(k, x)\<in>set es. conforms P S n k tk \<and> conforms P S n x tv)" for es
        by (auto simp: each_ok_pairs and_then_Inr)
      then show ?thesis
        using d TyMap by (auto simp: validate_step [of P S _ _ d] conforms_map_iff pair [simplified]
            split: sc_val.split option.split)
    next
      case (TyTuple ts)
      then show ?thesis
        using d by (auto simp: validate_step [of P S _ _ d] conforms_tuple_iff each_ok_zip
            dest: list_all2_lengthD split: sc_val.split option.split if_splits)
    next
      case (TyUdt name)
      then show ?thesis using validate_udt [OF d below] by simp
    qed simp_all
  qed
qed

text \<open>The check counts the fields of a struct value and looks each one up, so a value that repeats one
  field and leaves out another passes.\<close>

lemma struct_check_accepts_repeated_field:
  assumes "cs_find S n = Inr (SpecStruct s)" "ss_fields s = [f, g]" "sf_name f \<noteq> ''0''" "sf_type f = TyU32"
    "spl_lossy P b = sf_name f"
  shows "conforms P S (Suc (Suc k)) (ScMap (Some [(ScSymbol b, ScU32 1), (ScSymbol b, ScU32 2)])) (TyUdt n)"
proof (rule conforms_struct [OF assms(1)])
  show "\<not> is_tuple_struct s" using assms by (simp add: is_tuple_struct_def)
  have "conforms P S (Suc k) (ScU32 x) (sf_type f)" for x
    using assms(4) by (simp add: conforms_primitive)
  then show "\<forall>(k', x)\<in>set [(ScSymbol b, ScU32 1), (ScSymbol b, ScU32 2)]. \<exists>b f. k' = ScSymbol b \<and>
      find (\<lambda>f. sf_name f = spl_lossy P b) (ss_fields s) = Some f \<and> conforms P S (Suc k) x (sf_type f)"
    using assms by simp
qed (use assms in simp)

section \<open>Properties\<close>

text \<open>C19. The interface calls a parameter unsupported exactly when a value of its type could not be
  shown for review: the classification and the check that a value can be normalized safely are
  the same predicate, for every type, on every path through the user types (recursive ones
  included), whatever the specification.\<close>

theorem composition_is_normalization:
  "contract_input_composition S t visited = Unsupported \<longleftrightarrow>
     (\<exists>e. ensure_contract_type_normalization_safe S t visited = Inl e)"
  using composition_normalization [of S t visited] by (auto simp: isl_def)


end
