(* ===== verification/AnchorHttp.thy ===== *)
theory AnchorHttp
  imports ContractSpec
begin

text \<open>
  The HTTP layer of the anchor protocols (anchor_http.rs). The \<open>url\<close> crate, the \<open>ureq\<close> agent, the \<open>toml\<close>
  parser and the wording of \<open>serde\<close>'s errors are the functions of an \<open>anchor_lib\<close>: a parsed URL is a
  record of the components the program reads or replaces. What the agent answers may depend on every
  request sent before, so an operation that talks to an anchor is a function of the requests sent so
  far that returns its result and the requests sent after it.
\<close>

section \<open>URLs and requests\<close>

datatype url_host = HostDomain string | HostIpv4 string | HostIpv6 string

fun host_text :: "url_host \<Rightarrow> string" where
  "host_text (HostDomain h) = h"
| "host_text (HostIpv4 h) = h"
| "host_text (HostIpv6 h) = h"

record url =
  u_scheme :: string
  u_username :: string
  u_password :: "string option"
  u_host :: "url_host option"
  u_port :: "nat option"
  u_path :: string
  u_query :: "string option"
  u_fragment :: "string option"

datatype form_part =
    FormText string string
  | FormFile string string "string option" bytes

datatype http_body = EmptyBody | JsonBody json | FormBody "form_part list"

record http_request =
  hr_method :: string
  hr_url :: string
  hr_authorization :: "string option"
  hr_body :: http_body

record http_response =
  hs_status :: nat
  hs_json :: "string + json"
  hs_text :: "string + string"

datatype toml =
    TomlString string
  | TomlArray "toml list"
  | TomlTable "(string \<times> toml) list"
  | TomlOther

record anchor_lib =
  al_url_parse :: "string \<Rightarrow> url option"
  al_url_text :: "url \<Rightarrow> string"
  al_path_text :: "string \<Rightarrow> string"
  al_query_text :: "string option \<Rightarrow> (string \<times> string) list \<Rightarrow> string"
  al_mime :: "string \<Rightarrow> unit result"
  al_toml :: "string \<Rightarrow> string + toml"
  al_serde_error :: "string \<Rightarrow> json \<Rightarrow> string"
  al_send :: "http_request list \<Rightarrow> http_request \<Rightarrow> string + http_response"

text \<open>\<open>Url::set_path\<close>, and \<open>query_pairs_mut\<close> with its \<open>append_pair\<close>s: the other components stay.\<close>

definition url_set_path :: "anchor_lib \<Rightarrow> string \<Rightarrow> url \<Rightarrow> url" where
  "url_set_path A path u = u\<lparr>u_path := al_path_text A path\<rparr>"

definition url_append_pairs :: "anchor_lib \<Rightarrow> (string \<times> string) list \<Rightarrow> url \<Rightarrow> url" where
  "url_append_pairs A pairs u = u\<lparr>u_query := Some (al_query_text A (u_query u) pairs)\<rparr>"

section \<open>Operations that send requests\<close>

type_synonym 'a web = "http_request list \<Rightarrow> 'a result \<times> http_request list"

definition web_of :: "'a result \<Rightarrow> 'a web" where
  "web_of r = (\<lambda>sent. (r, sent))"

definition web_then :: "'a web \<Rightarrow> ('a \<Rightarrow> 'b web) \<Rightarrow> 'b web" where
  "web_then m f = (\<lambda>sent. case m sent of (Inl error, sent') \<Rightarrow> (Inl error, sent') | (Inr a, sent') \<Rightarrow> f a sent')"

text \<open>The result as a value, for a \<open>match\<close> on it.\<close>

definition web_result :: "'a web \<Rightarrow> 'a result web" where
  "web_result m = (\<lambda>sent. case m sent of (r, sent') \<Rightarrow> (Inr r, sent'))"

definition web_send :: "anchor_lib \<Rightarrow> (string \<Rightarrow> string) \<Rightarrow> http_request \<Rightarrow> http_response web" where
  "web_send A failure request = (\<lambda>sent. (map_err failure (al_send A sent request), sent @ [request]))"

section \<open>Hosts and endpoints\<close>

definition ends_with :: "string \<Rightarrow> string \<Rightarrow> bool" where
  "ends_with s p \<longleftrightarrow> length p \<le> length s \<and> drop (length s - length p) s = p"

definition dns_label :: "string \<Rightarrow> bool" where
  "dns_label label \<longleftrightarrow>
     label \<noteq> [] \<and> length label \<le> 63 \<and>
     list_all (\<lambda>c. is_ascii_alphanumeric c \<or> c = CHR ''-'') label \<and>
     is_ascii_alphanumeric (hd label) \<and> is_ascii_alphanumeric (last label)"

definition is_external_dns_name :: "string \<Rightarrow> bool" where
  "is_external_dns_name raw \<longleftrightarrow>
     (let host = map to_ascii_lower raw; labels = split_on (CHR ''.'') host in
      2 \<le> length labels \<and> length host \<le> 253 \<and> list_all dns_label labels \<and>
      host \<noteq> ''localhost'' \<and> \<not> ends_with host ''.localhost'' \<and>
      host \<noteq> ''local'' \<and> \<not> ends_with host ''.local'' \<and>
      host \<noteq> ''home.arpa'' \<and> \<not> ends_with host ''.home.arpa'')"

definition validate_anchor_https_url :: "url \<Rightarrow> string \<Rightarrow> unit result" where
  "validate_anchor_https_url u label =
     (if u_scheme u \<noteq> ''https'' \<or> u_username u \<noteq> [] \<or> u_password u \<noteq> None
      then Inl (label @ '' must be an HTTPS URL without embedded credentials'')
      else case u_host u of
             Some (HostDomain host) \<Rightarrow>
               if is_external_dns_name (trim_end_matches (CHR ''.'') host) then Inr ()
               else Inl (label @ '' must use an external DNS host name'')
           | Some _ \<Rightarrow> Inl (label @ '' must use a DNS host name, not an IP address'')
           | None \<Rightarrow> Inl (label @ '' must include a host''))"

definition canonical_home_domain :: "anchor_lib \<Rightarrow> string \<Rightarrow> string result" where
  "canonical_home_domain A raw =
     (let v = trim_end_matches (CHR ''.'') (trim raw); invalid = ''Issuer home_domain is not a valid host name'' in
      and_then (ok_or invalid (al_url_parse A (''https://'' @ v @ ''/''))) (\<lambda>u.
      and_then (ensure (\<not> (u_path u \<noteq> ''/'' \<or> u_query u \<noteq> None \<or> u_fragment u \<noteq> None)) invalid) (\<lambda>_.
      and_then (validate_anchor_https_url u ''Issuer home_domain'') (\<lambda>_.
      and_then (ensure (u_port u = None) ''Issuer home_domain must not include a port'') (\<lambda>_.
      and_then (ok_or ''validated URL has a host'' (u_host u)) (\<lambda>host.
        Inr (map to_ascii_lower (trim_end_matches (CHR ''.'') (host_text host)))))))))"

definition endpoint_label :: "anchor_lib \<Rightarrow> url \<Rightarrow> string" where
  "endpoint_label A u = al_url_text A (u\<lparr>u_query := None, u_fragment := None\<rparr>)"

definition reject_anchor_redirect :: "nat \<Rightarrow> string \<Rightarrow> unit result" where
  "reject_anchor_redirect status endpoint =
     (if 300 \<le> status \<and> status < 400
      then Inl (''Anchor endpoint '' @ endpoint @ '' returned HTTP '' @ nat_to_dec status @ ''; redirects are not allowed'')
      else Inr ())"

definition http_success :: "nat \<Rightarrow> bool" where
  "http_success status \<longleftrightarrow> 200 \<le> status \<and> status < 300"

section \<open>Requests and their responses\<close>

definition read_json_response :: "anchor_lib \<Rightarrow> string \<Rightarrow> url \<Rightarrow> http_response \<Rightarrow> (nat \<times> json) result" where
  "read_json_response A protocol u response =
     (let endpoint = endpoint_label A u; status = hs_status response in
      and_then (reject_anchor_redirect status endpoint) (\<lambda>_.
      and_then (map_err (\<lambda>error. ''Invalid JSON from '' @ protocol @ '' endpoint '' @ endpoint @ '': '' @ error) (hs_json response)) (\<lambda>v.
        Inr (status, v))))"

definition bearer :: "string \<Rightarrow> string" where
  "bearer token = ''Bearer '' @ token"

text \<open>What the three JSON calls share: the request goes out and the response is read.\<close>

definition call_json :: "anchor_lib \<Rightarrow> string \<Rightarrow> url \<Rightarrow> http_request \<Rightarrow> (nat \<times> json) web" where
  "call_json A protocol u request =
     web_then (web_send A (\<lambda>error. ''Unable to call '' @ protocol @ '' endpoint '' @ endpoint_label A u @ '': '' @ error) request)
       (\<lambda>response. web_of (read_json_response A protocol u response))"

definition anchor_get_json :: "anchor_lib \<Rightarrow> url \<Rightarrow> string \<Rightarrow> string option \<Rightarrow> (nat \<times> json) web" where
  "anchor_get_json A u protocol token =
     web_then (web_of (validate_anchor_https_url u protocol)) (\<lambda>_.
       call_json A protocol u \<lparr>hr_method = ''GET'', hr_url = al_url_text A u,
         hr_authorization = map_option bearer token, hr_body = EmptyBody\<rparr>)"

definition anchor_put_json :: "anchor_lib \<Rightarrow> url \<Rightarrow> string \<Rightarrow> string \<Rightarrow> json \<Rightarrow> (nat \<times> json) web" where
  "anchor_put_json A u protocol token body =
     web_then (web_of (validate_anchor_https_url u protocol)) (\<lambda>_.
       call_json A protocol u \<lparr>hr_method = ''PUT'', hr_url = al_url_text A u,
         hr_authorization = Some (bearer token), hr_body = JsonBody body\<rparr>)"

definition anchor_post_json :: "anchor_lib \<Rightarrow> url \<Rightarrow> string \<Rightarrow> json \<Rightarrow> (nat \<times> json) web" where
  "anchor_post_json A u protocol body =
     web_then (web_of (validate_anchor_https_url u protocol)) (\<lambda>_.
       call_json A protocol u \<lparr>hr_method = ''POST'', hr_url = al_url_text A u,
         hr_authorization = None, hr_body = JsonBody body\<rparr>)"

definition anchor_get_text :: "anchor_lib \<Rightarrow> url \<Rightarrow> string \<Rightarrow> string web" where
  "anchor_get_text A u label =
     web_then (web_of (validate_anchor_https_url u label)) (\<lambda>_.
     web_then (web_send A (\<lambda>error. ''Unable to load '' @ label @ '' from '' @ endpoint_label A u @ '': '' @ error)
         \<lparr>hr_method = ''GET'', hr_url = al_url_text A u, hr_authorization = None, hr_body = EmptyBody\<rparr>) (\<lambda>response.
       let endpoint = endpoint_label A u; status = hs_status response in
       web_of (and_then (reject_anchor_redirect status endpoint) (\<lambda>_.
         and_then (ensure (http_success status)
           (label @ '' endpoint '' @ endpoint @ '' returned HTTP '' @ nat_to_dec status)) (\<lambda>_.
         map_err (\<lambda>error. ''Unable to read '' @ label @ '' from '' @ endpoint @ '': '' @ error) (hs_text response))))))"

section \<open>The requests an operation sends\<close>

text \<open>\<open>sends P m\<close>: whatever was sent before and whatever the anchor answers, each request that \<open>m\<close> sends
  satisfies \<open>P\<close>.\<close>

definition sends :: "(http_request \<Rightarrow> bool) \<Rightarrow> 'a web \<Rightarrow> bool" where
  "sends P m \<longleftrightarrow> (\<forall>sent. \<exists>rs. snd (m sent) = sent @ rs \<and> list_all P rs)"

named_theorems sends_intros \<open>the requests of composed operations\<close>

lemma sends_of [sends_intros]: "sends P (web_of r)"
  by (simp add: sends_def web_of_def)

lemma sends_send [sends_intros]: "P request \<Longrightarrow> sends P (web_send A failure request)"
  by (simp add: sends_def web_send_def)

lemma sends_result [sends_intros]: "sends P m \<Longrightarrow> sends P (web_result m)"
  by (simp add: sends_def web_result_def case_prod_beta)

lemma sends_then_values:
  assumes m: "sends P m" and f: "\<And>sent a sent'. m sent = (Inr a, sent') \<Longrightarrow> sends P (f a)"
  shows "sends P (web_then m f)"
  unfolding sends_def
proof
  fix sent
  obtain r sent' where r: "m sent = (r, sent')" by fastforce
  from m r obtain rs where rs: "sent' = sent @ rs" "list_all P rs" unfolding sends_def by (metis snd_conv)
  show "\<exists>rs. snd (web_then m f sent) = sent @ rs \<and> list_all P rs"
  proof (cases r)
    case (Inl error)
    with r rs show ?thesis by (simp add: web_then_def)
  next
    case (Inr a)
    with f r obtain rs' where "snd (f a sent') = sent' @ rs'" "list_all P rs'" unfolding sends_def by metis
    with r rs Inr show ?thesis by (intro exI [of _ "rs @ rs'"]) (simp add: web_then_def)
  qed
qed

lemma sends_then [sends_intros]: "sends P m \<Longrightarrow> (\<And>a. sends P (f a)) \<Longrightarrow> sends P (web_then m f)"
  by (rule sends_then_values)

lemma sends_check: "(\<And>a. r = Inr a \<Longrightarrow> sends P (f a)) \<Longrightarrow> sends P (web_then (web_of r) f)"
  by (rule sends_then_values) (auto simp: web_of_def sends_def)

lemma sends_mono: "sends P m \<Longrightarrow> (\<And>r. P r \<Longrightarrow> Q r) \<Longrightarrow> sends Q m"
  unfolding sends_def by (meson list.pred_mono_strong)

lemma web_then_Inr:
  "web_then m f sent = (Inr b, sent'') \<longleftrightarrow> (\<exists>a sent'. m sent = (Inr a, sent') \<and> f a sent' = (Inr b, sent''))"
  by (auto simp: web_then_def split: prod.splits sum.splits)

lemma web_of_Inr: "web_of r sent = (Inr a, sent') \<longleftrightarrow> r = Inr a \<and> sent' = sent"
  by (auto simp: web_of_def)

lemma web_send_Inr:
  "web_send A failure request sent = (Inr response, sent') \<longleftrightarrow> al_send A sent request = Inr response \<and> sent' = sent @ [request]"
  by (auto simp: web_send_def)

lemmas web_Inr = web_then_Inr web_of_Inr web_send_Inr

text \<open>An endpoint the program may talk to: HTTPS, no credentials in it, a public DNS name.\<close>

definition public_https :: "url \<Rightarrow> bool" where
  "public_https u \<longleftrightarrow> u_scheme u = ''https'' \<and> u_username u = [] \<and> u_password u = None \<and>
     (\<exists>host. u_host u = Some (HostDomain host) \<and> is_external_dns_name (trim_end_matches (CHR ''.'') host))"

lemma validate_public [simp]: "validate_anchor_https_url u label = Inr x \<longleftrightarrow> public_https u"
  by (auto simp: validate_anchor_https_url_def public_https_def split: option.splits url_host.splits if_splits)

lemma url_edits [simp]:
  "public_https (url_set_path A path u) = public_https u"
  "public_https (url_append_pairs A pairs u) = public_https u"
  "u_host (url_set_path A path u) = u_host u" "u_host (url_append_pairs A pairs u) = u_host u"
  "u_scheme (url_append_pairs A pairs u) = u_scheme u" "u_path (url_append_pairs A pairs u) = u_path u"
  by (simp_all add: url_set_path_def url_append_pairs_def public_https_def)

text \<open>The requests of an operation on the endpoint \<open>u\<close>: to that URL, and with that token if any.\<close>

definition request_to :: "anchor_lib \<Rightarrow> url \<Rightarrow> string option \<Rightarrow> http_request \<Rightarrow> bool" where
  "request_to A u token r \<longleftrightarrow>
     public_https u \<and> (hr_url r = al_url_text A u \<or> al_url_parse A (hr_url r) = Some u) \<and>
     hr_authorization r = map_option bearer token"

lemma sends_get_json: "sends (\<lambda>r. request_to A u token r \<and> hr_body r = EmptyBody) (anchor_get_json A u protocol token)"
  unfolding anchor_get_json_def call_json_def
  by (rule sends_check) (auto simp: request_to_def intro!: sends_intros)

lemma sends_put_json:
  "sends (\<lambda>r. request_to A u (Some token) r \<and> hr_body r = JsonBody body) (anchor_put_json A u protocol token body)"
  unfolding anchor_put_json_def call_json_def
  by (rule sends_check) (auto simp: request_to_def intro!: sends_intros)

lemma sends_post_json:
  "sends (\<lambda>r. request_to A u None r \<and> hr_body r = JsonBody body) (anchor_post_json A u protocol body)"
  unfolding anchor_post_json_def call_json_def
  by (rule sends_check) (auto simp: request_to_def intro!: sends_intros)

lemma sends_get_text: "sends (\<lambda>r. request_to A u None r \<and> hr_body r = EmptyBody) (anchor_get_text A u label)"
  unfolding anchor_get_text_def Let_def
  by (rule sends_check) (auto simp: request_to_def intro!: sends_intros)

text \<open>A domain that passes is lower-case, has no trailing dot, and is a public DNS name.\<close>

lemma ends_with_append [simp]: "ends_with (s @ p) p"
  by (simp add: ends_with_def)

lemma canonical_home_domain_Inr:
  assumes "canonical_home_domain A raw = Inr d"
  obtains u host where "al_url_parse A (''https://'' @ trim_end_matches (CHR ''.'') (trim raw) @ ''/'') = Some u"
    "public_https u" "u_host u = Some (HostDomain host)" "u_port u = None" "u_path u = ''/''"
    "d = map to_ascii_lower (trim_end_matches (CHR ''.'') host)"
  using assms by (auto simp: canonical_home_domain_def Let_def and_then_Inr public_https_def split: if_splits)

lemma canonical_home_domain_external:
  assumes "canonical_home_domain A raw = Inr d"
  shows "is_external_dns_name d \<and> map to_ascii_lower d = d"
  using assms by (rule canonical_home_domain_Inr)
    (auto simp: public_https_def is_external_dns_name_def to_ascii_lower_idem o_def)

end
