(* ===== verification/Anchor.thy ===== *)
theory Anchor
  imports AnchorHttp "HOL-Library.Multiset"
begin

text \<open>
  SEP-12 customers of an anchor (anchor.rs): the status codes, queries and updates with their checks, the
  requests they send and the snapshot read from the answer.
\<close>

section \<open>Statuses\<close>

datatype anchor_customer_status = CustomerAccepted | CustomerProcessing | CustomerNeedsInfo | CustomerRejected

fun customer_status_label :: "anchor_customer_status \<Rightarrow> string" where
  "customer_status_label CustomerAccepted = ''ACCEPTED''"
| "customer_status_label CustomerProcessing = ''PROCESSING''"
| "customer_status_label CustomerNeedsInfo = ''NEEDS_INFO''"
| "customer_status_label CustomerRejected = ''REJECTED''"

definition customer_status_parse :: "string \<Rightarrow> anchor_customer_status result" where
  "customer_status_parse v =
     (if v = ''ACCEPTED'' then Inr CustomerAccepted
      else if v = ''PROCESSING'' then Inr CustomerProcessing
      else if v = ''NEEDS_INFO'' then Inr CustomerNeedsInfo
      else if v = ''REJECTED'' then Inr CustomerRejected
      else Inl (''SEP-12 returned unknown customer status: '' @ v))"

datatype anchor_field_status = FieldAccepted | FieldProcessing | FieldRejected | FieldVerificationRequired

fun field_status_label :: "anchor_field_status \<Rightarrow> string" where
  "field_status_label FieldAccepted = ''ACCEPTED''"
| "field_status_label FieldProcessing = ''PROCESSING''"
| "field_status_label FieldRejected = ''REJECTED''"
| "field_status_label FieldVerificationRequired = ''VERIFICATION_REQUIRED''"

definition field_status_parse :: "string \<Rightarrow> anchor_field_status result" where
  "field_status_parse v =
     (if v = ''ACCEPTED'' then Inr FieldAccepted
      else if v = ''PROCESSING'' then Inr FieldProcessing
      else if v = ''REJECTED'' then Inr FieldRejected
      else if v = ''VERIFICATION_REQUIRED'' then Inr FieldVerificationRequired
      else Inl (''SEP-12 returned unknown field status: '' @ v))"

section \<open>Customers, queries and updates\<close>

record anchor_customer_field =
  acf_name :: string
  acf_description :: "string option"
  acf_field_type :: "string option"
  acf_optional :: bool
  acf_choices :: "string list"
  acf_status :: "anchor_field_status option"
  acf_error :: "string option"

record anchor_customer_snapshot =
  acs_id :: "string option"
  acs_status :: anchor_customer_status
  acs_message :: "string option"
  acs_required_fields :: "anchor_customer_field list"
  acs_provided_fields :: "anchor_customer_field list"

record anchor_customer_query =
  acq_id :: "string option"
  acq_customer_type :: "string option"
  acq_transaction_id :: "string option"
  acq_lang :: "string option"

definition is_ascii_alphabetic :: "char \<Rightarrow> bool" where
  "is_ascii_alphabetic c \<longleftrightarrow> is_ascii_alphanumeric c \<and> \<not> is_ascii_digit c"

fun customer_ids_present :: "(string \<times> string option) list \<Rightarrow> unit result" where
  "customer_ids_present [] = Inr ()"
| "customer_ids_present ((label, v) # rest) =
     (if (\<exists>s. v = Some s \<and> trim s = []) then Inl (label @ '' must not be empty'') else customer_ids_present rest)"

definition customer_query_validate :: "anchor_customer_query \<Rightarrow> unit result" where
  "customer_query_validate q =
     and_then (customer_ids_present [(''customer id'', acq_id q), (''customer type'', acq_customer_type q),
         (''transaction id'', acq_transaction_id q)]) (\<lambda>_.
     and_then (ensure (\<not> (acq_transaction_id q \<noteq> None \<and> acq_customer_type q = None))
         ''SEP-12 transaction_id requires a customer type'') (\<lambda>_.
       case acq_lang q of
         Some lang \<Rightarrow>
           if length lang \<noteq> 2 \<or> \<not> list_all is_ascii_alphabetic lang
           then Inl ''SEP-12 lang must be a two-letter ISO 639-1 code'' else Inr ()
       | None \<Rightarrow> Inr ()))"

record anchor_customer_file =
  af_name :: string
  af_file_name :: string
  af_content_type :: "string option"
  af_bytes :: bytes

record anchor_customer_update =
  acu_id :: "string option"
  acu_customer_type :: "string option"
  acu_transaction_id :: "string option"
  acu_fields :: "(string \<times> string) list"
  acu_files :: "anchor_customer_file list"

definition customer_metadata_names :: "string list" where
  "customer_metadata_names = [''id'', ''type'', ''transaction_id'', ''account'', ''memo'', ''memo_type'', ''lang'']"

definition validate_field_name :: "string \<Rightarrow> unit result" where
  "validate_field_name raw =
     (let name = trim raw in
      if name = [] \<or> \<not> list_all (\<lambda>c. is_ascii_alphanumeric c \<or> c = CHR ''_'' \<or> c = CHR ''.'' \<or> c = CHR ''-'') name
      then Inl ''SEP-12 field name contains unsupported characters''
      else if name \<in> set customer_metadata_names
      then Inl (''SEP-12 field '' @ name @ '' is request metadata and must use the dedicated request option'')
      else Inr ())"

fun validate_update_fields :: "(string \<times> string) list \<Rightarrow> unit result" where
  "validate_update_fields [] = Inr ()"
| "validate_update_fields ((name, v) # rest) =
     and_then (validate_field_name name) (\<lambda>_.
     and_then (ensure (trim v \<noteq> []) (''SEP-12 field '' @ name @ '' must not be empty'')) (\<lambda>_.
       validate_update_fields rest))"

fun validate_update_files :: "(string \<times> string) list \<Rightarrow> anchor_customer_file list \<Rightarrow> unit result" where
  "validate_update_files texts [] = Inr ()"
| "validate_update_files texts (file # rest) =
     and_then (validate_field_name (af_name file)) (\<lambda>_.
     and_then (ensure (map_of texts (af_name file) = None)
         (''SEP-12 field '' @ af_name file @ '' cannot be both text and binary'')) (\<lambda>_.
     and_then (ensure (trim (af_file_name file) \<noteq> [] \<and> af_bytes file \<noteq> [])
         (''SEP-12 binary field '' @ af_name file @ '' is empty'')) (\<lambda>_.
       validate_update_files texts rest)))"

definition customer_update_validate :: "anchor_customer_update \<Rightarrow> unit result" where
  "customer_update_validate d =
     and_then (customer_query_validate \<lparr>acq_id = acu_id d, acq_customer_type = acu_customer_type d,
         acq_transaction_id = acu_transaction_id d, acq_lang = None\<rparr>) (\<lambda>_.
     and_then (ensure (\<not> (acu_fields d = [] \<and> acu_files d = []))
         ''SEP-12 customer update requires at least one field'') (\<lambda>_.
     and_then (validate_update_fields (acu_fields d)) (\<lambda>_.
       validate_update_files (acu_fields d) (acu_files d))))"

section \<open>Reading a customer\<close>

definition anchor_optional_text :: "json option \<Rightarrow> string option" where
  "anchor_optional_text v =
     Option.bind (Option.bind v as_str) (\<lambda>s. if trim s = [] then None else Some (trim s))"

fun field_choices :: "string \<Rightarrow> json list \<Rightarrow> string list result" where
  "field_choices name [] = Inr []"
| "field_choices name (choice # rest) =
     and_then (ok_or (''SEP-12 field '' @ name @ '' choice must be a string'') (as_str choice)) (\<lambda>c.
       map_ok (\<lambda>cs. c # cs) (field_choices name rest))"

text \<open>One turn of the loop over the fields.\<close>

definition parse_customer_field :: "string \<Rightarrow> json \<Rightarrow> anchor_customer_field result" where
  "parse_customer_field name raw =
     and_then (ok_or (''SEP-12 field '' @ name @ '' must be an object'') (as_object raw)) (\<lambda>spec.
     and_then (case map_of spec ''choices'' of
         None \<Rightarrow> Inr []
       | Some v \<Rightarrow>
           and_then (ok_or (''SEP-12 field '' @ name @ '' choices must be an array'') (as_array v)) (field_choices name)) (\<lambda>choices.
     and_then (case Option.bind (map_of spec ''status'') as_str of
         None \<Rightarrow> Inr None
       | Some s \<Rightarrow> map_ok Some (field_status_parse s)) (\<lambda>status.
       Inr \<lparr>acf_name = name, acf_description = anchor_optional_text (map_of spec ''description''),
            acf_field_type = anchor_optional_text (map_of spec ''type''),
            acf_optional = (Option.bind (map_of spec ''optional'') as_bool = Some True),
            acf_choices = choices, acf_status = status,
            acf_error = anchor_optional_text (map_of spec ''error'')\<rparr>)))"

fun parse_customer_fields :: "(string \<times> json) list \<Rightarrow> anchor_customer_field list result" where
  "parse_customer_fields [] = Inr []"
| "parse_customer_fields ((name, raw) # rest) =
     and_then (parse_customer_field name raw) (\<lambda>f. map_ok (\<lambda>fs. f # fs) (parse_customer_fields rest))"

definition parse_fields :: "json option \<Rightarrow> anchor_customer_field list result" where
  "parse_fields v =
     (case v of
        None \<Rightarrow> Inr []
      | Some j \<Rightarrow>
          and_then (ok_or ''SEP-12 customer fields must be an object'' (as_object j)) (\<lambda>m.
            map_ok (sort_key acf_name) (parse_customer_fields m)))"

definition parse_customer_snapshot :: "json \<Rightarrow> anchor_customer_snapshot result" where
  "parse_customer_snapshot v =
     and_then (ok_or ''SEP-12 customer response has no status'' (get_str v ''status'')) (\<lambda>status.
     and_then (customer_status_parse status) (\<lambda>s.
     and_then (parse_fields (json_get v ''fields'')) (\<lambda>required.
     and_then (parse_fields (json_get v ''provided_fields'')) (\<lambda>provided.
       Inr \<lparr>acs_id = anchor_optional_text (json_get v ''id''), acs_status = s,
            acs_message = anchor_optional_text (json_get v ''message''),
            acs_required_fields = required, acs_provided_fields = provided\<rparr>))))"

section \<open>Requests\<close>

definition customer_url :: "anchor_lib \<Rightarrow> string \<Rightarrow> url result" where
  "customer_url A server =
     and_then (ok_or ''SEP-12 server must be a valid HTTPS URL'' (al_url_parse A (trim server))) (\<lambda>u.
     and_then (validate_anchor_https_url u ''SEP-12 server'') (\<lambda>_.
     and_then (ensure (\<not> (u_query u \<noteq> None \<or> u_fragment u \<noteq> None))
         ''SEP-12 server must not contain a query or fragment'') (\<lambda>_.
       Inr (url_set_path A (trim_end_matches (CHR ''/'') (u_path u) @ ''/customer'') u))))"

definition sep12_success :: "nat \<times> json \<Rightarrow> json result" where
  "sep12_success = (\<lambda>(status, v).
     if http_success status then Inr v
     else Inl (''SEP-12 returned HTTP '' @ nat_to_dec status @ '': '' @
       (case anchor_optional_text (json_get v ''error'') of Some detail \<Rightarrow> detail | None \<Rightarrow> ''request failed'')))"

definition send_authenticated_json :: "anchor_lib \<Rightarrow> string \<Rightarrow> url \<Rightarrow> string \<Rightarrow> json option \<Rightarrow> json web" where
  "send_authenticated_json A request_method u token body =
     web_then (if request_method = ''GET'' then anchor_get_json A u ''SEP-12'' (Some token)
        else if request_method = ''PUT''
        then anchor_put_json A u ''SEP-12'' token (case body of Some b \<Rightarrow> b | None \<Rightarrow> JObject [])
        else web_of (Inl (''unsupported SEP-12 HTTP method: '' @ request_method)))
       (\<lambda>reply. web_of (sep12_success reply))"

definition optional_pair :: "string \<Rightarrow> string option \<Rightarrow> (string \<times> string) list" where
  "optional_pair name v = (case v of None \<Rightarrow> [] | Some s \<Rightarrow> [(name, s)])"

definition get_anchor_customer ::
  "anchor_lib \<Rightarrow> string \<Rightarrow> string \<Rightarrow> anchor_customer_query \<Rightarrow> anchor_customer_snapshot web" where
  "get_anchor_customer A server token q =
     web_then (web_of (customer_query_validate q)) (\<lambda>_.
     web_then (web_of (customer_url A server)) (\<lambda>u.
     web_then (send_authenticated_json A ''GET''
         (url_append_pairs A (optional_pair ''id'' (acq_id q) @ optional_pair ''type'' (acq_customer_type q) @
            optional_pair ''transaction_id'' (acq_transaction_id q) @ optional_pair ''lang'' (acq_lang q)) u)
         token None) (\<lambda>v.
       web_of (parse_customer_snapshot v))))"

definition update_pairs :: "anchor_customer_update \<Rightarrow> (string \<times> string) list" where
  "update_pairs d = optional_pair ''id'' (acu_id d) @ optional_pair ''type'' (acu_customer_type d) @
     optional_pair ''transaction_id'' (acu_transaction_id d)"

text \<open>Insertions into a JSON object, in order.\<close>

definition insert_texts :: "(string \<times> string) list \<Rightarrow> (string \<times> json) list \<Rightarrow> (string \<times> json) list" where
  "insert_texts pairs body = fold (\<lambda>(name, v). btree_insert name (JString v)) pairs body"

definition update_metadata :: "anchor_customer_update \<Rightarrow> (string \<times> json) list" where
  "update_metadata d = insert_texts (update_pairs d) []"

fun update_file_parts :: "anchor_lib \<Rightarrow> anchor_customer_file list \<Rightarrow> form_part list result" where
  "update_file_parts A [] = Inr []"
| "update_file_parts A (file # rest) =
     and_then (case af_content_type file of
         None \<Rightarrow> Inr ()
       | Some t \<Rightarrow> map_err (\<lambda>error. ''invalid MIME type for SEP-12 field '' @ af_name file @ '': '' @ error) (al_mime A t)) (\<lambda>_.
       map_ok (\<lambda>parts. FormFile (af_name file) (af_file_name file) (af_content_type file) (af_bytes file) # parts)
         (update_file_parts A rest))"

definition put_anchor_customer ::
  "anchor_lib \<Rightarrow> string \<Rightarrow> string \<Rightarrow> anchor_customer_update \<Rightarrow> string web" where
  "put_anchor_customer A server token d =
     web_then (web_of (customer_update_validate d)) (\<lambda>_.
     web_then (web_of (customer_url A server)) (\<lambda>u.
     web_then
       (if acu_files d = []
        then send_authenticated_json A ''PUT'' u token (Some (JObject (insert_texts (acu_fields d) (update_metadata d))))
        else web_then (web_of (update_file_parts A (acu_files d))) (\<lambda>parts.
             web_then (call_json A ''SEP-12'' u \<lparr>hr_method = ''PUT'', hr_url = al_url_text A u,
                 hr_authorization = Some (bearer token),
                 hr_body = FormBody (map (\<lambda>(name, v). FormText name v) (update_pairs d @ acu_fields d) @ parts)\<rparr>) (\<lambda>reply.
               web_of (sep12_success reply)))) (\<lambda>v.
       web_of (ok_or ''SEP-12 customer update returned no customer id'' (anchor_optional_text (json_get v ''id''))))))"

section \<open>What the checks give\<close>

lemma customer_status_roundtrip: "customer_status_parse v = Inr s \<longleftrightarrow> v = customer_status_label s"
  by (cases s) (auto simp: customer_status_parse_def split: if_splits)

lemma field_status_roundtrip: "field_status_parse v = Inr s \<longleftrightarrow> v = field_status_label s"
  by (cases s) (auto simp: field_status_parse_def split: if_splits)

lemma validate_field_name_Inr:
  "validate_field_name name = Inr u \<Longrightarrow> trim name \<noteq> [] \<and> trim name \<notin> set customer_metadata_names"
  by (auto simp: validate_field_name_def Let_def split: if_splits)

lemma validate_update_fields_Inr:
  "validate_update_fields fs = Inr u \<Longrightarrow> (name, v) \<in> set fs \<Longrightarrow> validate_field_name name = Inr () \<and> trim v \<noteq> []"
  by (induction fs rule: validate_update_fields.induct) (auto simp: and_then_Inr ensure_def split: if_splits)

lemma trim_metadata: "list_all (\<lambda>n. trim n = n) customer_metadata_names"
  unfolding customer_metadata_names_def by code_simp

lemma field_name_not_metadata:
  assumes "validate_field_name name = Inr u"
  shows "name \<notin> set customer_metadata_names"
  using validate_field_name_Inr [OF assms] trim_metadata by (auto simp: list_all_iff)

lemma map_of_insert_texts:
  "map_of (insert_texts pairs body) = map_of body ++ map_of (rev (map (\<lambda>(n, v). (n, JString v)) pairs))"
  unfolding insert_texts_def by (induction pairs arbitrary: body) (auto simp: map_add_def fun_eq_iff split: option.splits)

lemma update_pairs_metadata: "fst ` set (update_pairs d) \<subseteq> set customer_metadata_names"
  by (auto simp: update_pairs_def optional_pair_def customer_metadata_names_def split: option.splits)

lemma update_pairs_distinct: "distinct (map fst (update_pairs d))"
  by (auto simp: update_pairs_def optional_pair_def split: option.splits)

lemma customer_update_fields:
  assumes "customer_update_validate d = Inr u" "(name, v) \<in> set (acu_fields d)"
  shows "name \<notin> set customer_metadata_names" "trim v \<noteq> []"
proof -
  have "validate_update_fields (acu_fields d) = Inr ()"
    using assms(1) by (auto simp: customer_update_validate_def and_then_Inr split: if_splits)
  note ok = validate_update_fields_Inr [OF this assms(2)]
  then show "trim v \<noteq> []" by simp
  show "name \<notin> set customer_metadata_names" using ok by (intro field_name_not_metadata) simp
qed

text \<open>The snapshot lists each field of the answer once, in the order of their names.\<close>

lemma parse_customer_fields_names:
  "parse_customer_fields m = Inr fs \<Longrightarrow> map acf_name fs = map fst m"
  by (induction m arbitrary: fs rule: parse_customer_fields.induct)
    (auto simp: and_then_Inr map_ok_Inr parse_customer_field_def)

lemma parse_fields_sorted:
  "parse_fields (Some (JObject m)) = Inr fs \<Longrightarrow> sorted (map acf_name fs) \<and> mset (map acf_name fs) = mset (map fst m)"
  by (auto simp: parse_fields_def map_ok_Inr mset_map dest: parse_customer_fields_names) (metis mset_map parse_customer_fields_names)

end
