(* ===== verification/Coordinated.thy ===== *)
theory Coordinated
  imports Coordination
begin

text \<open>
  What coordinated signing does to a transaction: every turn of the signing loop adds one signature
  that is valid for the key it was asked for (locale \<open>key_signing\<close>, interpreted for the loop over
  providers and for the one over local wallets), and when every selected signer has signed, the
  ledger authorization plan is satisfied.
\<close>

section \<open>What a signing step does\<close>

text \<open>Laws: decoding gives back what was encoded; the two ways to read a public key agree.\<close>

definition xdr_codec :: "stellar_lib \<Rightarrow> bool" where
  "xdr_codec L \<longleftrightarrow>
     (\<forall>e b depth len e'. envelope_to_xdr L e = Inr b \<longrightarrow> envelope_from_xdr L b depth len = Inr e' \<longrightarrow> e' = e)"

definition signer_keys_agree :: "stellar_lib \<Rightarrow> bool" where
  "signer_keys_agree L \<longleftrightarrow>
     (\<forall>s k. public_key_from_string L s = Some k \<longrightarrow> signer_key_from_string L s = Some (SignerEd25519 k))"

definition signing_laws :: "stellar_lib \<Rightarrow> bool" where
  "signing_laws L \<longleftrightarrow> public_key_codec L \<and> public_key_text_plain L \<and> hash_excludes_signatures L \<and>
     ed25519_correct L \<and> xdr_codec L"

lemma xdr_codecD:
  "xdr_codec L \<Longrightarrow> transaction_envelope_xdr L e = Inr b \<Longrightarrow> parse_transaction_envelope_xdr L b = Inr e' \<Longrightarrow> e' = e"
  by (auto simp: xdr_codec_def transaction_envelope_xdr_def parse_transaction_envelope_xdr_def result_simps)

text \<open>
  \<open>decorated_by L np e key d\<close>: \<open>d\<close> is a valid signature of \<open>e\<close> by \<open>key\<close>;
  \<open>signed_by L np key e e'\<close>: \<open>e'\<close> is \<open>e\<close> with one more signature, made by \<open>key\<close>.
\<close>

definition decorated_by :: "stellar_lib \<Rightarrow> string \<Rightarrow> envelope \<Rightarrow> string \<Rightarrow> decorated_signature \<Rightarrow> bool" where
  "decorated_by L np e key d \<longleftrightarrow>
     (\<exists>k h. public_key_from_string L key = Some k \<and> verifying_key_valid L k \<and>
        transaction_hash L e np = Inr h \<and> ed25519_decorated L (signature_hint k) k h d)"

definition signed_by :: "stellar_lib \<Rightarrow> string \<Rightarrow> string \<Rightarrow> envelope \<Rightarrow> envelope \<Rightarrow> bool" where
  "signed_by L np key e e' \<longleftrightarrow>
     (\<exists>d. e' = with_signatures e (env_signatures e @ [d]) \<and> decorated_by L np e key d)"

lemma decorated_by_with_signatures [simp]:
  "hash_excludes_signatures L \<Longrightarrow> decorated_by L np (with_signatures e s) key d = decorated_by L np e key d"
  by (simp add: decorated_by_def transaction_hash_with_signatures)

lemma signed_by_signer:
  assumes "signing_laws L" "signs_64 s" "sign_transaction_envelope L e np s = Inr e'"
    and "public_key_from_string L (cs_public_key s) = public_key_from_string L key"
  shows "signed_by L np key e e'"
proof -
  from assms(1) have codec: "public_key_codec L" by (simp add: signing_laws_def)
  from assms(3) obtain h x sig k where h: "transaction_hash L e np = Inr h"
    and sig: "cs_sign_transaction s \<lparr>tsr_hash = h, tsr_xdr = x, tsr_network_passphrase = np\<rparr> = Inr sig"
    and k: "public_key_from_string L (cs_public_key s) = Some k" "verifying_key_valid L k"
      "verify_strict L k h sig"
    and e': "e' = with_signatures e (env_signatures e @ [\<lparr>sig_hint = take 4 (drop 28 k), sig_bytes = sig\<rparr>])"
    by (auto simp: sign_transaction_envelope_Inr)
  have "length sig = 64" using assms(2) sig by (auto simp: signs_64_def)
  then have "ed25519_decorated L (signature_hint k) k h \<lparr>sig_hint = take 4 (drop 28 k), sig_bytes = sig\<rparr>"
    using k(3) public_key_codecD(2) [OF codec k(1)] by (simp add: ed25519_decorated_def hint_of_key)
  with h k assms(4) e' show ?thesis by (auto simp: signed_by_def decorated_by_def)
qed

text \<open>Key operation of the core and of the SDK.\<close>

lemma client_sign_signed:
  assumes L: "signing_laws L" and e: "transaction_envelope_xdr L e = Inr xdr"
    and sign: "client_sign_transaction_xdr L C M v key address xdr np = Inr out"
    and e': "parse_transaction_envelope_xdr L out = Inr e'" and address: "trim address = address"
  shows "signed_by L np address e e'"
proof -
  have codec: "xdr_codec L" "public_key_codec L" and ed: "ed25519_correct L"
    using L by (simp_all add: signing_laws_def)
  from sign obtain e1 s e2 where e1: "parse_transaction_envelope_xdr L xdr = Inr e1"
    and s: "unlock_software_signer L C M v key address = Inr s"
    and e2: "sign_transaction_envelope L e1 np (software_classic L s) = Inr e2"
    and out: "transaction_envelope_xdr L e2 = Inr out"
    by (auto simp: client_sign_transaction_xdr_def sign_protected_transaction_envelope_def result_simps)
  have "e1 = e" using codec(1) e e1 by (rule xdr_codecD)
  moreover have "e' = e2" using codec(1) out e' by (rule xdr_codecD)
  moreover from unlock_software_signer_Inr [OF s] address obtain k
    where k: "public_key_from_string L address = Some k" "sw_public_key s = public_key_to_string L k"
    by auto
  then have "public_key_from_string L (cs_public_key (software_classic L s)) = public_key_from_string L address"
    using public_key_codecD [OF codec(2)] by (simp add: software_classic_def)
  ultimately show ?thesis
    using signed_by_signer [OF L software_signs_64 [OF ed]] e2 by blast
qed

lemma passcode_signing_is_client:
  assumes "sdk_sign_transaction_xdr_with_passcode B j pass address xdr np = Inr out"
  shows "\<exists>v key. client_sign_transaction_xdr (lib_stellar B) (lib_crypto B) (lib_mnemonic B) v key address xdr np = Inr out"
  using assms by (auto simp: sdk_sign_transaction_xdr_with_passcode_def result_simps)

lemma key_signing_is_client:
  assumes "sdk_sign_transaction_xdr B j key address xdr np = Inr out"
  shows "\<exists>v key. client_sign_transaction_xdr (lib_stellar B) (lib_crypto B) (lib_mnemonic B) v key address xdr np = Inr out"
  using assms by (auto simp: sdk_sign_transaction_xdr_def result_simps)

lemma record_signing_is_client:
  assumes "network_passphrase network = Inr np"
    and "sign_transaction_xdr_with_passcode B r network xdr pass = Inr out \<or>
      sign_transaction_xdr_with_unlock_key B r network xdr uk = Inr out"
  shows "\<exists>v key. client_sign_transaction_xdr (lib_stellar B) (lib_crypto B) (lib_mnemonic B) v key (wr_address r) xdr np = Inr out"
  using assms
  by (auto simp: sign_transaction_xdr_with_passcode_def sign_transaction_xdr_with_unlock_key_def result_simps
      split: if_splits dest: passcode_signing_is_client key_signing_is_client)

lemma parse_transaction_xdr_Inr:
  "parse_transaction_xdr L xdr = Inr e \<longleftrightarrow> parse_transaction_envelope_xdr L xdr = Inr e"
  by (simp add: parse_transaction_xdr_def)

lemma transaction_xdr_bytes_Inr:
  "transaction_xdr_bytes L e = Inr xdr \<longleftrightarrow> transaction_envelope_xdr L e = Inr xdr"
  by (simp add: transaction_xdr_bytes_def)

lemma record_signing_signed:
  assumes "signing_laws (lib_stellar B)" "network_passphrase network = Inr np"
    and "transaction_envelope_xdr (lib_stellar B) e = Inr xdr" "trim (wr_address r) = wr_address r"
    and "sign_transaction_xdr_with_passcode B r network xdr pass = Inr out \<or>
      sign_transaction_xdr_with_unlock_key B r network xdr uk = Inr out"
    and "parse_transaction_envelope_xdr (lib_stellar B) out = Inr e'"
  shows "signed_by (lib_stellar B) np (wr_address r) e e'"
  using record_signing_is_client [OF assms(2,5)] client_sign_signed [OF assms(1,3) _ assms(6,4)] by blast

lemma system_auth_step_Inr:
  assumes "sign_system_auth_step B network provider r key xdr = Inr e'"
  shows "\<exists>uk out. sign_transaction_xdr_with_unlock_key B r network xdr uk = Inr out \<and>
    parse_transaction_envelope_xdr (lib_stellar B) out = Inr e'"
proof -
  from assms obtain slot release where "system_auth_release_key provider slot = Inr release"
    and "(case release of
         ReleasedKey unlock_key \<Rightarrow>
           and_then (sign_transaction_xdr_with_unlock_key B r network xdr unlock_key)
             (parse_transaction_xdr (lib_stellar B))
       | PassphraseRequired \<Rightarrow> Inl local_software_passphrase_required
       | Cancelled \<Rightarrow> Inl ''System authentication cancelled''
       | ReleaseFailed error \<Rightarrow> Inl (''System authentication for '' @ key @ '' failed: '' @ error)) = Inr e'"
    unfolding sign_system_auth_step_def and_then_Inr map_err_Inr by blast
  then show ?thesis by (cases release) (auto simp: result_simps parse_transaction_xdr_Inr)
qed

lemma external_step_signed:
  assumes L: "signing_laws (lib_stellar B)" and key: "key = public_key_to_string (lib_stellar B) k" "length k = 32"
    and step: "sign_external_step B np provider key e = Inr e'"
  shows "signed_by (lib_stellar B) np key e e'"
proof -
  let ?L = "lib_stellar B"
  have codec: "xdr_codec ?L" "public_key_codec ?L" "public_key_text_plain ?L" and ed: "ed25519_correct ?L"
    using L by (simp_all add: signing_laws_def)
  from step obtain xdr sig out where xdr: "transaction_envelope_xdr ?L e = Inr xdr"
    and app: "sdk_apply_ed25519_signature B xdr np key sig = Inr out"
    and e': "parse_transaction_envelope_xdr ?L out = Inr e'"
    by (auto simp: sign_external_step_def parse_transaction_xdr_Inr transaction_xdr_bytes_Inr result_simps)
  from app obtain s e1 e2 where sig: "length sig = 64" and s: "external_new ?L key (\<lambda>_. Inr sig) = Inr s"
    and e1: "parse_transaction_envelope_xdr ?L xdr = Inr e1"
    and e2: "sign_transaction_envelope ?L e1 np (external_classic s) = Inr e2"
    and out: "transaction_envelope_xdr ?L e2 = Inr out"
    by (auto simp: sdk_apply_ed25519_signature_def client_apply_ed25519_signature_def signature_64_def
        result_simps split: if_splits)
  have "e1 = e" using codec(1) xdr e1 by (rule xdr_codecD)
  moreover have "e' = e2" using codec(1) out e' by (rule xdr_codecD)
  moreover have s': "s = \<lparr>ex_public_key = key, ex_sign_request = (\<lambda>_. Inr sig)\<rparr>"
    using s codec(2,3) key by (simp add: external_new_def public_key_text_plain_def public_key_codecD(1))
  then have "signs_64 (external_classic s)" using sig by (simp add: signs_64_def external_classic_def)
  ultimately show ?thesis
    using signed_by_signer [OF L _ e2, of key] s' by (simp add: external_classic_def)
qed

section \<open>The loop over the keys\<close>

text \<open>The contract of one turn, and what it gives for the loop, whatever the keys and wherever it stops.\<close>

locale key_signing =
  fixes law :: "'c \<Rightarrow> bool"
    and lib :: "'c \<Rightarrow> stellar_lib"
    and np :: "'c \<Rightarrow> string"
    and step :: "'c \<Rightarrow> string \<Rightarrow> envelope \<Rightarrow> envelope result"
  assumes laws: "law c \<Longrightarrow> signing_laws (lib c)"
    and step_signs: "law c \<Longrightarrow> step c key e = Inr e' \<Longrightarrow> signed_by (lib c) (np c) key e e'"
begin

lemma keys_signed:
  assumes "law c" "sign_keys (step c) keys e = (r, e')"
  shows "\<exists>signed ds. e' = with_signatures e (env_signatures e @ ds) \<and> prefix signed keys \<and>
    list_all2 (decorated_by (lib c) (np c) e) signed ds \<and> (r = Inr () \<longrightarrow> signed = keys)"
  using assms(2)
proof (induction keys arbitrary: e)
  case Nil
  then show ?case by (intro exI [of _ "[]"]) auto
next
  case (Cons key keys)
  show ?case
  proof (cases "step c key e")
    case (Inl error)
    with Cons.prems show ?thesis by (intro exI [of _ "[]"]) auto
  next
    case (Inr e1)
    from step_signs [OF assms(1) Inr] obtain d where
      d: "e1 = with_signatures e (env_signatures e @ [d])" "decorated_by (lib c) (np c) e key d"
      by (auto simp: signed_by_def)
    from Cons.IH [of e1] Cons.prems Inr obtain signed ds where
      IH: "e' = with_signatures e1 (env_signatures e1 @ ds)" "prefix signed keys"
      "list_all2 (decorated_by (lib c) (np c) e1) signed ds" "r = Inr () \<longrightarrow> signed = keys"
      by auto
    have "hash_excludes_signatures (lib c)" using laws [OF assms(1)] by (simp add: signing_laws_def)
    then have "decorated_by (lib c) (np c) e1 = decorated_by (lib c) (np c) e"
      by (intro ext) (simp add: d(1))
    with IH d show ?thesis by (intro exI [of _ "key # signed"] exI [of _ "d # ds"]) auto
  qed
qed

end

definition records_ok :: "(string \<rightharpoonup> wallet_record) \<Rightarrow> bool" where
  "records_ok records \<longleftrightarrow> (\<forall>key r. records key = Some r \<longrightarrow> wr_address r = key \<and> trim key = key)"

definition providers_ok :: "stellar_lib \<Rightarrow> (string \<rightharpoonup> external_provider) \<Rightarrow> bool" where
  "providers_ok L providers \<longleftrightarrow>
     (\<forall>key x. providers key = Some x \<longrightarrow> (\<exists>k. length k = 32 \<and> key = public_key_to_string L k))"

definition provider_signing_law where
  "provider_signing_law c \<longleftrightarrow>
     (case c of (B, network, np, records, system_auth :: string \<rightharpoonup> system_auth_provider, providers, passcode :: string option) \<Rightarrow>
        signing_laws (lib_stellar B) \<and> network_passphrase network = Inr np \<and> records_ok records \<and>
        providers_ok (lib_stellar B) providers)"

interpretation provider_signing: key_signing provider_signing_law
  "\<lambda>(B, network, np, records, system_auth, providers, passcode). lib_stellar B"
  "\<lambda>(B, network, np, records, system_auth, providers, passcode). np"
  "\<lambda>(B, network, np, records, system_auth, providers, passcode). sign_key_step B network np records system_auth providers passcode"
proof (unfold_locales, goal_cases)
  case (1 c)
  then show ?case by (auto simp: provider_signing_law_def)
next
  case (2 c key e e')
  obtain B network np records system_auth providers passcode where
    c: "c = (B, network, np, records, system_auth, providers, passcode)" by (cases c)
  from 2 have L: "signing_laws (lib_stellar B)" "network_passphrase network = Inr np"
    and ok: "records_ok records" "providers_ok (lib_stellar B) providers"
    and step: "sign_key_step B network np records system_auth providers passcode key e = Inr e'"
    by (auto simp: c provider_signing_law_def)
  have "signed_by (lib_stellar B) np key e e'"
  proof (cases "providers key")
    case (Some x)
    with ok(2) step show ?thesis
      by (auto simp: sign_key_step_def providers_ok_def intro: external_step_signed [OF L(1)])
  next
    case None
    with step obtain r xdr where r: "records key = Some r" and xdr: "transaction_envelope_xdr (lib_stellar B) e = Inr xdr"
      by (auto simp: sign_key_step_def transaction_xdr_bytes_Inr result_simps split: option.splits)
    from r ok(1) have key: "wr_address r = key" "trim (wr_address r) = wr_address r"
      by (auto simp: records_ok_def)
    obtain out uk pass where "sign_transaction_xdr_with_passcode B r network xdr pass = Inr out \<or>
        sign_transaction_xdr_with_unlock_key B r network xdr uk = Inr out"
      "parse_transaction_envelope_xdr (lib_stellar B) out = Inr e'"
      using step None r xdr
      by (auto simp: sign_key_step_def transaction_xdr_bytes_Inr parse_transaction_xdr_Inr result_simps
          split: option.split_asm dest!: system_auth_step_Inr)
    with record_signing_signed [OF L xdr key(2)] show ?thesis unfolding key(1) by blast
  qed
  then show ?case by (simp add: c)
qed

definition local_signing_law where
  "local_signing_law c \<longleftrightarrow>
     (case c of (B, network, np, records, passcode :: string) \<Rightarrow>
        signing_laws (lib_stellar B) \<and> network_passphrase network = Inr np \<and> records_ok records)"

interpretation local_signing: key_signing local_signing_law
  "\<lambda>(B, network, np, records, passcode). lib_stellar B"
  "\<lambda>(B, network, np, records, passcode). np"
  "\<lambda>(B, network, np, records, passcode). sign_local_step B network records passcode"
proof (unfold_locales, goal_cases)
  case (1 c)
  then show ?case by (auto simp: local_signing_law_def)
next
  case (2 c key e e')
  obtain B network np records passcode where c: "c = (B, network, np, records, passcode)" by (cases c)
  from 2 have L: "signing_laws (lib_stellar B)" "network_passphrase network = Inr np" and ok: "records_ok records"
    and step: "sign_local_step B network records passcode key e = Inr e'"
    by (auto simp: c local_signing_law_def)
  from step obtain r xdr out where r: "records key = Some r" and xdr: "transaction_envelope_xdr (lib_stellar B) e = Inr xdr"
    and out: "sign_transaction_xdr_with_passcode B r network xdr passcode = Inr out"
      "parse_transaction_envelope_xdr (lib_stellar B) out = Inr e'"
    by (auto simp: sign_local_step_def transaction_xdr_bytes_Inr parse_transaction_xdr_Inr result_simps
        split: option.splits)
  from r ok have "wr_address r = key" "trim (wr_address r) = wr_address r" by (auto simp: records_ok_def)
  with record_signing_signed [OF L xdr this(2)] out show ?case by (auto simp: c)
qed

section \<open>What is fixed before signing\<close>

lemma list_entries_valid:
  "list_entries L env disk entries = Inr rs \<Longrightarrow> list_all (\<lambda>r. validate_record L r = Inr ()) rs"
proof (induction entries arbitrary: rs)
  case (Cons entry entries)
  show ?case
  proof (cases entry)
    case (Inr name)
    show ?thesis
    proof (cases "ends_with ''.wallet.json'' name")
      case True
      with Cons.prems Inr obtain r rs' where "rs = r # rs'" "list_entries L env disk entries = Inr rs'"
        "validate_record L r = Inr ()"
        by (auto simp: result_simps split: option.split_asm wallet_file.split_asm)
      with Cons.IH show ?thesis by simp
    qed (use Cons Inr in auto)
  qed (use Cons in simp)
qed simp

lemma storage_list_valid:
  "storage_list L env disk = Inr rs \<Longrightarrow> r \<in> set rs \<Longrightarrow> validate_record L r = Inr ()"
  by (auto simp: storage_list_def result_simps list_all_iff dest!: list_entries_valid)

lemma account_parse_address: "account_parse L a = Inr i \<Longrightarrow> ai_address i = trim a"
proof -
  assume p: "account_parse L a = Inr i"
  then obtain k where "strkey_from_string L (trim a) = Some k" by (auto simp: account_parse_def Let_def result_simps)
  with p show ?thesis by (cases k) (auto simp: account_parse_def Let_def)
qed

lemma validate_record_address:
  "validate_record L r = Inr () \<Longrightarrow> trim (wr_address r) = wr_address r"
  by (auto simp: validate_record_def result_simps split: if_split_asm dest!: account_parse_address)

lemma local_records_ok:
  assumes "local_signing_records L env disk network = Inr records"
  shows "records_ok records"
proof -
  from assms obtain rs where rs: "storage_list L env disk = Inr rs"
    and records: "records = map_of (rev (map (\<lambda>r. (wr_address r, r))
         (filter (\<lambda>r. wr_network r = network \<and> \<not> watch_only r \<and> wr_secret r \<noteq> None) rs)))"
    by (auto simp: local_signing_records_def result_simps)
  have "wr_address r = key \<and> trim key = key" if "records key = Some r" for key r
    using map_of_SomeD [OF that [unfolded records]] validate_record_address [OF storage_list_valid [OF rs, of r]]
    by auto
  then show ?thesis by (simp add: records_ok_def)
qed

definition external_ok :: "stellar_lib \<Rightarrow> external_provider \<Rightarrow> bool" where
  "external_ok L x \<longleftrightarrow> (\<exists>t f. external_provider_new L t f = Inr x)"

lemma external_ok_key:
  "public_key_codec L \<Longrightarrow> external_ok L x \<Longrightarrow> \<exists>k. length k = 32 \<and> xp_public_key x = public_key_to_string L k"
  by (auto simp: external_ok_def external_provider_new_def result_simps dest: public_key_codecD(2))

lemma index_external_ok:
  assumes "index_external xs acc = Inr providers" "public_key_codec L" "list_all (external_ok L) xs" "providers_ok L acc"
  shows "providers_ok L providers \<and> dom providers = dom acc \<union> xp_public_key ` set xs"
  using assms
proof (induction xs arbitrary: acc)
  case (Cons x xs)
  let ?acc = "acc(xp_public_key x \<mapsto> x)"
  from Cons.prems have "external_ok L x" and xs: "list_all (external_ok L) xs"
    and rest: "index_external xs ?acc = Inr providers" by (simp_all split: if_split_asm)
  then have "providers_ok L ?acc"
    using external_ok_key [of L x] Cons.prems(2,4) by (auto simp: providers_ok_def)
  from Cons.IH [OF rest Cons.prems(2) xs this] show ?case by (auto simp del: fun_upd_apply)
qed simp

text \<open>A selected signer is a local record or an external provider, so the lookups cannot fail.\<close>

lemma prepare_signing_Inr:
  assumes "prepare_signing B env disk p satisfied excluded minimum network passcode sas xs =
      Inr (np, records, system_auth, providers, selected)"
    and "finite (lap_extra_signers p)"
  shows "network_passphrase network = Inr np \<and> local_signing_records (lib_stellar B) env disk network = Inr records \<and>
    index_external xs Map.empty = Inr providers \<and>
    (\<exists>current. selection p satisfied {key \<in> dom records \<union> dom providers. key \<notin> excluded} current selected \<and>
       plan_satisfiable_by p current)"
proof -
  from assms(1) have "select_ed25519_signers p satisfied {key \<in> dom records \<union> dom providers. key \<notin> excluded} minimum = Inr selected"
    and "network_passphrase network = Inr np" "local_signing_records (lib_stellar B) env disk network = Inr records"
    "index_external xs Map.empty = Inr providers"
    by (auto simp only: prepare_signing_def and_then_Inr sum.inject prod.inject)
  with select_ed25519_signers_Inr [OF _ assms(2)] show ?thesis by blast
qed

text \<open>The two lookups and the passcode that the loop takes for granted are there.\<close>

lemma prepared_lookups_succeed:
  assumes "prepare_signing B env disk p satisfied excluded minimum network passcode sas xs =
      Inr (np, records, system_auth, providers, selected)"
    and "finite (lap_extra_signers p)" "key \<in> set selected"
  shows "providers key \<noteq> None \<or> records key \<noteq> None \<and> (system_auth key \<noteq> None \<or> passcode \<noteq> None)"
proof (rule ccontr)
  assume bad: "\<not> ?thesis"
  from prepare_signing_Inr [OF assms(1,2)] assms(3) have "key \<in> dom records \<union> dom providers"
    by (auto simp: selection_def usable_def key_conditions_def)
  with bad have "providers key = None" "system_auth key = None" "passcode = None" by auto
  with assms(3) have local: "key \<in> set (filter (\<lambda>key. providers key = None \<and> system_auth key = None) selected)" by simp
  from assms(1) obtain u where "(let local_selected = filter (\<lambda>key. providers key = None \<and> system_auth key = None) selected
        in if local_selected = [] then Inr ()
           else and_then (ok_or local_software_passphrase_required passcode) (\<lambda>pass.
             verify_selected B records pass local_selected)) = Inr u"
    unfolding prepare_signing_def and_then_Inr sum.inject prod.inject by blast
  with local \<open>passcode = None\<close> show False by (auto simp: Let_def filter_empty_conv split: if_split_asm)
qed

lemma selection_keys:
  "selection p satisfied available current selected \<Longrightarrow>
     current = satisfied \<union> key_conditions selected \<and> distinct selected \<and> set selected \<subseteq> available \<and>
     key_conditions selected \<subseteq> signer_conditions p - satisfied"
  by (auto simp: selection_def usable_def key_conditions_def)

lemma key_conditions_prefix: "prefix xs ys \<Longrightarrow> key_conditions xs \<subseteq> key_conditions ys"
  by (auto simp: key_conditions_def dest: set_mono_prefix)

lemma prepared_law:
  assumes "signing_laws (lib_stellar B)" "list_all (external_ok (lib_stellar B)) xs"
    and "network_passphrase network = Inr np" "local_signing_records (lib_stellar B) env disk network = Inr records"
    and "index_external xs Map.empty = Inr providers"
  shows "provider_signing_law (B, network, np, records, system_auth, providers, passcode)"
  using assms index_external_ok [OF assms(5) _ assms(2)] local_records_ok [OF assms(4)]
  by (simp add: provider_signing_law_def signing_laws_def providers_ok_def)

text \<open>The effect of the coordinator on the envelope.\<close>

lemma needed_signed:
  assumes "signing_laws (lib_stellar B)" "list_all (external_ok (lib_stellar B)) xs" "finite (lap_extra_signers p)"
    and "sign_needed_with_ed25519_providers B env disk p satisfied excluded minimum network passcode sas xs e = (r, e')"
  shows "\<exists>keys ds. e' = with_signatures e (env_signatures e @ ds) \<and> distinct keys \<and>
    key_conditions keys \<subseteq> signer_conditions p - satisfied \<and> set keys \<inter> excluded = {} \<and>
    (\<forall>np. network_passphrase network = Inr np \<longrightarrow> list_all2 (decorated_by (lib_stellar B) np e) keys ds) \<and>
    (r = Inr () \<longrightarrow> plan_satisfiable_by p (satisfied \<union> key_conditions keys))"
proof (cases "prepare_signing B env disk p satisfied excluded minimum network passcode sas xs")
  case (Inl error)
  with assms(4) show ?thesis
    by (intro exI [of _ "[]"]) (auto simp: sign_needed_with_ed25519_providers_def key_conditions_def)
next
  case (Inr t)
  obtain np records system_auth providers selected where
    t: "t = (np, records, system_auth, providers, selected)" by (cases t)
  from prepare_signing_Inr [OF Inr [unfolded t] assms(3)] obtain current where
    np: "network_passphrase network = Inr np"
    and rest: "local_signing_records (lib_stellar B) env disk network = Inr records"
      "index_external xs Map.empty = Inr providers"
    and sel: "selection p satisfied {key \<in> dom records \<union> dom providers. key \<notin> excluded} current selected"
    and sat: "plan_satisfiable_by p current" by blast
  have "sign_keys (sign_key_step B network np records system_auth providers passcode) selected e = (r, e')"
    using assms(4) Inr by (simp add: t sign_needed_with_ed25519_providers_def)
  with provider_signing.keys_signed [OF prepared_law [OF assms(1,2) np rest], of system_auth passcode selected e r e']
  obtain signed ds where s: "e' = with_signatures e (env_signatures e @ ds)" "prefix signed selected"
    "list_all2 (decorated_by (lib_stellar B) np e) signed ds" "r = Inr () \<longrightarrow> signed = selected"
    by auto
  from selection_keys [OF sel] key_conditions_prefix [OF s(2)] set_mono_prefix [OF s(2)] sat s np show ?thesis
    by (intro exI [of _ signed] exI [of _ ds]) (auto simp: prefix_def)
qed

section \<open>The authorization after signing\<close>

lemma satisfies_signer_key_total:
  "hash_excludes_signatures L \<Longrightarrow> satisfies_signer_key L e np k = Inr b \<Longrightarrow>
     \<exists>b'. satisfies_signer_key L (with_signatures e s) np k = Inr b'"
  by (cases k) (auto simp: transaction_hash_with_signatures result_simps split: if_splits)

lemma condition_satisfied_total:
  "hash_excludes_signatures L \<Longrightarrow> condition_satisfied L e np c = Inr b \<Longrightarrow>
     \<exists>b'. condition_satisfied L (with_signatures e s) np c = Inr b'"
  using satisfies_signer_key_total [of L e np _ b s]
  by (auto simp: condition_satisfied_def result_simps)

lemma decorated_condition:
  assumes "signing_laws L" "signer_keys_agree L" "decorated_by L np e key d" "d \<in> set sigs"
  shows "condition_satisfied L (with_signatures e sigs) np (Condition Ed25519PublicKey key) = Inr True"
proof -
  have "hash_excludes_signatures L" using assms(1) by (simp add: signing_laws_def)
  moreover from assms(3) obtain k h where "public_key_from_string L key = Some k" "verifying_key_valid L k"
    "transaction_hash L e np = Inr h" "ed25519_decorated L (signature_hint k) k h d"
    by (auto simp: decorated_by_def)
  ultimately show ?thesis
    using assms(2,4)
    by (auto simp: condition_satisfied_def signer_keys_agree_def transaction_hash_with_signatures list_ex_iff)
qed

lemma satisfied_after_signing:
  assumes L: "signing_laws L" "signer_keys_agree L" and fin: "finite (lap_extra_signers p)"
    and S: "satisfied_transaction_conditions L p e np = Inr S"
    and ds: "list_all2 (decorated_by L np e) keys ds" "key_conditions keys \<subseteq> signer_conditions p"
  shows "\<exists>S'. satisfied_transaction_conditions L p (with_signatures e (env_signatures e @ ds)) np = Inr S' \<and>
    S \<union> key_conditions keys \<subseteq> S'"
proof -
  let ?e = "with_signatures e (env_signatures e @ ds)"
  have hash: "hash_excludes_signatures L" using L(1) by (simp add: signing_laws_def)
  let ?S = "{c \<in> signer_conditions p. condition_satisfied L ?e np c = Inr True}"
  have S': "satisfied_transaction_conditions L p ?e np = Inr ?S"
    using S condition_satisfied_total [OF hash, of e np] by (fastforce simp: satisfied_transaction_conditions_Inr [OF fin])
  have "S \<subseteq> ?S" using satisfied_conditions_mono [OF hash fin _ S S'] by simp
  moreover have "key_conditions keys \<subseteq> ?S"
  proof
    fix c
    assume c: "c \<in> key_conditions keys"
    then obtain i where i: "i < length keys" "c = Condition Ed25519PublicKey (keys ! i)"
      by (auto simp: key_conditions_def in_set_conv_nth)
    with ds(1) have "decorated_by L np e (keys ! i) (ds ! i)" "ds ! i \<in> set (env_signatures e @ ds)"
      by (auto simp: list_all2_conv_all_nth)
    from decorated_condition [OF L this] c ds(2) i show "c \<in> ?S" by auto
  qed
  ultimately show ?thesis using S' by blast
qed

text \<open>The coordinator's own last check passes.\<close>

lemma coordination_check_passes:
  assumes "signing_laws (lib_stellar B)" "signer_keys_agree (lib_stellar B)"
    and "list_all (external_ok (lib_stellar B)) xs" "finite (lap_extra_signers p)"
    and "network_passphrase network = Inr np"
    and "satisfied_transaction_conditions (lib_stellar B) p e np = Inr S"
    and step: "sign_needed_with_ed25519_providers B env disk p S {} 0 network passcode sas xs e = (Inr (), e')"
  shows "sign_with_ed25519_providers B env disk p network passcode sas xs e = (Inr (), e')"
proof -
  from needed_signed [OF assms(1,3,4) step] assms(5) obtain keys ds where
    keys: "e' = with_signatures e (env_signatures e @ ds)" "key_conditions keys \<subseteq> signer_conditions p - S"
      "list_all2 (decorated_by (lib_stellar B) np e) keys ds" "plan_satisfiable_by p (S \<union> key_conditions keys)"
    by blast
  from satisfied_after_signing [OF assms(1,2,4,6) keys(3)] keys(2) obtain S' where
    S': "satisfied_transaction_conditions (lib_stellar B) p e' np = Inr S'" "S \<union> key_conditions keys \<subseteq> S'"
    unfolding keys(1) by blast
  with plan_satisfiable_mono [OF S'(2) keys(4)] have "ensure_coordinated (lib_stellar B) p np e' = Inr ()"
    by (simp add: ensure_coordinated_def)
  then show ?thesis using assms(5,6) step by (simp add: sign_with_ed25519_providers_def)
qed

section \<open>Properties\<close>

text \<open>C1. Whatever the keystores and external providers do, and whether it succeeds or stops half
  way, coordinated signing only adds signatures to the transaction it was given: one per signer it
  asked, each valid for that signer's key, each asked signer being a signer of the plan that had not
  signed yet. It reports success only when the signed transaction satisfies the plan.\<close>

theorem coordinated_signing_sound:
  assumes "signing_laws (lib_stellar B)" "list_all (external_ok (lib_stellar B)) xs" "finite (lap_extra_signers p)"
    and "network_passphrase network = Inr np"
    and "satisfied_transaction_conditions (lib_stellar B) p e np = Inr S"
    and "sign_with_ed25519_providers B env disk p network passcode sas xs e = (r, e')"
  shows "\<exists>keys ds. e' = with_signatures e (env_signatures e @ ds) \<and> distinct keys \<and>
    list_all2 (decorated_by (lib_stellar B) np e) keys ds \<and> key_conditions keys \<subseteq> signer_conditions p - S \<and>
    (r = Inr () \<longrightarrow> (\<exists>S'. satisfied_transaction_conditions (lib_stellar B) p e' np = Inr S' \<and> plan_satisfiable_by p S'))"
proof -
  obtain r1 e1 where step: "sign_needed_with_ed25519_providers B env disk p S {} 0 network passcode sas xs e = (r1, e1)"
    by (metis surj_pair)
  from needed_signed [OF assms(1-3) step] assms(4) obtain keys ds where
    keys: "e1 = with_signatures e (env_signatures e @ ds)" "distinct keys"
      "key_conditions keys \<subseteq> signer_conditions p - S" "list_all2 (decorated_by (lib_stellar B) np e) keys ds"
    by blast
  have "e' = e1" "r = Inr () \<Longrightarrow> ensure_coordinated (lib_stellar B) p np e1 = Inr ()"
    using assms(4-6) step by (auto simp: sign_with_ed25519_providers_def split: sum.splits)
  with keys show ?thesis by (auto simp: ensure_coordinated_def result_simps)
qed

text \<open>C2. The coordinator's own last check never fails: once every selected signer has signed, the
  transaction satisfies its plan, so signing succeeds exactly when the selection and each of the
  selected signers do.\<close>

theorem coordinated_signing_succeeds:
  assumes "signing_laws (lib_stellar B)" "signer_keys_agree (lib_stellar B)"
    and "list_all (external_ok (lib_stellar B)) xs" "finite (lap_extra_signers p)"
    and "network_passphrase network = Inr np"
    and "satisfied_transaction_conditions (lib_stellar B) p e np = Inr S"
  shows "fst (sign_with_ed25519_providers B env disk p network passcode sas xs e) = Inr () \<longleftrightarrow>
    fst (sign_needed_with_ed25519_providers B env disk p S {} 0 network passcode sas xs e) = Inr ()"
proof -
  obtain r1 e1 where step: "sign_needed_with_ed25519_providers B env disk p S {} 0 network passcode sas xs e = (r1, e1)"
    by (metis surj_pair)
  with coordination_check_passes [OF assms, of env disk passcode sas e1] assms(5,6) show ?thesis
    by (cases r1) (auto simp: sign_with_ed25519_providers_def)
qed

section \<open>Examples\<close>

text \<open>The library of the examples with an XDR encoding: one byte per signature, which names the key.\<close>

definition demo_decorated :: "8 word \<Rightarrow> decorated_signature" where
  "demo_decorated w = \<lparr>sig_hint = replicate 4 w, sig_bytes = demo_pad 64 (replicate 32 w)\<rparr>"

definition demo_xdr_decode :: "bytes \<Rightarrow> envelope" where
  "demo_xdr_decode b = EnvTx (demo_tx [BumpSequenceOp 2]) (map demo_decorated b)"

definition demo_xdr_lib :: stellar_lib where
  "demo_xdr_lib = demo_lib\<lparr>
     envelope_to_xdr := (\<lambda>e. let b = map (hd \<circ> sig_bytes) (env_signatures e)
       in if demo_xdr_decode b = e then Inr b else Inl ''unknown''),
     envelope_from_xdr := (\<lambda>b depth len. Inr (demo_xdr_decode b)) \<rparr>"

definition demo_sdk :: sdk_libs where
  "demo_sdk = \<lparr>lib_stellar = demo_xdr_lib, lib_soroban = demo_soroban_lib, lib_crypto = demo_crypto,
     lib_mnemonic = demo_mnemonics, lib_json_to_string = (\<lambda>_. Inl ''none''), lib_json_from_string = (\<lambda>_. Inl ''none'')\<rparr>"

definition demo_external :: external_provider where
  "demo_external = \<lparr>xp_public_key = demo_key_text demo_key, xp_sign = (\<lambda>_. Inr (demo_pad 64 demo_key))\<rparr>"

lemma demo_sdk_lib [simp]: "lib_stellar demo_sdk = demo_xdr_lib"
  by (simp add: demo_sdk_def)

lemma demo_xdr_lib_fields:
  "strkey_from_string demo_xdr_lib = strkey_from_string demo_lib"
  "public_key_from_string demo_xdr_lib = demo_parse_key"
  "public_key_to_string demo_xdr_lib = demo_key_text"
  "signer_key_from_string demo_xdr_lib = demo_parse_signer_key"
  "verifying_key_valid demo_xdr_lib = (\<lambda>_. True)"
  "verify_strict demo_xdr_lib = (\<lambda>k m s. s = demo_pad 64 k)"
  "verifying_key_of demo_xdr_lib = demo_pad 32"
  "ed25519_sign demo_xdr_lib = (\<lambda>sk m. demo_pad 64 (demo_pad 32 sk))"
  "sha256 demo_xdr_lib = demo_pad 32"
  "envelope_hash demo_xdr_lib = demo_hash"
  by (simp_all add: demo_xdr_lib_def demo_lib_def)

lemma demo_xdr_laws: "signing_laws demo_xdr_lib"
proof -
  have "xdr_codec demo_xdr_lib"
    by (auto simp: xdr_codec_def demo_xdr_lib_def Let_def split: if_splits)
  then show ?thesis
    using demo_hypotheses
    by (simp add: signing_laws_def public_key_codec_def public_key_text_plain_def hash_excludes_signatures_def
        ed25519_correct_def demo_xdr_lib_fields)
qed

lemma demo_keys_agree: "signer_keys_agree demo_xdr_lib"
  by (auto simp: signer_keys_agree_def demo_xdr_lib_fields demo_parse_key_def demo_parse_signer_key_def
      split: if_splits)

lemma demo_external_ok: "list_all (external_ok demo_xdr_lib) [demo_external]"
proof -
  have "trim (demo_key_text demo_key) = demo_key_text demo_key"
    using demo_public_key_text_plain by (simp add: public_key_text_plain_def)
  then have "external_provider_new demo_xdr_lib (demo_key_text demo_key) (\<lambda>_. Inr (demo_pad 64 demo_key)) = Inr demo_external"
    by (simp add: external_provider_new_def demo_xdr_lib_fields demo_external_def)
  then show ?thesis by (auto simp: external_ok_def)
qed

lemma demo_signer_key: "demo_parse_signer_key (demo_key_text demo_key) = Some (SignerEd25519 demo_key)"
  using demo_signer_key_parse by (simp add: demo_lib_def)

lemma demo_unsigned: "satisfied_transaction_conditions demo_xdr_lib demo_plan demo_env np = Inr {}"
  by (simp add: satisfied_transaction_conditions_Inr [OF demo_plan_finite] demo_conditions condition_satisfied_def
      demo_xdr_lib_fields transaction_hash_def demo_hash_def demo_env_signatures demo_signer_key) blast

lemma demo_no_records: "local_signing_records demo_xdr_lib demo_wallet_env empty_wallet_disk ''testnet'' = Inr Map.empty"
  by (simp add: local_signing_records_def storage_list_def demo_wallet_env_def empty_wallet_disk_def)

lemma demo_selects_one: "select_ed25519_signers demo_plan {} {demo_key_text demo_key} 0 = Inr [demo_key_text demo_key]"
  by (simp add: select_ed25519_signers_def demo_plan_def demo_account_def select_for.simps
      available_weight_def best_available_signer_def is_candidate_def select_proofs.simps)

lemma demo_prepared:
  "prepare_signing demo_sdk demo_wallet_env empty_wallet_disk demo_plan {} {} 0 ''testnet'' None [] [demo_external] =
     Inr (testnet_passphrase, Map.empty, Map.empty, [demo_key_text demo_key \<mapsto> demo_external], [demo_key_text demo_key])"
  by (simp add: prepare_signing_def network_passphrase_def demo_no_records demo_external_def demo_selects_one)

lemma demo_codec:
  "transaction_envelope_xdr demo_xdr_lib (demo_xdr_decode b) = Inr b"
  "parse_transaction_envelope_xdr demo_xdr_lib b = Inr (demo_xdr_decode b)"
proof -
  have "hd (sig_bytes (demo_decorated w)) = w" for w
    by (simp add: demo_decorated_def demo_pad_def numeral_eq_Suc)
  then show "transaction_envelope_xdr demo_xdr_lib (demo_xdr_decode b) = Inr b"
    by (simp add: transaction_envelope_xdr_def demo_xdr_lib_def demo_xdr_decode_def Let_def map_idI)
  show "parse_transaction_envelope_xdr demo_xdr_lib b = Inr (demo_xdr_decode b)"
    by (simp add: parse_transaction_envelope_xdr_def demo_xdr_lib_def)
qed

lemma demo_external_signs:
  "sign_external_step demo_sdk np demo_external (demo_key_text demo_key) (demo_xdr_decode []) = Inr (demo_xdr_decode [7])"
proof -
  have plain: "trim (demo_key_text demo_key) = demo_key_text demo_key"
    using demo_public_key_text_plain by (simp add: public_key_text_plain_def)
  have d: "\<lparr>sig_hint = take 4 (drop 28 demo_key), sig_bytes = demo_pad 64 demo_key\<rparr> = demo_decorated 7"
    by (simp add: demo_decorated_def demo_key_def numeral_eq_Suc)
  have hash: "transaction_hash demo_xdr_lib e np = Inr (demo_pad 32 (case e of EnvTx t _ \<Rightarrow> [of_nat (length (tx_operations t))] | _ \<Rightarrow> []))" for e
    by (simp add: transaction_hash_def demo_xdr_lib_fields demo_hash_def)
  have sign: "sign_transaction_envelope demo_xdr_lib (demo_xdr_decode []) np
      (external_classic \<lparr>ex_public_key = demo_key_text demo_key, ex_sign_request = \<lambda>_. Inr (demo_pad 64 demo_key)\<rparr>) =
      Inr (demo_xdr_decode [7])"
    using d demo_codec(1) [of "[]"]
    unfolding sign_transaction_envelope_Inr
    by (simp add: hash external_classic_def demo_xdr_lib_fields max_signature_bytes_def max_signatures_def
        transaction_envelope_xdr_def)
      (simp add: demo_xdr_decode_def)
  show ?thesis
    by (simp add: sign_external_step_def transaction_xdr_bytes_def demo_codec sdk_prepare_ed25519_signing_def
        client_prepare_ed25519_signing_def hash sdk_apply_ed25519_signature_def client_apply_ed25519_signature_def
        signature_64_def external_new_def plain demo_xdr_lib_fields sign parse_transaction_xdr_def)
      (simp add: demo_external_def sign external_new_def plain demo_xdr_lib_fields demo_codec)
qed

lemma demo_coordinated:
  "sign_needed_with_ed25519_providers demo_sdk demo_wallet_env empty_wallet_disk demo_plan {} {} 0 ''testnet'' None
     [] [demo_external] demo_env = (Inr (), demo_xdr_decode [7])"
proof -
  have "demo_env = demo_xdr_decode []" by (simp add: demo_env_def demo_xdr_decode_def)
  with demo_external_signs show ?thesis
    by (simp add: sign_needed_with_ed25519_providers_def demo_prepared sign_key_step_def)
qed

lemma demo_testnet: "network_passphrase ''testnet'' = Inr testnet_passphrase"
  by (simp add: network_passphrase_def)

lemma demo_coordinated_ok:
  "sign_with_ed25519_providers demo_sdk demo_wallet_env empty_wallet_disk demo_plan ''testnet'' None [] [demo_external]
     demo_env = (Inr (), demo_xdr_decode [7])"
  using coordination_check_passes [of demo_sdk, unfolded demo_sdk_lib,
      OF demo_xdr_laws demo_keys_agree demo_external_ok demo_plan_finite demo_testnet demo_unsigned demo_coordinated] .

lemmas demo_coordination = demo_xdr_laws demo_external_ok demo_plan_finite demo_testnet demo_unsigned

theorem coordinated_signing_succeeds_witness:
  "fst (sign_with_ed25519_providers demo_sdk demo_wallet_env empty_wallet_disk demo_plan ''testnet'' None []
     [demo_external] demo_env) = Inr ()"
  using coordinated_signing_succeeds [of demo_sdk, unfolded demo_sdk_lib,
      OF demo_xdr_laws demo_keys_agree demo_external_ok demo_plan_finite demo_testnet demo_unsigned]
  by (simp add: demo_coordinated)

theorem coordinated_signing_sound_witness:
  "\<exists>ds. snd (sign_with_ed25519_providers demo_sdk demo_wallet_env empty_wallet_disk demo_plan ''testnet'' None []
     [demo_external] demo_env) = with_signatures demo_env ds"
  using coordinated_signing_sound [of demo_sdk, unfolded demo_sdk_lib, OF demo_coordination
      surjective_pairing] by blast

end
