(* ===== verification/Contacts.thy ===== *)
theory Contacts
  imports Sdk "HOL-Library.List_Lexorder" "HOL-Library.Char_ord"
begin

text \<open>
  contacts.rs: the address book, a JSON file of named classic accounts with an optional memo, and the
  resolution of a payment's destination through it.

  The state is what reading and decoding the file gives. The file system, the JSON encoder and
  Unicode lower case are the record \<open>contact_env\<close>; the temporary file of \<open>save\<close> is never read.
\<close>

section \<open>State and environment\<close>

record contact =
  ct_name :: string
  ct_address :: string
  ct_memo :: "string option"

record resolved_destination =
  rd_address :: string
  rd_memo :: "string option"
  rd_contact_name :: "string option"

datatype contact_file = NoContacts | BadContacts | ContactsFile "contact list"

record contact_env =
  ce_path :: string
  ce_create_parent :: "unit result"
  ce_encode :: "contact list \<Rightarrow> unit result"
  ce_write :: "unit result"
  ce_restrict :: "unit result"
  ce_rename :: "unit result"
  ce_lowercase :: "string \<Rightarrow> string"

section \<open>Operations\<close>

definition normalize_contact ::
  "sdk_libs \<Rightarrow> string \<Rightarrow> string \<Rightarrow> string option \<Rightarrow> contact result" where
  "normalize_contact B name address m =
     (let name = trim name; address = trim address
      in if name = [] then Inl ''Contact name cannot be empty''
         else and_then (map_err (\<lambda>_. ''Contact address is not a valid Stellar G... account'')
             (sdk_parse_account B address)) (\<lambda>identity.
           if ai_kind identity \<noteq> Classic \<or> ai_address identity \<noteq> address
           then Inl ''Contact address is not a valid Stellar G... account''
           else Inr \<lparr>ct_name = name, ct_address = address,
             ct_memo = (case m of None \<Rightarrow> None | Some v \<Rightarrow> if trim v = [] then None else Some (trim v))\<rparr>))"

definition name_key :: "contact_env \<Rightarrow> string \<Rightarrow> string" where
  "name_key env name = ce_lowercase env (trim name)"

definition name_key_checked :: "contact_env \<Rightarrow> string \<Rightarrow> string result" where
  "name_key_checked env name =
     (if trim name = [] then Inl ''Contact name cannot be empty'' else Inr (name_key env name))"

fun normalize_all ::
  "sdk_libs \<Rightarrow> contact_env \<Rightarrow> contact list \<Rightarrow> string list \<Rightarrow> contact list \<Rightarrow> contact list result" where
  "normalize_all B env [] seen contacts = Inr contacts"
| "normalize_all B env (v # vs) seen contacts =
     and_then (map_err (\<lambda>_. ''Contact address book is malformed'')
         (normalize_contact B (ct_name v) (ct_address v) (ct_memo v))) (\<lambda>c.
       if name_key env (ct_name c) \<in> set seen then Inl ''Contact address book contains duplicate names''
       else normalize_all B env vs (seen @ [name_key env (ct_name c)]) (contacts @ [c]))"

definition contacts_load :: "sdk_libs \<Rightarrow> contact_env \<Rightarrow> contact_file \<Rightarrow> contact list result" where
  "contacts_load B env file =
     (case file of
        NoContacts \<Rightarrow> Inr []
      | BadContacts \<Rightarrow> Inl (''Unable to read contacts: '' @ ce_path env)
      | ContactsFile raw \<Rightarrow> normalize_all B env raw [] [])"

definition contacts_save :: "contact_env \<Rightarrow> contact list \<Rightarrow> contact_file \<Rightarrow> unit result \<times> contact_file" where
  "contacts_save env contacts file =
     (let failed = ''Unable to write contacts: '' @ ce_path env
      in case and_then (map_err (\<lambda>_. failed) (ce_create_parent env)) (\<lambda>_.
           and_then (map_err (\<lambda>_. failed) (ce_encode env contacts)) (\<lambda>_.
           and_then (map_err (\<lambda>_. failed) (ce_write env)) (\<lambda>_.
           and_then (map_err (\<lambda>_. ''Unable to protect contacts file'') (ce_restrict env)) (\<lambda>_.
             map_err (\<lambda>_. failed) (ce_rename env))))) of
           Inl error \<Rightarrow> (Inl error, file)
         | Inr _ \<Rightarrow> (Inr (), ContactsFile contacts))"

definition contacts_list :: "sdk_libs \<Rightarrow> contact_env \<Rightarrow> contact_file \<Rightarrow> contact list result" where
  "contacts_list B env file =
     map_ok (sort_key (\<lambda>c. name_key env (ct_name c))) (contacts_load B env file)"

definition contacts_find ::
  "sdk_libs \<Rightarrow> contact_env \<Rightarrow> string \<Rightarrow> contact_file \<Rightarrow> contact option result" where
  "contacts_find B env name file =
     and_then (name_key_checked env name) (\<lambda>key.
       map_ok (find (\<lambda>c. name_key env (ct_name c) = key)) (contacts_load B env file))"

definition contacts_add ::
  "sdk_libs \<Rightarrow> contact_env \<Rightarrow> string \<Rightarrow> string \<Rightarrow> string option \<Rightarrow> contact_file \<Rightarrow> contact result \<times> contact_file" where
  "contacts_add B env name address m file =
     (case and_then (normalize_contact B name address m) (\<lambda>c.
        and_then (contacts_load B env file) (\<lambda>contacts.
          if list_ex (\<lambda>x. name_key env (ct_name x) = name_key env (ct_name c)) contacts
          then Inl (''Contact already exists: '' @ ct_name c)
          else Inr (c, contacts @ [c]))) of
        Inl error \<Rightarrow> (Inl error, file)
      | Inr (c, contacts) \<Rightarrow>
          (case contacts_save env contacts file of
             (Inl error, file') \<Rightarrow> (Inl error, file')
           | (Inr _, file') \<Rightarrow> (Inr c, file')))"

text \<open>\<open>Vec::remove\<close> at the position of the first match.\<close>

fun remove_first :: "('a \<Rightarrow> bool) \<Rightarrow> 'a list \<Rightarrow> ('a \<times> 'a list) option" where
  "remove_first P [] = None"
| "remove_first P (x # xs) =
     (if P x then Some (x, xs) else map_option (\<lambda>(y, ys). (y, x # ys)) (remove_first P xs))"

definition contacts_remove ::
  "sdk_libs \<Rightarrow> contact_env \<Rightarrow> string \<Rightarrow> contact_file \<Rightarrow> contact result \<times> contact_file" where
  "contacts_remove B env name file =
     (case and_then (name_key_checked env name) (\<lambda>key.
        and_then (contacts_load B env file) (\<lambda>contacts.
          ok_or (''Contact not found: '' @ name)
            (remove_first (\<lambda>c. name_key env (ct_name c) = key) contacts))) of
        Inl error \<Rightarrow> (Inl error, file)
      | Inr (removed, contacts) \<Rightarrow>
          (case contacts_save env contacts file of
             (Inl error, file') \<Rightarrow> (Inl error, file')
           | (Inr _, file') \<Rightarrow> (Inr removed, file')))"

text \<open>A muxed account that prints as it was written is taken as an address, never as a name.\<close>

definition resolve_destination ::
  "sdk_libs \<Rightarrow> contact_env \<Rightarrow> contact_file \<Rightarrow> string \<Rightarrow> string option \<Rightarrow> resolved_destination result" where
  "resolve_destination B env file raw explicit_memo =
     (let destination = trim raw
      in if map_option (muxed_to_string (lib_stellar B)) (muxed_from_string (lib_stellar B) destination) = Some destination
         then Inr \<lparr>rd_address = destination, rd_memo = explicit_memo, rd_contact_name = None\<rparr>
         else and_then (contacts_find B env destination file) (\<lambda>found.
           case found of
             None \<Rightarrow> Inr \<lparr>rd_address = destination, rd_memo = explicit_memo, rd_contact_name = None\<rparr>
           | Some c \<Rightarrow>
               Inr \<lparr>rd_address = ct_address c,
                    rd_memo = (case explicit_memo of Some m \<Rightarrow> Some m | None \<Rightarrow> ct_memo c),
                    rd_contact_name = Some (ct_name c)\<rparr>))"

section \<open>What the file holds\<close>

text \<open>Normalised contacts with different keys: what \<open>load\<close> returns and \<open>save\<close> is given.\<close>

definition contact_ok :: "sdk_libs \<Rightarrow> contact \<Rightarrow> bool" where
  "contact_ok B c \<longleftrightarrow> normalize_contact B (ct_name c) (ct_address c) (ct_memo c) = Inr c"

definition book_ok :: "sdk_libs \<Rightarrow> contact_env \<Rightarrow> contact list \<Rightarrow> bool" where
  "book_ok B env cs \<longleftrightarrow> list_all (contact_ok B) cs \<and> distinct (map (\<lambda>c. name_key env (ct_name c)) cs)"

lemma normalize_contact_ok:
  "normalize_contact B name address m = Inr c \<Longrightarrow> contact_ok B c \<and> ct_name c = trim name"
  by (cases m) (auto simp: normalize_contact_def contact_ok_def Let_def result_simps trim_trim split: if_splits)

lemma normalize_all_Inr:
  assumes "normalize_all B env raw seen cs = Inr out" "book_ok B env cs"
    and "set seen = (\<lambda>c. name_key env (ct_name c)) ` set cs"
  shows "book_ok B env out"
  using assms
proof (induction B env raw seen cs rule: normalize_all.induct)
  case (2 B env v vs seen cs)
  from 2(2) obtain c where c: "normalize_contact B (ct_name v) (ct_address v) (ct_memo v) = Inr c"
    and new: "name_key env (ct_name c) \<notin> set seen"
    and rest: "normalize_all B env vs (seen @ [name_key env (ct_name c)]) (cs @ [c]) = Inr out"
    by (auto simp: result_simps split: if_splits)
  have "book_ok B env (cs @ [c])"
    using 2(3,4) new normalize_contact_ok [OF c] by (auto simp: book_ok_def)
  with 2(1) [OF _ new rest] c 2(4) show ?case by simp
qed simp

lemma normalize_all_ok:
  "book_ok B env (cs @ raw) \<Longrightarrow> set seen = (\<lambda>c. name_key env (ct_name c)) ` set cs \<Longrightarrow>
     normalize_all B env raw seen cs = Inr (cs @ raw)"
proof (induction raw arbitrary: seen cs)
  case (Cons c raw)
  then have "normalize_contact B (ct_name c) (ct_address c) (ct_memo c) = Inr c"
    "name_key env (ct_name c) \<notin> set seen"
    by (auto simp: book_ok_def contact_ok_def)
  with Cons.IH [of "cs @ [c]" "seen @ [name_key env (ct_name c)]"] Cons.prems show ?case by simp
qed simp

lemma contacts_load_ok: "contacts_load B env file = Inr cs \<Longrightarrow> book_ok B env cs"
  using normalize_all_Inr [of B env _ "[]" "[]" cs]
  by (auto simp: contacts_load_def book_ok_def split: contact_file.splits)

lemma contacts_load_saved: "book_ok B env cs \<Longrightarrow> contacts_load B env (ContactsFile cs) = Inr cs"
  using normalize_all_ok [of B env "[]" cs "[]"] by (simp add: contacts_load_def)

lemma contacts_save_Inr:
  "contacts_save env cs file = (Inr (), file') \<Longrightarrow> file' = ContactsFile cs"
  by (auto simp: contacts_save_def Let_def split: sum.splits)

text \<open>Adding, read off the loaded book.\<close>

lemma contacts_add_Inr:
  assumes "contacts_add B env name address m file = (Inr c, file')"
  shows "\<exists>cs. contacts_load B env file = Inr cs \<and> contacts_load B env file' = Inr (cs @ [c]) \<and>
    book_ok B env (cs @ [c]) \<and> ct_name c = trim name \<and> normalize_contact B name address m = Inr c"
proof -
  from assms obtain cs where c: "normalize_contact B name address m = Inr c"
    and cs: "contacts_load B env file = Inr cs" "\<not> list_ex (\<lambda>x. name_key env (ct_name x) = name_key env (ct_name c)) cs"
    and file': "contacts_save env (cs @ [c]) file = (Inr (), file')"
    by (auto simp: contacts_add_def result_simps split: sum.splits prod.splits if_splits)
  have "book_ok B env (cs @ [c])"
    using contacts_load_ok [OF cs(1)] cs(2) normalize_contact_ok [OF c] by (auto simp: book_ok_def list_ex_iff)
  with contacts_load_saved contacts_save_Inr [OF file'] normalize_contact_ok [OF c] c cs(1) show ?thesis by blast
qed

lemma find_book:
  "book_ok B env cs \<Longrightarrow> c \<in> set cs \<Longrightarrow> find (\<lambda>x. name_key env (ct_name x) = name_key env (ct_name c)) cs = Some c"
  by (induction cs) (auto simp: book_ok_def)

lemma find_append_none: "find P (xs @ ys) = (case find P xs of Some x \<Rightarrow> Some x | None \<Rightarrow> find P ys)"
  by (induction xs) auto

lemma remove_first_last: "\<not> list_ex P xs \<Longrightarrow> P x \<Longrightarrow> remove_first P (xs @ [x]) = Some (x, xs)"
  by (induction xs) auto

section \<open>Properties\<close>

text \<open>The address book keeps what it is told: a contact that was added is found under its name,
  in any case the environment folds together and with any surrounding white space; every other name
  resolves as before; adding the name again is refused; and removing it (when the file can be
  written) gives back the contact and the book there was.\<close>

theorem added_contact_found:
  assumes "contacts_add B env name address m file = (Inr c, file')"
    and "trim other \<noteq> []"
  shows "contacts_find B env other file' =
      (if name_key env other = name_key env name then Inr (Some c) else contacts_find B env other file) \<and>
    (name_key env other = name_key env name \<longrightarrow>
       (\<forall>c'. fst (contacts_add B env other address' m' file') \<noteq> Inr c')) \<and>
    (name_key env other = name_key env name \<longrightarrow> fst (contacts_remove B env other file') = Inr c \<longrightarrow>
       contacts_load B env (snd (contacts_remove B env other file')) = contacts_load B env file)"
proof -
  let ?P = "\<lambda>k x. name_key env (ct_name x) = k"
  from contacts_add_Inr [OF assms(1)] obtain cs where
    cs: "contacts_load B env file = Inr cs" "contacts_load B env file' = Inr (cs @ [c])"
      "book_ok B env (cs @ [c])" and name: "ct_name c = trim name" by blast
  have key: "name_key env (ct_name c) = name_key env name" by (simp add: name_key_def name trim_trim)
  have "book_ok B env cs" and fresh: "\<not> list_ex (?P (name_key env name)) cs"
    using cs(3) key by (force simp: book_ok_def list_ex_iff)+
  have find: "contacts_find B env other file' =
      (if name_key env other = name_key env name then Inr (Some c) else contacts_find B env other file)"
  proof (cases "name_key env other = name_key env name")
    case True
    with find_book [OF cs(3), of c] key cs(2) assms(2) show ?thesis
      by (simp add: contacts_find_def name_key_checked_def)
  next
    case False
    then have "find (?P (name_key env other)) (cs @ [c]) = find (?P (name_key env other)) cs"
      using key by (auto simp: find_append_none split: option.splits)
    with False cs assms(2) show ?thesis by (simp add: contacts_find_def name_key_checked_def)
  qed
  have again: "fst (contacts_add B env other address' m' file') \<noteq> Inr c'" if k: "name_key env other = name_key env name" for c'
  proof
    assume "fst (contacts_add B env other address' m' file') = Inr c'"
    then obtain file'' where "contacts_add B env other address' m' file' = (Inr c', file'')" by (metis prod.collapse)
    from contacts_add_Inr [OF this] cs(2) k key show False
      by (auto simp: book_ok_def name_key_def trim_trim)
  qed
  have "contacts_load B env (snd (contacts_remove B env other file')) = contacts_load B env file"
    if k: "name_key env other = name_key env name" and ok: "fst (contacts_remove B env other file') = Inr c"
  proof -
    have "remove_first (?P (name_key env other)) (cs @ [c]) = Some (c, cs)"
      using remove_first_last [OF fresh] key k by simp
    with ok cs(2) assms(2) have "snd (contacts_remove B env other file') = ContactsFile cs"
      by (auto simp: contacts_remove_def name_key_checked_def dest: contacts_save_Inr split: sum.splits prod.splits)
    with contacts_load_saved \<open>book_ok B env cs\<close> cs(1) show ?thesis by simp
  qed
  with find again show ?thesis by blast
qed

section \<open>Examples\<close>

definition demo_contact_libs :: sdk_libs where
  "demo_contact_libs = \<lparr>lib_stellar = demo_lib, lib_soroban = demo_soroban_lib, lib_crypto = demo_crypto,
     lib_mnemonic = demo_mnemonics, lib_json_to_string = (\<lambda>_. Inl ''none''), lib_json_from_string = (\<lambda>_. Inl ''none'')\<rparr>"

definition demo_contact_env :: contact_env where
  "demo_contact_env = \<lparr>ce_path = ''contacts.json'', ce_create_parent = Inr (), ce_encode = (\<lambda>_. Inr ()),
     ce_write = Inr (), ce_restrict = Inr (), ce_rename = Inr (), ce_lowercase = (\<lambda>s. s)\<rparr>"

definition demo_contact :: contact where
  "demo_contact = \<lparr>ct_name = ''a'', ct_address = demo_key_text demo_key, ct_memo = None\<rparr>"

lemma demo_trim_a: "trim ''a'' = ''a''"
  by (simp add: trim_plain plain_char_def is_ascii_byte_def is_ascii_ws_def)

lemma demo_add:
  "contacts_add demo_contact_libs demo_contact_env ''a'' (demo_key_text demo_key) None NoContacts =
     (Inr demo_contact, ContactsFile [demo_contact])"
proof -
  have "trim (demo_key_text demo_key) = demo_key_text demo_key"
    using demo_public_key_text_plain by (simp add: public_key_text_plain_def)
  then have "normalize_contact demo_contact_libs ''a'' (demo_key_text demo_key) None = Inr demo_contact"
    by (simp add: normalize_contact_def demo_trim_a sdk_parse_account_def client_parse_account_def
        demo_contact_libs_def demo_account_parse demo_contact_def)
  then show ?thesis
    by (simp add: contacts_add_def contacts_load_def contacts_save_def demo_contact_env_def)
qed

theorem added_contact_found_witness:
  "contacts_find demo_contact_libs demo_contact_env ''a'' (ContactsFile [demo_contact]) = Inr (Some demo_contact)"
  using added_contact_found [OF demo_add, of "''a''"] by (simp add: demo_trim_a)

end
