(* ===== verification/Gateway.thy ===== *)
theory Gateway
  imports Pending
begin

text \<open>
  horizon_gateway.rs: the requests to Horizon, what each makes of the answer, and the one-line
  summaries of operations. The HTTP client is the record \<open>horizon\<close>: for a URL what a GET gives (a
  status error, a transport error, or a body that decodes or not), for a form POST the status and the
  body. Within one call of the program a URL has one answer.
\<close>

section \<open>Requests\<close>

datatype get_reply = GetBody "string + json" | GetStatus nat | GetFailed string

record post_reply =
  po_status :: nat
  po_body :: "string + string"

record horizon =
  hz_base_url :: string
  hz_get :: "string \<Rightarrow> get_reply"
  hz_post :: "string \<Rightarrow> string \<Rightarrow> string + post_reply"
  hz_parse :: "string \<Rightarrow> string + json"

record ledger_parameters =
  base_fee_in_stroops :: int
  base_reserve_in_stroops :: int

definition mainnet_horizon_url :: string where "mainnet_horizon_url = ''https://horizon.stellar.org''"
definition testnet_horizon_url :: string where "testnet_horizon_url = ''https://horizon-testnet.stellar.org''"

definition gateway_base_url :: "string \<Rightarrow> string" where
  "gateway_base_url base_url = trim_end_matches (CHR ''/'') base_url"

definition http_status_error :: "nat \<Rightarrow> string \<Rightarrow> string" where
  "http_status_error code url = ''Horizon returned HTTP '' @ nat_to_dec code @ '' for '' @ url"

definition http_transport_error :: "string \<Rightarrow> string \<Rightarrow> string" where
  "http_transport_error url error = ''Unable to contact Horizon at '' @ url @ '': '' @ error"

definition read_json :: "string \<Rightarrow> string + json \<Rightarrow> json result" where
  "read_json url body = map_err (\<lambda>e. ''Horizon returned invalid JSON for '' @ url @ '': '' @ e) body"

definition get_json :: "horizon \<Rightarrow> string \<Rightarrow> string \<Rightarrow> json result" where
  "get_json H path not_found =
     (let url = hz_base_url H @ path
      in case hz_get H url of
           GetBody body \<Rightarrow> read_json url body
         | GetStatus code \<Rightarrow> Inl (if code = 404 then not_found else http_status_error code url)
         | GetFailed error \<Rightarrow> Inl (http_transport_error url error))"

text \<open>The GET that takes a missing resource as an answer.\<close>

definition get_optional :: "horizon \<Rightarrow> string \<Rightarrow> json option result" where
  "get_optional H path =
     (let url = hz_base_url H @ path
      in case hz_get H url of
           GetBody body \<Rightarrow> map_ok Some (read_json url body)
         | GetStatus code \<Rightarrow> if code = 404 then Inr None else Inl (http_status_error code url)
         | GetFailed error \<Rightarrow> Inl (http_transport_error url error))"

definition get_account :: "horizon \<Rightarrow> string \<Rightarrow> json result" where
  "get_account H address =
     get_json H (''/accounts/'' @ address) (''Stellar account not found: '' @ address)"

definition get_account_optional :: "horizon \<Rightarrow> string \<Rightarrow> json option result" where
  "get_account_optional H address = get_optional H (''/accounts/'' @ address)"

definition get_liquidity_pool :: "horizon \<Rightarrow> string \<Rightarrow> json result" where
  "get_liquidity_pool H pool_id =
     get_json H (''/liquidity_pools/'' @ pool_id) (''Liquidity pool not found: '' @ pool_id)"

definition account_exists :: "horizon \<Rightarrow> string \<Rightarrow> bool result" where
  "account_exists H address =
     (let url = hz_base_url H @ ''/accounts/'' @ address
      in case hz_get H url of
           GetBody _ \<Rightarrow> Inr True
         | GetStatus code \<Rightarrow> if code = 404 then Inr False else Inl (http_status_error code url)
         | GetFailed error \<Rightarrow> Inl (http_transport_error url error))"

definition get_offer :: "horizon \<Rightarrow> int \<Rightarrow> json result" where
  "get_offer H offer_id =
     (if offer_id \<le> 0 then Inl ''offer id must be a positive integer''
      else get_json H (''/offers/'' @ int_to_dec offer_id) (''Offer not found: '' @ int_to_dec offer_id))"

definition embedded_records :: "json \<Rightarrow> json list option" where
  "embedded_records v =
     Option.bind (json_get v ''_embedded'') (\<lambda>e. Option.bind (json_get e ''records'') as_array)"

definition gateway_records :: "json \<Rightarrow> string \<Rightarrow> json list result" where
  "gateway_records v label =
     ok_or (''Horizon returned malformed '' @ label @ '' data'') (embedded_records v)"

definition page_limit_ok :: "nat \<Rightarrow> bool" where
  "page_limit_ok limit \<longleftrightarrow> 1 \<le> limit \<and> limit \<le> 200"

definition get_offers :: "horizon \<Rightarrow> string \<Rightarrow> nat \<Rightarrow> json list result" where
  "get_offers H address limit =
     (if \<not> page_limit_ok limit then Inl ''offers limit must be from 1 to 200''
      else and_then (get_json H (''/accounts/'' @ address @ ''/offers?order=desc&limit='' @ nat_to_dec limit)
             (''Stellar account not found: '' @ address)) (\<lambda>response.
        ok_or ''Horizon returned malformed offer data'' (embedded_records response)))"

definition get_order_book :: "horizon \<Rightarrow> string \<Rightarrow> string \<Rightarrow> json result" where
  "get_order_book H selling_query buying_query =
     get_json H (''/order_book?'' @ selling_query @ ''&'' @ buying_query) ''Unable to load Stellar order book''"

definition get_trades :: "horizon \<Rightarrow> string \<Rightarrow> string \<Rightarrow> nat \<Rightarrow> json list result" where
  "get_trades H base_query counter_query limit =
     (if \<not> page_limit_ok limit then Inl ''trades limit must be from 1 to 200''
      else and_then (get_json H (''/trades?'' @ base_query @ ''&'' @ counter_query @ ''&order=desc&limit='' @ nat_to_dec limit)
             ''Unable to load Stellar trades'') (\<lambda>response. gateway_records response ''trade''))"

definition get_account_trades :: "horizon \<Rightarrow> string \<Rightarrow> nat \<Rightarrow> json list result" where
  "get_account_trades H address limit =
     (if \<not> page_limit_ok limit then Inl ''account trades limit must be from 1 to 200''
      else and_then (get_json H (''/accounts/'' @ address @ ''/trades?order=desc&limit='' @ nat_to_dec limit)
             (''Stellar account not found: '' @ address)) (\<lambda>response. gateway_records response ''account trade''))"

definition optional_query :: "string \<Rightarrow> nat option \<Rightarrow> string" where
  "optional_query key v = (case v of None \<Rightarrow> [] | Some n \<Rightarrow> ''&'' @ key @ ''='' @ nat_to_dec n)"

definition get_trade_aggregations ::
  "horizon \<Rightarrow> string \<Rightarrow> string \<Rightarrow> nat \<Rightarrow> nat option \<Rightarrow> nat option \<Rightarrow> nat option \<Rightarrow> nat \<Rightarrow> json list result" where
  "get_trade_aggregations H base_query counter_query resolution start_time end_time offset limit =
     (if \<not> page_limit_ok limit then Inl ''trade aggregation limit must be from 1 to 200''
      else and_then (get_json H (''/trade_aggregations?'' @ base_query @ ''&'' @ counter_query
               @ ''&resolution='' @ nat_to_dec resolution @ optional_query ''start_time'' start_time
               @ optional_query ''end_time'' end_time @ optional_query ''offset'' offset
               @ ''&order=desc&limit='' @ nat_to_dec limit)
             ''Unable to load Stellar trade aggregations'') (\<lambda>response. gateway_records response ''trade aggregation''))"

definition get_transaction :: "horizon \<Rightarrow> string \<Rightarrow> json option result" where
  "get_transaction H tx_hash = get_optional H (''/transactions/'' @ tx_hash)"

definition get_operations :: "horizon \<Rightarrow> string \<Rightarrow> nat \<Rightarrow> json list result" where
  "get_operations H address limit =
     and_then (get_json H (''/accounts/'' @ address @ ''/operations?order=desc&limit='' @ nat_to_dec limit)
         (''Stellar account not found: '' @ address)) (\<lambda>response.
       ok_or ''Horizon returned malformed operation data'' (embedded_records response))"

definition get_ledger_parameters :: "horizon \<Rightarrow> ledger_parameters result" where
  "get_ledger_parameters H =
     and_then (get_json H ''/ledgers?order=desc&limit=1'' ''Horizon returned no ledger data'') (\<lambda>response.
     and_then (case embedded_records response of
         Some (ledger # _) \<Rightarrow> Inr ledger
       | _ \<Rightarrow> Inl ''Horizon returned no ledger data'') (\<lambda>ledger.
     and_then (ok_or ''Horizon returned invalid base fee''
         (Option.bind (integer_value (json_get ledger ''base_fee_in_stroops''))
           (\<lambda>v. if in_u32 v then Some v else None))) (\<lambda>base_fee.
     and_then (ok_or ''Horizon returned invalid base reserve''
         (integer_value (json_get ledger ''base_reserve_in_stroops''))) (\<lambda>base_reserve.
       if base_reserve < 0 then Inl ''Horizon returned invalid base reserve''
       else Inr \<lparr>base_fee_in_stroops = base_fee, base_reserve_in_stroops = base_reserve\<rparr>))))"

section \<open>Submission\<close>

fun join_with :: "string \<Rightarrow> string list \<Rightarrow> string" where
  "join_with sep [] = []"
| "join_with sep [s] = s"
| "join_with sep (s # t # ss) = s @ sep @ join_with sep (t # ss)"

definition rejection_details :: "json \<Rightarrow> string list" where
  "rejection_details response =
     (let codes = Option.bind (json_get response ''extras'') (\<lambda>v. json_get v ''result_codes'');
          tx = Option.bind codes (\<lambda>v. get_str v ''transaction'');
          ops = List.map_filter as_str (case Option.bind codes (\<lambda>v. get_array v ''operations'') of Some xs \<Rightarrow> xs | None \<Rightarrow> []);
          details = (case tx of Some t \<Rightarrow> [''transaction='' @ t] | None \<Rightarrow> []) @
            (if ops \<noteq> [] then [''operations=['' @ join_with '', '' ops @ '']''] else [])
      in if details \<noteq> [] then details
         else (case get_str response ''detail'' of
                 Some d \<Rightarrow> [d]
               | None \<Rightarrow> (case get_str response ''title'' of Some t \<Rightarrow> [t] | None \<Rightarrow> [])))"

definition rejection_message :: "horizon \<Rightarrow> nat \<Rightarrow> string \<Rightarrow> string" where
  "rejection_message H status body =
     (let details = (case hz_parse H body of Inr response \<Rightarrow> rejection_details response | Inl _ \<Rightarrow> [])
      in ''Horizon rejected the transaction with HTTP '' @ nat_to_dec status @
         (if details \<noteq> [] then '': '' @ join_with ''; '' details else []))"

definition submit_transaction :: "horizon \<Rightarrow> string \<Rightarrow> submission_error + json" where
  "submit_transaction H transaction_xdr =
     (case hz_post H (hz_base_url H @ ''/transactions'') transaction_xdr of
        Inl error \<Rightarrow> Inl (Uncertain (''Unable to contact Horizon while submitting: '' @ error))
      | Inr reply \<Rightarrow>
          (case po_body reply of
             Inl error \<Rightarrow> Inl (Uncertain (''Unable to read Horizon submission response: '' @ error))
           | Inr body \<Rightarrow>
               if po_status reply \<ge> 500
               then Inl (Uncertain (''Horizon returned HTTP '' @ nat_to_dec (po_status reply) @ '' while submitting''))
               else if po_status reply \<ge> 400
               then Inl (Rejected (rejection_message H (po_status reply) body))
               else map_err (\<lambda>e. Uncertain (''Horizon returned invalid submission JSON: '' @ e)) (hz_parse H body)))"

section \<open>Labels and summaries\<close>

definition balance_asset_label :: "json \<Rightarrow> string" where
  "balance_asset_label balance =
     (let kind = get_str balance ''asset_type'';
          default_text = (\<lambda>k d. case get_str balance k of Some s \<Rightarrow> s | None \<Rightarrow> d)
      in if kind = Some ''native'' then ''XLM''
         else if kind = Some ''liquidity_pool_shares'' then ''LP:'' @ default_text ''liquidity_pool_id'' ''unknown''
         else (case get_str balance ''asset_issuer'' of
                 Some issuer \<Rightarrow> default_text ''asset_code'' ''asset'' @ '':'' @ issuer
               | None \<Rightarrow> default_text ''asset_code'' ''asset''))"

definition text_or :: "json \<Rightarrow> string \<Rightarrow> string \<Rightarrow> string" where
  "text_or v key d = (case get_str v key of Some s \<Rightarrow> s | None \<Rightarrow> d)"

definition text_or_else :: "json \<Rightarrow> string \<Rightarrow> string \<Rightarrow> string \<Rightarrow> string" where
  "text_or_else v key key' d =
     (case get_str v key of Some s \<Rightarrow> s | None \<Rightarrow> text_or v key' d)"

definition clean_decimal :: "string \<Rightarrow> string" where
  "clean_decimal v =
     (if CHR ''.'' \<notin> set v then v
      else (let trimmed = trim_end_matches (CHR ''.'') (trim_end_matches (CHR ''0'') v)
            in if trimmed = [] \<or> trimmed = ''-'' then ''0'' else trimmed))"

definition summary_amount :: "json \<Rightarrow> string \<Rightarrow> string" where
  "summary_amount v key = (case get_str v key of Some s \<Rightarrow> clean_decimal s | None \<Rightarrow> ''?'')"

text \<open>
  Slicing a \<open>str\<close> inside a multi-byte character panics: \<open>None\<close>. A boundary is a byte that does not
  continue a UTF-8 sequence, or the end.
\<close>

definition is_char_boundary :: "string \<Rightarrow> nat \<Rightarrow> bool" where
  "is_char_boundary s i \<longleftrightarrow>
     i = length s \<or> i < length s \<and> \<not> ((128 :: nat) \<le> of_char (s ! i) \<and> of_char (s ! i) < (192 :: nat))"

definition short_address :: "string \<Rightarrow> string option" where
  "short_address v =
     (if length v \<le> 16 then Some v
      else if is_char_boundary v 6 \<and> is_char_boundary v (length v - 6)
      then Some (take 6 v @ ''...'' @ drop (length v - 6) v) else None)"

definition short_id :: "string \<Rightarrow> string option" where
  "short_id v =
     (if length v \<le> 12 then Some v
      else if is_char_boundary v 8 then Some (take 8 v @ ''...'') else None)"

definition operation_asset :: "json \<Rightarrow> string \<Rightarrow> string option" where
  "operation_asset v p =
     (if get_str v (p @ ''asset_type'') = Some ''native'' then Some ''XLM''
      else (let code = text_or v (p @ ''asset_code'') ''asset''
            in case get_str v (p @ ''asset_issuer'') of
                 Some issuer \<Rightarrow> map_option (\<lambda>i. code @ '':'' @ i) (short_address issuer)
               | None \<Rightarrow> Some code))"

definition payment_summary :: "json \<Rightarrow> string \<Rightarrow> string option" where
  "payment_summary v account =
     (let paid = summary_amount v ''amount'';
          source = text_or_else v ''from'' ''source_account'' ''?'';
          destination = text_or v ''to'' ''?''
      in Option.bind (operation_asset v []) (\<lambda>asset.
           if destination = account
           then map_option (\<lambda>s. ''Received '' @ paid @ '' '' @ asset @ '' from '' @ s) (short_address source)
           else if source = account
           then map_option (\<lambda>d. ''Sent '' @ paid @ '' '' @ asset @ '' to '' @ d) (short_address destination)
           else Option.bind (short_address source) (\<lambda>s.
             map_option (\<lambda>d. paid @ '' '' @ asset @ '': '' @ s @ '' -> '' @ d) (short_address destination))))"

definition create_account_summary :: "json \<Rightarrow> string \<Rightarrow> string option" where
  "create_account_summary v account =
     (let created = text_or v ''account'' ''?''; starting = summary_amount v ''starting_balance''
      in if created = account then Some (''Account created with '' @ starting @ '' XLM'')
         else map_option (\<lambda>c. ''Created '' @ c @ '' with '' @ starting @ '' XLM'') (short_address created))"

definition offer_summary :: "json \<Rightarrow> string \<Rightarrow> string option" where
  "offer_summary v kind =
     (let offer_id = text_or v ''offer_id'' ''0''; offered = summary_amount v ''amount''
      in if offered = ''0'' then Some (''Cancelled offer #'' @ offer_id)
         else Option.bind (operation_asset v ''selling_'') (\<lambda>selling.
           map_option (\<lambda>buying.
             let price = summary_amount v ''price'';
                 verb = (if offer_id = ''0'' then ''Placed'' else ''Updated #'' @ offer_id)
             in if kind = ''create_passive_sell_offer''
                then ''Placed passive SELL '' @ offered @ '' '' @ selling @ '' @ '' @ price @ '' '' @ buying @ ''/'' @ selling
                else if kind = ''manage_buy_offer''
                then verb @ '' BUY '' @ offered @ '' '' @ buying @ '' @ '' @ price @ '' '' @ selling @ ''/'' @ buying
                else verb @ '' SELL '' @ offered @ '' '' @ selling @ '' @ '' @ price @ '' '' @ buying @ ''/'' @ selling)
             (operation_asset v ''buying_'')))"

definition change_trust_summary :: "json \<Rightarrow> string option" where
  "change_trust_summary v =
     Option.bind (if get_str v ''asset_type'' = Some ''liquidity_pool_shares''
       then map_option (\<lambda>i. ''liquidity pool '' @ i) (short_id (text_or v ''liquidity_pool_id'' ''unknown''))
       else operation_asset v []) (\<lambda>asset.
       let limit = summary_amount v ''limit''
       in Some (if limit = ''0'' then ''Removed trustline for '' @ asset
          else ''Set trustline for '' @ asset @ '' '' @ [CHR 0xC2, CHR 0xB7] @ '' limit '' @ limit))"

definition operation_summary :: "json \<Rightarrow> string \<Rightarrow> string option" where
  "operation_summary v account =
     (let kind = text_or v ''type'' ''unknown''
      in if kind = ''payment'' then payment_summary v account
         else if kind = ''create_account'' then create_account_summary v account
         else if kind \<in> {''manage_sell_offer'', ''create_passive_sell_offer'', ''manage_buy_offer''} then offer_summary v kind
         else if kind = ''change_trust'' then change_trust_summary v
         else if kind = ''invoke_host_function'' then Some ''Contract call''
         else if kind = ''liquidity_pool_deposit'' then Some ''Added liquidity''
         else if kind = ''liquidity_pool_withdraw'' then Some ''Removed liquidity''
         else if kind = ''account_merge''
         then map_option (\<lambda>a. ''Merged account into '' @ a) (short_address (text_or_else v ''into'' ''account'' ''?''))
         else if kind = ''manage_data'' then Some (''Updated account data: '' @ text_or v ''name'' ''data entry'')
         else if kind = ''set_options'' then Some ''Updated account settings''
         else if kind = ''bump_sequence'' then Some (''Bumped sequence to '' @ text_or v ''bump_to'' ''?'')
         else Some (map (\<lambda>c. if c = CHR ''_'' then CHR '' '' else c) kind))"

section \<open>What the gateway promises\<close>

lemma get_ledger_parameters_range:
  "get_ledger_parameters H = Inr p \<Longrightarrow>
     in_u32 (base_fee_in_stroops p) \<and> 0 \<le> base_reserve_in_stroops p \<and> in_i64 (base_reserve_in_stroops p)"
  by (auto simp: get_ledger_parameters_def result_simps Option.bind_eq_Some_conv dest: integer_value_range
      split: if_split_asm option.split_asm list.split_asm)

lemma get_account_optional_agrees:
  "get_account_optional H a = Inr (Some v) \<longleftrightarrow> get_account H a = Inr v"
  by (auto simp: get_account_optional_def get_account_def get_optional_def get_json_def Let_def result_simps
      split: get_reply.split if_split)

text \<open>
  A submission counts as rejected only when Horizon itself said so with a 4xx status; a transport
  error, an unreadable answer, a 5xx status and an undecodable success all count as uncertain.
\<close>

lemma submit_transaction_Rejected:
  "submit_transaction H x = Inl (Rejected m) \<longleftrightarrow>
     (\<exists>reply body. hz_post H (hz_base_url H @ ''/transactions'') x = Inr reply \<and> po_body reply = Inr body \<and>
        400 \<le> po_status reply \<and> po_status reply < 500 \<and> m = rejection_message H (po_status reply) body)"
  by (auto simp: submit_transaction_def result_simps split: sum.split)

lemma submit_transaction_Inr:
  "submit_transaction H x = Inr v \<longleftrightarrow>
     (\<exists>reply body. hz_post H (hz_base_url H @ ''/transactions'') x = Inr reply \<and> po_body reply = Inr body \<and>
        po_status reply < 400 \<and> hz_parse H body = Inr v)"
  by (auto simp: submit_transaction_def result_simps split: sum.split)

text \<open>A summary panics only on text that is not ASCII.\<close>

lemma short_address_ascii: "list_all is_ascii_byte v \<Longrightarrow> \<exists>s. short_address v = Some s"
proof -
  assume a: "list_all is_ascii_byte v"
  have "is_char_boundary v i" if "i \<le> length v" for i
  proof (cases "i = length v")
    case False
    with that a have "i < length v" "is_ascii_byte (v ! i)" by (simp_all add: list_all_length)
    then show ?thesis by (auto simp: is_char_boundary_def is_ascii_byte_def)
  qed (simp add: is_char_boundary_def)
  then show ?thesis by (simp add: short_address_def)
qed

lemma short_address_panics: "short_address (replicate 5 (CHR ''G'') @ [CHR 0xC3, CHR 0xA9] @ replicate 10 (CHR ''G'')) = None"
  by (simp add: short_address_def is_char_boundary_def numeral_eq_Suc)

end
