(* ===== verification/Views.thy ===== *)
theory Views
  imports LedgerAuth Asset Amount
begin

text \<open>
  account_state.rs, balance_state.rs and history_state.rs: the provider-neutral views of what Horizon
  says about an account, its balances and its operations.
\<close>

section \<open>Account state\<close>

record account_thresholds =
  at_low :: nat
  at_medium :: nat
  at_high :: nat

record account_state =
  as_account_id :: string
  as_sequence :: int
  as_subentry_count :: nat
  as_num_sponsoring :: nat
  as_num_sponsored :: nat
  as_home_domain :: "string option"
  as_thresholds :: account_thresholds
  as_signers :: "weighted_ledger_signer list"

definition horizon_i64 :: "json \<Rightarrow> string \<Rightarrow> int result" where
  "horizon_i64 account field =
     and_then (ok_or (''Horizon account is missing '' @ field) (json_get account field)) (\<lambda>v.
       ok_or (''Horizon account has invalid '' @ field)
         (case v of JString s \<Rightarrow> parse_i64 s | JNumber n \<Rightarrow> number_as_i64 n | _ \<Rightarrow> None))"

definition horizon_u32 :: "json \<Rightarrow> string \<Rightarrow> nat result" where
  "horizon_u32 account field =
     and_then (ok_or (''Horizon account is missing '' @ field) (json_get account field)) (\<lambda>v.
     and_then (ok_or (''Horizon account has invalid '' @ field)
         (case v of JString s \<Rightarrow> parse_u64 s | JNumber n \<Rightarrow> number_as_u64 n | _ \<Rightarrow> None)) (\<lambda>n.
       if int n \<le> u32_max then Inr n else Inl (''Horizon account has invalid '' @ field)))"

definition account_state_from_horizon :: "stellar_lib \<Rightarrow> json \<Rightarrow> account_state result" where
  "account_state_from_horizon L account =
     and_then (map_err (\<lambda>e. ''Unable to normalize Horizon account authorization: '' @ e)
         (authorization_from_horizon L account)) (\<lambda>auth.
     and_then (horizon_i64 account ''sequence'') (\<lambda>sequence.
     and_then (horizon_u32 account ''subentry_count'') (\<lambda>subentries.
     and_then (horizon_u32 account ''num_sponsoring'') (\<lambda>sponsoring.
     and_then (horizon_u32 account ''num_sponsored'') (\<lambda>sponsored.
       Inr \<lparr>as_account_id = laa_account_id auth, as_sequence = sequence, as_subentry_count = subentries,
            as_num_sponsoring = sponsoring, as_num_sponsored = sponsored,
            as_home_domain = Option.bind (get_str account ''home_domain'')
              (\<lambda>d. if trim d = [] then None else Some (trim d)),
            as_thresholds = \<lparr>at_low = low_threshold auth, at_medium = medium_threshold auth,
              at_high = high_threshold auth\<rparr>,
            as_signers = laa_signers auth\<rparr>)))))"

definition account_state_authorization :: "account_state \<Rightarrow> ledger_account_authorization" where
  "account_state_authorization s =
     \<lparr>laa_account_id = as_account_id s, low_threshold = at_low (as_thresholds s),
      medium_threshold = at_medium (as_thresholds s), high_threshold = at_high (as_thresholds s),
      laa_signers = as_signers s\<rparr>"

section \<open>Balances\<close>

datatype balance_asset_id =
    BalanceNative
  | BalanceIssued string string
  | BalanceLiquidityPoolShare string

fun balance_identity :: "balance_asset_id \<Rightarrow> string" where
  "balance_identity BalanceNative = ''XLM''"
| "balance_identity (BalanceIssued code issuer) = code @ '':'' @ issuer"
| "balance_identity (BalanceLiquidityPoolShare pool) = ''LP:'' @ pool"

record asset_balance =
  ab_asset :: balance_asset_id
  ab_balance :: string
  ab_selling_liabilities :: string
  ab_buying_liabilities :: string

definition is_ascii_hexdigit :: "char \<Rightarrow> bool" where
  "is_ascii_hexdigit c \<longleftrightarrow> is_ascii_digit c \<or>
     ((97 :: nat) \<le> of_char (to_ascii_lower c) \<and> of_char (to_ascii_lower c) \<le> (102 :: nat))"

definition normalize_pool_id :: "string \<Rightarrow> string result" where
  "normalize_pool_id raw =
     (let v = trim raw
      in if length v \<noteq> 64 \<or> \<not> list_all is_ascii_hexdigit v
         then Inl ''Horizon liquidity-pool balance has invalid liquidity_pool_id''
         else Inr (map to_ascii_lower v))"

definition balance_asset :: "stellar_lib \<Rightarrow> json \<Rightarrow> balance_asset_id result" where
  "balance_asset L v =
     (case get_str v ''asset_type'' of
        None \<Rightarrow> Inl ''Horizon balance is missing asset_type''
      | Some kind \<Rightarrow>
          if kind = ''native'' then Inr BalanceNative
          else if kind = ''credit_alphanum4'' \<or> kind = ''credit_alphanum12'' then
            and_then (asset_from_horizon L v) (\<lambda>asset.
            and_then (ok_or ''panic: issued Horizon asset has a code'' (asset_code asset)) (\<lambda>code.
            and_then (ok_or ''panic: issued Horizon asset has an issuer'' (asset_issuer L asset)) (\<lambda>issuer.
              Inr (BalanceIssued code issuer))))
          else if kind = ''liquidity_pool_shares'' then
            and_then (ok_or ''Horizon liquidity-pool balance is missing liquidity_pool_id''
                (get_str v ''liquidity_pool_id'')) (\<lambda>raw.
              map_ok BalanceLiquidityPoolShare (normalize_pool_id raw))
          else Inl (''Horizon returned unsupported balance asset type: '' @ kind))"

definition horizon_amount :: "json \<Rightarrow> string \<Rightarrow> bool \<Rightarrow> string result" where
  "horizon_amount v field required =
     (case get_str v field of
        None \<Rightarrow> if \<not> required then Inr ''0'' else Inl (''Horizon balance is missing '' @ field)
      | Some raw \<Rightarrow>
          map_ok format_stroops (map_err (\<lambda>_. ''Horizon balance has invalid '' @ field @ '': '' @ raw)
            (parse_stroops raw False)))"

definition asset_balance_from_horizon :: "stellar_lib \<Rightarrow> json \<Rightarrow> asset_balance result" where
  "asset_balance_from_horizon L v =
     and_then (balance_asset L v) (\<lambda>asset.
     and_then (horizon_amount v ''balance'' True) (\<lambda>balance.
     and_then (horizon_amount v ''selling_liabilities'' False) (\<lambda>selling.
     and_then (horizon_amount v ''buying_liabilities'' False) (\<lambda>buying.
       Inr \<lparr>ab_asset = asset, ab_balance = balance, ab_selling_liabilities = selling,
            ab_buying_liabilities = buying\<rparr>))))"

section \<open>History\<close>

datatype history_asset_id = HistoryNative | HistoryIssued string string

fun history_identity :: "history_asset_id \<Rightarrow> string" where
  "history_identity HistoryNative = ''XLM''"
| "history_identity (HistoryIssued code issuer) = code @ '':'' @ issuer"

datatype history_trust_asset_id =
    TrustClassic history_asset_id
  | TrustLiquidityPool string
  | TrustUnknown

record history_offer =
  ho_offer_id :: "string option"
  ho_amount :: "string option"
  ho_selling :: "history_asset_id option"
  ho_buying :: "history_asset_id option"
  ho_price :: "string option"

datatype history_operation_kind =
    HkPayment "string option" "string option" "string option" "history_asset_id option"
  | HkCreateAccount "string option" "string option" "string option"
  | HkManageSellOffer history_offer
  | HkCreatePassiveSellOffer history_offer
  | HkManageBuyOffer history_offer
  | HkChangeTrust history_trust_asset_id "string option"
  | HkInvokeHostFunction
  | HkLiquidityPoolDeposit
  | HkLiquidityPoolWithdraw
  | HkAccountMerge "string option"
  | HkManageData "string option"
  | HkSetOptions
  | HkBumpSequence "string option"
  | HkOther string

fun history_operation_type :: "history_operation_kind \<Rightarrow> string" where
  "history_operation_type (HkPayment _ _ _ _) = ''payment''"
| "history_operation_type (HkCreateAccount _ _ _) = ''create_account''"
| "history_operation_type (HkManageSellOffer _) = ''manage_sell_offer''"
| "history_operation_type (HkCreatePassiveSellOffer _) = ''create_passive_sell_offer''"
| "history_operation_type (HkManageBuyOffer _) = ''manage_buy_offer''"
| "history_operation_type (HkChangeTrust _ _) = ''change_trust''"
| "history_operation_type HkInvokeHostFunction = ''invoke_host_function''"
| "history_operation_type HkLiquidityPoolDeposit = ''liquidity_pool_deposit''"
| "history_operation_type HkLiquidityPoolWithdraw = ''liquidity_pool_withdraw''"
| "history_operation_type (HkAccountMerge _) = ''account_merge''"
| "history_operation_type (HkManageData _) = ''manage_data''"
| "history_operation_type HkSetOptions = ''set_options''"
| "history_operation_type (HkBumpSequence _) = ''bump_sequence''"
| "history_operation_type (HkOther t) = t"

record history_operation =
  hop_operation_id :: "string option"
  hop_paging_token :: "string option"
  hop_transaction_hash :: "string option"
  hop_created_at :: "string option"
  hop_source_account :: "string option"
  hop_kind :: history_operation_kind

definition scalar_owned :: "json \<Rightarrow> string \<Rightarrow> string option" where
  "scalar_owned v key =
     (case json_get v key of
        Some (JString s) \<Rightarrow> Some s
      | Some (JNumber n) \<Rightarrow> Some (number_to_string n)
      | _ \<Rightarrow> None)"

definition history_asset :: "json \<Rightarrow> string \<Rightarrow> history_asset_id option" where
  "history_asset v p =
     (case get_str v (p @ ''asset_type'') of
        None \<Rightarrow> None
      | Some kind \<Rightarrow>
          if kind = ''native'' then Some HistoryNative
          else if kind = ''credit_alphanum4'' \<or> kind = ''credit_alphanum12'' then
            Option.bind (get_str v (p @ ''asset_code'')) (\<lambda>code.
              map_option (HistoryIssued code) (get_str v (p @ ''asset_issuer'')))
          else None)"

definition history_trust_asset :: "json \<Rightarrow> history_trust_asset_id" where
  "history_trust_asset v =
     (if get_str v ''asset_type'' = Some ''liquidity_pool_shares''
      then (case get_str v ''liquidity_pool_id'' of Some p \<Rightarrow> TrustLiquidityPool p | None \<Rightarrow> TrustUnknown)
      else (case history_asset v [] of Some a \<Rightarrow> TrustClassic a | None \<Rightarrow> TrustUnknown))"

definition text_either :: "json \<Rightarrow> string \<Rightarrow> string \<Rightarrow> string option" where
  "text_either v key key' = (case get_str v key of Some s \<Rightarrow> Some s | None \<Rightarrow> get_str v key')"

definition history_offer_fields :: "json \<Rightarrow> history_offer" where
  "history_offer_fields v =
     \<lparr>ho_offer_id = scalar_owned v ''offer_id'', ho_amount = scalar_owned v ''amount'',
      ho_selling = history_asset v ''selling_'', ho_buying = history_asset v ''buying_'',
      ho_price = scalar_owned v ''price''\<rparr>"

definition history_kind :: "string \<Rightarrow> json \<Rightarrow> history_operation_kind" where
  "history_kind kind v =
     (if kind = ''payment'' then
        HkPayment (text_either v ''from'' ''source_account'') (get_str v ''to'') (scalar_owned v ''amount'') (history_asset v [])
      else if kind = ''create_account'' then
        HkCreateAccount (text_either v ''funder'' ''source_account'') (get_str v ''account'') (scalar_owned v ''starting_balance'')
      else if kind = ''manage_sell_offer'' then HkManageSellOffer (history_offer_fields v)
      else if kind = ''create_passive_sell_offer'' then HkCreatePassiveSellOffer (history_offer_fields v)
      else if kind = ''manage_buy_offer'' then HkManageBuyOffer (history_offer_fields v)
      else if kind = ''change_trust'' then HkChangeTrust (history_trust_asset v) (scalar_owned v ''limit'')
      else if kind = ''invoke_host_function'' then HkInvokeHostFunction
      else if kind = ''liquidity_pool_deposit'' then HkLiquidityPoolDeposit
      else if kind = ''liquidity_pool_withdraw'' then HkLiquidityPoolWithdraw
      else if kind = ''account_merge'' then HkAccountMerge (text_either v ''into'' ''account'')
      else if kind = ''manage_data'' then HkManageData (get_str v ''name'')
      else if kind = ''set_options'' then HkSetOptions
      else if kind = ''bump_sequence'' then HkBumpSequence (scalar_owned v ''bump_to'')
      else HkOther kind)"

definition history_operation_from_horizon :: "json \<Rightarrow> history_operation" where
  "history_operation_from_horizon v =
     (let kind = (case get_str v ''type'' of Some t \<Rightarrow> t | None \<Rightarrow> ''unknown'')
      in \<lparr>hop_operation_id = scalar_owned v ''id'', hop_paging_token = scalar_owned v ''paging_token'',
          hop_transaction_hash = get_str v ''transaction_hash'', hop_created_at = get_str v ''created_at'',
          hop_source_account = get_str v ''source_account'', hop_kind = history_kind kind v\<rparr>)"

section \<open>What the views keep\<close>

lemma history_type_kept: "history_operation_type (history_kind kind v) = kind"
  by (simp add: history_kind_def)

lemma account_state_keeps_authorization:
  "account_state_from_horizon L v = Inr s \<Longrightarrow> authorization_from_horizon L v = Inr (account_state_authorization s)"
  by (auto simp: account_state_from_horizon_def account_state_authorization_def result_simps)

lemma issued_asset_has_parts:
  "asset_from_horizon L v = Inr a \<Longrightarrow> get_str v ''asset_type'' = Some kind \<Longrightarrow> kind \<noteq> ''native'' \<Longrightarrow>
     asset_code a \<noteq> None \<and> asset_issuer L a \<noteq> None"
  by (cases a) (auto simp: asset_from_horizon_def result_simps split: if_split_asm)

text \<open>An issued balance never panics: its asset has a code and an issuer.\<close>

lemma balance_asset_issued:
  assumes "get_str v ''asset_type'' = Some kind" "kind = ''credit_alphanum4'' \<or> kind = ''credit_alphanum12''"
  shows "balance_asset L v =
    map_ok (\<lambda>a. BalanceIssued (the (asset_code a)) (the (asset_issuer L a))) (asset_from_horizon L v)"
proof (cases "asset_from_horizon L v")
  case (Inr a)
  have "kind \<noteq> ''native''" using assms(2) by auto
  from issued_asset_has_parts [OF Inr assms(1) this] obtain code issuer
    where "asset_code a = Some code" "asset_issuer L a = Some issuer" by auto
  with Inr assms show ?thesis by (auto simp: balance_asset_def)
next
  case (Inl e)
  with assms show ?thesis by (auto simp: balance_asset_def)
qed

text \<open>A pool identifier in a balance is canonical: 64 lower-case hexadecimal digits, whatever was sent.\<close>

lemma normalize_pool_id_canonical:
  "normalize_pool_id raw = Inr v \<Longrightarrow> length v = 64 \<and> map to_ascii_lower v = v"
  by (auto simp: normalize_pool_id_def Let_def to_ascii_lower_idem split: if_splits)

end
