(* ===== verification/Catalog.thy ===== *)
theory Catalog
  imports Asset
begin

text \<open>
  asset_catalog.rs: the list of known assets, from the Stellar Expert service, kept in a cache file
  per network. The cache file is what reading and decoding it gives; the file system, the JSON
  encoder and the HTTP request are the record \<open>catalog_env\<close>.
\<close>

section \<open>State\<close>

record catalog_entry =
  ce_identity :: string
  ce_domain :: "string option"
  ce_name :: "string option"
  ce_organization :: "string option"
  ce_source :: string

record catalog_cache =
  cc_version :: nat
  cc_network :: string
  cc_entries :: "catalog_entry list"

datatype catalog_file = NoCatalog | UnreadableCatalog string | MalformedCatalog string | CatalogFile catalog_cache

record catalog_snapshot =
  cs_entries :: "catalog_entry list"
  cs_refreshed :: bool

record catalog_env =
  cat_network :: string
  cat_path :: string
  cat_encode :: "catalog_cache \<Rightarrow> unit result"
  cat_create_dir :: "unit result"
  cat_write :: "unit result"
  cat_rename :: "unit result"
  cat_request :: "nat \<Rightarrow> string + (string + json)"

definition cache_version :: nat where "cache_version = 1"
definition max_asset_catalog_limit :: nat where "max_asset_catalog_limit = 50"

section \<open>Entries\<close>

definition clean_optional :: "string option \<Rightarrow> string option" where
  "clean_optional v = Option.bind v (\<lambda>s. if trim s = [] then None else Some (trim s))"

definition optional_text :: "json option \<Rightarrow> string option" where
  "optional_text v = Option.bind (Option.bind v as_str) (\<lambda>s. if trim s = [] then None else Some (trim s))"

definition entry_from_identity ::
  "stellar_lib \<Rightarrow> string \<Rightarrow> string option \<Rightarrow> string option \<Rightarrow> string option \<Rightarrow> string \<Rightarrow> catalog_entry result" where
  "entry_from_identity L identity domain name organization source =
     and_then (asset_parse L identity) (\<lambda>asset.
       Inr \<lparr>ce_identity = asset_display L asset, ce_domain = clean_optional domain,
            ce_name = clean_optional name, ce_organization = clean_optional organization,
            ce_source = trim source\<rparr>)"

definition entry_is_native :: "catalog_entry \<Rightarrow> bool" where
  "entry_is_native e \<longleftrightarrow> ce_identity e = ''XLM''"

definition native_entry :: catalog_entry where
  "native_entry = \<lparr>ce_identity = ''XLM'', ce_domain = None, ce_name = None, ce_organization = None,
     ce_source = ''native''\<rparr>"

definition reparse_entry :: "stellar_lib \<Rightarrow> catalog_entry \<Rightarrow> catalog_entry result" where
  "reparse_entry L raw =
     entry_from_identity L (ce_identity raw) (ce_domain raw) (ce_name raw) (ce_organization raw) (ce_source raw)"

section \<open>The loops over entries\<close>

text \<open>
  \<open>seen\<close> is the set of the identities already taken. The loop stops when the list is longer than the
  limit: the native entry does not count.
\<close>

fun cached_entries ::
  "stellar_lib \<Rightarrow> nat \<Rightarrow> catalog_entry list \<Rightarrow> catalog_entry list \<Rightarrow> string set \<Rightarrow> catalog_entry list result" where
  "cached_entries L limit [] entries seen = Inr entries"
| "cached_entries L limit (raw # rest) entries seen =
     and_then (map_err (\<lambda>_. ''asset catalog cache contains an invalid asset identity'') (reparse_entry L raw)) (\<lambda>e.
       if entry_is_native e \<or> ce_identity e \<in> seen then cached_entries L limit rest entries seen
       else if length (entries @ [e]) > limit then Inr (entries @ [e])
       else cached_entries L limit rest (entries @ [e]) (insert (ce_identity e) seen))"

fun provider_entries ::
  "stellar_lib \<Rightarrow> nat \<Rightarrow> catalog_entry list \<Rightarrow> catalog_entry list \<Rightarrow> string set \<Rightarrow> catalog_entry list" where
  "provider_entries L limit [] entries seen = entries"
| "provider_entries L limit (raw # rest) entries seen =
     (case reparse_entry L raw of
        Inl _ \<Rightarrow> provider_entries L limit rest entries seen
      | Inr e \<Rightarrow>
          if entry_is_native e \<or> ce_identity e \<in> seen then provider_entries L limit rest entries seen
          else if length (entries @ [e]) > limit then entries @ [e]
          else provider_entries L limit rest (entries @ [e]) (insert (ce_identity e) seen))"

definition normalize_provider_entries :: "stellar_lib \<Rightarrow> catalog_entry list \<Rightarrow> nat \<Rightarrow> catalog_entry list" where
  "normalize_provider_entries L raw limit = provider_entries L limit raw [native_entry] {''XLM''}"

section \<open>The provider\<close>

text \<open>\<open>str::rsplit_once\<close>: split at the last occurrence.\<close>

definition rsplit_once :: "char \<Rightarrow> string \<Rightarrow> (string \<times> string) option" where
  "rsplit_once c s = map_option (\<lambda>(a, b). (rev b, rev a)) (split_once c (rev s))"

definition parse_expert_record :: "stellar_lib \<Rightarrow> json \<Rightarrow> catalog_entry option" where
  "parse_expert_record L raw =
     Option.bind (get_str raw ''asset'') (\<lambda>encoded.
     Option.bind (rsplit_once (CHR ''-'') encoded) (\<lambda>(identity_with_issuer, _).
     Option.bind (rsplit_once (CHR ''-'') identity_with_issuer) (\<lambda>(code, issuer).
       let toml = Option.bind (json_get raw ''tomlInfo'') (\<lambda>v. map_option (\<lambda>_. v) (as_object v))
       in case entry_from_identity L (code @ '':'' @ issuer) (optional_text (json_get raw ''domain''))
              (Option.bind toml (\<lambda>v. optional_text (json_get v ''name'')))
              (Option.bind toml (\<lambda>v. optional_text (json_get v ''orgName''))) ''stellar-expert'' of
            Inl _ \<Rightarrow> None
          | Inr e \<Rightarrow> Some e)))"

definition parse_stellar_expert :: "stellar_lib \<Rightarrow> json \<Rightarrow> catalog_entry list result" where
  "parse_stellar_expert L payload =
     map_ok (List.map_filter (parse_expert_record L)) (ok_or ''asset catalog response is malformed''
       (Option.bind (json_get payload ''_embedded'') (\<lambda>v. Option.bind (json_get v ''records'') as_array)))"

definition fetch_stellar_expert :: "stellar_lib \<Rightarrow> catalog_env \<Rightarrow> nat \<Rightarrow> catalog_entry list result" where
  "fetch_stellar_expert L env limit =
     and_then (map_err (\<lambda>e. ''asset catalog refresh failed: '' @ e) (cat_request env limit)) (\<lambda>body.
     and_then (map_err (\<lambda>e. ''asset catalog response is invalid: '' @ e) body) (parse_stellar_expert L))"

section \<open>Loading\<close>

definition validate_limit :: "nat \<Rightarrow> unit result" where
  "validate_limit limit =
     (if 1 \<le> limit \<and> limit \<le> max_asset_catalog_limit then Inr ()
      else Inl (''asset catalog limit must be from 1 to '' @ nat_to_dec max_asset_catalog_limit))"

definition read_cache :: "stellar_lib \<Rightarrow> catalog_env \<Rightarrow> nat \<Rightarrow> catalog_file \<Rightarrow> catalog_entry list result" where
  "read_cache L env limit file =
     (case file of
        NoCatalog \<Rightarrow> Inr [native_entry]
      | UnreadableCatalog e \<Rightarrow> Inl (''unable to read asset catalog cache '' @ cat_path env @ '': '' @ e)
      | MalformedCatalog e \<Rightarrow> Inl (''invalid asset catalog cache: '' @ e)
      | CatalogFile cache \<Rightarrow>
          if cc_version cache \<noteq> cache_version \<or> cc_network cache \<noteq> cat_network env
          then Inl ''unsupported asset catalog cache''
          else cached_entries L limit (cc_entries cache) [native_entry] {''XLM''})"

definition write_cache :: "catalog_env \<Rightarrow> catalog_entry list \<Rightarrow> catalog_file \<Rightarrow> unit result \<times> catalog_file" where
  "write_cache env entries file =
     (let cache = \<lparr>cc_version = cache_version, cc_network = cat_network env, cc_entries = entries\<rparr>
      in case and_then (map_err (\<lambda>e. ''unable to encode asset catalog cache: '' @ e) (cat_encode env cache)) (\<lambda>_.
           and_then (map_err (\<lambda>e. ''unable to create asset catalog directory: '' @ e) (cat_create_dir env)) (\<lambda>_.
           and_then (map_err (\<lambda>e. ''unable to write asset catalog cache: '' @ e) (cat_write env)) (\<lambda>_.
             map_err (\<lambda>e. ''unable to replace asset catalog cache: '' @ e) (cat_rename env)))) of
           Inl error \<Rightarrow> (Inl error, file)
         | Inr _ \<Rightarrow> (Inr (), CatalogFile cache))"

definition catalog_load_with ::
  "stellar_lib \<Rightarrow> catalog_env \<Rightarrow> (nat \<Rightarrow> catalog_entry list result) \<Rightarrow> nat \<Rightarrow> bool \<Rightarrow> catalog_file
     \<Rightarrow> catalog_snapshot result \<times> catalog_file" where
  "catalog_load_with L env fetch limit refresh file =
     (case and_then (validate_limit limit) (\<lambda>_. read_cache L env limit file) of
        Inl error \<Rightarrow> (Inl error, file)
      | Inr cached \<Rightarrow>
          if cat_network env \<noteq> ''mainnet'' \<or> \<not> refresh
          then (Inr \<lparr>cs_entries = cached, cs_refreshed = False\<rparr>, file)
          else
            (let fresh = (case fetch limit of Inr entries \<Rightarrow> normalize_provider_entries L entries limit | Inl _ \<Rightarrow> [])
             in if length fresh \<le> 1 then (Inr \<lparr>cs_entries = cached, cs_refreshed = False\<rparr>, file)
                else (case write_cache env (tl fresh) file of
                        (Inl error, file') \<Rightarrow> (Inl error, file')
                      | (Inr _, file') \<Rightarrow> (Inr \<lparr>cs_entries = fresh, cs_refreshed = True\<rparr>, file'))))"

definition catalog_load where
  "catalog_load L env limit refresh file =
     catalog_load_with L env (fetch_stellar_expert L env) limit refresh file"

section \<open>What a snapshot is\<close>

text \<open>
  A well-formed list: the native entry first, then at most \<open>limit\<close> issued assets, no identity twice, each
  identity the canonical text of an asset.
\<close>

definition entry_ok :: "stellar_lib \<Rightarrow> catalog_entry \<Rightarrow> bool" where
  "entry_ok L e \<longleftrightarrow> reparse_entry L e = Inr e"

definition catalog_ok :: "stellar_lib \<Rightarrow> nat \<Rightarrow> catalog_entry list \<Rightarrow> bool" where
  "catalog_ok L limit es \<longleftrightarrow>
     es \<noteq> [] \<and> hd es = native_entry \<and> length es \<le> limit + 1 \<and> distinct (map ce_identity es) \<and>
     list_all (\<lambda>e. entry_ok L e \<and> \<not> entry_is_native e) (tl es)"

lemma clean_optional_idem [simp]: "clean_optional (clean_optional v) = clean_optional v"
  by (cases v) (auto simp: clean_optional_def trim_trim)

lemma catalog_ok_snoc:
  assumes "catalog_ok L limit es" "entry_ok L e" "\<not> entry_is_native e" "ce_identity e \<notin> ce_identity ` set es"
    and "length es \<le> limit"
  shows "catalog_ok L limit (es @ [e])"
  using assms by (auto simp: catalog_ok_def)


lemma reparse_entry_ok:
  assumes "public_key_codec L" "reparse_entry L raw = Inr e"
  shows "entry_ok L e"
proof -
  obtain a where a: "asset_parse L (ce_identity raw) = Inr a"
    and e: "e = \<lparr>ce_identity = asset_display L a, ce_domain = clean_optional (ce_domain raw),
      ce_name = clean_optional (ce_name raw), ce_organization = clean_optional (ce_organization raw),
      ce_source = trim (ce_source raw)\<rparr>"
    using assms(2) by (auto simp: reparse_entry_def entry_from_identity_def result_simps)
  show ?thesis using asset_text.reparse [OF assms(1) a] e
    by (simp add: entry_ok_def reparse_entry_def entry_from_identity_def trim_trim)
qed

text \<open>What both loops maintain: the list is well formed, \<open>seen\<close> holds its identities, and there is room
  for one more entry.\<close>

definition loop_ok :: "stellar_lib \<Rightarrow> nat \<Rightarrow> catalog_entry list \<Rightarrow> string set \<Rightarrow> bool" where
  "loop_ok L limit es seen \<longleftrightarrow>
     catalog_ok L limit es \<and> seen = ce_identity ` set es \<and> length es \<le> limit"

lemma loop_ok_start: "1 \<le> limit \<Longrightarrow> loop_ok L limit [native_entry] {''XLM''}"
  by (simp add: loop_ok_def catalog_ok_def native_entry_def)

lemma loop_ok_catalog: "loop_ok L limit es seen \<Longrightarrow> catalog_ok L limit es"
  by (simp add: loop_ok_def)

lemma loop_ok_snoc:
  assumes "public_key_codec L" "loop_ok L limit es seen" "reparse_entry L raw = Inr e"
    and "\<not> (entry_is_native e \<or> ce_identity e \<in> seen)"
  shows "catalog_ok L limit (es @ [e])"
    and "\<not> limit < length (es @ [e]) \<Longrightarrow> loop_ok L limit (es @ [e]) (insert (ce_identity e) seen)"
proof -
  show c: "catalog_ok L limit (es @ [e])"
    using assms reparse_entry_ok [OF assms(1,3)] by (intro catalog_ok_snoc) (auto simp: loop_ok_def)
  assume "\<not> limit < length (es @ [e])"
  with c assms(2) show "loop_ok L limit (es @ [e]) (insert (ce_identity e) seen)"
    by (auto simp: loop_ok_def)
qed

lemma cached_entries_ok:
  assumes "public_key_codec L"
  shows "loop_ok L limit es seen \<Longrightarrow> cached_entries L limit raws es seen = Inr out \<Longrightarrow> catalog_ok L limit out"
proof (induction raws arbitrary: es seen)
  case (Cons raw rest)
  from Cons.prems(2) obtain e where e: "reparse_entry L raw = Inr e" by (auto simp: result_simps)
  show ?case
    using Cons.prems(2) e Cons.IH [OF Cons.prems(1)] loop_ok_snoc [OF assms Cons.prems(1) e]
      Cons.IH [of "es @ [e]" "insert (ce_identity e) seen"] by (auto split: if_splits)
qed (auto dest: loop_ok_catalog)

lemma provider_entries_ok:
  assumes "public_key_codec L"
  shows "loop_ok L limit es seen \<Longrightarrow> catalog_ok L limit (provider_entries L limit raws es seen)"
proof (induction raws arbitrary: es seen)
  case (Cons raw rest)
  show ?case
  proof (cases "reparse_entry L raw")
    case (Inl x)
    then show ?thesis using Cons by simp
  next
    case (Inr e)
    then show ?thesis using Cons.IH [OF Cons.prems] loop_ok_snoc [OF assms Cons.prems Inr]
      Cons.IH [of "es @ [e]" "insert (ce_identity e) seen"] by auto
  qed
qed (auto dest: loop_ok_catalog)

text \<open>A well-formed list, written without its native entry, is read back as it was.\<close>

lemma cached_entries_reads_back:
  "catalog_ok L limit (es @ rest) \<Longrightarrow> es \<noteq> [] \<Longrightarrow>
     cached_entries L limit rest es (ce_identity ` set es) = Inr (es @ rest)"
proof (induction rest arbitrary: es)
  case (Cons e rest)
  have e: "reparse_entry L e = Inr e" "\<not> entry_is_native e" "ce_identity e \<notin> ce_identity ` set es"
    using Cons.prems by (auto simp: catalog_ok_def entry_ok_def)
  show ?case
  proof (cases "limit < length (es @ [e])")
    case True
    then have "rest = []" using Cons.prems(1) by (cases rest) (auto simp: catalog_ok_def)
    then show ?thesis using e True by simp
  next
    case False
    then show ?thesis using e Cons.IH [of "es @ [e]"] Cons.prems by simp
  qed
qed simp

lemma catalog_ok_Cons: "catalog_ok L limit es \<Longrightarrow> es = native_entry # tl es"
  by (cases es) (simp_all add: catalog_ok_def)

lemma read_written_cache:
  assumes "catalog_ok L limit es" "write_cache env (tl es) f = (Inr (), f')"
  shows "read_cache L env limit f' = Inr es"
proof -
  have es: "es = [native_entry] @ tl es" using catalog_ok_Cons [OF assms(1)] by simp
  have "f' = CatalogFile \<lparr>cc_version = cache_version, cc_network = cat_network env, cc_entries = tl es\<rparr>"
    using assms(2) by (auto simp: write_cache_def Let_def split: sum.splits)
  moreover have "cached_entries L limit (tl es) [native_entry] (ce_identity ` set [native_entry]) = Inr es"
    using cached_entries_reads_back [of L limit "[native_entry]" "tl es"] assms(1) es by simp
  ultimately show ?thesis by (simp add: read_cache_def native_entry_def)
qed

lemma read_cache_ok:
  "public_key_codec L \<Longrightarrow> 1 \<le> limit \<Longrightarrow> read_cache L env limit f = Inr es \<Longrightarrow> catalog_ok L limit es"
  using loop_ok_start cached_entries_ok loop_ok_catalog
  by (fastforce simp: read_cache_def split: catalog_file.splits if_splits)

lemma normalize_provider_entries_ok:
  "public_key_codec L \<Longrightarrow> 1 \<le> limit \<Longrightarrow> catalog_ok L limit (normalize_provider_entries L raw limit)"
  by (simp add: normalize_provider_entries_def provider_entries_ok loop_ok_start)

section \<open>Properties\<close>

text \<open>Every catalogue the client hands out is well formed: the native asset first, then at most the
  asked number of issued assets, no asset twice, each under its canonical text. A refreshed
  catalogue is what the next load reads back from the cache, and a load that did not refresh leaves
  the cache as it was.\<close>

theorem catalog_snapshot_ok:
  assumes "public_key_codec L" "catalog_load L env limit refresh f = (Inr snap, f')"
  shows "catalog_ok L limit (cs_entries snap) \<and> limit \<le> 50 \<and>
    (if cs_refreshed snap then read_cache L env limit f' = Inr (cs_entries snap) else f' = f)"
proof -
  have l: "1 \<le> limit" "limit \<le> 50"
    using assms(2) by (auto simp: catalog_load_def catalog_load_with_def validate_limit_def
      max_asset_catalog_limit_def split: if_splits)
  then obtain cached where c: "read_cache L env limit f = Inr cached"
    using assms(2) by (cases "read_cache L env limit f")
      (auto simp: catalog_load_def catalog_load_with_def validate_limit_def max_asset_catalog_limit_def)
  define fresh where "fresh = (case fetch_stellar_expert L env limit of
      Inr entries \<Rightarrow> normalize_provider_entries L entries limit | Inl _ \<Rightarrow> [])"
  have r: "(if cat_network env \<noteq> ''mainnet'' \<or> \<not> refresh then (Inr \<lparr>cs_entries = cached, cs_refreshed = False\<rparr>, f)
      else if length fresh \<le> 1 then (Inr \<lparr>cs_entries = cached, cs_refreshed = False\<rparr>, f)
      else (case write_cache env (tl fresh) f of (Inl error, g) \<Rightarrow> (Inl error, g)
        | (Inr _, g) \<Rightarrow> (Inr \<lparr>cs_entries = fresh, cs_refreshed = True\<rparr>, g))) = (Inr snap, f')"
    using assms(2) l c unfolding catalog_load_def catalog_load_with_def fresh_def Let_def
    by (simp add: validate_limit_def max_asset_catalog_limit_def)
  consider "cs_entries snap = cached" "\<not> cs_refreshed snap" "f' = f"
    | "\<not> length fresh \<le> 1" "cs_entries snap = fresh" "cs_refreshed snap" "write_cache env (tl fresh) f = (Inr (), f')"
    using r by (auto split: if_splits sum.splits prod.splits)
  then show ?thesis
  proof cases
    case 1
    then show ?thesis using read_cache_ok [OF assms(1) l(1) c] l by simp
  next
    case 2
    then have "catalog_ok L limit fresh"
      using normalize_provider_entries_ok [OF assms(1) l(1)] by (auto simp: fresh_def split: sum.splits)
    then show ?thesis using read_written_cache 2 l by simp
  qed
qed

definition demo_catalog_env :: catalog_env where
  "demo_catalog_env = \<lparr>cat_network = ''mainnet'', cat_path = ''assets.json'', cat_encode = (\<lambda>_. Inr ()),
     cat_create_dir = Inr (), cat_write = Inr (), cat_rename = Inr (), cat_request = (\<lambda>_. Inl ''offline'')\<rparr>"

lemma demo_catalog_load:
  "catalog_load L demo_catalog_env 5 True NoCatalog =
     (Inr \<lparr>cs_entries = [native_entry], cs_refreshed = False\<rparr>, NoCatalog)"
  by (simp add: catalog_load_def catalog_load_with_def validate_limit_def max_asset_catalog_limit_def
    read_cache_def demo_catalog_env_def fetch_stellar_expert_def)

theorem catalog_snapshot_ok_witness: "catalog_ok demo_lib 5 [native_entry]"
  using catalog_snapshot_ok [OF demo_public_key_codec demo_catalog_load] by simp

end
