(* ===== verification/Client.thy ===== *)
theory Client
  imports Coordinated Contacts Gateway Views Catalog
begin

text \<open>
  service.rs: the network profile and the client, which owns the stores and the gateway. What the
  client changes on disk is the record \<open>client_disk\<close>; the machine it runs on (the third-party
  functions, the outcome of each system call, the HTTP transport) is the record \<open>client_host\<close>. The
  RPC gateway is a type parameter: a client holds one or none.
\<close>

section \<open>Network profiles\<close>

record network_profile =
  np_network :: string
  np_horizon_url :: string
  np_rpc_url :: "string option"

definition testnet_rpc_url :: string where "testnet_rpc_url = ''https://soroban-testnet.stellar.org:443''"

definition horizon_url :: "string \<Rightarrow> string result" where
  "horizon_url network =
     (if network = ''mainnet'' then Inr mainnet_horizon_url
      else if network = ''testnet'' then Inr testnet_horizon_url
      else Inl (''unknown network: '' @ network))"

definition validate_endpoint_url :: "string \<Rightarrow> string \<Rightarrow> string result" where
  "validate_endpoint_url label raw =
     (let value = trim_end_matches (CHR ''/'') (trim raw)
      in if value = [] then Inl (label @ '' URL must not be empty'')
         else if \<not> (starts_with ''https://'' value \<or> starts_with ''http://'' value)
         then Inl (label @ '' URL must start with http:// or https://'')
         else Inr value)"

definition profile_for_network :: "string \<Rightarrow> network_profile result" where
  "profile_for_network network =
     and_then (horizon_url network) (\<lambda>url.
       Inr \<lparr>np_network = network, np_horizon_url = url,
            np_rpc_url = (if network = ''testnet'' then Some testnet_rpc_url else None)\<rparr>)"

definition with_horizon_url :: "network_profile \<Rightarrow> string \<Rightarrow> network_profile result" where
  "with_horizon_url p url =
     and_then (validate_endpoint_url ''Horizon'' url) (\<lambda>u. Inr (p\<lparr>np_horizon_url := u\<rparr>))"

definition with_rpc_url :: "network_profile \<Rightarrow> string \<Rightarrow> network_profile result" where
  "with_rpc_url p url =
     and_then (validate_endpoint_url ''Stellar RPC'' url) (\<lambda>u. Inr (p\<lparr>np_rpc_url := Some u\<rparr>))"

section \<open>The client\<close>

record 'rpc client_host =
  ho_libs :: sdk_libs
  ho_create_dir :: "string \<Rightarrow> unit result"
  ho_restrict_dir :: "string \<Rightarrow> unit result"
  ho_wallet_env :: wallet_env
  ho_contact_env :: contact_env
  ho_pending_env :: pending_env
  ho_catalog_env :: catalog_env
  ho_http :: horizon
  ho_rpc_new :: "string \<Rightarrow> string \<Rightarrow> 'rpc result"

record 'rpc fresnica_client =
  fc_profile :: network_profile
  fc_libs :: sdk_libs
  fc_storage :: wallet_env
  fc_contacts :: contact_env
  fc_pending :: pending_env
  fc_catalog :: catalog_env
  fc_gateway :: horizon
  fc_rpc :: "'rpc option"
  fc_timeout :: nat

record client_disk =
  kd_wallets :: wallet_disk
  kd_contacts :: contact_file
  kd_pending :: pending_disk
  kd_catalog :: catalog_file

definition join_path :: "string \<Rightarrow> string \<Rightarrow> string" where
  "join_path home name =
     (if home = [] then name else if last home = CHR ''/'' then home @ name else home @ ''/'' @ name)"

definition wallet_storage_new :: "'rpc client_host \<Rightarrow> string \<Rightarrow> wallet_env result" where
  "wallet_storage_new W home =
     (let directory = join_path home ''wallets''
      in and_then (map_err (\<lambda>e. ''unable to create wallet directory: '' @ e) (ho_create_dir W directory)) (\<lambda>_.
         and_then (map_err (\<lambda>e. ''unable to protect wallet directory: '' @ e) (ho_restrict_dir W directory)) (\<lambda>_.
           Inr ((ho_wallet_env W)\<lparr>we_directory := directory, we_default_path := join_path directory ''.default''\<rparr>))))"

definition contact_store_for_home :: "'rpc client_host \<Rightarrow> string \<Rightarrow> contact_env" where
  "contact_store_for_home W home = (ho_contact_env W)\<lparr>ce_path := join_path home ''contacts.json''\<rparr>"

definition pending_store_for_home :: "'rpc client_host \<Rightarrow> string \<Rightarrow> pending_env" where
  "pending_store_for_home W home =
     (ho_pending_env W)\<lparr>pe_path := join_path home ''pending-transactions.json'', pe_ttl_seconds := pending_ttl_seconds\<rparr>"

definition asset_catalog_new :: "'rpc client_host \<Rightarrow> string \<Rightarrow> string \<Rightarrow> catalog_env" where
  "asset_catalog_new W home network =
     (ho_catalog_env W)\<lparr>cat_network := network, cat_path := join_path home (''asset-catalog-'' @ network @ ''.json'')\<rparr>"

definition client_from_profile :: "'rpc client_host \<Rightarrow> string \<Rightarrow> network_profile \<Rightarrow> 'rpc fresnica_client result" where
  "client_from_profile W home p =
     and_then (case np_rpc_url p of None \<Rightarrow> Inr None | Some url \<Rightarrow> map_ok Some (ho_rpc_new W (np_network p) url)) (\<lambda>rpc.
     and_then (wallet_storage_new W home) (\<lambda>storage.
       Inr \<lparr>fc_profile = p, fc_libs = ho_libs W, fc_storage = storage,
            fc_contacts = contact_store_for_home W home, fc_pending = pending_store_for_home W home,
            fc_catalog = asset_catalog_new W home (np_network p),
            fc_gateway = (ho_http W)\<lparr>hz_base_url := gateway_base_url (np_horizon_url p)\<rparr>,
            fc_rpc = rpc, fc_timeout = default_classic_transaction_timeout_seconds\<rparr>))"

definition client_new :: "'rpc client_host \<Rightarrow> string \<Rightarrow> string \<Rightarrow> 'rpc fresnica_client result" where
  "client_new W home network = and_then (profile_for_network network) (client_from_profile W home)"

definition fc_network :: "'rpc fresnica_client \<Rightarrow> string" where
  "fc_network C = np_network (fc_profile C)"

definition fc_stellar :: "'rpc fresnica_client \<Rightarrow> stellar_lib" where
  "fc_stellar C = lib_stellar (fc_libs C)"

definition with_classic_transaction_timeout_seconds ::
  "'rpc fresnica_client \<Rightarrow> nat \<Rightarrow> 'rpc fresnica_client result" where
  "with_classic_transaction_timeout_seconds C seconds =
     and_then (validate_classic_transaction_timeout_seconds seconds) (\<lambda>s. Inr (C\<lparr>fc_timeout := s\<rparr>))"

definition fc_rpc_gateway :: "'rpc fresnica_client \<Rightarrow> 'rpc result" where
  "fc_rpc_gateway C =
     ok_or (''No Stellar RPC endpoint configured for '' @ fc_network C
       @ ''; configure one before using contract invoke'') (fc_rpc C)"

section \<open>Reading\<close>

record account_snapshot_t =
  sn_wallet :: wallet_record
  sn_account :: account_state

record balance_snapshot =
  bs_wallet :: wallet_record
  bs_balances :: "asset_balance list"

record history_snapshot =
  hs_wallet :: wallet_record
  hs_operations :: "history_operation list"

definition client_wallets :: "'rpc fresnica_client \<Rightarrow> client_disk \<Rightarrow> wallet_record list result" where
  "client_wallets C disk =
     map_ok (filter (\<lambda>r. wr_network r = fc_network C))
       (storage_list (fc_stellar C) (fc_storage C) (kd_wallets disk))"

definition client_resolve_wallet :: "'rpc fresnica_client \<Rightarrow> string option \<Rightarrow> client_disk \<Rightarrow> wallet_record result" where
  "client_resolve_wallet C name disk =
     and_then (storage_resolve (fc_stellar C) (fc_storage C) name (kd_wallets disk)) (\<lambda>r.
       if wr_network r \<noteq> fc_network C
       then Inl (''wallet '' @ quoted (wr_name r) @ '' is configured for '' @ wr_network r
         @ ''; invoke with --network '' @ wr_network r)
       else Inr r)"

definition client_sign_sep53_message ::
  "'rpc fresnica_client \<Rightarrow> string option \<Rightarrow> bytes \<Rightarrow> string option \<Rightarrow> system_auth_provider list \<Rightarrow> client_disk
     \<Rightarrow> sep53_message_signature result" where
  "client_sign_sep53_message C name message passcode providers disk =
     and_then (client_resolve_wallet C name disk) (\<lambda>r.
       sign_sep53_message_with_system_auth (fc_libs C) r message passcode providers)"

definition client_ledger_account :: "'rpc fresnica_client \<Rightarrow> string \<Rightarrow> json option result" where
  "client_ledger_account C address = get_account_optional (fc_gateway C) address"

definition client_account :: "'rpc fresnica_client \<Rightarrow> string option \<Rightarrow> client_disk \<Rightarrow> account_snapshot_t result" where
  "client_account C name disk =
     and_then (client_resolve_wallet C name disk) (\<lambda>r.
     and_then (get_account (fc_gateway C) (wr_address r)) (\<lambda>raw.
     and_then (account_state_from_horizon (fc_stellar C) raw) (\<lambda>a.
       if as_account_id a \<noteq> wr_address r
       then Inl (''Horizon returned account '' @ as_account_id a @ '' while loading '' @ wr_address r)
       else Inr \<lparr>sn_wallet = r, sn_account = a\<rparr>)))"

definition client_balances :: "'rpc fresnica_client \<Rightarrow> string option \<Rightarrow> client_disk \<Rightarrow> balance_snapshot result" where
  "client_balances C name disk =
     and_then (client_resolve_wallet C name disk) (\<lambda>r.
     and_then (get_account (fc_gateway C) (wr_address r)) (\<lambda>account.
     and_then (ok_or ''Horizon returned malformed balance data'' (get_array account ''balances'')) (\<lambda>raws.
     and_then (collect_ok (map (asset_balance_from_horizon (fc_stellar C)) raws)) (\<lambda>bs.
       Inr \<lparr>bs_wallet = r, bs_balances = bs\<rparr>))))"

definition client_history :: "'rpc fresnica_client \<Rightarrow> string option \<Rightarrow> nat \<Rightarrow> client_disk \<Rightarrow> history_snapshot result" where
  "client_history C name limit disk =
     (if \<not> (1 \<le> limit \<and> limit \<le> 200) then Inl ''history limit must be from 1 to 200''
      else and_then (client_resolve_wallet C name disk) (\<lambda>r.
        and_then (get_operations (fc_gateway C) (wr_address r) limit) (\<lambda>raws.
          Inr \<lparr>hs_wallet = r, hs_operations = map history_operation_from_horizon raws\<rparr>)))"

definition client_asset_catalog ::
  "'rpc fresnica_client \<Rightarrow> nat \<Rightarrow> bool \<Rightarrow> client_disk \<Rightarrow> catalog_snapshot result \<times> client_disk" where
  "client_asset_catalog C limit refresh disk =
     (case catalog_load (fc_stellar C) (fc_catalog C) limit refresh (kd_catalog disk) of
        (r, f) \<Rightarrow> (r, disk\<lparr>kd_catalog := f\<rparr>))"

section \<open>Writing\<close>

text \<open>What every operation that prepares a transaction starts with, and what submitting one is.\<close>

definition client_write_wallet ::
  "'rpc fresnica_client \<Rightarrow> string option \<Rightarrow> client_disk \<Rightarrow> wallet_record result \<times> client_disk" where
  "client_write_wallet C name disk =
     (case resolve_write_wallet (fc_stellar C) (fc_storage C) (kd_wallets disk) (fc_pending C)
             (get_transaction (fc_gateway C)) (fc_network C) name (kd_pending disk) of
        (r, p) \<Rightarrow> (r, disk\<lparr>kd_pending := p\<rparr>))"

definition client_authorization_snapshot ::
  "'rpc fresnica_client \<Rightarrow> client_disk \<Rightarrow> envelope \<Rightarrow> json \<Rightarrow> ledger_authorization_snapshot result" where
  "client_authorization_snapshot C disk e account =
     prepared_classic_authorization_snapshot (fc_stellar C) (fc_storage C) (kd_wallets disk) (fc_network C) e account"

definition client_submit ::
  "'rpc fresnica_client \<Rightarrow> int \<Rightarrow> int \<Rightarrow> wallet_record \<Rightarrow> envelope \<Rightarrow> string \<Rightarrow> client_disk
     \<Rightarrow> transaction_submission result \<times> client_disk" where
  "client_submit C now now' r e passcode disk =
     (case sign_and_submit (fc_libs C) (fc_storage C) (kd_wallets disk) (fc_pending C) (get_account (fc_gateway C))
             (submit_transaction (fc_gateway C)) now now' r (fc_network C) passcode e (kd_pending disk) of
        (res, _, p) \<Rightarrow> (res, disk\<lparr>kd_pending := p\<rparr>))"

definition client_submit_with_providers ::
  "'rpc fresnica_client \<Rightarrow> int \<Rightarrow> int \<Rightarrow> wallet_record \<Rightarrow> envelope \<Rightarrow> string option \<Rightarrow> system_auth_provider list
     \<Rightarrow> external_provider list \<Rightarrow> client_disk \<Rightarrow> transaction_submission result \<times> client_disk" where
  "client_submit_with_providers C now now' r e passcode system_auths externals disk =
     (case sign_and_submit_with_providers (fc_libs C) (fc_storage C) (kd_wallets disk) (fc_pending C)
             (get_account (fc_gateway C)) (submit_transaction (fc_gateway C)) now now' r (fc_network C) passcode
             system_auths externals e (kd_pending disk) of
        (res, _, p) \<Rightarrow> (res, disk\<lparr>kd_pending := p\<rparr>))"

section \<open>What the client promises\<close>

lemma trim_end_matches_no_end: "trim_end_matches c s = t \<Longrightarrow> t \<noteq> [] \<Longrightarrow> last t \<noteq> c"
proof -
  assume t: "trim_end_matches c s = t" "t \<noteq> []"
  then have d: "dropWhile (\<lambda>x. x = c) (rev s) = rev t" by (simp add: trim_end_matches_def rev_swap)
  with t(2) have "hd (rev t) \<noteq> c" using hd_dropWhile [of "\<lambda>x. x = c" "rev s"] by simp
  with t(2) show "last t \<noteq> c" by (simp add: hd_rev)
qed

lemma validate_endpoint_url_Inr:
  "validate_endpoint_url label raw = Inr u \<Longrightarrow>
     (starts_with ''https://'' u \<or> starts_with ''http://'' u) \<and> last u \<noteq> CHR ''/''"
  by (auto simp: validate_endpoint_url_def Let_def trim_end_matches_no_end split: if_splits)

lemma client_network_known:
  "client_new W home network = Inr C \<Longrightarrow> fc_network C = network \<and> (network = ''mainnet'' \<or> network = ''testnet'')"
  by (auto simp: client_new_def client_from_profile_def profile_for_network_def horizon_url_def fc_network_def
    result_simps split: if_splits)

lemma client_resolve_wallet_Inr [result_simps]:
  "client_resolve_wallet C name disk = Inr r \<longleftrightarrow>
     storage_resolve (fc_stellar C) (fc_storage C) name (kd_wallets disk) = Inr r \<and> wr_network r = fc_network C"
  by (auto simp: client_resolve_wallet_def result_simps)

lemma client_write_wallet_disk:
  "client_write_wallet C name disk = (res, disk') \<Longrightarrow> \<exists>p. disk' = disk\<lparr>kd_pending := p\<rparr>"
  by (auto simp: client_write_wallet_def split: prod.splits)

lemma client_resolve_is_network_wallet:
  "client_resolve_wallet C name disk =
     resolve_network_wallet (fc_stellar C) (fc_storage C) (kd_wallets disk) (fc_network C) name"
  by (simp add: client_resolve_wallet_def resolve_network_wallet_def)

lemma client_write_wallet_Inr:
  assumes "client_write_wallet C name disk = (Inr r, disk')"
  shows "client_resolve_wallet C name disk = Inr r"
    and "reconcile_with (fc_pending C) (fc_network C) (wr_address r) (get_transaction (fc_gateway C))
          (kd_pending disk) = (Inr (), kd_pending disk')"
  using assms unfolding client_resolve_is_network_wallet
  by (auto simp: client_write_wallet_def resolve_write_wallet_def reconcile_and_ensure_clear_def
      split: sum.splits prod.splits)

lemma client_account_Inr:
  assumes "client_account C name disk = Inr s"
  shows "client_resolve_wallet C name disk = Inr (sn_wallet s) \<and>
    as_account_id (sn_account s) = wr_address (sn_wallet s)"
  using assms by (auto simp: client_account_def and_then_Inr split: if_splits)

lemma client_history_bounded:
  "client_history C name limit disk = Inr s \<Longrightarrow> 1 \<le> limit \<and> limit \<le> 200"
  by (simp add: client_history_def split: if_splits)

section \<open>Properties\<close>

text \<open>The wallets the client lists are exactly the stored wallets of its network, each once, and
  asking the client for a listed wallet by its name gives that wallet; a stored wallet of another
  network is refused.\<close>

theorem listed_wallets_resolve:
  assumes "listing_complete (fc_storage C)" "wallet_store_ok (fc_stellar C) (kd_wallets disk)"
  shows "\<exists>rs. client_wallets C disk = Inr rs \<and> distinct rs \<and>
    set rs = {r \<in> stored_records (kd_wallets disk). wr_network r = fc_network C} \<and>
    (\<forall>r \<in> stored_records (kd_wallets disk).
       if r \<in> set rs then client_resolve_wallet C (Some (wr_name r)) disk = Inr r
       else isl (client_resolve_wallet C (Some (wr_name r)) disk))"
proof -
  obtain rs where rs: "storage_list (fc_stellar C) (fc_storage C) (kd_wallets disk) = Inr rs"
    "set rs = stored_records (kd_wallets disk)" "distinct rs"
    "list_all (\<lambda>r. storage_load (fc_stellar C) (wr_name r) (kd_wallets disk) = Inr r) rs"
    using storage_list_ok [OF assms] by blast
  have load: "storage_resolve (fc_stellar C) (fc_storage C) (Some (wr_name r)) (kd_wallets disk) = Inr r"
    if "r \<in> stored_records (kd_wallets disk)" for r
    using rs(2,4) that by (simp add: storage_resolve_def list_all_iff)
  show ?thesis
    by (rule exI [of _ "filter (\<lambda>r. wr_network r = fc_network C) rs"])
      (use rs load in \<open>auto simp: client_wallets_def client_resolve_wallet_def\<close>)
qed

definition demo_client :: "unit fresnica_client" where
  "demo_client = \<lparr>fc_profile = \<lparr>np_network = ''testnet'', np_horizon_url = [], np_rpc_url = None\<rparr>,
     fc_libs = demo_contact_libs, fc_storage = demo_wallet_env, fc_contacts = demo_contact_env,
     fc_pending = demo_pending_env 5, fc_catalog = demo_catalog_env,
     fc_gateway = \<lparr>hz_base_url = [], hz_get = (\<lambda>_. GetStatus 404), hz_post = (\<lambda>_ _. Inl ''offline''),
       hz_parse = (\<lambda>_. Inl ''none'')\<rparr>,
     fc_rpc = None, fc_timeout = default_classic_transaction_timeout_seconds\<rparr>"

definition demo_client_disk :: client_disk where
  "demo_client_disk = \<lparr>kd_wallets = demo_wallet_disk, kd_contacts = NoContacts,
     kd_pending = \<lparr>pd_store = NoFile, pd_temporary = None\<rparr>, kd_catalog = NoCatalog\<rparr>"

lemma demo_client_simps [simp]:
  "fc_stellar demo_client = demo_lib" "fc_storage demo_client = demo_wallet_env" "fc_network demo_client = ''testnet''"
  by (simp_all add: demo_client_def fc_stellar_def fc_network_def demo_contact_libs_def)

lemma demo_wallet_stored: "wallet_store_ok demo_lib demo_wallet_disk"
  using demo_wallet_valid [of "''a''"] trim_a
  by (auto simp: wallet_store_ok_def demo_wallet_disk_def empty_wallet_disk_def demo_wallet_def)

theorem listed_wallets_resolve_witness:
  "\<exists>rs. client_wallets demo_client demo_client_disk = Inr rs \<and> distinct rs"
proof -
  have "listing_complete (fc_storage demo_client)"
    "wallet_store_ok (fc_stellar demo_client) (kd_wallets demo_client_disk)"
    by (simp_all add: demo_listing demo_wallet_stored demo_client_disk_def)
  from listed_wallets_resolve [OF this] show ?thesis by blast
qed

section \<open>A concrete Horizon for the examples\<close>

text \<open>One account with 100 XLM and no signers besides; every other request is answered 404.\<close>

definition demo_native_balance :: json where
  "demo_native_balance = JObject [(''asset_type'', JString ''native''), (''balance'', JString ''100'')]"

definition demo_horizon_account :: json where
  "demo_horizon_account = JObject
     [(''account_id'', JString (demo_key_text demo_key)), (''sequence'', JString ''7''),
      (''thresholds'', JObject [(''low_threshold'', JNumber (PosInt 0)), (''med_threshold'', JNumber (PosInt 0)),
         (''high_threshold'', JNumber (PosInt 0))]),
      (''signers'', JArray []), (''balances'', JArray [demo_native_balance])]"

definition demo_ledger_page :: json where
  "demo_ledger_page = JObject [(''_embedded'', JObject [(''records'', JArray [JObject
     [(''base_fee_in_stroops'', JNumber (PosInt 100)), (''base_reserve_in_stroops'', JNumber (PosInt 5000000))]])])]"

definition demo_gateway :: horizon where
  "demo_gateway =
     \<lparr>hz_base_url = [],
      hz_get = (\<lambda>url.
        if url = ''/accounts/'' @ demo_key_text demo_key then GetBody (Inr demo_horizon_account)
        else if url = ''/ledgers?order=desc&limit=1'' then GetBody (Inr demo_ledger_page) else GetStatus 404),
      hz_post = (\<lambda>_ _. Inl ''offline''), hz_parse = (\<lambda>_. Inl ''none'')\<rparr>"

definition demo_online :: "unit fresnica_client" where
  "demo_online = demo_client\<lparr>fc_gateway := demo_gateway\<rparr>"

lemma demo_online_simps [simp]:
  "fc_stellar demo_online = demo_lib" "fc_storage demo_online = demo_wallet_env" "fc_network demo_online = ''testnet''"
  "fc_gateway demo_online = demo_gateway" "fc_timeout demo_online = 300"
  by (simp_all add: demo_online_def demo_client_def fc_stellar_def fc_network_def demo_contact_libs_def
    default_classic_transaction_timeout_seconds_def)

lemma demo_get_account [simp]: "get_account demo_gateway (demo_key_text demo_key) = Inr demo_horizon_account"
  unfolding get_account_def get_json_def demo_gateway_def by (simp add: read_json_def)

lemma demo_get_account_optional [simp]:
  "get_account_optional demo_gateway (demo_key_text demo_key) = Inr (Some demo_horizon_account)"
  by (simp add: get_account_optional_agrees)

lemma demo_ledger [simp]:
  "get_ledger_parameters demo_gateway = Inr \<lparr>base_fee_in_stroops = 100, base_reserve_in_stroops = 5000000\<rparr>"
proof -
  have "get_json demo_gateway ''/ledgers?order=desc&limit=1'' e = Inr demo_ledger_page" for e
    unfolding get_json_def demo_gateway_def by (simp add: read_json_def)
  then show ?thesis
    by (simp add: get_ledger_parameters_def embedded_records_def demo_ledger_page_def arith_defs in_u32_def)
qed

lemma demo_account_fields [simp]:
  "get_array demo_horizon_account ''balances'' = Some [demo_native_balance]"
  "get_str demo_native_balance ''asset_type'' = Some ''native''"
  "account_sequence demo_horizon_account = Inr 7"
  "minimum_balance_stroops demo_horizon_account 5000000 = Inr 10000000"
  "balance_stroops demo_native_balance ''balance'' = Inr 1000000000"
  "balance_stroops demo_native_balance ''selling_liabilities'' = Inr 0"
  "balance_stroops demo_native_balance ''buying_liabilities'' = Inr 0"
proof -
  show "get_array demo_horizon_account ''balances'' = Some [demo_native_balance]"
    by (simp add: demo_horizon_account_def get_array_def)
  show "get_str demo_native_balance ''asset_type'' = Some ''native''"
    by (simp add: demo_native_balance_def get_str_def)
  have n: "parse_stroops (format_stroops 1000000000) False = Inr 1000000000" "parse_stroops (format_stroops 0) False = Inr 0"
    by (rule stroops.parse_print; simp add: arith_defs)+
  have t: "format_stroops 1000000000 = ''100''" "format_stroops 0 = ''0''"
    by (simp_all add: format_stroops_def stroops_per_xlm_def int_to_dec_def nat_to_dec.simps digit_char_def
      Let_def signed_divide_int_def signed_modulo_int_def)
  show "balance_stroops demo_native_balance ''balance'' = Inr 1000000000"
    "balance_stroops demo_native_balance ''selling_liabilities'' = Inr 0"
    "balance_stroops demo_native_balance ''buying_liabilities'' = Inr 0"
    using n by (simp_all add: balance_stroops_def demo_native_balance_def get_str_def t)
  have "parse_i64 ''7'' = Some 7"
    by (simp add: parse_i64_def parse_digits_def all_digits_def is_ascii_digit_def dec_val_def digit_val_def checked_i64_def arith_defs)
  then show "account_sequence demo_horizon_account = Inr 7"
    by (simp add: account_sequence_def demo_horizon_account_def get_str_def)
  have "json_get demo_horizon_account k = None" if "k \<in> {''subentry_count'', ''num_sponsoring'', ''num_sponsored''}" for k
    using that by (auto simp: demo_horizon_account_def)
  then have c: "integer_value (json_get demo_horizon_account k) = None"
    if "k \<in> {''subentry_count'', ''num_sponsoring'', ''num_sponsored''}" for k using that by (metis integer_value.simps(3))
  have "saturating_sub (saturating_add (saturating_add 2 0) 0) 0 = 2"
    by (simp add: saturating_add_def saturating_sub_def saturate_i64_def arith_defs)
  moreover have "checked_mul 2 5000000 = Some 10000000" by (simp add: checked_mul_def checked_i64_def arith_defs)
  ultimately show "minimum_balance_stroops demo_horizon_account 5000000 = Inr 10000000"
    unfolding minimum_balance_stroops_def Let_def by (simp add: c)
qed

text \<open>Any transaction of one known operation has a reviewable authorization.\<close>

lemma demo_snapshot:
  assumes "tx_source t = MuxEd25519 demo_key" "tx_operations t = [\<lparr>op_source = None, op_body = body\<rparr>]"
    and "tx_cond t = PrecondTime b" "operation_authorization body = Some use"
  shows "\<exists>s. client_authorization_snapshot demo_online demo_client_disk (EnvTx t []) demo_horizon_account = Inr s"
proof -
  obtain kind threshold where u: "use = (kind, threshold)" by (cases use)
  have a: "authorization_from_horizon demo_lib demo_horizon_account = Inr
      \<lparr>laa_account_id = demo_key_text demo_key, low_threshold = 0, medium_threshold = 0, high_threshold = 0, laa_signers = []\<rparr>"
    using demo_key_simps
    by (simp add: authorization_from_horizon_def demo_horizon_account_def json_string_def json_u8_def get_str_def
      get_array_def account_id_from_string_def u64_max_def)
  let ?a = "\<lparr>laa_account_id = demo_key_text demo_key, low_threshold = 0, medium_threshold = 0, high_threshold = 0,
    laa_signers = []\<rparr>"
  have w: "required_weight ?a th = 0" for th by (cases th) simp_all
  define plan where "plan = \<lparr>lap_requirements = [\<lparr>aar_account_id = demo_key_text demo_key, aar_required_weight = 1,
      aar_uses = [\<lparr>au_scope = TransactionSource, au_threshold = Low, au_required_weight = 0\<rparr>,
        \<lparr>au_scope = OperationScope 0 kind, au_threshold = threshold, au_required_weight = 0\<rparr>],
      aar_signers = []\<rparr>], lap_extra_signers = {}\<rparr>"
  have p: "plan_classic_ledger_authorization demo_lib (EnvTx t []) [?a] = Inr plan"
    using assms u w by (simp add: plan_classic_ledger_authorization_def classic_authorization_uses_def Let_def
      extra_signer_conditions_def add_requirement_def plan_def)
  have c: "signer_conditions plan = {}" by (simp add: plan_def signer_conditions_def)
  obtain rs where r: "storage_list demo_lib demo_wallet_env demo_wallet_disk = Inr rs"
    using storage_list_ok [OF demo_listing demo_wallet_stored] by blast
  have h: "transaction_hash_bytes demo_lib (EnvTx t []) ''testnet'' = Inr (demo_pad 32 [1])"
    using assms(2) by (simp add: transaction_hash_bytes_def network_passphrase_def transaction_hash_def demo_lib_def demo_hash_def)
  show ?thesis
    unfolding client_authorization_snapshot_def prepared_classic_authorization_snapshot_def review_ledger_authorization_def
    by (simp add: a p c r h network_passphrase_def satisfied_transaction_conditions_def local_signing_records_def
      demo_client_disk_def)
qed

end
