(* ===== verification/Payment.thy ===== *)
theory Payment
  imports Client
begin

text \<open>
  payment.rs: preparing a payment (or the creation of an account) from a wallet, with every check
  before it is reviewed, and submitting what was prepared.
\<close>

section \<open>Memos\<close>

datatype payment_memo = PmNone | PmText string | PmId nat | PmHash bytes

record payment_memo_review =
  pmr_memo_type :: string
  pmr_value :: string

definition memo_from_text :: "string option \<Rightarrow> payment_memo" where
  "memo_from_text value =
     (case value of Some s \<Rightarrow> if s \<noteq> [] then PmText s else PmNone | None \<Rightarrow> PmNone)"

definition memo_from_anchor_fields :: "stellar_lib \<Rightarrow> string option \<Rightarrow> string option \<Rightarrow> payment_memo result" where
  "memo_from_anchor_fields L memo_type m =
     (case (memo_type, m) of
        (None, None) \<Rightarrow> Inr PmNone
      | (Some t, Some value) \<Rightarrow>
          if t = ''text'' then Inr (PmText value)
          else if t = ''id'' then
            ok_or ''anchor withdrawal id memo must be an unsigned 64-bit integer'' (map_option PmId (parse_u64 value))
          else if t = ''hash'' then
            and_then (ok_or ''anchor withdrawal hash memo must be valid base64'' (base64_decode L value)) (\<lambda>b.
              if length b = 32 then Inr (PmHash b)
              else Inl ''anchor withdrawal hash memo must decode to exactly 32 bytes'')
          else Inl (''unsupported anchor withdrawal memo type: '' @ t @ ''; expected text, id, or hash'')
      | _ \<Rightarrow> Inl ''anchor withdrawal memo_type and memo must be supplied together'')"

fun payment_memo_xdr :: "payment_memo \<Rightarrow> memo result" where
  "payment_memo_xdr PmNone = Inr MemoNone"
| "payment_memo_xdr (PmText s) =
     (if length s \<le> 28 then Inr (MemoText (bytes_of s)) else Inl ''text memo must be at most 28 bytes'')"
| "payment_memo_xdr (PmId n) = Inr (MemoId n)"
| "payment_memo_xdr (PmHash b) = Inr (MemoHash b)"

fun review_memo :: "stellar_lib \<Rightarrow> payment_memo \<Rightarrow> payment_memo_review option" where
  "review_memo L PmNone = None"
| "review_memo L (PmText s) = Some \<lparr>pmr_memo_type = ''text'', pmr_value = s\<rparr>"
| "review_memo L (PmId n) = Some \<lparr>pmr_memo_type = ''id'', pmr_value = nat_to_dec n\<rparr>"
| "review_memo L (PmHash b) = Some \<lparr>pmr_memo_type = ''hash'', pmr_value = base64_encode L b\<rparr>"

section \<open>Requests, reviews and destinations\<close>

datatype payment_operation = PoPayment | PoCreateAccount

fun payment_operation_label :: "payment_operation \<Rightarrow> string" where
  "payment_operation_label PoPayment = ''Payment''"
| "payment_operation_label PoCreateAccount = ''CreateAccount''"

record payment_request =
  pq_wallet :: "string option"
  pq_amount :: string
  pq_asset :: string
  pq_destination :: string
  pq_memo :: "string option"

record payment_review =
  pr_operation :: payment_operation
  pr_wallet_name :: string
  pr_source :: string
  pr_destination :: string
  pr_contact_name :: "string option"
  pr_amount :: string
  pr_asset :: string
  pr_fee_xlm :: string
  pr_network :: string
  pr_timeout_seconds :: nat
  pr_memo :: "payment_memo_review option"
  pr_authorization :: ledger_authorization_snapshot

record prepared_payment =
  pp_review :: payment_review
  pp_wallet :: wallet_record
  pp_envelope :: envelope

record payment_destination =
  pde_ledger_account :: bytes
  pde_operation_destination :: muxed_account
  pde_muxed_id :: "nat option"

definition payment_destination_parse :: "stellar_lib \<Rightarrow> string \<Rightarrow> payment_destination result" where
  "payment_destination_parse L value =
     and_then (ok_or ''destination must be a Classic Stellar G or M address'' (muxed_from_string L value)) (\<lambda>m.
       Inr (case m of
          MuxEd25519 k \<Rightarrow> \<lparr>pde_ledger_account = k, pde_operation_destination = m, pde_muxed_id = None\<rparr>
        | MuxMuxedEd25519 i k \<Rightarrow> \<lparr>pde_ledger_account = k, pde_operation_destination = m, pde_muxed_id = Some i\<rparr>))"

definition destination_is_muxed :: "payment_destination \<Rightarrow> bool" where
  "destination_is_muxed d \<longleftrightarrow> pde_muxed_id d \<noteq> None"

definition payment_body :: "payment_destination \<Rightarrow> asset \<Rightarrow> int \<Rightarrow> bool \<Rightarrow> operation_body result" where
  "payment_body d a amount create_destination =
     (if create_destination
      then if destination_is_muxed d then Inl ''CreateAccount cannot target a muxed M address''
           else Inr (CreateAccountOp (pde_ledger_account d) amount)
      else Inr (PaymentOp (pde_operation_destination d) a amount))"

section \<open>The checks\<close>

text \<open>The XLM an account can spend: its balance less what is in offers and the minimum balance.\<close>

definition free_native_stroops :: "json \<Rightarrow> json \<Rightarrow> int \<Rightarrow> int result" where
  "free_native_stroops account native base_reserve =
     and_then (balance_stroops native ''balance'') (\<lambda>balance.
     and_then (balance_stroops native ''selling_liabilities'') (\<lambda>selling.
     and_then (minimum_balance_stroops account base_reserve) (\<lambda>minimum.
       Inr (saturating_sub (saturating_sub balance selling) minimum))))"

definition ensure_payment_fee_capacity :: "json \<Rightarrow> ledger_parameters \<Rightarrow> unit result" where
  "ensure_payment_fee_capacity account ledger =
     and_then (ok_or ''Horizon returned malformed balance data'' (get_array account ''balances'')) (\<lambda>balances.
     and_then (ok_or ''No XLM balance is available to pay the transaction fee''
         (find (\<lambda>b. get_str b ''asset_type'' = Some ''native'') balances)) (\<lambda>native.
     and_then (free_native_stroops account native (base_reserve_in_stroops ledger)) (\<lambda>unreserved.
       let free = max 0 unreserved; fee = base_fee_in_stroops ledger
       in if free < fee
          then Inl (''Insufficient XLM for transaction fee: need '' @ format_stroops fee
            @ '', available '' @ format_stroops free)
          else Inr ())))"

definition ensure_payment_trustline_authorized :: "stellar_lib \<Rightarrow> json \<Rightarrow> asset \<Rightarrow> unit result" where
  "ensure_payment_trustline_authorized L raw a =
     (case get_bool raw ''is_authorized'' of
        Some True \<Rightarrow> Inr ()
      | Some False \<Rightarrow> Inl (''Trustline for '' @ asset_display L a @ '' is not fully authorized for payment'')
      | None \<Rightarrow> Inl (''Horizon returned malformed authorization state for '' @ asset_display L a))"

definition transfer_available :: "stellar_lib \<Rightarrow> json \<Rightarrow> asset \<Rightarrow> ledger_parameters \<Rightarrow> json option \<Rightarrow> int result" where
  "transfer_available L account a ledger raw =
     (case raw of
        None \<Rightarrow> Inr 0
      | Some b \<Rightarrow>
          if is_native a then
            and_then (free_native_stroops account b (base_reserve_in_stroops ledger)) (\<lambda>unreserved.
              Inr (max 0 (saturating_sub unreserved (base_fee_in_stroops ledger))))
          else
            and_then (ensure_payment_trustline_authorized L b a) (\<lambda>_.
            and_then (ensure_payment_fee_capacity account ledger) (\<lambda>_.
            and_then (balance_stroops b ''balance'') (\<lambda>balance.
            and_then (balance_stroops b ''selling_liabilities'') (\<lambda>selling.
              Inr (max 0 (saturating_sub balance selling)))))))"

definition validate_transfer ::
  "stellar_lib \<Rightarrow> json \<Rightarrow> string \<Rightarrow> asset \<Rightarrow> int \<Rightarrow> ledger_parameters \<Rightarrow> unit result" where
  "validate_transfer L account account_id a requested ledger =
     and_then (ok_or ''Horizon returned malformed balance data'' (get_array account ''balances'')) (\<lambda>balances.
       if \<not> is_native a \<and> issuer_is L a account_id then ensure_payment_fee_capacity account ledger
       else and_then (transfer_available L account a ledger (find (matches_balance L a) balances)) (\<lambda>available.
         if requested > available
         then Inl (''Insufficient '' @ asset_display L a @ '' balance: requested '' @ format_stroops requested
           @ '', available '' @ format_stroops available)
         else Inr ()))"

definition receive_capacity :: "stellar_lib \<Rightarrow> asset \<Rightarrow> json \<Rightarrow> int result" where
  "receive_capacity L a raw =
     (if is_native a then
        and_then (balance_stroops raw ''balance'') (\<lambda>balance.
        and_then (balance_stroops raw ''buying_liabilities'') (\<lambda>buying.
        and_then (ok_or ''destination native receiving capacity overflow'' (checked_add balance buying)) (\<lambda>committed.
          Inr (saturating_sub i64_max committed))))
      else
        and_then (ensure_payment_trustline_authorized L raw a) (\<lambda>_.
        and_then (balance_stroops raw ''limit'') (\<lambda>limit.
        and_then (balance_stroops raw ''balance'') (\<lambda>balance.
        and_then (balance_stroops raw ''buying_liabilities'') (\<lambda>buying.
        and_then (ok_or ''destination trustline receiving capacity overflow'' (checked_add balance buying)) (\<lambda>committed.
          Inr (max 0 (saturating_sub limit committed))))))))"

definition validate_destination_receive :: "stellar_lib \<Rightarrow> json \<Rightarrow> string \<Rightarrow> asset \<Rightarrow> int \<Rightarrow> unit result" where
  "validate_destination_receive L account account_id a requested =
     (if \<not> is_native a \<and> issuer_is L a account_id then Inr ()
      else
        and_then (ok_or ''Horizon returned malformed destination balance data'' (get_array account ''balances'')) (\<lambda>balances.
        and_then (ok_or (''Destination has no trustline for '' @ asset_display L a)
            (find (matches_balance L a) balances)) (\<lambda>raw.
        and_then (receive_capacity L a raw) (\<lambda>capacity.
          if requested > capacity
          then Inl (''Insufficient receiving capacity for '' @ asset_display L a @ '' at destination: need ''
            @ format_stroops requested @ '', available '' @ format_stroops capacity)
          else Inr ()))))"

definition account_requires_memo :: "stellar_lib \<Rightarrow> json \<Rightarrow> bool result" where
  "account_requires_memo L account =
     (case Option.bind (json_get account ''data'') (\<lambda>d. get_str d ''config.memo_required'') of
        None \<Rightarrow> Inr False
      | Some encoded \<Rightarrow>
          and_then (ok_or ''Horizon returned malformed config.memo_required data'' (base64_decode L encoded))
            (\<lambda>decoded. Inr (decoded = bytes_of ''1'')))"

definition memo_id_conflict :: "payment_destination \<Rightarrow> payment_memo \<Rightarrow> (nat \<times> nat) option" where
  "memo_id_conflict d m =
     (case (pde_muxed_id d, m) of
        (Some muxed_id, PmId memo_id) \<Rightarrow> if muxed_id \<noteq> memo_id then Some (muxed_id, memo_id) else None
      | _ \<Rightarrow> None)"

definition validate_destination_memo ::
  "stellar_lib \<Rightarrow> string \<Rightarrow> payment_destination \<Rightarrow> payment_memo \<Rightarrow> json \<Rightarrow> unit result" where
  "validate_destination_memo L destination_address d m account =
     (case memo_id_conflict d m of
        Some (muxed_id, memo_id) \<Rightarrow>
          Inl (''Muxed destination '' @ destination_address @ '' embeds id '' @ nat_to_dec muxed_id
            @ '', which conflicts with memo id '' @ nat_to_dec memo_id)
      | None \<Rightarrow>
          if destination_is_muxed d then Inr ()
          else and_then (if m = PmNone then account_requires_memo L account else Inr False) (\<lambda>required.
            if required
            then Inl (''Destination '' @ destination_address
              @ '' requires a transaction memo (SEP-29). Add a memo and try again.'')
            else Inr ()))"

section \<open>Preparing and submitting\<close>

definition new_account_minimum :: "ledger_parameters \<Rightarrow> int \<Rightarrow> unit result" where
  "new_account_minimum ledger amount =
     and_then (ok_or ''base reserve overflow'' (checked_mul 2 (base_reserve_in_stroops ledger))) (\<lambda>minimum.
       if amount < minimum
       then Inl (''Creating a Stellar account requires at least '' @ format_stroops minimum
         @ '' XLM at the current base reserve; requested '' @ format_stroops amount @ '' XLM'')
       else Inr ())"

text \<open>The checks that need the ledger: both accounts, the ledger parameters, funds and capacity.\<close>

definition payment_ledger_checks ::
  "'rpc fresnica_client \<Rightarrow> wallet_record \<Rightarrow> asset \<Rightarrow> int \<Rightarrow> payment_destination \<Rightarrow> string \<Rightarrow> payment_memo
     \<Rightarrow> (json \<times> bool \<times> ledger_parameters) result" where
  "payment_ledger_checks C r a amount d destination_address m =
     (let L = fc_stellar C; H = fc_gateway C; ledger_address = public_key_to_string L (pde_ledger_account d) in
     and_then (get_account H (wr_address r)) (\<lambda>account.
     and_then (get_account_optional H ledger_address) (\<lambda>destination_account.
     if destination_account = None \<and> destination_is_muxed d
     then Inl (''Muxed destination '' @ destination_address @ '' refers to missing account '' @ ledger_address
       @ ''; M addresses cannot create Stellar accounts'')
     else if destination_account = None \<and> \<not> is_native a
     then Inl (''Destination account does not exist. Only XLM can create a new Stellar account; ''
       @ ''issued assets require an existing account and trustline.'')
     else
       and_then (get_ledger_parameters H) (\<lambda>ledger.
       and_then (validate_transfer L account (wr_address r) a amount ledger) (\<lambda>_.
       and_then (case destination_account of
           Some da \<Rightarrow>
             and_then (validate_destination_receive L da ledger_address a amount) (\<lambda>_.
               validate_destination_memo L destination_address d m da)
         | None \<Rightarrow> new_account_minimum ledger amount) (\<lambda>_.
         Inr (account, destination_account = None, ledger)))))))"

definition prepare_payment_with_wallet ::
  "'rpc fresnica_client \<Rightarrow> int \<Rightarrow> wallet_record \<Rightarrow> string \<Rightarrow> string \<Rightarrow> string \<Rightarrow> string option \<Rightarrow> payment_memo
     \<Rightarrow> client_disk \<Rightarrow> prepared_payment result" where
  "prepare_payment_with_wallet C now r amt_text asset_text destination_address contact_name m disk =
     (let L = fc_stellar C in
     and_then (asset_parse L asset_text) (\<lambda>a.
     and_then (parse_positive_stroops amt_text) (\<lambda>amount.
     and_then (payment_destination_parse L destination_address) (\<lambda>d.
     and_then (payment_memo_xdr m) (\<lambda>memo_xdr.
     and_then (payment_ledger_checks C r a amount d destination_address m) (\<lambda>(account, create_destination, ledger).
     and_then (payment_body d a amount create_destination) (\<lambda>body.
     and_then (account_sequence account) (\<lambda>sequence.
     and_then (build_single_with_memo_and_timeout L now (wr_address r) body sequence
         (base_fee_in_stroops ledger) memo_xdr (fc_timeout C)) (\<lambda>e.
     and_then (client_authorization_snapshot C disk e account) (\<lambda>authorization.
       Inr \<lparr>pp_review =
              \<lparr>pr_operation = (if create_destination then PoCreateAccount else PoPayment),
               pr_wallet_name = wr_name r, pr_source = wr_address r, pr_destination = destination_address,
               pr_contact_name = contact_name, pr_amount = format_stroops amount,
               pr_asset = asset_display L a, pr_fee_xlm = format_stroops (base_fee_in_stroops ledger),
               pr_network = wr_network r, pr_timeout_seconds = fc_timeout C, pr_memo = review_memo L m,
               pr_authorization = authorization\<rparr>,
            pp_wallet = r, pp_envelope = e\<rparr>))))))))))"

definition prepare_payment ::
  "'rpc fresnica_client \<Rightarrow> int \<Rightarrow> payment_request \<Rightarrow> client_disk \<Rightarrow> prepared_payment result \<times> client_disk" where
  "prepare_payment C now q disk =
     (case client_write_wallet C (pq_wallet q) disk of
        (Inl error, disk') \<Rightarrow> (Inl error, disk')
      | (Inr r, disk') \<Rightarrow>
          (and_then (resolve_destination (fc_libs C) (fc_contacts C) (kd_contacts disk')
             (pq_destination q) (pq_memo q)) (\<lambda>resolved.
             prepare_payment_with_wallet C now r (pq_amount q) (pq_asset q) (rd_address resolved)
               (rd_contact_name resolved) (memo_from_text (rd_memo resolved)) disk'), disk'))"

definition prepare_payment_to_address ::
  "'rpc fresnica_client \<Rightarrow> int \<Rightarrow> wallet_record \<Rightarrow> string \<Rightarrow> string \<Rightarrow> string \<Rightarrow> string option \<Rightarrow> payment_memo
     \<Rightarrow> client_disk \<Rightarrow> prepared_payment result \<times> client_disk" where
  "prepare_payment_to_address C now r amt_text asset_text destination_address contact_name m disk =
     (case client_write_wallet C (Some (wr_name r)) disk of
        (Inl error, disk') \<Rightarrow> (Inl error, disk')
      | (Inr current, disk') \<Rightarrow>
          (if wr_address current \<noteq> wr_address r
           then Inl (''wallet identity changed while preparing payment: '' @ wr_name r)
           else prepare_payment_with_wallet C now current amt_text asset_text destination_address contact_name m disk',
           disk'))"

definition submit_payment ::
  "'rpc fresnica_client \<Rightarrow> int \<Rightarrow> int \<Rightarrow> prepared_payment \<Rightarrow> string \<Rightarrow> client_disk
     \<Rightarrow> transaction_submission result \<times> client_disk" where
  "submit_payment C now now' prepared passcode disk =
     client_submit C now now' (pp_wallet prepared) (pp_envelope prepared) passcode disk"

definition submit_payment_with_providers ::
  "'rpc fresnica_client \<Rightarrow> int \<Rightarrow> int \<Rightarrow> prepared_payment \<Rightarrow> string option \<Rightarrow> system_auth_provider list
     \<Rightarrow> external_provider list \<Rightarrow> client_disk \<Rightarrow> transaction_submission result \<times> client_disk" where
  "submit_payment_with_providers C now now' prepared passcode system_auths externals disk =
     client_submit_with_providers C now now' (pp_wallet prepared) (pp_envelope prepared) passcode
       system_auths externals disk"

definition ensure_payment_receive_ready ::
  "'rpc fresnica_client \<Rightarrow> string option \<Rightarrow> string \<Rightarrow> client_disk \<Rightarrow> unit result" where
  "ensure_payment_receive_ready C name asset_text disk =
     and_then (client_resolve_wallet C name disk) (\<lambda>r.
     and_then (asset_parse (fc_stellar C) asset_text) (\<lambda>a.
     and_then (get_account (fc_gateway C) (wr_address r)) (\<lambda>account.
       validate_destination_receive (fc_stellar C) account (wr_address r) a 1)))"

section \<open>What a prepared payment is\<close>

lemma prepare_payment_Inr:
  assumes "prepare_payment_with_wallet C now r amt_text asset_text dest contact m disk = Inr p"
  shows "\<exists>a amount d memo_xdr account fresh ledger body sequence e authorization.
    asset_parse (fc_stellar C) asset_text = Inr a \<and> parse_positive_stroops amt_text = Inr amount \<and>
    payment_destination_parse (fc_stellar C) dest = Inr d \<and> payment_memo_xdr m = Inr memo_xdr \<and>
    payment_ledger_checks C r a amount d dest m = Inr (account, fresh, ledger) \<and>
    payment_body d a amount fresh = Inr body \<and> account_sequence account = Inr sequence \<and>
    build_single_with_memo_and_timeout (fc_stellar C) now (wr_address r) body sequence
      (base_fee_in_stroops ledger) memo_xdr (fc_timeout C) = Inr e \<and>
    client_authorization_snapshot C disk e account = Inr authorization \<and>
    p = \<lparr>pp_review =
           \<lparr>pr_operation = (if fresh then PoCreateAccount else PoPayment),
            pr_wallet_name = wr_name r, pr_source = wr_address r, pr_destination = dest,
            pr_contact_name = contact, pr_amount = format_stroops amount,
            pr_asset = asset_display (fc_stellar C) a, pr_fee_xlm = format_stroops (base_fee_in_stroops ledger),
            pr_network = wr_network r, pr_timeout_seconds = fc_timeout C, pr_memo = review_memo (fc_stellar C) m,
            pr_authorization = authorization\<rparr>,
         pp_wallet = r, pp_envelope = e\<rparr>"
  using assms unfolding prepare_payment_with_wallet_def Let_def and_then_Inr split_paired_Ex prod.case sum.inject
  by blast

lemma payment_ledger_checks_Inr:
  assumes "payment_ledger_checks C r a amount d dest m = Inr (account, fresh, ledger)"
  shows "get_account (fc_gateway C) (wr_address r) = Inr account"
    and "get_ledger_parameters (fc_gateway C) = Inr ledger"
    and "validate_transfer (fc_stellar C) account (wr_address r) a amount ledger = Inr ()"
    and "\<exists>destination_account.
      get_account_optional (fc_gateway C) (public_key_to_string (fc_stellar C) (pde_ledger_account d)) =
        Inr destination_account \<and> fresh = (destination_account = None) \<and>
      (case destination_account of
         None \<Rightarrow> \<not> destination_is_muxed d \<and> is_native a \<and> new_account_minimum ledger amount = Inr ()
       | Some da \<Rightarrow>
           validate_destination_receive (fc_stellar C) da
             (public_key_to_string (fc_stellar C) (pde_ledger_account d)) a amount = Inr () \<and>
           validate_destination_memo (fc_stellar C) dest d m da = Inr ())"
  using assms by (auto simp: payment_ledger_checks_def Let_def and_then_Inr split: if_split_asm option.split_asm)

lemma payment_destination_parse_Inr:
  "payment_destination_parse L dest = Inr d \<Longrightarrow>
     muxed_from_string L dest = Some (pde_operation_destination d) \<and>
     (\<not> destination_is_muxed d \<longrightarrow> pde_operation_destination d = MuxEd25519 (pde_ledger_account d))"
proof -
  assume "payment_destination_parse L dest = Inr d"
  then obtain m where "muxed_from_string L dest = Some m" "(case m of
          MuxEd25519 k \<Rightarrow> \<lparr>pde_ledger_account = k, pde_operation_destination = m, pde_muxed_id = None\<rparr>
        | MuxMuxedEd25519 i k \<Rightarrow> \<lparr>pde_ledger_account = k, pde_operation_destination = m, pde_muxed_id = Some i\<rparr>) = d"
    unfolding payment_destination_parse_def and_then_Inr sum.inject by (auto simp: result_simps)
  then show ?thesis by (cases m) (auto simp: destination_is_muxed_def)
qed

definition memo_in_range :: "payment_memo \<Rightarrow> bool" where
  "memo_in_range m \<longleftrightarrow> (case m of PmId n \<Rightarrow> int n \<le> u64_max | _ \<Rightarrow> True)"

lemma memo_from_text_in_range: "memo_in_range (memo_from_text t)"
  by (simp add: memo_in_range_def memo_from_text_def split: option.split)

lemma parse_u64_range: "parse_u64 s = Some n \<Longrightarrow> int n \<le> u64_max"
  by (auto simp: parse_u64_def Option.bind_eq_Some_conv split: if_splits)

lemma memo_from_anchor_in_range: "memo_from_anchor_fields L t m = Inr memo \<Longrightarrow> memo_in_range memo"
  by (auto simp: memo_from_anchor_fields_def memo_in_range_def and_then_Inr dest: parse_u64_range
      split: option.splits if_splits)

text \<open>What the text of a review says of the memo and of the operation it describes.\<close>

definition review_says_memo :: "stellar_lib \<Rightarrow> payment_memo_review option \<Rightarrow> memo \<Rightarrow> bool" where
  "review_says_memo L rv m \<longleftrightarrow>
     (case rv of
        None \<Rightarrow> m = MemoNone
      | Some v \<Rightarrow>
          (if pmr_memo_type v = ''text'' then m = MemoText (bytes_of (pmr_value v)) \<and> length (pmr_value v) \<le> 28
           else if pmr_memo_type v = ''id'' then (\<exists>n. parse_u64 (pmr_value v) = Some n \<and> m = MemoId n)
           else pmr_memo_type v = ''hash'' \<and> (\<exists>b. base64_decode L (pmr_value v) = Some b \<and> m = MemoHash b)))"

definition review_says_body :: "stellar_lib \<Rightarrow> payment_review \<Rightarrow> operation_body \<Rightarrow> bool" where
  "review_says_body L rv body \<longleftrightarrow>
     (\<exists>amount a destination. parse_positive_stroops (pr_amount rv) = Inr amount \<and>
        asset_parse L (pr_asset rv) = Inr a \<and> muxed_from_string L (pr_destination rv) = Some destination \<and>
        (case pr_operation rv of
           PoPayment \<Rightarrow> body = PaymentOp destination a amount
         | PoCreateAccount \<Rightarrow>
             a = AssetNative \<and> (\<exists>k. destination = MuxEd25519 k \<and> body = CreateAccountOp k amount)))"

lemma parse_u64_print: "int n \<le> u64_max \<Longrightarrow> parse_u64 (nat_to_dec n) = Some n"
proof -
  have "nat_to_dec n \<noteq> [] \<and> hd (nat_to_dec n) \<noteq> CHR ''+''"
    using digits_not_sign [of "nat_to_dec n" "[]"]
    by (cases "nat_to_dec n") (use all_digits_nat_to_dec [of n] in \<open>auto simp: starts_with_def\<close>)
  then show "parse_u64 (nat_to_dec n) = Some n" if "int n \<le> u64_max"
    using that by (simp add: parse_u64_def text_simps)
qed

lemma reviewed_memo:
  assumes "base64_codec L" "memo_in_range m" "payment_memo_xdr m = Inr x"
  shows "review_says_memo L (review_memo L m) x"
  using assms by (cases m) (auto simp: review_says_memo_def memo_in_range_def base64_codec_def parse_u64_print
      split: if_splits)

lemma parse_positive_range: "parse_positive_stroops s = Inr v \<Longrightarrow> 0 < v \<and> v \<le> i64_max"
  by (auto simp: parse_positive_stroops_def result_simps dest: parse_stroops_range)

lemma parse_positive_print: "0 < v \<Longrightarrow> v \<le> i64_max \<Longrightarrow> parse_positive_stroops (format_stroops v) = Inr v"
  by (simp add: parse_positive_stroops_def stroops.parse_print_positive)

section \<open>The limits of an account\<close>

text \<open>Stated on the figures Horizon gives: what a native balance can pay, what a trust line can pay and
  what a balance can take.\<close>

definition native_can_pay :: "json \<Rightarrow> int \<Rightarrow> int \<Rightarrow> bool" where
  "native_can_pay account base_reserve v \<longleftrightarrow>
     (\<exists>bs b balance selling minimum. get_array account ''balances'' = Some bs \<and> b \<in> set bs \<and>
        get_str b ''asset_type'' = Some ''native'' \<and> balance_stroops b ''balance'' = Inr balance \<and>
        balance_stroops b ''selling_liabilities'' = Inr selling \<and>
        minimum_balance_stroops account base_reserve = Inr minimum \<and> v \<le> max 0 (balance - selling - minimum))"

definition trustline_can_pay :: "stellar_lib \<Rightarrow> json \<Rightarrow> asset \<Rightarrow> int \<Rightarrow> bool" where
  "trustline_can_pay L account a v \<longleftrightarrow>
     (\<exists>bs b balance selling. get_array account ''balances'' = Some bs \<and> b \<in> set bs \<and> matches_balance L a b \<and>
        get_bool b ''is_authorized'' = Some True \<and> balance_stroops b ''balance'' = Inr balance \<and>
        balance_stroops b ''selling_liabilities'' = Inr selling \<and> selling + v \<le> balance)"

definition account_can_receive :: "stellar_lib \<Rightarrow> json \<Rightarrow> asset \<Rightarrow> int \<Rightarrow> bool" where
  "account_can_receive L account a v \<longleftrightarrow>
     (\<exists>bs b balance buying. get_array account ''balances'' = Some bs \<and> b \<in> set bs \<and> matches_balance L a b \<and>
        balance_stroops b ''balance'' = Inr balance \<and> balance_stroops b ''buying_liabilities'' = Inr buying \<and>
        (if is_native a then balance + buying + v \<le> i64_max
         else get_bool b ''is_authorized'' = Some True \<and>
           (\<exists>limit. balance_stroops b ''limit'' = Inr limit \<and> balance + buying + v \<le> limit)))"

lemma sub_nonneg_exact:
  "0 \<le> a \<Longrightarrow> a \<le> i64_max \<Longrightarrow> 0 \<le> b \<Longrightarrow> b \<le> i64_max \<Longrightarrow> saturating_sub a b = a - b"
  by (auto simp: saturating_sub_def saturate_i64_def arith_defs)

lemma free_native_Inr:
  assumes "free_native_stroops account b reserve = Inr v" "0 \<le> reserve"
  shows "\<exists>balance selling minimum. balance_stroops b ''balance'' = Inr balance \<and>
    balance_stroops b ''selling_liabilities'' = Inr selling \<and> minimum_balance_stroops account reserve = Inr minimum \<and>
    (0 \<le> v \<longrightarrow> v = balance - selling - minimum) \<and> in_i64 v"
proof -
  obtain balance selling minimum where f: "balance_stroops b ''balance'' = Inr balance"
    "balance_stroops b ''selling_liabilities'' = Inr selling" "minimum_balance_stroops account reserve = Inr minimum"
    "v = saturating_sub (saturating_sub balance selling) minimum"
    using assms(1) unfolding free_native_stroops_def and_then_Inr sum.inject by blast
  have "saturating_sub balance selling = balance - selling"
    using balance_stroops_range [OF f(1)] balance_stroops_range [OF f(2)] by (simp add: sub_nonneg_exact)
  then have "0 \<le> v \<Longrightarrow> v = balance - selling - minimum"
    using f(4) minimum_balance_range [OF f(3) assms(2)]
      saturating_sub_exact [OF saturating_sub_range, of minimum balance selling] by simp
  with f saturating_sub_range show ?thesis by blast
qed

lemma ensure_payment_fee_capacity_pays:
  assumes "ensure_payment_fee_capacity account ledger = Inr ()" "0 \<le> base_reserve_in_stroops ledger"
  shows "native_can_pay account (base_reserve_in_stroops ledger) (base_fee_in_stroops ledger)"
proof -
  obtain bs b v where f: "get_array account ''balances'' = Some bs"
      "find (\<lambda>b. get_str b ''asset_type'' = Some ''native'') bs = Some b"
      "free_native_stroops account b (base_reserve_in_stroops ledger) = Inr v"
      "base_fee_in_stroops ledger \<le> max 0 v"
    using assms(1) by (auto simp: ensure_payment_fee_capacity_def and_then_Inr Let_def split: if_split_asm)
  have b: "b \<in> set bs" "get_str b ''asset_type'' = Some ''native''" using f(2) by (auto simp: find_Some_iff)
  from free_native_Inr [OF f(3) assms(2)] f(4) b f(1) show ?thesis
    unfolding native_can_pay_def by (cases "0 \<le> v") fastforce+
qed

lemma authorized_trustline [simp]:
  "ensure_payment_trustline_authorized L b a = Inr u \<longleftrightarrow> get_bool b ''is_authorized'' = Some True"
  by (auto simp: ensure_payment_trustline_authorized_def split: option.splits bool.splits)

lemma validate_transfer_pays:
  assumes "validate_transfer L account source a v ledger = Inr ()" "0 < v"
    and "0 \<le> base_reserve_in_stroops ledger" "0 \<le> base_fee_in_stroops ledger"
  shows "native_can_pay account (base_reserve_in_stroops ledger)
      (if is_native a then v + base_fee_in_stroops ledger else base_fee_in_stroops ledger) \<and>
    (is_native a \<or> issuer_is L a source \<or> trustline_can_pay L account a v)"
proof (cases "\<not> is_native a \<and> issuer_is L a source")
  case True
  then show ?thesis using assms(1) ensure_payment_fee_capacity_pays [OF _ assms(3)]
    by (auto simp: validate_transfer_def and_then_Inr)
next
  case False
  obtain bs available where f: "get_array account ''balances'' = Some bs"
      "transfer_available L account a ledger (find (matches_balance L a) bs) = Inr available" "v \<le> available"
    using assms(1) False by (auto simp: validate_transfer_def and_then_Inr split: if_split_asm)
  then obtain b where b: "find (matches_balance L a) bs = Some b"
    using assms(2) by (cases "find (matches_balance L a) bs") (auto simp: transfer_available_def)
  have m: "b \<in> set bs" "matches_balance L a b" using b by (auto simp: find_Some_iff)
  show ?thesis
  proof (cases "is_native a")
    case True
    with f(2) b obtain u where u: "free_native_stroops account b (base_reserve_in_stroops ledger) = Inr u"
        "available = max 0 (saturating_sub u (base_fee_in_stroops ledger))"
      by (auto simp: transfer_available_def and_then_Inr)
    have "v \<le> saturating_sub u (base_fee_in_stroops ledger)" using u(2) f(3) assms(2) by (simp add: max_def split: if_splits)
    moreover have "in_i64 u" using free_native_Inr [OF u(1) assms(3)] by blast
    ultimately have uv: "v + base_fee_in_stroops ledger \<le> u" "0 \<le> u"
      using saturating_sub_exact [of u "base_fee_in_stroops ledger"] assms(2,4) by auto
    with free_native_Inr [OF u(1) assms(3)] m f(1) True show ?thesis
      unfolding native_can_pay_def by (fastforce simp: matches_balance_def)
  next
    case nat: False
    with f(2) b obtain balance selling where u: "get_bool b ''is_authorized'' = Some True"
        "ensure_payment_fee_capacity account ledger = Inr ()" "balance_stroops b ''balance'' = Inr balance"
        "balance_stroops b ''selling_liabilities'' = Inr selling" "available = max 0 (saturating_sub balance selling)"
      by (auto simp: transfer_available_def and_then_Inr)
    have "selling + v \<le> balance"
      using u(5) f(3) assms(2) balance_stroops_range [OF u(3)] balance_stroops_range [OF u(4)]
      by (auto simp: sub_nonneg_exact max_def split: if_splits)
    with u m f(1) have "trustline_can_pay L account a v" unfolding trustline_can_pay_def by blast
    with nat ensure_payment_fee_capacity_pays [OF u(2) assms(3)] show ?thesis by simp
  qed
qed

lemma validate_destination_receive_takes:
  assumes "validate_destination_receive L account addr a v = Inr ()" "0 < v"
  shows "\<not> is_native a \<and> issuer_is L a addr \<or> account_can_receive L account a v"
proof (cases "\<not> is_native a \<and> issuer_is L a addr")
  case False
  then obtain bs b capacity where f: "get_array account ''balances'' = Some bs"
      "find (matches_balance L a) bs = Some b" "receive_capacity L a b = Inr capacity" "v \<le> capacity"
    using assms(1) by (auto simp: validate_destination_receive_def and_then_Inr split: if_split_asm)
  have m: "b \<in> set bs" "matches_balance L a b" using f(2) by (auto simp: find_Some_iff)
  show ?thesis
  proof (cases "is_native a")
    case True
    with f(3) obtain balance buying where u: "balance_stroops b ''balance'' = Inr balance"
        "balance_stroops b ''buying_liabilities'' = Inr buying" "in_i64 (balance + buying)"
        "capacity = saturating_sub i64_max (balance + buying)"
      by (auto simp: receive_capacity_def and_then_Inr checked_add_Some)
    have "balance + buying + v \<le> i64_max"
      using u(3,4) f(4) balance_stroops_range [OF u(1)] balance_stroops_range [OF u(2)]
      by (auto simp: sub_nonneg_exact in_i64_def)
    with u m f(1) True show ?thesis unfolding account_can_receive_def by force
  next
    case nat: False
    with f(3) obtain limit balance buying where u: "get_bool b ''is_authorized'' = Some True"
        "balance_stroops b ''limit'' = Inr limit" "balance_stroops b ''balance'' = Inr balance"
        "balance_stroops b ''buying_liabilities'' = Inr buying" "in_i64 (balance + buying)"
        "capacity = max 0 (saturating_sub limit (balance + buying))"
      by (auto simp: receive_capacity_def and_then_Inr checked_add_Some)
    have "balance + buying + v \<le> limit"
      using u(5,6) f(4) assms(2) balance_stroops_range [OF u(2)] balance_stroops_range [OF u(3)]
        balance_stroops_range [OF u(4)] by (auto simp: sub_nonneg_exact in_i64_def max_def split: if_splits)
    with u m f(1) nat show ?thesis unfolding account_can_receive_def by force
  qed
qed simp

section \<open>Properties\<close>

text \<open>C13. What the user reviews is what is signed: read back, the reviewed source, destination, amount,
  asset, kind of operation, memo and fee are those of the one operation of the prepared transaction,
  and the transaction expires the reviewed time after it was prepared.\<close>

theorem reviewed_payment_is_prepared:
  assumes "public_key_codec (fc_stellar C)" "base64_codec (fc_stellar C)" "memo_in_range m"
    and "prepare_payment_with_wallet C now r amt_text asset_text dest contact m disk = Inr p"
  shows "\<exists>t k body. pp_envelope p = EnvTx t [] \<and> tx_operations t = [\<lparr>op_source = None, op_body = body\<rparr>] \<and>
    public_key_from_string (fc_stellar C) (pr_source (pp_review p)) = Some k \<and> tx_source t = MuxEd25519 k \<and>
    review_says_body (fc_stellar C) (pp_review p) body \<and>
    review_says_memo (fc_stellar C) (pr_memo (pp_review p)) (tx_memo t) \<and>
    parse_stroops (pr_fee_xlm (pp_review p)) False = Inr (tx_fee t) \<and>
    tx_cond t = PrecondTime \<lparr>min_time = 0, max_time = nat (now + int (pr_timeout_seconds (pp_review p)))\<rparr>"
proof -
  let ?L = "fc_stellar C"
  obtain a amount d memo_xdr account fresh ledger body sequence e authorization where
    f: "asset_parse ?L asset_text = Inr a" "parse_positive_stroops amt_text = Inr amount"
      "payment_destination_parse ?L dest = Inr d" "payment_memo_xdr m = Inr memo_xdr"
      "payment_ledger_checks C r a amount d dest m = Inr (account, fresh, ledger)"
      "payment_body d a amount fresh = Inr body"
      "build_single_with_memo_and_timeout ?L now (wr_address r) body sequence
        (base_fee_in_stroops ledger) memo_xdr (fc_timeout C) = Inr e"
    and p: "p = \<lparr>pp_review =
           \<lparr>pr_operation = (if fresh then PoCreateAccount else PoPayment),
            pr_wallet_name = wr_name r, pr_source = wr_address r, pr_destination = dest,
            pr_contact_name = contact, pr_amount = format_stroops amount,
            pr_asset = asset_display ?L a, pr_fee_xlm = format_stroops (base_fee_in_stroops ledger),
            pr_network = wr_network r, pr_timeout_seconds = fc_timeout C, pr_memo = review_memo ?L m,
            pr_authorization = authorization\<rparr>,
         pp_wallet = r, pp_envelope = e\<rparr>"
    using prepare_payment_Inr [OF assms(4)] by blast
  have fee: "parse_stroops (format_stroops (base_fee_in_stroops ledger)) False = Inr (base_fee_in_stroops ledger)"
    using get_ledger_parameters_range [OF payment_ledger_checks_Inr(2) [OF f(5)]]
    by (intro stroops.parse_print) (auto simp: in_u32_def u32_max_def i64_max_def)
  have amount: "parse_positive_stroops (format_stroops amount) = Inr amount"
    using parse_positive_range [OF f(2)] by (simp add: parse_positive_print)
  have asset: "asset_parse ?L (asset_display ?L a) = Inr a" by (rule asset_text.reparse [OF assms(1) f(1)])
  have native: "fresh \<Longrightarrow> a = AssetNative"
    using payment_ledger_checks_Inr(4) [OF f(5)] by (cases a) auto
  have says: "review_says_body ?L (pp_review p) body"
    using f(6) amount asset native payment_destination_parse_Inr [OF f(3)]
    by (auto simp: review_says_body_def p payment_body_def split: if_splits)
  from f(7) obtain k where k: "public_key_from_string ?L (wr_address r) = Some k"
    and e: "e = EnvTx \<lparr>tx_source = MuxEd25519 k, tx_fee = base_fee_in_stroops ledger, tx_seq_num = sequence + 1,
          tx_cond = PrecondTime \<lparr>min_time = 0, max_time = nat (now + int (fc_timeout C))\<rparr>, tx_memo = memo_xdr,
          tx_operations = [\<lparr>op_source = None, op_body = body\<rparr>], tx_ext = TxExtV0\<rparr> []"
    by (auto simp: build_single_with_memo_and_timeout_def build_Inr)
  show ?thesis
    using k e says fee reviewed_memo [OF assms(2,3) f(4)] by (simp add: p)
qed

text \<open>C14. A payment is prepared only within the limits both accounts have at Horizon: the sender can
  spend the amount and the fee (or issues the asset), the receiver can take it or, when it does not
  exist yet, is created with at least two base reserves; a destination that asks for a memo gets one,
  and a memo id never contradicts the id in a muxed address.\<close>

theorem prepared_payment_within_limits:
  assumes "prepare_payment_with_wallet C now r amt_text asset_text dest contact m disk = Inr p"
  shows "\<exists>account ledger amount a d destination_account.
    get_account (fc_gateway C) (wr_address r) = Inr account \<and> get_ledger_parameters (fc_gateway C) = Inr ledger \<and>
    parse_positive_stroops amt_text = Inr amount \<and> asset_parse (fc_stellar C) asset_text = Inr a \<and>
    payment_destination_parse (fc_stellar C) dest = Inr d \<and>
    native_can_pay account (base_reserve_in_stroops ledger)
      (if is_native a then amount + base_fee_in_stroops ledger else base_fee_in_stroops ledger) \<and>
    (is_native a \<or> issuer_is (fc_stellar C) a (wr_address r) \<or> trustline_can_pay (fc_stellar C) account a amount) \<and>
    get_account_optional (fc_gateway C) (public_key_to_string (fc_stellar C) (pde_ledger_account d)) = Inr destination_account \<and>
    (case destination_account of
       None \<Rightarrow> pr_operation (pp_review p) = PoCreateAccount \<and> is_native a \<and> \<not> destination_is_muxed d \<and>
         2 * base_reserve_in_stroops ledger \<le> amount
     | Some da \<Rightarrow> pr_operation (pp_review p) = PoPayment \<and>
         (\<not> is_native a \<and> issuer_is (fc_stellar C) a (public_key_to_string (fc_stellar C) (pde_ledger_account d))
            \<or> account_can_receive (fc_stellar C) da a amount) \<and>
         (\<not> destination_is_muxed d \<and> m = PmNone \<longrightarrow> account_requires_memo (fc_stellar C) da = Inr False) \<and>
         memo_id_conflict d m = None)"
proof -
  obtain a amount d memo_xdr account fresh ledger where
    f: "asset_parse (fc_stellar C) asset_text = Inr a" "parse_positive_stroops amt_text = Inr amount"
      "payment_destination_parse (fc_stellar C) dest = Inr d"
      "payment_ledger_checks C r a amount d dest m = Inr (account, fresh, ledger)"
    and op: "pr_operation (pp_review p) = (if fresh then PoCreateAccount else PoPayment)"
    using prepare_payment_Inr [OF assms] by auto
  note checks = payment_ledger_checks_Inr [OF f(4)]
  have v: "0 < amount" using parse_positive_range [OF f(2)] by simp
  have l: "0 \<le> base_reserve_in_stroops ledger" "0 \<le> base_fee_in_stroops ledger"
    using get_ledger_parameters_range [OF checks(2)] by (auto simp: in_u32_def)
  obtain destination_account where d: "get_account_optional (fc_gateway C)
      (public_key_to_string (fc_stellar C) (pde_ledger_account d)) = Inr destination_account"
    "fresh = (destination_account = None)" "case destination_account of
         None \<Rightarrow> \<not> destination_is_muxed d \<and> is_native a \<and> new_account_minimum ledger amount = Inr ()
       | Some da \<Rightarrow>
           validate_destination_receive (fc_stellar C) da
             (public_key_to_string (fc_stellar C) (pde_ledger_account d)) a amount = Inr () \<and>
           validate_destination_memo (fc_stellar C) dest d m da = Inr ()"
    using checks(4) by blast
  have "case destination_account of
       None \<Rightarrow> pr_operation (pp_review p) = PoCreateAccount \<and> is_native a \<and> \<not> destination_is_muxed d \<and>
         2 * base_reserve_in_stroops ledger \<le> amount
     | Some da \<Rightarrow> pr_operation (pp_review p) = PoPayment \<and>
         (\<not> is_native a \<and> issuer_is (fc_stellar C) a (public_key_to_string (fc_stellar C) (pde_ledger_account d))
            \<or> account_can_receive (fc_stellar C) da a amount) \<and>
         (\<not> destination_is_muxed d \<and> m = PmNone \<longrightarrow> account_requires_memo (fc_stellar C) da = Inr False) \<and>
         memo_id_conflict d m = None"
  proof (cases destination_account)
    case None
    with d op show ?thesis
      by (auto simp: new_account_minimum_def and_then_Inr checked_mul_Some split: if_split_asm)
  next
    case (Some da)
    have "(\<not> destination_is_muxed d \<and> m = PmNone \<longrightarrow> account_requires_memo (fc_stellar C) da = Inr False) \<and>
        memo_id_conflict d m = None"
      using d(3) Some by (auto simp: validate_destination_memo_def and_then_Inr split: option.split_asm if_split_asm)
    with d op Some validate_destination_receive_takes [OF _ v] show ?thesis by auto
  qed
  with f checks(1,2) d(1) validate_transfer_pays [OF checks(3) v l] show ?thesis by blast
qed

lemma demo_prepared_payment:
  "\<exists>p. prepare_payment_with_wallet demo_online 0 (demo_wallet ''a'') (format_stroops 10000000) ''XLM''
     (demo_key_text demo_key) None PmNone demo_client_disk = Inr p"
proof -
  have amount: "parse_positive_stroops (format_stroops 10000000) = Inr 10000000"
    by (simp add: parse_positive_print arith_defs)
  define d where "d = \<lparr>pde_ledger_account = demo_key, pde_operation_destination = MuxEd25519 demo_key, pde_muxed_id = None\<rparr>"
  have dest: "payment_destination_parse demo_lib (demo_key_text demo_key) = Inr d"
    by (simp add: payment_destination_parse_def demo_lib_def d_def demo_parse_key_def demo_key_text_def)
  have native: "free_native_stroops demo_horizon_account demo_native_balance 5000000 = Inr 990000000"
    by (simp add: free_native_stroops_def saturating_sub_def saturate_i64_def arith_defs)
  have checks: "payment_ledger_checks demo_online (demo_wallet ''a'') AssetNative 10000000 d (demo_key_text demo_key) PmNone =
      Inr (demo_horizon_account, False, \<lparr>base_fee_in_stroops = 100, base_reserve_in_stroops = 5000000\<rparr>)"
  proof -
    have "validate_transfer demo_lib demo_horizon_account (demo_key_text demo_key) AssetNative 10000000
        \<lparr>base_fee_in_stroops = 100, base_reserve_in_stroops = 5000000\<rparr> = Inr ()"
      by (simp add: validate_transfer_def matches_balance_def transfer_available_def native saturating_sub_def
        saturate_i64_def arith_defs)
    moreover have "validate_destination_receive demo_lib demo_horizon_account (demo_key_text demo_key) AssetNative 10000000 = Inr ()"
      by (simp add: validate_destination_receive_def matches_balance_def receive_capacity_def saturating_sub_def
        saturate_i64_def checked_add_def checked_i64_def arith_defs)
    moreover have "account_requires_memo demo_lib demo_horizon_account = Inr False"
      by (simp add: account_requires_memo_def demo_horizon_account_def)
    ultimately show ?thesis
      by (simp add: payment_ledger_checks_def Let_def d_def demo_wallet_def destination_is_muxed_def
        validate_destination_memo_def memo_id_conflict_def)
  qed
  have "in_u32 100" "in_i64 8" "in_u64 300" by (simp_all add: arith_defs)
  then obtain t where e: "build_single_with_memo_and_timeout demo_lib 0 (demo_key_text demo_key)
      (PaymentOp (MuxEd25519 demo_key) AssetNative 10000000) 7 100 MemoNone 300 = Inr (EnvTx t [])"
    and t: "tx_source t = MuxEd25519 demo_key"
      "tx_operations t = [\<lparr>op_source = None, op_body = PaymentOp (MuxEd25519 demo_key) AssetNative 10000000\<rparr>]"
      "tx_cond t = PrecondTime \<lparr>min_time = 0, max_time = 300\<rparr>"
    by (simp add: build_single_with_memo_and_timeout_def build_Inr max_operations_per_tx_def)
  from demo_snapshot [OF t] obtain s where
    "client_authorization_snapshot demo_online demo_client_disk (EnvTx t []) demo_horizon_account = Inr s" by auto
  moreover have "wr_address (demo_wallet ''a'') = demo_key_text demo_key" by (simp add: demo_wallet_def)
  moreover have "pde_operation_destination d = MuxEd25519 demo_key" by (simp add: d_def)
  ultimately show ?thesis using e
    by (simp add: prepare_payment_with_wallet_def xlm_is_native amount dest checks payment_body_def)
qed

lemma demo_base64: "base64_codec demo_lib"
  by (simp add: base64_codec_def demo_lib_def)

theorem reviewed_payment_is_prepared_witness:
  "\<exists>p t. prepare_payment_with_wallet demo_online 0 (demo_wallet ''a'') (format_stroops 10000000) ''XLM''
      (demo_key_text demo_key) None PmNone demo_client_disk = Inr p \<and> pp_envelope p = EnvTx t [] \<and>
    parse_stroops (pr_fee_xlm (pp_review p)) False = Inr (tx_fee t)"
proof -
  obtain p where p: "prepare_payment_with_wallet demo_online 0 (demo_wallet ''a'') (format_stroops 10000000) ''XLM''
      (demo_key_text demo_key) None PmNone demo_client_disk = Inr p" using demo_prepared_payment by blast
  have "memo_in_range PmNone" by (simp add: memo_in_range_def)
  from reviewed_payment_is_prepared [where C = demo_online, unfolded demo_online_simps,
      OF demo_public_key_codec demo_base64 this p] p show ?thesis by blast
qed

theorem prepared_payment_within_limits_witness:
  "\<exists>account amount. get_account demo_gateway (demo_key_text demo_key) = Inr account \<and> 0 < amount \<and>
     native_can_pay account 5000000 (amount + 100)"
proof -
  obtain p where p: "prepare_payment_with_wallet demo_online 0 (demo_wallet ''a'') (format_stroops 10000000) ''XLM''
      (demo_key_text demo_key) None PmNone demo_client_disk = Inr p" using demo_prepared_payment by blast
  from prepared_payment_within_limits [OF p] show ?thesis
    using parse_positive_range by (fastforce simp: demo_wallet_def xlm_is_native)
qed

end
