(* ===== verification/AnchorTransfer.thy ===== *)
theory AnchorTransfer
  imports Anchor Payment
begin

text \<open>
  Anchor transfers (anchor_protocol.rs): the capabilities an anchor advertises and how they are discovered,
  which protocol a transfer or a status request uses, SEP-24 and SEP-6 transfers, the state of a transaction,
  and the Stellar payment a withdrawal asks for.
\<close>

section \<open>Assets and capabilities\<close>

datatype anchor_transfer_kind = Deposit | Withdraw

fun transfer_endpoint :: "anchor_transfer_kind \<Rightarrow> string" where
  "transfer_endpoint Deposit = ''deposit''"
| "transfer_endpoint Withdraw = ''withdraw''"

datatype anchor_protocol = Sep24 | Sep6

fun anchor_protocol_label :: "anchor_protocol \<Rightarrow> string" where
  "anchor_protocol_label Sep24 = ''SEP-24''"
| "anchor_protocol_label Sep6 = ''SEP-6''"

record anchor_asset =
  aa_code :: string
  aa_issuer :: string

definition anchor_asset_parse :: "sdk_libs \<Rightarrow> string \<Rightarrow> anchor_asset result" where
  "anchor_asset_parse B v =
     and_then (ok_or ''anchor asset must be CODE:GISSUER'' (split_once (CHR '':'') (trim v))) (\<lambda>(c, i).
     let code = trim c; issuer = trim i in
     if code = [] \<or> length code > 12 \<or> \<not> list_all is_ascii_alphanumeric code
     then Inl ''Asset code must be 1 to 12 ASCII alphanumeric characters''
     else and_then (map_err (\<lambda>_. ''invalid Stellar asset issuer'') (sdk_parse_account B issuer)) (\<lambda>identity.
          and_then (ensure (ai_kind identity = Classic) ''asset issuer must be a Classic G address'') (\<lambda>_.
            Inr \<lparr>aa_code = code, aa_issuer = ai_address identity\<rparr>)))"

definition anchor_asset_display :: "anchor_asset \<Rightarrow> string" where
  "anchor_asset_display a = aa_code a @ '':'' @ aa_issuer a"

record anchor_capabilities =
  cap_domain :: string
  cap_sep6_url :: "string option"
  cap_sep24_url :: "string option"
  cap_web_auth_url :: "string option"
  cap_web_auth_for_contracts_url :: "string option"
  cap_signing_key :: "string option"
  cap_web_auth_contract_id :: "string option"
  cap_sep10_auth :: bool
  cap_sep45_auth :: bool
  cap_kyc_url :: "string option"
  cap_direct_payment_url :: "string option"
  cap_sep6_deposit :: bool
  cap_sep6_withdraw :: bool
  cap_sep6_deposit_info :: json
  cap_sep6_withdraw_info :: json
  cap_sep6_transaction_info :: json
  cap_sep24_deposit :: bool
  cap_sep24_withdraw :: bool
  cap_warnings :: "string list"

definition customer_server :: "anchor_capabilities \<Rightarrow> string option" where
  "customer_server c = (case cap_kyc_url c of Some u \<Rightarrow> Some u | None \<Rightarrow> cap_sep6_url c)"

record anchor_discovery =
  ad_asset :: anchor_asset
  ad_home_domain :: string
  ad_capabilities :: anchor_capabilities

section \<open>Which protocol\<close>

definition sep6_transaction_enabled :: "anchor_capabilities \<Rightarrow> bool" where
  "sep6_transaction_enabled c \<longleftrightarrow> get_bool (cap_sep6_transaction_info c) ''enabled'' \<noteq> Some False"

definition sep6_transaction_requires_auth :: "anchor_capabilities \<Rightarrow> bool" where
  "sep6_transaction_requires_auth c \<longleftrightarrow>
     get_bool (cap_sep6_transaction_info c) ''authentication_required'' = Some True"

definition validate_status_protocol :: "anchor_capabilities \<Rightarrow> anchor_protocol \<Rightarrow> anchor_protocol result" where
  "validate_status_protocol c p =
     (case p of
        Sep24 \<Rightarrow>
          if cap_sep24_url c = None then Inl ''anchor does not advertise a SEP-24 transfer server''
          else if \<not> cap_sep10_auth c then
            (if cap_sep45_auth c
             then Inl ''SEP-24 status is available only through SEP-45; SEP-45 contract-account authentication is required''
             else Inl ''SEP-24 status requires a complete Classic SEP-10 authentication path'')
          else Inr p
      | Sep6 \<Rightarrow>
          if cap_sep6_url c = None then Inl ''anchor does not advertise a SEP-6 transfer server''
          else if \<not> sep6_transaction_enabled c then Inl ''anchor reports that SEP-6 /transaction is disabled''
          else if sep6_transaction_requires_auth c \<and> \<not> cap_sep10_auth c then
            (if cap_sep45_auth c
             then Inl ''SEP-6 transaction status requires authentication but only SEP-45 is available; SEP-45 contract-account authentication is required''
             else Inl ''SEP-6 transaction status requires a complete Classic SEP-10 authentication path'')
          else Inr p)"

definition select_anchor_status_protocol ::
  "anchor_capabilities \<Rightarrow> anchor_protocol option \<Rightarrow> anchor_protocol result" where
  "select_anchor_status_protocol c requested =
     (case requested of
        Some p \<Rightarrow> validate_status_protocol c p
      | None \<Rightarrow>
          (let sep24_candidate = (cap_sep24_url c \<noteq> None \<and> cap_sep10_auth c \<and> (cap_sep24_deposit c \<or> cap_sep24_withdraw c));
               sep6_candidate = (cap_sep6_url c \<noteq> None \<and> sep6_transaction_enabled c \<and>
                 (cap_sep6_deposit c \<or> cap_sep6_withdraw c) \<and> (\<not> sep6_transaction_requires_auth c \<or> cap_sep10_auth c)) in
           case (sep24_candidate, sep6_candidate) of
             (True, False) \<Rightarrow> Inr Sep24
           | (False, True) \<Rightarrow> Inr Sep6
           | (True, True) \<Rightarrow>
               Inl ''anchor transaction status is available through both SEP-24 and SEP-6; choose a protocol explicitly''
           | (False, False) \<Rightarrow>
               if cap_sep24_url c \<noteq> None \<and> \<not> cap_sep10_auth c \<and> cap_sep45_auth c
               then Inl ''SEP-24 status is available only through SEP-45; SEP-45 contract-account authentication is required''
               else if cap_sep6_url c \<noteq> None \<and> sep6_transaction_enabled c \<and> sep6_transaction_requires_auth c \<and>
                  \<not> cap_sep10_auth c
               then (if cap_sep45_auth c
                 then Inl ''SEP-6 transaction status requires authentication but only SEP-45 is available; SEP-45 contract-account authentication is required''
                 else Inl ''SEP-6 transaction status requires a complete Classic SEP-10 authentication path'')
               else Inl ''anchor does not advertise a uniquely usable SEP-24/SEP-6 transaction-status path; choose a protocol explicitly for an existing transaction''))"

definition anchor_status_requires_sep10 :: "anchor_capabilities \<Rightarrow> anchor_protocol \<Rightarrow> bool" where
  "anchor_status_requires_sep10 c p =
     (case p of Sep24 \<Rightarrow> True | Sep6 \<Rightarrow> sep6_transaction_requires_auth c)"

fun sep6_info :: "anchor_capabilities \<Rightarrow> anchor_transfer_kind \<Rightarrow> json" where
  "sep6_info c Deposit = cap_sep6_deposit_info c"
| "sep6_info c Withdraw = cap_sep6_withdraw_info c"

definition anchor_sep6_requires_auth :: "anchor_capabilities \<Rightarrow> anchor_transfer_kind \<Rightarrow> bool" where
  "anchor_sep6_requires_auth c k \<longleftrightarrow> get_bool (sep6_info c k) ''authentication_required'' = Some True"

definition select_anchor_transfer_protocol ::
  "anchor_capabilities \<Rightarrow> anchor_transfer_kind \<Rightarrow> anchor_protocol result" where
  "select_anchor_transfer_protocol c k =
     (let sep24_enabled = (case k of Deposit \<Rightarrow> cap_sep24_deposit c | Withdraw \<Rightarrow> cap_sep24_withdraw c);
          sep6_enabled = (case k of Deposit \<Rightarrow> cap_sep6_deposit c | Withdraw \<Rightarrow> cap_sep6_withdraw c) in
      if sep24_enabled \<and> cap_sep24_url c \<noteq> None \<and> cap_sep10_auth c then Inr Sep24
      else if sep6_enabled \<and> cap_sep6_url c \<noteq> None
      then (if anchor_sep6_requires_auth c k \<and> \<not> cap_sep10_auth c
            then Inl (''SEP-6 '' @ transfer_endpoint k @ '' requires authentication, but no complete Classic SEP-10 path is available'')
            else Inr Sep6)
      else if sep24_enabled \<and> cap_sep24_url c \<noteq> None
      then (if cap_sep45_auth c
            then Inl (''SEP-24 '' @ transfer_endpoint k @ '' is available only through SEP-45; SEP-45 contract-account authentication is required'')
            else Inl (''SEP-24 '' @ transfer_endpoint k @ '' requires a complete Classic SEP-10 authentication path''))
      else Inl (''No usable SEP-24/SEP-6 '' @ transfer_endpoint k @ '' flow is advertised for this asset''))"

definition anchor_transfer_requires_sep10 ::
  "anchor_capabilities \<Rightarrow> anchor_protocol \<Rightarrow> anchor_transfer_kind \<Rightarrow> bool" where
  "anchor_transfer_requires_sep10 c p k = (case p of Sep24 \<Rightarrow> True | Sep6 \<Rightarrow> anchor_sep6_requires_auth c k)"

section \<open>Transactions and withdrawal payments\<close>

definition anchor_transaction_text :: "json \<Rightarrow> string \<Rightarrow> string option" where
  "anchor_transaction_text transaction key =
     Option.bind (Option.bind (json_get transaction key) as_str) (\<lambda>s. if trim s = [] then None else Some (trim s))"

definition parse_anchor_transaction_response :: "json \<Rightarrow> string \<Rightarrow> json result" where
  "parse_anchor_transaction_response v expected_id =
     and_then (ok_or ''anchor /transaction response has no transaction object''
         (Option.bind (json_get v ''transaction'') (\<lambda>t. if as_object t = None then None else Some t))) (\<lambda>transaction.
     and_then (ok_or ''anchor transaction has no id'' (anchor_transaction_text transaction ''id'')) (\<lambda>i.
     and_then (ensure (i = expected_id) (''anchor /transaction response id mismatch: expected '' @ expected_id @
         '', received '' @ i)) (\<lambda>_.
     and_then (ensure (anchor_transaction_text transaction ''status'' \<noteq> None) ''anchor transaction has no status'') (\<lambda>_.
       Inr transaction))))"

record anchor_withdrawal_payment =
  awp_destination :: string
  awp_amount :: string
  awp_memo :: payment_memo

definition anchor_withdrawal_payment_from_transaction ::
  "sdk_libs \<Rightarrow> json \<Rightarrow> string \<Rightarrow> anchor_asset \<Rightarrow> anchor_withdrawal_payment result" where
  "anchor_withdrawal_payment_from_transaction B transaction expected_source a =
     (let field = anchor_transaction_text transaction in
      and_then (ok_or ''anchor transaction has no status'' (field ''status'')) (\<lambda>status.
      and_then (ensure (status = ''pending_user_transfer_start'')
         (''anchor withdrawal is not ready for Stellar payment; current status is '' @ status)) (\<lambda>_.
      and_then (ok_or ''anchor transaction has no kind'' (field ''kind'')) (\<lambda>kind.
      and_then (ensure (kind = ''withdrawal'' \<or> kind = ''withdraw'')
         (''anchor transaction is '' @ kind @ '', not a withdrawal payment'')) (\<lambda>_.
      and_then (ok_or ''anchor withdrawal has no source account; refusing automatic payment'' (field ''from'')) (\<lambda>source.
      and_then (ensure (source = expected_source)
         (''anchor withdrawal source account mismatch: expected '' @ expected_source @ '', received '' @ source)) (\<lambda>_.
      and_then (case field ''amount_in_asset'' of
          Some amount_in_asset \<Rightarrow>
            (let expected_asset = ''stellar:'' @ aa_code a @ '':'' @ aa_issuer a in
             ensure (amount_in_asset = expected_asset) (''anchor withdrawal input asset mismatch: expected '' @
               expected_asset @ '', received '' @ amount_in_asset))
        | None \<Rightarrow> Inr ()) (\<lambda>_.
      and_then (ok_or ''anchor withdrawal has no withdraw_anchor_account'' (field ''withdraw_anchor_account'')) (\<lambda>destination.
      and_then (map_err (\<lambda>_. ''anchor withdrawal account is not a valid Stellar address'')
         (sdk_parse_account B destination)) (\<lambda>identity.
      and_then (ensure (ai_kind identity = Classic) ''anchor withdrawal account must be a Classic G address'') (\<lambda>_.
      and_then (ok_or ''anchor withdrawal has no amount_in'' (field ''amount_in'')) (\<lambda>amount.
      and_then (memo_from_anchor_fields (lib_stellar B) (field ''withdraw_memo_type'') (field ''withdraw_memo'')) (\<lambda>m.
        Inr \<lparr>awp_destination = ai_address identity, awp_amount = amount, awp_memo = m\<rparr>)))))))))))))"

definition anchor_withdrawal_payment_from_sep6_response ::
  "sdk_libs \<Rightarrow> json \<Rightarrow> string \<Rightarrow> anchor_withdrawal_payment result" where
  "anchor_withdrawal_payment_from_sep6_response B response requested_amount =
     (let field = anchor_transaction_text response in
      and_then (ok_or ''SEP-6 withdrawal response has no account_id'' (field ''account_id'')) (\<lambda>destination.
      and_then (map_err (\<lambda>_. ''SEP-6 withdrawal account_id is not a valid Stellar address'')
         (sdk_parse_account B destination)) (\<lambda>identity.
      and_then (ensure (ai_kind identity = Classic) ''SEP-6 withdrawal account_id must be a Classic G address'') (\<lambda>_.
      let amount = trim requested_amount in
      and_then (ensure (amount \<noteq> []) ''SEP-6 immediate withdrawal requires the requested amount before payment'') (\<lambda>_.
      and_then (memo_from_anchor_fields (lib_stellar B) (field ''memo_type'') (field ''memo'')) (\<lambda>m.
        Inr \<lparr>awp_destination = ai_address identity, awp_amount = amount, awp_memo = m\<rparr>))))))"

definition anchor_http_error :: "string \<Rightarrow> string \<Rightarrow> nat \<Rightarrow> json \<Rightarrow> string" where
  "anchor_http_error protocol endpoint status v =
     (let shown = (case get_str v ''error'' of Some s \<Rightarrow> Some s | None \<Rightarrow> get_str v ''message'') in
      protocol @ '' endpoint '' @ endpoint @ '' returned HTTP '' @ nat_to_dec status @
      (case shown of
         Some s \<Rightarrow> if trim s = [] then [] else '': '' @ trim s
       | None \<Rightarrow> []))"

section \<open>SEP-24 transfers\<close>

record sep24_interactive_result =
  sir_url :: string
  sir_transaction_id :: string

definition parse_sep24_interactive_response :: "anchor_lib \<Rightarrow> json \<Rightarrow> sep24_interactive_result result" where
  "parse_sep24_interactive_response A v =
     and_then (ensure ((case get_str v ''type'' of Some t \<Rightarrow> t | None \<Rightarrow> []) = ''interactive_customer_info_needed'')
         ''Anchor returned an invalid SEP-24 interactive response type'') (\<lambda>_.
     and_then (ok_or ''Anchor SEP-24 interactive response has no URL'' (anchor_transaction_text v ''url'')) (\<lambda>u.
     and_then (ok_or ''Anchor SEP-24 interactive response URL is invalid'' (al_url_parse A u)) (\<lambda>parsed.
     and_then (ensure (\<not> (u_scheme parsed \<noteq> ''https'' \<or> u_host parsed = None \<or> u_username parsed \<noteq> [] \<or>
           u_password parsed \<noteq> None))
         ''Anchor SEP-24 interactive response URL must be HTTPS without embedded credentials'') (\<lambda>_.
     and_then (ok_or ''Anchor SEP-24 interactive response has no transaction id'' (anchor_transaction_text v ''id'')) (\<lambda>i.
       Inr \<lparr>sir_url = u, sir_transaction_id = i\<rparr>)))))"

definition start_anchor_sep24_transfer ::
  "anchor_lib \<Rightarrow> string \<Rightarrow> anchor_asset \<Rightarrow> anchor_capabilities \<Rightarrow> anchor_transfer_kind \<Rightarrow> (string \<times> string) list
     \<Rightarrow> string \<Rightarrow> sep24_interactive_result web" where
  "start_anchor_sep24_transfer A account a c k parts token =
     web_then (web_of (ensure (trim token \<noteq> []) ''SEP-24 requires a non-empty SEP-10 token'')) (\<lambda>_.
     web_then (web_of (ok_or (''SEP-24 '' @ transfer_endpoint k @ '' is not available'') (cap_sep24_url c))) (\<lambda>base.
     let endpoint = trim_end_matches (CHR ''/'') base @ ''/transactions/'' @ transfer_endpoint k @ ''/interactive'' in
     web_then (web_of (ok_or (''SEP-24 '' @ transfer_endpoint k @ '' endpoint is invalid'') (al_url_parse A endpoint))) (\<lambda>u.
     web_then (web_of (validate_anchor_https_url u ''SEP-24 endpoint'')) (\<lambda>_.
     web_then (web_send A (\<lambda>error. ''Unable to call SEP-24 endpoint '' @ endpoint @ '': '' @ error)
         \<lparr>hr_method = ''POST'', hr_url = endpoint, hr_authorization = Some (bearer token),
          hr_body = FormBody (map (\<lambda>(n, v). FormText n v)
            ([(''asset_code'', aa_code a), (''asset_issuer'', aa_issuer a), (''account'', account)] @ parts))\<rparr>) (\<lambda>response.
     web_of (and_then (read_json_response A ''SEP-24'' u response) (\<lambda>(status, v).
       if http_success status then parse_sep24_interactive_response A v
       else Inl (anchor_http_error ''SEP-24'' endpoint status v))))))))"

section \<open>SEP-6 transfers\<close>

definition nonempty_texts :: "string list \<Rightarrow> string list" where
  "nonempty_texts ts = filter (\<lambda>t. t \<noteq> []) (map trim ts)"

text \<open>The only advertised choice is taken; of several the caller must choose.\<close>

fun only_choice :: "string \<Rightarrow> string \<Rightarrow> string list \<Rightarrow> (string \<times> string) list \<Rightarrow> (string \<times> string) list result" where
  "only_choice key error [] parts = Inr parts"
| "only_choice key error [choice] parts = Inr (btree_insert key choice parts)"
| "only_choice key error (_ # _ # _) parts = Inl error"

definition legacy_types :: "anchor_capabilities \<Rightarrow> anchor_transfer_kind \<Rightarrow> string list" where
  "legacy_types c k =
     (case k of
        Deposit \<Rightarrow>
          (case Option.bind (Option.bind (json_get (sep6_info c k) ''fields'') (\<lambda>f. json_get f ''type'')) (\<lambda>f. get_array f ''choices'') of
             Some choices \<Rightarrow> nonempty_texts (List.map_filter as_str choices)
           | None \<Rightarrow> [])
      | Withdraw \<Rightarrow>
          (case Option.bind (json_get (sep6_info c k) ''types'') as_object of
             Some types \<Rightarrow> nonempty_texts (map fst types)
           | None \<Rightarrow> []))"

definition sep6_request_fields ::
  "anchor_capabilities \<Rightarrow> anchor_transfer_kind \<Rightarrow> (string \<times> string) list \<Rightarrow> (string \<times> string) list result" where
  "sep6_request_fields c k parts =
     (if map_of parts ''funding_method'' \<noteq> None then Inr parts
      else case get_array (sep6_info c k) ''funding_methods'' of
             Some methods \<Rightarrow>
               only_choice ''funding_method'' (''SEP-6 '' @ transfer_endpoint k @
                   '' requires an explicit funding_method because multiple methods are advertised'')
                 (nonempty_texts (List.map_filter as_str methods)) parts
           | None \<Rightarrow>
               if map_of parts ''type'' \<noteq> None then Inr parts
               else only_choice ''type'' (''SEP-6 '' @ transfer_endpoint k @
                   '' requires an explicit type because multiple legacy types are advertised'')
                 (legacy_types c k) parts)"

definition sep6_request_url ::
  "anchor_lib \<Rightarrow> string \<Rightarrow> anchor_transfer_kind \<Rightarrow> anchor_asset \<Rightarrow> string \<Rightarrow> (string \<times> string) list \<Rightarrow> url result" where
  "sep6_request_url A base k a account parts =
     (let endpoint = trim_end_matches (CHR ''/'') base @ ''/'' @ transfer_endpoint k in
      and_then (ok_or (''SEP-6 '' @ transfer_endpoint k @ '' endpoint is invalid'') (al_url_parse A endpoint)) (\<lambda>u.
      and_then (validate_anchor_https_url u ''SEP-6 endpoint'') (\<lambda>_.
        Inr (url_append_pairs A ([(''asset_code'', aa_code a), (''account'', account)] @ parts) u))))"

text \<open>\<open>token.filter(|token| !token.trim().is_empty())\<close>.\<close>

definition usable_token :: "string option \<Rightarrow> string option" where
  "usable_token token = Option.bind token (\<lambda>t. if trim t = [] then None else Some t)"

definition start_anchor_sep6_transfer ::
  "anchor_lib \<Rightarrow> string \<Rightarrow> anchor_asset \<Rightarrow> anchor_capabilities \<Rightarrow> anchor_transfer_kind \<Rightarrow> (string \<times> string) list
     \<Rightarrow> string option \<Rightarrow> json web" where
  "start_anchor_sep6_transfer A account a c k parts token0 =
     web_then (web_of (ok_or (''SEP-6 '' @ transfer_endpoint k @ '' is not available'') (cap_sep6_url c))) (\<lambda>base.
     let token = usable_token token0 in
     web_then (web_of (ensure (\<not> (anchor_sep6_requires_auth c k \<and> token = None))
         (''SEP-6 '' @ transfer_endpoint k @ '' requires SEP-10 authentication''))) (\<lambda>_.
     web_then (web_of (sep6_request_fields c k parts)) (\<lambda>all_parts.
     web_then (web_of (sep6_request_url A base k a account all_parts)) (\<lambda>u.
     web_then (anchor_get_json A u ''SEP-6'' token) (\<lambda>(status, v).
     web_of (if \<not> http_success status \<and> status \<noteq> 403
       then Inl (anchor_http_error ''SEP-6'' (endpoint_label A u) status v)
       else if as_object v = None
       then Inl (''Anchor SEP-6 response from '' @ endpoint_label A u @ '' is malformed'')
       else Inr v))))))"

section \<open>The state of a transaction\<close>

definition fetch_anchor_transaction ::
  "anchor_lib \<Rightarrow> anchor_capabilities \<Rightarrow> anchor_protocol \<Rightarrow> string \<Rightarrow> string option \<Rightarrow> json web" where
  "fetch_anchor_transaction A c p raw_id token0 =
     (let transaction_id = trim raw_id in
      web_then (web_of (ensure (transaction_id \<noteq> []) ''anchor transaction id must not be empty'')) (\<lambda>_.
      web_then (web_of (case p of
          Sep24 \<Rightarrow> ok_or ''SEP-24 transfer server is unavailable'' (cap_sep24_url c)
        | Sep6 \<Rightarrow> ok_or ''SEP-6 transfer server is unavailable'' (cap_sep6_url c))) (\<lambda>base.
      let token = usable_token token0 in
      web_then (web_of (ensure (\<not> (anchor_status_requires_sep10 c p \<and> token = None))
          (anchor_protocol_label p @ '' transaction status requires SEP-10 authentication''))) (\<lambda>_.
      web_then (web_of (ok_or (anchor_protocol_label p @ '' transaction endpoint is invalid'')
          (al_url_parse A (trim_end_matches (CHR ''/'') base @ ''/transaction'')))) (\<lambda>u0.
      web_then (web_of (validate_anchor_https_url u0 ''Anchor transaction endpoint'')) (\<lambda>_.
      let u = url_append_pairs A [(''id'', transaction_id)] u0 in
      web_then (anchor_get_json A u (anchor_protocol_label p) token) (\<lambda>(status, v).
      web_of (if status = 404 then Inl (anchor_protocol_label p @ '' transaction '' @ transaction_id @ '' was not found'')
        else if \<not> http_success status
        then Inl (anchor_http_error (anchor_protocol_label p) (endpoint_label A u) status v)
        else parse_anchor_transaction_response v transaction_id))))))))"

section \<open>Discovery\<close>

fun toml_get :: "toml \<Rightarrow> string \<Rightarrow> toml option" where
  "toml_get (TomlTable m) k = map_of m k"
| "toml_get _ k = None"

fun toml_str :: "toml \<Rightarrow> string option" where
  "toml_str (TomlString s) = Some s"
| "toml_str _ = None"

fun toml_array :: "toml \<Rightarrow> toml list option" where
  "toml_array (TomlArray xs) = Some xs"
| "toml_array _ = None"

definition toml_text :: "toml \<Rightarrow> string \<Rightarrow> string option" where
  "toml_text document key =
     Option.bind (Option.bind (toml_get document key) toml_str) (\<lambda>s. if trim s = [] then None else Some (trim s))"

definition toml_endpoint :: "anchor_lib \<Rightarrow> toml \<Rightarrow> string \<Rightarrow> string option result" where
  "toml_endpoint A document key =
     (case toml_text document key of
        None \<Rightarrow> Inr None
      | Some v \<Rightarrow>
          and_then (ok_or (key @ '' must be a valid HTTPS URL'') (al_url_parse A v)) (\<lambda>parsed.
          and_then (validate_anchor_https_url parsed key) (\<lambda>_. Inr (Some v))))"

definition account_identifier :: "sdk_libs \<Rightarrow> toml \<Rightarrow> string \<Rightarrow> account_kind \<Rightarrow> string option result" where
  "account_identifier B document key expected_kind =
     (case toml_text document key of
        None \<Rightarrow> Inr None
      | Some v \<Rightarrow>
          and_then (map_err (\<lambda>_. key @ '' must be a valid Stellar account identifier'') (sdk_parse_account B v)) (\<lambda>identity.
          and_then (ensure (ai_kind identity = expected_kind)
             (key @ '' must be a '' @ (case expected_kind of Classic \<Rightarrow> ''Classic G address'' | Contract \<Rightarrow> ''Contract C address''))) (\<lambda>_.
            Inr (Some (ai_address identity)))))"

definition currency_matches :: "toml \<Rightarrow> anchor_asset \<Rightarrow> bool" where
  "currency_matches document a =
     (case Option.bind (toml_get document ''CURRENCIES'') toml_array of
        None \<Rightarrow> True
      | Some currencies \<Rightarrow>
          list_ex (\<lambda>currency. Option.bind (toml_get currency ''code'') toml_str = Some (aa_code a) \<and>
             Option.bind (toml_get currency ''issuer'') toml_str = Some (aa_issuer a)) currencies)"

definition asset_info :: "json option \<Rightarrow> string \<Rightarrow> json option" where
  "asset_info section_value code =
     Option.bind (Option.bind section_value as_object) (\<lambda>m. Option.bind (map_of m code) (\<lambda>v.
       if as_object v = None then None else Some v))"

definition asset_enabled :: "json option \<Rightarrow> string \<Rightarrow> bool" where
  "asset_enabled section_value code =
     (case Option.bind (asset_info section_value code) (\<lambda>v. get_bool v ''enabled'') of
        Some b \<Rightarrow> b
      | None \<Rightarrow> asset_info section_value code \<noteq> None)"

definition info_url :: "string \<Rightarrow> string" where
  "info_url base = trim_end_matches (CHR ''/'') base @ ''/info''"

definition fetch_text :: "anchor_lib \<Rightarrow> string \<Rightarrow> string \<Rightarrow> string web" where
  "fetch_text A u label =
     web_then (web_of (ok_or (''Unable to load '' @ label @ '' from invalid URL '' @ u) (al_url_parse A u))) (\<lambda>parsed.
       anchor_get_text A parsed label)"

definition fetch_json :: "anchor_lib \<Rightarrow> string \<Rightarrow> json web" where
  "fetch_json A u =
     web_then (web_of (ok_or (''Unable to load invalid URL '' @ u) (al_url_parse A u))) (\<lambda>parsed.
     web_then (anchor_get_json A parsed ''Anchor'' None) (\<lambda>(status, v).
     web_of (if http_success status then Inr v
       else Inl (anchor_http_error ''Anchor'' (endpoint_label A parsed) status v))))"

definition unlisted_capabilities :: "string \<Rightarrow> anchor_capabilities" where
  "unlisted_capabilities domain =
     \<lparr>cap_domain = domain, cap_sep6_url = None, cap_sep24_url = None, cap_web_auth_url = None,
      cap_web_auth_for_contracts_url = None, cap_signing_key = None, cap_web_auth_contract_id = None,
      cap_sep10_auth = False, cap_sep45_auth = False, cap_kyc_url = None, cap_direct_payment_url = None,
      cap_sep6_deposit = False, cap_sep6_withdraw = False, cap_sep6_deposit_info = JObject [],
      cap_sep6_withdraw_info = JObject [], cap_sep6_transaction_info = JObject [], cap_sep24_deposit = False,
      cap_sep24_withdraw = False, cap_warnings = [''stellar.toml does not list this exact asset'']\<rparr>"

text \<open>The endpoints and identifiers of the document, before any \<open>/info\<close> is asked for.\<close>

definition document_capabilities ::
  "sdk_libs \<Rightarrow> anchor_lib \<Rightarrow> string \<Rightarrow> toml \<Rightarrow> anchor_capabilities result" where
  "document_capabilities B A domain document =
     and_then (toml_endpoint A document ''TRANSFER_SERVER'') (\<lambda>sep6_url.
     and_then (toml_endpoint A document ''TRANSFER_SERVER_SEP0024'') (\<lambda>sep24_url.
     and_then (toml_endpoint A document ''WEB_AUTH_ENDPOINT'') (\<lambda>web_auth_url.
     and_then (toml_endpoint A document ''WEB_AUTH_FOR_CONTRACTS_ENDPOINT'') (\<lambda>contracts_url.
     and_then (account_identifier B document ''SIGNING_KEY'' Classic) (\<lambda>signing_key.
     and_then (account_identifier B document ''WEB_AUTH_CONTRACT_ID'' Contract) (\<lambda>contract_id.
     and_then (toml_endpoint A document ''KYC_SERVER'') (\<lambda>kyc_url.
     and_then (toml_endpoint A document ''DIRECT_PAYMENT_SERVER'') (\<lambda>direct_payment_url.
       Inr ((unlisted_capabilities domain)\<lparr>cap_sep6_url := sep6_url, cap_sep24_url := sep24_url,
         cap_web_auth_url := web_auth_url, cap_web_auth_for_contracts_url := contracts_url,
         cap_signing_key := signing_key, cap_web_auth_contract_id := contract_id,
         cap_sep10_auth := (web_auth_url \<noteq> None \<and> signing_key \<noteq> None),
         cap_sep45_auth := (contracts_url \<noteq> None \<and> contract_id \<noteq> None \<and> signing_key \<noteq> None),
         cap_kyc_url := kyc_url, cap_direct_payment_url := direct_payment_url, cap_warnings := []\<rparr>)))))))))"

definition object_or_empty :: "json option \<Rightarrow> json" where
  "object_or_empty v = (case v of Some j \<Rightarrow> j | None \<Rightarrow> JObject [])"

fun with_sep6_info :: "anchor_asset \<Rightarrow> json result \<Rightarrow> anchor_capabilities \<Rightarrow> anchor_capabilities" where
  "with_sep6_info a (Inr info) c =
     c\<lparr>cap_sep6_deposit_info := object_or_empty (asset_info (json_get info ''deposit'') (aa_code a)),
       cap_sep6_withdraw_info := object_or_empty (asset_info (json_get info ''withdraw'') (aa_code a)),
       cap_sep6_transaction_info := object_or_empty (Option.bind (json_get info ''transaction'') (\<lambda>v.
          if as_object v = None then None else Some v)),
       cap_sep6_deposit := asset_enabled (json_get info ''deposit'') (aa_code a),
       cap_sep6_withdraw := asset_enabled (json_get info ''withdraw'') (aa_code a)\<rparr>"
| "with_sep6_info a (Inl error) c = c\<lparr>cap_warnings := cap_warnings c @ [''SEP-6 /info unavailable: '' @ error]\<rparr>"

fun with_sep24_info :: "anchor_asset \<Rightarrow> json result \<Rightarrow> anchor_capabilities \<Rightarrow> anchor_capabilities" where
  "with_sep24_info a (Inr info) c =
     c\<lparr>cap_sep24_deposit := asset_enabled (json_get info ''deposit'') (aa_code a),
       cap_sep24_withdraw := asset_enabled (json_get info ''withdraw'') (aa_code a)\<rparr>"
| "with_sep24_info a (Inl error) c = c\<lparr>cap_warnings := cap_warnings c @ [''SEP-24 /info unavailable: '' @ error]\<rparr>"

definition with_auth_warnings :: "anchor_capabilities \<Rightarrow> anchor_capabilities" where
  "with_auth_warnings c =
     (let unready = (\<not> cap_sep10_auth c \<and> \<not> cap_sep45_auth c);
          sep6_requires_auth = list_ex (\<lambda>info. get_bool info ''authentication_required'' = Some True)
            [cap_sep6_deposit_info c, cap_sep6_withdraw_info c, cap_sep6_transaction_info c] in
      c\<lparr>cap_warnings := cap_warnings c @
         (if sep6_requires_auth \<and> unready
          then [''SEP-6 authentication is required but no complete SEP-10/SEP-45 metadata is available''] else []) @
         (if (cap_sep24_deposit c \<or> cap_sep24_withdraw c) \<and> unready
          then [''SEP-24 is advertised but no complete SEP-10/SEP-45 authentication metadata is available''] else [])\<rparr>)"

text \<open>The \<open>/info\<close> of a transfer server, when there is one; its failure is only a warning.\<close>

definition load_info ::
  "(string \<Rightarrow> json web) \<Rightarrow> string option \<Rightarrow> (json result \<Rightarrow> anchor_capabilities \<Rightarrow> anchor_capabilities)
     \<Rightarrow> anchor_capabilities \<Rightarrow> anchor_capabilities web" where
  "load_info load_json base step c =
     (case base of
        None \<Rightarrow> web_of (Inr c)
      | Some b \<Rightarrow> web_then (web_result (load_json (info_url b))) (\<lambda>info. web_of (Inr (step info c))))"

definition capabilities_from_document ::
  "sdk_libs \<Rightarrow> anchor_lib \<Rightarrow> anchor_asset \<Rightarrow> string \<Rightarrow> string \<Rightarrow> (string \<Rightarrow> json web) \<Rightarrow> anchor_capabilities web" where
  "capabilities_from_document B A a domain text_value load_json =
     web_then (web_of (map_err (\<lambda>error. ''Issuer stellar.toml is invalid: '' @ error) (al_toml A text_value))) (\<lambda>document.
     if \<not> currency_matches document a then web_of (Inr (unlisted_capabilities domain))
     else web_then (web_of (document_capabilities B A domain document)) (\<lambda>c0.
          web_then (load_info load_json (cap_sep6_url c0) (with_sep6_info a) c0) (\<lambda>c1.
          web_then (load_info load_json (cap_sep24_url c0) (with_sep24_info a) c1) (\<lambda>c2.
            web_of (Inr (with_auth_warnings c2))))))"

definition discover :: "sdk_libs \<Rightarrow> anchor_lib \<Rightarrow> anchor_asset \<Rightarrow> string \<Rightarrow> anchor_capabilities web" where
  "discover B A a home_domain =
     web_then (web_of (canonical_home_domain A home_domain)) (\<lambda>domain.
     web_then (fetch_text A (''https://'' @ domain @ ''/.well-known/stellar.toml'') ''stellar.toml'') (\<lambda>document.
       capabilities_from_document B A a domain document (fetch_json A)))"

definition discover_anchor_at :: "sdk_libs \<Rightarrow> anchor_lib \<Rightarrow> string \<Rightarrow> string \<Rightarrow> anchor_discovery web" where
  "discover_anchor_at B A asset_text raw_domain =
     web_then (web_of (anchor_asset_parse B asset_text)) (\<lambda>a.
     web_then (web_of (canonical_home_domain A raw_domain)) (\<lambda>home_domain.
     web_then (discover B A a home_domain) (\<lambda>c.
       web_of (Inr \<lparr>ad_asset = a, ad_home_domain = home_domain, ad_capabilities = c\<rparr>))))"

definition client_discover_anchor :: "'rpc fresnica_client \<Rightarrow> anchor_lib \<Rightarrow> string \<Rightarrow> anchor_discovery web" where
  "client_discover_anchor C A asset_text =
     web_then (web_of (anchor_asset_parse (fc_libs C) asset_text)) (\<lambda>a.
     web_then (web_of (get_account (fc_gateway C) (aa_issuer a))) (\<lambda>issuer.
     web_then (web_of (ok_or (''Asset issuer '' @ aa_issuer a @ '' has no home_domain'')
         (anchor_optional_text (json_get issuer ''home_domain'')))) (\<lambda>home_domain.
       discover_anchor_at (fc_libs C) A asset_text home_domain)))"

end
