(* ===== verification/Sep10.thy ===== *)
theory Sep10
  imports AnchorTransfer
begin

text \<open>
  SEP-10 authentication with an anchor (anchor_protocol.rs): the authorization plan of the client account,
  the challenge that is requested and verified, and its exchange, once signed, for a token.
\<close>

section \<open>UTF-8\<close>

definition utf8_tail :: "nat \<Rightarrow> bool" where
  "utf8_tail b \<longleftrightarrow> 0x80 \<le> b \<and> b \<le> 0xBF"

text \<open>The well-formed byte sequences of the Unicode standard.\<close>

fun utf8_valid :: "nat list \<Rightarrow> bool" where
  "utf8_valid [] \<longleftrightarrow> True"
| "utf8_valid (a # r) \<longleftrightarrow>
     (if a < 0x80 then utf8_valid r
      else case r of
        [] \<Rightarrow> False
      | b # r2 \<Rightarrow>
          (if 0xC2 \<le> a \<and> a \<le> 0xDF then utf8_tail b \<and> utf8_valid r2
           else case r2 of
             [] \<Rightarrow> False
           | c # r3 \<Rightarrow>
               (if 0xE0 \<le> a \<and> a \<le> 0xEF
                then utf8_tail b \<and> (a = 0xE0 \<longrightarrow> 0xA0 \<le> b) \<and> (a = 0xED \<longrightarrow> b \<le> 0x9F) \<and> utf8_tail c \<and> utf8_valid r3
                else case r3 of
                  [] \<Rightarrow> False
                | d # r4 \<Rightarrow>
                    0xF0 \<le> a \<and> a \<le> 0xF4 \<and> utf8_tail b \<and> (a = 0xF0 \<longrightarrow> 0x90 \<le> b) \<and> (a = 0xF4 \<longrightarrow> b \<le> 0x8F) \<and>
                    utf8_tail c \<and> utf8_tail d \<and> utf8_valid r4)))"

definition from_utf8 :: "bytes \<Rightarrow> string option" where
  "from_utf8 b = (if utf8_valid (map unat b) then Some (string_of_bytes b) else None)"

section \<open>The client account's authorization\<close>

definition sep10_authorization_plan ::
  "stellar_lib \<Rightarrow> json option \<Rightarrow> string \<Rightarrow> ledger_authorization_plan result" where
  "sep10_authorization_plan L ledger_account account_id =
     map_ok (\<lambda>requirement. \<lparr>lap_requirements = [requirement], lap_extra_signers = {}\<rparr>)
       (case ledger_account of
          Some raw \<Rightarrow>
            and_then (map_err (\<lambda>error. ''Unable to interpret SEP-10 ledger authorization: '' @ error)
                (authorization_from_horizon L raw)) (\<lambda>a.
            and_then (ensure (laa_account_id a = account_id)
                ''Horizon account authorization belongs to a different account'') (\<lambda>_.
              Inr \<lparr>aar_account_id = laa_account_id a, aar_required_weight = medium_threshold a, aar_uses = [],
                   aar_signers = laa_signers a\<rparr>))
        | None \<Rightarrow>
            and_then (ok_or ''SEP-10 Client Account must be a Classic G address'' (account_id_from_string L account_id)) (\<lambda>_.
              Inr \<lparr>aar_account_id = account_id, aar_required_weight = 1, aar_uses = [],
                   aar_signers = [\<lparr>wls_condition = Condition Ed25519PublicKey account_id, wls_weight = 1\<rparr>]\<rparr>))"

section \<open>Verifying a challenge\<close>

definition transaction_time_bounds :: "preconditions \<Rightarrow> time_bounds result" where
  "transaction_time_bounds c =
     (case c of
        PrecondTime bounds \<Rightarrow> Inr bounds
      | PrecondV2 v \<Rightarrow> ok_or ''SEP-10 challenge must include time bounds'' (v2_time_bounds v)
      | PrecondNone \<Rightarrow> Inl ''SEP-10 challenge must include time bounds'')"

definition classic_muxed_account :: "stellar_lib \<Rightarrow> string \<Rightarrow> string \<Rightarrow> muxed_account result" where
  "classic_muxed_account L address label =
     map_ok MuxEd25519 (ok_or (label @ '' must be a Classic G address'') (account_id_from_string L address))"

definition xdr_string64 :: "bytes \<Rightarrow> string result" where
  "xdr_string64 v = ok_or ''SEP-10 ManageData key is not UTF-8'' (from_utf8 v)"

definition web_auth_domain :: "anchor_lib \<Rightarrow> string \<Rightarrow> string result" where
  "web_auth_domain A endpoint =
     and_then (ok_or ''WEB_AUTH_ENDPOINT must be a valid URL'' (al_url_parse A endpoint)) (\<lambda>u.
     and_then (validate_anchor_https_url u ''WEB_AUTH_ENDPOINT'') (\<lambda>_.
       map_ok host_text (ok_or ''validated WEB_AUTH_ENDPOINT has a host'' (u_host u))))"

text \<open>The first operation: the client's, naming the home domain, with a nonce.\<close>

definition check_first_operation ::
  "anchor_lib \<Rightarrow> muxed_account \<Rightarrow> string \<Rightarrow> operation list \<Rightarrow> unit result" where
  "check_first_operation A client home_domain operations =
     (case operations of
        [] \<Rightarrow> Inl ''SEP-10 challenge has no operations''
      | first # _ \<Rightarrow>
          if op_source first \<noteq> Some client
          then Inl ''SEP-10 first operation source does not match the client account''
          else case op_body first of
                 ManageDataOp name v \<Rightarrow>
                   and_then (canonical_home_domain A home_domain) (\<lambda>domain.
                   and_then (xdr_string64 name) (\<lambda>key.
                   and_then (ensure (key = domain @ '' auth'') ''SEP-10 first operation home-domain key is invalid'') (\<lambda>_.
                   and_then (ok_or ''SEP-10 challenge nonce is missing'' v) (\<lambda>nonce.
                     ensure (length nonce = 64) ''SEP-10 challenge nonce must be exactly 64 bytes''))))
               | _ \<Rightarrow> Inl ''SEP-10 first operation must be ManageData'')"

text \<open>The loop over the other operations; \<open>seen\<close> says that \<open>web_auth_domain\<close> has been met.\<close>

fun check_additional_operations ::
  "muxed_account \<Rightarrow> string \<Rightarrow> bool \<Rightarrow> operation list \<Rightarrow> bool result" where
  "check_additional_operations server expected seen [] = Inr seen"
| "check_additional_operations server expected seen (operation # rest) =
     (case op_body operation of
        ManageDataOp name v \<Rightarrow>
          and_then (xdr_string64 name) (\<lambda>key.
            if key = ''client_domain'' then Inl ''SEP-10 challenge contains an unexpected client_domain operation''
            else if op_source operation \<noteq> Some server
            then Inl ''SEP-10 additional operation source must be SIGNING_KEY''
            else if key = ''web_auth_domain'' then
              (if seen then Inl ''SEP-10 challenge contains duplicate web_auth_domain operations''
               else and_then (ok_or ''SEP-10 web_auth_domain value is missing'' v) (\<lambda>b.
                    and_then (ok_or ''SEP-10 web_auth_domain is not UTF-8'' (from_utf8 b)) (\<lambda>s.
                    and_then (ensure (s = expected) ''SEP-10 web_auth_domain does not match WEB_AUTH_ENDPOINT'') (\<lambda>_.
                      check_additional_operations server expected True rest))))
            else check_additional_operations server expected seen rest)
      | _ \<Rightarrow> Inl ''SEP-10 additional operations must be ManageData'')"

text \<open>The checks of the decoded transaction.\<close>

definition verify_challenge_transaction ::
  "stellar_lib \<Rightarrow> anchor_lib \<Rightarrow> string \<Rightarrow> string \<Rightarrow> string \<Rightarrow> string \<Rightarrow> string \<Rightarrow> nat \<Rightarrow> envelope \<Rightarrow> transaction \<Rightarrow> unit result" where
  "verify_challenge_transaction L A network account server_signing_key home_domain web_auth_endpoint now_unix envelope tx =
     and_then (classic_muxed_account L server_signing_key ''SEP-10 SIGNING_KEY'') (\<lambda>server.
     and_then (classic_muxed_account L account ''SEP-10 client account'') (\<lambda>client.
     and_then (ensure (tx_source tx = server) ''SEP-10 challenge source account does not match SIGNING_KEY'') (\<lambda>_.
     and_then (ensure (tx_seq_num tx = 0) ''SEP-10 challenge sequence number must be zero'') (\<lambda>_.
     and_then (ensure (tx_memo tx = MemoNone) ''SEP-10 challenge contains an unexpected memo'') (\<lambda>_.
     and_then (transaction_time_bounds (tx_cond tx)) (\<lambda>bounds.
     and_then (ensure (\<not> (max_time bounds = 0 \<or> min_time bounds > max_time bounds \<or> now_unix < min_time bounds \<or>
         now_unix > max_time bounds)) ''SEP-10 challenge is outside its valid time bounds'') (\<lambda>_.
     and_then (check_first_operation A client home_domain (tx_operations tx)) (\<lambda>_.
     and_then (web_auth_domain A web_auth_endpoint) (\<lambda>expected.
     and_then (check_additional_operations server expected False (tl (tx_operations tx))) (\<lambda>seen.
     and_then (ensure seen ''SEP-10 challenge is missing web_auth_domain'') (\<lambda>_.
     and_then (has_valid_transaction_signature L envelope network server_signing_key) (\<lambda>valid.
       ensure valid ''SEP-10 challenge is not signed by SIGNING_KEY''))))))))))))"

definition verify_sep10_challenge ::
  "stellar_lib \<Rightarrow> anchor_lib \<Rightarrow> string \<Rightarrow> string \<Rightarrow> string \<Rightarrow> string \<Rightarrow> string \<Rightarrow> string \<Rightarrow> nat \<Rightarrow> bytes result" where
  "verify_sep10_challenge L A challenge_xdr network account server_signing_key home_domain web_auth_endpoint now_unix =
     and_then (ok_or ''SEP-10 challenge transaction is not valid base64 XDR'' (base64_decode L (trim challenge_xdr))) (\<lambda>xdr.
     and_then (parse_transaction_xdr L xdr) (\<lambda>envelope.
     case envelope of
       EnvTx tx _ \<Rightarrow>
         and_then (verify_challenge_transaction L A network account server_signing_key home_domain web_auth_endpoint now_unix
           envelope tx) (\<lambda>_. Inr xdr)
     | _ \<Rightarrow> Inl ''SEP-10 challenge must use a classic transaction envelope''))"

section \<open>Requesting a challenge\<close>

text \<open>A \<open>serde\<close> structure is read from an object, or from an array of its fields in order.\<close>

fun optional_json_text :: "json option \<Rightarrow> string option option" where
  "optional_json_text None = Some None"
| "optional_json_text (Some JNull) = Some None"
| "optional_json_text (Some (JString s)) = Some (Some s)"
| "optional_json_text (Some _) = None"

fun challenge_response_from_value :: "json \<Rightarrow> (string \<times> string option) option" where
  "challenge_response_from_value (JObject m) =
     Option.bind (Option.bind (map_of m ''transaction'') as_str) (\<lambda>t.
       map_option (\<lambda>p. (t, p)) (optional_json_text (map_of m ''network_passphrase'')))"
| "challenge_response_from_value (JArray [JString t]) = Some (t, None)"
| "challenge_response_from_value (JArray [JString t, p]) = map_option (\<lambda>q. (t, q)) (optional_json_text (Some p))"
| "challenge_response_from_value _ = None"

fun token_response_from_value :: "json \<Rightarrow> string option" where
  "token_response_from_value (JObject m) = Option.bind (map_of m ''token'') as_str"
| "token_response_from_value (JArray [JString t]) = Some t"
| "token_response_from_value _ = None"

definition sep10_challenge_url :: "anchor_lib \<Rightarrow> string \<Rightarrow> string \<Rightarrow> url result" where
  "sep10_challenge_url A web_auth_endpoint account =
     and_then (ok_or ''WEB_AUTH_ENDPOINT must be a valid URL'' (al_url_parse A web_auth_endpoint)) (\<lambda>u.
     and_then (validate_anchor_https_url u ''WEB_AUTH_ENDPOINT'') (\<lambda>_.
       Inr (url_append_pairs A [(''account'', account)] u)))"

definition request_sep10_challenge :: "anchor_lib \<Rightarrow> string \<Rightarrow> string \<Rightarrow> (string \<times> string option) web" where
  "request_sep10_challenge A web_auth_endpoint account =
     web_then (web_of (sep10_challenge_url A web_auth_endpoint account)) (\<lambda>u.
     web_then (fetch_json A (al_url_text A u)) (\<lambda>v.
       web_of (ok_or (''Invalid SEP-10 challenge response from '' @ web_auth_endpoint @ '': '' @
         al_serde_error A ''Sep10ChallengeResponse'' v) (challenge_response_from_value v))))"

definition validate_sep10_network_passphrase :: "string \<Rightarrow> string option \<Rightarrow> unit result" where
  "validate_sep10_network_passphrase network server_passphrase =
     (case server_passphrase of
        None \<Rightarrow> Inr ()
      | Some p \<Rightarrow>
          and_then (network_passphrase network) (\<lambda>local.
            ensure (p = local) (''SEP-10 server network_passphrase does not match local '' @ network @ '' configuration'')))"

record sep10_challenge =
  sc_transaction_xdr :: bytes
  sc_web_auth_endpoint :: string
  sc_server_signing_key :: string

text \<open>The system clock is the argument \<open>now\<close>, negative before the Unix epoch.\<close>

definition prepare_anchor_sep10_challenge ::
  "stellar_lib \<Rightarrow> anchor_lib \<Rightarrow> int \<Rightarrow> string \<Rightarrow> string \<Rightarrow> string \<Rightarrow> anchor_capabilities \<Rightarrow> sep10_challenge web" where
  "prepare_anchor_sep10_challenge L A now network account home_domain c =
     web_then (web_of (ok_or (cap_domain c @ '' does not advertise a SEP-10 WEB_AUTH_ENDPOINT'') (cap_web_auth_url c))) (\<lambda>endpoint.
     web_then (web_of (ok_or (cap_domain c @ '' does not advertise a SEP-10 SIGNING_KEY'') (cap_signing_key c))) (\<lambda>signing_key.
     web_then (request_sep10_challenge A endpoint account) (\<lambda>(challenge_xdr, passphrase).
     web_of (and_then (validate_sep10_network_passphrase network passphrase) (\<lambda>_.
       and_then (ensure (0 \<le> now) ''system clock is before Unix epoch'') (\<lambda>_.
       and_then (verify_sep10_challenge L A challenge_xdr network account signing_key home_domain endpoint (nat now)) (\<lambda>xdr.
         Inr \<lparr>sc_transaction_xdr = xdr, sc_web_auth_endpoint = endpoint, sc_server_signing_key = signing_key\<rparr>)))))))"

section \<open>Exchanging a signed challenge\<close>

definition exchange_sep10_challenge :: "anchor_lib \<Rightarrow> string \<Rightarrow> string \<Rightarrow> string web" where
  "exchange_sep10_challenge A web_auth_endpoint signed_transaction =
     web_then (web_of (ok_or ''WEB_AUTH_ENDPOINT must be a valid URL'' (al_url_parse A web_auth_endpoint))) (\<lambda>u.
     web_then (web_of (validate_anchor_https_url u ''WEB_AUTH_ENDPOINT'')) (\<lambda>_.
     web_then (anchor_post_json A u ''SEP-10'' (JObject [(''transaction'', JString signed_transaction)])) (\<lambda>(status, v).
     web_of (if \<not> http_success status then Inl (anchor_http_error ''SEP-10'' web_auth_endpoint status v)
       else and_then (ok_or (''Invalid SEP-10 token response from '' @ web_auth_endpoint @ '': '' @
              al_serde_error A ''Sep10TokenResponse'' v) (token_response_from_value v)) (\<lambda>token.
            and_then (ensure (trim token \<noteq> []) ''SEP-10 token response did not include a token'') (\<lambda>_. Inr token))))))"

text \<open>Everything that is checked before the signed challenge leaves.\<close>

definition check_signed_challenge ::
  "stellar_lib \<Rightarrow> string \<Rightarrow> sep10_challenge \<Rightarrow> ledger_authorization_plan \<Rightarrow> envelope \<Rightarrow> bytes result" where
  "check_signed_challenge L network challenge authorization signed_envelope =
     and_then (parse_transaction_xdr L (sc_transaction_xdr challenge)) (\<lambda>verified_envelope.
     case (verified_envelope, signed_envelope) of
       (EnvTx verified _, EnvTx signed_tx _) \<Rightarrow>
         and_then (ensure (signed_tx = verified) ''signed SEP-10 transaction does not match the verified challenge'') (\<lambda>_.
         and_then (has_valid_transaction_signature L signed_envelope network (sc_server_signing_key challenge)) (\<lambda>valid.
         and_then (ensure valid ''signed SEP-10 challenge no longer contains the verified server signature'') (\<lambda>_.
         and_then (network_passphrase network) (\<lambda>passphrase.
         and_then (satisfied_ed25519_conditions L authorization signed_envelope passphrase) (\<lambda>conditions.
         let satisfied = conditions - {Condition Ed25519PublicKey (sc_server_signing_key challenge)} in
         and_then (ensure (\<not> (satisfied = {} \<or> \<not> plan_satisfiable_by authorization satisfied))
             ''signed SEP-10 challenge does not satisfy client ledger authorization'') (\<lambda>_.
           map_err (\<lambda>error. ''Unable to encode signed SEP-10 challenge: '' @ error)
             (transaction_xdr_bytes L signed_envelope)))))))
     | _ \<Rightarrow> Inl ''SEP-10 challenge must use a classic transaction envelope'')"

definition exchange_anchor_sep10_challenge ::
  "stellar_lib \<Rightarrow> anchor_lib \<Rightarrow> string \<Rightarrow> sep10_challenge \<Rightarrow> ledger_authorization_plan \<Rightarrow> envelope \<Rightarrow> string web" where
  "exchange_anchor_sep10_challenge L A network challenge authorization signed_envelope =
     web_then (web_of (check_signed_challenge L network challenge authorization signed_envelope)) (\<lambda>xdr.
       exchange_sep10_challenge A (sc_web_auth_endpoint challenge) (base64_encode L xdr))"

section \<open>The requests of every anchor operation\<close>

definition to_public_https :: "anchor_lib \<Rightarrow> http_request \<Rightarrow> bool" where
  "to_public_https A r \<longleftrightarrow> (\<exists>u. public_https u \<and> (hr_url r = al_url_text A u \<or> al_url_parse A (hr_url r) = Some u))"

lemma request_to_public: "request_to A u token r \<Longrightarrow> to_public_https A r"
  by (auto simp: request_to_def to_public_https_def)

lemma public_get_json [sends_intros]: "sends (to_public_https A) (anchor_get_json A u protocol token)"
  by (rule sends_mono [OF sends_get_json]) (auto dest: request_to_public)

lemma public_put_json [sends_intros]: "sends (to_public_https A) (anchor_put_json A u protocol token body)"
  by (rule sends_mono [OF sends_put_json]) (auto dest: request_to_public)

lemma public_post_json [sends_intros]: "sends (to_public_https A) (anchor_post_json A u protocol body)"
  by (rule sends_mono [OF sends_post_json]) (auto dest: request_to_public)

lemma public_get_text [sends_intros]: "sends (to_public_https A) (anchor_get_text A u label)"
  by (rule sends_mono [OF sends_get_text]) (auto dest: request_to_public)

lemma sends_split [sends_intros]: "(\<And>a b. p = (a, b) \<Longrightarrow> sends P (f a b)) \<Longrightarrow> sends P (case p of (a, b) \<Rightarrow> f a b)"
  by (cases p) auto

lemma sends_if [sends_intros]: "(b \<Longrightarrow> sends P m) \<Longrightarrow> (\<not> b \<Longrightarrow> sends P n) \<Longrightarrow> sends P (if b then m else n)"
  by simp

lemma sends_let [sends_intros]: "sends P (f x) \<Longrightarrow> sends P (Let x f)"
  by (simp add: Let_def)

lemma public_fetch_text [sends_intros]: "sends (to_public_https A) (fetch_text A u label)"
  unfolding fetch_text_def by (intro sends_intros)

lemma public_fetch_json [sends_intros]: "sends (to_public_https A) (fetch_json A u)"
  unfolding fetch_json_def by (intro sends_intros)

lemma public_send_authenticated [sends_intros]: "sends (to_public_https A) (send_authenticated_json A m u token body)"
  unfolding send_authenticated_json_def by (intro sends_intros)

lemma public_load_info [sends_intros]:
  "(\<And>u. sends P (load_json u)) \<Longrightarrow> sends P (load_info load_json base step c)"
  unfolding load_info_def by (cases base) (auto intro!: sends_intros)

lemma public_capabilities [sends_intros]:
  "(\<And>u. sends P (load_json u)) \<Longrightarrow> sends P (capabilities_from_document B A a domain doc load_json)"
  unfolding capabilities_from_document_def by (intro sends_intros)

lemma public_discover_at [sends_intros]: "sends (to_public_https A) (discover_anchor_at B A asset_text raw_domain)"
  unfolding discover_anchor_at_def discover_def by (intro sends_intros)

end
