(* ===== verification/AnchorSafety.thy ===== *)
theory AnchorSafety
  imports Sep10
begin

text \<open>
  What the anchor operations send and accept: the endpoints of their requests, the challenge a client may be
  asked to sign, the exchange of a signed challenge, customer updates and the choice of a protocol.
\<close>

section \<open>Requests go to the endpoint they are meant for\<close>

text \<open>A request to the host of \<open>endpoint\<close> over HTTPS, with the given token or none.\<close>

definition to_endpoint :: "anchor_lib \<Rightarrow> string \<Rightarrow> string option \<Rightarrow> http_request \<Rightarrow> bool" where
  "to_endpoint A endpoint token r \<longleftrightarrow>
     (\<exists>u0 u. al_url_parse A endpoint = Some u0 \<and> public_https u \<and> u_host u = u_host u0 \<and> u_port u = u_port u0 \<and>
        (hr_url r = al_url_text A u \<or> al_url_parse A (hr_url r) = Some u) \<and>
        hr_authorization r = map_option bearer token)"

lemma request_to_endpoint:
  assumes "request_to A u token r" "al_url_parse A endpoint = Some u0" "u_host u = u_host u0" "u_port u = u_port u0"
  shows "to_endpoint A endpoint token r"
  using assms unfolding request_to_def to_endpoint_def by blast

lemma url_edit_ports [simp]:
  "u_port (url_set_path A path u) = u_port u" "u_port (url_append_pairs A pairs u) = u_port u"
  by (simp_all add: url_set_path_def url_append_pairs_def)

lemma customer_url_Inr:
  "customer_url A server = Inr u \<Longrightarrow> \<exists>u0. al_url_parse A (trim server) = Some u0 \<and> public_https u0 \<and>
     u = url_set_path A (trim_end_matches (CHR ''/'') (u_path u0) @ ''/customer'') u0"
  by (auto simp: customer_url_def and_then_Inr split: if_splits)

lemma customer_request:
  assumes "customer_url A server = Inr u" "request_to A (url_append_pairs A pairs u) token r \<or> request_to A u token r"
  shows "to_endpoint A (trim server) token r"
  using customer_url_Inr [OF assms(1)] assms(2) by (auto elim!: request_to_endpoint)

lemma sends_authenticated:
  "sends (request_to A u (Some token)) (send_authenticated_json A request_method u token body)"
  unfolding send_authenticated_json_def
  by (auto intro!: sends_intros intro: sends_mono [OF sends_get_json] sends_mono [OF sends_put_json])

lemma sends_get_customer: "sends (to_endpoint A (trim server) (Some token)) (get_anchor_customer A server token q)"
  unfolding get_anchor_customer_def
  by (intro sends_check) (auto intro!: sends_then sends_of intro: sends_mono [OF sends_authenticated] customer_request)

lemma sends_put_customer: "sends (to_endpoint A (trim server) (Some token)) (put_anchor_customer A server token d)"
proof -
  have "sends (to_endpoint A (trim server) (Some token)) (call_json A ''SEP-12'' u \<lparr>hr_method = ''PUT'', hr_url = al_url_text A u,
      hr_authorization = Some (bearer token), hr_body = body\<rparr>)" if "customer_url A server = Inr u" for u body
  proof -
    have "request_to A u (Some token) \<lparr>hr_method = ''PUT'', hr_url = al_url_text A u,
        hr_authorization = Some (bearer token), hr_body = body\<rparr>"
      using customer_url_Inr [OF that] by (auto simp: request_to_def)
    with that show ?thesis unfolding call_json_def by (intro sends_intros) (auto intro: customer_request)
  qed
  then show ?thesis
    unfolding put_anchor_customer_def
    by (intro sends_check sends_then sends_if sends_of)
      (auto intro: sends_mono [OF sends_authenticated] customer_request)
qed

lemma sends_sep24_transfer:
  "sends (\<lambda>r. \<exists>base. cap_sep24_url c = Some base \<and> trim token \<noteq> [] \<and>
       to_endpoint A (trim_end_matches (CHR ''/'') base @ ''/transactions/'' @ transfer_endpoint k @ ''/interactive'') (Some token) r)
     (start_anchor_sep24_transfer A account a c k parts token)"
  unfolding start_anchor_sep24_transfer_def Let_def
  by (intro sends_check sends_then sends_of sends_send) (auto simp: to_endpoint_def)

lemma sends_sep6_transfer:
  "sends (\<lambda>r. \<exists>base. cap_sep6_url c = Some base \<and>
       to_endpoint A (trim_end_matches (CHR ''/'') base @ ''/'' @ transfer_endpoint k) (usable_token token) r)
     (start_anchor_sep6_transfer A account a c k parts token)"
  unfolding start_anchor_sep6_transfer_def Let_def
  by (intro sends_check sends_then sends_split sends_of)
    (auto simp: sep6_request_url_def and_then_Inr Let_def intro!: sends_mono [OF sends_get_json] elim!: request_to_endpoint)

lemma sends_fetch_transaction:
  "sends (\<lambda>r. \<exists>base. (case p of Sep24 \<Rightarrow> cap_sep24_url c | Sep6 \<Rightarrow> cap_sep6_url c) = Some base \<and>
       to_endpoint A (trim_end_matches (CHR ''/'') base @ ''/transaction'') (usable_token token) r)
     (fetch_anchor_transaction A c p raw_id token)"
  unfolding fetch_anchor_transaction_def Let_def
  by (intro sends_check sends_then sends_split sends_of)
    (auto intro!: sends_mono [OF sends_get_json] elim!: request_to_endpoint split: anchor_protocol.splits)

text \<open>A public request that carries no credentials.\<close>

definition anonymous :: "anchor_lib \<Rightarrow> http_request \<Rightarrow> bool" where
  "anonymous A r \<longleftrightarrow> to_public_https A r \<and> hr_authorization r = None"

lemma anonymous_get_json [sends_intros]: "sends (anonymous A) (anchor_get_json A u protocol None)"
  by (rule sends_mono [OF sends_get_json]) (auto simp: anonymous_def request_to_def to_public_https_def)

lemma anonymous_get_text [sends_intros]: "sends (anonymous A) (anchor_get_text A u label)"
  by (rule sends_mono [OF sends_get_text]) (auto simp: anonymous_def request_to_def to_public_https_def)

lemma anonymous_fetch [sends_intros]:
  "sends (anonymous A) (fetch_text A u label)" "sends (anonymous A) (fetch_json A u)"
  unfolding fetch_text_def fetch_json_def by (intro sends_intros)+

lemma anonymous_discovery: "sends (anonymous A) (client_discover_anchor C A asset_text)"
  unfolding client_discover_anchor_def discover_anchor_at_def discover_def by (intro sends_intros)

lemma anonymous_challenge: "sends (anonymous A) (prepare_anchor_sep10_challenge L A now network account home_domain c)"
  unfolding prepare_anchor_sep10_challenge_def request_sep10_challenge_def by (intro sends_intros)

section \<open>The challenge\<close>

definition manage_key :: "operation \<Rightarrow> string option" where
  "manage_key op = (case op_body op of ManageDataOp name v \<Rightarrow> from_utf8 name | _ \<Rightarrow> None)"

definition manage_value :: "operation \<Rightarrow> bytes option" where
  "manage_value op = (case op_body op of ManageDataOp name v \<Rightarrow> v | _ \<Rightarrow> None)"

text \<open>An operation after the first one: the server's, a data entry, and not \<open>client_domain\<close>.\<close>

definition additional_operation :: "muxed_account \<Rightarrow> operation \<Rightarrow> bool" where
  "additional_operation server op \<longleftrightarrow>
     op_source op = Some server \<and> (\<exists>key. manage_key op = Some key \<and> key \<noteq> ''client_domain'')"

definition is_domain_operation :: "operation \<Rightarrow> bool" where
  "is_domain_operation op \<longleftrightarrow> manage_key op = Some ''web_auth_domain''"

text \<open>What SEP-10 asks of a challenge: it cannot run on the ledger (sequence number 0), it is the server's,
  it is open now, it names the client, the home domain and the host of the endpoint, once each, and the
  server has signed it.\<close>

definition sep10_challenge_ok ::
  "stellar_lib \<Rightarrow> anchor_lib \<Rightarrow> string \<Rightarrow> string \<Rightarrow> string \<Rightarrow> string \<Rightarrow> string \<Rightarrow> nat \<Rightarrow> envelope \<Rightarrow> bool" where
  "sep10_challenge_ok L A network account server_key home_domain endpoint now envelope \<longleftrightarrow>
     (\<exists>tx signatures server client bounds first rest nonce domain u host web_auth value_bytes.
        envelope = EnvTx tx signatures \<and> account_id_from_string L server_key = Some server \<and>
        account_id_from_string L account = Some client \<and>
        tx_source tx = MuxEd25519 server \<and> tx_seq_num tx = 0 \<and> tx_memo tx = MemoNone \<and>
        transaction_time_bounds (tx_cond tx) = Inr bounds \<and> min_time bounds \<le> now \<and> now \<le> max_time bounds \<and>
        0 < max_time bounds \<and>
        tx_operations tx = first # rest \<and> op_source first = Some (MuxEd25519 client) \<and>
        canonical_home_domain A home_domain = Inr domain \<and> manage_key first = Some (domain @ '' auth'') \<and>
        manage_value first = Some nonce \<and> length nonce = 64 \<and>
        al_url_parse A endpoint = Some u \<and> public_https u \<and> u_host u = Some host \<and>
        list_all (additional_operation (MuxEd25519 server)) rest \<and>
        filter is_domain_operation rest = [web_auth] \<and> manage_value web_auth = Some value_bytes \<and>
        from_utf8 value_bytes = Some (host_text host) \<and>
        has_valid_transaction_signature L envelope network server_key = Inr True)"

lemma check_first_operation_Inr:
  "check_first_operation A client home_domain operations = Inr u \<longleftrightarrow>
     (\<exists>first rest domain nonce. operations = first # rest \<and> op_source first = Some client \<and>
        canonical_home_domain A home_domain = Inr domain \<and> manage_key first = Some (domain @ '' auth'') \<and>
        manage_value first = Some nonce \<and> length nonce = 64)"
  by (auto simp: check_first_operation_def manage_key_def manage_value_def xdr_string64_def and_then_Inr
      split: list.splits operation_body.splits)

lemma check_additional_Cons:
  "check_additional_operations server expected seen (op # ops) = Inr b \<longleftrightarrow>
     additional_operation server op \<and>
     (if is_domain_operation op
      then \<not> seen \<and> (\<exists>v. manage_value op = Some v \<and> from_utf8 v = Some expected) \<and>
        check_additional_operations server expected True ops = Inr b
      else check_additional_operations server expected seen ops = Inr b)"
proof (cases "\<exists>name v. op_body op = ManageDataOp name v")
  case True
  then obtain name v where op: "op_body op = ManageDataOp name v" by blast
  show ?thesis
  proof (cases "from_utf8 name")
    case None
    then show ?thesis by (simp add: op additional_operation_def manage_key_def xdr_string64_def)
  next
    case (Some key)
    then have "xdr_string64 name = Inr key" "manage_key op = Some key" by (simp_all add: xdr_string64_def manage_key_def op)
    then show ?thesis
      by (auto simp: op additional_operation_def is_domain_operation_def manage_value_def and_then_Inr)
  qed
next
  case False
  then show ?thesis by (cases "op_body op") (simp_all add: additional_operation_def manage_key_def)
qed

lemma check_additional_seen:
  "check_additional_operations server expected True ops = Inr seen \<longleftrightarrow>
     seen \<and> list_all (additional_operation server) ops \<and> filter is_domain_operation ops = []"
  by (induction ops) (auto simp: check_additional_Cons simp del: check_additional_operations.simps(2))

lemma check_additional_unseen:
  "check_additional_operations server expected False ops = Inr True \<longleftrightarrow>
     list_all (additional_operation server) ops \<and>
     (\<exists>web_auth b. filter is_domain_operation ops = [web_auth] \<and> manage_value web_auth = Some b \<and> from_utf8 b = Some expected)"
  by (induction ops) (auto simp: check_additional_Cons check_additional_seen simp del: check_additional_operations.simps(2))

lemma classic_muxed_account_Inr:
  "classic_muxed_account L address label = Inr m \<longleftrightarrow> (\<exists>k. account_id_from_string L address = Some k \<and> m = MuxEd25519 k)"
  by (auto simp: classic_muxed_account_def map_ok_Inr)

lemma web_auth_domain_Inr:
  "web_auth_domain A endpoint = Inr d \<longleftrightarrow>
     (\<exists>u host. al_url_parse A endpoint = Some u \<and> public_https u \<and> u_host u = Some host \<and> d = host_text host)"
  by (auto simp: web_auth_domain_def and_then_Inr map_ok_Inr)

lemma verify_challenge_transaction_Inr:
  "verify_challenge_transaction L A network account server_key home_domain endpoint now (EnvTx tx signatures) tx = Inr u \<longleftrightarrow>
     sep10_challenge_ok L A network account server_key home_domain endpoint now (EnvTx tx signatures)"
  (is "?verified \<longleftrightarrow> ?ok")
proof
  assume ?verified
  then obtain server client bounds expected where
    k: "account_id_from_string L server_key = Some server" "account_id_from_string L account = Some client"
      "tx_source tx = MuxEd25519 server" "tx_seq_num tx = 0" "tx_memo tx = MemoNone"
      "transaction_time_bounds (tx_cond tx) = Inr bounds" "0 < max_time bounds" "min_time bounds \<le> now" "now \<le> max_time bounds"
    and first: "check_first_operation A (MuxEd25519 client) home_domain (tx_operations tx) = Inr ()"
    and d: "web_auth_domain A endpoint = Inr expected"
    and rest: "check_additional_operations (MuxEd25519 server) expected False (tl (tx_operations tx)) = Inr True"
    and signed: "has_valid_transaction_signature L (EnvTx tx signatures) network server_key = Inr True"
    unfolding verify_challenge_transaction_def and_then_Inr ensure_Inr classic_muxed_account_Inr by auto
  from first obtain op ops domain nonce where f: "tx_operations tx = op # ops" "op_source op = Some (MuxEd25519 client)"
    "canonical_home_domain A home_domain = Inr domain" "manage_key op = Some (domain @ '' auth'')"
    "manage_value op = Some nonce" "length nonce = 64"
    unfolding check_first_operation_Inr by blast
  from d obtain v host where h: "al_url_parse A endpoint = Some v" "public_https v" "u_host v = Some host" "expected = host_text host"
    unfolding web_auth_domain_Inr by blast
  from rest f(1) obtain web_auth b where w: "list_all (additional_operation (MuxEd25519 server)) ops"
    "filter is_domain_operation ops = [web_auth]" "manage_value web_auth = Some b" "from_utf8 b = Some expected"
    unfolding check_additional_unseen by auto
  show ?ok
    unfolding sep10_challenge_ok_def
    by (rule exI [of _ tx], rule exI [of _ signatures], rule exI [of _ server], rule exI [of _ client], rule exI [of _ bounds],
        rule exI [of _ op], rule exI [of _ ops], rule exI [of _ nonce], rule exI [of _ domain], rule exI [of _ v],
        rule exI [of _ host], rule exI [of _ web_auth], rule exI [of _ b]) (simp only: k f h w signed simp_thms)
next
  assume ?ok
  then obtain server client bounds op ops nonce domain v host web_auth b where
    k: "account_id_from_string L server_key = Some server" "account_id_from_string L account = Some client"
      "tx_source tx = MuxEd25519 server" "tx_seq_num tx = 0" "tx_memo tx = MemoNone"
      "transaction_time_bounds (tx_cond tx) = Inr bounds" "min_time bounds \<le> now" "now \<le> max_time bounds" "0 < max_time bounds"
    and f: "tx_operations tx = op # ops" "op_source op = Some (MuxEd25519 client)"
      "canonical_home_domain A home_domain = Inr domain" "manage_key op = Some (domain @ '' auth'')"
      "manage_value op = Some nonce" "length nonce = 64"
    and h: "al_url_parse A endpoint = Some v" "public_https v" "u_host v = Some host"
    and w: "list_all (additional_operation (MuxEd25519 server)) ops"
      "filter is_domain_operation ops = [web_auth]" "manage_value web_auth = Some b" "from_utf8 b = Some (host_text host)"
    and signed: "has_valid_transaction_signature L (EnvTx tx signatures) network server_key = Inr True"
    unfolding sep10_challenge_ok_def envelope.inject by blast
  have "check_first_operation A (MuxEd25519 client) home_domain (tx_operations tx) = Inr ()"
    unfolding check_first_operation_Inr using f by blast
  moreover have "web_auth_domain A endpoint = Inr (host_text host)" unfolding web_auth_domain_Inr using h by blast
  moreover have "check_additional_operations (MuxEd25519 server) (host_text host) False (tl (tx_operations tx)) = Inr True"
    unfolding check_additional_unseen using f(1) w by auto
  ultimately show ?verified
    using k signed by (simp add: verify_challenge_transaction_def classic_muxed_account_def)
qed

lemma verify_sep10_challenge_Inr:
  "verify_sep10_challenge L A challenge_xdr network account server_key home_domain endpoint now = Inr xdr \<longleftrightarrow>
     base64_decode L (trim challenge_xdr) = Some xdr \<and>
     (\<exists>envelope. parse_transaction_xdr L xdr = Inr envelope \<and>
        sep10_challenge_ok L A network account server_key home_domain endpoint now envelope)"
proof -
  have checked: "(case envelope of
       EnvTx tx _ \<Rightarrow> and_then (verify_challenge_transaction L A network account server_key home_domain endpoint now envelope tx)
           (\<lambda>_. Inr xdr')
     | _ \<Rightarrow> Inl ''SEP-10 challenge must use a classic transaction envelope'') = Inr xdr \<longleftrightarrow>
     xdr' = xdr \<and> sep10_challenge_ok L A network account server_key home_domain endpoint now envelope" for xdr' envelope
  proof (cases envelope)
    case (EnvTx tx signatures)
    then show ?thesis by (auto simp: and_then_Inr verify_challenge_transaction_Inr)
  qed (auto simp: sep10_challenge_ok_def)
  show ?thesis unfolding verify_sep10_challenge_def and_then_Inr ok_or_Inr checked by auto
qed

lemma prepared_challenge_verified:
  assumes "prepare_anchor_sep10_challenge L A now network account home_domain c sent = (Inr ch, sent')"
  obtains challenge_xdr request where "cap_web_auth_url c = Some (sc_web_auth_endpoint ch)"
    "cap_signing_key c = Some (sc_server_signing_key ch)" "0 \<le> now" "sent' = sent @ [request]"
    "verify_sep10_challenge L A challenge_xdr network account (sc_server_signing_key ch) home_domain (sc_web_auth_endpoint ch) (nat now) =
       Inr (sc_transaction_xdr ch)"
proof -
  from assms obtain endpoint signing_key challenge_xdr passphrase s1 where
    k: "cap_web_auth_url c = Some endpoint" "cap_signing_key c = Some signing_key"
    and asked: "request_sep10_challenge A endpoint account sent = (Inr (challenge_xdr, passphrase), sent')"
    and v: "0 \<le> now" "verify_sep10_challenge L A challenge_xdr network account signing_key home_domain endpoint (nat now) =
        Inr (sc_transaction_xdr ch)"
    and ch: "sc_web_auth_endpoint ch = endpoint" "sc_server_signing_key ch = signing_key"
    unfolding prepare_anchor_sep10_challenge_def web_then_Inr web_of_Inr and_then_Inr ok_or_Inr ensure_Inr
    by (auto simp: web_of_Inr and_then_Inr split: if_splits)
  from asked obtain request where "sent' = sent @ [request]"
    unfolding request_sep10_challenge_def fetch_json_def anchor_get_json_def call_json_def
    by (auto simp: web_then_Inr web_of_Inr web_send_Inr split: prod.splits)
  with k v ch that show thesis by simp
qed

section \<open>Exchanging it\<close>

text \<open>What the signed envelope is when it is sent: the verified transaction, still signed by the server, and
  signed by enough of the client account's signers, the server's key not counted among them.\<close>

definition signed_challenge_ok ::
  "stellar_lib \<Rightarrow> string \<Rightarrow> sep10_challenge \<Rightarrow> ledger_authorization_plan \<Rightarrow> envelope \<Rightarrow> bool" where
  "signed_challenge_ok L network ch plan signed_envelope \<longleftrightarrow>
     (\<exists>tx verified signatures passphrase S.
        parse_transaction_xdr L (sc_transaction_xdr ch) = Inr (EnvTx tx verified) \<and>
        signed_envelope = EnvTx tx signatures \<and> network_passphrase network = Inr passphrase \<and>
        has_valid_transaction_signature L signed_envelope network (sc_server_signing_key ch) = Inr True \<and>
        S \<noteq> {} \<and> plan_satisfiable_by plan S \<and>
        S \<subseteq> {cond \<in> signer_conditions plan. lsc_kind cond = Ed25519PublicKey \<and> lsc_key cond \<noteq> sc_server_signing_key ch \<and>
          has_valid_signature L signed_envelope passphrase (lsc_key cond) = Inr True})"

lemma satisfied_ed25519_subset:
  assumes "satisfied_ed25519_conditions L plan e passphrase = Inr S" "finite (lap_extra_signers plan)"
  shows "S \<subseteq> {cond \<in> signer_conditions plan. lsc_kind cond = Ed25519PublicKey \<and> has_valid_signature L e passphrase (lsc_key cond) = Inr True}"
proof -
  have "finite (signer_conditions plan)" using assms(2) by (simp add: signer_conditions_def)
  then show ?thesis
    using assms(1) unfolding satisfied_ed25519_conditions_def filter_ok_Inr ed25519_condition_satisfied_def
    by (auto split: if_splits)
qed

lemma check_signed_challenge_Inr:
  assumes "check_signed_challenge L network ch plan e = Inr xdr" "finite (lap_extra_signers plan)"
  shows "signed_challenge_ok L network ch plan e \<and> transaction_xdr_bytes L e = Inr xdr"
proof -
  from assms(1) obtain verified_envelope where p: "parse_transaction_xdr L (sc_transaction_xdr ch) = Inr verified_envelope"
    unfolding check_signed_challenge_def and_then_Inr by blast
  with assms(1) obtain tx verified signatures where e: "verified_envelope = EnvTx tx verified" "e = EnvTx tx signatures"
    by (auto simp: check_signed_challenge_def split: envelope.splits if_splits)
  from assms(1) p e obtain passphrase C where
    k: "has_valid_transaction_signature L e network (sc_server_signing_key ch) = Inr True"
      "network_passphrase network = Inr passphrase" "satisfied_ed25519_conditions L plan e passphrase = Inr C"
      "C - {Condition Ed25519PublicKey (sc_server_signing_key ch)} \<noteq> {}"
      "plan_satisfiable_by plan (C - {Condition Ed25519PublicKey (sc_server_signing_key ch)})"
      "transaction_xdr_bytes L e = Inr xdr"
    by (auto simp: check_signed_challenge_def Let_def and_then_Inr split: if_splits)
  let ?S = "C - {Condition Ed25519PublicKey (sc_server_signing_key ch)}"
  have sub: "?S \<subseteq> {cond \<in> signer_conditions plan. lsc_kind cond = Ed25519PublicKey \<and> lsc_key cond \<noteq> sc_server_signing_key ch \<and>
      has_valid_signature L e passphrase (lsc_key cond) = Inr True}"
  proof
    fix cond assume c: "cond \<in> ?S"
    obtain kind key where cond: "cond = Condition kind key" by (cases cond)
    from c satisfied_ed25519_subset [OF k(3) assms(2)] have "cond \<in> signer_conditions plan" "lsc_kind cond = Ed25519PublicKey"
      "has_valid_signature L e passphrase (lsc_key cond) = Inr True" by auto
    with c cond show "cond \<in> {cond \<in> signer_conditions plan. lsc_kind cond = Ed25519PublicKey \<and>
        lsc_key cond \<noteq> sc_server_signing_key ch \<and> has_valid_signature L e passphrase (lsc_key cond) = Inr True}" by auto
  qed
  have "signed_challenge_ok L network ch plan e"
    unfolding signed_challenge_ok_def
    by (rule exI [of _ tx], rule exI [of _ verified], rule exI [of _ signatures], rule exI [of _ passphrase], rule exI [of _ ?S])
      (intro conjI p [unfolded e(1)] e(2) k(1,2,4,5) sub)
  with k(6) show ?thesis by blast
qed

lemma sends_exchange:
  "sends (\<lambda>r. to_endpoint A (sc_web_auth_endpoint ch) None r \<and>
       (\<exists>xdr. check_signed_challenge L network ch plan e = Inr xdr \<and>
          hr_body r = JsonBody (JObject [(''transaction'', JString (base64_encode L xdr))])))
     (exchange_anchor_sep10_challenge L A network ch plan e)"
  unfolding exchange_anchor_sep10_challenge_def exchange_sep10_challenge_def
  by (intro sends_check sends_then sends_split sends_of)
    (auto intro!: sends_mono [OF sends_post_json] elim!: request_to_endpoint)

section \<open>Choosing a status protocol\<close>

definition status_usable :: "anchor_capabilities \<Rightarrow> anchor_protocol \<Rightarrow> bool" where
  "status_usable c p \<longleftrightarrow> validate_status_protocol c p = Inr p \<and>
     (case p of Sep24 \<Rightarrow> cap_sep24_deposit c \<or> cap_sep24_withdraw c | Sep6 \<Rightarrow> cap_sep6_deposit c \<or> cap_sep6_withdraw c)"

lemma status_usable_set: "{q. status_usable c q} = (if status_usable c Sep24 then {Sep24} else {}) \<union>
    (if status_usable c Sep6 then {Sep6} else {})"
  by (auto; metis anchor_protocol.exhaust)

section \<open>Properties\<close>

text \<open>C11. Anchor requests reach the endpoint they are meant for. Whatever the anchor, its documents and its
  answers say, customer calls go to the configured customer server, transfers and status calls to the
  advertised transfer server, and the exchange of a signed challenge to the authentication endpoint:
  always over HTTPS to the host of that endpoint, a public DNS name, with no credentials in the URL.
  The caller's token goes out only in those requests; discovery and the request for a challenge carry
  none.\<close>

theorem anchor_requests_reach_their_endpoint:
  "sends (to_endpoint A (trim server) (Some token)) (get_anchor_customer A server token q) \<and>
   sends (to_endpoint A (trim server) (Some token)) (put_anchor_customer A server token d) \<and>
   sends (\<lambda>r. \<exists>base. cap_sep24_url c = Some base \<and> trim token \<noteq> [] \<and>
       to_endpoint A (trim_end_matches (CHR ''/'') base @ ''/transactions/'' @ transfer_endpoint k @ ''/interactive'') (Some token) r)
     (start_anchor_sep24_transfer A account a c k parts token) \<and>
   sends (\<lambda>r. \<exists>base. cap_sep6_url c = Some base \<and>
       to_endpoint A (trim_end_matches (CHR ''/'') base @ ''/'' @ transfer_endpoint k) (usable_token t) r)
     (start_anchor_sep6_transfer A account a c k parts t) \<and>
   sends (\<lambda>r. \<exists>base. (case p of Sep24 \<Rightarrow> cap_sep24_url c | Sep6 \<Rightarrow> cap_sep6_url c) = Some base \<and>
       to_endpoint A (trim_end_matches (CHR ''/'') base @ ''/transaction'') (usable_token t) r)
     (fetch_anchor_transaction A c p raw_id t) \<and>
   sends (to_endpoint A (sc_web_auth_endpoint ch) None) (exchange_anchor_sep10_challenge L A network ch plan e) \<and>
   sends (anonymous A) (prepare_anchor_sep10_challenge L A now network account home_domain c) \<and>
   sends (anonymous A) (client_discover_anchor C A asset_text)"
  by (intro conjI sends_get_customer sends_put_customer sends_sep24_transfer sends_sep6_transfer sends_fetch_transaction
      anonymous_challenge anonymous_discovery sends_mono [OF sends_exchange]) blast

text \<open>C9. A SEP-10 challenge that is handed out for signing is harmless and the client's own. It is an envelope of
  the advertised signing key with sequence number 0, no memo and time bounds open now; its first
  operation names the client account and the home domain with a 64-byte nonce, every other one is a
  data entry of the server (never \<open>client_domain\<close>), exactly one of them names the host of the
  authentication endpoint, and the server has signed it. One request was sent for it, without
  credentials.\<close>

theorem sep10_challenge_is_verified:
  assumes "prepare_anchor_sep10_challenge L A now network account home_domain c sent = (Inr ch, sent')"
  shows "\<exists>envelope. parse_transaction_xdr L (sc_transaction_xdr ch) = Inr envelope \<and>
    cap_web_auth_url c = Some (sc_web_auth_endpoint ch) \<and> cap_signing_key c = Some (sc_server_signing_key ch) \<and>
    sep10_challenge_ok L A network account (sc_server_signing_key ch) home_domain (sc_web_auth_endpoint ch) (nat now) envelope \<and>
    (\<exists>request. sent' = sent @ [request] \<and> anonymous A request)"
proof -
  from assms obtain challenge_xdr request where
    k: "cap_web_auth_url c = Some (sc_web_auth_endpoint ch)" "cap_signing_key c = Some (sc_server_signing_key ch)"
      "sent' = sent @ [request]"
    and v: "verify_sep10_challenge L A challenge_xdr network account (sc_server_signing_key ch) home_domain
        (sc_web_auth_endpoint ch) (nat now) = Inr (sc_transaction_xdr ch)"
    by (rule prepared_challenge_verified)
  have "anonymous A request"
    using anonymous_challenge [of A L now network account home_domain c] assms k(3) unfolding sends_def
    by (auto dest!: spec [of _ sent])
  with k v show ?thesis unfolding verify_sep10_challenge_Inr by blast
qed

text \<open>C10. Only a fully signed, unaltered challenge is exchanged for a token. Every request the exchange sends goes to
  the authentication endpoint and carries the encoding of an envelope whose transaction is the verified
  challenge's, which the server's key still signs, and in which valid signatures of the client account's
  own Ed25519 signers, not counting the server's key, satisfy the authorization plan.\<close>

theorem sep10_exchange_sends_signed_challenge:
  assumes "finite (lap_extra_signers plan)"
  shows "sends (\<lambda>r. to_endpoint A (sc_web_auth_endpoint ch) None r \<and> signed_challenge_ok L network ch plan e \<and>
       (\<exists>xdr. transaction_xdr_bytes L e = Inr xdr \<and>
          hr_body r = JsonBody (JObject [(''transaction'', JString (base64_encode L xdr))])))
     (exchange_anchor_sep10_challenge L A network ch plan e)"
  by (rule sends_mono [OF sends_exchange]) (use check_signed_challenge_Inr assms in blast)


text \<open>C17. A status protocol is chosen without being asked for only when it is the only usable one: the one whose
  explicit choice would be accepted and for which the anchor offers this asset's deposits or withdrawals.\<close>

theorem automatic_status_protocol_is_the_only_usable_one:
  "select_anchor_status_protocol c None = Inr p \<longleftrightarrow> {q. status_usable c q} = {p}"
  unfolding status_usable_set
  by (cases p) (auto simp: select_anchor_status_protocol_def status_usable_def validate_status_protocol_def Let_def)

end
