(* ===== verification/AnchorExample.thy ===== *)
theory AnchorExample
  imports AnchorSafety
begin

text \<open>
  An anchor on concrete input: the witnesses of the properties of AnchorSafety.thy.
\<close>

section \<open>An anchor\<close>

definition demo_anchor_url :: url where
  "demo_anchor_url = \<lparr>u_scheme = ''https'', u_username = [], u_password = None, u_host = Some (HostDomain ''anchor.example''),
     u_port = None, u_path = ''/'', u_query = None, u_fragment = None\<rparr>"

text \<open>It knows one host, and answers every request with a challenge and a token.\<close>

definition demo_anchor :: anchor_lib where
  "demo_anchor = \<lparr>al_url_parse = (\<lambda>s. if starts_with ''https://anchor.example'' s then Some demo_anchor_url else None),
     al_url_text = (\<lambda>u. ''https://anchor.example/''), al_path_text = (\<lambda>p. p), al_query_text = (\<lambda>q ps. []),
     al_mime = (\<lambda>t. Inr ()), al_toml = (\<lambda>s. Inr (TomlTable [])), al_serde_error = (\<lambda>t v. ''invalid''),
     al_send = (\<lambda>sent r. Inr \<lparr>hs_status = 200,
       hs_json = Inr (JObject [(''transaction'', JString ''AA''), (''token'', JString ''secret'')]), hs_text = Inr []\<rparr>)\<rparr>"

definition demo_client_key :: bytes where "demo_client_key = replicate 32 9"
definition demo_client_text :: string where "demo_client_text = demo_key_text demo_client_key"
definition demo_server_key :: bytes where "demo_server_key = replicate 32 8"
definition demo_server_text :: string where "demo_server_text = demo_key_text demo_server_key"

definition demo_challenge_tx :: transaction where
  "demo_challenge_tx = \<lparr>tx_source = MuxEd25519 demo_server_key, tx_fee = 100, tx_seq_num = 0,
     tx_cond = PrecondTime \<lparr>min_time = 10, max_time = 1000\<rparr>, tx_memo = MemoNone,
     tx_operations = [
       \<lparr>op_source = Some (MuxEd25519 demo_client_key),
        op_body = ManageDataOp (bytes_of ''anchor.example auth'') (Some (replicate 64 7))\<rparr>,
       \<lparr>op_source = Some (MuxEd25519 demo_server_key),
        op_body = ManageDataOp (bytes_of ''web_auth_domain'') (Some (bytes_of ''anchor.example''))\<rparr>],
     tx_ext = TxExtV0\<rparr>"

definition demo_signed_by :: "bytes \<Rightarrow> decorated_signature" where
  "demo_signed_by k = \<lparr>sig_hint = signature_hint k, sig_bytes = demo_pad 64 k\<rparr>"

definition demo_challenge_envelope :: envelope where
  "demo_challenge_envelope = EnvTx demo_challenge_tx [demo_signed_by demo_server_key]"

definition demo_signed_challenge :: envelope where
  "demo_signed_challenge = EnvTx demo_challenge_tx [demo_signed_by demo_server_key, demo_signed_by demo_client_key]"

definition demo_anchor_lib :: stellar_lib where
  "demo_anchor_lib = demo_lib\<lparr>envelope_from_xdr := (\<lambda>b depth len. Inr demo_challenge_envelope)\<rparr>"

definition demo_capabilities :: anchor_capabilities where
  "demo_capabilities = (unlisted_capabilities ''anchor.example'')\<lparr>cap_web_auth_url := Some ''https://anchor.example'',
     cap_signing_key := Some demo_server_text\<rparr>"

lemma demo_keys:
  "public_key_from_string demo_anchor_lib demo_server_text = Some demo_server_key"
  "public_key_from_string demo_anchor_lib demo_client_text = Some demo_client_key"
proof -
  have "demo_parse_key (demo_key_text k) = Some k" if "length k = 32" for k
    using that demo_public_key_codec by (auto simp: public_key_codec_def demo_lib_def)
  then show "public_key_from_string demo_anchor_lib demo_server_text = Some demo_server_key"
    "public_key_from_string demo_anchor_lib demo_client_text = Some demo_client_key"
    by (simp_all add: demo_anchor_lib_def demo_lib_def demo_server_text_def demo_client_text_def demo_server_key_def
        demo_client_key_def)
qed

lemma demo_texts_differ: "demo_client_text \<noteq> demo_server_text"
  using demo_keys by (auto simp: demo_server_key_def demo_client_key_def)

lemma demo_signatures:
  "has_valid_signature demo_anchor_lib demo_challenge_envelope np demo_server_text = Inr True"
  "has_valid_signature demo_anchor_lib demo_signed_challenge np demo_server_text = Inr True"
  "has_valid_signature demo_anchor_lib demo_signed_challenge np demo_client_text = Inr True"
  unfolding has_valid_signature_def demo_keys
  by (simp_all add: transaction_hash_def demo_anchor_lib_def demo_lib_def demo_hash_def demo_challenge_envelope_def
      demo_signed_challenge_def ed25519_decorated_def demo_signed_by_def)

lemma demo_urls: "al_url_parse demo_anchor ''https://anchor.example'' = Some demo_anchor_url"
  "al_url_parse demo_anchor ''https://anchor.example/'' = Some demo_anchor_url"
  by (simp_all add: demo_anchor_def starts_with_def)

lemma demo_domain_public: "public_https demo_anchor_url" "public_https (url_append_pairs demo_anchor ps demo_anchor_url)"
proof -
  have "is_external_dns_name (trim_end_matches (CHR ''.'') ''anchor.example'')" by code_simp
  then show "public_https demo_anchor_url" by (simp add: public_https_def demo_anchor_url_def)
  then show "public_https (url_append_pairs demo_anchor ps demo_anchor_url)" by simp
qed

lemma demo_home_domain: "canonical_home_domain demo_anchor ''anchor.example'' = Inr ''anchor.example''"
proof -
  have v: "trim_end_matches (CHR ''.'') (trim ''anchor.example'') = ''anchor.example''"
    "map to_ascii_lower (trim_end_matches (CHR ''.'') ''anchor.example'') = ''anchor.example''" by code_simp+
  have valid: "validate_anchor_https_url demo_anchor_url l = Inr ()" for l using demo_domain_public by simp
  have parts: "u_path demo_anchor_url = ''/''" "u_query demo_anchor_url = None" "u_fragment demo_anchor_url = None"
    "u_port demo_anchor_url = None" "u_host demo_anchor_url = Some (HostDomain ''anchor.example'')"
    by (simp_all add: demo_anchor_url_def)
  have parsed: "al_url_parse demo_anchor (''https://'' @ ''anchor.example'' @ ''/'') = Some demo_anchor_url"
    using demo_urls by simp
  show ?thesis unfolding canonical_home_domain_def Let_def v(1) parsed by (simp add: valid parts v(2))
qed

lemma demo_utf8:
  "from_utf8 (bytes_of ''anchor.example auth'') = Some ''anchor.example auth''"
  "from_utf8 (bytes_of ''web_auth_domain'') = Some ''web_auth_domain''"
  "from_utf8 (bytes_of ''anchor.example'') = Some ''anchor.example''"
  by (simp_all add: from_utf8_def) (code_simp)+

lemma demo_challenge_ok:
  "sep10_challenge_ok demo_anchor_lib demo_anchor ''testnet'' demo_client_text demo_server_text ''anchor.example''
     ''https://anchor.example'' 100 demo_challenge_envelope"
proof -
  let ?op = "\<lparr>op_source = Some (MuxEd25519 demo_client_key),
        op_body = ManageDataOp (bytes_of ''anchor.example auth'') (Some (replicate 64 7))\<rparr>"
  let ?domain = "\<lparr>op_source = Some (MuxEd25519 demo_server_key),
        op_body = ManageDataOp (bytes_of ''web_auth_domain'') (Some (bytes_of ''anchor.example''))\<rparr>"
  have keys: "manage_key ?op = Some ''anchor.example auth''" "manage_key ?domain = Some ''web_auth_domain''"
    by (simp_all add: manage_key_def demo_utf8)
  have signed: "has_valid_transaction_signature demo_anchor_lib demo_challenge_envelope ''testnet'' demo_server_text = Inr True"
    by (simp add: has_valid_transaction_signature_def network_passphrase_def demo_signatures)
  show ?thesis
    unfolding sep10_challenge_ok_def
    apply (rule exI [of _ demo_challenge_tx], rule exI [of _ "[demo_signed_by demo_server_key]"], rule exI [of _ demo_server_key],
      rule exI [of _ demo_client_key], rule exI [of _ "\<lparr>min_time = 10, max_time = 1000\<rparr>"], rule exI [of _ ?op],
      rule exI [of _ "[?domain]"], rule exI [of _ "replicate 64 7"], rule exI [of _ "''anchor.example''"],
      rule exI [of _ demo_anchor_url], rule exI [of _ "HostDomain ''anchor.example''"], rule exI [of _ ?domain],
      rule exI [of _ "bytes_of ''anchor.example''"])
    using keys signed demo_keys demo_home_domain demo_urls demo_domain_public demo_utf8
    by (simp add: demo_challenge_envelope_def demo_challenge_tx_def account_id_from_string_def transaction_time_bounds_def
        additional_operation_def is_domain_operation_def manage_value_def demo_anchor_url_def)
qed

definition demo_challenge :: sep10_challenge where
  "demo_challenge = \<lparr>sc_transaction_xdr = bytes_of ''AA'', sc_web_auth_endpoint = ''https://anchor.example'',
     sc_server_signing_key = demo_server_text\<rparr>"

lemma demo_parse_challenge: "parse_transaction_xdr demo_anchor_lib xdr = Inr demo_challenge_envelope"
  by (simp add: parse_transaction_xdr_def parse_transaction_envelope_xdr_def demo_anchor_lib_def)

lemma demo_challenge_prepared:
  "\<exists>request. prepare_anchor_sep10_challenge demo_anchor_lib demo_anchor 100 ''testnet'' demo_client_text ''anchor.example''
     demo_capabilities [] = (Inr demo_challenge, [request])"
proof -
  have "base64_decode demo_anchor_lib (trim ''AA'') = Some (bytes_of ''AA'')"
    by (simp add: demo_anchor_lib_def demo_lib_def) (code_simp)
  then have v: "verify_sep10_challenge demo_anchor_lib demo_anchor ''AA'' ''testnet'' demo_client_text demo_server_text ''anchor.example''
      ''https://anchor.example'' 100 = Inr (bytes_of ''AA'')"
    unfolding verify_sep10_challenge_Inr using demo_parse_challenge demo_challenge_ok by blast
  have valid: "validate_anchor_https_url demo_anchor_url l = Inr ()" for l using demo_domain_public by simp
  have url: "sep10_challenge_url demo_anchor ''https://anchor.example'' demo_client_text =
      Inr (url_append_pairs demo_anchor [(''account'', demo_client_text)] demo_anchor_url)"
    by (simp add: sep10_challenge_url_def demo_urls valid)
  have text_url: "al_url_text demo_anchor u = ''https://anchor.example/''" for u by (simp add: demo_anchor_def)
  have "\<exists>request. request_sep10_challenge demo_anchor ''https://anchor.example'' demo_client_text [] = (Inr (''AA'', None), [request])"
    by (simp add: request_sep10_challenge_def web_then_def web_of_def url text_url fetch_json_def demo_urls anchor_get_json_def valid
        call_json_def web_send_def read_json_response_def reject_anchor_redirect_def http_success_def)
      (simp add: demo_anchor_def http_success_def reject_anchor_redirect_def)
  then obtain request where "request_sep10_challenge demo_anchor ''https://anchor.example'' demo_client_text [] =
      (Inr (''AA'', None), [request])" by blast
  with v show ?thesis
    by (simp add: prepare_anchor_sep10_challenge_def demo_capabilities_def web_then_def web_of_def
        validate_sep10_network_passphrase_def demo_challenge_def)
qed

theorem sep10_challenge_is_verified_witness:
  "sep10_challenge_ok demo_anchor_lib demo_anchor ''testnet'' demo_client_text demo_server_text ''anchor.example''
     ''https://anchor.example'' 100 demo_challenge_envelope"
proof -
  obtain request where "prepare_anchor_sep10_challenge demo_anchor_lib demo_anchor 100 ''testnet'' demo_client_text ''anchor.example''
     demo_capabilities [] = (Inr demo_challenge, [request])"
    using demo_challenge_prepared by blast
  from sep10_challenge_is_verified [OF this] show ?thesis
    by (auto simp: demo_parse_challenge demo_challenge_def)
qed

section \<open>The exchange\<close>

text \<open>The client account is not on the ledger yet: its own key signs.\<close>

definition demo_client_plan :: ledger_authorization_plan where
  "demo_client_plan = \<lparr>lap_requirements = [\<lparr>aar_account_id = demo_client_text, aar_required_weight = 1, aar_uses = [],
     aar_signers = [\<lparr>wls_condition = Condition Ed25519PublicKey demo_client_text, wls_weight = 1\<rparr>]\<rparr>], lap_extra_signers = {}\<rparr>"

lemma demo_plan: "sep10_authorization_plan demo_anchor_lib None demo_client_text = Inr demo_client_plan"
  by (simp add: sep10_authorization_plan_def account_id_from_string_def demo_keys demo_client_plan_def)

lemma demo_check_signed:
  "check_signed_challenge demo_anchor_lib ''testnet'' demo_challenge demo_client_plan demo_signed_challenge = Inr []"
proof -
  have conditions: "satisfied_ed25519_conditions demo_anchor_lib demo_client_plan demo_signed_challenge np =
      Inr {Condition Ed25519PublicKey demo_client_text}" for np
    by (simp add: satisfied_ed25519_conditions_def signer_conditions_def demo_client_plan_def ed25519_condition_satisfied_def
        demo_signatures)
  have satisfied: "plan_satisfiable_by demo_client_plan {Condition Ed25519PublicKey demo_client_text}"
    by (simp add: plan_satisfiable_by_def demo_client_plan_def requirement_satisfiable_by_def available_weight_def)
  have server: "has_valid_transaction_signature demo_anchor_lib demo_signed_challenge ''testnet'' demo_server_text = Inr True"
    by (simp add: has_valid_transaction_signature_def network_passphrase_def demo_signatures)
  have encoded: "transaction_xdr_bytes demo_anchor_lib demo_signed_challenge = Inr []"
    by (simp add: transaction_xdr_bytes_def transaction_envelope_xdr_def demo_anchor_lib_def demo_lib_def)
  have others: "{Condition Ed25519PublicKey demo_client_text} - {Condition Ed25519PublicKey demo_server_text} =
      {Condition Ed25519PublicKey demo_client_text}" using demo_texts_differ by auto
  have net: "network_passphrase ''testnet'' = Inr testnet_passphrase" by (simp add: network_passphrase_def)
  have txs: "demo_challenge_envelope = EnvTx demo_challenge_tx [demo_signed_by demo_server_key]"
    "demo_signed_challenge = EnvTx demo_challenge_tx [demo_signed_by demo_server_key, demo_signed_by demo_client_key]"
    by (simp_all add: demo_challenge_envelope_def demo_signed_challenge_def)
  have key: "sc_server_signing_key demo_challenge = demo_server_text" by (simp add: demo_challenge_def)
  show ?thesis
    using conditions satisfied server encoded others demo_texts_differ
    unfolding check_signed_challenge_def demo_parse_challenge key net Let_def txs by simp
qed

theorem sep10_exchange_sends_signed_challenge_witness:
  "\<exists>request. exchange_anchor_sep10_challenge demo_anchor_lib demo_anchor ''testnet'' demo_challenge demo_client_plan
       demo_signed_challenge [] = (Inr ''secret'', [request]) \<and>
     to_endpoint demo_anchor ''https://anchor.example'' None request \<and>
     signed_challenge_ok demo_anchor_lib ''testnet'' demo_challenge demo_client_plan demo_signed_challenge"
proof -
  have finite_extra: "finite (lap_extra_signers demo_client_plan)" by (simp add: demo_client_plan_def)
  have endpoint: "sc_web_auth_endpoint demo_challenge = ''https://anchor.example''" by (simp add: demo_challenge_def)
  have valid: "validate_anchor_https_url demo_anchor_url l = Inr ()" for l using demo_domain_public by simp
  have token: "trim ''secret'' \<noteq> []" by code_simp
  have "\<exists>request. exchange_anchor_sep10_challenge demo_anchor_lib demo_anchor ''testnet'' demo_challenge demo_client_plan
       demo_signed_challenge [] = (Inr ''secret'', [request])"
    by (simp add: exchange_anchor_sep10_challenge_def demo_check_signed endpoint exchange_sep10_challenge_def web_then_def web_of_def
        demo_urls valid anchor_post_json_def call_json_def web_send_def read_json_response_def)
      (simp add: demo_anchor_def http_success_def reject_anchor_redirect_def token)
  then obtain request where r: "exchange_anchor_sep10_challenge demo_anchor_lib demo_anchor ''testnet'' demo_challenge demo_client_plan
       demo_signed_challenge [] = (Inr ''secret'', [request])" by blast
  with sep10_exchange_sends_signed_challenge [OF finite_extra, of demo_anchor demo_challenge demo_anchor_lib "''testnet''"
      demo_signed_challenge] endpoint
  show ?thesis unfolding sends_def by (auto dest!: spec [of _ "[]"])
qed

section \<open>A customer update\<close>

definition demo_update :: anchor_customer_update where
  "demo_update = \<lparr>acu_id = Some ''7'', acu_customer_type = None, acu_transaction_id = None,
     acu_fields = [(''dob'', ''Ada'')], acu_files = []\<rparr>"

lemma demo_update_valid: "customer_update_validate demo_update = Inr ()"
proof -
  have t: "trim ''dob'' = ''dob''" "trim ''Ada'' = ''Ada''" "trim ''7'' = ''7''" by (code_simp)+
  have "is_ascii_alphanumeric CHR ''d''" "is_ascii_alphanumeric CHR ''o''" "is_ascii_alphanumeric CHR ''b''" by (code_simp)+
  then show ?thesis
    by (simp add: customer_update_validate_def customer_query_validate_def demo_update_def t validate_field_name_def
        customer_metadata_names_def)
qed

lemma demo_update_sent:
  "\<exists>request. snd (put_anchor_customer demo_anchor ''https://anchor.example'' ''secret'' demo_update []) = [request]"
proof -
  have valid: "validate_anchor_https_url demo_anchor_url l = Inr ()" for l using demo_domain_public by simp
  have trimmed: "trim ''https://anchor.example'' = ''https://anchor.example''" by code_simp
  have edited: "validate_anchor_https_url (url_set_path demo_anchor p demo_anchor_url) l = Inr ()" for p l
    using demo_domain_public(1) by simp
  obtain response where "al_send demo_anchor s r = Inr response" for s r by (simp add: demo_anchor_def)
  moreover have "u_query demo_anchor_url = None" "u_fragment demo_anchor_url = None" by (simp_all add: demo_anchor_url_def)
  moreover have "acu_files demo_update = []" by (simp add: demo_update_def)
  ultimately show ?thesis
    by (simp add: put_anchor_customer_def demo_update_valid web_then_def web_of_def customer_url_def trimmed demo_urls valid edited
        send_authenticated_json_def anchor_put_json_def call_json_def web_send_def split: sum.split)
qed


end
