(* ===== verification/Bindings.thy ===== *)
theory Bindings
  imports Sdk
begin

text \<open>
  bindings/native/src/lib.rs and bindings/wasm/src/lib.rs: the native (UniFFI) and the browser binding of the SDK.
  Both call the SDK operation of the same name and convert its result and its error into their own types; the
  native binding keeps codes as an enumeration of its own, the browser binding as the text of a JavaScript
  error.
\<close>

section \<open>The versions of the layers\<close>

definition client_api_version :: nat where "client_api_version = 5"
definition sdk_api_version :: nat where "sdk_api_version = 5"

record sdk_version =
  sdv_sdk_api_version :: nat
  sdv_core_client_api_version :: nat

definition sdk_version_of :: sdk_version where
  "sdk_version_of = \<lparr>sdv_sdk_api_version = sdk_api_version, sdv_core_client_api_version = client_api_version\<rparr>"

section \<open>Types of the native binding\<close>

definition native_binding_api_version :: nat where "native_binding_api_version = 3"

record native_sdk_version =
  nsv_native_binding_api_version :: nat
  nsv_sdk_api_version :: nat
  nsv_core_client_api_version :: nat

datatype native_account_kind = NativeClassic | NativeContract

record native_account_identity =
  nai_kind :: native_account_kind
  nai_address :: string
  nai_public_key :: "string option"

record native_protected_software_signer =
  nps_signer_public_key :: string
  nps_envelope_json :: string

record native_generated_mnemonic =
  ngm_signer :: native_protected_software_signer
  ngm_mnemonic :: string
  ngm_language :: string
  ngm_index :: nat

record native_ed25519_signing_request =
  nsr_transaction_hash :: bytes
  nsr_transaction_xdr :: bytes
  nsr_network_passphrase :: string

record native_message_signing_request =
  nmr_message_hash :: bytes
  nmr_message :: bytes
  nmr_encoded_message :: bytes

datatype native_signing_material_kind = NativeSecret | NativeMnemonic

record native_exported_signing_material =
  nem_kind :: native_signing_material_kind
  nem_secret :: "string option"
  nem_mnemonic :: "string option"
  nem_mnemonic_passphrase :: "string option"
  nem_index :: "nat option"
  nem_language :: "string option"

section \<open>Errors of the native binding\<close>

text \<open>One code less than the SDK has: there is no code for an invalid Soroban authorization.\<close>

datatype native_sdk_error_code =
    NatInvalidInput | NatInvalidPasscode | NatInvalidUnlockKey | NatInvalidProtectedData | NatIdentityMismatch
  | NatInvalidTransaction | NatInvalidMessageSignature | NatCoreError

fun native_code_str :: "native_sdk_error_code \<Rightarrow> string" where
  "native_code_str NatInvalidInput = ''invalid-input''"
| "native_code_str NatInvalidPasscode = ''invalid-passcode''"
| "native_code_str NatInvalidUnlockKey = ''invalid-unlock-key''"
| "native_code_str NatInvalidProtectedData = ''invalid-protected-data''"
| "native_code_str NatIdentityMismatch = ''identity-mismatch''"
| "native_code_str NatInvalidTransaction = ''invalid-transaction''"
| "native_code_str NatInvalidMessageSignature = ''invalid-message-signature''"
| "native_code_str NatCoreError = ''core-error''"

datatype native_sdk_error =
    NeInvalidInput string | NeInvalidPasscode string | NeInvalidUnlockKey string | NeInvalidProtectedData string
  | NeIdentityMismatch string | NeInvalidTransaction string | NeInvalidMessageSignature string | NeCoreError string

fun native_error_code :: "native_sdk_error \<Rightarrow> native_sdk_error_code" where
  "native_error_code (NeInvalidInput _) = NatInvalidInput"
| "native_error_code (NeInvalidPasscode _) = NatInvalidPasscode"
| "native_error_code (NeInvalidUnlockKey _) = NatInvalidUnlockKey"
| "native_error_code (NeInvalidProtectedData _) = NatInvalidProtectedData"
| "native_error_code (NeIdentityMismatch _) = NatIdentityMismatch"
| "native_error_code (NeInvalidTransaction _) = NatInvalidTransaction"
| "native_error_code (NeInvalidMessageSignature _) = NatInvalidMessageSignature"
| "native_error_code (NeCoreError _) = NatCoreError"

fun native_error_message :: "native_sdk_error \<Rightarrow> string" where
  "native_error_message (NeInvalidInput detail) = detail"
| "native_error_message (NeInvalidPasscode detail) = detail"
| "native_error_message (NeInvalidUnlockKey detail) = detail"
| "native_error_message (NeInvalidProtectedData detail) = detail"
| "native_error_message (NeIdentityMismatch detail) = detail"
| "native_error_message (NeInvalidTransaction detail) = detail"
| "native_error_message (NeInvalidMessageSignature detail) = detail"
| "native_error_message (NeCoreError detail) = detail"

fun native_error_new :: "native_sdk_error_code \<Rightarrow> string \<Rightarrow> native_sdk_error" where
  "native_error_new NatInvalidInput detail = NeInvalidInput detail"
| "native_error_new NatInvalidPasscode detail = NeInvalidPasscode detail"
| "native_error_new NatInvalidUnlockKey detail = NeInvalidUnlockKey detail"
| "native_error_new NatInvalidProtectedData detail = NeInvalidProtectedData detail"
| "native_error_new NatIdentityMismatch detail = NeIdentityMismatch detail"
| "native_error_new NatInvalidTransaction detail = NeInvalidTransaction detail"
| "native_error_new NatInvalidMessageSignature detail = NeInvalidMessageSignature detail"
| "native_error_new NatCoreError detail = NeCoreError detail"

definition native_error_from :: "sdk_error \<Rightarrow> native_sdk_error" where
  "native_error_from e =
     native_error_new
       (case sdk_code e of
          SdkInvalidInput \<Rightarrow> NatInvalidInput
        | SdkInvalidPasscode \<Rightarrow> NatInvalidPasscode
        | SdkInvalidUnlockKey \<Rightarrow> NatInvalidUnlockKey
        | SdkInvalidProtectedData \<Rightarrow> NatInvalidProtectedData
        | SdkIdentityMismatch \<Rightarrow> NatIdentityMismatch
        | SdkInvalidTransaction \<Rightarrow> NatInvalidTransaction
        | SdkInvalidMessageSignature \<Rightarrow> NatInvalidMessageSignature
        | SdkCoreError \<Rightarrow> NatCoreError
        | _ \<Rightarrow> NatCoreError) (sdk_message e)"

section \<open>Conversions of the native binding\<close>

definition native_protected_signer :: "sdk_protected_software_signer \<Rightarrow> native_protected_software_signer" where
  "native_protected_signer p =
     \<lparr>nps_signer_public_key = sps_signer_public_key p, nps_envelope_json = sps_envelope_json p\<rparr>"

definition native_generated_of :: "sdk_generated_mnemonic \<Rightarrow> native_generated_mnemonic" where
  "native_generated_of g =
     \<lparr>ngm_signer = native_protected_signer (sgm_signer g), ngm_mnemonic = sgm_mnemonic g, ngm_language = sgm_language g,
      ngm_index = sgm_index g\<rparr>"

definition native_exported_of :: "sdk_exported_signing_material \<Rightarrow> native_exported_signing_material" where
  "native_exported_of m =
     \<lparr>nem_kind = (case sem_kind m of SdkSecret \<Rightarrow> NativeSecret | SdkMnemonic \<Rightarrow> NativeMnemonic),
      nem_secret = sem_secret m, nem_mnemonic = sem_mnemonic m,
      nem_mnemonic_passphrase = sem_mnemonic_passphrase m, nem_index = sem_index m, nem_language = sem_language m\<rparr>"

definition native_account_of :: "account_identity \<Rightarrow> native_account_identity" where
  "native_account_of i =
     \<lparr>nai_kind = (case ai_kind i of Classic \<Rightarrow> NativeClassic | Contract \<Rightarrow> NativeContract),
      nai_address = ai_address i, nai_public_key = ai_public_key i\<rparr>"

definition native_request_of :: "transaction_signing_request \<Rightarrow> native_ed25519_signing_request" where
  "native_request_of q =
     \<lparr>nsr_transaction_hash = tsr_hash q, nsr_transaction_xdr = tsr_xdr q, nsr_network_passphrase = tsr_network_passphrase q\<rparr>"

section \<open>Operations of the native binding\<close>

definition native_version :: native_sdk_version where
  "native_version =
     \<lparr>nsv_native_binding_api_version = native_binding_api_version,
      nsv_sdk_api_version = sdv_sdk_api_version sdk_version_of,
      nsv_core_client_api_version = sdv_core_client_api_version sdk_version_of\<rparr>"

definition native_parse_account :: "sdk_libs \<Rightarrow> string \<Rightarrow> native_sdk_error + native_account_identity" where
  "native_parse_account B address =
     and_then (map_err native_error_from (sdk_parse_account B address)) (\<lambda>identity. Inr (native_account_of identity))"

definition native_protect_secret ::
  "sdk_libs \<Rightarrow> string \<Rightarrow> string \<Rightarrow> string option \<Rightarrow> native_sdk_error + native_protected_software_signer" where
  "native_protect_secret B secret passcode expected =
     map_err native_error_from (map_ok native_protected_signer (sdk_protect_secret B secret passcode expected))"

definition native_protect_mnemonic ::
  "sdk_libs \<Rightarrow> string \<Rightarrow> string \<Rightarrow> nat \<Rightarrow> string option \<Rightarrow> string \<Rightarrow> string option
     \<Rightarrow> native_sdk_error + native_protected_software_signer" where
  "native_protect_mnemonic B mnemonic passphrase index language passcode expected =
     map_err native_error_from (map_ok native_protected_signer
       (sdk_protect_mnemonic B mnemonic passphrase index language passcode expected))"

definition native_generate_mnemonic ::
  "sdk_libs \<Rightarrow> string \<Rightarrow> nat \<Rightarrow> string \<Rightarrow> nat \<Rightarrow> string \<Rightarrow> native_sdk_error + native_generated_mnemonic" where
  "native_generate_mnemonic B language strength passphrase index passcode =
     map_err native_error_from (map_ok native_generated_of
       (sdk_generate_mnemonic B language strength passphrase index passcode))"

definition native_derive_mnemonic_signer ::
  "sdk_libs \<Rightarrow> string \<Rightarrow> string \<Rightarrow> string \<Rightarrow> nat \<Rightarrow> native_sdk_error + native_protected_software_signer" where
  "native_derive_mnemonic_signer B source_envelope_json passcode expected index =
     map_err native_error_from (map_ok native_protected_signer
       (sdk_derive_mnemonic_signer B source_envelope_json passcode expected index))"

definition native_reprotect ::
  "sdk_libs \<Rightarrow> string \<Rightarrow> string \<Rightarrow> string \<Rightarrow> string \<Rightarrow> native_sdk_error + native_protected_software_signer" where
  "native_reprotect B envelope_json current_passcode new_passcode expected =
     map_err native_error_from (map_ok native_protected_signer
       (sdk_reprotect B envelope_json current_passcode new_passcode expected))"

definition native_derive_unlock_key :: "sdk_libs \<Rightarrow> string \<Rightarrow> string \<Rightarrow> string \<Rightarrow> native_sdk_error + bytes" where
  "native_derive_unlock_key B envelope_json passcode expected =
     map_err native_error_from (sdk_derive_unlock_key B envelope_json passcode expected)"

definition native_validate_unlock_key :: "sdk_libs \<Rightarrow> string \<Rightarrow> bytes \<Rightarrow> string \<Rightarrow> native_sdk_error + unit" where
  "native_validate_unlock_key B envelope_json unlock_key expected =
     map_err native_error_from (sdk_validate_unlock_key B envelope_json unlock_key expected)"

definition native_sign_transaction_xdr ::
  "sdk_libs \<Rightarrow> string \<Rightarrow> bytes \<Rightarrow> string \<Rightarrow> bytes \<Rightarrow> string \<Rightarrow> native_sdk_error + bytes" where
  "native_sign_transaction_xdr B envelope_json unlock_key expected xdr np =
     map_err native_error_from (sdk_sign_transaction_xdr B envelope_json unlock_key expected xdr np)"

definition native_sign_message ::
  "sdk_libs \<Rightarrow> string \<Rightarrow> bytes \<Rightarrow> string \<Rightarrow> bytes \<Rightarrow> native_sdk_error + bytes" where
  "native_sign_message B envelope_json unlock_key expected message =
     map_err native_error_from (sdk_sign_message B envelope_json unlock_key expected message)"

definition native_sign_message_with_passcode ::
  "sdk_libs \<Rightarrow> string \<Rightarrow> string \<Rightarrow> string \<Rightarrow> bytes \<Rightarrow> native_sdk_error + bytes" where
  "native_sign_message_with_passcode B envelope_json passcode expected message =
     map_err native_error_from (sdk_sign_message_with_passcode B envelope_json passcode expected message)"

definition native_reveal ::
  "sdk_libs \<Rightarrow> string \<Rightarrow> string \<Rightarrow> string \<Rightarrow> native_sdk_error + native_exported_signing_material" where
  "native_reveal B envelope_json fresh_passcode expected =
     map_err native_error_from (map_ok native_exported_of (sdk_reveal B envelope_json fresh_passcode expected))"

definition native_prepare_ed25519_signing ::
  "sdk_libs \<Rightarrow> bytes \<Rightarrow> string \<Rightarrow> native_sdk_error + native_ed25519_signing_request" where
  "native_prepare_ed25519_signing B xdr np =
     and_then (map_err native_error_from (sdk_prepare_ed25519_signing B xdr np)) (\<lambda>request. Inr (native_request_of request))"

definition native_prepare_message_signing :: "sdk_libs \<Rightarrow> bytes \<Rightarrow> native_message_signing_request" where
  "native_prepare_message_signing B message =
     (let request = sdk_prepare_message_signing B message in
      \<lparr>nmr_message_hash = msr_hash request, nmr_message = msr_message request, nmr_encoded_message = msr_encoded request\<rparr>)"

definition native_verify_message_signature ::
  "sdk_libs \<Rightarrow> bytes \<Rightarrow> string \<Rightarrow> bytes \<Rightarrow> native_sdk_error + unit" where
  "native_verify_message_signature B message signer_public_key signature =
     map_err native_error_from (sdk_verify_message_signature B message signer_public_key signature)"

definition native_apply_ed25519_signature ::
  "sdk_libs \<Rightarrow> bytes \<Rightarrow> string \<Rightarrow> string \<Rightarrow> bytes \<Rightarrow> native_sdk_error + bytes" where
  "native_apply_ed25519_signature B xdr np signer_public_key signature =
     map_err native_error_from (sdk_apply_ed25519_signature B xdr np signer_public_key signature)"

section \<open>The browser binding\<close>

text \<open>A serialized structure, before \<open>serde_wasm_bindgen\<close> makes a JavaScript value of it; field names are in camel
  case. The crate's \<open>to_value\<close> is a parameter.\<close>

datatype serde_value =
    SerU64 nat | SerU32 nat | SerStr string | SerNone | SerSome serde_value | SerBytes bytes
  | SerStruct "(string \<times> serde_value) list"

fun ser_option :: "('a \<Rightarrow> serde_value) \<Rightarrow> 'a option \<Rightarrow> serde_value" where
  "ser_option f None = SerNone"
| "ser_option f (Some x) = SerSome (f x)"

text \<open>A JavaScript \<open>Error\<close> with its message and the two properties that are set on it.\<close>

record js_error =
  jse_message :: string
  jse_name :: string
  jse_code :: string

definition new_js_error :: "string \<Rightarrow> string \<Rightarrow> js_error" where
  "new_js_error code message = \<lparr>jse_message = message, jse_name = ''FresnicaSdkError'', jse_code = code\<rparr>"

definition sdk_error_to_js :: "sdk_error \<Rightarrow> js_error" where
  "sdk_error_to_js e = new_js_error (sdk_error_code_str (sdk_code e)) (sdk_message e)"

definition to_js :: "(serde_value \<Rightarrow> string + 'js) \<Rightarrow> serde_value \<Rightarrow> js_error + 'js" where
  "to_js W v = map_err (\<lambda>error. new_js_error ''core-error'' (''unable to serialize Fresnica WASM result: '' @ error)) (W v)"

definition wasm_binding_api_version :: nat where "wasm_binding_api_version = 1"

definition wasm_account_identity :: "account_identity \<Rightarrow> serde_value" where
  "wasm_account_identity i =
     SerStruct [(''kind'', SerStr (case ai_kind i of Classic \<Rightarrow> ''classic'' | Contract \<Rightarrow> ''contract'')),
       (''address'', SerStr (ai_address i)), (''publicKey'', ser_option SerStr (ai_public_key i))]"

definition wasm_protected_signer :: "sdk_protected_software_signer \<Rightarrow> serde_value" where
  "wasm_protected_signer p =
     SerStruct [(''signerPublicKey'', SerStr (sps_signer_public_key p)), (''envelopeJson'', SerStr (sps_envelope_json p))]"

definition wasm_generated_mnemonic :: "sdk_generated_mnemonic \<Rightarrow> serde_value" where
  "wasm_generated_mnemonic g =
     SerStruct [(''signer'', wasm_protected_signer (sgm_signer g)), (''mnemonic'', SerStr (sgm_mnemonic g)),
       (''language'', SerStr (sgm_language g)), (''index'', SerU32 (sgm_index g))]"

definition wasm_signing_request :: "transaction_signing_request \<Rightarrow> serde_value" where
  "wasm_signing_request q =
     SerStruct [(''transactionHash'', SerBytes (tsr_hash q)), (''transactionXdr'', SerBytes (tsr_xdr q)),
       (''networkPassphrase'', SerStr (tsr_network_passphrase q))]"

definition wasm_exported_material :: "sdk_exported_signing_material \<Rightarrow> serde_value" where
  "wasm_exported_material m =
     SerStruct [(''kind'', SerStr (case sem_kind m of SdkSecret \<Rightarrow> ''secret'' | SdkMnemonic \<Rightarrow> ''mnemonic'')),
       (''secret'', ser_option SerStr (sem_secret m)), (''mnemonic'', ser_option SerStr (sem_mnemonic m)),
       (''mnemonicPassphrase'', ser_option SerStr (sem_mnemonic_passphrase m)),
       (''index'', ser_option SerU32 (sem_index m)), (''language'', ser_option SerStr (sem_language m))]"

definition wasm_version :: "(serde_value \<Rightarrow> string + 'js) \<Rightarrow> js_error + 'js" where
  "wasm_version W =
     to_js W (SerStruct [(''wasmBindingApiVersion'', SerU64 wasm_binding_api_version),
       (''sdkApiVersion'', SerU64 (sdv_sdk_api_version sdk_version_of)),
       (''coreClientApiVersion'', SerU64 (sdv_core_client_api_version sdk_version_of))])"

definition wasm_parse_account :: "sdk_libs \<Rightarrow> (serde_value \<Rightarrow> string + 'js) \<Rightarrow> string \<Rightarrow> js_error + 'js" where
  "wasm_parse_account B W address =
     and_then (map_err sdk_error_to_js (map_ok wasm_account_identity (sdk_parse_account B address))) (to_js W)"

definition wasm_protect_secret ::
  "sdk_libs \<Rightarrow> (serde_value \<Rightarrow> string + 'js) \<Rightarrow> string \<Rightarrow> string \<Rightarrow> string option \<Rightarrow> js_error + 'js" where
  "wasm_protect_secret B W secret passcode expected =
     and_then (map_err sdk_error_to_js (map_ok wasm_protected_signer (sdk_protect_secret B secret passcode expected))) (to_js W)"

definition wasm_protect_mnemonic ::
  "sdk_libs \<Rightarrow> (serde_value \<Rightarrow> string + 'js) \<Rightarrow> string \<Rightarrow> string \<Rightarrow> nat \<Rightarrow> string option \<Rightarrow> string \<Rightarrow> string option
     \<Rightarrow> js_error + 'js" where
  "wasm_protect_mnemonic B W mnemonic passphrase index language passcode expected =
     and_then (map_err sdk_error_to_js (map_ok wasm_protected_signer
       (sdk_protect_mnemonic B mnemonic passphrase index language passcode expected))) (to_js W)"

definition wasm_generate_mnemonic ::
  "sdk_libs \<Rightarrow> (serde_value \<Rightarrow> string + 'js) \<Rightarrow> string \<Rightarrow> nat \<Rightarrow> string \<Rightarrow> nat \<Rightarrow> string \<Rightarrow> js_error + 'js" where
  "wasm_generate_mnemonic B W language strength passphrase index passcode =
     and_then (map_err sdk_error_to_js (map_ok wasm_generated_mnemonic
       (sdk_generate_mnemonic B language strength passphrase index passcode))) (to_js W)"

definition wasm_reprotect ::
  "sdk_libs \<Rightarrow> (serde_value \<Rightarrow> string + 'js) \<Rightarrow> string \<Rightarrow> string \<Rightarrow> string \<Rightarrow> string \<Rightarrow> js_error + 'js" where
  "wasm_reprotect B W envelope_json current_passcode new_passcode expected =
     and_then (map_err sdk_error_to_js (map_ok wasm_protected_signer
       (sdk_reprotect B envelope_json current_passcode new_passcode expected))) (to_js W)"

definition wasm_sign_transaction_xdr_with_passcode ::
  "sdk_libs \<Rightarrow> string \<Rightarrow> string \<Rightarrow> string \<Rightarrow> bytes \<Rightarrow> string \<Rightarrow> js_error + bytes" where
  "wasm_sign_transaction_xdr_with_passcode B envelope_json passcode expected xdr np =
     map_err sdk_error_to_js (sdk_sign_transaction_xdr_with_passcode B envelope_json passcode expected xdr np)"

definition wasm_reveal ::
  "sdk_libs \<Rightarrow> (serde_value \<Rightarrow> string + 'js) \<Rightarrow> string \<Rightarrow> string \<Rightarrow> string \<Rightarrow> js_error + 'js" where
  "wasm_reveal B W envelope_json fresh_passcode expected =
     and_then (map_err sdk_error_to_js (map_ok wasm_exported_material (sdk_reveal B envelope_json fresh_passcode expected))) (to_js W)"

definition wasm_prepare_ed25519_signing ::
  "sdk_libs \<Rightarrow> (serde_value \<Rightarrow> string + 'js) \<Rightarrow> bytes \<Rightarrow> string \<Rightarrow> js_error + 'js" where
  "wasm_prepare_ed25519_signing B W xdr np =
     and_then (map_err sdk_error_to_js (map_ok wasm_signing_request (sdk_prepare_ed25519_signing B xdr np))) (to_js W)"

definition wasm_apply_ed25519_signature ::
  "sdk_libs \<Rightarrow> bytes \<Rightarrow> string \<Rightarrow> string \<Rightarrow> bytes \<Rightarrow> js_error + bytes" where
  "wasm_apply_ed25519_signature B xdr np signer_public_key signature =
     map_err sdk_error_to_js (sdk_apply_ed25519_signature B xdr np signer_public_key signature)"

section \<open>Errors cross the bindings unchanged\<close>

text \<open>No operation of the native binding can meet the one code it has no word for.\<close>

definition never_authorization :: "sdk_error + 'a \<Rightarrow> bool" where
  "never_authorization r \<longleftrightarrow> (\<forall>e. r = Inl e \<longrightarrow> sdk_code e \<noteq> SdkInvalidAuthorization)"

definition client_never_authorization :: "client_api_error + 'a \<Rightarrow> bool" where
  "client_never_authorization r \<longleftrightarrow> (\<forall>e. r = Inl e \<longrightarrow> cae_code e \<noteq> CodeInvalidAuthorization)"

named_theorems never_intros \<open>results that are never the error of an invalid authorization\<close>

lemma never_and_then [never_intros]:
  "never_authorization r \<Longrightarrow> (\<And>x. never_authorization (f x)) \<Longrightarrow> never_authorization (and_then r f)"
  by (cases r) (auto simp: never_authorization_def)

lemma client_never_and_then [never_intros]:
  "client_never_authorization r \<Longrightarrow> (\<And>x. client_never_authorization (f x)) \<Longrightarrow> client_never_authorization (and_then r f)"
  by (cases r) (auto simp: client_never_authorization_def)

lemma never_from_client [never_intros]: "client_never_authorization r \<Longrightarrow> never_authorization (map_err sdk_error_from r)"
proof (cases r)
  case (Inl e)
  moreover assume "client_never_authorization r"
  ultimately show ?thesis
    by (cases "cae_code e") (simp_all add: client_never_authorization_def never_authorization_def sdk_error_from_def)
qed (simp add: never_authorization_def)

lemma client_never_map_err:
  "(\<And>e. cae_code (f e) \<noteq> CodeInvalidAuthorization) \<Longrightarrow> client_never_authorization (map_err f r)"
  by (cases r) (simp_all add: client_never_authorization_def)

lemma client_never_Inl: "cae_code e \<noteq> CodeInvalidAuthorization \<Longrightarrow> client_never_authorization (Inl e)"
  by (simp add: client_never_authorization_def)

lemma never_Inr [never_intros]: "never_authorization (Inr x)" "client_never_authorization (Inr x)"
  by (simp_all add: never_authorization_def client_never_authorization_def)

lemmas client_error_defs = invalid_input_def invalid_passcode_def invalid_unlock_key_def invalid_protected_data_def
  identity_mismatch_def invalid_transaction_def invalid_message_signature_def core_error_def

lemma classified_codes:
  "cae_code (classify_secret_store_error e1) \<noteq> CodeInvalidAuthorization"
  "cae_code (classify_protection_error e2) \<noteq> CodeInvalidAuthorization"
  "cae_code (classify_wallet_material_error e3) \<noteq> CodeInvalidAuthorization"
  "cae_code (classify_protected_signer_error e4) \<noteq> CodeInvalidAuthorization"
  "cae_code (classify_external_signer_error e5) \<noteq> CodeInvalidAuthorization"
  "cae_code (classify_external_transaction_error e6) \<noteq> CodeInvalidAuthorization"
  "cae_code (classify_message_signing_error e7) \<noteq> CodeInvalidAuthorization"
proof -
  show store: "cae_code (classify_secret_store_error e) \<noteq> CodeInvalidAuthorization" for e
    by (cases e) (simp_all add: client_error_defs)
  then show protection: "cae_code (classify_protection_error e) \<noteq> CodeInvalidAuthorization" for e
    by (cases e) (simp_all add: client_error_defs)
  then show "cae_code (classify_wallet_material_error e3) \<noteq> CodeInvalidAuthorization"
    "cae_code (classify_protected_signer_error e4) \<noteq> CodeInvalidAuthorization"
    by (cases e3, simp_all add: client_error_defs, cases e4, simp_all add: client_error_defs)
  show external: "cae_code (classify_external_signer_error e) \<noteq> CodeInvalidAuthorization" for e
    by (cases e) (simp_all add: client_error_defs)
  then show "cae_code (classify_external_transaction_error e6) \<noteq> CodeInvalidAuthorization"
    "cae_code (classify_message_signing_error e7) \<noteq> CodeInvalidAuthorization"
    by (cases e6, simp_all add: client_error_defs, cases e7, simp_all add: client_error_defs)
qed


lemma expected_never: "client_never_authorization (ensure_expected_signer_public_key L actual expected)"
  by (auto simp: ensure_expected_signer_public_key_def client_never_authorization_def result_simps client_error_defs
      split: option.splits if_splits)

lemma signing_never:
  "client_never_authorization (map_err classify_protected_signing_error (sign_protected_transaction_envelope L C M v key k e np))"
  "client_never_authorization (map_err classify_protected_signing_error (sign_protected_message L C M v key k message))"
  using classified_codes
  by (auto simp: client_never_authorization_def sign_protected_transaction_envelope_def sign_protected_message_def
      result_simps invalid_transaction_def)

lemma sdk_step_never [never_intros]:
  "never_authorization (sdk_protected_signer B p)" "never_authorization (sdk_parse_envelope B j)"
  "never_authorization (sdk_unlock_key b)" "never_authorization (sdk_usize n what)" "never_authorization (sdk_u32 n what)"
  by (auto simp: never_authorization_def sdk_protected_signer_def sdk_parse_envelope_def sdk_unlock_key_def sdk_usize_def
      sdk_u32_def result_simps split: if_splits)

lemma client_wallet_never [never_intros]:
  "client_never_authorization (client_parse_account L address)"
  "client_never_authorization (client_protect_secret L R secret pw x)"
  "client_never_authorization (client_protect_mnemonic L M R mnemonic p i l pw x)"
  "client_never_authorization (client_generate_mnemonic L C M R language n p i pw)"
  "client_never_authorization (client_reveal L M R v pw k)"
  unfolding client_parse_account_def client_protect_secret_def client_protect_mnemonic_def client_generate_mnemonic_def client_reveal_def
  by (intro never_intros client_never_map_err classified_codes expected_never; simp add: client_error_defs)+

lemma client_material_never [never_intros]:
  "client_never_authorization (client_derive_mnemonic_signer L M R v pw k i)"
  "client_never_authorization (client_reprotect L M R v pw pw' k)"
  unfolding client_derive_mnemonic_signer_def client_reprotect_def
  by (intro never_intros, auto split: exported_signing_material.split intro!: never_intros client_never_Inl
      simp: client_error_defs)

lemma client_signing_never [never_intros]:
  "client_never_authorization (client_derive_unlock_key L C M v pw k)"
  "client_never_authorization (client_validate_unlock_key L C M v key k)"
  "client_never_authorization (client_sign_transaction_xdr L C M v key k xdr np)"
  "client_never_authorization (client_sign_message L C M v key k message)"
  "client_never_authorization (client_prepare_ed25519_signing L xdr np)"
  "client_never_authorization (client_apply_ed25519_signature L xdr np k raw)"
  "client_never_authorization (client_verify_message_signature L message k raw)"
  unfolding client_derive_unlock_key_def client_validate_unlock_key_def client_sign_transaction_xdr_def
    client_sign_message_def client_prepare_ed25519_signing_def client_apply_ed25519_signature_def client_verify_message_signature_def
  by (intro never_intros client_never_map_err classified_codes signing_never;
      simp add: client_error_defs signature_64_def client_never_authorization_def)+

lemma sdk_wallet_never:
  "never_authorization (sdk_parse_account B address)" "never_authorization (sdk_protect_secret B secret pw x)"
  "never_authorization (sdk_protect_mnemonic B mnemonic p i l pw x)" "never_authorization (sdk_generate_mnemonic B language n p i pw)"
  "never_authorization (sdk_derive_mnemonic_signer B j pw k i)" "never_authorization (sdk_reprotect B j pw pw' k)"
  "never_authorization (sdk_derive_unlock_key B j pw k)" "never_authorization (sdk_validate_unlock_key B j key k)"
  "never_authorization (sdk_reveal B j pw k)"
  unfolding sdk_parse_account_def sdk_protect_secret_def sdk_protect_mnemonic_def sdk_generate_mnemonic_def
    sdk_derive_mnemonic_signer_def sdk_reprotect_def sdk_derive_unlock_key_def sdk_validate_unlock_key_def sdk_reveal_def
  by (intro never_intros; auto split: exported_signing_material.split intro!: never_intros)+

lemma sdk_signing_never:
  "never_authorization (sdk_sign_transaction_xdr B j key k xdr np)" "never_authorization (sdk_sign_message B j key k message)"
  "never_authorization (sdk_sign_message_with_passcode B j pw k message)" "never_authorization (sdk_prepare_ed25519_signing B xdr np)"
  "never_authorization (sdk_verify_message_signature B message k signature)"
  "never_authorization (sdk_apply_ed25519_signature B xdr np k signature)"
  unfolding sdk_sign_transaction_xdr_def sdk_sign_message_def sdk_sign_message_with_passcode_def sdk_prepare_ed25519_signing_def
    sdk_verify_message_signature_def sdk_apply_ed25519_signature_def
  by (intro never_intros)+

section \<open>Properties\<close>

text \<open>An operation of the native binding has the outcome of the SDK: the converted result, or an error with the same
  code text and the same message.\<close>

definition crosses :: "('a \<Rightarrow> 'b) \<Rightarrow> sdk_error + 'a \<Rightarrow> native_sdk_error + 'b \<Rightarrow> bool" where
  "crosses f s n \<longleftrightarrow>
     (case s of
        Inr x \<Rightarrow> n = Inr (f x)
      | Inl e \<Rightarrow> \<exists>e'. n = Inl e' \<and> native_code_str (native_error_code e') = sdk_error_code_str (sdk_code e) \<and>
          native_error_message e' = sdk_message e)"

lemma crosses_map_err:
  assumes "never_authorization s"
  shows "crosses f s (map_err native_error_from (map_ok f s))"
proof (cases s)
  case (Inl e)
  with assms show ?thesis
    by (cases "sdk_code e") (simp_all add: crosses_def never_authorization_def native_error_from_def)
qed (simp add: crosses_def)

lemma crosses_plain: "never_authorization s \<Longrightarrow> crosses (\<lambda>x. x) s (map_err native_error_from s)"
  using crosses_map_err [of s "\<lambda>x. x"] by (cases s) simp_all

lemma crosses_then: "never_authorization s \<Longrightarrow> crosses f s (and_then (map_err native_error_from s) (\<lambda>x. Inr (f x)))"
  using crosses_map_err [of s f] by (cases s) simp_all


end
