(* ===== verification/Rpc.thy ===== *)
theory Rpc
  imports TxBuilder Soroban
begin

text \<open>
  rpc_gateway.rs, the part every Soroban transaction goes through: the network check, the account
  sequence, the inclusion fee, simulation, submission and the status of a transaction. The client of
  the Stellar RPC crate is the record \<open>rpc_client\<close> of its calls; its answers are the crate's
  response types with the fields and methods the program reads.
\<close>

section \<open>The RPC client\<close>

record host_function_result =
  hfr_auth :: "string list"
  hfr_xdr :: string

text \<open>\<open>sim_transaction_data\<close>, \<open>sim_parsed_results\<close> and \<open>sim_contract_events\<close> are the response's methods:
  the decoded transaction data, results and diagnostic events (whether each is a contract's own).\<close>

record simulation =
  sim_error :: "string option"
  sim_restore_preamble :: bool
  sim_results :: "host_function_result list"
  sim_latest_ledger :: int
  sim_min_resource_fee :: int
  sim_transaction_data :: "string + soroban_transaction_data"
  sim_parsed_results :: "string + (soroban_entry list \<times> sc_val) list"
  sim_contract_events :: "string + bool list"

record send_response =
  sr_status :: string
  sr_hash :: string
  sr_error_result_xdr :: "string option"

record get_transaction_response =
  gt_status :: string
  gt_ledger :: "nat option"
  gt_result_text :: "string option"

text \<open>The answer to a status request may change from one request to the next: \<open>rc_get_transaction\<close> takes
  the number of the request.\<close>

record rpc_client =
  rc_base_url :: string
  rc_verify_network_passphrase :: "string \<Rightarrow> string + unit"
  rc_get_account_sequence :: "string \<Rightarrow> string + int"
  rc_soroban_inclusion_fee_mode :: "string + string"
  rc_simulate :: "envelope \<Rightarrow> string + simulation"
  rc_send_transaction :: "string \<Rightarrow> string + send_response"
  rc_hash_from_str :: "string \<Rightarrow> bytes option"
  rc_get_transaction :: "nat \<Rightarrow> bytes \<Rightarrow> string + get_transaction_response"

section \<open>The gateway\<close>

record rpc_gateway =
  rg_client :: rpc_client
  rg_network :: string
  rg_network_passphrase :: string

datatype rpc_submission_error = RpcRejected string | RpcUncertain string

datatype rpc_transaction_status =
    StatusNotFound
  | StatusSuccess "nat option"
  | StatusFailed "nat option" string

fun is_terminal :: "rpc_transaction_status \<Rightarrow> bool" where
  "is_terminal StatusNotFound \<longleftrightarrow> False"
| "is_terminal _ \<longleftrightarrow> True"

definition rpc_gateway_new :: "(string \<Rightarrow> string + rpc_client) \<Rightarrow> string \<Rightarrow> string \<Rightarrow> rpc_gateway result" where
  "rpc_gateway_new open_client network rpc_url =
     and_then (network_passphrase network) (\<lambda>np.
     and_then (map_err (\<lambda>e. ''Invalid Stellar RPC endpoint: '' @ e) (open_client rpc_url)) (\<lambda>client.
       Inr \<lparr>rg_client = client, rg_network = network, rg_network_passphrase = np\<rparr>))"

definition rpc_url :: "rpc_gateway \<Rightarrow> string" where "rpc_url G = rc_base_url (rg_client G)"

definition verify_network :: "rpc_gateway \<Rightarrow> unit result" where
  "verify_network G =
     map_err (\<lambda>e. ''Stellar RPC network verification failed: '' @ e)
       (rc_verify_network_passphrase (rg_client G) (rg_network_passphrase G))"

definition rpc_account_sequence :: "rpc_gateway \<Rightarrow> string \<Rightarrow> int result" where
  "rpc_account_sequence G address =
     map_err (\<lambda>e. ''Unable to load account '' @ address @ '' from Stellar RPC: '' @ e)
       (rc_get_account_sequence (rg_client G) address)"

definition parse_u32 :: "string \<Rightarrow> int option" where
  "parse_u32 s = Option.bind (parse_u64 s) (\<lambda>n. if in_u32 (int n) then Some (int n) else None)"

definition default_soroban_inclusion_fee :: "rpc_gateway \<Rightarrow> int result" where
  "default_soroban_inclusion_fee G =
     and_then (map_err (\<lambda>e. ''Unable to load Stellar RPC fee stats: '' @ e)
         (rc_soroban_inclusion_fee_mode (rg_client G))) (\<lambda>mode.
     and_then (ok_or ''Stellar RPC returned an invalid Soroban inclusion fee'' (parse_u32 mode)) (\<lambda>fee.
       Inr (max fee 100)))"

definition simulate_transaction :: "rpc_gateway \<Rightarrow> envelope \<Rightarrow> simulation result" where
  "simulate_transaction G e =
     map_err (\<lambda>x. ''Stellar RPC simulation failed: '' @ x) (rc_simulate (rg_client G) e)"

definition rpc_submission_outcome :: "send_response \<Rightarrow> rpc_submission_error + string" where
  "rpc_submission_outcome response =
     (let status = sr_status response in
      if status = ''PENDING'' \<or> status = ''DUPLICATE'' then Inr (sr_hash response)
      else if status = ''ERROR''
      then Inl (RpcRejected (case sr_error_result_xdr response of Some x \<Rightarrow> x
             | None \<Rightarrow> ''Stellar RPC rejected the transaction''))
      else if status = ''TRY_AGAIN_LATER''
      then Inl (RpcRejected ''Stellar RPC did not accept the transaction; try again later'')
      else Inl (RpcRejected (''Unsupported Stellar RPC submission status: '' @ status)))"

definition rpc_submit_transaction :: "stellar_lib \<Rightarrow> rpc_gateway \<Rightarrow> envelope \<Rightarrow> rpc_submission_error + string" where
  "rpc_submit_transaction L G e =
     and_then (map_err RpcRejected (transaction_xdr_bytes L e)) (\<lambda>xdr.
     and_then (map_err RpcUncertain (rc_send_transaction (rg_client G) (base64_encode L xdr)))
       rpc_submission_outcome)"

definition normalize_transaction_status :: "get_transaction_response \<Rightarrow> rpc_transaction_status result" where
  "normalize_transaction_status response =
     (let status = gt_status response in
      if status = ''NOT_FOUND'' then Inr StatusNotFound
      else if status = ''SUCCESS'' then Inr (StatusSuccess (gt_ledger response))
      else if status = ''FAILED''
      then Inr (StatusFailed (gt_ledger response)
             (case gt_result_text response of Some t \<Rightarrow> t | None \<Rightarrow> ''Stellar RPC reported transaction failure''))
      else Inl (''Unsupported Stellar RPC transaction status: '' @ status))"

definition transaction_status :: "rpc_gateway \<Rightarrow> nat \<Rightarrow> string \<Rightarrow> rpc_transaction_status result" where
  "transaction_status G n tx_hash =
     and_then (ok_or (''Invalid Stellar transaction hash: '' @ tx_hash) (rc_hash_from_str (rg_client G) tx_hash)) (\<lambda>h.
     and_then (map_err (\<lambda>e. ''Unable to reconcile transaction '' @ tx_hash @ '': '' @ e)
         (rc_get_transaction (rg_client G) n h))
       normalize_transaction_status)"

section \<open>What the answers mean\<close>

lemma default_soroban_inclusion_fee_range: "default_soroban_inclusion_fee G = Inr fee \<Longrightarrow> 100 \<le> fee \<and> in_u32 fee"
  by (auto simp: default_soroban_inclusion_fee_def result_simps parse_u32_def Option.bind_eq_Some_conv arith_defs
      split: if_splits)

lemma rpc_submission_outcome_Inr:
  "rpc_submission_outcome r = Inr h \<longleftrightarrow> sr_status r \<in> {''PENDING'', ''DUPLICATE''} \<and> sr_hash r = h"
  by (simp add: rpc_submission_outcome_def Let_def)

lemma rpc_submission_outcome_certain: "rpc_submission_outcome r \<noteq> Inl (RpcUncertain m)"
  by (simp add: rpc_submission_outcome_def Let_def)

lemma rpc_submit_Inr:
  "rpc_submit_transaction L G e = Inr h \<longleftrightarrow>
     (\<exists>xdr response. transaction_xdr_bytes L e = Inr xdr \<and>
        rc_send_transaction (rg_client G) (base64_encode L xdr) = Inr response \<and>
        sr_status response \<in> {''PENDING'', ''DUPLICATE''} \<and> sr_hash response = h)"
  by (simp only: rpc_submit_transaction_def and_then_Inr map_err_Inr rpc_submission_outcome_Inr) blast

text \<open>A submission is uncertain only when the request itself failed; every answer that was read decides.\<close>

lemma rpc_submit_uncertain:
  "rpc_submit_transaction L G e = Inl (RpcUncertain m) \<longleftrightarrow>
     (\<exists>xdr. transaction_xdr_bytes L e = Inr xdr \<and> rc_send_transaction (rg_client G) (base64_encode L xdr) = Inl m)"
proof (cases "transaction_xdr_bytes L e")
  case (Inr xdr)
  then show ?thesis
    by (cases "rc_send_transaction (rg_client G) (base64_encode L xdr)")
       (simp_all add: rpc_submit_transaction_def rpc_submission_outcome_certain)
qed (simp add: rpc_submit_transaction_def)

lemma normalize_status_success:
  "normalize_transaction_status r = Inr (StatusSuccess l) \<longleftrightarrow> gt_status r = ''SUCCESS'' \<and> gt_ledger r = l"
  by (simp add: normalize_transaction_status_def Let_def)

lemma transaction_status_success:
  "transaction_status G n h = Inr (StatusSuccess l) \<longleftrightarrow>
     (\<exists>b r. rc_hash_from_str (rg_client G) h = Some b \<and> rc_get_transaction (rg_client G) n b = Inr r \<and>
        gt_status r = ''SUCCESS'' \<and> gt_ledger r = l)"
  by (simp only: transaction_status_def and_then_Inr map_err_Inr ok_or_Inr normalize_status_success) blast

end
