(* ===== verification/SorobanTx.thy ===== *)
theory SorobanTx
  imports Rpc Coordination
begin

text \<open>
  soroban.rs: contract invocations as transactions. A request is simulated and assembled into a reviewed
  transaction; its authorization entries are signed, then its envelope, and it is submitted through the
  RPC gateway and polled. The second part signs a single token-transfer authorization that comes as a
  preimage. The fields of the prepared transaction that Rust keeps private are in the model too.
\<close>

section \<open>Requests and reviews\<close>

definition default_authorization_lifetime_ledgers :: int where "default_authorization_lifetime_ledgers = 100"

definition read_only_simulation_account :: string where
  "read_only_simulation_account = ''GAAAAAAAAAAAAAAAAAAAAAAAAAAAAAAAAAAAAAAAAAAAAAAAAAAAAWHF''"

definition submission_poll_attempts :: nat where "submission_poll_attempts = 30"
definition client_xdr_depth_limit :: nat where "client_xdr_depth_limit = 500"

record soroban_invoke_request =
  siq_wallet :: "string option"
  siq_contract_id :: string
  siq_function_name :: string
  siq_args :: "sc_val list"
  siq_inclusion_fee_stroops :: "int option"
  siq_authorization_lifetime_ledgers :: int

definition soroban_invoke_request_new :: "string \<Rightarrow> string \<Rightarrow> sc_val list \<Rightarrow> soroban_invoke_request" where
  "soroban_invoke_request_new contract_id function_name args =
     \<lparr>siq_wallet = None, siq_contract_id = contract_id, siq_function_name = function_name, siq_args = args,
      siq_inclusion_fee_stroops = None,
      siq_authorization_lifetime_ledgers = default_authorization_lifetime_ledgers\<rparr>"

record soroban_review =
  sv_wallet_name :: string
  sv_fee_payer :: string
  sv_operation_source :: string
  sv_contract_id :: string
  sv_function_name :: string
  sv_argument_count :: nat
  sv_authorizers :: "string list"
  sv_credential_types :: "string list"
  sv_auth_entry_count :: nat
  sv_total_fee_stroops :: int
  sv_resource_fee_stroops :: int
  sv_inclusion_fee_stroops :: int
  sv_min_resource_fee_stroops :: int
  sv_simulation_ledger :: int
  sv_authorization_expiration_ledger :: "int option"
  sv_network :: string
  sv_transaction_hash :: string

record prepared_soroban =
  ps_envelope :: envelope
  ps_review :: soroban_review
  ps_reviewed_xdr :: bytes
  ps_reviewed_hash :: bytes
  ps_authorized_xdr :: "bytes option"
  ps_authorized_hash :: "bytes option"
  ps_signing_complete :: bool

definition signing_transaction_hash :: "prepared_soroban \<Rightarrow> bytes" where
  "signing_transaction_hash p =
     (case ps_authorized_hash p of Some h \<Rightarrow> h | None \<Rightarrow> ps_reviewed_hash p)"

definition signing_transaction_hash_hex :: "prepared_soroban \<Rightarrow> string" where
  "signing_transaction_hash_hex p = hex (signing_transaction_hash p)"

definition soroban_review_binding :: "stellar_lib \<Rightarrow> prepared_soroban \<Rightarrow> unit result" where
  "soroban_review_binding L p =
     and_then (transaction_xdr_bytes L (ps_envelope p)) (\<lambda>current_xdr.
     and_then (transaction_hash_bytes L (ps_envelope p) (sv_network (ps_review p))) (\<lambda>current_hash.
     let expected_xdr = (case ps_authorized_xdr p of Some x \<Rightarrow> x | None \<Rightarrow> ps_reviewed_xdr p) in
     if current_xdr \<noteq> expected_xdr \<or> current_hash \<noteq> signing_transaction_hash p
     then Inl ''Soroban transaction changed after review; prepare and review it again''
     else Inr ()))"

definition soroban_submit_binding :: "stellar_lib \<Rightarrow> prepared_soroban \<Rightarrow> unit result" where
  "soroban_submit_binding L p =
     and_then (transaction_hash_bytes L (ps_envelope p) (sv_network (ps_review p))) (\<lambda>current_hash.
     if current_hash \<noteq> signing_transaction_hash p
     then Inl ''Soroban transaction changed after signing; prepare and review it again''
     else Inr ())"

text \<open>The encoding is bound before the hash is computed, so it stays bound when hashing fails.\<close>

definition bind_authorized_envelope :: "stellar_lib \<Rightarrow> prepared_soroban \<Rightarrow> unit result \<times> prepared_soroban" where
  "bind_authorized_envelope L p =
     (case transaction_xdr_bytes L (ps_envelope p) of
        Inl error \<Rightarrow> (Inl error, p)
      | Inr xdr \<Rightarrow>
          (let p1 = p\<lparr>ps_authorized_xdr := Some xdr\<rparr> in
           case transaction_hash_bytes L (ps_envelope p1) (sv_network (ps_review p1)) of
             Inl error \<Rightarrow> (Inl error, p1)
           | Inr h \<Rightarrow> (Inr (), p1\<lparr>ps_authorized_hash := Some h\<rparr>)))"

section \<open>The candidate and the simulation\<close>

text \<open>\<open>ScSymbol\<close> holds at most 32 bytes; the arrays of XDR at most \<open>u32::MAX\<close> elements.\<close>

definition build_candidate_for_source ::
  "sdk_libs \<Rightarrow> int \<Rightarrow> string \<Rightarrow> soroban_invoke_request \<Rightarrow> int \<Rightarrow> int \<Rightarrow> envelope result" where
  "build_candidate_for_source B now source_account request current_sequence inclusion_fee =
     and_then (ok_or ''Soroban contract_id must be a valid C address''
         (contract_from_string (lib_soroban B) (siq_contract_id request))) (\<lambda>contract.
     and_then (ensure (length (siq_function_name request) \<le> 32)
         ''Soroban function name must fit an ScSymbol'') (\<lambda>_.
     and_then (ensure (int (length (siq_args request)) \<le> u32_max) ''Too many Soroban invocation arguments'') (\<lambda>_.
       build_single_operation_envelope (lib_stellar B) now source_account
         (InvokeHostFunctionOp (InvokeContract
            \<lparr>ic_contract_address = ScContractAddress contract,
             ic_function_name = bytes_of (siq_function_name request), ic_args = siq_args request\<rparr>) [])
         current_sequence inclusion_fee None)))"

definition validate_soroban_simulation :: "simulation \<Rightarrow> unit result" where
  "validate_soroban_simulation s =
     (case sim_error s of
        Some error \<Rightarrow> Inl (''Soroban transaction simulation failed: '' @ error)
      | None \<Rightarrow>
          if sim_restore_preamble s
          then Inl ''Soroban transaction requires an explicit footprint restore before review''
          else if length (sim_results s) \<noteq> 1
          then Inl (''Soroban simulation returned '' @ nat_to_dec (length (sim_results s))
            @ '' host-function results; expected one'')
          else Inr ())"

section \<open>Reading an envelope\<close>

definition muxed_account_string :: "stellar_lib \<Rightarrow> muxed_account \<Rightarrow> string" where
  "muxed_account_string L m =
     (case m of MuxEd25519 k \<Rightarrow> public_key_to_string L k | MuxMuxedEd25519 _ k \<Rightarrow> public_key_to_string L k)"

definition sc_address_string :: "sdk_libs \<Rightarrow> sc_address \<Rightarrow> string result" where
  "sc_address_string B a =
     (case a of
        ScAccount k \<Rightarrow> Inr (public_key_to_string (lib_stellar B) k)
      | ScContractAddress k \<Rightarrow> Inr (contract_to_string (lib_soroban B) k)
      | ScOtherAddress _ \<Rightarrow> Inl ''Unsupported Soroban authorization address type'')"

definition invoke_auth_entries :: "envelope \<Rightarrow> soroban_entry list result" where
  "invoke_auth_entries e =
     (case e of
        EnvTx tx _ \<Rightarrow>
          if length (tx_operations tx) \<noteq> 1
          then Inl ''Soroban v1 requires exactly one InvokeHostFunction operation''
          else (case op_body (tx_operations tx ! 0) of
                  InvokeHostFunctionOp _ auth \<Rightarrow> Inr auth
                | _ \<Rightarrow> Inl ''Soroban v1 supports only InvokeHostFunction'')
      | _ \<Rightarrow> Inl ''Soroban v1 requires a TransactionEnvelope v1'')"

definition replace_invoke_auth_entries :: "envelope \<Rightarrow> soroban_entry list \<Rightarrow> envelope result" where
  "replace_invoke_auth_entries e entries =
     (case e of
        EnvTx tx sigs \<Rightarrow>
          if length (tx_operations tx) \<noteq> 1
          then Inl ''Soroban v1 requires exactly one InvokeHostFunction operation''
          else (let operation = tx_operations tx ! 0 in
                case op_body operation of
                  InvokeHostFunctionOp f _ \<Rightarrow>
                    and_then (ensure (int (length entries) \<le> u32_max) ''Too many Soroban authorization entries'') (\<lambda>_.
                      Inr (EnvTx (tx\<lparr>tx_operations := (tx_operations tx)
                        [0 := operation\<lparr>op_body := InvokeHostFunctionOp f entries\<rparr>]\<rparr>) sigs))
                | _ \<Rightarrow> Inl ''Soroban v1 supports only InvokeHostFunction'')
      | _ \<Rightarrow> Inl ''Soroban v1 requires a TransactionEnvelope v1'')"

definition transaction_source_string :: "stellar_lib \<Rightarrow> envelope \<Rightarrow> string result" where
  "transaction_source_string L e =
     (case e of
        EnvTx tx _ \<Rightarrow> Inr (muxed_account_string L (tx_source tx))
      | _ \<Rightarrow> Inl ''Soroban v1 requires a TransactionEnvelope v1'')"

definition operation_source_string :: "stellar_lib \<Rightarrow> transaction \<Rightarrow> string result" where
  "operation_source_string L tx =
     (case tx_operations tx of
        [] \<Rightarrow> Inl ''Soroban transaction is missing its operation''
      | operation # _ \<Rightarrow>
          Inr (case op_source operation of
                 Some m \<Rightarrow> muxed_account_string L m
               | None \<Rightarrow> muxed_account_string L (tx_source tx)))"

fun address_credentials :: "soroban_credentials \<Rightarrow> soroban_address_credentials option" where
  "address_credentials (CredAddress c) = Some c"
| "address_credentials (CredAddressV2 c) = Some c"
| "address_credentials (CredAddressWithDelegates c _) = Some c"
| "address_credentials CredSourceAccount = None"

text \<open>Writing through the reference that \<open>address_credentials_mut\<close> gives.\<close>

fun update_address_credentials ::
  "(soroban_address_credentials \<Rightarrow> soroban_address_credentials) \<Rightarrow> soroban_credentials \<Rightarrow> soroban_credentials" where
  "update_address_credentials f (CredAddress c) = CredAddress (f c)"
| "update_address_credentials f (CredAddressV2 c) = CredAddressV2 (f c)"
| "update_address_credentials f (CredAddressWithDelegates c d) = CredAddressWithDelegates (f c) d"
| "update_address_credentials f CredSourceAccount = CredSourceAccount"

text \<open>One turn of \<open>authorization_summary\<close>: the authorizer and the credential type of an entry.\<close>

definition entry_summary :: "sdk_libs \<Rightarrow> string \<Rightarrow> soroban_entry \<Rightarrow> (string \<times> string) result" where
  "entry_summary B operation_source entry =
     (case sae_credentials entry of
        CredSourceAccount \<Rightarrow> Inr (operation_source, ''source-account'')
      | CredAddress c \<Rightarrow> and_then (sc_address_string B (sac_address c)) (\<lambda>a. Inr (a, ''address''))
      | CredAddressV2 c \<Rightarrow> and_then (sc_address_string B (sac_address c)) (\<lambda>a. Inr (a, ''address-v2''))
      | CredAddressWithDelegates c _ \<Rightarrow>
          and_then (sc_address_string B (sac_address c)) (\<lambda>a. Inr (a, ''address-with-delegates'')))"

definition authorization_summary ::
  "sdk_libs \<Rightarrow> envelope \<Rightarrow> string \<Rightarrow> (string list \<times> string list) result" where
  "authorization_summary B e operation_source =
     and_then (invoke_auth_entries e) (\<lambda>entries.
     and_then (collect_ok (map (entry_summary B operation_source) entries)) (\<lambda>rows.
       Inr (map fst rows, map snd rows)))"

section \<open>Assembling the reviewed transaction\<close>

definition decode_simulated_entry :: "sdk_libs \<Rightarrow> string \<Rightarrow> soroban_entry result" where
  "decode_simulated_entry B encoded =
     and_then (ok_or ''Stellar RPC returned invalid authorization base64'' (base64_decode (lib_stellar B) encoded)) (\<lambda>b.
       map_err (\<lambda>_. ''Stellar RPC returned invalid authorization XDR'')
         (entry_from_xdr (lib_soroban B) b client_xdr_depth_limit (nat u64_max)))"

text \<open>The loop that sets the expiration ledger: the entries and how many have detached credentials.\<close>

fun expire_entries :: "int \<Rightarrow> soroban_entry list \<Rightarrow> (soroban_entry list \<times> nat) result" where
  "expire_entries ledger [] = Inr ([], 0)"
| "expire_entries ledger (entry # entries) =
     (case address_credentials (sae_credentials entry) of
        Some c \<Rightarrow>
          if sac_signature c \<noteq> ScVoid then Inl ''Soroban simulation produced pre-signed authorization''
          else and_then (expire_entries ledger entries) (\<lambda>(rest, n).
            Inr (entry\<lparr>sae_credentials := update_address_credentials
                  (\<lambda>c. c\<lparr>sac_signature_expiration_ledger := ledger\<rparr>) (sae_credentials entry)\<rparr> # rest, Suc n))
      | None \<Rightarrow> and_then (expire_entries ledger entries) (\<lambda>(rest, n). Inr (entry # rest, n)))"

text \<open>The part up to the total fee: the transaction of the candidate with the simulated entries.\<close>

definition candidate_invocation :: "envelope \<Rightarrow> (transaction \<times> operation \<times> host_function) result" where
  "candidate_invocation candidate =
     (case candidate of
        EnvTx tx sigs \<Rightarrow>
          if sigs \<noteq> [] then Inl ''Soroban candidate must be unsigned before simulation''
          else if length (tx_operations tx) \<noteq> 1
          then Inl ''Soroban v1 requires exactly one InvokeHostFunction operation''
          else if tx_ext tx \<noteq> TxExtV0
          then Inl ''Soroban candidate must not contain preassembled transaction data''
          else (case op_body (tx_operations tx ! 0) of
                  InvokeHostFunctionOp f auth \<Rightarrow>
                    if auth \<noteq> [] then Inl ''Soroban candidate must not contain preexisting authorization entries''
                    else (case f of
                            InvokeContract _ \<Rightarrow> Inr (tx, tx_operations tx ! 0, f)
                          | _ \<Rightarrow> Inl ''Soroban v1 supports only invoke-contract host functions'')
                | _ \<Rightarrow> Inl ''Soroban v1 supports only InvokeHostFunction'')
      | _ \<Rightarrow> Inl ''Soroban v1 requires a TransactionEnvelope v1'')"

text \<open>The total fee: checked in \<open>u64\<close>, not below the resource fee, and a \<open>u32\<close> in the transaction.\<close>

definition soroban_total_fee :: "int \<Rightarrow> int \<Rightarrow> int \<Rightarrow> int result" where
  "soroban_total_fee inclusion_fee min_resource_fee resource_fee =
     (let total_fee = inclusion_fee + min_resource_fee in
      if resource_fee < 0 then Inl ''Soroban simulation produced a negative resource fee''
      else if \<not> in_u64 total_fee then Inl ''Soroban total fee overflow''
      else if total_fee < resource_fee
      then Inl ''Soroban simulation resource fee exceeds the total transaction fee''
      else if \<not> in_u32 total_fee
      then Inl ''Soroban total fee exceeds a v1 transaction fee; fee-bump support is not implemented''
      else Inr total_fee)"

definition assemble_reviewed_transaction ::
  "sdk_libs \<Rightarrow> string \<Rightarrow> string \<Rightarrow> soroban_invoke_request \<Rightarrow> envelope \<Rightarrow> simulation \<Rightarrow> prepared_soroban result" where
  "assemble_reviewed_transaction B wallet_name network request candidate sim =
     (let L = lib_stellar B in
     and_then (validate_soroban_simulation sim) (\<lambda>_.
     and_then (candidate_invocation candidate) (\<lambda>(tx, operation, f).
     and_then (operation_source_string L tx) (\<lambda>operation_source.
     and_then (collect_ok (map (decode_simulated_entry B) (hfr_auth (sim_results sim ! 0)))) (\<lambda>simulated.
     let ledger = sim_latest_ledger sim + siq_authorization_lifetime_ledgers request in
     and_then (ensure (in_u32 ledger) ''Soroban authorization expiration exceeds ledger sequence range'') (\<lambda>_.
     and_then (expire_entries ledger simulated) (\<lambda>(auth, detached_auth_count).
     and_then (ensure (int (length auth) \<le> u32_max) ''Stellar RPC returned too many authorization entries'') (\<lambda>_.
     and_then (map_err (\<lambda>error. ''Stellar RPC returned invalid transaction data: '' @ error)
         (sim_transaction_data sim)) (\<lambda>transaction_data.
     and_then (soroban_total_fee (tx_fee tx) (sim_min_resource_fee sim) (std_resource_fee transaction_data)) (\<lambda>total_fee.
     let e = EnvTx (tx\<lparr>tx_operations := [operation\<lparr>op_body := InvokeHostFunctionOp f auth\<rparr>],
           tx_fee := total_fee, tx_ext := TxExtV1 transaction_data\<rparr>) [] in
     and_then (authorization_summary B e operation_source) (\<lambda>(authorizers, credential_types).
     and_then (transaction_xdr_bytes L e) (\<lambda>xdr.
     and_then (transaction_hash_bytes L e network) (\<lambda>h.
     and_then (transaction_source_string L e) (\<lambda>fee_payer.
     and_then (invoke_auth_entries e) (\<lambda>entries.
       Inr \<lparr>ps_envelope = e,
            ps_review = \<lparr>sv_wallet_name = wallet_name, sv_fee_payer = fee_payer,
              sv_operation_source = operation_source, sv_contract_id = siq_contract_id request,
              sv_function_name = siq_function_name request, sv_argument_count = length (siq_args request),
              sv_authorizers = authorizers, sv_credential_types = credential_types,
              sv_auth_entry_count = length entries, sv_total_fee_stroops = total_fee,
              sv_resource_fee_stroops = std_resource_fee transaction_data,
              sv_inclusion_fee_stroops = tx_fee tx, sv_min_resource_fee_stroops = sim_min_resource_fee sim,
              sv_simulation_ledger = sim_latest_ledger sim,
              sv_authorization_expiration_ledger = (if 0 < detached_auth_count then Some ledger else None),
              sv_network = network, sv_transaction_hash = hex h\<rparr>,
            ps_reviewed_xdr = xdr, ps_reviewed_hash = h, ps_authorized_xdr = None,
            ps_authorized_hash = None, ps_signing_complete = False\<rparr>)))))))))))))))"

section \<open>Preparing an invocation\<close>

definition reconcile_pending_soroban ::
  "pending_env \<Rightarrow> rpc_gateway \<Rightarrow> wallet_record \<Rightarrow> pending_disk \<Rightarrow> unit result \<times> pending_disk" where
  "reconcile_pending_soroban penv G r pdisk =
     reconcile_with_async penv (rg_network G) (wr_address r)
       (\<lambda>tx_hash. map_ok is_terminal (transaction_status G 0 tx_hash)) pdisk"

definition prepare_soroban_invoke ::
  "sdk_libs \<Rightarrow> wallet_env \<Rightarrow> wallet_disk \<Rightarrow> pending_env \<Rightarrow> rpc_gateway \<Rightarrow> int \<Rightarrow> soroban_invoke_request
     \<Rightarrow> pending_disk \<Rightarrow> prepared_soroban result \<times> pending_disk" where
  "prepare_soroban_invoke B env disk penv G now request pdisk =
     (case and_then (ensure (siq_authorization_lifetime_ledgers request \<noteq> 0)
           ''Soroban authorization lifetime must be at least one ledger'') (\<lambda>_.
         and_then (verify_network G) (\<lambda>_.
           resolve_network_wallet (lib_stellar B) env disk (rg_network G) (siq_wallet request))) of
        Inl error \<Rightarrow> (Inl error, pdisk)
      | Inr r \<Rightarrow>
          (case reconcile_pending_soroban penv G r pdisk of
             (Inl error, pdisk') \<Rightarrow> (Inl error, pdisk')
           | (Inr _, pdisk') \<Rightarrow>
               (and_then (rpc_account_sequence G (wr_address r)) (\<lambda>sequence.
                and_then (case siq_inclusion_fee_stroops request of
                    Some fee \<Rightarrow> if 100 \<le> fee then Inr fee
                      else Inl ''Soroban inclusion fee must be at least 100 stroops''
                  | None \<Rightarrow> default_soroban_inclusion_fee G) (\<lambda>inclusion_fee.
                and_then (build_candidate_for_source B now (wr_address r) request sequence inclusion_fee) (\<lambda>candidate.
                and_then (simulate_transaction G candidate) (\<lambda>sim.
                  assemble_reviewed_transaction B (wr_name r) (rg_network G) request candidate sim)))), pdisk')))"

definition simulate_soroban_invoke ::
  "sdk_libs \<Rightarrow> rpc_gateway \<Rightarrow> int \<Rightarrow> soroban_invoke_request \<Rightarrow> simulation result" where
  "simulate_soroban_invoke B G now request =
     and_then (verify_network G) (\<lambda>_.
     and_then (build_candidate_for_source B now read_only_simulation_account request 0 100)
       (simulate_transaction G))"

section \<open>Signing the authorization entries\<close>

definition authorization_entry_xdr :: "sdk_libs \<Rightarrow> soroban_entry \<Rightarrow> bytes result" where
  "authorization_entry_xdr B entry =
     map_err (\<lambda>error. ''Unable to encode Soroban authorization: '' @ error)
       (entry_to_xdr_within (lib_soroban B) client_xdr_depth_limit entry)"

definition parse_authorization_entry_xdr :: "sdk_libs \<Rightarrow> bytes \<Rightarrow> soroban_entry result" where
  "parse_authorization_entry_xdr B encoded =
     map_err (\<lambda>error. ''Signed Soroban authorization is invalid: '' @ error)
       (entry_from_xdr (lib_soroban B) encoded client_xdr_depth_limit (nat u64_max))"

definition direct_classic_authorizer :: "sdk_libs \<Rightarrow> soroban_address_credentials \<Rightarrow> string result" where
  "direct_classic_authorizer B c =
     (case sac_address c of
        ScAccount _ \<Rightarrow> sc_address_string B (sac_address c)
      | _ \<Rightarrow> Inl ''Unsupported detached Soroban authorizer; only Classic G accounts are supported'')"

definition set_signature_void :: "soroban_entry \<Rightarrow> soroban_entry result" where
  "set_signature_void entry =
     (case sae_credentials entry of
        CredAddress c \<Rightarrow> Inr (entry\<lparr>sae_credentials := CredAddress (c\<lparr>sac_signature := ScVoid\<rparr>)\<rparr>)
      | CredAddressV2 c \<Rightarrow> Inr (entry\<lparr>sae_credentials := CredAddressV2 (c\<lparr>sac_signature := ScVoid\<rparr>)\<rparr>)
      | CredAddressWithDelegates _ _ \<Rightarrow> Inl ''Delegated Soroban authorization requires a concrete provider''
      | CredSourceAccount \<Rightarrow> Inl ''Source-account authorization does not carry a detached signature'')"

definition validate_signed_authorization :: "soroban_entry \<Rightarrow> soroban_entry \<Rightarrow> unit result" where
  "validate_signed_authorization reviewed signed_entry =
     and_then (set_signature_void reviewed) (\<lambda>reviewed_semantics.
     and_then (set_signature_void signed_entry) (\<lambda>signed_semantics.
       if reviewed_semantics \<noteq> signed_semantics
       then Inl ''Soroban signer changed reviewed authorization meaning''
       else if reviewed = signed_entry then Inl ''Soroban authorization signer returned no signature''
       else Inr ()))"

fun system_auth_provider_map ::
  "(string \<rightharpoonup> wallet_record) \<Rightarrow> system_auth_provider list \<Rightarrow> (string \<rightharpoonup> system_auth_provider)
     \<Rightarrow> (string \<rightharpoonup> system_auth_provider) result" where
  "system_auth_provider_map signers [] mapped = Inr mapped"
| "system_auth_provider_map signers (provider # providers) mapped =
     (if signers (sap_public_key provider) = None
      then Inl (''system-auth provider '' @ sap_public_key provider @ '' has no matching local protected software signer'')
      else if mapped (sap_public_key provider) \<noteq> None
      then Inl (''duplicate system-auth provider: '' @ sap_public_key provider)
      else system_auth_provider_map signers providers (mapped(sap_public_key provider \<mapsto> provider)))"

definition sign_authorization_entry_with_unlock_key ::
  "sdk_libs \<Rightarrow> wallet_record \<Rightarrow> string \<Rightarrow> string \<Rightarrow> bytes \<Rightarrow> bytes \<Rightarrow> bytes result" where
  "sign_authorization_entry_with_unlock_key B r network expected_authorizer xdr unlock_key =
     (if watch_only r \<or> wr_secret r = None then Inl (''wallet '' @ quoted (wr_name r) @ '' is watch-only'')
      else
        and_then (ok_or ''wallet has no protected signing material'' (wr_secret r)) (\<lambda>protected.
        and_then (map_err (\<lambda>e. ''Unable to encode protected signing material: '' @ e)
            (lib_json_to_string B protected)) (\<lambda>protected_json.
        and_then (network_passphrase network) (\<lambda>np.
          map_err (\<lambda>e. if sdk_code e = SdkInvalidUnlockKey
              then ''Unable to unlock Soroban authorizer: invalid system-auth unlock key''
              else ''Unable to sign Soroban authorization: '' @ sdk_message e)
            (sdk_sign_soroban_authorization_xdr B protected_json unlock_key expected_authorizer xdr np)))))"

definition sign_authorization_entry ::
  "sdk_libs \<Rightarrow> wallet_record \<Rightarrow> string \<Rightarrow> string \<Rightarrow> bytes \<Rightarrow> string \<Rightarrow> bytes result" where
  "sign_authorization_entry B r network expected_authorizer xdr passcode =
     (if watch_only r \<or> wr_secret r = None then Inl (''wallet '' @ quoted (wr_name r) @ '' is watch-only'')
      else
        and_then (ok_or ''wallet has no protected signing material'' (wr_secret r)) (\<lambda>protected.
        and_then (map_err (\<lambda>e. ''Unable to encode protected signing material: '' @ e)
            (lib_json_to_string B protected)) (\<lambda>protected_json.
        and_then (network_passphrase network) (\<lambda>np.
          map_err (\<lambda>e. if sdk_code e = SdkInvalidPasscode
              then ''Unable to unlock Soroban authorizer: invalid Fresnica passcode''
              else ''Unable to sign Soroban authorization: '' @ sdk_message e)
            (sdk_sign_soroban_authorization_xdr_with_passcode B protected_json passcode expected_authorizer xdr np)))))"

text \<open>The step that both signing routines take: by the authorizer's system-auth provider when it has
  one, else by the passphrase.\<close>

definition sign_entry_for ::
  "sdk_libs \<Rightarrow> string \<Rightarrow> string \<Rightarrow> wallet_record \<Rightarrow> system_auth_provider option \<Rightarrow> string option \<Rightarrow> bytes \<Rightarrow> bytes result" where
  "sign_entry_for B network authorizer signer provider passcode unsigned_xdr =
     (case provider of
        Some provider \<Rightarrow>
          and_then (system_auth_slot B signer) (\<lambda>slot.
          and_then (map_err (\<lambda>error. ''System authentication for '' @ authorizer @ '' failed: '' @ error)
              (system_auth_release_key provider slot)) (\<lambda>release.
            case release of
              ReleasedKey unlock_key \<Rightarrow>
                sign_authorization_entry_with_unlock_key B signer network authorizer unsigned_xdr unlock_key
            | PassphraseRequired \<Rightarrow> Inl local_software_passphrase_required
            | Cancelled \<Rightarrow> Inl ''System authentication cancelled''
            | ReleaseFailed error \<Rightarrow> Inl (''System authentication for '' @ authorizer @ '' failed: '' @ error)))
      | None \<Rightarrow>
          and_then (ok_or local_software_passphrase_required passcode) (\<lambda>pass.
            sign_authorization_entry B signer network authorizer unsigned_xdr pass))"

text \<open>One turn of the loop over the entries; the loop stops at the first error.\<close>

definition authorize_entry ::
  "sdk_libs \<Rightarrow> string \<Rightarrow> (string \<rightharpoonup> wallet_record) \<Rightarrow> (string \<rightharpoonup> system_auth_provider) \<Rightarrow> string option
     \<Rightarrow> soroban_entry \<Rightarrow> soroban_entry result" where
  "authorize_entry B network signers system_auth passcode entry =
     (let direct = (\<lambda>c.
        and_then (direct_classic_authorizer B c) (\<lambda>authorizer.
        and_then (ok_or (''No local signer capability for Soroban authorizer '' @ authorizer) (signers authorizer)) (\<lambda>signer.
        and_then (authorization_entry_xdr B entry) (\<lambda>unsigned.
        and_then (sign_entry_for B network authorizer signer (system_auth authorizer) passcode unsigned) (\<lambda>signed.
          if signed = unsigned then Inl ''Soroban authorization signer returned no signature''
          else and_then (parse_authorization_entry_xdr B signed) (\<lambda>signed_entry.
               and_then (validate_signed_authorization entry signed_entry) (\<lambda>_. Inr signed_entry)))))))
      in case sae_credentials entry of
           CredSourceAccount \<Rightarrow> Inr entry
         | CredAddress c \<Rightarrow> direct c
         | CredAddressV2 c \<Rightarrow> direct c
         | CredAddressWithDelegates _ _ \<Rightarrow> Inl ''Delegated Soroban authorization requires a concrete provider'')"

definition authorize_prepared_soroban_with_system_auth ::
  "sdk_libs \<Rightarrow> wallet_env \<Rightarrow> wallet_disk \<Rightarrow> string option \<Rightarrow> system_auth_provider list \<Rightarrow> prepared_soroban
     \<Rightarrow> unit result \<times> prepared_soroban" where
  "authorize_prepared_soroban_with_system_auth B env disk passcode sas p =
     (let L = lib_stellar B; network = sv_network (ps_review p) in
      case and_then (soroban_review_binding L p) (\<lambda>_.
           and_then (ensure (ps_authorized_xdr p = None) ''Soroban authorization has already been applied'') (\<lambda>_.
           and_then (local_signing_records L env disk network) (\<lambda>signers.
           and_then (system_auth_provider_map signers sas Map.empty) (\<lambda>system_auth.
           and_then (invoke_auth_entries (ps_envelope p)) (\<lambda>entries.
           and_then (ensure (length entries = sv_auth_entry_count (ps_review p))
               ''Soroban authorization entry count changed after review'') (\<lambda>_.
           and_then (collect_ok (map (authorize_entry B network signers system_auth passcode) entries)) (\<lambda>entries.
             replace_invoke_auth_entries (ps_envelope p) entries))))))) of
        Inl error \<Rightarrow> (Inl error, p)
      | Inr e \<Rightarrow>
          (case bind_authorized_envelope L (p\<lparr>ps_envelope := e\<rparr>) of
             (Inl error, p') \<Rightarrow> (Inl error, p')
           | (Inr _, p') \<Rightarrow> (soroban_review_binding L p', p')))"

definition authorize_prepared_soroban ::
  "sdk_libs \<Rightarrow> wallet_env \<Rightarrow> wallet_disk \<Rightarrow> string \<Rightarrow> prepared_soroban \<Rightarrow> unit result \<times> prepared_soroban" where
  "authorize_prepared_soroban B env disk passcode p =
     authorize_prepared_soroban_with_system_auth B env disk (Some passcode) [] p"

section \<open>Signing the envelope\<close>

text \<open>\<open>fetch\<close> gives the account documents of Horizon; the envelope keeps the signatures it got when the
  signing stops early.\<close>

definition sign_prepared_soroban_with_providers ::
  "sdk_libs \<Rightarrow> wallet_env \<Rightarrow> wallet_disk \<Rightarrow> (string \<Rightarrow> json result) \<Rightarrow> int \<Rightarrow> string option
     \<Rightarrow> system_auth_provider list \<Rightarrow> external_provider list \<Rightarrow> prepared_soroban \<Rightarrow> unit result \<times> prepared_soroban" where
  "sign_prepared_soroban_with_providers B env disk fetch now passcode sas xs p =
     (let L = lib_stellar B in
      case and_then (ensure (ps_authorized_xdr p \<noteq> None)
             ''Authorize the reviewed Soroban transaction before envelope signing'') (\<lambda>_.
           and_then (ensure (\<not> ps_signing_complete p)
             ''Soroban transaction envelope signing has already completed'') (\<lambda>_.
           and_then (soroban_review_binding L p) (\<lambda>_.
           and_then (ensure_transaction_not_expired now (ps_envelope p)) (\<lambda>_.
             load_plan_with L (ps_envelope p) fetch)))) of
        Inl error \<Rightarrow> (Inl error, p)
      | Inr plan \<Rightarrow>
          (case sign_with_ed25519_providers B env disk plan (sv_network (ps_review p)) passcode sas xs (ps_envelope p) of
             (Inl error, e') \<Rightarrow> (Inl error, p\<lparr>ps_envelope := e'\<rparr>)
           | (Inr _, e') \<Rightarrow>
               (let p' = p\<lparr>ps_envelope := e'\<rparr> in
                case soroban_submit_binding L p' of
                  Inl error \<Rightarrow> (Inl error, p')
                | Inr _ \<Rightarrow> (Inr (), p'\<lparr>ps_signing_complete := True\<rparr>))))"

definition sign_prepared_soroban ::
  "sdk_libs \<Rightarrow> wallet_env \<Rightarrow> wallet_disk \<Rightarrow> (string \<Rightarrow> json result) \<Rightarrow> int \<Rightarrow> string \<Rightarrow> prepared_soroban
     \<Rightarrow> unit result \<times> prepared_soroban" where
  "sign_prepared_soroban B env disk fetch now passcode p =
     sign_prepared_soroban_with_providers B env disk fetch now (Some passcode) [] [] p"

section \<open>Submission\<close>

definition remember_uncertain ::
  "pending_env \<Rightarrow> prepared_soroban \<Rightarrow> string \<Rightarrow> string \<Rightarrow> pending_disk \<Rightarrow> transaction_submission result \<times> pending_disk" where
  "remember_uncertain penv p tx_hash message pdisk =
     (case pending_remember penv (sv_network (ps_review p)) (sv_fee_payer (ps_review p)) tx_hash ''soroban'' pdisk of
        (Inr _, pdisk') \<Rightarrow>
          (Inl (''Soroban transaction submission status is uncertain for '' @ tx_hash @ '': '' @ message @
             ''. A pending record was saved; Fresnica will reconcile this hash before allowing another write from the account.''),
           pdisk')
      | (Inl persist_error, pdisk') \<Rightarrow>
          (Inl (''Soroban transaction submission status is uncertain for '' @ tx_hash @ '': '' @ message @
             ''. Fresnica could not persist pending-transaction protection: '' @ persist_error @
             ''. Do not retry until you verify the transaction hash manually.''), pdisk'))"

text \<open>The polling loop, at attempt \<open>n\<close>; between two attempts it sleeps.\<close>

function poll_submission ::
  "pending_env \<Rightarrow> rpc_gateway \<Rightarrow> prepared_soroban \<Rightarrow> string \<Rightarrow> nat \<Rightarrow> pending_disk
     \<Rightarrow> transaction_submission result \<times> pending_disk" where
  "poll_submission penv G p tx_hash attempt pdisk =
     (if attempt \<ge> submission_poll_attempts
      then (Inl ''panic: submission polling loop always returns'', pdisk)
      else
        (case transaction_status G attempt tx_hash of
           Inr (StatusSuccess ledger) \<Rightarrow> (Inr \<lparr>ts_hash = tx_hash, ts_ledger = ledger\<rparr>, pdisk)
         | Inr (StatusFailed _ details) \<Rightarrow>
             (Inl (''Soroban transaction failed ('' @ tx_hash @ ''): '' @ details), pdisk)
         | Inr StatusNotFound \<Rightarrow>
             if attempt + 1 < submission_poll_attempts then poll_submission penv G p tx_hash (attempt + 1) pdisk
             else remember_uncertain penv p tx_hash
               ''Stellar RPC did not report a terminal transaction status in time'' pdisk
         | Inl message \<Rightarrow> remember_uncertain penv p tx_hash message pdisk))"
  by pat_completeness auto
termination
  by (relation "measure (\<lambda>(penv, G, p, tx_hash, attempt, pdisk). submission_poll_attempts - attempt)") auto

declare poll_submission.simps [simp del]

definition soroban_submission_checks :: "stellar_lib \<Rightarrow> rpc_gateway \<Rightarrow> prepared_soroban \<Rightarrow> unit result" where
  "soroban_submission_checks L G p =
     and_then (ensure (ps_signing_complete p) ''Sign the authorized Soroban transaction before submission'') (\<lambda>_.
     and_then (ensure (rg_network G = sv_network (ps_review p))
         ''Soroban transaction network does not match RPC gateway'') (\<lambda>_.
       soroban_submit_binding L p))"

definition submit_prepared_soroban ::
  "stellar_lib \<Rightarrow> pending_env \<Rightarrow> rpc_gateway \<Rightarrow> prepared_soroban \<Rightarrow> pending_disk
     \<Rightarrow> transaction_submission result \<times> pending_disk" where
  "submit_prepared_soroban L penv G p pdisk =
     (case soroban_submission_checks L G p of
        Inl error \<Rightarrow> (Inl error, pdisk)
      | Inr _ \<Rightarrow>
          (let expected_hash = signing_transaction_hash_hex p in
           case rpc_submit_transaction L G (ps_envelope p) of
             Inr returned_hash \<Rightarrow>
               if returned_hash \<noteq> expected_hash
               then remember_uncertain penv p expected_hash ''Stellar RPC returned a different transaction hash'' pdisk
               else poll_submission penv G p expected_hash 0 pdisk
           | Inl (RpcRejected message) \<Rightarrow>
               (Inl (''Soroban transaction rejected ('' @ expected_hash @ ''): '' @ message), pdisk)
           | Inl (RpcUncertain message) \<Rightarrow> remember_uncertain penv p expected_hash message pdisk))"

end
