(* ===== verification/ContractArgs.thy ===== *)
theory ContractArgs
  imports ContractSpec SorobanTx
begin

text \<open>
  contract.rs, the arguments of a call: requests and the names of addresses in them, how each argument
  is read (text, JSON or encoded) and reviewed, and how a request becomes a low-level invocation.
\<close>

section \<open>Names of addresses\<close>

text \<open>\<open>trim_matches\<close> with one character.\<close>

definition trim_matches :: "char \<Rightarrow> string \<Rightarrow> string" where
  "trim_matches c s = trim_end_matches c (dropWhile (\<lambda>x. x = c) s)"

definition dquote :: char where "dquote = CHR 0x22"

definition address_name_key :: "string \<Rightarrow> string" where
  "address_name_key name = map to_ascii_lower (trim name)"

record contract_address_names =
  can_names :: "string \<rightharpoonup> string"

definition address_names_empty :: contract_address_names where
  "address_names_empty = \<lparr>can_names = Map.empty\<rparr>"

definition address_names_add ::
  "string \<Rightarrow> string \<Rightarrow> contract_address_names \<Rightarrow> contract_address_names result" where
  "address_names_add name address A =
     (let name = trim name; address = trim address in
      if name = [] then Inl ''contract address name cannot be empty''
      else if address = []
      then Inl (''contract address name '' @ quoted name @ '' cannot resolve to an empty address'')
      else case can_names A (address_name_key name) of
             Some existing \<Rightarrow>
               if existing = address then Inr A
               else Inl (''contract address name '' @ quoted name @ '' is ambiguous: '' @ existing @ '' or '' @ address)
           | None \<Rightarrow> Inr \<lparr>can_names = (can_names A)(address_name_key name \<mapsto> address)\<rparr>)"

definition address_names_get :: "contract_address_names \<Rightarrow> string \<Rightarrow> string option" where
  "address_names_get A name = can_names A (address_name_key name)"

section \<open>Requests\<close>

record contract_argument_input =
  cai_name :: string
  cai_value :: string

record contract_argument_review =
  car_name :: string
  car_value_type :: string
  car_value :: json
  car_scval_xdr :: string

record contract_invoke_request =
  ciq_wallet :: "string option"
  ciq_contract_id :: string
  ciq_function_name :: string
  ciq_arguments :: "contract_argument_input list"
  ciq_positional_arguments :: "string list option"
  ciq_json_arguments :: "(string \<times> json) list"
  ciq_scval_xdr_arguments :: "contract_argument_input list"
  ciq_inclusion_fee_stroops :: "int option"
  ciq_authorization_lifetime_ledgers :: int
  ciq_address_names :: contract_address_names

definition default_contract_authorization_lifetime_ledgers :: int where
  "default_contract_authorization_lifetime_ledgers = 100"

definition contract_invoke_request_new ::
  "string \<Rightarrow> string \<Rightarrow> contract_argument_input list \<Rightarrow> contract_invoke_request" where
  "contract_invoke_request_new contract_id function_name arguments =
     \<lparr>ciq_wallet = None, ciq_contract_id = contract_id, ciq_function_name = function_name,
      ciq_arguments = arguments, ciq_positional_arguments = None, ciq_json_arguments = [],
      ciq_scval_xdr_arguments = [], ciq_inclusion_fee_stroops = None,
      ciq_authorization_lifetime_ledgers = default_contract_authorization_lifetime_ledgers,
      ciq_address_names = address_names_empty\<rparr>"

definition contract_invoke_request_new_positional ::
  "string \<Rightarrow> string \<Rightarrow> string list \<Rightarrow> contract_invoke_request" where
  "contract_invoke_request_new_positional contract_id function_name arguments =
     \<lparr>ciq_wallet = None, ciq_contract_id = contract_id, ciq_function_name = function_name,
      ciq_arguments = [], ciq_positional_arguments = Some arguments, ciq_json_arguments = [],
      ciq_scval_xdr_arguments = [], ciq_inclusion_fee_stroops = None,
      ciq_authorization_lifetime_ledgers = default_contract_authorization_lifetime_ledgers,
      ciq_address_names = address_names_empty\<rparr>"

definition references_argument_value :: "contract_invoke_request \<Rightarrow> string \<Rightarrow> bool" where
  "references_argument_value R candidate =
     (let shown = (\<lambda>s. map to_ascii_lower (trim_matches dquote (trim s))) in
      list_ex (\<lambda>v. shown v = shown candidate)
        (map cai_value (ciq_arguments R) @
         (case ciq_positional_arguments R of None \<Rightarrow> [] | Some vs \<Rightarrow> vs)))"

definition request_add_address_name ::
  "string \<Rightarrow> string \<Rightarrow> contract_invoke_request \<Rightarrow> contract_invoke_request result" where
  "request_add_address_name name address R =
     map_ok (\<lambda>A. R\<lparr>ciq_address_names := A\<rparr>) (address_names_add name address (ciq_address_names R))"

definition add_json_argument :: "string \<Rightarrow> json \<Rightarrow> contract_invoke_request \<Rightarrow> contract_invoke_request" where
  "add_json_argument name value R = R\<lparr>ciq_json_arguments := ciq_json_arguments R @ [(name, value)]\<rparr>"

definition add_scval_xdr_argument :: "string \<Rightarrow> string \<Rightarrow> contract_invoke_request \<Rightarrow> contract_invoke_request" where
  "add_scval_xdr_argument name xdr R =
     R\<lparr>ciq_scval_xdr_arguments := ciq_scval_xdr_arguments R @ [\<lparr>cai_name = name, cai_value = xdr\<rparr>]\<rparr>"

definition set_address_names :: "contract_address_names \<Rightarrow> contract_invoke_request \<Rightarrow> contract_invoke_request" where
  "set_address_names A R = R\<lparr>ciq_address_names := A\<rparr>"

section \<open>JSON arguments\<close>

text \<open>The two loops of the functions below: over values and their types, and over the fields of a struct.\<close>

definition prepare_each :: "(json \<Rightarrow> spec_type \<Rightarrow> json result) \<Rightarrow> (json \<times> spec_type) list \<Rightarrow> json result" where
  "prepare_each prepare vts = map_ok JArray (collect_ok (map (\<lambda>(v, t). prepare v t) vts))"

definition prepare_fields ::
  "(json \<Rightarrow> spec_type \<Rightarrow> json result) \<Rightarrow> string \<Rightarrow> spec_field list \<Rightarrow> (string \<times> json) list \<Rightarrow> json result" where
  "prepare_fields prepare what fs values =
     map_ok (\<lambda>ps. JObject (fold (\<lambda>(k, v). btree_insert k v) ps []))
       (collect_ok (map (\<lambda>f.
          and_then (ok_or (''missing field '' @ quoted (sf_name f) @ '' for '' @ what) (map_of values (sf_name f)))
            (\<lambda>v. map_ok (\<lambda>p. (sf_name f, p)) (prepare v (sf_type f)))) fs))"

definition prepare_json_struct_value ::
  "(json \<Rightarrow> spec_type \<Rightarrow> json result) \<Rightarrow> json \<Rightarrow> spec_struct \<Rightarrow> json result" where
  "prepare_json_struct_value prepare value s =
     (let n = ss_name s in
      and_then (contract_struct_is_tuple s) (\<lambda>is_tuple.
      if is_tuple
      then (case value of
         JArray values \<Rightarrow>
           if length values \<noteq> length (ss_fields s)
           then Inl (''tuple struct '' @ n @ '' requires '' @ nat_to_dec (length (ss_fields s)) @ '' values but '' @
                  nat_to_dec (length values) @ '' were provided'')
           else prepare_each prepare (zip values (map sf_type (ss_fields s)))
       | JObject values \<Rightarrow>
           if length values \<noteq> length (ss_fields s)
           then Inl (''tuple struct '' @ n @ '' requires '' @ nat_to_dec (length (ss_fields s)) @ '' values but '' @
                  nat_to_dec (length values) @ '' were provided'')
           else prepare_fields prepare (''tuple struct '' @ n) (ss_fields s) values
       | _ \<Rightarrow> Inl (''tuple struct '' @ n @ '' requires a JSON array or numeric-key object''))
      else (case value of
         JObject values \<Rightarrow>
           (case find (\<lambda>k. k \<notin> set (map sf_name (ss_fields s))) (map fst values) of
              Some key \<Rightarrow> Inl (''unknown field '' @ quoted key @ '' for struct '' @ n)
            | None \<Rightarrow> prepare_fields prepare (''struct '' @ n) (ss_fields s) values)
       | _ \<Rightarrow> Inl (''struct '' @ n @ '' requires a JSON object''))))"

definition prepare_payload ::
  "(json \<Rightarrow> spec_type \<Rightarrow> json result) \<Rightarrow> string \<Rightarrow> string \<Rightarrow> json \<Rightarrow> spec_type list \<Rightarrow> json result" where
  "prepare_payload prepare n c payload ts =
     (case ts of
        [t] \<Rightarrow> prepare payload t
      | _ \<Rightarrow> (case payload of
           JArray values \<Rightarrow>
             if length values \<noteq> length ts
             then Inl (''case '' @ quoted c @ '' for union '' @ n @ '' requires '' @ nat_to_dec (length ts) @
                    '' values but '' @ nat_to_dec (length values) @ '' were provided'')
             else prepare_each prepare (zip values ts)
         | _ \<Rightarrow> Inl (''case '' @ quoted c @ '' for union '' @ n @ '' requires a JSON array with '' @
                  nat_to_dec (length ts) @ '' values'')))"

definition prepare_json_union_value ::
  "(json \<Rightarrow> spec_type \<Rightarrow> json result) \<Rightarrow> json \<Rightarrow> spec_union \<Rightarrow> json result" where
  "prepare_json_union_value prepare value u =
     (let n = su_name u in
      and_then (case value of
          JString c \<Rightarrow> Inr (c, None)
        | JObject [(c, payload)] \<Rightarrow> Inr (c, Some payload)
        | _ \<Rightarrow> Inl (''union '' @ n @ '' requires a void-case string or a single-key case object'')) (\<lambda>(c, payload).
      and_then (ok_or (''unknown case '' @ quoted c @ '' for union '' @ n)
          (find (\<lambda>k. case_name k = c) (su_cases u))) (\<lambda>k.
      case k of
        CaseVoid _ _ \<Rightarrow>
          (if payload \<noteq> None then Inl (''void case '' @ quoted c @ '' for union '' @ n @ '' must be a JSON string'')
           else Inr (JString c))
      | CaseTuple _ _ ts \<Rightarrow>
          and_then (ok_or (''case '' @ quoted c @ '' for union '' @ n @ '' requires a payload'') payload) (\<lambda>payload.
          and_then (prepare_payload prepare n c payload ts) (\<lambda>p.
            Inr (JObject [(c, p)]))))))"

definition validate_json_enum_shape :: "json \<Rightarrow> spec_enum \<Rightarrow> unit result" where
  "validate_json_enum_shape value e =
     and_then (ok_or (''enum '' @ sen_name e @ '' requires its numeric u32 case value'')
         (Option.bind (as_u64 value) (\<lambda>n. if in_u32 (int n) then Some (int n) else None))) (\<lambda>x.
       if list_ex (\<lambda>c. sec_value c = x) (sen_cases e) then Inr ()
       else Inl (''unknown numeric case '' @ int_to_dec x @ '' for enum '' @ sen_name e))"

text \<open>One turn of the loop over a map: the key is read as JSON when it is JSON, and kept as it was when the
  prepared one could not be read back.\<close>

fun prepare_map_entry ::
  "spec_lib \<Rightarrow> contract_spec \<Rightarrow> (json \<Rightarrow> spec_type \<Rightarrow> json result) \<Rightarrow> spec_type \<Rightarrow> spec_type \<Rightarrow> string \<times> json
     \<Rightarrow> (string \<times> json) result" where
  "prepare_map_entry P S prepare tk tv (key, v) =
     (let key_value = (case spl_json_from_str P key of Inr j \<Rightarrow> j | Inl _ \<Rightarrow> JString key) in
      and_then (prepare key_value tk) (\<lambda>prepared_key.
      and_then (map_err (\<lambda>e. ''unable to encode map key '' @ quoted key @ '': '' @ e)
          (spl_json_to_string P prepared_key)) (\<lambda>text.
      map_ok (\<lambda>p. (if isl (cs_from_string S text tk) then key else text, p)) (prepare v tv))))"

text \<open>
  The descent goes to a part of the value, to the text of a map key read again as JSON, or to a part of the
  type; \<open>fuel\<close> counts the steps into the value. \<open>json_size\<close> of the value is enough (below), and the
  callers give that.
\<close>

fun json_size :: "json \<Rightarrow> nat" where
  "json_size (JString s) = Suc (length s)"
| "json_size (JArray vs) = Suc (sum_list (map json_size vs))"
| "json_size (JObject m) = Suc (sum_list (map (\<lambda>(k, v). Suc (Suc (length k)) + json_size v) m))"
| "json_size _ = 1"

function prepare_json_with_fuel ::
  "spec_lib \<Rightarrow> contract_spec \<Rightarrow> nat \<Rightarrow> json \<Rightarrow> spec_type \<Rightarrow> json result" where
  "prepare_json_with_fuel P S fuel value t =
     (if fuel = 0 then Inl ''fuel exhausted''
      else
        (case t of
           TyVoid \<Rightarrow> Inr (if value = JNull then JString ''void'' else value)
         | TyTimepoint \<Rightarrow>
             Inr (case value of JNumber n \<Rightarrow> JObject [(''timepoint'', JString (number_to_string n))] | _ \<Rightarrow> value)
         | TyDuration \<Rightarrow>
             Inr (case value of JNumber n \<Rightarrow> JObject [(''duration'', JString (number_to_string n))] | _ \<Rightarrow> value)
         | TyError \<Rightarrow>
             Inl ''Contract Spec Error values are runtime error metadata and have no stable composed input form''
         | TyResult _ _ \<Rightarrow>
             Inl ''Contract Spec Result values have no stable composed input form in the pinned official parser''
         | TyOption t1 \<Rightarrow> if value = JNull then Inr JNull else prepare_json_with_fuel P S fuel value t1
         | TyVec t1 \<Rightarrow>
             (case value of
                JArray values \<Rightarrow>
                  prepare_each (\<lambda>v u. prepare_json_with_fuel P S (fuel - 1) v u) (map (\<lambda>v. (v, t1)) values)
              | _ \<Rightarrow> Inr value)
         | TyMap tk tv \<Rightarrow>
             (case value of
                JObject values \<Rightarrow>
                  map_ok (\<lambda>ps. JObject (fold (\<lambda>(k, v). btree_insert k v) ps []))
                    (collect_ok (map (prepare_map_entry P S (\<lambda>v u. prepare_json_with_fuel P S (fuel - 1) v u) tk tv) values))
              | _ \<Rightarrow> Inr value)
         | TyTuple ts \<Rightarrow>
             (case value of
                JArray values \<Rightarrow>
                  if length values \<noteq> length ts
                  then Inl (''tuple requires '' @ nat_to_dec (length ts) @ '' values but '' @
                         nat_to_dec (length values) @ '' were provided'')
                  else prepare_each (\<lambda>v u. prepare_json_with_fuel P S (fuel - 1) v u) (zip values ts)
              | _ \<Rightarrow> Inr value)
         | TyUdt n \<Rightarrow>
             (case cs_find S n of
                Inl error \<Rightarrow> Inl (''unable to resolve user-defined type '' @ n @ '': '' @ error)
              | Inr (SpecStruct s) \<Rightarrow>
                  prepare_json_struct_value (\<lambda>v u. prepare_json_with_fuel P S (fuel - 1) v u) value s
              | Inr (SpecUnion u) \<Rightarrow>
                  prepare_json_union_value (\<lambda>v u. prepare_json_with_fuel P S (fuel - 1) v u) value u
              | Inr (SpecEnum e) \<Rightarrow> map_ok (\<lambda>_. value) (validate_json_enum_shape value e)
              | Inr (SpecErrorEnum _) \<Rightarrow>
                  Inl (''error enum '' @ n @ '' is contract error metadata and cannot be supplied as a function argument'')
              | Inr _ \<Rightarrow> Inl (''Contract Spec entry '' @ n @ '' is not a user-defined value type''))
         | _ \<Rightarrow> Inr value))"
  by pat_completeness auto
termination
  by (relation "measures [\<lambda>(P, S, fuel, value, t). fuel, \<lambda>(P, S, fuel, value, t). size t]") auto

declare prepare_json_with_fuel.simps [simp del]

definition prepare_json_argument_value :: "spec_lib \<Rightarrow> contract_spec \<Rightarrow> json \<Rightarrow> spec_type \<Rightarrow> json result" where
  "prepare_json_argument_value P S value t = prepare_json_with_fuel P S (json_size value) value t"

text \<open>The fuel is enough: JSON text is at least as long as the value read from it is big, so every step into a
  value makes it smaller.\<close>

definition json_text_bounds_size :: "spec_lib \<Rightarrow> bool" where
  "json_text_bounds_size P \<longleftrightarrow> (\<forall>k j. spl_json_from_str P k = Inr j \<longrightarrow> json_size j \<le> length k)"

lemma json_size_pos [simp]: "json_size v \<noteq> 0"
  by (cases v) auto

lemma json_size_array: "v \<in> set vs \<Longrightarrow> json_size v < json_size (JArray vs)"
  by (auto simp: less_Suc_eq_le intro: member_le_sum_list)

lemma json_size_object:
  "(k, v) \<in> set m \<Longrightarrow> json_size v < json_size (JObject m) \<and> Suc (length k) < json_size (JObject m)"
proof -
  assume "(k, v) \<in> set m"
  then have "Suc (Suc (length k)) + json_size v \<le> sum_list (map (\<lambda>(k, v). Suc (Suc (length k)) + json_size v) m)"
    by (intro member_le_sum_list) (force, simp)
  then show ?thesis by simp
qed

lemma json_size_map_of: "map_of m k = Some v \<Longrightarrow> json_size v < json_size (JObject m)"
  using json_size_object map_of_SomeD by metis

lemma prepare_each_cong:
  "(\<And>w u. (w, u) \<in> set vts \<Longrightarrow> f w u = g w u) \<Longrightarrow> prepare_each f vts = prepare_each g vts"
  unfolding prepare_each_def by (rule arg_cong [where f = "\<lambda>xs. map_ok JArray (collect_ok xs)"]) auto

lemma prepare_fields_cong:
  assumes "\<And>w u. json_size w < json_size (JObject m) \<Longrightarrow> f w u = g w u"
  shows "prepare_fields f what fs m = prepare_fields g what fs m"
  unfolding prepare_fields_def
  by (rule arg_cong [where f = "\<lambda>xs. map_ok (\<lambda>ps. JObject (fold (\<lambda>(k, v). btree_insert k v) ps [])) (collect_ok xs)"])
    (use assms json_size_map_of in \<open>auto intro!: map_cong and_then_cong\<close>)

lemma prepare_zip_cong:
  assumes "\<And>w u. json_size w < json_size (JArray vs) \<Longrightarrow> f w u = g w u"
  shows "prepare_each f (zip vs ts) = prepare_each g (zip vs ts)"
  by (rule prepare_each_cong) (use assms json_size_array in \<open>auto dest: set_zip_leftD\<close>)

lemma prepare_struct_cong:
  assumes small: "\<And>w u. json_size w < json_size v \<Longrightarrow> f w u = g w u"
  shows "prepare_json_struct_value f v s = prepare_json_struct_value g v s"
proof (cases v)
  case (JArray vs)
  then have zips: "prepare_each f (zip vs ts) = prepare_each g (zip vs ts)" for ts
    by (intro prepare_zip_cong small) simp
  show ?thesis unfolding prepare_json_struct_value_def JArray json.case zips ..
next
  case (JObject m)
  then have fs: "prepare_fields f what fs m = prepare_fields g what fs m" for what fs
    by (intro prepare_fields_cong small) simp
  show ?thesis unfolding prepare_json_struct_value_def JObject json.case fs ..
qed (simp_all add: prepare_json_struct_value_def Let_def cong: if_cong)

lemma prepare_payload_cong:
  assumes small: "\<And>w u. json_size w \<le> json_size payload \<Longrightarrow> f w u = g w u"
  shows "prepare_payload f n c payload ts = prepare_payload g n c payload ts"
proof (cases "\<exists>t. ts = [t]")
  case True
  then show ?thesis using small by (auto simp: prepare_payload_def)
next
  case False
  have zips: "prepare_each f (zip vs ts) = prepare_each g (zip vs ts)" if "payload = JArray vs" for vs
    by (rule prepare_zip_cong) (use small that in simp)
  show ?thesis
  proof (cases payload)
    case (JArray vs)
    then show ?thesis unfolding prepare_payload_def JArray json.case zips [OF JArray]
      using False by (auto split: list.split)
  qed (use False in \<open>auto simp: prepare_payload_def split: list.split\<close>)
qed

lemma prepare_union_cong:
  assumes small: "\<And>w u. json_size w < json_size v \<Longrightarrow> f w u = g w u"
  shows "prepare_json_union_value f v s = prepare_json_union_value g v s"
proof (cases "\<exists>c payload. v = JObject [(c, payload)]")
  case True
  then obtain c payload where v: "v = JObject [(c, payload)]" by blast
  have "prepare_payload f n c payload ts = prepare_payload g n c payload ts" for n c ts
    by (rule prepare_payload_cong) (use small v in simp)
  then show ?thesis unfolding prepare_json_union_value_def v json.case list.case prod.case by simp
next
  case False
  then consider c where "v = JString c" | "\<forall>c. v \<noteq> JString c" by blast
  then show ?thesis
  proof cases
    case 2
    have "prepare_json_union_value h v s =
        Inl (''union '' @ su_name s @ '' requires a void-case string or a single-key case object'')" for h
      using 2 False unfolding prepare_json_union_value_def
      by (auto simp: Let_def split: json.split list.split)
    then show ?thesis by simp
  qed (simp add: prepare_json_union_value_def Let_def)
qed

lemma prepare_map_cong:
  assumes law: "json_text_bounds_size P"
    and small: "\<And>w u. json_size w < json_size (JObject es) \<Longrightarrow> f w u = g w u"
  shows "map (prepare_map_entry P S f tk tv) es = map (prepare_map_entry P S g tk tv) es"
proof (rule map_cong [OF refl])
  fix e
  assume "e \<in> set es"
  moreover obtain key w where "e = (key, w)" by (cases e)
  ultimately have e: "e = (key, w)" "(key, w) \<in> set es" by auto
  have "json_size (case spl_json_from_str P key of Inr j \<Rightarrow> j | Inl _ \<Rightarrow> JString key) < json_size (JObject es)"
    using law json_size_object [OF e(2)]
    by (fastforce simp: json_text_bounds_size_def split: sum.split)
  moreover have "json_size w < json_size (JObject es)" using json_size_object [OF e(2)] by blast
  ultimately show "prepare_map_entry P S f tk tv e = prepare_map_entry P S g tk tv e"
    using small by (simp add: e Let_def)
qed

lemma prepare_json_fuel_enough:
  assumes law: "json_text_bounds_size P"
  shows "json_size v \<le> n \<Longrightarrow> json_size v \<le> m \<Longrightarrow>
    prepare_json_with_fuel P S n v t = prepare_json_with_fuel P S m v t"
proof (induction "json_size v" arbitrary: v t n m rule: less_induct)
  case less
  have pos: "n \<noteq> 0" "m \<noteq> 0" using less.prems json_size_pos [of v] by linarith+
  have sub: "prepare_json_with_fuel P S (n - 1) w u = prepare_json_with_fuel P S (m - 1) w u"
    if "json_size w < json_size v" for w u
    using less.hyps [OF that] less.prems that by simp
  show ?case
  proof (induction t)
    case (TyOption t)
    then show ?case
      using pos by (simp add: prepare_json_with_fuel.simps [of P S n v "TyOption t"]
        prepare_json_with_fuel.simps [of P S m v "TyOption t"])
  next
    case (TyMap tk tv)
    have "map (prepare_map_entry P S (\<lambda>w u. prepare_json_with_fuel P S (n - 1) w u) tk tv) es =
        map (prepare_map_entry P S (\<lambda>w u. prepare_json_with_fuel P S (m - 1) w u) tk tv) es" if "v = JObject es" for es
      using prepare_map_cong [OF law sub] that by simp
    then show ?case
      using pos by (cases v) (simp_all add: prepare_json_with_fuel.simps [of P S _ _ "TyMap tk tv"] del: map_eq_conv)
  next
    case (TyVec t)
    then show ?case
      using pos sub json_size_array by (auto simp: prepare_json_with_fuel.simps [of P S n v "TyVec t"]
        prepare_json_with_fuel.simps [of P S m v "TyVec t"] split: json.split intro!: prepare_each_cong)
  next
    case (TyTuple ts)
    then show ?case
      using pos sub by (auto simp: prepare_json_with_fuel.simps [of P S n v "TyTuple ts"]
        prepare_json_with_fuel.simps [of P S m v "TyTuple ts"] split: json.split intro!: prepare_zip_cong)
  next
    case (TyUdt name)
    have "prepare_json_struct_value (\<lambda>w u. prepare_json_with_fuel P S (n - 1) w u) v s =
        prepare_json_struct_value (\<lambda>w u. prepare_json_with_fuel P S (m - 1) w u) v s"
      and "prepare_json_union_value (\<lambda>w u. prepare_json_with_fuel P S (n - 1) w u) v x =
        prepare_json_union_value (\<lambda>w u. prepare_json_with_fuel P S (m - 1) w u) v x" for s x
      by (rule prepare_struct_cong prepare_union_cong; rule sub; assumption)+
    then show ?case
      using pos by (simp add: prepare_json_with_fuel.simps [of P S _ v "TyUdt name"] split: sum.split spec_entry.split)
  qed (use pos in \<open>simp_all add: prepare_json_with_fuel.simps [of P S n v] prepare_json_with_fuel.simps [of P S m v]\<close>)
qed

section \<open>Reading and reviewing one argument\<close>

definition contract_argument_parse_error :: "spec_lib \<Rightarrow> contract_spec \<Rightarrow> string \<Rightarrow> spec_type \<Rightarrow> string \<Rightarrow> string" where
  "contract_argument_parse_error P S name t error =
     ''invalid value for contract argument --'' @ name @ ''; expected '' @ contract_type_name P t @
     (case cs_example S t of Some e \<Rightarrow> ''; example: '' @ e | None \<Rightarrow> []) @ '': '' @ error"

definition parse_argument ::
  "spec_lib \<Rightarrow> contract_spec \<Rightarrow> string \<Rightarrow> string \<Rightarrow> spec_type \<Rightarrow> contract_address_names \<Rightarrow> sc_val result" where
  "parse_argument P S name v t A =
     (case cs_from_string S v t of
        Inr parsed \<Rightarrow> Inr parsed
      | Inl direct_error \<Rightarrow>
          (let failed = Inl (contract_argument_parse_error P S name t direct_error) in
           if t = TyAddress \<or> t = TyMuxedAddress
           then (case address_names_get A (trim_matches dquote (trim v)) of
                   Some address \<Rightarrow>
                     map_err (\<lambda>error. ''contract address name '' @ quoted v @ '' resolved to '' @ address @
                         '', but the resolved address is invalid for --'' @ name @ '': '' @ error)
                       (cs_from_string S address t)
                 | None \<Rightarrow> failed)
           else failed))"

definition parse_json_argument ::
  "spec_lib \<Rightarrow> contract_spec \<Rightarrow> string \<Rightarrow> json \<Rightarrow> spec_type \<Rightarrow> sc_val result" where
  "parse_json_argument P S name v t =
     and_then (map_err (\<lambda>detail. ''invalid value for contract argument --'' @ name @ ''; expected '' @
           contract_type_name P t @ '': '' @ detail) (prepare_json_argument_value P S v t)) (\<lambda>prepared.
       map_err (contract_argument_parse_error P S name t) (cs_from_json S prepared t))"

definition parse_scval_xdr_argument :: "spec_lib \<Rightarrow> string \<Rightarrow> string \<Rightarrow> sc_val result" where
  "parse_scval_xdr_argument P name v =
     map_err (\<lambda>error. ''invalid ScVal XDR for contract argument --'' @ name @ '': '' @ error)
       (spl_scval_from_base64 P contract_argument_xdr_depth_limit (trim v))"

definition make_argument_review ::
  "spec_lib \<Rightarrow> contract_spec \<Rightarrow> string \<Rightarrow> string \<Rightarrow> spec_type \<Rightarrow> sc_val \<Rightarrow> contract_argument_review result" where
  "make_argument_review P S name value_type t parsed =
     (let label = name @ '' ('' @ value_type @ ''): '' in
      and_then (map_err (\<lambda>detail. ''invalid contract argument --'' @ label @ detail)
          (validate_scval_against_type P S parsed t 0)) (\<lambda>_.
      and_then (map_err (\<lambda>detail. ''unable to normalize contract argument --'' @ label @ detail)
          (ensure_contract_type_normalization_safe S t [])) (\<lambda>_.
      and_then (map_err (\<lambda>error. ''unable to normalize contract argument --'' @ label @ error)
          (cs_xdr_to_json S parsed t)) (\<lambda>v.
      and_then (map_err (\<lambda>error. ''unable to encode contract argument --'' @ name @ '' as ScVal XDR: '' @ error)
          (spl_scval_to_base64 P contract_argument_xdr_depth_limit parsed)) (\<lambda>scval_xdr.
        Inr \<lparr>car_name = name, car_value_type = value_type, car_value = v, car_scval_xdr = scval_xdr\<rparr>)))))"

section \<open>From a request to an invocation\<close>

datatype argument_source = SpecValue string | JsonValue json | ScValXdrBase64 string

definition remove_argument ::
  "(string \<times> argument_source) list \<Rightarrow> string \<Rightarrow> argument_source option \<times> (string \<times> argument_source) list" where
  "remove_argument arguments spec_name =
     (case map_of arguments spec_name of
        Some a \<Rightarrow> (Some a, btree_remove spec_name arguments)
      | None \<Rightarrow>
          (let kebab = map (\<lambda>c. if c = CHR ''_'' then CHR ''-'' else c) spec_name in
           if kebab = spec_name then (None, arguments)
           else (map_of arguments kebab, btree_remove kebab arguments)))"

fun find_function_in ::
  "spec_lib \<Rightarrow> string \<Rightarrow> spec_function list \<Rightarrow> string list \<Rightarrow> string list + spec_function" where
  "find_function_in P function_name [] available = Inl available"
| "find_function_in P function_name (f # fs) available =
     (let name = spl_sanitize P (sfn_name f) in
      if name = function_name then Inr f
      else find_function_in P function_name fs (available @ [name]))"

definition find_function :: "spec_lib \<Rightarrow> contract_spec \<Rightarrow> string \<Rightarrow> spec_function result" where
  "find_function P S function_name =
     (case cs_find_function S function_name of
        Inr f \<Rightarrow> Inr f
      | Inl _ \<Rightarrow>
          and_then (map_err (\<lambda>error. ''unable to read contract functions: '' @ error) (cs_find_functions S)) (\<lambda>fs.
          map_err (\<lambda>available.
              if available = [] then ''contract spec does not expose any functions''
              else ''contract function '' @ quoted function_name @ '' was not found; available functions: '' @
                join '', '' available)
            (find_function_in P function_name fs [])))"

text \<open>The three loops that collect the named arguments, one after the other.\<close>

fun supply_arguments ::
  "(string \<times> argument_source) list \<Rightarrow> (string \<times> argument_source) list \<Rightarrow> (string \<times> argument_source) list result" where
  "supply_arguments [] supplied = Inr supplied"
| "supply_arguments ((name, source) # rest) supplied =
     (if map_of supplied name \<noteq> None
      then Inl (''contract argument --'' @ name @ '' was provided more than once'')
      else supply_arguments rest (btree_insert name source supplied))"

definition request_sources :: "contract_invoke_request \<Rightarrow> (string \<times> argument_source) list" where
  "request_sources R =
     map (\<lambda>a. (cai_name a, SpecValue (cai_value a))) (ciq_arguments R) @
     map (\<lambda>(n, v). (n, JsonValue v)) (ciq_json_arguments R) @
     map (\<lambda>a. (cai_name a, ScValXdrBase64 (cai_value a))) (ciq_scval_xdr_arguments R)"

fun is_option_type :: "spec_type \<Rightarrow> bool" where
  "is_option_type (TyOption _) \<longleftrightarrow> True"
| "is_option_type _ \<longleftrightarrow> False"

fun named_arguments ::
  "spec_lib \<Rightarrow> contract_spec \<Rightarrow> contract_address_names \<Rightarrow> spec_field list \<Rightarrow> (string \<times> argument_source) list
     \<Rightarrow> ((sc_val \<times> contract_argument_review) list \<times> (string \<times> argument_source) list) result" where
  "named_arguments P S A [] supplied = Inr ([], supplied)"
| "named_arguments P S A (input # inputs) supplied =
     (let name = spl_sanitize P (sf_name input); t = sf_type input; value_type = contract_type_name P t;
          (source, supplied') = remove_argument supplied name in
      and_then (case source of
          Some (SpecValue v) \<Rightarrow> parse_argument P S name v t A
        | Some (JsonValue v) \<Rightarrow> parse_json_argument P S name v t
        | Some (ScValXdrBase64 v) \<Rightarrow> parse_scval_xdr_argument P name v
        | None \<Rightarrow> if is_option_type t then Inr ScVoid
            else Inl (''missing contract argument --'' @ name @ '' (expected '' @ value_type @ '')'')) (\<lambda>parsed.
      and_then (make_argument_review P S name value_type t parsed) (\<lambda>review.
      map_ok (\<lambda>(rest, left). ((parsed, review) # rest, left)) (named_arguments P S A inputs supplied'))))"

fun positional_arguments ::
  "spec_lib \<Rightarrow> contract_spec \<Rightarrow> contract_address_names \<Rightarrow> nat \<Rightarrow> spec_field list \<Rightarrow> string list
     \<Rightarrow> (sc_val \<times> contract_argument_review) list result" where
  "positional_arguments P S A index [] arguments = Inr []"
| "positional_arguments P S A index (input # inputs) arguments =
     (let name = spl_sanitize P (sf_name input); t = sf_type input; value_type = contract_type_name P t in
      and_then (if index < length arguments then parse_argument P S name (arguments ! index) t A
        else if is_option_type t then Inr ScVoid
        else Inl (''missing positional contract argument '' @ nat_to_dec (index + 1) @ '' ('' @ name @ '': '' @
               value_type @ '')'')) (\<lambda>parsed.
      and_then (make_argument_review P S name value_type t parsed) (\<lambda>review.
      map_ok (\<lambda>rest. (parsed, review) # rest) (positional_arguments P S A (index + 1) inputs arguments))))"

fun nothing_left :: "contract_invoke_request \<Rightarrow> (string \<times> argument_source) list \<Rightarrow> unit result" where
  "nothing_left R [] = Inr ()"
| "nothing_left R ((name, _) # _) =
     Inl (''unknown contract argument --'' @ name @ '' for function '' @ ciq_function_name R)"

lemma nothing_left_Inr [simp]: "nothing_left R left = Inr u \<longleftrightarrow> left = []"
  by (cases left) auto

definition resolve_arguments ::
  "spec_lib \<Rightarrow> contract_spec \<Rightarrow> spec_function \<Rightarrow> contract_invoke_request \<Rightarrow> (sc_val \<times> contract_argument_review) list result" where
  "resolve_arguments P S f R =
     (case ciq_positional_arguments R of
        Some arguments \<Rightarrow>
          if length arguments > length (sfn_inputs f)
          then Inl (''contract function '' @ ciq_function_name R @ '' accepts '' @ nat_to_dec (length (sfn_inputs f)) @
                 '' arguments but '' @ nat_to_dec (length arguments) @ '' were provided'')
          else positional_arguments P S (ciq_address_names R) 0 (sfn_inputs f) arguments
      | None \<Rightarrow>
          and_then (supply_arguments (request_sources R) []) (\<lambda>supplied.
          and_then (named_arguments P S (ciq_address_names R) (sfn_inputs f) supplied) (\<lambda>(arguments, left).
          and_then (nothing_left R left) (\<lambda>_. Inr arguments))))"

definition resolve_request ::
  "spec_lib \<Rightarrow> spec_entry list \<Rightarrow> contract_invoke_request \<Rightarrow> (soroban_invoke_request \<times> contract_argument_review list) result" where
  "resolve_request P entries R =
     (let S = spl_spec_new P entries in
      and_then (find_function P S (ciq_function_name R)) (\<lambda>f.
      and_then (ensure (\<not> (ciq_positional_arguments R \<noteq> None \<and>
            (ciq_json_arguments R \<noteq> [] \<or> ciq_scval_xdr_arguments R \<noteq> [])))
          ''JSON and pre-encoded ScVal XDR arguments require named contract invocation'') (\<lambda>_.
      and_then (resolve_arguments P S f R) (\<lambda>arguments.
        Inr ((soroban_invoke_request_new (ciq_contract_id R) (sfn_name f) (map fst arguments))
               \<lparr>siq_wallet := ciq_wallet R, siq_inclusion_fee_stroops := ciq_inclusion_fee_stroops R,
                siq_authorization_lifetime_ledgers := ciq_authorization_lifetime_ledgers R\<rparr>,
             map snd arguments)))))"

section \<open>What resolving a request gives\<close>

text \<open>A reviewed argument for an input of the function: a value of the input's type, and the review names the
  input and shows that value.\<close>

definition reviewed_argument ::
  "spec_lib \<Rightarrow> contract_spec \<Rightarrow> spec_field \<Rightarrow> sc_val \<times> contract_argument_review \<Rightarrow> bool" where
  "reviewed_argument P S input a \<longleftrightarrow>
     conforms P S 501 (fst a) (sf_type input) \<and>
     car_name (snd a) = spl_sanitize P (sf_name input) \<and>
     car_value_type (snd a) = contract_type_name P (sf_type input) \<and>
     cs_xdr_to_json S (fst a) (sf_type input) = Inr (car_value (snd a)) \<and>
     spl_scval_to_base64 P contract_argument_xdr_depth_limit (fst a) = Inr (car_scval_xdr (snd a))"

lemma validate_conforms_501: "validate_scval_against_type P S v t 0 = Inr () \<longleftrightarrow> conforms P S 501 v t"
  by (rule validate_conforms) (simp add: contract_argument_xdr_depth_limit_def)

lemma make_argument_review_reviewed:
  "make_argument_review P S (spl_sanitize P (sf_name i)) (contract_type_name P (sf_type i)) (sf_type i) v = Inr r \<Longrightarrow>
     reviewed_argument P S i (v, r)"
  by (auto simp: make_argument_review_def Let_def and_then_Inr reviewed_argument_def validate_conforms_501)

lemma positional_arguments_reviewed:
  "positional_arguments P S A k inputs vs = Inr args \<Longrightarrow> list_all2 (reviewed_argument P S) inputs args"
proof (induction inputs arbitrary: k args)
  case (Cons i inputs)
  then show ?case
    by (auto simp: Let_def and_then_Inr map_ok_Inr intro: make_argument_review_reviewed split: if_splits)
qed simp

lemma named_arguments_reviewed:
  "named_arguments P S A inputs supplied = Inr (args, left) \<Longrightarrow> list_all2 (reviewed_argument P S) inputs args"
proof (induction inputs arbitrary: supplied args left)
  case (Cons i inputs)
  then show ?case
    by (auto simp: Let_def and_then_Inr map_ok_Inr intro: make_argument_review_reviewed split: prod.splits)
qed simp

lemma resolve_arguments_named:
  "resolve_arguments P S f R = Inr args \<Longrightarrow> ciq_positional_arguments R = None \<Longrightarrow>
     \<exists>supplied. supply_arguments (request_sources R) [] = Inr supplied \<and>
       named_arguments P S (ciq_address_names R) (sfn_inputs f) supplied = Inr (args, [])"
  by (auto simp: resolve_arguments_def and_then_Inr)

lemma resolve_arguments_reviewed:
  assumes "resolve_arguments P S f R = Inr args"
  shows "list_all2 (reviewed_argument P S) (sfn_inputs f) args"
proof (cases "ciq_positional_arguments R")
  case None
  then show ?thesis using assms resolve_arguments_named named_arguments_reviewed by metis
next
  case (Some vs)
  then show ?thesis
    using assms by (auto simp: resolve_arguments_def dest: positional_arguments_reviewed split: if_splits)
qed

text \<open>An argument's name is the input's, or that with dashes for the underscores; no argument of a named call
  is left out.\<close>

definition kebab :: "string \<Rightarrow> string" where
  "kebab s = map (\<lambda>c. if c = CHR ''_'' then CHR ''-'' else c) s"

lemma supply_arguments_distinct:
  "supply_arguments sources m = Inr supplied \<Longrightarrow>
     distinct (map fst sources) \<and> dom (map_of supplied) = dom (map_of m) \<union> fst ` set sources \<and>
     (\<forall>n\<in>fst ` set sources. n \<notin> dom (map_of m))"
proof (induction sources m rule: supply_arguments.induct)
  case (2 name source rest m)
  from 2(2) have new: "map_of m name = None" and rest: "supply_arguments rest (btree_insert name source m) = Inr supplied"
    by (auto split: if_splits)
  note IH = 2(1) [OF _ rest]
  have "dom (map_of (btree_insert name source m)) = insert name (dom (map_of m))" by simp
  with IH new show ?case by (simp del: map_of_btree_insert fun_upd_apply dom_fun_upd) blast
qed simp

lemma remove_argument_dom:
  "remove_argument m n = (s, m') \<Longrightarrow> dom (map_of m) \<subseteq> dom (map_of m') \<union> {n, kebab n}"
  by (auto simp: remove_argument_def Let_def kebab_def split: option.splits if_splits)

lemma named_arguments_used:
  "named_arguments P S A inputs m = Inr (args, left) \<Longrightarrow>
     dom (map_of m) \<subseteq> dom (map_of left) \<union>
       (\<Union>i\<in>set inputs. {spl_sanitize P (sf_name i), kebab (spl_sanitize P (sf_name i))})"
proof (induction inputs arbitrary: m args left)
  case (Cons i inputs)
  let ?n = "spl_sanitize P (sf_name i)"
  obtain s m' where rem: "remove_argument m ?n = (s, m')" by (cases "remove_argument m ?n")
  have "\<exists>rest. named_arguments P S A inputs m' = Inr (rest, left)"
    using Cons.prems unfolding named_arguments.simps Let_def rem prod.case and_then_Inr map_ok_Inr
    by (auto split: prod.splits)
  then have "dom (map_of m') \<subseteq> dom (map_of left) \<union>
      (\<Union>i\<in>set inputs. {spl_sanitize P (sf_name i), kebab (spl_sanitize P (sf_name i))})"
    using Cons.IH by blast
  moreover have "A \<subseteq> B \<union> K \<Longrightarrow> B \<subseteq> C \<union> U \<Longrightarrow> A \<subseteq> C \<union> (K \<union> U)" for A B C K U :: "string set"
    by blast
  ultimately show ?case
    unfolding list.set UN_insert using remove_argument_dom [OF rem] by meson
qed simp

section \<open>Properties\<close>

text \<open>Resolving a call gives exactly what is reviewed. It invokes the requested contract and the function
  found under the requested name, with one argument for every input: a value of the input's declared type
  (by the typing relation), reviewed under the input's name and type with that value's own JSON and XDR.
  In a named call no two arguments have the same name and none is ignored: every name given is an input's.\<close>

theorem resolved_call_is_typed_and_reviewed:
  assumes "resolve_request P entries R = Inr (req, reviews)"
  shows "\<exists>f. find_function P (spl_spec_new P entries) (ciq_function_name R) = Inr f \<and>
    siq_contract_id req = ciq_contract_id R \<and> siq_function_name req = sfn_name f \<and> siq_wallet req = ciq_wallet R \<and>
    length (siq_args req) = length reviews \<and>
    list_all2 (reviewed_argument P (spl_spec_new P entries)) (sfn_inputs f) (zip (siq_args req) reviews) \<and>
    (ciq_positional_arguments R = None \<longrightarrow>
       distinct (map fst (request_sources R)) \<and>
       (\<forall>n\<in>fst ` set (request_sources R). \<exists>i\<in>set (sfn_inputs f).
          n = spl_sanitize P (sf_name i) \<or> n = kebab (spl_sanitize P (sf_name i))))"
proof -
  from assms obtain f args where f: "find_function P (spl_spec_new P entries) (ciq_function_name R) = Inr f"
    and args: "resolve_arguments P (spl_spec_new P entries) f R = Inr args"
    and req: "req = (soroban_invoke_request_new (ciq_contract_id R) (sfn_name f) (map fst args))
               \<lparr>siq_wallet := ciq_wallet R, siq_inclusion_fee_stroops := ciq_inclusion_fee_stroops R,
                siq_authorization_lifetime_ledgers := ciq_authorization_lifetime_ledgers R\<rparr>"
    and reviews: "reviews = map snd args"
    by (auto simp: resolve_request_def Let_def and_then_Inr ensure_def split: if_splits)
  have zip: "zip (siq_args req) reviews = args"
    by (simp add: req reviews soroban_invoke_request_new_def zip_map_fst_snd)
  have "distinct (map fst (request_sources R)) \<and>
      (\<forall>n\<in>fst ` set (request_sources R). \<exists>i\<in>set (sfn_inputs f).
         n = spl_sanitize P (sf_name i) \<or> n = kebab (spl_sanitize P (sf_name i)))"
    if named: "ciq_positional_arguments R = None"
  proof -
    obtain supplied where s: "supply_arguments (request_sources R) [] = Inr supplied"
        "named_arguments P (spl_spec_new P entries) (ciq_address_names R) (sfn_inputs f) supplied = Inr (args, [])"
      using resolve_arguments_named [OF args named] by blast
    show ?thesis
      using supply_arguments_distinct [OF s(1)] named_arguments_used [OF s(2)] by auto
  qed
  with f resolve_arguments_reviewed [OF args] show ?thesis
    by (intro exI [of _ f]) (simp add: zip, simp add: req reviews soroban_invoke_request_new_def)
qed

end
