(* ===== verification/SorobanFlow.thy ===== *)
theory SorobanFlow
  imports SorobanTx
begin

text \<open>
  What holds of a Soroban transaction from its review to its end: the assembled transaction is the
  request's, only signatures of it change, nothing else is submitted, and polling ends.
\<close>

section \<open>What a signer may change\<close>

text \<open>\<open>resigned a b\<close>: \<open>b\<close> is \<open>a\<close>, at most with another signature in a direct credential.\<close>

definition resigned :: "soroban_entry \<Rightarrow> soroban_entry \<Rightarrow> bool" where
  "resigned a b \<longleftrightarrow> b = a \<or> (\<exists>v. b = a\<lparr>sae_credentials := with_direct_signature v (sae_credentials a)\<rparr>)"

lemma set_signature_void_Inr:
  "set_signature_void a = Inr b \<longleftrightarrow> direct_credentials (sae_credentials a) \<noteq> None \<and>
     b = a\<lparr>sae_credentials := with_direct_signature ScVoid (sae_credentials a)\<rparr>"
  by (cases "sae_credentials a") (auto simp: set_signature_void_def)

lemma same_but_signature:
  assumes "with_direct_signature ScVoid c = with_direct_signature ScVoid d"
    and "direct_credentials c \<noteq> None" "direct_credentials d \<noteq> None"
  shows "\<exists>v. d = with_direct_signature v c"
proof -
  have same: "b = a\<lparr>sac_signature := sac_signature b\<rparr>"
    if "a\<lparr>sac_signature := ScVoid\<rparr> = b\<lparr>sac_signature := ScVoid\<rparr>" for a b :: soroban_address_credentials
  proof -
    from that have "(a\<lparr>sac_signature := ScVoid\<rparr>)\<lparr>sac_signature := sac_signature b\<rparr> =
      (b\<lparr>sac_signature := ScVoid\<rparr>)\<lparr>sac_signature := sac_signature b\<rparr>" by simp
    then show ?thesis by simp
  qed
  from assms show ?thesis
  proof (cases c; cases d)
    fix a b
    assume "c = CredAddress a" "d = CredAddress b"
    with assms(1) same [of a b] show ?thesis by (intro exI [of _ "sac_signature b"]) simp
  next
    fix a b
    assume "c = CredAddressV2 a" "d = CredAddressV2 b"
    with assms(1) same [of a b] show ?thesis by (intro exI [of _ "sac_signature b"]) simp
  qed auto
qed

lemma validate_signed_authorization_Inr:
  assumes "validate_signed_authorization a b = Inr ()"
  shows "a \<noteq> b" "\<exists>v. b = a\<lparr>sae_credentials := with_direct_signature v (sae_credentials a)\<rparr>"
proof -
  from assms have ne: "a \<noteq> b" and direct: "direct_credentials (sae_credentials a) \<noteq> None"
      "direct_credentials (sae_credentials b) \<noteq> None"
    and same: "a\<lparr>sae_credentials := with_direct_signature ScVoid (sae_credentials a)\<rparr> =
      b\<lparr>sae_credentials := with_direct_signature ScVoid (sae_credentials b)\<rparr>"
    by (auto simp: validate_signed_authorization_def and_then_Inr set_signature_void_Inr split: if_splits)
  from same have "with_direct_signature ScVoid (sae_credentials a) = with_direct_signature ScVoid (sae_credentials b)"
      "sae_root_invocation a = sae_root_invocation b"
    by (cases a; cases b; simp)+
  with same_but_signature direct obtain v where "sae_credentials b = with_direct_signature v (sae_credentials a)"
    by blast
  with \<open>sae_root_invocation a = sae_root_invocation b\<close> have
    "b = a\<lparr>sae_credentials := with_direct_signature v (sae_credentials a)\<rparr>" by (cases a; cases b) simp
  with ne show "a \<noteq> b" "\<exists>v. b = a\<lparr>sae_credentials := with_direct_signature v (sae_credentials a)\<rparr>" by blast+
qed

lemma authorize_entry_resigned:
  assumes "authorize_entry B network signers sa passcode a = Inr b"
  shows "resigned a b"
proof (cases "sae_credentials a")
  case CredSourceAccount
  with assms show ?thesis by (simp add: authorize_entry_def resigned_def)
next
  case (CredAddress c)
  with assms have "validate_signed_authorization a b = Inr ()"
    by (auto simp: authorize_entry_def and_then_Inr Let_def split: if_splits)
  from validate_signed_authorization_Inr(2) [OF this] show ?thesis by (simp add: resigned_def)
next
  case (CredAddressV2 c)
  with assms have "validate_signed_authorization a b = Inr ()"
    by (auto simp: authorize_entry_def and_then_Inr Let_def split: if_splits)
  from validate_signed_authorization_Inr(2) [OF this] show ?thesis by (simp add: resigned_def)
qed (use assms in \<open>simp add: authorize_entry_def\<close>)

lemma authorize_entries_resigned:
  assumes "collect_ok (map (authorize_entry B network signers sa passcode) es) = Inr es'"
  shows "list_all2 resigned es es'"
  using assms unfolding collect_ok_Inr list_all2_map1
  by (auto intro: list_all2_mono authorize_entry_resigned)

section \<open>The life of a prepared transaction\<close>

text \<open>
  Between two calls the program that uses the library may write the public fields of the prepared
  transaction as it likes; signing and authorizing run with any storage, clock, passphrase and
  providers.
\<close>

inductive soroban_step :: "sdk_libs \<Rightarrow> prepared_soroban \<Rightarrow> prepared_soroban \<Rightarrow> bool" for B where
  authorized: "authorize_prepared_soroban_with_system_auth B env disk passcode sas p = (r, p') \<Longrightarrow> soroban_step B p p'"
| signed: "sign_prepared_soroban_with_providers B env disk fetch now passcode sas xs p = (r, p') \<Longrightarrow> soroban_step B p p'"
| edited: "soroban_step B p (p\<lparr>ps_envelope := e, ps_review := v\<rparr>)"

text \<open>\<open>authorizes L p e'\<close>: \<open>e'\<close> is an envelope with the reviewed encoding and hash, with its authorization
  entries signed.\<close>

definition authorizes :: "stellar_lib \<Rightarrow> prepared_soroban \<Rightarrow> envelope \<Rightarrow> bool" where
  "authorizes L p e' \<longleftrightarrow>
     (\<exists>e network es es'. transaction_xdr_bytes L e = Inr (ps_reviewed_xdr p) \<and>
        transaction_hash_bytes L e network = Inr (ps_reviewed_hash p) \<and>
        invoke_auth_entries e = Inr es \<and> list_all2 resigned es es' \<and> replace_invoke_auth_entries e es' = Inr e')"

definition soroban_bound :: "stellar_lib \<Rightarrow> prepared_soroban \<Rightarrow> bool" where
  "soroban_bound L p \<longleftrightarrow>
     (case ps_authorized_xdr p of
        None \<Rightarrow> ps_authorized_hash p = None \<and> \<not> ps_signing_complete p
      | Some x \<Rightarrow> \<exists>e'. authorizes L p e' \<and> transaction_xdr_bytes L e' = Inr x \<and>
          (ps_authorized_hash p \<noteq> None \<or> ps_signing_complete p \<longrightarrow>
            (\<exists>network. transaction_hash_bytes L e' network = Inr (signing_transaction_hash p))))"

definition xdr_injective :: "stellar_lib \<Rightarrow> bool" where
  "xdr_injective L \<longleftrightarrow>
     (\<forall>e e' b. envelope_to_xdr L e = Inr b \<longrightarrow> envelope_to_xdr L e' = Inr b \<longrightarrow> e = e')"

lemma xdr_injectiveD:
  "xdr_injective L \<Longrightarrow> transaction_xdr_bytes L e = Inr b \<Longrightarrow> transaction_xdr_bytes L e' = Inr b \<Longrightarrow> e = e'"
  unfolding xdr_injective_def transaction_xdr_bytes_def transaction_envelope_xdr_def map_err_Inr by blast

lemma soroban_review_binding_Inr:
  "soroban_review_binding L p = Inr () \<longleftrightarrow>
     transaction_xdr_bytes L (ps_envelope p) =
       Inr (case ps_authorized_xdr p of Some x \<Rightarrow> x | None \<Rightarrow> ps_reviewed_xdr p) \<and>
     transaction_hash_bytes L (ps_envelope p) (sv_network (ps_review p)) = Inr (signing_transaction_hash p)"
  by (auto simp: soroban_review_binding_def and_then_Inr Let_def)

lemma soroban_submit_binding_Inr:
  "soroban_submit_binding L p = Inr () \<longleftrightarrow>
     transaction_hash_bytes L (ps_envelope p) (sv_network (ps_review p)) = Inr (signing_transaction_hash p)"
  by (auto simp: soroban_submit_binding_def and_then_Inr)

text \<open>What the two operations leave behind, whatever they return.\<close>

lemma authorize_prepared_cases:
  assumes "authorize_prepared_soroban_with_system_auth B env disk passcode sas p = (r, p')"
  obtains "p' = p"
  | e es es' x where "soroban_review_binding (lib_stellar B) p = Inr ()" "ps_authorized_xdr p = None"
      "invoke_auth_entries (ps_envelope p) = Inr es" "list_all2 resigned es es'"
      "replace_invoke_auth_entries (ps_envelope p) es' = Inr e"
      "bind_authorized_envelope (lib_stellar B) (p\<lparr>ps_envelope := e\<rparr>) = (x, p')"
proof -
  let ?c = "and_then (soroban_review_binding (lib_stellar B) p) (\<lambda>_.
           and_then (ensure (ps_authorized_xdr p = None) ''Soroban authorization has already been applied'') (\<lambda>_.
           and_then (local_signing_records (lib_stellar B) env disk (sv_network (ps_review p))) (\<lambda>signers.
           and_then (system_auth_provider_map signers sas Map.empty) (\<lambda>system_auth.
           and_then (invoke_auth_entries (ps_envelope p)) (\<lambda>entries.
           and_then (ensure (length entries = sv_auth_entry_count (ps_review p))
               ''Soroban authorization entry count changed after review'') (\<lambda>_.
           and_then (collect_ok (map (authorize_entry B (sv_network (ps_review p)) signers system_auth passcode) entries)) (\<lambda>entries.
             replace_invoke_auth_entries (ps_envelope p) entries)))))))"
  show thesis
  proof (cases ?c)
    case (Inl error)
    have "(r, p') = (Inl error, p)"
      using assms unfolding authorize_prepared_soroban_with_system_auth_def Let_def Inl by simp
    with that(1) show thesis by simp
  next
    case (Inr e)
    from Inr obtain signers sa es es' where k: "soroban_review_binding (lib_stellar B) p = Inr ()" "ps_authorized_xdr p = None"
      "invoke_auth_entries (ps_envelope p) = Inr es"
      "collect_ok (map (authorize_entry B (sv_network (ps_review p)) signers sa passcode) es) = Inr es'"
      "replace_invoke_auth_entries (ps_envelope p) es' = Inr e"
      unfolding and_then_Inr ensure_Inr by auto
    obtain x q where bind: "bind_authorized_envelope (lib_stellar B) (p\<lparr>ps_envelope := e\<rparr>) = (x, q)" by fastforce
    with assms Inr have "p' = q"
      by (auto simp: authorize_prepared_soroban_with_system_auth_def Let_def split: sum.splits)
    with that(2) [OF k(1-3) authorize_entries_resigned [OF k(4)] k(5)] bind show thesis by blast
  qed
qed

lemma sign_prepared_cases:
  assumes "sign_prepared_soroban_with_providers B env disk fetch now passcode sas xs p = (r, p')"
  obtains e where "p' = p\<lparr>ps_envelope := e\<rparr>" "r \<noteq> Inr ()"
  | e where "p' = p\<lparr>ps_envelope := e, ps_signing_complete := True\<rparr>" "ps_authorized_xdr p \<noteq> None"
      "soroban_review_binding (lib_stellar B) p = Inr ()"
      "soroban_submit_binding (lib_stellar B) (p\<lparr>ps_envelope := e\<rparr>) = Inr ()"
proof -
  let ?c = "and_then (ensure (ps_authorized_xdr p \<noteq> None)
             ''Authorize the reviewed Soroban transaction before envelope signing'') (\<lambda>_.
           and_then (ensure (\<not> ps_signing_complete p)
             ''Soroban transaction envelope signing has already completed'') (\<lambda>_.
           and_then (soroban_review_binding (lib_stellar B) p) (\<lambda>_.
           and_then (ensure_transaction_not_expired now (ps_envelope p)) (\<lambda>_.
             load_plan_with (lib_stellar B) (ps_envelope p) fetch))))"
  show thesis
  proof (cases ?c)
    case (Inl error)
    have "(r, p') = (Inl error, p)"
      using assms unfolding sign_prepared_soroban_with_providers_def Let_def Inl by simp
    with that(1) [of "ps_envelope p"] show thesis by simp
  next
    case (Inr plan)
    then have k: "ps_authorized_xdr p \<noteq> None" "soroban_review_binding (lib_stellar B) p = Inr ()"
      unfolding and_then_Inr ensure_Inr by auto
    obtain x e where sign: "sign_with_ed25519_providers B env disk plan (sv_network (ps_review p)) passcode sas xs (ps_envelope p) = (x, e)"
      by fastforce
    let ?p = "p\<lparr>ps_envelope := e\<rparr>"
    have out: "(r, p') = (case x of Inl error \<Rightarrow> (Inl error, ?p)
        | Inr _ \<Rightarrow> (case soroban_submit_binding (lib_stellar B) ?p of
            Inl error \<Rightarrow> (Inl error, ?p) | Inr _ \<Rightarrow> (Inr (), ?p\<lparr>ps_signing_complete := True\<rparr>)))"
      using assms unfolding sign_prepared_soroban_with_providers_def Let_def Inr sum.case sign prod.case by (cases x) auto
    show thesis
    proof (cases "x = Inr () \<and> soroban_submit_binding (lib_stellar B) ?p = Inr ()")
      case True
      with out that(2) [of e] k show thesis by simp
    next
      case False
      with out that(1) [of e] show thesis by (auto split: sum.splits)
    qed
  qed
qed

lemma bind_authorized_cases:
  assumes "bind_authorized_envelope L p = (r, p')"
  obtains "p' = p"
  | x where "transaction_xdr_bytes L (ps_envelope p) = Inr x" "p' = p\<lparr>ps_authorized_xdr := Some x\<rparr>"
  | x h where "transaction_xdr_bytes L (ps_envelope p) = Inr x"
      "transaction_hash_bytes L (ps_envelope p) (sv_network (ps_review p)) = Inr h"
      "p' = p\<lparr>ps_authorized_xdr := Some x, ps_authorized_hash := Some h\<rparr>"
  using assms by (auto simp: bind_authorized_envelope_def Let_def split: sum.splits)

lemma signing_hash_fields [simp]:
  "signing_transaction_hash (p\<lparr>ps_envelope := e\<rparr>) = signing_transaction_hash p"
  "signing_transaction_hash (p\<lparr>ps_review := v\<rparr>) = signing_transaction_hash p"
  "signing_transaction_hash (p\<lparr>ps_authorized_xdr := x\<rparr>) = signing_transaction_hash p"
  "signing_transaction_hash (p\<lparr>ps_signing_complete := c\<rparr>) = signing_transaction_hash p"
  "signing_transaction_hash (p\<lparr>ps_authorized_hash := Some h\<rparr>) = h"
  by (simp_all add: signing_transaction_hash_def split: option.split)

lemma authorizes_fields [simp]:
  "authorizes L (p\<lparr>ps_envelope := e\<rparr>) = authorizes L p"
  "authorizes L (p\<lparr>ps_review := v\<rparr>) = authorizes L p"
  "authorizes L (p\<lparr>ps_authorized_xdr := x\<rparr>) = authorizes L p"
  "authorizes L (p\<lparr>ps_signing_complete := c\<rparr>) = authorizes L p"
  "authorizes L (p\<lparr>ps_authorized_hash := h\<rparr>) = authorizes L p"
  by (simp_all add: authorizes_def fun_eq_iff)

lemma soroban_step_bound:
  assumes "soroban_step B p p'" "soroban_bound (lib_stellar B) p" "xdr_injective (lib_stellar B)"
  shows "soroban_bound (lib_stellar B) p' \<and> ps_reviewed_xdr p' = ps_reviewed_xdr p \<and> ps_reviewed_hash p' = ps_reviewed_hash p"
  using assms(1)
proof cases
  case (authorized env disk passcode sas r)
  then show ?thesis
  proof (rule authorize_prepared_cases, goal_cases)
    case 1
    then show ?case using assms(2) by simp
  next
    case (2 e es es' x)
    from 2(1,2) assms(2) have none: "ps_authorized_hash p = None" "\<not> ps_signing_complete p"
      and now: "transaction_xdr_bytes (lib_stellar B) (ps_envelope p) = Inr (ps_reviewed_xdr p)"
        "transaction_hash_bytes (lib_stellar B) (ps_envelope p) (sv_network (ps_review p)) = Inr (ps_reviewed_hash p)"
      by (auto simp: soroban_bound_def soroban_review_binding_Inr signing_transaction_hash_def)
    have auth: "authorizes (lib_stellar B) p e" unfolding authorizes_def using now 2(3-5) by blast
    from 2(6) show ?case
      by (rule bind_authorized_cases) (use assms(2) 2(2) none auth in \<open>auto simp: soroban_bound_def\<close>)
  qed
next
  case (signed env disk fetch now passcode sas xs r)
  then show ?thesis
  proof (rule sign_prepared_cases, goal_cases)
    case (1 e)
    then show ?case using assms(2) by (simp add: soroban_bound_def split: option.splits)
  next
    case (2 e)
    from 2(2) obtain x where x: "ps_authorized_xdr p = Some x" by blast
    with assms(2) obtain e' where e': "authorizes (lib_stellar B) p e'" "transaction_xdr_bytes (lib_stellar B) e' = Inr x"
      by (auto simp: soroban_bound_def)
    from 2(3) x have now: "transaction_xdr_bytes (lib_stellar B) (ps_envelope p) = Inr x"
      "transaction_hash_bytes (lib_stellar B) (ps_envelope p) (sv_network (ps_review p)) = Inr (signing_transaction_hash p)"
      by (simp_all add: soroban_review_binding_Inr)
    from xdr_injectiveD [OF assms(3) now(1) e'(2)] have "ps_envelope p = e'" .
    with now(2) e' x 2(1) show ?case by (auto simp: soroban_bound_def)
  qed
next
  case (edited e v)
  then show ?thesis using assms(2) by (simp add: soroban_bound_def split: option.splits)
qed

lemma soroban_steps_bound:
  assumes "(soroban_step B)\<^sup>*\<^sup>* p p'" "soroban_bound (lib_stellar B) p" "xdr_injective (lib_stellar B)"
  shows "soroban_bound (lib_stellar B) p' \<and> ps_reviewed_xdr p' = ps_reviewed_xdr p \<and> ps_reviewed_hash p' = ps_reviewed_hash p"
  using assms(1)
proof (induction rule: rtranclp_induct)
  case (step q q')
  with soroban_step_bound [OF step(2) _ assms(3)] show ?case by simp
qed (use assms(2) in simp)

section \<open>Polling and submission\<close>

lemma poll_submission_found:
  assumes "n < submission_poll_attempts" "transaction_status G n h \<noteq> Inr StatusNotFound"
    and "\<forall>k. a \<le> k \<and> k < n \<longrightarrow> transaction_status G k h = Inr StatusNotFound" "a \<le> n"
  shows "poll_submission penv G p h a d = poll_submission penv G p h n d"
  using assms(3,4)
proof (induction "n - a" arbitrary: a)
  case (Suc m)
  then have "a < n" by simp
  moreover have "poll_submission penv G p h (a + 1) d = poll_submission penv G p h n d"
    using Suc \<open>a < n\<close> by (intro Suc.hyps(1)) auto
  ultimately show ?case
    using Suc.prems(1) assms(1) by (subst poll_submission.simps) auto
qed simp

lemma poll_submission_never:
  assumes "\<forall>k. a \<le> k \<and> k < submission_poll_attempts \<longrightarrow> transaction_status G k h = Inr StatusNotFound"
    and "a < submission_poll_attempts"
  shows "poll_submission penv G p h a d =
    remember_uncertain penv p h ''Stellar RPC did not report a terminal transaction status in time'' d"
  using assms
proof (induction "submission_poll_attempts - a" arbitrary: a)
  case (Suc m)
  show ?case
  proof (cases "a + 1 < submission_poll_attempts")
    case True
    with Suc have "poll_submission penv G p h (a + 1) d =
      remember_uncertain penv p h ''Stellar RPC did not report a terminal transaction status in time'' d"
      by (intro Suc.hyps(1)) auto
    with True Suc.prems show ?thesis by (subst poll_submission.simps) auto
  qed (use Suc.prems in \<open>subst poll_submission.simps; auto\<close>)
qed simp

text \<open>The outcome of one request, when it decides.\<close>

fun polled_outcome ::
  "pending_env \<Rightarrow> prepared_soroban \<Rightarrow> string \<Rightarrow> rpc_transaction_status result \<Rightarrow> pending_disk
     \<Rightarrow> transaction_submission result \<times> pending_disk" where
  "polled_outcome penv p h (Inr (StatusSuccess ledger)) d = (Inr \<lparr>ts_hash = h, ts_ledger = ledger\<rparr>, d)"
| "polled_outcome penv p h (Inr (StatusFailed ledger details)) d =
     (Inl (''Soroban transaction failed ('' @ h @ ''): '' @ details), d)"
| "polled_outcome penv p h (Inr StatusNotFound) d =
     remember_uncertain penv p h ''Stellar RPC did not report a terminal transaction status in time'' d"
| "polled_outcome penv p h (Inl message) d = remember_uncertain penv p h message d"

lemma poll_submission_decided:
  assumes "n < submission_poll_attempts" "transaction_status G n h \<noteq> Inr StatusNotFound"
  shows "poll_submission penv G p h n d = polled_outcome penv p h (transaction_status G n h) d"
  using assms
  by (subst poll_submission.simps)
    (cases "transaction_status G n h" rule: sum.exhaust; auto split: rpc_transaction_status.split)

lemma poll_submission_ends:
  "\<exists>n < submission_poll_attempts. (\<forall>k < n. transaction_status G k h = Inr StatusNotFound) \<and>
     (transaction_status G n h = Inr StatusNotFound \<longrightarrow> n + 1 = submission_poll_attempts) \<and>
     poll_submission penv G p h 0 d = polled_outcome penv p h (transaction_status G n h) d"
proof (cases "\<exists>n < submission_poll_attempts. transaction_status G n h \<noteq> Inr StatusNotFound")
  case True
  define n where "n = (LEAST n. transaction_status G n h \<noteq> Inr StatusNotFound)"
  from True obtain m where m: "m < submission_poll_attempts" "transaction_status G m h \<noteq> Inr StatusNotFound" by blast
  have n: "transaction_status G n h \<noteq> Inr StatusNotFound" unfolding n_def
    by (rule LeastI [of "\<lambda>n. transaction_status G n h \<noteq> Inr StatusNotFound" m, OF m(2)])
  have lt: "n < submission_poll_attempts" using m Least_le [of "\<lambda>n. transaction_status G n h \<noteq> Inr StatusNotFound" m]
    by (simp add: n_def)
  have before: "\<forall>k < n. transaction_status G k h = Inr StatusNotFound" unfolding n_def by (auto dest: not_less_Least)
  have "poll_submission penv G p h 0 d = poll_submission penv G p h n d"
    using before by (intro poll_submission_found [OF lt n]) auto
  with poll_submission_decided [OF lt n] lt n before show ?thesis by (intro exI [of _ n]) simp
next
  case False
  then have all: "\<forall>k. k < submission_poll_attempts \<longrightarrow> transaction_status G k h = Inr StatusNotFound" by blast
  then have "transaction_status G 29 h = Inr StatusNotFound" by (simp add: submission_poll_attempts_def)
  with poll_submission_never [of 0 G h] all show ?thesis
    by (intro exI [of _ 29]) (simp add: submission_poll_attempts_def)
qed

lemma remember_uncertain_cases:
  assumes "remember_uncertain penv p h message d = (r, d')"
  obtains "isl r" "pending_remember penv (sv_network (ps_review p)) (sv_fee_payer (ps_review p)) h ''soroban'' d = (Inr (), d')"
  | e where "isl r" "pending_remember penv (sv_network (ps_review p)) (sv_fee_payer (ps_review p)) h ''soroban'' d = (Inl e, d')"
  using assms by (auto simp: remember_uncertain_def split: prod.splits sum.splits)

section \<open>What is assembled\<close>

definition expired :: "int \<Rightarrow> soroban_entry \<Rightarrow> soroban_entry" where
  "expired ledger e = e\<lparr>sae_credentials := update_address_credentials
     (\<lambda>c. c\<lparr>sac_signature_expiration_ledger := ledger\<rparr>) (sae_credentials e)\<rparr>"

definition detached_entries :: "soroban_entry list \<Rightarrow> soroban_entry list" where
  "detached_entries es = filter (\<lambda>e. address_credentials (sae_credentials e) \<noteq> None) es"

definition unsigned_entry :: "soroban_entry \<Rightarrow> bool" where
  "unsigned_entry e \<longleftrightarrow>
     (case address_credentials (sae_credentials e) of Some c \<Rightarrow> sac_signature c = ScVoid | None \<Rightarrow> True)"

lemma expired_source_account: "address_credentials (sae_credentials e) = None \<Longrightarrow> expired ledger e = e"
  by (cases "sae_credentials e"; cases e) (auto simp: expired_def)

lemma expire_entries_Inr:
  "expire_entries ledger es = Inr (es', n) \<longleftrightarrow>
     list_all unsigned_entry es \<and> es' = map (expired ledger) es \<and> n = length (detached_entries es)"
proof (induction es arbitrary: es' n)
  case (Cons e es)
  show ?case
  proof (cases "address_credentials (sae_credentials e)")
    case None
    then show ?thesis
      by (auto simp: and_then_Inr Cons.IH unsigned_entry_def detached_entries_def expired_source_account)
  next
    case (Some c)
    then show ?thesis
      by (auto simp: and_then_Inr Cons.IH unsigned_entry_def detached_entries_def) (auto simp: expired_def)
  qed
qed (auto simp: detached_entries_def)

lemma soroban_total_fee_Inr:
  "soroban_total_fee inclusion min_fee resource = Inr t \<longleftrightarrow>
     t = inclusion + min_fee \<and> 0 \<le> resource \<and> resource \<le> t \<and> in_u64 t \<and> in_u32 t"
  by (auto simp: soroban_total_fee_def Let_def)

lemma build_candidate_Inr:
  assumes "build_candidate_for_source B now account request sequence fee = Inr e"
  shows "\<exists>contract k. contract_from_string (lib_soroban B) (siq_contract_id request) = Some contract \<and>
    public_key_from_string (lib_stellar B) account = Some k \<and> length (siq_function_name request) \<le> 32 \<and>
    e = EnvTx \<lparr>tx_source = MuxEd25519 k, tx_fee = fee, tx_seq_num = sequence + 1,
      tx_cond = PrecondTime \<lparr>min_time = 0, max_time = nat (now + 300)\<rparr>, tx_memo = MemoNone,
      tx_operations = [\<lparr>op_source = None, op_body = InvokeHostFunctionOp (InvokeContract
         \<lparr>ic_contract_address = ScContractAddress contract, ic_function_name = bytes_of (siq_function_name request),
          ic_args = siq_args request\<rparr>) []\<rparr>], tx_ext = TxExtV0\<rparr> []"
  using assms
  by (auto simp: build_candidate_for_source_def and_then_Inr build_single_operation_envelope_def
      build_single_with_timeout_def build_single_with_memo_and_timeout_def build_Inr text_memo_def
      default_classic_transaction_timeout_seconds_def split: if_splits)

lemma candidate_invocation_Inr:
  "candidate_invocation c = Inr (tx, operation, f) \<longleftrightarrow>
     c = EnvTx tx [] \<and> tx_operations tx = [operation] \<and> tx_ext tx = TxExtV0 \<and>
     op_body operation = InvokeHostFunctionOp f [] \<and> (\<exists>call. f = InvokeContract call)"
  by (auto simp: candidate_invocation_def length_Suc_conv split: envelope.splits if_splits operation_body.splits
      host_function.splits)

lemma validate_soroban_simulation_Inr:
  "validate_soroban_simulation sim = Inr () \<longleftrightarrow>
     sim_error sim = None \<and> \<not> sim_restore_preamble sim \<and> length (sim_results sim) = 1"
  by (auto simp: validate_soroban_simulation_def split: option.splits if_splits)

lemma assemble_Inr:
  assumes "assemble_reviewed_transaction B name network request candidate sim = Inr p"
  shows "\<exists>tx operation f simulated data res.
    candidate = EnvTx tx [] \<and> tx_operations tx = [operation] \<and> op_body operation = InvokeHostFunctionOp f [] \<and>
    sim_error sim = None \<and> \<not> sim_restore_preamble sim \<and> sim_results sim = [res] \<and>
    collect_ok (map (decode_simulated_entry B) (hfr_auth res)) = Inr simulated \<and> list_all unsigned_entry simulated \<and>
    sim_transaction_data sim = Inr data \<and> 0 \<le> std_resource_fee data \<and>
    std_resource_fee data \<le> tx_fee tx + sim_min_resource_fee sim \<and> in_u32 (tx_fee tx + sim_min_resource_fee sim) \<and>
    in_u32 (sim_latest_ledger sim + siq_authorization_lifetime_ledgers request) \<and>
    ps_envelope p = EnvTx (tx\<lparr>tx_operations := [operation\<lparr>op_body := InvokeHostFunctionOp f
        (map (expired (sim_latest_ledger sim + siq_authorization_lifetime_ledgers request)) simulated)\<rparr>],
      tx_fee := tx_fee tx + sim_min_resource_fee sim, tx_ext := TxExtV1 data\<rparr>) [] \<and>
    sv_contract_id (ps_review p) = siq_contract_id request \<and> sv_function_name (ps_review p) = siq_function_name request \<and>
    sv_argument_count (ps_review p) = length (siq_args request) \<and> sv_auth_entry_count (ps_review p) = length simulated \<and>
    sv_total_fee_stroops (ps_review p) = tx_fee tx + sim_min_resource_fee sim \<and>
    sv_resource_fee_stroops (ps_review p) = std_resource_fee data \<and> sv_inclusion_fee_stroops (ps_review p) = tx_fee tx \<and>
    sv_authorization_expiration_ledger (ps_review p) =
      (if detached_entries simulated = [] then None
       else Some (sim_latest_ledger sim + siq_authorization_lifetime_ledgers request)) \<and>
    sv_network (ps_review p) = network \<and> sv_wallet_name (ps_review p) = name \<and>
    sv_fee_payer (ps_review p) = muxed_account_string (lib_stellar B) (tx_source tx) \<and>
    transaction_xdr_bytes (lib_stellar B) (ps_envelope p) = Inr (ps_reviewed_xdr p) \<and>
    transaction_hash_bytes (lib_stellar B) (ps_envelope p) network = Inr (ps_reviewed_hash p) \<and>
    sv_transaction_hash (ps_review p) = hex (ps_reviewed_hash p) \<and>
    ps_authorized_xdr p = None \<and> ps_authorized_hash p = None \<and> \<not> ps_signing_complete p"
proof -
  let ?L = "lib_stellar B" and ?ledger = "sim_latest_ledger sim + siq_authorization_lifetime_ledgers request"
  from assms obtain u tx operation f os simulated auth n data total authorizers types xdr h payer entries where
    v: "validate_soroban_simulation sim = Inr u" and c: "candidate_invocation candidate = Inr (tx, operation, f)"
    and d: "collect_ok (map (decode_simulated_entry B) (hfr_auth (sim_results sim ! 0))) = Inr simulated"
    and l: "in_u32 ?ledger" and x: "expire_entries ?ledger simulated = Inr (auth, n)"
    and data: "sim_transaction_data sim = Inr data"
    and t: "soroban_total_fee (tx_fee tx) (sim_min_resource_fee sim) (std_resource_fee data) = Inr total"
    and e: "transaction_xdr_bytes ?L (EnvTx (tx\<lparr>tx_operations := [operation\<lparr>op_body := InvokeHostFunctionOp f auth\<rparr>],
           tx_fee := total, tx_ext := TxExtV1 data\<rparr>) []) = Inr xdr"
      "transaction_hash_bytes ?L (EnvTx (tx\<lparr>tx_operations := [operation\<lparr>op_body := InvokeHostFunctionOp f auth\<rparr>],
           tx_fee := total, tx_ext := TxExtV1 data\<rparr>) []) network = Inr h"
      "transaction_source_string ?L (EnvTx (tx\<lparr>tx_operations := [operation\<lparr>op_body := InvokeHostFunctionOp f auth\<rparr>],
           tx_fee := total, tx_ext := TxExtV1 data\<rparr>) []) = Inr payer"
      "invoke_auth_entries (EnvTx (tx\<lparr>tx_operations := [operation\<lparr>op_body := InvokeHostFunctionOp f auth\<rparr>],
           tx_fee := total, tx_ext := TxExtV1 data\<rparr>) []) = Inr entries"
    and p: "p = \<lparr>ps_envelope = EnvTx (tx\<lparr>tx_operations := [operation\<lparr>op_body := InvokeHostFunctionOp f auth\<rparr>],
           tx_fee := total, tx_ext := TxExtV1 data\<rparr>) [],
            ps_review = \<lparr>sv_wallet_name = name, sv_fee_payer = payer,
              sv_operation_source = os, sv_contract_id = siq_contract_id request,
              sv_function_name = siq_function_name request, sv_argument_count = length (siq_args request),
              sv_authorizers = authorizers, sv_credential_types = types,
              sv_auth_entry_count = length entries, sv_total_fee_stroops = total,
              sv_resource_fee_stroops = std_resource_fee data,
              sv_inclusion_fee_stroops = tx_fee tx, sv_min_resource_fee_stroops = sim_min_resource_fee sim,
              sv_simulation_ledger = sim_latest_ledger sim,
              sv_authorization_expiration_ledger = (if 0 < n then Some ?ledger else None),
              sv_network = network, sv_transaction_hash = hex h\<rparr>,
            ps_reviewed_xdr = xdr, ps_reviewed_hash = h, ps_authorized_xdr = None,
            ps_authorized_hash = None, ps_signing_complete = False\<rparr>"
    unfolding assemble_reviewed_transaction_def Let_def and_then_Inr split_paired_Ex prod.case ensure_Inr map_err_Inr sum.inject
    by blast
  from v obtain res where res: "sim_results sim = [res]" and sim: "sim_error sim = None" "\<not> sim_restore_preamble sim"
    by (auto simp: validate_soroban_simulation_Inr length_Suc_conv)
  from c have tx: "candidate = EnvTx tx []" "tx_operations tx = [operation]" "op_body operation = InvokeHostFunctionOp f []"
    by (simp_all add: candidate_invocation_Inr)
  from x have auth: "list_all unsigned_entry simulated" "auth = map (expired ?ledger) simulated"
    "n = length (detached_entries simulated)" by (simp_all add: expire_entries_Inr)
  from t have total: "total = tx_fee tx + sim_min_resource_fee sim" "0 \<le> std_resource_fee data"
    "std_resource_fee data \<le> tx_fee tx + sim_min_resource_fee sim" "in_u32 (tx_fee tx + sim_min_resource_fee sim)"
    by (auto simp: soroban_total_fee_Inr)
  from e(3,4) have "payer = muxed_account_string ?L (tx_source tx)" "entries = auth"
    by (simp_all add: transaction_source_string_def invoke_auth_entries_def)
  with p e(1,2) tx res sim d data l auth total show ?thesis
    by (intro exI [of _ tx] exI [of _ operation] exI [of _ f] exI [of _ simulated] exI [of _ data] exI [of _ res])
      simp
qed

section \<open>Properties\<close>

text \<open>C25. Polling a submitted Soroban transaction always ends, after at most thirty requests: it stops at
  the first answer that is not ''not found'' and reports that answer (success with its ledger, failure
  with its details, an unreadable answer as uncertain); thirty answers of ''not found'' end it as
  uncertain. The loop never runs off its end.\<close>

theorem soroban_polling_ends:
  "\<exists>n < 30. (\<forall>k < n. transaction_status G k h = Inr StatusNotFound) \<and>
     (transaction_status G n h = Inr StatusNotFound \<longrightarrow> n = 29) \<and>
     poll_submission penv G p h 0 d =
       (case transaction_status G n h of
          Inr (StatusSuccess ledger) \<Rightarrow> (Inr \<lparr>ts_hash = h, ts_ledger = ledger\<rparr>, d)
        | Inr (StatusFailed _ details) \<Rightarrow> (Inl (''Soroban transaction failed ('' @ h @ ''): '' @ details), d)
        | Inr StatusNotFound \<Rightarrow>
            remember_uncertain penv p h ''Stellar RPC did not report a terminal transaction status in time'' d
        | Inl message \<Rightarrow> remember_uncertain penv p h message d)"
proof -
  obtain n where n: "n < submission_poll_attempts" "\<forall>k < n. transaction_status G k h = Inr StatusNotFound"
    "transaction_status G n h = Inr StatusNotFound \<longrightarrow> n + 1 = submission_poll_attempts"
    "poll_submission penv G p h 0 d = polled_outcome penv p h (transaction_status G n h) d"
    using poll_submission_ends by blast
  have "polled_outcome penv p h x d =
       (case x of
          Inr (StatusSuccess ledger) \<Rightarrow> (Inr \<lparr>ts_hash = h, ts_ledger = ledger\<rparr>, d)
        | Inr (StatusFailed _ details) \<Rightarrow> (Inl (''Soroban transaction failed ('' @ h @ ''): '' @ details), d)
        | Inr StatusNotFound \<Rightarrow>
            remember_uncertain penv p h ''Stellar RPC did not report a terminal transaction status in time'' d
        | Inl message \<Rightarrow> remember_uncertain penv p h message d)" for x
    by (cases x) (auto split: rpc_transaction_status.split)
  with n show ?thesis by (intro exI [of _ n]) (auto simp: submission_poll_attempts_def)
qed


text \<open>A prepared Soroban transaction is the requested call and nothing else: one operation of the selected
  wallet, with no source of its own, that calls the requested function of the requested contract with
  the requested arguments; its authorization entries are the simulated ones, unsigned, with the
  expiration ledger that the request's lifetime gives after the simulated ledger; the inclusion fee is
  the requested or the network's (100 stroops at least), the total is that plus the simulated minimum
  resource fee, fits 32 bits and covers the resource fee; and the review shows these values.\<close>

theorem prepared_soroban_is_requested:
  assumes "prepare_soroban_invoke B env disk penv G now request pd = (Inr p, pd')"
  shows "\<exists>r contract k sequence fee sim res simulated data ledger call.
    resolve_network_wallet (lib_stellar B) env disk (rg_network G) (siq_wallet request) = Inr r \<and>
    contract_from_string (lib_soroban B) (siq_contract_id request) = Some contract \<and>
    public_key_from_string (lib_stellar B) (wr_address r) = Some k \<and>
    rpc_account_sequence G (wr_address r) = Inr sequence \<and>
    (case siq_inclusion_fee_stroops request of Some f \<Rightarrow> fee = f | None \<Rightarrow> default_soroban_inclusion_fee G = Inr fee) \<and>
    100 \<le> fee \<and> sim_error sim = None \<and> sim_results sim = [res] \<and> sim_transaction_data sim = Inr data \<and>
    collect_ok (map (decode_simulated_entry B) (hfr_auth res)) = Inr simulated \<and> list_all unsigned_entry simulated \<and>
    ledger = sim_latest_ledger sim + siq_authorization_lifetime_ledgers request \<and> in_u32 ledger \<and>
    in_u32 (fee + sim_min_resource_fee sim) \<and> 0 \<le> std_resource_fee data \<and>
    std_resource_fee data \<le> fee + sim_min_resource_fee sim \<and>
    call = InvokeContract \<lparr>ic_contract_address = ScContractAddress contract,
      ic_function_name = bytes_of (siq_function_name request), ic_args = siq_args request\<rparr> \<and>
    simulate_transaction G (EnvTx \<lparr>tx_source = MuxEd25519 k, tx_fee = fee, tx_seq_num = sequence + 1,
      tx_cond = PrecondTime \<lparr>min_time = 0, max_time = nat (now + 300)\<rparr>, tx_memo = MemoNone,
      tx_operations = [\<lparr>op_source = None, op_body = InvokeHostFunctionOp call []\<rparr>], tx_ext = TxExtV0\<rparr> []) = Inr sim \<and>
    ps_envelope p = EnvTx \<lparr>tx_source = MuxEd25519 k, tx_fee = fee + sim_min_resource_fee sim, tx_seq_num = sequence + 1,
      tx_cond = PrecondTime \<lparr>min_time = 0, max_time = nat (now + 300)\<rparr>, tx_memo = MemoNone,
      tx_operations = [\<lparr>op_source = None, op_body = InvokeHostFunctionOp call (map (expired ledger) simulated)\<rparr>],
      tx_ext = TxExtV1 data\<rparr> [] \<and>
    sv_contract_id (ps_review p) = siq_contract_id request \<and> sv_function_name (ps_review p) = siq_function_name request \<and>
    sv_argument_count (ps_review p) = length (siq_args request) \<and> sv_auth_entry_count (ps_review p) = length simulated \<and>
    sv_total_fee_stroops (ps_review p) = fee + sim_min_resource_fee sim \<and> sv_inclusion_fee_stroops (ps_review p) = fee \<and>
    sv_authorization_expiration_ledger (ps_review p) = (if detached_entries simulated = [] then None else Some ledger) \<and>
    sv_fee_payer (ps_review p) = public_key_to_string (lib_stellar B) k \<and> sv_network (ps_review p) = rg_network G"
proof -
  from assms obtain r where r: "resolve_network_wallet (lib_stellar B) env disk (rg_network G) (siq_wallet request) = Inr r"
    and rest: "and_then (rpc_account_sequence G (wr_address r)) (\<lambda>sequence.
                and_then (case siq_inclusion_fee_stroops request of
                    Some fee \<Rightarrow> if 100 \<le> fee then Inr fee
                      else Inl ''Soroban inclusion fee must be at least 100 stroops''
                  | None \<Rightarrow> default_soroban_inclusion_fee G) (\<lambda>inclusion_fee.
                and_then (build_candidate_for_source B now (wr_address r) request sequence inclusion_fee) (\<lambda>candidate.
                and_then (simulate_transaction G candidate) (\<lambda>sim.
                  assemble_reviewed_transaction B (wr_name r) (rg_network G) request candidate sim)))) = Inr p"
    by (auto simp: prepare_soroban_invoke_def and_then_Inr split: sum.splits prod.splits if_splits elim!: and_then.elims)
  from rest obtain sequence fee candidate sim where s: "rpc_account_sequence G (wr_address r) = Inr sequence"
    and fee: "(case siq_inclusion_fee_stroops request of Some fee \<Rightarrow> if 100 \<le> fee then Inr fee
         else Inl ''Soroban inclusion fee must be at least 100 stroops'' | None \<Rightarrow> default_soroban_inclusion_fee G) = Inr fee"
    and c: "build_candidate_for_source B now (wr_address r) request sequence fee = Inr candidate"
    and simulated: "simulate_transaction G candidate = Inr sim"
    and a: "assemble_reviewed_transaction B (wr_name r) (rg_network G) request candidate sim = Inr p"
    unfolding and_then_Inr by blast
  have fee': "case siq_inclusion_fee_stroops request of Some f \<Rightarrow> fee = f | None \<Rightarrow> default_soroban_inclusion_fee G = Inr fee"
      "100 \<le> fee"
    using fee default_soroban_inclusion_fee_range [of G fee] by (auto split: option.splits if_splits)
  from build_candidate_Inr [OF c] obtain contract k where ck:
    "contract_from_string (lib_soroban B) (siq_contract_id request) = Some contract"
    "public_key_from_string (lib_stellar B) (wr_address r) = Some k"
    and candidate: "candidate = EnvTx \<lparr>tx_source = MuxEd25519 k, tx_fee = fee, tx_seq_num = sequence + 1,
      tx_cond = PrecondTime \<lparr>min_time = 0, max_time = nat (now + 300)\<rparr>, tx_memo = MemoNone,
      tx_operations = [\<lparr>op_source = None, op_body = InvokeHostFunctionOp (InvokeContract
         \<lparr>ic_contract_address = ScContractAddress contract, ic_function_name = bytes_of (siq_function_name request),
          ic_args = siq_args request\<rparr>) []\<rparr>], tx_ext = TxExtV0\<rparr> []" by blast
  from assemble_Inr [OF a] obtain tx operation f simulated data res where
    k: "candidate = EnvTx tx []" "tx_operations tx = [operation]" "op_body operation = InvokeHostFunctionOp f []"
    and q: "sim_error sim = None" "sim_results sim = [res]"
      "collect_ok (map (decode_simulated_entry B) (hfr_auth res)) = Inr simulated" "list_all unsigned_entry simulated"
      "sim_transaction_data sim = Inr data" "0 \<le> std_resource_fee data"
      "std_resource_fee data \<le> tx_fee tx + sim_min_resource_fee sim" "in_u32 (tx_fee tx + sim_min_resource_fee sim)"
      "in_u32 (sim_latest_ledger sim + siq_authorization_lifetime_ledgers request)"
      "ps_envelope p = EnvTx (tx\<lparr>tx_operations := [operation\<lparr>op_body := InvokeHostFunctionOp f
        (map (expired (sim_latest_ledger sim + siq_authorization_lifetime_ledgers request)) simulated)\<rparr>],
      tx_fee := tx_fee tx + sim_min_resource_fee sim, tx_ext := TxExtV1 data\<rparr>) []"
    and v: "sv_contract_id (ps_review p) = siq_contract_id request" "sv_function_name (ps_review p) = siq_function_name request"
      "sv_argument_count (ps_review p) = length (siq_args request)" "sv_auth_entry_count (ps_review p) = length simulated"
      "sv_total_fee_stroops (ps_review p) = tx_fee tx + sim_min_resource_fee sim"
      "sv_inclusion_fee_stroops (ps_review p) = tx_fee tx"
      "sv_authorization_expiration_ledger (ps_review p) = (if detached_entries simulated = [] then None
         else Some (sim_latest_ledger sim + siq_authorization_lifetime_ledgers request))"
      "sv_network (ps_review p) = rg_network G"
      "sv_fee_payer (ps_review p) = muxed_account_string (lib_stellar B) (tx_source tx)" by blast
  define call where "call = InvokeContract \<lparr>ic_contract_address = ScContractAddress contract,
      ic_function_name = bytes_of (siq_function_name request), ic_args = siq_args request\<rparr>"
  define ledger where "ledger = sim_latest_ledger sim + siq_authorization_lifetime_ledgers request"
  from k candidate have tx: "tx = \<lparr>tx_source = MuxEd25519 k, tx_fee = fee, tx_seq_num = sequence + 1,
      tx_cond = PrecondTime \<lparr>min_time = 0, max_time = nat (now + 300)\<rparr>, tx_memo = MemoNone,
      tx_operations = [\<lparr>op_source = None, op_body = InvokeHostFunctionOp call []\<rparr>], tx_ext = TxExtV0\<rparr>"
    and op: "operation = \<lparr>op_source = None, op_body = InvokeHostFunctionOp call []\<rparr>" "f = call"
    by (auto simp: call_def)
  have "sv_fee_payer (ps_review p) = public_key_to_string (lib_stellar B) k"
    using v(9) by (simp add: tx muxed_account_string_def)
  with r ck s fee' q v simulated [unfolded candidate] show ?thesis
    unfolding ledger_def [symmetric] call_def [symmetric]
    by - (rule exI [of _ r], rule exI [of _ contract], rule exI [of _ k], rule exI [of _ sequence], rule exI [of _ fee],
        rule exI [of _ sim], rule exI [of _ res], rule exI [of _ simulated], rule exI [of _ data], rule exI [of _ ledger],
        rule exI [of _ call], simp add: tx op ledger_def, simp add: call_def)
qed

lemma list_all2_resigned_refl: "list_all2 resigned es es"
  by (rule list_all2_refl) (simp add: resigned_def)

lemma replace_same_entries:
  "invoke_auth_entries e = Inr es \<Longrightarrow> int (length es) \<le> u32_max \<Longrightarrow> replace_invoke_auth_entries e es = Inr e"
  by (auto simp: invoke_auth_entries_def replace_invoke_auth_entries_def length_Suc_conv Let_def
      split: envelope.splits if_splits operation_body.splits)

lemma prepared_soroban_bound:
  assumes "prepare_soroban_invoke B env disk penv G now request pd = (Inr p, pd')"
  shows "soroban_bound (lib_stellar B) p \<and> transaction_xdr_bytes (lib_stellar B) (ps_envelope p) = Inr (ps_reviewed_xdr p) \<and>
    transaction_hash_bytes (lib_stellar B) (ps_envelope p) (rg_network G) = Inr (ps_reviewed_hash p)"
proof -
  from assms obtain name candidate sim where
    "assemble_reviewed_transaction B name (rg_network G) request candidate sim = Inr p"
    by (auto simp: prepare_soroban_invoke_def and_then_Inr split: sum.splits prod.splits if_splits elim!: and_then.elims)
  from assemble_Inr [OF this] show ?thesis by (auto simp: soroban_bound_def)
qed


end
