(* ===== verification/Contract.thy ===== *)
theory Contract
  imports ContractArgs SorobanFlow
begin

text \<open>
  contract.rs, the calls of a contract: what the gateway reads of it (rpc_gateway.rs), the preparation of a
  call as a transaction or as a read, its simulation, and its authorization, signing and submission,
  which are those of the Soroban transaction inside.
\<close>

section \<open>The contract on the ledger (rpc_gateway.rs)\<close>

text \<open>The XDR of an executable and of the two ledger entries it is read from.\<close>

datatype contract_executable =
    ExecutableWasm bytes
  | ExecutableStellarAsset
  | ExecutableExternalRef sc_address bytes

datatype ledger_key = KeyContractCode bytes | KeyExecutableTag sc_address bytes

datatype ledger_entry_data = DataContractCode bytes | DataContractData sc_val | DataOtherEntry

text \<open>The calls of the RPC client, and the readers of the contract crates. The ledger may change between two
  requests: a call takes the number of the observation it belongs to.\<close>

record contract_client =
  ccl_get_contract_instance :: "nat \<Rightarrow> bytes \<Rightarrow> string + contract_executable"
  ccl_get_ledger_entries :: "nat \<Rightarrow> ledger_key \<Rightarrow> string + string list option"
  ccl_ledger_entry_from_base64 :: "nat \<Rightarrow> string \<Rightarrow> string + ledger_entry_data"
  ccl_wasm_spec :: "bytes \<Rightarrow> string + spec_entry list \<times> (bytes \<times> bytes) list"
  ccl_stellar_asset_spec :: "string + spec_entry list"

record contract_spec_snapshot =
  css_entries :: "spec_entry list"
  css_executable :: executable_observation
  css_metadata :: "contract_metadata_entry list"

definition xdr_depth_limit :: nat where "xdr_depth_limit = 500"

definition contract_executable_of :: "sdk_libs \<Rightarrow> contract_client \<Rightarrow> nat \<Rightarrow> string \<Rightarrow> contract_executable result" where
  "contract_executable_of B C n contract_id =
     and_then (ok_or (''Invalid Stellar contract address: '' @ contract_id)
         (contract_from_string (lib_soroban B) contract_id)) (\<lambda>contract.
       map_err (\<lambda>error. ''Unable to load contract '' @ contract_id @ '': '' @ error)
         (ccl_get_contract_instance C n contract))"

definition resolve_external_ref_wasm_hash :: "contract_client \<Rightarrow> nat \<Rightarrow> sc_address \<Rightarrow> bytes \<Rightarrow> bytes result" where
  "resolve_external_ref_wasm_hash C n owner tag =
     and_then (map_err (\<lambda>error. ''Unable to load contract executable reference: '' @ error)
         (ccl_get_ledger_entries C n (KeyExecutableTag owner tag))) (\<lambda>entries.
     and_then (ok_or ''Contract executable reference was not found''
         (case entries of Some (entry # _) \<Rightarrow> Some entry | _ \<Rightarrow> None)) (\<lambda>entry.
     and_then (map_err (\<lambda>error. ''Unable to decode contract executable reference: '' @ error)
         (ccl_ledger_entry_from_base64 C xdr_depth_limit entry)) (\<lambda>data.
     case data of
       DataContractData v \<Rightarrow>
         (case v of
            ScBytes b \<Rightarrow> if length b = 32 then Inr b
              else Inl ''Contract executable reference is not a 32-byte Wasm hash''
          | _ \<Rightarrow> Inl ''Contract executable reference is not a Wasm hash'')
     | _ \<Rightarrow> Inl ''Contract executable reference returned the wrong ledger-entry type'')))"

definition resolve_contract_executable ::
  "contract_client \<Rightarrow> nat \<Rightarrow> contract_executable \<Rightarrow> (executable_observation \<times> bytes option) result" where
  "resolve_contract_executable C n executable =
     (case executable of
        ExecutableStellarAsset \<Rightarrow> Inr (\<lparr>eo_kind = StellarAssetExecutable, eo_wasm_hash = None\<rparr>, None)
      | ExecutableWasm h \<Rightarrow> Inr (\<lparr>eo_kind = WasmExecutable, eo_wasm_hash = Some (hex h)\<rparr>, Some h)
      | ExecutableExternalRef owner tag \<Rightarrow>
          map_ok (\<lambda>h. (\<lparr>eo_kind = ExternalRefExecutable, eo_wasm_hash = Some (hex h)\<rparr>, Some h))
            (resolve_external_ref_wasm_hash C n owner tag))"

definition contract_wasm :: "contract_client \<Rightarrow> nat \<Rightarrow> bytes \<Rightarrow> bytes result" where
  "contract_wasm C n h =
     and_then (map_err (\<lambda>error. ''Unable to load contract Wasm from Stellar RPC: '' @ error)
         (ccl_get_ledger_entries C n (KeyContractCode h))) (\<lambda>entries.
     and_then (ok_or ''Contract Wasm was not found''
         (case entries of Some (entry # _) \<Rightarrow> Some entry | _ \<Rightarrow> None)) (\<lambda>entry.
     and_then (map_err (\<lambda>error. ''Unable to decode contract Wasm ledger entry: '' @ error)
         (ccl_ledger_entry_from_base64 C xdr_depth_limit entry)) (\<lambda>data.
     case data of
       DataContractCode code \<Rightarrow> Inr code
     | _ \<Rightarrow> Inl ''Contract Wasm lookup returned the wrong ledger-entry type'')))"

definition contract_wasm_interface ::
  "spec_lib \<Rightarrow> contract_client \<Rightarrow> nat \<Rightarrow> bytes \<Rightarrow> (spec_entry list \<times> contract_metadata_entry list) result" where
  "contract_wasm_interface P C n h =
     and_then (contract_wasm C n h) (\<lambda>wasm.
     and_then (map_err (\<lambda>error. ''Unable to parse contract interface: '' @ error) (ccl_wasm_spec C wasm))
       (\<lambda>(entries, meta). Inr (entries, map (metadata_from_xdr P) meta)))"

definition contract_spec_snapshot_at ::
  "sdk_libs \<Rightarrow> spec_lib \<Rightarrow> contract_client \<Rightarrow> nat \<Rightarrow> string \<Rightarrow> contract_spec_snapshot result" where
  "contract_spec_snapshot_at B P C n contract_id =
     and_then (contract_executable_of B C n contract_id) (\<lambda>executable.
     and_then (resolve_contract_executable C n executable) (\<lambda>(observation, wasm_hash).
     and_then (case wasm_hash of
         Some h \<Rightarrow> contract_wasm_interface P C n h
       | None \<Rightarrow> map_ok (\<lambda>entries. (entries, []))
           (map_err (\<lambda>error. ''Unable to read Stellar Asset Contract spec: '' @ error) (ccl_stellar_asset_spec C)))
       (\<lambda>(entries, metadata).
         Inr \<lparr>css_entries = entries, css_executable = observation, css_metadata = metadata\<rparr>)))"

definition contract_executable_observation ::
  "sdk_libs \<Rightarrow> contract_client \<Rightarrow> nat \<Rightarrow> string \<Rightarrow> executable_observation result" where
  "contract_executable_observation B C n contract_id =
     and_then (contract_executable_of B C n contract_id) (\<lambda>executable.
     map_ok fst (resolve_contract_executable C n executable))"

definition contract_interface_at ::
  "sdk_libs \<Rightarrow> spec_lib \<Rightarrow> contract_client \<Rightarrow> string \<Rightarrow> contract_interface result" where
  "contract_interface_at B P C contract_id =
     map_ok (\<lambda>s. interface_from_spec P contract_id (css_executable s) (css_metadata s) (css_entries s))
       (contract_spec_snapshot_at B P C 0 contract_id)"

section \<open>Reviews and results\<close>

record contract_invoke_review =
  civ_wallet_name :: string
  civ_fee_payer :: string
  civ_operation_source :: string
  civ_contract_id :: string
  civ_executable :: executable_observation
  civ_metadata :: "contract_metadata_entry list"
  civ_capabilities :: contract_capabilities
  civ_function_name :: string
  civ_arguments :: "contract_argument_review list"
  civ_authorizers :: "string list"
  civ_credential_types :: "string list"
  civ_auth_entry_count :: nat
  civ_total_fee_stroops :: int
  civ_resource_fee_stroops :: int
  civ_inclusion_fee_stroops :: int
  civ_min_resource_fee_stroops :: int
  civ_simulation_ledger :: int
  civ_authorization_expiration_ledger :: "int option"
  civ_network :: string
  civ_transaction_hash :: string

definition invoke_review_from_soroban ::
  "soroban_review \<Rightarrow> executable_observation \<Rightarrow> contract_metadata_entry list \<Rightarrow> contract_capabilities
     \<Rightarrow> contract_argument_review list \<Rightarrow> contract_invoke_review" where
  "invoke_review_from_soroban r executable metadata capabilities arguments =
     \<lparr>civ_wallet_name = sv_wallet_name r, civ_fee_payer = sv_fee_payer r,
      civ_operation_source = sv_operation_source r, civ_contract_id = sv_contract_id r,
      civ_executable = executable, civ_metadata = metadata, civ_capabilities = capabilities,
      civ_function_name = sv_function_name r, civ_arguments = arguments, civ_authorizers = sv_authorizers r,
      civ_credential_types = sv_credential_types r, civ_auth_entry_count = sv_auth_entry_count r,
      civ_total_fee_stroops = sv_total_fee_stroops r, civ_resource_fee_stroops = sv_resource_fee_stroops r,
      civ_inclusion_fee_stroops = sv_inclusion_fee_stroops r,
      civ_min_resource_fee_stroops = sv_min_resource_fee_stroops r, civ_simulation_ledger = sv_simulation_ledger r,
      civ_authorization_expiration_ledger = sv_authorization_expiration_ledger r, civ_network = sv_network r,
      civ_transaction_hash = sv_transaction_hash r\<rparr>"

record contract_read_result =
  crr_contract_id :: string
  crr_executable :: executable_observation
  crr_metadata :: "contract_metadata_entry list"
  crr_capabilities :: contract_capabilities
  crr_function_name :: string
  crr_arguments :: "contract_argument_review list"
  crr_output :: "json option"
  crr_output_xdr :: "string option"
  crr_simulation_ledger :: int
  crr_network :: string

record simulation_effects =
  se_read_write_entry_count :: nat
  se_archived_entry_count :: nat
  se_published_event_count :: nat
  se_authorization_entry_count :: nat
  se_restore_required :: bool

definition requires_send :: "simulation_effects \<Rightarrow> bool" where
  "requires_send e \<longleftrightarrow> se_restore_required e \<or> se_read_write_entry_count e > 0 \<or> se_archived_entry_count e > 0 \<or>
     se_published_event_count e > 0 \<or> se_authorization_entry_count e > 0"

record contract_simulation_result =
  csr_contract_id :: string
  csr_executable :: executable_observation
  csr_metadata :: "contract_metadata_entry list"
  csr_capabilities :: contract_capabilities
  csr_function_name :: string
  csr_arguments :: "contract_argument_review list"
  csr_output :: "json option"
  csr_output_xdr :: "string option"
  csr_simulation_ledger :: int
  csr_network :: string
  csr_effects :: simulation_effects

record prepared_contract_invoke =
  pci_review :: contract_invoke_review
  pci_prepared :: prepared_soroban

datatype contract_invoke_preparation =
    ReadOnlyCall contract_read_result
  | TransactionCall prepared_contract_invoke

definition contract_signing_transaction_hash_hex :: "prepared_contract_invoke \<Rightarrow> string" where
  "contract_signing_transaction_hash_hex p = signing_transaction_hash_hex (pci_prepared p)"

section \<open>Simulation\<close>

definition validate_contract_simulation_preview :: "simulation \<Rightarrow> unit result" where
  "validate_contract_simulation_preview s =
     (case sim_error s of
        Some error \<Rightarrow> Inl (''Soroban transaction simulation failed: '' @ error)
      | None \<Rightarrow>
          and_then (map_err (\<lambda>error. ''Stellar RPC returned invalid simulation result: '' @ error)
              (sim_parsed_results s)) (\<lambda>results.
            if length results \<noteq> 1
            then Inl (''Soroban simulation returned '' @ nat_to_dec (length results) @
                   '' host-function results; expected one'')
            else Inr ()))"

definition simulation_effects_of :: "simulation \<Rightarrow> simulation_effects result" where
  "simulation_effects_of s =
     and_then (map_err (\<lambda>error. ''Stellar RPC returned invalid transaction data: '' @ error)
         (sim_transaction_data s)) (\<lambda>data.
     and_then (map_err (\<lambda>error. ''Stellar RPC returned invalid simulation events: '' @ error)
         (sim_contract_events s)) (\<lambda>events.
     and_then (map_err (\<lambda>error. ''Stellar RPC returned invalid simulation result: '' @ error)
         (sim_parsed_results s)) (\<lambda>results.
       Inr \<lparr>se_read_write_entry_count = length (std_read_write data),
            se_archived_entry_count = (case std_archived_entries data of None \<Rightarrow> 0 | Some a \<Rightarrow> length a),
            se_published_event_count = length (filter (\<lambda>b. b) events),
            se_authorization_entry_count = sum_list (map (\<lambda>(auth, _). length auth) results),
            se_restore_required = sim_restore_preamble s\<rparr>)))"

definition simulation_requires_send :: "simulation \<Rightarrow> bool result" where
  "simulation_requires_send s = map_ok requires_send (simulation_effects_of s)"

definition decode_simulation_output ::
  "spec_lib \<Rightarrow> spec_entry list \<Rightarrow> string \<Rightarrow> simulation \<Rightarrow> (json option \<times> string option) result" where
  "decode_simulation_output P entries function_name s =
     (let S = spl_spec_new P entries in
      and_then (find_function P S function_name) (\<lambda>f.
      case sfn_outputs f of
        [] \<Rightarrow> Inr (None, None)
      | output_type # _ \<Rightarrow>
          and_then (map_err (\<lambda>error. ''Stellar RPC returned invalid simulation result: '' @ error)
              (sim_parsed_results s)) (\<lambda>results.
          and_then (ok_or ''Soroban simulation did not return a contract result''
              (case results of [] \<Rightarrow> None | (_, v) # _ \<Rightarrow> Some v)) (\<lambda>v.
          and_then (map_err (\<lambda>detail. ''contract return value does not match its Contract Spec: '' @ detail)
              (validate_scval_against_type P S v output_type 0)) (\<lambda>_.
          and_then (map_err (\<lambda>detail. ''unable to normalize contract return value: '' @ detail)
              (ensure_contract_type_normalization_safe S output_type [])) (\<lambda>_.
          and_then (map_err (\<lambda>error. ''unable to decode contract return value: '' @ error)
              (cs_xdr_to_json S v output_type)) (\<lambda>shown.
          and_then (map_err (\<lambda>error. ''unable to encode contract return value as ScVal XDR: '' @ error)
              (spl_scval_to_base64 P contract_argument_xdr_depth_limit v)) (\<lambda>xdr.
            Inr (Some shown, Some xdr)))))))))"

definition simulate_contract_invoke ::
  "sdk_libs \<Rightarrow> spec_lib \<Rightarrow> contract_client \<Rightarrow> rpc_gateway \<Rightarrow> int \<Rightarrow> contract_invoke_request
     \<Rightarrow> contract_simulation_result result" where
  "simulate_contract_invoke B P C G now R =
     and_then (contract_spec_snapshot_at B P C 0 (ciq_contract_id R)) (\<lambda>snapshot.
     and_then (resolve_request P (css_entries snapshot) R) (\<lambda>(low_level, arguments).
     and_then (simulate_soroban_invoke B G now low_level) (\<lambda>s.
     and_then (validate_contract_simulation_preview s) (\<lambda>_.
     and_then (decode_simulation_output P (css_entries snapshot) (ciq_function_name R) s) (\<lambda>(output, output_xdr).
     and_then (simulation_effects_of s) (\<lambda>effects.
       Inr \<lparr>csr_contract_id = ciq_contract_id R, csr_executable = css_executable snapshot,
            csr_metadata = css_metadata snapshot,
            csr_capabilities = capabilities_from_spec P (css_executable snapshot) (css_metadata snapshot) (css_entries snapshot),
            csr_function_name = ciq_function_name R, csr_arguments = arguments, csr_output = output,
            csr_output_xdr = output_xdr, csr_simulation_ledger = sim_latest_ledger s,
            csr_network = rg_network G, csr_effects = effects\<rparr>))))))"

section \<open>Preparing a call\<close>

definition executable_identity :: "executable_observation \<Rightarrow> string" where
  "executable_identity o1 =
     (case eo_wasm_hash o1 of
        Some h \<Rightarrow> executable_kind_str (eo_kind o1) @ '':'' @ h
      | None \<Rightarrow> executable_kind_str (eo_kind o1))"

definition ensure_contract_executable_unchanged :: "executable_observation \<Rightarrow> executable_observation \<Rightarrow> unit result" where
  "ensure_contract_executable_unchanged before after =
     (if before = after then Inr ()
      else Inl (''contract executable changed while preparing the invocation: '' @ executable_identity before @ '' -> '' @
             executable_identity after @ ''; inspect the deployed contract and prepare the call again''))"

text \<open>The tail that the two ways to prepare a transaction share.\<close>

definition finish_contract_invoke ::
  "sdk_libs \<Rightarrow> spec_lib \<Rightarrow> contract_client \<Rightarrow> contract_invoke_request \<Rightarrow> contract_spec_snapshot
     \<Rightarrow> contract_argument_review list \<Rightarrow> prepared_soroban \<Rightarrow> prepared_contract_invoke result" where
  "finish_contract_invoke B P C R snapshot arguments prepared =
     and_then (contract_executable_observation B C 1 (ciq_contract_id R)) (\<lambda>executable.
     and_then (ensure_contract_executable_unchanged (css_executable snapshot) executable) (\<lambda>_.
       Inr \<lparr>pci_review = invoke_review_from_soroban (ps_review prepared) executable (css_metadata snapshot)
              (capabilities_from_spec P (css_executable snapshot) (css_metadata snapshot) (css_entries snapshot)) arguments,
            pci_prepared = prepared\<rparr>))"

definition prepare_contract_invoke ::
  "sdk_libs \<Rightarrow> spec_lib \<Rightarrow> contract_client \<Rightarrow> wallet_env \<Rightarrow> wallet_disk \<Rightarrow> pending_env \<Rightarrow> rpc_gateway \<Rightarrow> int
     \<Rightarrow> contract_invoke_request \<Rightarrow> pending_disk \<Rightarrow> prepared_contract_invoke result \<times> pending_disk" where
  "prepare_contract_invoke B P C env disk penv G now R pdisk =
     (case and_then (contract_spec_snapshot_at B P C 0 (ciq_contract_id R)) (\<lambda>snapshot.
           and_then (resolve_request P (css_entries snapshot) R) (\<lambda>(low_level, arguments).
             Inr (snapshot, low_level, arguments))) of
        Inl error \<Rightarrow> (Inl error, pdisk)
      | Inr (snapshot, low_level, arguments) \<Rightarrow>
          (case prepare_soroban_invoke B env disk penv G now low_level pdisk of
             (Inl error, pdisk') \<Rightarrow> (Inl error, pdisk')
           | (Inr prepared, pdisk') \<Rightarrow> (finish_contract_invoke B P C R snapshot arguments prepared, pdisk')))"

definition prepare_contract_invoke_outcome ::
  "sdk_libs \<Rightarrow> spec_lib \<Rightarrow> contract_client \<Rightarrow> wallet_env \<Rightarrow> wallet_disk \<Rightarrow> pending_env \<Rightarrow> rpc_gateway \<Rightarrow> int
     \<Rightarrow> contract_invoke_request \<Rightarrow> pending_disk \<Rightarrow> contract_invoke_preparation result \<times> pending_disk" where
  "prepare_contract_invoke_outcome B P C env disk penv G now R pdisk =
     (case and_then (contract_spec_snapshot_at B P C 0 (ciq_contract_id R)) (\<lambda>snapshot.
           and_then (resolve_request P (css_entries snapshot) R) (\<lambda>(low_level, arguments).
           and_then (simulate_soroban_invoke B G now low_level) (\<lambda>s.
           and_then (validate_soroban_simulation s) (\<lambda>_.
           and_then (simulation_requires_send s) (\<lambda>send.
             Inr (snapshot, low_level, arguments, s, send)))))) of
        Inl error \<Rightarrow> (Inl error, pdisk)
      | Inr (snapshot, low_level, arguments, s, send) \<Rightarrow>
          if send
          then (case prepare_soroban_invoke B env disk penv G now low_level pdisk of
             (Inl error, pdisk') \<Rightarrow> (Inl error, pdisk')
           | (Inr prepared, pdisk') \<Rightarrow>
               (map_ok TransactionCall (finish_contract_invoke B P C R snapshot arguments prepared), pdisk'))
          else (map_ok (\<lambda>(output, output_xdr). ReadOnlyCall
                 \<lparr>crr_contract_id = ciq_contract_id R, crr_executable = css_executable snapshot,
                  crr_metadata = css_metadata snapshot,
                  crr_capabilities = capabilities_from_spec P (css_executable snapshot) (css_metadata snapshot) (css_entries snapshot),
                  crr_function_name = ciq_function_name R, crr_arguments = arguments, crr_output = output,
                  crr_output_xdr = output_xdr, crr_simulation_ledger = sim_latest_ledger s,
                  crr_network = rg_network G\<rparr>)
                (decode_simulation_output P (css_entries snapshot) (ciq_function_name R) s), pdisk))"

section \<open>Authorizing, signing and submitting\<close>

text \<open>Each works on the Soroban transaction inside and leaves the review alone.\<close>

definition on_prepared ::
  "(prepared_soroban \<Rightarrow> unit result \<times> prepared_soroban) \<Rightarrow> prepared_contract_invoke \<Rightarrow> unit result \<times> prepared_contract_invoke" where
  "on_prepared f p = (case f (pci_prepared p) of (r, q) \<Rightarrow> (r, p\<lparr>pci_prepared := q\<rparr>))"

definition authorize_contract_invoke ::
  "sdk_libs \<Rightarrow> wallet_env \<Rightarrow> wallet_disk \<Rightarrow> string \<Rightarrow> prepared_contract_invoke \<Rightarrow> unit result \<times> prepared_contract_invoke" where
  "authorize_contract_invoke B env disk passcode = on_prepared (authorize_prepared_soroban B env disk passcode)"

definition authorize_contract_invoke_with_system_auth ::
  "sdk_libs \<Rightarrow> wallet_env \<Rightarrow> wallet_disk \<Rightarrow> string option \<Rightarrow> system_auth_provider list \<Rightarrow> prepared_contract_invoke
     \<Rightarrow> unit result \<times> prepared_contract_invoke" where
  "authorize_contract_invoke_with_system_auth B env disk passcode sas =
     on_prepared (authorize_prepared_soroban_with_system_auth B env disk passcode sas)"

definition sign_contract_invoke ::
  "sdk_libs \<Rightarrow> wallet_env \<Rightarrow> wallet_disk \<Rightarrow> (string \<Rightarrow> json result) \<Rightarrow> int \<Rightarrow> string \<Rightarrow> prepared_contract_invoke
     \<Rightarrow> unit result \<times> prepared_contract_invoke" where
  "sign_contract_invoke B env disk fetch now passcode = on_prepared (sign_prepared_soroban B env disk fetch now passcode)"

definition sign_contract_invoke_with_providers ::
  "sdk_libs \<Rightarrow> wallet_env \<Rightarrow> wallet_disk \<Rightarrow> (string \<Rightarrow> json result) \<Rightarrow> int \<Rightarrow> string option
     \<Rightarrow> system_auth_provider list \<Rightarrow> external_provider list \<Rightarrow> prepared_contract_invoke
     \<Rightarrow> unit result \<times> prepared_contract_invoke" where
  "sign_contract_invoke_with_providers B env disk fetch now passcode sas xs =
     on_prepared (sign_prepared_soroban_with_providers B env disk fetch now passcode sas xs)"

definition submit_contract_invoke ::
  "stellar_lib \<Rightarrow> pending_env \<Rightarrow> rpc_gateway \<Rightarrow> prepared_contract_invoke \<Rightarrow> pending_disk
     \<Rightarrow> transaction_submission result \<times> pending_disk" where
  "submit_contract_invoke L penv G p pdisk = submit_prepared_soroban L penv G (pci_prepared p) pdisk"

section \<open>What a prepared call is\<close>

lemma prepare_soroban_invoke_assembled:
  assumes "prepare_soroban_invoke B env disk penv G now request pd = (Inr p, pd')"
  shows "\<exists>r sequence fee candidate sim.
    resolve_network_wallet (lib_stellar B) env disk (rg_network G) (siq_wallet request) = Inr r \<and>
    build_candidate_for_source B now (wr_address r) request sequence fee = Inr candidate \<and>
    simulate_transaction G candidate = Inr sim \<and>
    assemble_reviewed_transaction B (wr_name r) (rg_network G) request candidate sim = Inr p"
  using assms
  by (auto simp: prepare_soroban_invoke_def and_then_Inr split: sum.splits prod.splits if_splits elim!: and_then.elims)

text \<open>\<open>calls e contract name args\<close>: the envelope's only operation calls the function of the contract with the
  arguments.\<close>

definition calls :: "envelope \<Rightarrow> bytes \<Rightarrow> string \<Rightarrow> sc_val list \<Rightarrow> bool" where
  "calls e contract name args \<longleftrightarrow>
     (\<exists>tx op auth. e = EnvTx tx [] \<and> tx_operations tx = [op] \<and> op_source op = None \<and>
        op_body op = InvokeHostFunctionOp (InvokeContract \<lparr>ic_contract_address = ScContractAddress contract,
          ic_function_name = bytes_of name, ic_args = args\<rparr>) auth)"

lemma prepare_soroban_invoke_calls:
  assumes "prepare_soroban_invoke B env disk penv G now request pd = (Inr p, pd')"
  obtains contract where "contract_from_string (lib_soroban B) (siq_contract_id request) = Some contract"
    "calls (ps_envelope p) contract (siq_function_name request) (siq_args request)"
    "sv_contract_id (ps_review p) = siq_contract_id request" "sv_function_name (ps_review p) = siq_function_name request"
    "sv_network (ps_review p) = rg_network G"
proof -
  from prepare_soroban_invoke_assembled [OF assms] obtain r sequence fee candidate sim where
    "resolve_network_wallet (lib_stellar B) env disk (rg_network G) (siq_wallet request) = Inr r"
    and c: "build_candidate_for_source B now (wr_address r) request sequence fee = Inr candidate"
    and a: "assemble_reviewed_transaction B (wr_name r) (rg_network G) request candidate sim = Inr p" by blast
  from build_candidate_Inr [OF c] obtain contract k where ck:
    "contract_from_string (lib_soroban B) (siq_contract_id request) = Some contract"
    and candidate: "candidate = EnvTx \<lparr>tx_source = MuxEd25519 k, tx_fee = fee, tx_seq_num = sequence + 1,
      tx_cond = PrecondTime \<lparr>min_time = 0, max_time = nat (now + 300)\<rparr>, tx_memo = MemoNone,
      tx_operations = [\<lparr>op_source = None, op_body = InvokeHostFunctionOp (InvokeContract
         \<lparr>ic_contract_address = ScContractAddress contract, ic_function_name = bytes_of (siq_function_name request),
          ic_args = siq_args request\<rparr>) []\<rparr>], tx_ext = TxExtV0\<rparr> []" by blast
  from assemble_Inr [OF a] obtain tx operation f auth data sim' where
    k: "candidate = EnvTx tx []" "tx_operations tx = [operation]" "op_body operation = InvokeHostFunctionOp f []"
    and e: "ps_envelope p = EnvTx (tx\<lparr>tx_operations := [operation\<lparr>op_body := InvokeHostFunctionOp f auth\<rparr>],
      tx_fee := tx_fee tx + sim_min_resource_fee sim, tx_ext := TxExtV1 data\<rparr>) []"
    and v: "sv_contract_id (ps_review p) = siq_contract_id request" "sv_function_name (ps_review p) = siq_function_name request"
      "sv_network (ps_review p) = rg_network G" by blast
  from k candidate have op: "op_source operation = None" "f = InvokeContract \<lparr>ic_contract_address = ScContractAddress contract,
      ic_function_name = bytes_of (siq_function_name request), ic_args = siq_args request\<rparr>" by auto
  have "calls (ps_envelope p) contract (siq_function_name request) (siq_args request)"
    unfolding calls_def e
    by (rule exI [of _ "tx\<lparr>tx_operations := [operation\<lparr>op_body := InvokeHostFunctionOp f auth\<rparr>],
      tx_fee := tx_fee tx + sim_min_resource_fee sim, tx_ext := TxExtV1 data\<rparr>"]) (simp add: op)
  with ck v that show thesis by blast
qed

text \<open>The request, in a specification, as the prepared transaction and its review.\<close>

definition call_of_request ::
  "sdk_libs \<Rightarrow> spec_lib \<Rightarrow> contract_spec_snapshot \<Rightarrow> contract_invoke_request \<Rightarrow> prepared_contract_invoke \<Rightarrow> bool" where
  "call_of_request B P snapshot R c \<longleftrightarrow>
     (\<exists>f args contract.
        find_function P (spl_spec_new P (css_entries snapshot)) (ciq_function_name R) = Inr f \<and>
        list_all2 (reviewed_argument P (spl_spec_new P (css_entries snapshot))) (sfn_inputs f) args \<and>
        contract_from_string (lib_soroban B) (ciq_contract_id R) = Some contract \<and>
        calls (ps_envelope (pci_prepared c)) contract (sfn_name f) (map fst args) \<and>
        civ_arguments (pci_review c) = map snd args \<and> civ_function_name (pci_review c) = sfn_name f \<and>
        civ_contract_id (pci_review c) = ciq_contract_id R \<and>
        civ_executable (pci_review c) = css_executable snapshot \<and> civ_metadata (pci_review c) = css_metadata snapshot \<and>
        civ_network (pci_review c) = sv_network (ps_review (pci_prepared c)) \<and>
        civ_transaction_hash (pci_review c) = sv_transaction_hash (ps_review (pci_prepared c)) \<and>
        civ_total_fee_stroops (pci_review c) = sv_total_fee_stroops (ps_review (pci_prepared c)) \<and>
        civ_authorizers (pci_review c) = sv_authorizers (ps_review (pci_prepared c)))"

lemma resolve_request_args:
  assumes "resolve_request P entries R = Inr (req, reviews)"
  obtains f args where "find_function P (spl_spec_new P entries) (ciq_function_name R) = Inr f"
    "list_all2 (reviewed_argument P (spl_spec_new P entries)) (sfn_inputs f) args"
    "siq_args req = map fst args" "reviews = map snd args" "siq_function_name req = sfn_name f"
    "siq_contract_id req = ciq_contract_id R" "siq_wallet req = ciq_wallet R"
  using assms by (auto simp: resolve_request_def Let_def and_then_Inr ensure_def soroban_invoke_request_new_def
      dest: resolve_arguments_reviewed split: if_splits)

lemma finish_contract_invoke_Inr:
  "finish_contract_invoke B P C R snapshot arguments prepared = Inr c \<longleftrightarrow>
     contract_executable_observation B C 1 (ciq_contract_id R) = Inr (css_executable snapshot) \<and>
     c = \<lparr>pci_review = invoke_review_from_soroban (ps_review prepared) (css_executable snapshot) (css_metadata snapshot)
              (capabilities_from_spec P (css_executable snapshot) (css_metadata snapshot) (css_entries snapshot)) arguments,
          pci_prepared = prepared\<rparr>"
  by (auto simp: finish_contract_invoke_def and_then_Inr ensure_contract_executable_unchanged_def split: if_splits)

lemma finished_call_of_request:
  assumes resolved: "resolve_request P (css_entries snapshot) R = Inr (req, reviews)"
    and prepared: "prepare_soroban_invoke B env disk penv G now req pd = (Inr p, pd')"
    and finished: "finish_contract_invoke B P C R snapshot reviews p = Inr c"
  shows "call_of_request B P snapshot R c \<and> pci_prepared c = p \<and>
    contract_executable_observation B C 1 (ciq_contract_id R) = Inr (css_executable snapshot)"
proof -
  from resolved obtain f args where f: "find_function P (spl_spec_new P (css_entries snapshot)) (ciq_function_name R) = Inr f"
    "list_all2 (reviewed_argument P (spl_spec_new P (css_entries snapshot))) (sfn_inputs f) args"
    "siq_args req = map fst args" "reviews = map snd args" "siq_function_name req = sfn_name f"
    "siq_contract_id req = ciq_contract_id R"
    by (rule resolve_request_args)
  from prepared obtain contract where "contract_from_string (lib_soroban B) (siq_contract_id req) = Some contract"
    "calls (ps_envelope p) contract (siq_function_name req) (siq_args req)"
    "sv_contract_id (ps_review p) = siq_contract_id req" "sv_function_name (ps_review p) = siq_function_name req"
    by (rule prepare_soroban_invoke_calls)
  with f finished show ?thesis
    unfolding finish_contract_invoke_Inr call_of_request_def
    by (intro conjI exI [of _ f] exI [of _ args] exI [of _ contract]) (simp_all add: invoke_review_from_soroban_def)
qed

lemma simulation_effects_Inr:
  assumes "simulation_effects_of s = Inr e"
  obtains data events results where "sim_transaction_data s = Inr data" "sim_contract_events s = Inr events"
    "sim_parsed_results s = Inr results"
    "requires_send e \<longleftrightarrow> sim_restore_preamble s \<or> std_read_write data \<noteq> [] \<or>
       (\<exists>a. std_archived_entries data = Some a \<and> a \<noteq> []) \<or> True \<in> set events \<or> (\<exists>(auth, v)\<in>set results. auth \<noteq> [])"
proof -
  from assms obtain data events results where k: "sim_transaction_data s = Inr data" "sim_contract_events s = Inr events"
    "sim_parsed_results s = Inr results"
    and e: "e = \<lparr>se_read_write_entry_count = length (std_read_write data),
            se_archived_entry_count = (case std_archived_entries data of None \<Rightarrow> 0 | Some a \<Rightarrow> length a),
            se_published_event_count = length (filter (\<lambda>b. b) events),
            se_authorization_entry_count = sum_list (map (\<lambda>(auth, _). length auth) results),
            se_restore_required = sim_restore_preamble s\<rparr>"
    by (auto simp: simulation_effects_of_def and_then_Inr)
  have "0 < sum_list (map (\<lambda>(auth, _). length auth) results) \<longleftrightarrow> (\<exists>(auth, v)\<in>set results. auth \<noteq> [])"
    by (induction results) auto
  moreover have "0 < length (filter (\<lambda>b. b) events) \<longleftrightarrow> True \<in> set events"
    by (induction events) auto
  ultimately have "requires_send e \<longleftrightarrow> sim_restore_preamble s \<or> std_read_write data \<noteq> [] \<or>
       (\<exists>a. std_archived_entries data = Some a \<and> a \<noteq> []) \<or> True \<in> set events \<or> (\<exists>(auth, v)\<in>set results. auth \<noteq> [])"
    unfolding requires_send_def e by (auto split: option.split)
  with k that show thesis by blast
qed

lemma decode_simulation_output_Inr:
  assumes "decode_simulation_output P entries name s = Inr (output, output_xdr)"
    and "find_function P (spl_spec_new P entries) name = Inr f" "sfn_outputs f = t # ts"
    and "sim_parsed_results s = Inr results"
  shows "\<exists>auth v rest. results = (auth, v) # rest \<and> conforms P (spl_spec_new P entries) 501 v t \<and>
    (\<exists>j. output = Some j \<and> cs_xdr_to_json (spl_spec_new P entries) v t = Inr j)"
proof (cases results)
  case Nil
  with assms show ?thesis by (simp add: decode_simulation_output_def Let_def)
next
  case (Cons r rest)
  obtain auth v where r: "r = (auth, v)" by (cases r)
  with assms Cons have "validate_scval_against_type P (spl_spec_new P entries) v t 0 = Inr () \<and>
      (\<exists>j. output = Some j \<and> cs_xdr_to_json (spl_spec_new P entries) v t = Inr j)"
    by (auto simp: decode_simulation_output_def Let_def and_then_Inr)
  with r Cons show ?thesis by (simp add: validate_conforms_501)
qed

lemma accepted_simulation:
  "validate_soroban_simulation s = Inr u \<Longrightarrow> sim_error s = None \<and> \<not> sim_restore_preamble s"
  by (auto simp: validate_soroban_simulation_def split: option.splits if_splits)

text \<open>The two outcomes of a preparation, and what each comes from.\<close>

lemma prepare_outcome_Inr:
  assumes "prepare_contract_invoke_outcome B P C env disk penv G now R pd = (Inr outcome, pd')"
  obtains snapshot request arguments s effects where
    "contract_spec_snapshot_at B P C 0 (ciq_contract_id R) = Inr snapshot"
    "resolve_request P (css_entries snapshot) R = Inr (request, arguments)"
    "simulate_soroban_invoke B G now request = Inr s" "validate_soroban_simulation s = Inr ()"
    "simulation_effects_of s = Inr effects"
    "\<And>c. outcome = TransactionCall c \<Longrightarrow> requires_send effects \<and> call_of_request B P snapshot R c \<and>
       civ_arguments (pci_review c) = arguments \<and>
       civ_capabilities (pci_review c) =
         capabilities_from_spec P (css_executable snapshot) (css_metadata snapshot) (css_entries snapshot) \<and>
       prepare_soroban_invoke B env disk penv G now request pd = (Inr (pci_prepared c), pd') \<and>
       contract_executable_observation B C 1 (ciq_contract_id R) = Inr (css_executable snapshot)"
    "\<And>r. outcome = ReadOnlyCall r \<Longrightarrow> \<not> requires_send effects \<and> pd' = pd \<and> crr_arguments r = arguments \<and>
       crr_executable r = css_executable snapshot \<and>
       crr_capabilities r = capabilities_from_spec P (css_executable snapshot) (css_metadata snapshot) (css_entries snapshot) \<and>
       (\<exists>output_xdr. decode_simulation_output P (css_entries snapshot) (ciq_function_name R) s = Inr (crr_output r, output_xdr))"
proof -
  from assms obtain snapshot request arguments s effects where
    k: "contract_spec_snapshot_at B P C 0 (ciq_contract_id R) = Inr snapshot"
      "resolve_request P (css_entries snapshot) R = Inr (request, arguments)"
      "simulate_soroban_invoke B G now request = Inr s" "validate_soroban_simulation s = Inr ()"
      "simulation_effects_of s = Inr effects"
    and out: "(if requires_send effects
          then (case prepare_soroban_invoke B env disk penv G now request pd of
             (Inl error, pdisk') \<Rightarrow> (Inl error, pdisk')
           | (Inr prepared, pdisk') \<Rightarrow>
               (map_ok TransactionCall (finish_contract_invoke B P C R snapshot arguments prepared), pdisk'))
          else (map_ok (\<lambda>(output, output_xdr). ReadOnlyCall
                 \<lparr>crr_contract_id = ciq_contract_id R, crr_executable = css_executable snapshot,
                  crr_metadata = css_metadata snapshot,
                  crr_capabilities = capabilities_from_spec P (css_executable snapshot) (css_metadata snapshot) (css_entries snapshot),
                  crr_function_name = ciq_function_name R, crr_arguments = arguments, crr_output = output,
                  crr_output_xdr = output_xdr, crr_simulation_ledger = sim_latest_ledger s,
                  crr_network = rg_network G\<rparr>)
                (decode_simulation_output P (css_entries snapshot) (ciq_function_name R) s), pd)) = (Inr outcome, pd')"
    by (auto simp: prepare_contract_invoke_outcome_def and_then_Inr simulation_requires_send_def map_ok_Inr
        split: sum.splits)
  show thesis
  proof (rule that [OF k])
    fix c assume c: "outcome = TransactionCall c"
    with out obtain p where send: "requires_send effects"
      and p: "prepare_soroban_invoke B env disk penv G now request pd = (Inr p, pd')"
        "finish_contract_invoke B P C R snapshot arguments p = Inr c"
      by (auto simp: map_ok_Inr split: prod.splits sum.splits if_splits)
    have "civ_arguments (pci_review c) = arguments"
      "civ_capabilities (pci_review c) =
         capabilities_from_spec P (css_executable snapshot) (css_metadata snapshot) (css_entries snapshot)"
      using p(2) unfolding finish_contract_invoke_Inr by (auto simp: invoke_review_from_soroban_def)
    with finished_call_of_request [OF k(2) p] p send
    show "requires_send effects \<and> call_of_request B P snapshot R c \<and>
       civ_arguments (pci_review c) = arguments \<and>
       civ_capabilities (pci_review c) =
         capabilities_from_spec P (css_executable snapshot) (css_metadata snapshot) (css_entries snapshot) \<and>
       prepare_soroban_invoke B env disk penv G now request pd = (Inr (pci_prepared c), pd') \<and>
       contract_executable_observation B C 1 (ciq_contract_id R) = Inr (css_executable snapshot)" by simp
  next
    fix r assume "outcome = ReadOnlyCall r"
    with out show "\<not> requires_send effects \<and> pd' = pd \<and> crr_arguments r = arguments \<and>
       crr_executable r = css_executable snapshot \<and>
       crr_capabilities r = capabilities_from_spec P (css_executable snapshot) (css_metadata snapshot) (css_entries snapshot) \<and>
       (\<exists>output_xdr. decode_simulation_output P (css_entries snapshot) (ciq_function_name R) s = Inr (crr_output r, output_xdr))"
      by (auto simp: map_ok_Inr split: prod.splits sum.splits if_splits)
  qed
qed

section \<open>Properties\<close>

text \<open>C6. A prepared contract call is the one its review shows, on the executable that was inspected. The
  transaction's only operation calls the requested contract's function with one argument for every
  input of the function in the inspected specification; each argument has the input's type and is the
  one shown in the review (JSON and XDR); the executable observed again after the preparation is the
  one the specification was read from, and the review shows it.\<close>

theorem contract_review_is_the_call:
  assumes "prepare_contract_invoke B P C env disk penv G now R pd = (Inr c, pd')"
  shows "\<exists>snapshot. contract_spec_snapshot_at B P C 0 (ciq_contract_id R) = Inr snapshot \<and>
    call_of_request B P snapshot R c \<and>
    contract_executable_observation B C 1 (ciq_contract_id R) = Inr (css_executable snapshot) \<and>
    (\<exists>request. prepare_soroban_invoke B env disk penv G now request pd = (Inr (pci_prepared c), pd'))"
proof -
  from assms obtain snapshot req reviews p where
    k: "contract_spec_snapshot_at B P C 0 (ciq_contract_id R) = Inr snapshot"
      "resolve_request P (css_entries snapshot) R = Inr (req, reviews)"
      "prepare_soroban_invoke B env disk penv G now req pd = (Inr p, pd')"
      "finish_contract_invoke B P C R snapshot reviews p = Inr c"
    by (auto simp: prepare_contract_invoke_def and_then_Inr split: sum.splits prod.splits)
  with finished_call_of_request [OF k(2-4)] show ?thesis by metis
qed

text \<open>C7. A call is answered without a transaction only when its simulation shows no effect. The outcome is a
  read result only if the simulation of the very call changed no ledger entry, restored no archived
  one, published no contract event and asked for no authorization; the stored state is then
  untouched and the output, if the function has one, is a value of its declared type. With any such
  effect the outcome is the reviewed transaction, as it is for a direct preparation.\<close>

theorem read_only_call_has_no_effects:
  assumes "prepare_contract_invoke_outcome B P C env disk penv G now R pd = (Inr outcome, pd')"
  shows "\<exists>snapshot request arguments s data events results.
    contract_spec_snapshot_at B P C 0 (ciq_contract_id R) = Inr snapshot \<and>
    resolve_request P (css_entries snapshot) R = Inr (request, arguments) \<and>
    simulate_soroban_invoke B G now request = Inr s \<and> sim_error s = None \<and> \<not> sim_restore_preamble s \<and>
    sim_transaction_data s = Inr data \<and> sim_contract_events s = Inr events \<and> sim_parsed_results s = Inr results \<and>
    (case outcome of
       ReadOnlyCall r \<Rightarrow> pd' = pd \<and> std_read_write data = [] \<and>
         (\<forall>a. std_archived_entries data = Some a \<longrightarrow> a = []) \<and> True \<notin> set events \<and>
         (\<forall>(auth, v)\<in>set results. auth = []) \<and> crr_arguments r = arguments \<and>
         (\<forall>f t ts. find_function P (spl_spec_new P (css_entries snapshot)) (ciq_function_name R) = Inr f \<longrightarrow>
            sfn_outputs f = t # ts \<longrightarrow> (\<exists>auth v rest. results = (auth, v) # rest \<and>
              conforms P (spl_spec_new P (css_entries snapshot)) 501 v t \<and>
              (\<exists>j. crr_output r = Some j \<and> cs_xdr_to_json (spl_spec_new P (css_entries snapshot)) v t = Inr j)))
     | TransactionCall c \<Rightarrow> call_of_request B P snapshot R c \<and>
         prepare_soroban_invoke B env disk penv G now request pd = (Inr (pci_prepared c), pd') \<and>
         contract_executable_observation B C 1 (ciq_contract_id R) = Inr (css_executable snapshot))"
proof -
  from assms obtain snapshot request arguments s effects where
    k: "contract_spec_snapshot_at B P C 0 (ciq_contract_id R) = Inr snapshot"
      "resolve_request P (css_entries snapshot) R = Inr (request, arguments)"
      "simulate_soroban_invoke B G now request = Inr s" "validate_soroban_simulation s = Inr ()"
      "simulation_effects_of s = Inr effects"
    and call: "\<And>c. outcome = TransactionCall c \<Longrightarrow> call_of_request B P snapshot R c \<and>
       prepare_soroban_invoke B env disk penv G now request pd = (Inr (pci_prepared c), pd') \<and>
       contract_executable_observation B C 1 (ciq_contract_id R) = Inr (css_executable snapshot)"
    and read: "\<And>r. outcome = ReadOnlyCall r \<Longrightarrow> \<not> requires_send effects \<and> pd' = pd \<and> crr_arguments r = arguments \<and>
       (\<exists>output_xdr. decode_simulation_output P (css_entries snapshot) (ciq_function_name R) s = Inr (crr_output r, output_xdr))"
    by (rule prepare_outcome_Inr) blast
  from k(5) obtain data events results where d: "sim_transaction_data s = Inr data" "sim_contract_events s = Inr events"
    "sim_parsed_results s = Inr results"
    and send: "requires_send effects \<longleftrightarrow> sim_restore_preamble s \<or> std_read_write data \<noteq> [] \<or>
       (\<exists>a. std_archived_entries data = Some a \<and> a \<noteq> []) \<or> True \<in> set events \<or> (\<exists>(auth, v)\<in>set results. auth \<noteq> [])"
    by (rule simulation_effects_Inr)
  note ok = accepted_simulation [OF k(4)]
  show ?thesis
  proof (cases outcome)
    case (TransactionCall c)
    with call [OF this] k(1-3) ok d show ?thesis
      by (intro exI [of _ snapshot] exI [of _ request] exI [of _ arguments] exI [of _ s] exI [of _ data] exI [of _ events]
          exI [of _ results]) simp
  next
    case (ReadOnlyCall r)
    from read [OF this] obtain xdr where o: "\<not> requires_send effects" "pd' = pd" "crr_arguments r = arguments"
      "decode_simulation_output P (css_entries snapshot) (ciq_function_name R) s = Inr (crr_output r, xdr)" by blast
    note typed = decode_simulation_output_Inr [OF o(4) _ _ d(3)]
    from o(1-3) send k(1-3) ok d ReadOnlyCall typed show ?thesis
      by (intro exI [of _ snapshot] exI [of _ request] exI [of _ arguments] exI [of _ s] exI [of _ data] exI [of _ events]
          exI [of _ results]) auto
  qed
qed

end
