(* ===== verification/SorobanExample.thy ===== *)
theory SorobanExample
  imports SorobanFlow Coordinated
begin

text \<open>
  A Soroban transaction on concrete input, from its preparation to its submission: the witnesses of the
  properties of SorobanFlow.thy.
\<close>

section \<open>Example\<close>

text \<open>A gateway that simulates a call with one source-account entry, and a transaction encoding that knows
  that one envelope.\<close>

definition demo_source_entry :: soroban_entry where
  "demo_source_entry = \<lparr>sae_credentials = CredSourceAccount, sae_root_invocation = demo_invocation\<rparr>"

definition demo_resources :: soroban_transaction_data where
  "demo_resources = \<lparr>std_resource_fee = 40, std_read_write = [], std_archived_entries = None, std_opaque = []\<rparr>"

definition demo_simulation :: simulation where
  "demo_simulation =
     \<lparr>sim_error = None, sim_restore_preamble = False, sim_results = [\<lparr>hfr_auth = [''entry''], hfr_xdr = []\<rparr>],
      sim_latest_ledger = 1000, sim_min_resource_fee = 50, sim_transaction_data = Inr demo_resources,
      sim_parsed_results = Inr [], sim_contract_events = Inr [True]\<rparr>"

definition demo_rpc :: rpc_gateway where
  "demo_rpc =
     \<lparr>rg_client = \<lparr>rc_base_url = [], rc_verify_network_passphrase = (\<lambda>_. Inr ()), rc_get_account_sequence = (\<lambda>_. Inr 7),
        rc_soroban_inclusion_fee_mode = Inr ''150'', rc_simulate = (\<lambda>_. Inr demo_simulation),
        rc_send_transaction = (\<lambda>_. Inr \<lparr>sr_status = ''PENDING'', sr_hash = [], sr_error_result_xdr = None\<rparr>),
        rc_hash_from_str = (\<lambda>_. Some []),
        rc_get_transaction = (\<lambda>n _. Inr \<lparr>gt_status = (if n < 2 then ''NOT_FOUND'' else ''SUCCESS''), gt_ledger = Some 5,
          gt_result_text = None\<rparr>)\<rparr>,
      rg_network = ''testnet'', rg_network_passphrase = testnet_passphrase\<rparr>"

text \<open>The arguments of a token transfer: two addresses and an \<open>i128\<close> amount.\<close>

definition demo_args :: "sc_val list" where
  "demo_args = [ScAddressVal (ScAccount demo_key), ScAddressVal (ScAccount demo_key), ScI128 0 10000000]"

lemma demo_args_length [simp]: "length demo_args = 3" by (simp add: demo_args_def)

definition demo_request :: soroban_invoke_request where
  "demo_request = (soroban_invoke_request_new (demo_contract_text (replicate 32 3)) ''transfer'' demo_args)\<lparr>siq_wallet := Some ''a''\<rparr>"

definition demo_call :: host_function where
  "demo_call = InvokeContract \<lparr>ic_contract_address = ScContractAddress (replicate 32 3),
     ic_function_name = bytes_of ''transfer'', ic_args = demo_args\<rparr>"

definition demo_soroban_envelope :: envelope where
  "demo_soroban_envelope = EnvTx
     \<lparr>tx_source = MuxEd25519 demo_key, tx_fee = 200, tx_seq_num = 8,
      tx_cond = PrecondTime \<lparr>min_time = 0, max_time = 300\<rparr>, tx_memo = MemoNone,
      tx_operations = [\<lparr>op_source = None, op_body = InvokeHostFunctionOp demo_call [demo_source_entry]\<rparr>],
      tx_ext = TxExtV1 demo_resources\<rparr> []"

text \<open>The account of read-only simulations reads as the demo key, too.\<close>

definition demo_parse_account :: "string \<Rightarrow> bytes option" where
  "demo_parse_account s = (if s = read_only_simulation_account then Some demo_key else demo_parse_key s)"

lemma demo_parse_account_key [simp]: "demo_parse_account (demo_key_text k) = demo_parse_key (demo_key_text k)"
proof -
  have "last (demo_key_text k) = CHR ''Z''" by (simp add: demo_key_text_def)
  moreover have "last read_only_simulation_account \<noteq> CHR ''Z''" by (simp add: read_only_simulation_account_def)
  ultimately show ?thesis by (auto simp: demo_parse_account_def)
qed

definition demo_soroban_sdk :: sdk_libs where
  "demo_soroban_sdk = demo_sdk\<lparr>
     lib_stellar := demo_lib\<lparr>public_key_from_string := demo_parse_account, envelope_to_xdr := (\<lambda>e. if e = demo_soroban_envelope then Inr [1] else Inl ''unknown'')\<rparr>,
     lib_soroban := demo_soroban_lib\<lparr>entry_from_xdr := (\<lambda>b depth len. Inr demo_source_entry)\<rparr>\<rparr>"

definition demo_prepared_soroban :: prepared_soroban where
  "demo_prepared_soroban =
     \<lparr>ps_envelope = demo_soroban_envelope,
      ps_review = \<lparr>sv_wallet_name = ''a'', sv_fee_payer = demo_key_text demo_key,
        sv_operation_source = demo_key_text demo_key, sv_contract_id = demo_contract_text (replicate 32 3),
        sv_function_name = ''transfer'', sv_argument_count = 3, sv_authorizers = [demo_key_text demo_key],
        sv_credential_types = [''source-account''], sv_auth_entry_count = 1, sv_total_fee_stroops = 200,
        sv_resource_fee_stroops = 40, sv_inclusion_fee_stroops = 150, sv_min_resource_fee_stroops = 50,
        sv_simulation_ledger = 1000, sv_authorization_expiration_ledger = None, sv_network = ''testnet'',
        sv_transaction_hash = hex (demo_pad 32 [1])\<rparr>,
      ps_reviewed_xdr = [1], ps_reviewed_hash = demo_pad 32 [1], ps_authorized_xdr = None,
      ps_authorized_hash = None, ps_signing_complete = False\<rparr>"

lemma demo_soroban_libs:
  "lib_stellar demo_soroban_sdk = demo_lib\<lparr>public_key_from_string := demo_parse_account, envelope_to_xdr := (\<lambda>e. if e = demo_soroban_envelope then Inr [1] else Inl ''unknown'')\<rparr>"
  "lib_soroban demo_soroban_sdk = demo_soroban_lib\<lparr>entry_from_xdr := (\<lambda>b depth len. Inr demo_source_entry)\<rparr>"
  by (simp_all add: demo_soroban_sdk_def)

lemma demo_soroban_injective: "xdr_injective (lib_stellar demo_soroban_sdk)"
  by (simp add: xdr_injective_def demo_soroban_libs)

lemma demo_soroban_lib_keys:
  "public_key_from_string (lib_stellar demo_soroban_sdk) = demo_parse_account"
  "public_key_to_string (lib_stellar demo_soroban_sdk) = demo_key_text"
  "base64_decode (lib_stellar demo_soroban_sdk) = (\<lambda>s. Some (bytes_of s))"
  "contract_from_string (lib_soroban demo_soroban_sdk) = demo_contract_parse"
  "entry_from_xdr (lib_soroban demo_soroban_sdk) = (\<lambda>b depth len. Inr demo_source_entry)"
  by (simp_all add: demo_soroban_libs demo_lib_def demo_soroban_lib_def)

lemma demo_soroban_wallet:
  "resolve_network_wallet (lib_stellar demo_soroban_sdk) demo_wallet_env demo_wallet_disk ''testnet'' (Some ''a'') = Inr (demo_wallet ''a'')"
proof -
  let ?L = "lib_stellar demo_soroban_sdk"
  have path: "wallet_path ?L = wallet_path demo_lib" "validate_record ?L = validate_record demo_lib"
    by (simp_all add: demo_soroban_libs fun_eq_iff wallet_path_def validate_record_def account_parse_def demo_lib_def)
  have "storage_load ?L ''a'' demo_wallet_disk = Inr (demo_wallet ''a'')"
    using demo_wallet_valid [of "''a''"] trim_a
    by (simp add: storage_load_def path demo_wallet_disk_def demo_wallet_def)
  moreover have "wr_network (demo_wallet ''a'') = ''testnet''" by (simp add: demo_wallet_def)
  ultimately show ?thesis by (simp add: resolve_network_wallet_def storage_resolve_def)
qed

lemma demo_contract_id: "demo_contract_parse (demo_contract_text k) = demo_parse_key (demo_key_text k)"
  by (simp add: demo_contract_parse_def demo_contract_text_def)

lemma demo_candidate:
  "build_candidate_for_source demo_soroban_sdk 0 (demo_key_text demo_key) demo_request 7 150 = Inr (EnvTx
     \<lparr>tx_source = MuxEd25519 demo_key, tx_fee = 150, tx_seq_num = 8,
      tx_cond = PrecondTime \<lparr>min_time = 0, max_time = 300\<rparr>, tx_memo = MemoNone,
      tx_operations = [\<lparr>op_source = None, op_body = InvokeHostFunctionOp demo_call []\<rparr>], tx_ext = TxExtV0\<rparr> [])"
  by (simp add: build_candidate_for_source_def demo_request_def soroban_invoke_request_new_def demo_soroban_lib_keys
      demo_contract_id build_single_operation_envelope_def build_single_with_timeout_def text_memo_def
      build_single_with_memo_and_timeout_def build_Inr default_classic_transaction_timeout_seconds_def
      max_operations_per_tx_def arith_defs demo_call_def)

lemma demo_hash_lib: "transaction_hash_bytes (lib_stellar demo_soroban_sdk) demo_soroban_envelope ''testnet'' = Inr (demo_pad 32 [1])"
  by (simp add: transaction_hash_bytes_def network_passphrase_def transaction_hash_def demo_soroban_libs demo_lib_def demo_hash_def
      demo_soroban_envelope_def)

lemma demo_xdr_soroban: "transaction_xdr_bytes (lib_stellar demo_soroban_sdk) demo_soroban_envelope = Inr [1]"
  by (simp add: transaction_xdr_bytes_def transaction_envelope_xdr_def demo_soroban_libs)

lemma demo_assembled:
  "assemble_reviewed_transaction demo_soroban_sdk ''a'' ''testnet'' demo_request (EnvTx
     \<lparr>tx_source = MuxEd25519 demo_key, tx_fee = 150, tx_seq_num = 8,
      tx_cond = PrecondTime \<lparr>min_time = 0, max_time = 300\<rparr>, tx_memo = MemoNone,
      tx_operations = [\<lparr>op_source = None, op_body = InvokeHostFunctionOp demo_call []\<rparr>], tx_ext = TxExtV0\<rparr> [])
     demo_simulation = Inr demo_prepared_soroban"
proof -
  have decoded: "decode_simulated_entry demo_soroban_sdk x = Inr demo_source_entry" for x
    by (simp add: decode_simulated_entry_def demo_soroban_lib_keys)
  have fee: "soroban_total_fee 150 50 40 = Inr 200" by (simp add: soroban_total_fee_Inr arith_defs)
  have cred: "sae_credentials demo_source_entry = CredSourceAccount" by (simp add: demo_source_entry_def)
  have e: "EnvTx \<lparr>tx_source = MuxEd25519 demo_key, tx_fee = 200, tx_seq_num = 8,
      tx_cond = PrecondTime \<lparr>min_time = 0, max_time = 300\<rparr>, tx_memo = MemoNone,
      tx_operations = [\<lparr>op_source = None, op_body = InvokeHostFunctionOp demo_call [demo_source_entry]\<rparr>],
      tx_ext = TxExtV1 demo_resources\<rparr> [] = demo_soroban_envelope" by (simp add: demo_soroban_envelope_def)
  have source: "operation_source_string (lib_stellar demo_soroban_sdk) \<lparr>tx_source = MuxEd25519 demo_key, tx_fee = 150, tx_seq_num = 8,
      tx_cond = PrecondTime \<lparr>min_time = 0, max_time = 300\<rparr>, tx_memo = MemoNone,
      tx_operations = [\<lparr>op_source = None, op_body = InvokeHostFunctionOp demo_call []\<rparr>], tx_ext = TxExtV0\<rparr> =
      Inr (demo_key_text demo_key)"
    by (simp add: operation_source_string_def muxed_account_string_def demo_soroban_lib_keys)
  have read: "invoke_auth_entries demo_soroban_envelope = Inr [demo_source_entry]"
    "transaction_source_string (lib_stellar demo_soroban_sdk) demo_soroban_envelope = Inr (demo_key_text demo_key)"
    by (simp_all add: invoke_auth_entries_def transaction_source_string_def demo_soroban_envelope_def muxed_account_string_def
        demo_soroban_lib_keys)
  have call: "candidate_invocation (EnvTx \<lparr>tx_source = MuxEd25519 demo_key, tx_fee = 150, tx_seq_num = 8,
      tx_cond = PrecondTime \<lparr>min_time = 0, max_time = 300\<rparr>, tx_memo = MemoNone,
      tx_operations = [\<lparr>op_source = None, op_body = InvokeHostFunctionOp demo_call []\<rparr>], tx_ext = TxExtV0\<rparr> []) =
    Inr (\<lparr>tx_source = MuxEd25519 demo_key, tx_fee = 150, tx_seq_num = 8,
      tx_cond = PrecondTime \<lparr>min_time = 0, max_time = 300\<rparr>, tx_memo = MemoNone,
      tx_operations = [\<lparr>op_source = None, op_body = InvokeHostFunctionOp demo_call []\<rparr>], tx_ext = TxExtV0\<rparr>,
      \<lparr>op_source = None, op_body = InvokeHostFunctionOp demo_call []\<rparr>, demo_call)"
    by (simp add: candidate_invocation_Inr demo_call_def)
  have ok: "validate_soroban_simulation demo_simulation = Inr ()"
    by (simp add: validate_soroban_simulation_Inr demo_simulation_def)
  have sim: "hfr_auth (sim_results demo_simulation ! 0) = [''entry'']" "sim_latest_ledger demo_simulation = 1000"
    "sim_transaction_data demo_simulation = Inr demo_resources" "sim_min_resource_fee demo_simulation = 50"
    "std_resource_fee demo_resources = 40"
    by (simp_all add: demo_simulation_def demo_resources_def)
  have req: "siq_authorization_lifetime_ledgers demo_request = 100" "siq_contract_id demo_request = demo_contract_text (replicate 32 3)"
    "siq_function_name demo_request = ''transfer''" "siq_args demo_request = demo_args"
    by (simp_all add: demo_request_def soroban_invoke_request_new_def default_authorization_lifetime_ledgers_def)
  have range: "in_u32 1100" "(1::int) \<le> u32_max" "(3::int) \<le> u32_max" by (simp_all add: arith_defs)
  show ?thesis
    unfolding assemble_reviewed_transaction_def Let_def
    by (simp add: ok call source sim decoded req range cred fee e authorization_summary_def read entry_summary_def
        demo_xdr_soroban demo_hash_lib demo_prepared_soroban_def)
qed

lemma demo_prepares:
  "prepare_soroban_invoke demo_soroban_sdk demo_wallet_env demo_wallet_disk (demo_pending_env 5) demo_rpc 0 demo_request
     \<lparr>pd_store = NoFile, pd_temporary = None\<rparr> = (Inr demo_prepared_soroban, \<lparr>pd_store = NoFile, pd_temporary = None\<rparr>)"
proof -
  have fee: "default_soroban_inclusion_fee demo_rpc = Inr 150"
    by (simp add: default_soroban_inclusion_fee_def demo_rpc_def parse_u32_def parse_u64_def parse_digits_def dec_val_def digit_val_def all_digits_def is_ascii_digit_def is_ascii_byte_def arith_defs)
  have rpc: "verify_network demo_rpc = Inr ()" "rpc_account_sequence demo_rpc a = Inr 7"
    "simulate_transaction demo_rpc e = Inr demo_simulation" "rg_network demo_rpc = ''testnet''" for a e
    by (simp_all add: verify_network_def rpc_account_sequence_def simulate_transaction_def demo_rpc_def)
  have req: "siq_authorization_lifetime_ledgers demo_request = 100" "siq_wallet demo_request = Some ''a''"
      "siq_inclusion_fee_stroops demo_request = None"
    by (simp_all add: demo_request_def soroban_invoke_request_new_def default_authorization_lifetime_ledgers_def)
  have r: "wr_address (demo_wallet ''a'') = demo_key_text demo_key" "wr_name (demo_wallet ''a'') = ''a''"
    by (simp_all add: demo_wallet_def)
  show ?thesis
    by (simp add: prepare_soroban_invoke_def rpc req demo_soroban_wallet r reconcile_pending_soroban_def
        reconcile_with_async_def pending_load_def fee demo_candidate demo_assembled)
qed

lemma demo_authorizes:
  "authorize_prepared_soroban demo_soroban_sdk demo_wallet_env empty_wallet_disk ''pw'' demo_prepared_soroban =
     (Inr (), demo_prepared_soroban\<lparr>ps_authorized_xdr := Some [1], ps_authorized_hash := Some (demo_pad 32 [1])\<rparr>)"
proof -
  let ?p = "demo_prepared_soroban\<lparr>ps_authorized_xdr := Some [1], ps_authorized_hash := Some (demo_pad 32 [1])\<rparr>"
  have fields: "ps_envelope demo_prepared_soroban = demo_soroban_envelope" "ps_authorized_xdr demo_prepared_soroban = None"
    "ps_reviewed_xdr demo_prepared_soroban = [1]" "sv_network (ps_review demo_prepared_soroban) = ''testnet''"
    "signing_transaction_hash demo_prepared_soroban = demo_pad 32 [1]"
    "sv_auth_entry_count (ps_review demo_prepared_soroban) = 1"
    by (simp_all add: demo_prepared_soroban_def signing_transaction_hash_def)
  have bound: "soroban_review_binding (lib_stellar demo_soroban_sdk) demo_prepared_soroban = Inr ()"
    by (simp add: soroban_review_binding_Inr fields demo_xdr_soroban demo_hash_lib)
  have records: "local_signing_records (lib_stellar demo_soroban_sdk) demo_wallet_env empty_wallet_disk ''testnet'' = Inr Map.empty"
    by (simp add: local_signing_records_def storage_list_def demo_wallet_env_def empty_wallet_disk_def)
  have entries: "invoke_auth_entries demo_soroban_envelope = Inr [demo_source_entry]"
    by (simp add: invoke_auth_entries_def demo_soroban_envelope_def)
  have replaced: "replace_invoke_auth_entries demo_soroban_envelope [demo_source_entry] = Inr demo_soroban_envelope"
    by (rule replace_same_entries [OF entries]) (simp add: arith_defs)
  have signed: "authorize_entry demo_soroban_sdk ''testnet'' Map.empty Map.empty (Some ''pw'') demo_source_entry = Inr demo_source_entry"
    by (simp add: authorize_entry_def demo_source_entry_def)
  have bind: "bind_authorized_envelope (lib_stellar demo_soroban_sdk) (demo_prepared_soroban\<lparr>ps_envelope := demo_soroban_envelope\<rparr>) =
    (Inr (), ?p)"
    by (simp add: bind_authorized_envelope_def fields demo_xdr_soroban demo_hash_lib)
  have again: "soroban_review_binding (lib_stellar demo_soroban_sdk) ?p = Inr ()"
    by (simp add: soroban_review_binding_Inr fields demo_xdr_soroban demo_hash_lib)
  show ?thesis
    unfolding authorize_prepared_soroban_def authorize_prepared_soroban_with_system_auth_def Let_def
    by (simp add: bound fields records entries signed replaced bind again)
qed

theorem prepared_soroban_is_requested_witness:
  "\<exists>k call. ps_envelope demo_prepared_soroban = EnvTx \<lparr>tx_source = MuxEd25519 k, tx_fee = 200, tx_seq_num = 8,
      tx_cond = PrecondTime \<lparr>min_time = 0, max_time = 300\<rparr>, tx_memo = MemoNone,
      tx_operations = [\<lparr>op_source = None, op_body = InvokeHostFunctionOp call [demo_source_entry]\<rparr>],
      tx_ext = TxExtV1 demo_resources\<rparr> [] \<and>
     call = InvokeContract \<lparr>ic_contract_address = ScContractAddress (replicate 32 3), ic_function_name = bytes_of ''transfer'',
       ic_args = demo_args\<rparr> \<and> sv_function_name (ps_review demo_prepared_soroban) = siq_function_name demo_request"
proof -
  from prepared_soroban_is_requested [OF demo_prepares]
  have "sv_function_name (ps_review demo_prepared_soroban) = siq_function_name demo_request" by blast
  then show ?thesis
    by (intro exI [of _ demo_key] exI [of _ demo_call])
      (simp add: demo_prepared_soroban_def demo_soroban_envelope_def demo_call_def)
qed


lemma demo_poll_status:
  "transaction_status demo_rpc 0 h = Inr StatusNotFound" "transaction_status demo_rpc (Suc 0) h = Inr StatusNotFound"
  "transaction_status demo_rpc 2 h = Inr (StatusSuccess (Some 5))"
  by (simp_all add: transaction_status_def demo_rpc_def normalize_transaction_status_def)

theorem soroban_polling_ends_witness:
  "poll_submission (demo_pending_env 5) demo_rpc demo_prepared_soroban ''ab'' 0 \<lparr>pd_store = NoFile, pd_temporary = None\<rparr> =
     (Inr \<lparr>ts_hash = ''ab'', ts_ledger = Some 5\<rparr>, \<lparr>pd_store = NoFile, pd_temporary = None\<rparr>)"
proof -
  obtain n where n: "\<forall>k < n. transaction_status demo_rpc k ''ab'' = Inr StatusNotFound"
      "transaction_status demo_rpc n ''ab'' = Inr StatusNotFound \<longrightarrow> n = 29"
    and out: "poll_submission (demo_pending_env 5) demo_rpc demo_prepared_soroban ''ab'' 0 \<lparr>pd_store = NoFile, pd_temporary = None\<rparr> =
       (case transaction_status demo_rpc n ''ab'' of
          Inr (StatusSuccess ledger) \<Rightarrow> (Inr \<lparr>ts_hash = ''ab'', ts_ledger = ledger\<rparr>, \<lparr>pd_store = NoFile, pd_temporary = None\<rparr>)
        | Inr (StatusFailed _ details) \<Rightarrow>
            (Inl (''Soroban transaction failed ('' @ ''ab'' @ ''): '' @ details), \<lparr>pd_store = NoFile, pd_temporary = None\<rparr>)
        | Inr StatusNotFound \<Rightarrow> remember_uncertain (demo_pending_env 5) demo_prepared_soroban ''ab''
            ''Stellar RPC did not report a terminal transaction status in time'' \<lparr>pd_store = NoFile, pd_temporary = None\<rparr>
        | Inl message \<Rightarrow> remember_uncertain (demo_pending_env 5) demo_prepared_soroban ''ab'' message
            \<lparr>pd_store = NoFile, pd_temporary = None\<rparr>)"
    using soroban_polling_ends [of demo_rpc "''ab''" "demo_pending_env 5" demo_prepared_soroban] by blast
  have "n = 2"
  proof (rule ccontr)
    assume "n \<noteq> 2"
    then consider "n = 0" | "n = Suc 0" | "2 < n" by linarith
    then show False using n demo_poll_status [of "''ab''"] by cases auto
  qed
  with out demo_poll_status(3) show ?thesis by simp
qed


end
