(* ===== verification/ContractExample.thy ===== *)
theory ContractExample
  imports Contract SorobanExample
begin

text \<open>
  Contract calls on concrete input: the witnesses of the properties of ContractArgs.thy and Contract.thy.
\<close>

section \<open>Example\<close>

text \<open>A SEP-41 token: its transfer takes two addresses and an amount, and its values have one reading for each
  type.\<close>

definition demo_signature :: "string \<Rightarrow> (string \<times> spec_type) list \<Rightarrow> spec_type list \<Rightarrow> spec_function" where
  "demo_signature name inputs outputs = \<lparr>sfn_name = name, sfn_doc = [],
     sfn_inputs = map (\<lambda>(n, t). \<lparr>sf_name = n, sf_doc = [], sf_type = t\<rparr>) inputs, sfn_outputs = outputs\<rparr>"

definition demo_function :: spec_function where
  "demo_function = demo_signature ''transfer'' [(''from'', TyAddress), (''to'', TyMuxedAddress), (''amount'', TyI128)] []"

definition demo_token_functions :: "spec_function list" where
  "demo_token_functions =
     [demo_function,
      demo_signature ''allowance'' [(''from'', TyAddress), (''spender'', TyAddress)] [TyI128],
      demo_signature ''approve'' [(''from'', TyAddress), (''spender'', TyAddress), (''amount'', TyI128), (''expiry'', TyU32)] [],
      demo_signature ''balance'' [(''account'', TyAddress)] [TyI128],
      demo_signature ''transfer_from'' [(''spender'', TyAddress), (''from'', TyAddress), (''to'', TyAddress), (''amount'', TyI128)] [],
      demo_signature ''burn'' [(''from'', TyAddress), (''amount'', TyI128)] [],
      demo_signature ''burn_from'' [(''spender'', TyAddress), (''from'', TyAddress), (''amount'', TyI128)] [],
      demo_signature ''decimals'' [] [TyU32], demo_signature ''name'' [] [TyString], demo_signature ''symbol'' [] [TyString]]"

definition demo_value :: "spec_type \<Rightarrow> sc_val" where
  "demo_value t = (if t = TyI128 then ScI128 0 10000000 else ScAddressVal (ScAccount demo_key))"

definition demo_json :: "spec_type \<Rightarrow> json" where
  "demo_json t = (if t = TyI128 then JString ''10000000'' else JString (demo_key_text demo_key))"

definition demo_spec :: contract_spec where
  "demo_spec = \<lparr>cs_table = [], cs_find_error = (\<lambda>_. ''missing entry''),
     cs_find_function = (\<lambda>n. if n = ''transfer'' then Inr demo_function else Inl ''missing entry''),
     cs_find_functions = Inr demo_token_functions, cs_example = (\<lambda>_. None),
     cs_from_string = (\<lambda>s t. Inr (demo_value t)), cs_from_json = (\<lambda>j t. Inr (demo_value t)),
     cs_xdr_to_json = (\<lambda>v t. Inr (demo_json t))\<rparr>"

definition demo_type_name :: "spec_type \<Rightarrow> string" where
  "demo_type_name t = (if t = TyAddress then ''Address'' else if t = TyI128 then ''I128'' else if t = TyU32 then ''U32''
     else ''String'')"

definition demo_spec_lib :: spec_lib where
  "demo_spec_lib = \<lparr>spl_spec_new = (\<lambda>_. demo_spec), spl_sanitize = (\<lambda>s. s), spl_type_name = demo_type_name,
     spl_lossy = string_of_bytes, spl_scval_to_base64 = (\<lambda>n v. Inr ''AAAAAw==''),
     spl_scval_from_base64 = (\<lambda>n s. Inr (ScU32 1)), spl_json_from_str = (\<lambda>s. Inl ''not JSON''),
     spl_json_to_string = (\<lambda>j. Inr ''1'')\<rparr>"

definition demo_contract_request :: contract_invoke_request where
  "demo_contract_request = (contract_invoke_request_new (demo_contract_text (replicate 32 3)) ''transfer''
     [\<lparr>cai_name = ''from'', cai_value = ''A''\<rparr>, \<lparr>cai_name = ''to'', cai_value = ''B''\<rparr>,
      \<lparr>cai_name = ''amount'', cai_value = ''10000000''\<rparr>])\<lparr>ciq_wallet := Some ''a''\<rparr>"

definition demo_argument_review :: "string \<Rightarrow> spec_type \<Rightarrow> contract_argument_review" where
  "demo_argument_review name t = \<lparr>car_name = name, car_value_type = contract_type_name demo_spec_lib t,
     car_value = demo_json t, car_scval_xdr = ''AAAAAw==''\<rparr>"

definition demo_argument_reviews :: "contract_argument_review list" where
  "demo_argument_reviews = [demo_argument_review ''from'' TyAddress, demo_argument_review ''to'' TyMuxedAddress,
     demo_argument_review ''amount'' TyI128]"

lemma demo_spec_new [simp]: "spl_spec_new demo_spec_lib es = demo_spec"
  by (simp add: demo_spec_lib_def)

lemma demo_find_function: "find_function demo_spec_lib demo_spec ''transfer'' = Inr demo_function"
  by (simp add: find_function_def demo_spec_def)

lemma demo_validates: "t \<in> {TyAddress, TyMuxedAddress, TyI128} \<Longrightarrow>
    validate_scval_against_type demo_spec_lib demo_spec (demo_value t) t 0 = Inr ()"
  by (auto simp: validate_scval_against_type.simps demo_value_def)

lemma demo_normalizes: "t \<in> {TyAddress, TyMuxedAddress, TyI128} \<Longrightarrow>
    ensure_contract_type_normalization_safe demo_spec t [] = Inr ()"
  by (auto simp: ensure_contract_type_normalization_safe.simps)

lemma demo_function_simps [simp]:
  "sfn_name demo_function = ''transfer''" "sfn_outputs demo_function = []"
  "sfn_inputs demo_function = [\<lparr>sf_name = ''from'', sf_doc = [], sf_type = TyAddress\<rparr>,
     \<lparr>sf_name = ''to'', sf_doc = [], sf_type = TyMuxedAddress\<rparr>, \<lparr>sf_name = ''amount'', sf_doc = [], sf_type = TyI128\<rparr>]"
  by (simp_all add: demo_function_def demo_signature_def)

lemma demo_parses: "parse_argument demo_spec_lib demo_spec name s t A = Inr (demo_value t)"
  by (simp add: parse_argument_def demo_spec_def)

lemma demo_reviews: "t \<in> {TyAddress, TyMuxedAddress, TyI128} \<Longrightarrow>
    make_argument_review demo_spec_lib demo_spec name (contract_type_name demo_spec_lib t) t (demo_value t) =
      Inr (demo_argument_review name t)"
  unfolding make_argument_review_def demo_validates demo_normalizes Let_def
  by (simp add: demo_argument_review_def demo_spec_def demo_spec_lib_def)

lemma demo_sanitize [simp]: "spl_sanitize demo_spec_lib s = s"
  by (simp add: demo_spec_lib_def)

lemma demo_values: "map demo_value [TyAddress, TyMuxedAddress, TyI128] = demo_args"
  by (simp add: demo_value_def demo_args_def)

lemma demo_resolved_args:
  assumes "resolve_arguments demo_spec_lib demo_spec demo_function R = Inr
      (zip (map demo_value [TyAddress, TyMuxedAddress, TyI128]) demo_argument_reviews)"
    and "R = (contract_invoke_request_new (demo_contract_text (replicate 32 3)) ''transfer'' inputs)\<lparr>ciq_wallet := Some ''a'',
      ciq_positional_arguments := positional, ciq_address_names := names\<rparr>"
  shows "resolve_request demo_spec_lib es R = Inr (demo_request, demo_argument_reviews)"
  using assms demo_values
  by (simp add: resolve_request_def demo_find_function contract_invoke_request_new_def demo_argument_reviews_def Let_def)
    (simp add: demo_request_def soroban_invoke_request_new_def
      default_contract_authorization_lifetime_ledgers_def default_authorization_lifetime_ledgers_def)

lemma demo_resolved: "resolve_request demo_spec_lib es demo_contract_request = Inr (demo_request, demo_argument_reviews)"
proof (rule demo_resolved_args)
  let ?supplied = "[(''amount'', SpecValue ''10000000''), (''from'', SpecValue ''A''), (''to'', SpecValue ''B'')]"
  have supplied: "supply_arguments (request_sources demo_contract_request) [] = Inr ?supplied"
    by (simp add: request_sources_def demo_contract_request_def contract_invoke_request_new_def)
  have reviewed: "make_argument_review demo_spec_lib demo_spec n (contract_type_name demo_spec_lib TyAddress) TyAddress (demo_value TyAddress) =
      Inr (demo_argument_review n TyAddress)"
    "make_argument_review demo_spec_lib demo_spec n (contract_type_name demo_spec_lib TyMuxedAddress) TyMuxedAddress
       (demo_value TyMuxedAddress) = Inr (demo_argument_review n TyMuxedAddress)"
    "make_argument_review demo_spec_lib demo_spec n (contract_type_name demo_spec_lib TyI128) TyI128 (demo_value TyI128) =
      Inr (demo_argument_review n TyI128)" for n
    by (rule demo_reviews, simp)+
  have named: "named_arguments demo_spec_lib demo_spec A (sfn_inputs demo_function) ?supplied =
      Inr (zip (map demo_value [TyAddress, TyMuxedAddress, TyI128]) demo_argument_reviews, [])" for A
    by (simp add: remove_argument_def btree_remove_def demo_parses reviewed demo_argument_reviews_def del: contract_type_name.simps)
  have "ciq_positional_arguments demo_contract_request = None"
    by (simp add: demo_contract_request_def contract_invoke_request_new_def)
  then show "resolve_arguments demo_spec_lib demo_spec demo_function demo_contract_request = Inr
      (zip (map demo_value [TyAddress, TyMuxedAddress, TyI128]) demo_argument_reviews)"
    unfolding resolve_arguments_def by (simp only: option.case supplied and_then.simps named prod.case nothing_left.simps)
  show "demo_contract_request = (contract_invoke_request_new (demo_contract_text (replicate 32 3)) ''transfer''
     [\<lparr>cai_name = ''from'', cai_value = ''A''\<rparr>, \<lparr>cai_name = ''to'', cai_value = ''B''\<rparr>,
      \<lparr>cai_name = ''amount'', cai_value = ''10000000''\<rparr>])\<lparr>ciq_wallet := Some ''a'', ciq_positional_arguments := None,
      ciq_address_names := address_names_empty\<rparr>"
    by (simp add: demo_contract_request_def contract_invoke_request_new_def)
qed

theorem resolved_call_is_typed_and_reviewed_witness:
  "\<exists>f. find_function demo_spec_lib demo_spec ''transfer'' = Inr f \<and> siq_function_name demo_request = sfn_name f \<and>
     list_all2 (reviewed_argument demo_spec_lib demo_spec) (sfn_inputs f) (zip (siq_args demo_request) demo_argument_reviews)"
  using resolved_call_is_typed_and_reviewed [OF demo_resolved]
  by (auto simp: demo_contract_request_def contract_invoke_request_new_def)

text \<open>The contract on the ledger: the Stellar Asset Contract, at both observations.\<close>

definition demo_contract_client :: contract_client where
  "demo_contract_client = \<lparr>ccl_get_contract_instance = (\<lambda>n c. Inr ExecutableStellarAsset),
     ccl_get_ledger_entries = (\<lambda>n k. Inr None), ccl_ledger_entry_from_base64 = (\<lambda>n s. Inr DataOtherEntry),
     ccl_wasm_spec = (\<lambda>b. Inl ''no Wasm''), ccl_stellar_asset_spec = Inr (map SpecFunction demo_token_functions)\<rparr>"

definition demo_snapshot :: contract_spec_snapshot where
  "demo_snapshot = \<lparr>css_entries = map SpecFunction demo_token_functions,
     css_executable = \<lparr>eo_kind = StellarAssetExecutable, eo_wasm_hash = None\<rparr>, css_metadata = []\<rparr>"

lemma demo_contract_known: "demo_contract_parse (demo_contract_text (replicate 32 3)) = Some (replicate 32 3)"
  by (simp add: demo_contract_id)

lemma demo_snapshot_taken:
  assumes "contract_from_string (lib_soroban B) = demo_contract_parse"
  shows "contract_spec_snapshot_at B demo_spec_lib demo_contract_client n (ciq_contract_id demo_contract_request) = Inr demo_snapshot"
    "contract_executable_observation B demo_contract_client n (ciq_contract_id demo_contract_request) = Inr (css_executable demo_snapshot)"
  using assms by (simp_all add: contract_spec_snapshot_at_def contract_executable_observation_def contract_executable_of_def
      resolve_contract_executable_def demo_contract_client_def demo_contract_request_def contract_invoke_request_new_def
      demo_contract_known demo_snapshot_def)

definition demo_prepared_call :: prepared_contract_invoke where
  "demo_prepared_call = \<lparr>pci_review = invoke_review_from_soroban (ps_review demo_prepared_soroban) (css_executable demo_snapshot)
      (css_metadata demo_snapshot) (capabilities_from_spec demo_spec_lib (css_executable demo_snapshot) (css_metadata demo_snapshot)
        (css_entries demo_snapshot)) demo_argument_reviews,
     pci_prepared = demo_prepared_soroban\<rparr>"

lemma demo_call_prepared:
  "prepare_contract_invoke demo_soroban_sdk demo_spec_lib demo_contract_client demo_wallet_env demo_wallet_disk (demo_pending_env 5)
     demo_rpc 0 demo_contract_request \<lparr>pd_store = NoFile, pd_temporary = None\<rparr> =
   (Inr demo_prepared_call, \<lparr>pd_store = NoFile, pd_temporary = None\<rparr>)"
  by (simp add: prepare_contract_invoke_def demo_snapshot_taken demo_soroban_lib_keys demo_resolved demo_prepares
      finish_contract_invoke_Inr demo_prepared_call_def)

theorem contract_review_is_the_call_witness:
  "call_of_request demo_soroban_sdk demo_spec_lib demo_snapshot demo_contract_request demo_prepared_call"
proof -
  have "contract_spec_snapshot_at demo_soroban_sdk demo_spec_lib demo_contract_client 0 (ciq_contract_id demo_contract_request) =
      Inr demo_snapshot"
    by (rule demo_snapshot_taken) (simp add: demo_soroban_lib_keys)
  with contract_review_is_the_call [OF demo_call_prepared] show ?thesis by auto
qed

section \<open>A read\<close>

definition demo_read_simulation :: simulation where
  "demo_read_simulation = demo_simulation\<lparr>sim_parsed_results := Inr [([], ScVoid)], sim_contract_events := Inr [False]\<rparr>"

definition demo_read_rpc :: rpc_gateway where
  "demo_read_rpc = demo_rpc\<lparr>rg_client := (rg_client demo_rpc)\<lparr>rc_simulate := (\<lambda>_. Inr demo_read_simulation)\<rparr>\<rparr>"

text \<open>Every address reads as the demo key, the read-only simulation account among them.\<close>

definition demo_read_sdk :: sdk_libs where
  "demo_read_sdk = demo_soroban_sdk\<lparr>lib_stellar := (lib_stellar demo_soroban_sdk)\<lparr>public_key_from_string := (\<lambda>_. Some demo_key)\<rparr>\<rparr>"

definition demo_read_result :: contract_read_result where
  "demo_read_result = \<lparr>crr_contract_id = demo_contract_text (replicate 32 3), crr_executable = css_executable demo_snapshot,
     crr_metadata = [], crr_capabilities = capabilities_from_spec demo_spec_lib (css_executable demo_snapshot) [] (css_entries demo_snapshot),
     crr_function_name = ''transfer'', crr_arguments = demo_argument_reviews, crr_output = None,
     crr_output_xdr = None, crr_simulation_ledger = 1000, crr_network = ''testnet''\<rparr>"

lemma demo_read_simulated: "simulate_soroban_invoke demo_read_sdk demo_read_rpc 0 demo_request = Inr demo_read_simulation"
proof -
  have keys: "contract_from_string (lib_soroban demo_read_sdk) = demo_contract_parse"
    "public_key_from_string (lib_stellar demo_read_sdk) = (\<lambda>_. Some demo_key)"
    by (simp_all add: demo_read_sdk_def demo_soroban_lib_keys)
  have "\<exists>e. build_candidate_for_source demo_read_sdk 0 read_only_simulation_account demo_request 0 100 = Inr e"
    by (simp add: build_candidate_for_source_def demo_request_def soroban_invoke_request_new_def keys
      demo_contract_known build_single_operation_envelope_def build_single_with_timeout_def text_memo_def
      build_single_with_memo_and_timeout_def build_Inr default_classic_transaction_timeout_seconds_def
      max_operations_per_tx_def arith_defs)
  moreover have "verify_network demo_read_rpc = Inr ()" "simulate_transaction demo_read_rpc e = Inr demo_read_simulation" for e
    by (simp_all add: verify_network_def simulate_transaction_def demo_read_rpc_def demo_rpc_def)
  ultimately show ?thesis by (auto simp: simulate_soroban_invoke_def)
qed

lemma demo_read_effects: "simulation_requires_send demo_read_simulation = Inr False"
  by (simp add: simulation_requires_send_def simulation_effects_of_def demo_read_simulation_def demo_simulation_def
      demo_resources_def requires_send_def)

lemma demo_read_decoded:
  "decode_simulation_output demo_spec_lib es ''transfer'' demo_read_simulation = Inr (None, None)"
  by (simp add: decode_simulation_output_def demo_find_function Let_def demo_read_simulation_def)

lemma demo_read_outcome:
  "prepare_contract_invoke_outcome demo_read_sdk demo_spec_lib demo_contract_client demo_wallet_env demo_wallet_disk (demo_pending_env 5)
     demo_read_rpc 0 demo_contract_request \<lparr>pd_store = NoFile, pd_temporary = None\<rparr> =
   (Inr (ReadOnlyCall demo_read_result), \<lparr>pd_store = NoFile, pd_temporary = None\<rparr>)"
proof -
  have keys: "contract_from_string (lib_soroban demo_read_sdk) = demo_contract_parse"
    by (simp add: demo_read_sdk_def demo_soroban_lib_keys)
  have valid: "validate_soroban_simulation demo_read_simulation = Inr ()"
    by (simp add: validate_soroban_simulation_def demo_read_simulation_def demo_simulation_def)
  have request: "ciq_function_name demo_contract_request = ''transfer''"
    "ciq_contract_id demo_contract_request = demo_contract_text (replicate 32 3)"
    by (simp_all add: demo_contract_request_def contract_invoke_request_new_def)
  show ?thesis
    unfolding prepare_contract_invoke_outcome_def demo_snapshot_taken(1) [OF keys]
    by (simp add: demo_resolved demo_read_simulated valid demo_read_effects demo_read_decoded request)
      (simp add: demo_read_result_def demo_snapshot_def demo_read_simulation_def demo_simulation_def demo_read_rpc_def demo_rpc_def)
qed

theorem read_only_call_has_no_effects_witness:
  "\<exists>s data events. simulate_soroban_invoke demo_read_sdk demo_read_rpc 0 demo_request = Inr s \<and>
     sim_transaction_data s = Inr data \<and> std_read_write data = [] \<and> sim_contract_events s = Inr events \<and> True \<notin> set events"
  using read_only_call_has_no_effects [OF demo_read_outcome] demo_resolved by fastforce

end
