(* ===== verification/Detached.thy ===== *)
theory Detached
  imports SorobanTx
begin

text \<open>
  soroban.rs, the detached authorization: a token contract asks the wallet for one signature over the
  preimage of a transfer. The preimage is decoded, compared with what was asked for, turned back into
  an authorization entry, and that entry is signed; the caller gets the 64 bytes of the signature.
\<close>

record detached_transfer_request =
  dtr_wallet :: "string option"
  dtr_token_contract_id :: string
  dtr_destination :: string
  dtr_amount :: int
  dtr_preimage_xdr :: bytes

definition detached_transfer_request_new :: "string \<Rightarrow> string \<Rightarrow> int \<Rightarrow> bytes \<Rightarrow> detached_transfer_request" where
  "detached_transfer_request_new token_contract_id destination amount preimage_xdr =
     \<lparr>dtr_wallet = None, dtr_token_contract_id = token_contract_id, dtr_destination = destination,
      dtr_amount = amount, dtr_preimage_xdr = preimage_xdr\<rparr>"

record detached_transfer_review =
  dv_network :: string
  dv_wallet_name :: string
  dv_authorizer :: string
  dv_credential_type :: string
  dv_token_contract_id :: string
  dv_destination :: string
  dv_amount :: int
  dv_nonce :: int
  dv_signature_expiration_ledger :: int

record prepared_detached =
  pdt_review :: detached_transfer_review
  pdt_entry :: soroban_entry
  pdt_unsigned_entry_xdr :: bytes
  pdt_preimage_xdr :: bytes

definition detached_review_binding :: "sdk_libs \<Rightarrow> prepared_detached \<Rightarrow> unit result" where
  "detached_review_binding B p =
     and_then (authorization_entry_xdr B (pdt_entry p)) (\<lambda>current_xdr.
       if current_xdr \<noteq> pdt_unsigned_entry_xdr p
       then Inl ''Soroban authorization changed after review; prepare and review it again''
       else
         and_then (network_passphrase (dv_network (pdt_review p))) (\<lambda>np.
         and_then (map_err (\<lambda>error. ''Unable to validate Soroban authorization: '' @ sdk_message error)
             (sdk_prepare_soroban_authorization_signing B current_xdr np)) (\<lambda>prepared.
           if ssr_preimage_xdr prepared \<noteq> pdt_preimage_xdr p
           then Inl ''Soroban authorization preimage does not match the reviewed network and authorizer''
           else Inr ())))"

definition classic_account_sc_address :: "stellar_lib \<Rightarrow> string \<Rightarrow> sc_address result" where
  "classic_account_sc_address L public_key =
     and_then (ok_or ''invalid detached token transfer authorizer'' (public_key_from_string L public_key)) (\<lambda>k.
       Inr (ScAccount k))"

definition scval_address_string :: "sdk_libs \<Rightarrow> sc_val \<Rightarrow> string \<Rightarrow> string result" where
  "scval_address_string B v label =
     (case v of
        ScAddressVal a \<Rightarrow> sc_address_string B a
      | _ \<Rightarrow> Inl (''detached token '' @ label @ '' must be an address''))"

text \<open>The two halves of an \<open>i128\<close>: the high one is an \<open>i64\<close>, the low one a \<open>u64\<close>.\<close>

definition i128_of_parts :: "int \<Rightarrow> int \<Rightarrow> int" where
  "i128_of_parts hi lo = or (push_bit 64 hi) lo"

definition scval_i128 :: "sc_val \<Rightarrow> string \<Rightarrow> int result" where
  "scval_i128 v label =
     (case v of
        ScI128 hi lo \<Rightarrow> Inr (i128_of_parts hi lo)
      | _ \<Rightarrow> Inl (''detached token '' @ label @ '' must be an i128''))"

text \<open>The entry that the wallet's signature of the preimage belongs to.\<close>

definition detached_entry ::
  "sc_address \<Rightarrow> soroban_preimage \<Rightarrow> (string \<times> int \<times> int \<times> soroban_entry) result" where
  "detached_entry wallet_address preimage =
     (case preimage of
        PreimageAuthorization _ nonce ledger invocation \<Rightarrow>
          Inr (''address'', nonce, ledger,
            \<lparr>sae_credentials = CredAddress \<lparr>sac_address = wallet_address, sac_nonce = nonce,
                sac_signature_expiration_ledger = ledger, sac_signature = ScVoid\<rparr>,
             sae_root_invocation = invocation\<rparr>)
      | PreimageAuthorizationWithAddress _ nonce ledger address invocation \<Rightarrow>
          if address \<noteq> wallet_address
          then Inl ''Soroban authorization preimage authorizer does not match selected wallet''
          else Inr (''address-v2'', nonce, ledger,
            \<lparr>sae_credentials = CredAddressV2 \<lparr>sac_address = address, sac_nonce = nonce,
                sac_signature_expiration_ledger = ledger, sac_signature = ScVoid\<rparr>,
             sae_root_invocation = invocation\<rparr>)
      | PreimageOther _ \<Rightarrow> Inl ''detached token transfer requires a Soroban authorization preimage'')"

text \<open>
  The checks of the invocation, from its sub-invocations to the amount: the contract, the destination and
  the amount it has. The lossy UTF-8 text of the function name is ''transfer'' exactly when its bytes are.
\<close>

definition check_transfer_invocation ::
  "sdk_libs \<Rightarrow> string \<Rightarrow> detached_transfer_request \<Rightarrow> soroban_invocation \<Rightarrow> (string \<times> string \<times> int) result" where
  "check_transfer_invocation B wallet_address request invocation =
     (if sub_invocations invocation \<noteq> []
      then Inl ''detached token transfer authorization must not contain sub-invocations''
      else
        (case invocation_function invocation of
           AuthorizedOther _ \<Rightarrow> Inl ''detached token transfer authorization must authorize a contract function''
         | AuthorizedContractFn call \<Rightarrow>
             and_then (sc_address_string B (ic_contract_address call)) (\<lambda>contract_id.
             if contract_id \<noteq> dtr_token_contract_id request
             then Inl (''detached token transfer contract '' @ contract_id @ '' does not match expected ''
               @ dtr_token_contract_id request)
             else if ic_function_name call \<noteq> bytes_of ''transfer''
             then Inl ''detached token transfer authorization must call transfer''
             else if length (ic_args call) \<noteq> 3
             then Inl (''detached token transfer authorization has '' @ nat_to_dec (length (ic_args call))
               @ '' arguments; expected 3'')
             else
               and_then (scval_address_string B (ic_args call ! 0) ''transfer from'') (\<lambda>from_address.
               if from_address \<noteq> wallet_address
               then Inl (''detached token transfer from '' @ from_address @ '' does not match wallet '' @ wallet_address)
               else
                 and_then (scval_address_string B (ic_args call ! 1) ''transfer destination'') (\<lambda>destination.
                 if destination \<noteq> dtr_destination request
                 then Inl (''detached token transfer destination '' @ destination @ '' does not match expected ''
                   @ dtr_destination request)
                 else
                   and_then (scval_i128 (ic_args call ! 2) ''transfer amount'') (\<lambda>amount.
                   if amount \<noteq> dtr_amount request
                   then Inl (''detached token transfer amount '' @ int_to_dec amount @ '' does not match expected ''
                     @ int_to_dec (dtr_amount request))
                   else Inr (contract_id, destination, amount)))))))"

definition prepare_detached_token_transfer_authorization ::
  "sdk_libs \<Rightarrow> wallet_env \<Rightarrow> wallet_disk \<Rightarrow> string \<Rightarrow> detached_transfer_request \<Rightarrow> prepared_detached result" where
  "prepare_detached_token_transfer_authorization B env disk network request =
     and_then (ensure (0 < dtr_amount request) ''detached token transfer amount must be positive'') (\<lambda>_.
     and_then (resolve_network_wallet (lib_stellar B) env disk network (dtr_wallet request)) (\<lambda>r.
     and_then (classic_account_sc_address (lib_stellar B) (wr_address r)) (\<lambda>wallet_address.
     and_then (map_err (\<lambda>error. ''invalid Soroban authorization preimage XDR: '' @ error)
         (preimage_from_xdr (lib_soroban B) (dtr_preimage_xdr request) client_xdr_depth_limit)) (\<lambda>preimage.
     and_then (detached_entry wallet_address preimage) (\<lambda>(credential_type, nonce, ledger, entry).
     and_then (check_transfer_invocation B (wr_address r) request (sae_root_invocation entry))
       (\<lambda>(contract_id, destination, amount).
     and_then (authorization_entry_xdr B entry) (\<lambda>unsigned_xdr.
     and_then (network_passphrase network) (\<lambda>np.
     and_then (map_err (\<lambda>error. ''Unable to validate Soroban authorization: '' @ sdk_message error)
         (sdk_prepare_soroban_authorization_signing B unsigned_xdr np)) (\<lambda>signing.
       if ssr_preimage_xdr signing \<noteq> dtr_preimage_xdr request
       then Inl ''Soroban authorization preimage does not match the selected network and authorizer''
       else Inr
         \<lparr>pdt_review = \<lparr>dv_network = network, dv_wallet_name = wr_name r, dv_authorizer = wr_address r,
            dv_credential_type = credential_type, dv_token_contract_id = contract_id, dv_destination = destination,
            dv_amount = amount, dv_nonce = nonce, dv_signature_expiration_ledger = ledger\<rparr>,
          pdt_entry = entry, pdt_unsigned_entry_xdr = unsigned_xdr,
          pdt_preimage_xdr = dtr_preimage_xdr request\<rparr>)))))))))"

text \<open>The loop over the fields of a signature; the two fields read so far. A field name that is no valid
  UTF-8 is no known name, however it is displayed.\<close>

fun signature_fields ::
  "(sc_val \<times> sc_val) list \<Rightarrow> bytes option \<times> bytes option \<Rightarrow> (bytes option \<times> bytes option) result" where
  "signature_fields [] found = Inr found"
| "signature_fields ((k, v) # rest) (public_key, signature) =
     (case k of
        ScSymbol name \<Rightarrow>
          (case v of
             ScBytes b \<Rightarrow>
               if name = bytes_of ''public_key'' then signature_fields rest (Some b, signature)
               else if name = bytes_of ''signature'' then signature_fields rest (public_key, Some b)
               else Inl ''signed Soroban authorization signature contains unknown fields''
           | _ \<Rightarrow> Inl ''signed Soroban authorization signature value is malformed'')
      | _ \<Rightarrow> Inl ''signed Soroban authorization signature key is malformed'')"

definition extract_standard_ed25519_signature ::
  "stellar_lib \<Rightarrow> soroban_entry \<Rightarrow> string \<Rightarrow> bytes result" where
  "extract_standard_ed25519_signature L entry expected_public_key =
     and_then (ok_or ''signed Soroban authorization has unsupported credentials''
         (direct_credentials (sae_credentials entry))) (\<lambda>c.
     case sac_signature c of
       ScVec (Some values) \<Rightarrow>
         if length values \<noteq> 1 then Inl ''signed Soroban authorization must contain exactly one signature''
         else
           (case values ! 0 of
              ScMap (Some pairs) \<Rightarrow>
                and_then (signature_fields pairs (None, None)) (\<lambda>(public_key, signature).
                and_then (ok_or ''invalid expected Soroban authorization signer''
                    (public_key_from_string L expected_public_key)) (\<lambda>expected.
                if public_key \<noteq> Some expected
                then Inl ''signed Soroban authorization was produced by the wrong public key''
                else
                  and_then (ok_or ''signed Soroban authorization signature is missing signature bytes'' signature) (\<lambda>sig.
                  if length sig \<noteq> 64
                  then Inl ''signed Soroban authorization signature must contain 64 bytes'' else Inr sig)))
            | _ \<Rightarrow> Inl ''signed Soroban authorization signature is malformed'')
     | _ \<Rightarrow> Inl ''signed Soroban authorization has no standard signature vector'')"

definition sign_detached_token_transfer_authorization_with_system_auth ::
  "sdk_libs \<Rightarrow> wallet_env \<Rightarrow> wallet_disk \<Rightarrow> string option \<Rightarrow> system_auth_provider list \<Rightarrow> prepared_detached
     \<Rightarrow> bytes result" where
  "sign_detached_token_transfer_authorization_with_system_auth B env disk passcode sas p =
     (let network = dv_network (pdt_review p); authorizer = dv_authorizer (pdt_review p) in
     and_then (detached_review_binding B p) (\<lambda>_.
     and_then (local_signing_records (lib_stellar B) env disk network) (\<lambda>signers.
     and_then (system_auth_provider_map signers sas Map.empty) (\<lambda>system_auth.
     and_then (ok_or (''No local signer capability for Soroban authorizer '' @ authorizer) (signers authorizer)) (\<lambda>signer.
     and_then (sign_entry_for B network authorizer signer (system_auth authorizer) passcode
         (pdt_unsigned_entry_xdr p)) (\<lambda>signed_xdr.
     and_then (parse_authorization_entry_xdr B signed_xdr) (\<lambda>signed_entry.
     and_then (validate_signed_authorization (pdt_entry p) signed_entry) (\<lambda>_.
       extract_standard_ed25519_signature (lib_stellar B) signed_entry authorizer))))))))"

definition sign_detached_token_transfer_authorization ::
  "sdk_libs \<Rightarrow> wallet_env \<Rightarrow> wallet_disk \<Rightarrow> string \<Rightarrow> prepared_detached \<Rightarrow> bytes result" where
  "sign_detached_token_transfer_authorization B env disk passcode p =
     sign_detached_token_transfer_authorization_with_system_auth B env disk (Some passcode) [] p"

section \<open>What is signed\<close>

text \<open>XDR: decoding an encoded entry gives the entry, whatever the limits.\<close>

definition entry_codec :: "soroban_lib \<Rightarrow> bool" where
  "entry_codec S \<longleftrightarrow>
     (\<forall>e b n depth len e'. entry_to_xdr S e = Inr b \<or> entry_to_xdr_within S n e = Inr b \<longrightarrow>
        entry_from_xdr S b depth len = Inr e' \<longrightarrow> e' = e)"

lemma entry_codecD:
  "entry_codec S \<Longrightarrow> entry_to_xdr S e = Inr b \<Longrightarrow> entry_from_xdr S b depth len = Inr e' \<Longrightarrow> e' = e"
  "entry_codec S \<Longrightarrow> entry_to_xdr_within S n e = Inr b \<Longrightarrow> entry_from_xdr S b depth len = Inr e' \<Longrightarrow> e' = e"
  unfolding entry_codec_def by blast+

lemma sign_entry_for_client:
  assumes "sign_entry_for B network authorizer signer provider passcode xdr = Inr out"
  shows "\<exists>np v key. network_passphrase network = Inr np \<and>
    client_sign_soroban_authorization_xdr (lib_stellar B) (lib_soroban B) (lib_crypto B) (lib_mnemonic B) v key authorizer xdr np = Inr out"
proof -
  consider pass where "sign_authorization_entry B signer network authorizer xdr pass = Inr out"
    | key where "sign_authorization_entry_with_unlock_key B signer network authorizer xdr key = Inr out"
  proof (cases provider)
    case None
    with assms that(1) show thesis by (auto simp: sign_entry_for_def and_then_Inr)
  next
    case (Some sap)
    with assms obtain release where "(case release of
              ReleasedKey unlock_key \<Rightarrow>
                sign_authorization_entry_with_unlock_key B signer network authorizer xdr unlock_key
            | PassphraseRequired \<Rightarrow> Inl local_software_passphrase_required
            | Cancelled \<Rightarrow> Inl ''System authentication cancelled''
            | ReleaseFailed error \<Rightarrow> Inl (''System authentication for '' @ authorizer @ '' failed: '' @ error)) = Inr out"
      unfolding sign_entry_for_def Some option.case and_then_Inr by blast
    with that(2) show thesis by (cases release) auto
  qed
  then show ?thesis
  proof cases
    case 1
    then show ?thesis
      by (auto simp: sign_authorization_entry_def sdk_sign_soroban_authorization_xdr_with_passcode_def and_then_Inr
          split: if_splits)
  next
    case 2
    then show ?thesis
      by (auto simp: sign_authorization_entry_with_unlock_key_def sdk_sign_soroban_authorization_xdr_def and_then_Inr
          split: if_splits)
  qed
qed

lemma detached_review_binding_Inr:
  assumes "entry_codec (lib_soroban B)" "detached_review_binding B p = Inr ()"
  shows "\<exists>np pre. entry_to_xdr_within (lib_soroban B) client_xdr_depth_limit (pdt_entry p) = Inr (pdt_unsigned_entry_xdr p) \<and>
    network_passphrase (dv_network (pdt_review p)) = Inr np \<and>
    soroban_authorization_preimage (lib_stellar B) (pdt_entry p) np = Inr pre \<and>
    preimage_to_xdr (lib_soroban B) pre = Inr (pdt_preimage_xdr p)"
proof -
  from assms(2) obtain np request where
    x: "entry_to_xdr_within (lib_soroban B) client_xdr_depth_limit (pdt_entry p) = Inr (pdt_unsigned_entry_xdr p)"
    and np: "network_passphrase (dv_network (pdt_review p)) = Inr np"
    and r: "sdk_prepare_soroban_authorization_signing B (pdt_unsigned_entry_xdr p) np = Inr request"
    and pre: "ssr_preimage_xdr request = pdt_preimage_xdr p"
    by (auto simp: detached_review_binding_def authorization_entry_xdr_def and_then_Inr split: if_splits)
  from r obtain e len where
    e: "entry_from_xdr (lib_soroban B) (pdt_unsigned_entry_xdr p) soroban_xdr_decode_max_depth len = Inr e"
    and p: "prepare_soroban_authorization_signing (lib_stellar B) (lib_soroban B) e np = Inr request"
    by (auto simp: sdk_prepare_soroban_authorization_signing_def client_prepare_soroban_authorization_signing_def
        parse_soroban_authorization_entry_xdr_def and_then_Inr)
  from entry_codecD(2) [OF assms(1) x e] p pre x np show ?thesis
    by (auto simp: prepare_soroban_authorization_signing_def and_then_Inr)
qed

text \<open>The signature that is extracted from an entry signed with one key.\<close>

lemma extract_signed:
  assumes "sign_soroban_authorization_entry L S e np s = Inr e'" "sac_signature c = ScVoid"
    and "direct_credentials (sae_credentials e) = Some c"
    and "extract_standard_ed25519_signature L e' authorizer = Inr sig"
  shows "\<exists>k p x. public_key_from_string L authorizer = Some k \<and> length sig = 64 \<and>
    soroban_authorization_preimage L e np = Inr p \<and> preimage_to_xdr S p = Inr x \<and> verify_strict L k (sha256 L x) sig"
  using assms(1)
proof (rule sign_soroban_Inr, goal_cases signed)
  case (signed c' a old v)
  with assms(2,3) have old: "old = []" by (simp add: existing_signatures_def)
  from signed(5) obtain k0 sig0 p x where v: "v = ScMap (Some [(ScSymbol (bytes_of ''public_key''), ScBytes k0),
        (ScSymbol (bytes_of ''signature''), ScBytes sig0)])"
    and pre: "soroban_authorization_preimage L e np = Inr p" "preimage_to_xdr S p = Inr x"
    and ok: "verify_strict L k0 (sha256 L x) sig0" by (auto simp: valid_entry_signature_def)
  have direct: "direct_credentials (sae_credentials e') = Some (c\<lparr>sac_signature := ScVec (Some [v])\<rparr>)"
    using assms(3) signed(7) old by (cases "sae_credentials e") auto
  have names: "bytes_of ''signature'' \<noteq> bytes_of ''public_key''" by (simp add: bytes_of_def)
  from assms(4) direct v names have "public_key_from_string L authorizer = Some k0" "sig = sig0" "length sig0 = 64"
    by (auto simp: extract_standard_ed25519_signature_def and_then_Inr split: if_splits)
  with pre ok show ?case by blast
qed

lemma sign_detached_Inr:
  assumes "entry_codec (lib_soroban B)"
    and "sign_detached_token_transfer_authorization_with_system_auth B env disk passcode sas p = Inr sig"
    and "direct_credentials (sae_credentials (pdt_entry p)) = Some c" "sac_signature c = ScVoid"
  shows "\<exists>np pre k. network_passphrase (dv_network (pdt_review p)) = Inr np \<and>
    soroban_authorization_preimage (lib_stellar B) (pdt_entry p) np = Inr pre \<and>
    preimage_to_xdr (lib_soroban B) pre = Inr (pdt_preimage_xdr p) \<and>
    public_key_from_string (lib_stellar B) (dv_authorizer (pdt_review p)) = Some k \<and> length sig = 64 \<and>
    verify_strict (lib_stellar B) k (sha256 (lib_stellar B) (pdt_preimage_xdr p)) sig"
proof -
  let ?L = "lib_stellar B" and ?S = "lib_soroban B" and ?a = "dv_authorizer (pdt_review p)"
  from assms(2) obtain u signer provider signed_xdr e' where bind: "detached_review_binding B p = Inr u"
    and sign: "sign_entry_for B (dv_network (pdt_review p)) ?a signer provider passcode (pdt_unsigned_entry_xdr p) = Inr signed_xdr"
    and parse: "parse_authorization_entry_xdr B signed_xdr = Inr e'"
    and taken: "extract_standard_ed25519_signature ?L e' ?a = Inr sig"
    unfolding sign_detached_token_transfer_authorization_with_system_auth_def Let_def and_then_Inr by blast
  from bind have "detached_review_binding B p = Inr ()" by simp
  from detached_review_binding_Inr [OF assms(1) this] obtain np pre where
    x: "entry_to_xdr_within ?S client_xdr_depth_limit (pdt_entry p) = Inr (pdt_unsigned_entry_xdr p)"
    and np: "network_passphrase (dv_network (pdt_review p)) = Inr np"
    and pre: "soroban_authorization_preimage ?L (pdt_entry p) np = Inr pre" "preimage_to_xdr ?S pre = Inr (pdt_preimage_xdr p)"
    by blast
  from sign_entry_for_client [OF sign] np obtain v key where
    "client_sign_soroban_authorization_xdr ?L ?S (lib_crypto B) (lib_mnemonic B) v key ?a (pdt_unsigned_entry_xdr p) np = Inr signed_xdr"
    by auto
  then obtain e s e1 len where e: "entry_from_xdr ?S (pdt_unsigned_entry_xdr p) soroban_xdr_decode_max_depth len = Inr e"
    and s: "sign_soroban_authorization_entry ?L ?S e np (software_soroban ?L s) = Inr e1"
    and out: "entry_to_xdr ?S e1 = Inr signed_xdr"
    by (auto simp: client_sign_soroban_authorization_xdr_def sign_protected_soroban_authorization_entry_def
        parse_soroban_authorization_entry_xdr_def soroban_authorization_entry_xdr_def and_then_Inr)
  have "e = pdt_entry p" using entry_codecD(2) [OF assms(1) x e] .
  moreover have "e' = e1" using entry_codecD(1) [OF assms(1) out] parse by (auto simp: parse_authorization_entry_xdr_def)
  ultimately have "\<exists>k pre' x'. public_key_from_string ?L ?a = Some k \<and> length sig = 64 \<and>
      soroban_authorization_preimage ?L (pdt_entry p) np = Inr pre' \<and> preimage_to_xdr ?S pre' = Inr x' \<and>
      verify_strict ?L k (sha256 ?L x') sig"
    using extract_signed [OF s assms(4) _ ] assms(3) taken by simp
  with pre np show ?thesis by auto
qed

lemma check_transfer_Inr:
  assumes "check_transfer_invocation B address request invocation = Inr (contract_id, destination, amount)"
  shows "\<exists>call from_address to_address hi lo. invocation = Invocation (AuthorizedContractFn call) [] \<and>
    sc_address_string B (ic_contract_address call) = Inr (dtr_token_contract_id request) \<and>
    ic_function_name call = bytes_of ''transfer'' \<and>
    ic_args call = [ScAddressVal from_address, ScAddressVal to_address, ScI128 hi lo] \<and>
    sc_address_string B from_address = Inr address \<and> sc_address_string B to_address = Inr (dtr_destination request) \<and>
    i128_of_parts hi lo = dtr_amount request \<and>
    contract_id = dtr_token_contract_id request \<and> destination = dtr_destination request \<and> amount = dtr_amount request"
proof (cases invocation)
  case (Invocation f subs)
  with assms obtain call where f: "f = AuthorizedContractFn call" "subs = []"
    by (cases f) (auto simp: check_transfer_invocation_def split: if_splits)
  from assms Invocation f have len: "length (ic_args call) = 3"
    by (auto simp: check_transfer_invocation_def and_then_Inr split: if_splits)
  then obtain x y z where args: "ic_args call = [x, y, z]" by (auto simp: length_Suc_conv numeral_3_eq_3)
  from assms Invocation f args obtain from_address where x: "x = ScAddressVal from_address" "sc_address_string B from_address = Inr address"
    by (cases x) (auto simp: check_transfer_invocation_def and_then_Inr scval_address_string_def split: if_splits)
  from assms Invocation f args obtain to_address where y: "y = ScAddressVal to_address"
      "sc_address_string B to_address = Inr (dtr_destination request)"
    by (cases y) (auto simp: check_transfer_invocation_def and_then_Inr scval_address_string_def split: if_splits)
  from assms Invocation f args obtain hi lo where z: "z = ScI128 hi lo" "i128_of_parts hi lo = dtr_amount request"
    by (cases z) (auto simp: check_transfer_invocation_def and_then_Inr scval_i128_def split: if_splits)
  from assms Invocation f args have rest: "sc_address_string B (ic_contract_address call) = Inr (dtr_token_contract_id request)"
      "ic_function_name call = bytes_of ''transfer''" "contract_id = dtr_token_contract_id request"
      "destination = dtr_destination request" "amount = dtr_amount request"
    by (auto simp: check_transfer_invocation_def and_then_Inr split: if_splits)
  with x y z args Invocation f show ?thesis by simp
qed

fun preimage_invocation :: "soroban_preimage \<Rightarrow> soroban_invocation option" where
  "preimage_invocation (PreimageAuthorization _ _ _ i) = Some i"
| "preimage_invocation (PreimageAuthorizationWithAddress _ _ _ _ i) = Some i"
| "preimage_invocation (PreimageOther _) = None"

lemma detached_entry_Inr:
  assumes "detached_entry a preimage = Inr (t, nonce, ledger, entry)"
  shows "preimage_invocation preimage = Some (sae_root_invocation entry) \<and>
    (\<exists>c. direct_credentials (sae_credentials entry) = Some c \<and> sac_address c = a \<and> sac_signature c = ScVoid)"
  using assms by (cases preimage) (auto simp: detached_entry_def split: if_splits)

lemma prepare_detached_Inr:
  assumes "prepare_detached_token_transfer_authorization B env disk network request = Inr p"
  shows "\<exists>r k preimage contract_id destination amount c.
    resolve_network_wallet (lib_stellar B) env disk network (dtr_wallet request) = Inr r \<and>
    public_key_from_string (lib_stellar B) (wr_address r) = Some k \<and> 0 < dtr_amount request \<and>
    preimage_from_xdr (lib_soroban B) (dtr_preimage_xdr request) client_xdr_depth_limit = Inr preimage \<and>
    preimage_invocation preimage = Some (sae_root_invocation (pdt_entry p)) \<and>
    direct_credentials (sae_credentials (pdt_entry p)) = Some c \<and> sac_address c = ScAccount k \<and> sac_signature c = ScVoid \<and>
    check_transfer_invocation B (wr_address r) request (sae_root_invocation (pdt_entry p)) = Inr (contract_id, destination, amount) \<and>
    pdt_preimage_xdr p = dtr_preimage_xdr request \<and> dv_network (pdt_review p) = network \<and>
    dv_authorizer (pdt_review p) = wr_address r \<and> dv_token_contract_id (pdt_review p) = contract_id \<and>
    dv_destination (pdt_review p) = destination \<and> dv_amount (pdt_review p) = amount"
proof -
  from assms obtain r a preimage t nonce ledger entry contract_id destination amount unsigned_xdr np signing where
    pos: "0 < dtr_amount request"
    and r: "resolve_network_wallet (lib_stellar B) env disk network (dtr_wallet request) = Inr r"
    and a: "classic_account_sc_address (lib_stellar B) (wr_address r) = Inr a"
    and pre: "preimage_from_xdr (lib_soroban B) (dtr_preimage_xdr request) client_xdr_depth_limit = Inr preimage"
    and e: "detached_entry a preimage = Inr (t, nonce, ledger, entry)"
    and c: "check_transfer_invocation B (wr_address r) request (sae_root_invocation entry) = Inr (contract_id, destination, amount)"
    and "sdk_prepare_soroban_authorization_signing B unsigned_xdr np = Inr signing"
    and p: "(if ssr_preimage_xdr signing \<noteq> dtr_preimage_xdr request
       then Inl ''Soroban authorization preimage does not match the selected network and authorizer''
       else Inr
         \<lparr>pdt_review = \<lparr>dv_network = network, dv_wallet_name = wr_name r, dv_authorizer = wr_address r,
            dv_credential_type = t, dv_token_contract_id = contract_id, dv_destination = destination,
            dv_amount = amount, dv_nonce = nonce, dv_signature_expiration_ledger = ledger\<rparr>,
          pdt_entry = entry, pdt_unsigned_entry_xdr = unsigned_xdr,
          pdt_preimage_xdr = dtr_preimage_xdr request\<rparr>) = Inr p"
    unfolding prepare_detached_token_transfer_authorization_def and_then_Inr split_paired_Ex prod.case ensure_Inr map_err_Inr
    by blast
  from a obtain k where k: "public_key_from_string (lib_stellar B) (wr_address r) = Some k" "a = ScAccount k"
    by (auto simp: classic_account_sc_address_def and_then_Inr)
  from detached_entry_Inr [OF e] obtain cr where cr: "direct_credentials (sae_credentials entry) = Some cr" "sac_address cr = a"
    "sac_signature cr = ScVoid" "preimage_invocation preimage = Some (sae_root_invocation entry)" by blast
  from p have "p = \<lparr>pdt_review = \<lparr>dv_network = network, dv_wallet_name = wr_name r, dv_authorizer = wr_address r,
            dv_credential_type = t, dv_token_contract_id = contract_id, dv_destination = destination,
            dv_amount = amount, dv_nonce = nonce, dv_signature_expiration_ledger = ledger\<rparr>,
          pdt_entry = entry, pdt_unsigned_entry_xdr = unsigned_xdr, pdt_preimage_xdr = dtr_preimage_xdr request\<rparr>"
    by (simp split: if_splits)
  with pos r k pre c cr show ?thesis by auto
qed

section \<open>Properties\<close>

text \<open>C5. The signature the wallet gives a token contract is for the reviewed transfer and nothing else: it
  is a 64-byte Ed25519 signature by the selected wallet's key over the SHA-256 hash of exactly the
  preimage that was handed in; that preimage is an authorization on the selected network of one call,
  without calls below it, to \<open>transfer\<close> of the expected contract, from the wallet, to the expected
  destination, of the expected positive amount; and the review shows that call. Decoding an
  encoded entry gives the entry.\<close>

theorem detached_signature_is_reviewed_transfer:
  assumes "entry_codec (lib_soroban B)"
    and "prepare_detached_token_transfer_authorization B env disk network request = Inr p"
    and "sign_detached_token_transfer_authorization_with_system_auth B env' disk' passcode sas p = Inr sig"
  shows "\<exists>r k np pre preimage call from_address to_address hi lo.
    resolve_network_wallet (lib_stellar B) env disk network (dtr_wallet request) = Inr r \<and>
    public_key_from_string (lib_stellar B) (wr_address r) = Some k \<and> length sig = 64 \<and>
    verify_strict (lib_stellar B) k (sha256 (lib_stellar B) (dtr_preimage_xdr request)) sig \<and>
    network_passphrase network = Inr np \<and> soroban_authorization_preimage (lib_stellar B) (pdt_entry p) np = Inr pre \<and>
    preimage_to_xdr (lib_soroban B) pre = Inr (dtr_preimage_xdr request) \<and>
    preimage_from_xdr (lib_soroban B) (dtr_preimage_xdr request) client_xdr_depth_limit = Inr preimage \<and>
    preimage_invocation preimage = Some (Invocation (AuthorizedContractFn call) []) \<and>
    sc_address_string B (ic_contract_address call) = Inr (dtr_token_contract_id request) \<and>
    ic_function_name call = bytes_of ''transfer'' \<and>
    ic_args call = [ScAddressVal from_address, ScAddressVal to_address, ScI128 hi lo] \<and>
    sc_address_string B from_address = Inr (wr_address r) \<and> sc_address_string B to_address = Inr (dtr_destination request) \<and>
    i128_of_parts hi lo = dtr_amount request \<and> 0 < dtr_amount request \<and>
    dv_token_contract_id (pdt_review p) = dtr_token_contract_id request \<and>
    dv_destination (pdt_review p) = dtr_destination request \<and> dv_amount (pdt_review p) = dtr_amount request \<and>
    dv_authorizer (pdt_review p) = wr_address r"
proof -
  from prepare_detached_Inr [OF assms(2)] obtain r k preimage contract_id destination amount c where
    r: "resolve_network_wallet (lib_stellar B) env disk network (dtr_wallet request) = Inr r"
      "public_key_from_string (lib_stellar B) (wr_address r) = Some k" "0 < dtr_amount request"
      "preimage_from_xdr (lib_soroban B) (dtr_preimage_xdr request) client_xdr_depth_limit = Inr preimage"
      "preimage_invocation preimage = Some (sae_root_invocation (pdt_entry p))"
    and c: "direct_credentials (sae_credentials (pdt_entry p)) = Some c" "sac_signature c = ScVoid"
    and check: "check_transfer_invocation B (wr_address r) request (sae_root_invocation (pdt_entry p)) = Inr (contract_id, destination, amount)"
    and v: "pdt_preimage_xdr p = dtr_preimage_xdr request" "dv_network (pdt_review p) = network"
      "dv_authorizer (pdt_review p) = wr_address r" "dv_token_contract_id (pdt_review p) = contract_id"
      "dv_destination (pdt_review p) = destination" "dv_amount (pdt_review p) = amount" by blast
  from sign_detached_Inr [OF assms(1,3) c] v r(2) obtain np pre where
    s: "network_passphrase network = Inr np" "soroban_authorization_preimage (lib_stellar B) (pdt_entry p) np = Inr pre"
      "preimage_to_xdr (lib_soroban B) pre = Inr (dtr_preimage_xdr request)" "length sig = 64"
      "verify_strict (lib_stellar B) k (sha256 (lib_stellar B) (dtr_preimage_xdr request)) sig"
    by auto
  from check_transfer_Inr [OF check] obtain call from_address to_address hi lo where
    t: "sae_root_invocation (pdt_entry p) = Invocation (AuthorizedContractFn call) []"
      "sc_address_string B (ic_contract_address call) = Inr (dtr_token_contract_id request)"
      "ic_function_name call = bytes_of ''transfer''"
      "ic_args call = [ScAddressVal from_address, ScAddressVal to_address, ScI128 hi lo]"
      "sc_address_string B from_address = Inr (wr_address r)" "sc_address_string B to_address = Inr (dtr_destination request)"
      "i128_of_parts hi lo = dtr_amount request" "contract_id = dtr_token_contract_id request"
      "destination = dtr_destination request" "amount = dtr_amount request" by blast
  show ?thesis
    by (rule exI [of _ r], rule exI [of _ k], rule exI [of _ np], rule exI [of _ pre], rule exI [of _ preimage],
        rule exI [of _ call], rule exI [of _ from_address], rule exI [of _ to_address], rule exI [of _ hi], rule exI [of _ lo])
      (use r s t v in simp)
qed

end
