(* ===== verification/DetachedExample.thy ===== *)
theory DetachedExample
  imports Detached Coordinated
begin

text \<open>
  A detached transfer authorization on concrete input: a wallet with a protected secret, an unlocked
  signing, and the signature it gives.
\<close>

definition demo_secret_key :: bytes where "demo_secret_key = bytes_of (replicate 32 (CHR ''a''))"

definition demo_transfer_call :: invoke_contract_args where
  "demo_transfer_call = \<lparr>ic_contract_address = ScContractAddress (replicate 32 3), ic_function_name = bytes_of ''transfer'',
     ic_args = [ScAddressVal (ScAccount demo_secret_key), ScAddressVal (ScAccount demo_key), ScI128 0 5]\<rparr>"

definition demo_transfer_entry :: "sc_val \<Rightarrow> soroban_entry" where
  "demo_transfer_entry v = \<lparr>sae_credentials = CredAddress \<lparr>sac_address = ScAccount demo_secret_key, sac_nonce = 1,
     sac_signature_expiration_ledger = 9, sac_signature = v\<rparr>,
     sae_root_invocation = Invocation (AuthorizedContractFn demo_transfer_call) []\<rparr>"

definition demo_transfer_signature :: sc_val where
  "demo_transfer_signature = ScVec (Some [ScMap (Some [(ScSymbol (bytes_of ''public_key''), ScBytes demo_secret_key),
     (ScSymbol (bytes_of ''signature''), ScBytes (demo_pad 64 demo_secret_key))])])"

definition demo_entry_code :: "soroban_entry \<Rightarrow> string + bytes" where
  "demo_entry_code e = (if e = demo_transfer_entry ScVoid then Inr [0]
     else if e = demo_transfer_entry demo_transfer_signature then Inr [1] else Inl ''unknown'')"

definition demo_transfer_lib :: soroban_lib where
  "demo_transfer_lib =
     \<lparr>entry_to_xdr = demo_entry_code, entry_to_xdr_within = (\<lambda>depth. demo_entry_code),
      entry_from_xdr = (\<lambda>b depth len. if b = [0] then Inr (demo_transfer_entry ScVoid)
        else Inr (demo_transfer_entry demo_transfer_signature)),
      preimage_to_xdr = (\<lambda>p. Inr [9]),
      preimage_from_xdr = (\<lambda>b depth. Inr (PreimageAuthorization [] 1 9 (Invocation (AuthorizedContractFn demo_transfer_call) []))),
      contract_from_string = demo_contract_parse, contract_to_string = demo_contract_text\<rparr>"

definition demo_transfer_sdk :: "json \<Rightarrow> sdk_libs" where
  "demo_transfer_sdk v = \<lparr>lib_stellar = demo_lib, lib_soroban = demo_transfer_lib, lib_crypto = demo_crypto,
     lib_mnemonic = demo_mnemonics, lib_json_to_string = (\<lambda>_. Inr ''{}''), lib_json_from_string = (\<lambda>_. Inr v)\<rparr>"

definition demo_signing_wallet :: "json \<Rightarrow> wallet_record" where
  "demo_signing_wallet v = \<lparr>wr_name = ''a'', wr_address = demo_key_text demo_secret_key, wr_wallet_type = ''secret'',
     wr_network = ''testnet'', wr_secret = Some v, wr_metadata = []\<rparr>"

definition demo_signing_disk :: "json \<Rightarrow> wallet_disk" where
  "demo_signing_disk v = empty_wallet_disk\<lparr>wd_files := [wallet_path demo_lib ''a'' \<mapsto> WalletFile (demo_signing_wallet v)]\<rparr>"

definition demo_transfer_request :: detached_transfer_request where
  "demo_transfer_request = (detached_transfer_request_new (demo_contract_text (replicate 32 3)) (demo_key_text demo_key) 5 [9])
     \<lparr>dtr_wallet := Some ''a''\<rparr>"

definition demo_detached :: prepared_detached where
  "demo_detached =
     \<lparr>pdt_review = \<lparr>dv_network = ''testnet'', dv_wallet_name = ''a'', dv_authorizer = demo_key_text demo_secret_key,
        dv_credential_type = ''address'', dv_token_contract_id = demo_contract_text (replicate 32 3),
        dv_destination = demo_key_text demo_key, dv_amount = 5, dv_nonce = 1, dv_signature_expiration_ledger = 9\<rparr>,
      pdt_entry = demo_transfer_entry ScVoid, pdt_unsigned_entry_xdr = [0], pdt_preimage_xdr = [9]\<rparr>"

lemma demo_secret_key_simps [simp]: "length demo_secret_key = 32" "demo_pad 32 demo_secret_key = demo_secret_key"
  by (simp_all add: demo_secret_key_def demo_pad_def)

lemma demo_transfer_codec: "entry_codec demo_transfer_lib"
  by (simp add: entry_codec_def demo_transfer_lib_def demo_entry_code_def)

lemma demo_transfer_sdk_fields:
  "lib_stellar (demo_transfer_sdk v) = demo_lib" "lib_soroban (demo_transfer_sdk v) = demo_transfer_lib"
  "lib_crypto (demo_transfer_sdk v) = demo_crypto" "lib_mnemonic (demo_transfer_sdk v) = demo_mnemonics"
  "lib_json_to_string (demo_transfer_sdk v) j = Inr ''{}''" "lib_json_from_string (demo_transfer_sdk v) t = Inr v"
  by (simp_all add: demo_transfer_sdk_def)

lemma demo_transfer_lib_fields:
  "entry_to_xdr demo_transfer_lib (demo_transfer_entry ScVoid) = Inr [0]"
  "entry_to_xdr demo_transfer_lib (demo_transfer_entry demo_transfer_signature) = Inr [1]"
  "entry_to_xdr_within demo_transfer_lib n (demo_transfer_entry ScVoid) = Inr [0]"
  "entry_from_xdr demo_transfer_lib [0] depth len = Inr (demo_transfer_entry ScVoid)"
  "entry_from_xdr demo_transfer_lib [1] depth len = Inr (demo_transfer_entry demo_transfer_signature)"
  "preimage_to_xdr demo_transfer_lib p = Inr [9]" "contract_to_string demo_transfer_lib = demo_contract_text"
proof -
  have "demo_transfer_entry demo_transfer_signature \<noteq> demo_transfer_entry ScVoid"
    by (simp add: demo_transfer_entry_def demo_transfer_signature_def)
  then show "entry_to_xdr demo_transfer_lib (demo_transfer_entry demo_transfer_signature) = Inr [1]"
    by (simp add: demo_transfer_lib_def demo_entry_code_def)
qed (simp_all add: demo_transfer_lib_def demo_entry_code_def)

lemma demo_signing_wallet_stored:
  assumes "as_object v \<noteq> None"
  shows "storage_load demo_lib ''a'' (demo_signing_disk v) = Inr (demo_signing_wallet v)"
    "wallet_store_ok demo_lib (demo_signing_disk v)"
proof -
  have valid: "validate_record demo_lib (demo_signing_wallet v) = Inr ()"
    using assms trim_a by (simp add: validate_record_def demo_signing_wallet_def demo_account_parse watch_only_def)
  then show "storage_load demo_lib ''a'' (demo_signing_disk v) = Inr (demo_signing_wallet v)"
    by (simp add: storage_load_def demo_signing_disk_def) (simp add: demo_signing_wallet_def)
  from valid trim_a show "wallet_store_ok demo_lib (demo_signing_disk v)"
    by (auto simp: wallet_store_ok_def demo_signing_disk_def empty_wallet_disk_def demo_signing_wallet_def)
qed

lemma demo_signing_records:
  assumes "as_object v \<noteq> None"
  shows "\<exists>records. local_signing_records demo_lib demo_wallet_env (demo_signing_disk v) ''testnet'' = Inr records \<and>
    records (demo_key_text demo_secret_key) = Some (demo_signing_wallet v)"
proof -
  obtain rs where rs: "storage_list demo_lib demo_wallet_env (demo_signing_disk v) = Inr rs"
    "set rs = stored_records (demo_signing_disk v)" "distinct rs"
    using storage_list_ok [OF demo_listing demo_signing_wallet_stored(2) [OF assms]] by blast
  have "stored_records (demo_signing_disk v) = {demo_signing_wallet v}"
    by (auto simp: stored_records_def demo_signing_disk_def empty_wallet_disk_def split: if_splits)
  with rs(2,3) have "rs = [demo_signing_wallet v]" by (cases rs; cases "tl rs") auto
  with rs(1) show ?thesis
    by (simp add: local_signing_records_def demo_signing_wallet_def watch_only_def)
qed

lemma demo_detached_prepares:
  assumes "as_object v \<noteq> None"
  shows "prepare_detached_token_transfer_authorization (demo_transfer_sdk v) demo_wallet_env (demo_signing_disk v) ''testnet''
    demo_transfer_request = Inr demo_detached"
proof -
  have wallet: "resolve_network_wallet demo_lib demo_wallet_env (demo_signing_disk v) ''testnet'' (Some ''a'') = Inr (demo_signing_wallet v)"
    using demo_signing_wallet_stored [OF assms]
    by (simp add: resolve_network_wallet_def storage_resolve_def) (simp add: demo_signing_wallet_def)
  have fields: "wr_address (demo_signing_wallet v) = demo_key_text demo_secret_key" "wr_name (demo_signing_wallet v) = ''a''"
    by (simp_all add: demo_signing_wallet_def)
  have req: "dtr_amount demo_transfer_request = 5" "dtr_wallet demo_transfer_request = Some ''a''"
    "dtr_preimage_xdr demo_transfer_request = [9]" "dtr_destination demo_transfer_request = demo_key_text demo_key"
    "dtr_token_contract_id demo_transfer_request = demo_contract_text (replicate 32 3)"
    by (simp_all add: demo_transfer_request_def detached_transfer_request_new_def)
  have pre: "preimage_from_xdr demo_transfer_lib [9] client_xdr_depth_limit =
      Inr (PreimageAuthorization [] 1 9 (Invocation (AuthorizedContractFn demo_transfer_call) []))"
    by (simp add: demo_transfer_lib_def)
  have entry: "detached_entry (ScAccount demo_secret_key)
      (PreimageAuthorization [] 1 9 (Invocation (AuthorizedContractFn demo_transfer_call) [])) =
      Inr (''address'', 1, 9, demo_transfer_entry ScVoid)"
    by (simp add: detached_entry_def demo_transfer_entry_def)
  have root: "sae_root_invocation (demo_transfer_entry ScVoid) = Invocation (AuthorizedContractFn demo_transfer_call) []"
    by (simp add: demo_transfer_entry_def)
  have check: "check_transfer_invocation (demo_transfer_sdk v) (demo_key_text demo_secret_key) demo_transfer_request
      (Invocation (AuthorizedContractFn demo_transfer_call) []) = Inr (demo_contract_text (replicate 32 3), demo_key_text demo_key, 5)"
    by (simp add: check_transfer_invocation_def demo_transfer_call_def sc_address_string_def scval_address_string_def
        scval_i128_def i128_of_parts_def req demo_transfer_sdk_fields demo_transfer_lib_fields)
  have signing: "\<exists>x. sdk_prepare_soroban_authorization_signing (demo_transfer_sdk v) [0] testnet_passphrase = Inr x \<and> ssr_preimage_xdr x = [9]"
    by (simp add: sdk_prepare_soroban_authorization_signing_def client_prepare_soroban_authorization_signing_def
        parse_soroban_authorization_entry_xdr_def demo_transfer_sdk_fields demo_transfer_lib_fields
        prepare_soroban_authorization_signing_def soroban_authorization_entry_xdr_def soroban_authorization_preimage_def)
      (simp add: demo_transfer_entry_def)
  then obtain x where x: "sdk_prepare_soroban_authorization_signing (demo_transfer_sdk v) [0] testnet_passphrase = Inr x"
    "ssr_preimage_xdr x = [9]" by blast
  have np: "network_passphrase ''testnet'' = Inr testnet_passphrase" by (simp add: network_passphrase_def)
  have address: "classic_account_sc_address demo_lib (demo_key_text demo_secret_key) = Inr (ScAccount demo_secret_key)"
    by (simp add: classic_account_sc_address_def)
  have xdr: "authorization_entry_xdr (demo_transfer_sdk v) (demo_transfer_entry ScVoid) = Inr [0]"
    by (simp add: authorization_entry_xdr_def demo_transfer_sdk_fields demo_transfer_lib_fields)
  show ?thesis
    unfolding prepare_detached_token_transfer_authorization_def demo_transfer_sdk_fields req
    by (simp add: wallet fields address pre entry root check xdr np x demo_detached_def)
qed

lemma demo_detached_bound: "detached_review_binding (demo_transfer_sdk v) demo_detached = Inr ()"
proof -
  have np: "network_passphrase ''testnet'' = Inr testnet_passphrase" by (simp add: network_passphrase_def)
  show ?thesis
    by (simp add: detached_review_binding_def authorization_entry_xdr_def demo_detached_def np
        sdk_prepare_soroban_authorization_signing_def client_prepare_soroban_authorization_signing_def
        parse_soroban_authorization_entry_xdr_def demo_transfer_sdk_fields demo_transfer_lib_fields
        prepare_soroban_authorization_signing_def soroban_authorization_entry_xdr_def soroban_authorization_preimage_def)
      (simp add: demo_transfer_entry_def)
qed

lemma demo_transfer_signed:
  assumes "sw_public_key s = demo_key_text demo_secret_key" "software_valid demo_lib s"
  shows "sign_soroban_authorization_entry demo_lib demo_transfer_lib (demo_transfer_entry ScVoid) np (software_soroban demo_lib s) =
    Inr (demo_transfer_entry demo_transfer_signature)"
proof -
  have "demo_key_text (demo_pad 32 (sw_signing_key s)) = demo_key_text demo_secret_key"
  proof -
    have "sw_public_key s = sw_public_key (from_signing_key demo_lib (sw_signing_key s))"
      using assms(2) by (simp add: software_valid_def)
    then show ?thesis using assms(1) by (simp add: from_signing_key_def)
  qed
  then have "demo_parse_key (demo_key_text (demo_pad 32 (sw_signing_key s))) = demo_parse_key (demo_key_text demo_secret_key)" by simp
  then have key: "demo_pad 32 (sw_signing_key s) = demo_secret_key" by (simp add: demo_pad_def)
  then have sign: "ed25519_sign demo_lib (sw_signing_key s) m = demo_pad 64 demo_secret_key" for m
    by (simp add: demo_lib_def)
  have entry: "sae_credentials (demo_transfer_entry ScVoid) = CredAddress \<lparr>sac_address = ScAccount demo_secret_key, sac_nonce = 1,
     sac_signature_expiration_ledger = 9, sac_signature = ScVoid\<rparr>" by (simp add: demo_transfer_entry_def)
  have request: "\<exists>r. prepare_soroban_authorization_signing demo_lib demo_transfer_lib (demo_transfer_entry ScVoid) np = Inr r"
    by (simp add: prepare_soroban_authorization_signing_def soroban_authorization_entry_xdr_def demo_transfer_lib_fields
        soroban_authorization_preimage_def entry)
  have app: "append_signature (demo_transfer_entry ScVoid) (ScMap (Some [(ScSymbol (bytes_of ''public_key''), ScBytes demo_secret_key),
     (ScSymbol (bytes_of ''signature''), ScBytes (demo_pad 64 demo_secret_key))])) = Inr (demo_transfer_entry demo_transfer_signature)"
    by (simp add: append_signature_def entry appended_signature_def existing_signatures_def u32_max_def)
      (simp add: demo_transfer_entry_def demo_transfer_signature_def)
  show ?thesis
    using request
    by (auto simp: sign_soroban_authorization_entry_def ensure_direct_account_credential_def entry software_soroban_def assms(1)
        sign key verify_soroban_signature_def ed25519_signature_value_def app)
qed

lemma demo_detached_signs:
  "\<exists>v. as_object v \<noteq> None \<and>
     sign_detached_token_transfer_authorization (demo_transfer_sdk v) demo_wallet_env (demo_signing_disk v) ''pw'' demo_detached =
       Inr (demo_pad 64 demo_secret_key)"
proof -
  obtain w where w: "protect_secret_signing_material demo_lib (registry_new demo_crypto) demo_secret ''pw'' = Inr w"
    using demo_protected [of "''pw''"] by blast
  then obtain s where s: "from_secret demo_lib (trim demo_secret) = Inr s" "pwm_public_key w = sw_public_key s"
    and box: "registry_protect (registry_new demo_crypto) (JObject [(''kind'', JString ''secret''), (''secret'', JString (trim demo_secret))])
      (Password ''pw'') = Inr (pwm_envelope w)"
    by (rule protected_secret_Inr)
  have key: "s = from_signing_key demo_lib demo_secret_key" using s(1) by (simp add: demo_from_secret demo_secret_key_def)
  then have pk: "pwm_public_key w = demo_key_text demo_secret_key" using s(2) by (simp add: from_signing_key_def)
  let ?v = "pwm_envelope w"
  from box obtain m where "?v = JObject m" by (auto simp: registry_protect_def registry_wrap_def and_then_Inr dest: sym)
  then have object: "as_object ?v \<noteq> None" by simp
  from protected_secret_usable [OF demo_crypto_ok demo_public_key_codec demo_public_key_text_plain demo_ed25519_correct w,
      of demo_mnemonics] pk obtain uk s' where
    uk: "derive_verified_unlock_key demo_lib demo_crypto demo_mnemonics ?v ''pw'' (demo_key_text demo_secret_key) = Inr uk"
    and s': "unlock_software_signer demo_lib demo_crypto demo_mnemonics ?v uk (demo_key_text demo_secret_key) = Inr s'"
      "sw_public_key s' = demo_key_text demo_secret_key" by auto
  from unlock_software_signer_Inr [OF s'(1)] have "software_valid demo_lib s'" by blast
  note sign = demo_transfer_signed [OF s'(2) this]
  obtain records where records: "local_signing_records demo_lib demo_wallet_env (demo_signing_disk ?v) ''testnet'' = Inr records"
    "records (demo_key_text demo_secret_key) = Some (demo_signing_wallet ?v)"
    using demo_signing_records [OF object] by blast
  have client: "client_sign_soroban_authorization_xdr demo_lib demo_transfer_lib demo_crypto demo_mnemonics ?v uk
      (demo_key_text demo_secret_key) [0] np = Inr [1]" for np
    by (simp add: client_sign_soroban_authorization_xdr_def parse_soroban_authorization_entry_xdr_def demo_transfer_lib_fields
        sign_protected_soroban_authorization_entry_def s'(1) sign soroban_authorization_entry_xdr_def)
  have wallet: "wr_secret (demo_signing_wallet ?v) = Some ?v" "\<not> watch_only (demo_signing_wallet ?v)"
    by (simp_all add: demo_signing_wallet_def watch_only_def)
  have signed: "sign_authorization_entry (demo_transfer_sdk ?v) (demo_signing_wallet ?v) ''testnet'' (demo_key_text demo_secret_key) [0] ''pw'' = Inr [1]"
    by (simp add: sign_authorization_entry_def wallet demo_transfer_sdk_fields network_passphrase_def
        sdk_sign_soroban_authorization_xdr_with_passcode_def sdk_parse_envelope_def client_derive_unlock_key_def uk client)
  have valid: "validate_signed_authorization (demo_transfer_entry ScVoid) (demo_transfer_entry demo_transfer_signature) = Inr ()"
    by (simp add: validate_signed_authorization_def set_signature_void_def)
      (simp add: demo_transfer_entry_def demo_transfer_signature_def)
  have names: "bytes_of ''signature'' \<noteq> bytes_of ''public_key''" by (simp add: bytes_of_def)
  have taken: "extract_standard_ed25519_signature demo_lib (demo_transfer_entry demo_transfer_signature) (demo_key_text demo_secret_key) =
      Inr (demo_pad 64 demo_secret_key)"
    using names
    by (simp add: extract_standard_ed25519_signature_def demo_transfer_entry_def demo_transfer_signature_def)
  have fields: "dv_network (pdt_review demo_detached) = ''testnet''" "dv_authorizer (pdt_review demo_detached) = demo_key_text demo_secret_key"
    "pdt_unsigned_entry_xdr demo_detached = [0]" "pdt_entry demo_detached = demo_transfer_entry ScVoid"
    by (simp_all add: demo_detached_def)
  have "sign_detached_token_transfer_authorization (demo_transfer_sdk ?v) demo_wallet_env (demo_signing_disk ?v) ''pw'' demo_detached =
       Inr (demo_pad 64 demo_secret_key)"
    unfolding sign_detached_token_transfer_authorization_def sign_detached_token_transfer_authorization_with_system_auth_def Let_def
    by (simp add: demo_detached_bound fields demo_transfer_sdk_fields records sign_entry_for_def signed
        parse_authorization_entry_xdr_def demo_transfer_lib_fields valid taken)
  with object show ?thesis by blast
qed

theorem detached_signature_is_reviewed_transfer_witness:
  "\<exists>v k. sign_detached_token_transfer_authorization (demo_transfer_sdk v) demo_wallet_env (demo_signing_disk v) ''pw'' demo_detached =
       Inr (demo_pad 64 demo_secret_key) \<and>
     public_key_from_string demo_lib (demo_key_text demo_secret_key) = Some k \<and>
     verify_strict demo_lib k (sha256 demo_lib [9]) (demo_pad 64 demo_secret_key)"
proof -
  obtain v where v: "as_object v \<noteq> None"
    "sign_detached_token_transfer_authorization (demo_transfer_sdk v) demo_wallet_env (demo_signing_disk v) ''pw'' demo_detached =
       Inr (demo_pad 64 demo_secret_key)" using demo_detached_signs by blast
  have codec: "entry_codec (lib_soroban (demo_transfer_sdk v))" by (simp add: demo_transfer_sdk_fields demo_transfer_codec)
  have request: "dtr_preimage_xdr demo_transfer_request = [9]"
    by (simp add: demo_transfer_request_def detached_transfer_request_new_def)
  have address: "dv_authorizer (pdt_review demo_detached) = demo_key_text demo_secret_key" by (simp add: demo_detached_def)
  from detached_signature_is_reviewed_transfer [OF codec demo_detached_prepares [OF v(1)]
      v(2) [unfolded sign_detached_token_transfer_authorization_def]] address request
  obtain k where "public_key_from_string demo_lib (demo_key_text demo_secret_key) = Some k"
    "verify_strict demo_lib k (sha256 demo_lib [9]) (demo_pad 64 demo_secret_key)"
    unfolding demo_transfer_sdk_fields by auto
  with v(2) show ?thesis by blast
qed

end
