(* ===== verification/Market.thy ===== *)
theory Market
  imports Client DexMath
begin

text \<open>
  The reading half of dex.rs: open offers, the order book, trades of a pair, the fills of an account
  (adjacent trades of one offer at one price merged into one fill) and candles.
\<close>

section \<open>Records\<close>

record open_offer =
  oo_offer_id :: int
  oo_seller :: string
  oo_selling :: string
  oo_buying :: string
  oo_amount :: string
  oo_price :: string
  oo_price_n :: int
  oo_price_d :: int
  oo_last_modified_ledger :: "int option"
  oo_last_modified_time :: "string option"

record open_offers_snapshot =
  os_wallet :: wallet_record
  os_offers :: "open_offer list"

record order_book_level =
  ob_amount :: string
  ob_price :: string
  ob_price_n :: int
  ob_price_d :: int

record order_book_snapshot =
  obs_base :: string
  obs_counter :: string
  obs_bids :: "order_book_level list"
  obs_asks :: "order_book_level list"

datatype dex_trade_side = TradeBuy | TradeSell

fun dex_trade_side_label :: "dex_trade_side \<Rightarrow> string" where
  "dex_trade_side_label TradeBuy = ''BUY''"
| "dex_trade_side_label TradeSell = ''SELL''"

record pair_trade =
  ptr_trade_id :: string
  ptr_ledger_close_time :: "string option"
  ptr_base_amount :: string
  ptr_counter_amount :: string
  ptr_price :: string
  ptr_price_n :: "int option"
  ptr_price_d :: "int option"
  ptr_base_side :: dex_trade_side

record pair_trades_snapshot =
  pts_base :: string
  pts_counter :: string
  pts_trades :: "pair_trade list"

record fill_segment =
  fs_base_asset :: string
  fs_counter_asset :: string
  fs_side :: dex_trade_side
  fs_base_amount :: string
  fs_counter_amount :: string
  fs_price :: string
  fs_price_n :: int
  fs_price_d :: int
  fs_offer_id :: "string option"
  fs_trade_count :: nat
  fs_first_time :: "string option"
  fs_last_time :: "string option"
  fs_first_trade_id :: string
  fs_last_trade_id :: string

record account_fills_snapshot =
  af_wallet :: wallet_record
  af_fills :: "fill_segment list"

record trade_candle =
  tc_timestamp :: nat
  tc_open :: string
  tc_high :: string
  tc_low :: string
  tc_close :: string
  tc_base_volume :: string
  tc_counter_volume :: "string option"
  tc_trade_count :: nat

record candle_snapshot =
  cas_base :: string
  cas_counter :: string
  cas_resolution_ms :: nat
  cas_candles :: "trade_candle list"

section \<open>Values\<close>

text \<open>\<open>integer(v).and_then(i32::try_from)\<close>, and the same kept only when positive.\<close>

definition integer_i32 :: "json option \<Rightarrow> int option" where
  "integer_i32 v = Option.bind (integer_value v) (\<lambda>n. if in_i32 n then Some n else None)"

definition positive_i32 :: "json option \<Rightarrow> int option" where
  "positive_i32 v = Option.bind (integer_i32 v) (\<lambda>n. if n > 0 then Some n else None)"

definition get_object :: "json \<Rightarrow> string \<Rightarrow> json option" where
  "get_object v k = Option.bind (json_get v k) (\<lambda>o'. map_option (\<lambda>_. o') (as_object o'))"

definition horizon_price :: "json \<Rightarrow> price result" where
  "horizon_price offer =
     and_then (ok_or ''Horizon returned malformed offer price ratio'' (get_object offer ''price_r'')) (\<lambda>ratio.
     and_then (ok_or ''Horizon returned invalid offer price numerator'' (positive_i32 (json_get ratio ''n''))) (\<lambda>n.
     and_then (ok_or ''Horizon returned invalid offer price denominator'' (positive_i32 (json_get ratio ''d''))) (\<lambda>d.
       Inr \<lparr>price_n = n, price_d = d\<rparr>)))"

fun unsigned_integer :: "json option \<Rightarrow> nat option" where
  "unsigned_integer (Some (JNumber n)) = number_as_u64 n"
| "unsigned_integer (Some (JString s)) = parse_u64 s"
| "unsigned_integer _ = None"

definition ensure_pair :: "asset \<Rightarrow> asset \<Rightarrow> unit result" where
  "ensure_pair base counter = (if base = counter then Inl ''Offer assets must be different'' else Inr ())"

definition validate_page_limit :: "nat \<Rightarrow> string \<Rightarrow> unit result" where
  "validate_page_limit limit label =
     (if \<not> (1 \<le> limit \<and> limit \<le> 200) then Inl (label @ '' limit must be from 1 to 200'') else Inr ())"

definition parse_trade_amount :: "json \<Rightarrow> string \<Rightarrow> int result" where
  "parse_trade_amount raw key =
     and_then (ok_or (''Invalid Horizon trade record: '' @ key) (get_str raw key)) (\<lambda>value.
       map_err (\<lambda>_. ''Invalid Horizon trade record amount: '' @ value) (parse_stroops value False))"

definition trade_asset :: "stellar_lib \<Rightarrow> json \<Rightarrow> string \<Rightarrow> string result" where
  "trade_asset L raw p =
     (if get_str raw (p @ ''_asset_type'') = Some ''native'' then Inr ''XLM''
      else
        and_then (ok_or ''Invalid Horizon trade asset code'' (get_str raw (p @ ''_asset_code''))) (\<lambda>code.
        and_then (ok_or ''Invalid Horizon trade asset issuer'' (get_str raw (p @ ''_asset_issuer''))) (\<lambda>issuer.
          map_ok (asset_display L) (asset_parse L (code @ '':'' @ issuer)))))"

section \<open>Open offers and the order book\<close>

definition horizon_offer_asset :: "stellar_lib \<Rightarrow> json \<Rightarrow> string \<Rightarrow> asset result" where
  "horizon_offer_asset L raw key =
     and_then (ok_or (''Horizon returned malformed offer '' @ key @ '' asset'') (json_get raw key)) (asset_from_horizon L)"

definition open_offer_from_horizon :: "stellar_lib \<Rightarrow> json \<Rightarrow> open_offer result" where
  "open_offer_from_horizon L raw =
     and_then (ok_or ''Horizon returned invalid offer id''
         (Option.bind (integer_value (json_get raw ''id'')) (\<lambda>i. if i > 0 then Some i else None))) (\<lambda>offer_id.
     and_then (ok_or ''Horizon returned malformed offer seller'' (get_str raw ''seller'')) (\<lambda>seller.
     and_then (horizon_offer_asset L raw ''selling'') (\<lambda>selling.
     and_then (horizon_offer_asset L raw ''buying'') (\<lambda>buying.
     and_then (ok_or ''Horizon returned malformed offer amount'' (get_str raw ''amount'')) (\<lambda>amount.
     and_then (ok_or ''Horizon returned malformed offer price'' (get_str raw ''price'')) (\<lambda>p.
     and_then (horizon_price raw) (\<lambda>ratio.
       Inr \<lparr>oo_offer_id = offer_id, oo_seller = seller, oo_selling = asset_display L selling,
            oo_buying = asset_display L buying, oo_amount = amount, oo_price = p, oo_price_n = price_n ratio,
            oo_price_d = price_d ratio, oo_last_modified_ledger = integer_value (json_get raw ''last_modified_ledger''),
            oo_last_modified_time = get_str raw ''last_modified_time''\<rparr>)))))))"

definition open_offers :: "'rpc fresnica_client \<Rightarrow> string option \<Rightarrow> nat \<Rightarrow> client_disk \<Rightarrow> open_offers_snapshot result" where
  "open_offers C name limit disk =
     (if \<not> (1 \<le> limit \<and> limit \<le> 200) then Inl ''offers limit must be from 1 to 200''
      else
        and_then (client_resolve_wallet C name disk) (\<lambda>r.
        and_then (get_offers (fc_gateway C) (wr_address r) limit) (\<lambda>raws.
        and_then (collect_ok (map (open_offer_from_horizon (fc_stellar C)) raws)) (\<lambda>offers.
          Inr \<lparr>os_wallet = r, os_offers = offers\<rparr>))))"

definition order_book_rows :: "json \<Rightarrow> string \<Rightarrow> json list result" where
  "order_book_rows v key = ok_or (''Horizon returned malformed order book '' @ key) (get_array v key)"

definition order_book_amount :: "json \<Rightarrow> int result" where
  "order_book_amount v =
     map_err (\<lambda>_. ''Horizon returned invalid order book amount'')
       (parse_stroops (case get_str v ''amount'' of Some s \<Rightarrow> s | None \<Rightarrow> []) True)"

definition order_book_bid :: "json \<Rightarrow> order_book_level result" where
  "order_book_bid v =
     and_then (order_book_amount v) (\<lambda>amount.
     and_then (horizon_price v) (\<lambda>p.
     and_then (ok_or ''order book bid amount overflow'' (checked_i128 (amount * price_d p))) (\<lambda>numerator.
     and_then (round_ratio numerator (price_n p)) (\<lambda>base_stroops.
     and_then (format_price_ratio (price_n p) (price_d p)) (\<lambda>text'.
       Inr \<lparr>ob_amount = format_scaled_7 base_stroops, ob_price = text', ob_price_n = price_n p,
            ob_price_d = price_d p\<rparr>)))))"

definition order_book_ask :: "json \<Rightarrow> order_book_level result" where
  "order_book_ask v =
     and_then (order_book_amount v) (\<lambda>amount.
     and_then (horizon_price v) (\<lambda>p.
     and_then (format_price_ratio (price_n p) (price_d p)) (\<lambda>text'.
       Inr \<lparr>ob_amount = format_scaled_7 amount, ob_price = text', ob_price_n = price_n p,
            ob_price_d = price_d p\<rparr>)))"

definition order_book :: "'rpc fresnica_client \<Rightarrow> string \<Rightarrow> string \<Rightarrow> order_book_snapshot result" where
  "order_book C base_text counter_text =
     (let L = fc_stellar C in
     and_then (asset_parse L base_text) (\<lambda>base.
     and_then (asset_parse L counter_text) (\<lambda>counter.
     and_then (ensure_pair base counter) (\<lambda>_.
     and_then (get_order_book (fc_gateway C) (asset_query L base ''selling'') (asset_query L counter ''buying'')) (\<lambda>raw.
     and_then (and_then (order_book_rows raw ''bids'') (\<lambda>rows. collect_ok (map order_book_bid rows))) (\<lambda>bids.
     and_then (and_then (order_book_rows raw ''asks'') (\<lambda>rows. collect_ok (map order_book_ask rows))) (\<lambda>asks.
       Inr \<lparr>obs_base = asset_display L base, obs_counter = asset_display L counter, obs_bids = bids, obs_asks = asks\<rparr>)))))))"

section \<open>Trades of a pair\<close>

definition trade_ratio :: "json \<Rightarrow> (int \<times> int) option" where
  "trade_ratio raw =
     Option.bind (get_object raw ''price'') (\<lambda>p.
     Option.bind (integer_i32 (json_get p ''n'')) (\<lambda>n.
     Option.bind (integer_i32 (json_get p ''d'')) (\<lambda>d.
       if n > 0 \<and> d > 0 then Some (n, d) else None)))"

definition trade_price_parts :: "json \<Rightarrow> (string \<times> int option \<times> int option) result" where
  "trade_price_parts raw =
     (case trade_ratio raw of
        Some (n, d) \<Rightarrow> and_then (format_price_ratio n d) (\<lambda>text'. Inr (text', Some n, Some d))
      | None \<Rightarrow>
          and_then (parse_trade_amount raw ''base_amount'') (\<lambda>base.
          and_then (parse_trade_amount raw ''counter_amount'') (\<lambda>counter.
          if base \<le> 0 then Inl ''Horizon returned invalid zero trade base amount''
          else
            and_then (ok_or ''trade price overflow'' (checked_i128 (counter * stroops_per_xlm))) (\<lambda>numerator.
            and_then (ok_or ''trade price overflow'' (checked_i128 (numerator * 2))) (\<lambda>twice.
            and_then (if twice < base then Inr ''<0.0000001''
                else map_ok format_scaled_7 (round_ratio numerator base)) (\<lambda>text'.
              Inr (text', None, None)))))))"

definition trade_id_of :: "json \<Rightarrow> string option" where
  "trade_id_of raw = (case scalar_owned raw ''id'' of Some s \<Rightarrow> Some s | None \<Rightarrow> scalar_owned raw ''paging_token'')"

definition base_is_seller :: "json \<Rightarrow> bool" where
  "base_is_seller raw = (get_bool raw ''base_is_seller'' = Some True)"

definition pair_trade_from_horizon :: "json \<Rightarrow> pair_trade result" where
  "pair_trade_from_horizon raw =
     and_then (ok_or ''Horizon returned malformed trade id'' (trade_id_of raw)) (\<lambda>trade_id.
     and_then (ok_or ''Horizon returned malformed trade base amount'' (get_str raw ''base_amount'')) (\<lambda>base_amount.
     and_then (ok_or ''Horizon returned malformed trade counter amount'' (get_str raw ''counter_amount'')) (\<lambda>counter_amount.
     and_then (trade_price_parts raw) (\<lambda>(p, n, d).
       Inr \<lparr>ptr_trade_id = trade_id, ptr_ledger_close_time = get_str raw ''ledger_close_time'',
            ptr_base_amount = base_amount, ptr_counter_amount = counter_amount, ptr_price = p,
            ptr_price_n = n, ptr_price_d = d,
            ptr_base_side = (if base_is_seller raw then TradeSell else TradeBuy)\<rparr>))))"

definition pair_trades :: "'rpc fresnica_client \<Rightarrow> string \<Rightarrow> string \<Rightarrow> nat \<Rightarrow> pair_trades_snapshot result" where
  "pair_trades C base_text counter_text limit =
     (let L = fc_stellar C in
     and_then (validate_page_limit limit ''trades'') (\<lambda>_.
     and_then (asset_parse L base_text) (\<lambda>base.
     and_then (asset_parse L counter_text) (\<lambda>counter.
     and_then (ensure_pair base counter) (\<lambda>_.
     and_then (get_trades (fc_gateway C) (asset_query L base ''base'') (asset_query L counter ''counter'') limit) (\<lambda>raws.
     and_then (collect_ok (map pair_trade_from_horizon raws)) (\<lambda>trades.
       Inr \<lparr>pts_base = asset_display L base, pts_counter = asset_display L counter, pts_trades = trades\<rparr>)))))))"

section \<open>The fills of an account\<close>

record working_fill =
  wf_base_asset :: string
  wf_counter_asset :: string
  wf_side :: dex_trade_side
  wf_base_amount :: int
  wf_counter_amount :: int
  wf_price_n :: int
  wf_price_d :: int
  wf_offer_id :: "string option"
  wf_trade_count :: nat
  wf_first_time :: "string option"
  wf_last_time :: "string option"
  wf_first_trade_id :: string
  wf_last_trade_id :: string

definition fill_key :: "working_fill \<Rightarrow> (string \<times> string \<times> dex_trade_side \<times> int \<times> int \<times> string) option" where
  "fill_key w =
     map_option (\<lambda>offer_id. (wf_base_asset w, wf_counter_asset w, wf_side w, wf_price_n w, wf_price_d w, offer_id))
       (wf_offer_id w)"

definition finish_fill :: "working_fill \<Rightarrow> fill_segment result" where
  "finish_fill w =
     and_then (format_price_ratio (wf_price_n w) (wf_price_d w)) (\<lambda>p.
       Inr \<lparr>fs_base_asset = wf_base_asset w, fs_counter_asset = wf_counter_asset w, fs_side = wf_side w,
            fs_base_amount = format_scaled_7 (wf_base_amount w), fs_counter_amount = format_scaled_7 (wf_counter_amount w),
            fs_price = p, fs_price_n = wf_price_n w, fs_price_d = wf_price_d w, fs_offer_id = wf_offer_id w,
            fs_trade_count = wf_trade_count w, fs_first_time = wf_first_time w, fs_last_time = wf_last_time w,
            fs_first_trade_id = wf_first_trade_id w, fs_last_trade_id = wf_last_trade_id w\<rparr>)"

definition segment_side :: "json \<Rightarrow> string \<Rightarrow> dex_trade_side" where
  "segment_side raw address =
     (if get_str raw ''base_account'' = Some address then TradeSell
      else if get_str raw ''counter_account'' = Some address then TradeBuy
      else if base_is_seller raw then TradeSell else TradeBuy)"

definition segment_offer_id :: "json \<Rightarrow> string \<Rightarrow> string option" where
  "segment_offer_id raw address =
     (if get_str raw ''base_account'' = Some address then scalar_owned raw ''base_offer_id''
      else if get_str raw ''counter_account'' = Some address then scalar_owned raw ''counter_offer_id''
      else None)"

definition fill_segment_of :: "stellar_lib \<Rightarrow> json \<Rightarrow> string \<Rightarrow> working_fill result" where
  "fill_segment_of L raw address =
     and_then (ok_or ''Invalid Horizon trade record: missing price'' (get_object raw ''price'')) (\<lambda>p.
     and_then (ok_or ''Invalid Horizon trade record: bad price numerator'' (positive_i32 (json_get p ''n''))) (\<lambda>n.
     and_then (ok_or ''Invalid Horizon trade record: bad price denominator'' (positive_i32 (json_get p ''d''))) (\<lambda>d.
     and_then (trade_asset L raw ''base'') (\<lambda>base.
     and_then (trade_asset L raw ''counter'') (\<lambda>counter.
     and_then (parse_trade_amount raw ''base_amount'') (\<lambda>base_amount.
     and_then (parse_trade_amount raw ''counter_amount'') (\<lambda>counter_amount.
       let trade_id = (case trade_id_of raw of Some s \<Rightarrow> s | None \<Rightarrow> []); time = get_str raw ''ledger_close_time''
       in Inr \<lparr>wf_base_asset = base, wf_counter_asset = counter, wf_side = segment_side raw address,
               wf_base_amount = base_amount, wf_counter_amount = counter_amount, wf_price_n = n, wf_price_d = d,
               wf_offer_id = segment_offer_id raw address, wf_trade_count = 1, wf_first_time = time,
               wf_last_time = time, wf_first_trade_id = trade_id, wf_last_trade_id = trade_id\<rparr>)))))))"

definition can_merge :: "working_fill list \<Rightarrow> working_fill \<Rightarrow> bool" where
  "can_merge result current \<longleftrightarrow>
     result \<noteq> [] \<and> fill_key (last result) \<noteq> None \<and> fill_key (last result) = fill_key current"

definition merge_fill :: "working_fill \<Rightarrow> working_fill \<Rightarrow> working_fill result" where
  "merge_fill previous current =
     and_then (ok_or ''fill base amount overflow''
         (checked_add (wf_base_amount previous) (wf_base_amount current))) (\<lambda>base.
     and_then (ok_or ''fill counter amount overflow''
         (checked_add (wf_counter_amount previous) (wf_counter_amount current))) (\<lambda>counter.
       Inr (previous\<lparr>wf_base_amount := base, wf_counter_amount := counter,
         wf_trade_count := wf_trade_count previous + 1, wf_last_time := wf_last_time current,
         wf_last_trade_id := wf_last_trade_id current\<rparr>)))"

fun compress_loop :: "stellar_lib \<Rightarrow> string \<Rightarrow> json list \<Rightarrow> working_fill list \<Rightarrow> working_fill list result" where
  "compress_loop L address [] result = Inr result"
| "compress_loop L address (raw # rest) result =
     and_then (fill_segment_of L raw address) (\<lambda>current.
       if can_merge result current
       then and_then (merge_fill (last result) current) (\<lambda>w. compress_loop L address rest (butlast result @ [w]))
       else compress_loop L address rest (result @ [current]))"

definition compress_account_trades :: "stellar_lib \<Rightarrow> json list \<Rightarrow> string \<Rightarrow> fill_segment list result" where
  "compress_account_trades L records address =
     and_then (compress_loop L address records []) (\<lambda>result. collect_ok (map finish_fill result))"

definition account_fills :: "'rpc fresnica_client \<Rightarrow> string option \<Rightarrow> nat \<Rightarrow> client_disk \<Rightarrow> account_fills_snapshot result" where
  "account_fills C name limit disk =
     and_then (validate_page_limit limit ''fills'') (\<lambda>_.
     and_then (client_resolve_wallet C name disk) (\<lambda>r.
     and_then (get_account_trades (fc_gateway C) (wr_address r) limit) (\<lambda>records.
     and_then (compress_account_trades (fc_stellar C) records (wr_address r)) (\<lambda>fills.
       Inr \<lparr>af_wallet = r, af_fills = fills\<rparr>))))"

section \<open>Candles\<close>

definition validate_candle_resolution :: "nat \<Rightarrow> unit result" where
  "validate_candle_resolution value =
     (if value \<in> {60000, 300000, 900000, 3600000, 86400000, 604800000} then Inr ()
      else Inl (''Unsupported trade aggregation resolution: '' @ nat_to_dec value))"

definition hour_ms :: nat where "hour_ms = 3600000"

definition validate_candle_offset :: "nat \<Rightarrow> nat \<Rightarrow> unit result" where
  "validate_candle_offset offset resolution =
     (if offset > resolution \<or> offset \<ge> 24 * hour_ms \<or> offset mod hour_ms \<noteq> 0
      then Inl (''Invalid candle offset '' @ nat_to_dec offset @ '' for resolution '' @ nat_to_dec resolution)
      else Inr ())"

definition required_text :: "json \<Rightarrow> string \<Rightarrow> string \<Rightarrow> string result" where
  "required_text raw key label = ok_or (''Horizon returned malformed '' @ label) (get_str raw key)"

definition candle_from_horizon :: "json \<Rightarrow> trade_candle result" where
  "candle_from_horizon raw =
     and_then (ok_or ''Horizon returned invalid candle timestamp'' (unsigned_integer (json_get raw ''timestamp''))) (\<lambda>timestamp.
     and_then (ok_or ''Horizon returned invalid candle trade count'' (unsigned_integer (json_get raw ''trade_count''))) (\<lambda>count.
     and_then (required_text raw ''open'' ''candle open'') (\<lambda>opened.
     and_then (required_text raw ''high'' ''candle high'') (\<lambda>high.
     and_then (required_text raw ''low'' ''candle low'') (\<lambda>low.
     and_then (required_text raw ''close'' ''candle close'') (\<lambda>closed.
     and_then (required_text raw ''base_volume'' ''candle base volume'') (\<lambda>volume.
       Inr \<lparr>tc_timestamp = timestamp, tc_open = opened, tc_high = high, tc_low = low, tc_close = closed,
            tc_base_volume = volume, tc_counter_volume = get_str raw ''counter_volume'', tc_trade_count = count\<rparr>)))))))"

definition candles ::
  "'rpc fresnica_client \<Rightarrow> string \<Rightarrow> string \<Rightarrow> nat \<Rightarrow> nat option \<Rightarrow> nat option \<Rightarrow> nat option \<Rightarrow> nat
     \<Rightarrow> candle_snapshot result" where
  "candles C base_text counter_text resolution start_time end_time offset limit =
     (let L = fc_stellar C in
     and_then (validate_page_limit limit ''candles'') (\<lambda>_.
     and_then (validate_candle_resolution resolution) (\<lambda>_.
     and_then (case (start_time, end_time) of
         (Some s, Some e) \<Rightarrow> if s > e then Inl ''candle start time must not be after end time'' else Inr ()
       | _ \<Rightarrow> Inr ()) (\<lambda>_.
     and_then (case offset of Some o' \<Rightarrow> validate_candle_offset o' resolution | None \<Rightarrow> Inr ()) (\<lambda>_.
     and_then (asset_parse L base_text) (\<lambda>base.
     and_then (asset_parse L counter_text) (\<lambda>counter.
     and_then (ensure_pair base counter) (\<lambda>_.
     and_then (get_trade_aggregations (fc_gateway C) (asset_query L base ''base'') (asset_query L counter ''counter'')
         resolution start_time end_time offset limit) (\<lambda>raws.
     and_then (collect_ok (map candle_from_horizon raws)) (\<lambda>cs.
       Inr \<lparr>cas_base = asset_display L base, cas_counter = asset_display L counter, cas_resolution_ms = resolution,
            cas_candles = cs\<rparr>))))))))))"

section \<open>Merging loses nothing\<close>

lemma horizon_price_ok: "horizon_price v = Inr p \<Longrightarrow> price_ok p"
  by (auto simp: horizon_price_def positive_i32_def integer_i32_def result_simps price_ok_def in_i32_def
      Option.bind_eq_Some_conv split: if_splits)

lemma parse_trade_amount_range: "parse_trade_amount raw key = Inr v \<Longrightarrow> 0 \<le> v \<and> v \<le> i64_max"
  by (auto simp: parse_trade_amount_def result_simps dest: stroops.parse_range)

lemma fill_segment_of_Inr:
  assumes "fill_segment_of L raw address = Inr w"
  shows "parse_trade_amount raw ''base_amount'' = Inr (wf_base_amount w)"
    "parse_trade_amount raw ''counter_amount'' = Inr (wf_counter_amount w)" "wf_trade_count w = 1"
    "0 < wf_price_n w" "wf_price_n w \<le> i32_max" "0 < wf_price_d w" "wf_price_d w \<le> i32_max"
  using assms by (auto simp: fill_segment_of_def and_then_Inr positive_i32_def integer_i32_def in_i32_def Let_def
    Option.bind_eq_Some_conv split: if_split_asm)

text \<open>
  What the loop maintains of its result list, for the list \<open>done\<close> of the records already taken: the
  amounts and the counts add up, amounts and prices are in range, and no two neighbours could have been
  merged.
\<close>

definition amounts_of :: "string \<Rightarrow> json list \<Rightarrow> int list" where
  "amounts_of key records = map (\<lambda>raw. case parse_trade_amount raw key of Inr v \<Rightarrow> v | Inl _ \<Rightarrow> 0) records"

definition fills_ok :: "json list \<Rightarrow> working_fill list \<Rightarrow> bool" where
  "fills_ok taken ws \<longleftrightarrow>
     sum_list (map wf_base_amount ws) = sum_list (amounts_of ''base_amount'' taken) \<and>
     sum_list (map wf_counter_amount ws) = sum_list (amounts_of ''counter_amount'' taken) \<and>
     sum_list (map wf_trade_count ws) = length taken \<and>
     list_all (\<lambda>w. 0 \<le> wf_base_amount w \<and> wf_base_amount w \<le> i64_max \<and> 0 \<le> wf_counter_amount w \<and>
       wf_counter_amount w \<le> i64_max \<and> 0 < wf_price_n w \<and> wf_price_n w \<le> i32_max \<and> 0 < wf_price_d w \<and>
       wf_price_d w \<le> i32_max) ws \<and> successively (\<lambda>a b. \<not> can_merge [a] b) ws"

lemma can_merge_single: "result \<noteq> [] \<Longrightarrow> can_merge result w \<longleftrightarrow> can_merge [last result] w"
  by (simp add: can_merge_def)

lemma merge_fill_key: "merge_fill p c = Inr w \<Longrightarrow> fill_key w = fill_key p"
  by (auto simp: merge_fill_def and_then_Inr fill_key_def)

lemma amounts_of_snoc: "parse_trade_amount raw key = Inr v \<Longrightarrow> amounts_of key (taken @ [raw]) = amounts_of key taken @ [v]"
  by (simp add: amounts_of_def)

lemma fills_ok_push:
  assumes "fills_ok taken ws" "fill_segment_of L raw address = Inr w" "\<not> can_merge ws w"
  shows "fills_ok (taken @ [raw]) (ws @ [w])"
proof -
  note w = fill_segment_of_Inr [OF assms(2)]
  have "ws \<noteq> [] \<Longrightarrow> \<not> can_merge [last ws] w" using assms(3) can_merge_single by blast
  with assms(1) w parse_trade_amount_range [OF w(1)] parse_trade_amount_range [OF w(2)] show ?thesis
    by (auto simp: fills_ok_def successively_append_iff amounts_of_snoc)
qed

lemma fills_ok_merge:
  assumes "fills_ok taken (ws @ [v])" "fill_segment_of L raw address = Inr c" "merge_fill v c = Inr w"
  shows "fills_ok (taken @ [raw]) (ws @ [w])"
proof -
  note c = fill_segment_of_Inr [OF assms(2)]
  note r = parse_trade_amount_range [OF c(1)] parse_trade_amount_range [OF c(2)]
  have m: "wf_base_amount w = wf_base_amount v + wf_base_amount c" "in_i64 (wf_base_amount w)"
    "wf_counter_amount w = wf_counter_amount v + wf_counter_amount c" "in_i64 (wf_counter_amount w)"
    "wf_trade_count w = wf_trade_count v + 1" "wf_price_n w = wf_price_n v" "wf_price_d w = wf_price_d v"
    using assms(3) by (auto simp: merge_fill_def and_then_Inr checked_add_Some)
  have "can_merge [x] w = can_merge [x] v" for x
    using merge_fill_key [OF assms(3)] by (simp add: can_merge_def)
  with assms(1) m r c show ?thesis
    by (auto simp: fills_ok_def successively_append_iff amounts_of_snoc in_i64_def)
qed

lemma compress_loop_ok:
  "fills_ok taken ws \<Longrightarrow> compress_loop L address records ws = Inr out \<Longrightarrow> fills_ok (taken @ records) out"
proof (induction records arbitrary: taken ws)
  case (Cons raw rest)
  from Cons.prems(2) obtain c where c: "fill_segment_of L raw address = Inr c" by (auto simp: and_then_Inr)
  show ?case
  proof (cases "can_merge ws c")
    case False
    then show ?thesis
      using Cons.IH [OF fills_ok_push [OF Cons.prems(1) c False]] Cons.prems(2) c by simp
  next
    case True
    then have ws: "ws = butlast ws @ [last ws]" by (simp add: can_merge_def)
    from True Cons.prems(2) c obtain w where w: "merge_fill (last ws) c = Inr w"
      "compress_loop L address rest (butlast ws @ [w]) = Inr out" by (auto simp: and_then_Inr)
    have "fills_ok taken (butlast ws @ [last ws])" using Cons.prems(1) ws by simp
    from Cons.IH [OF fills_ok_merge [OF this c w(1)] w(2)] show ?thesis by simp
  qed
qed simp

lemma compress_loop_parses:
  "compress_loop L address records ws = Inr out \<Longrightarrow>
     list_all (\<lambda>raw. \<exists>w. fill_segment_of L raw address = Inr w) records"
  by (induction records arbitrary: ws) (auto simp: and_then_Inr split: if_split_asm)

lemma amounts_of_parsed:
  "list_all (\<lambda>raw. \<exists>v. parse_trade_amount raw key = Inr v) records \<Longrightarrow>
     map (\<lambda>raw. parse_trade_amount raw key) records = map Inr (amounts_of key records)"
  by (induction records) (auto simp: amounts_of_def)

text \<open>Two fills of one offer at one price, in the same market and direction.\<close>

definition same_offer_fill :: "fill_segment \<Rightarrow> fill_segment \<Rightarrow> bool" where
  "same_offer_fill a b \<longleftrightarrow> fs_offer_id a \<noteq> None \<and> fs_offer_id a = fs_offer_id b \<and>
     fs_base_asset a = fs_base_asset b \<and> fs_counter_asset a = fs_counter_asset b \<and> fs_side a = fs_side b \<and>
     fs_price_n a = fs_price_n b \<and> fs_price_d a = fs_price_d b"

lemma finish_fill_same:
  "finish_fill v = Inr a \<Longrightarrow> finish_fill w = Inr b \<Longrightarrow> same_offer_fill a b \<longleftrightarrow> can_merge [v] w"
  by (cases "wf_offer_id v"; cases "wf_offer_id w")
    (auto simp: finish_fill_def and_then_Inr same_offer_fill_def can_merge_def fill_key_def)

section \<open>Properties\<close>


definition demo_trade :: "string \<Rightarrow> json" where
  "demo_trade tid = JObject
     [(''id'', JString tid), (''price'', JObject [(''n'', JNumber (PosInt 2)), (''d'', JNumber (PosInt 1))]),
      (''base_account'', JString ''GA''), (''base_offer_id'', JString ''9''),
      (''base_asset_type'', JString ''native''), (''counter_asset_type'', JString ''native''),
      (''base_amount'', JString (format_stroops 10000000)), (''counter_amount'', JString (format_stroops 20000000))]"

definition demo_working_fill :: "string \<Rightarrow> working_fill" where
  "demo_working_fill tid =
     \<lparr>wf_base_asset = ''XLM'', wf_counter_asset = ''XLM'', wf_side = TradeSell, wf_base_amount = 10000000,
      wf_counter_amount = 20000000, wf_price_n = 2, wf_price_d = 1, wf_offer_id = Some ''9'', wf_trade_count = 1,
      wf_first_time = None, wf_last_time = None, wf_first_trade_id = tid, wf_last_trade_id = tid\<rparr>"

lemma demo_segment: "fill_segment_of L (demo_trade tid) ''GA'' = Inr (demo_working_fill tid)"
proof -
  have t: "parse_trade_amount (demo_trade tid) ''base_amount'' = Inr 10000000"
    "parse_trade_amount (demo_trade tid) ''counter_amount'' = Inr 20000000"
    by (simp_all add: parse_trade_amount_def demo_trade_def get_str_def stroops.parse_print arith_defs)
  have p: "get_object (demo_trade tid) ''price'' = Some (JObject [(''n'', JNumber (PosInt 2)), (''d'', JNumber (PosInt 1))])"
    by (simp add: get_object_def demo_trade_def)
  have "positive_i32 (Some (JNumber (PosInt 2))) = Some 2" "positive_i32 (Some (JNumber (PosInt 1))) = Some 1"
    by (simp_all add: positive_i32_def integer_i32_def arith_defs)
  moreover have "trade_asset L (demo_trade tid) ''base'' = Inr ''XLM''" "trade_asset L (demo_trade tid) ''counter'' = Inr ''XLM''"
    by (simp_all add: trade_asset_def demo_trade_def get_str_def)
  moreover have "segment_side (demo_trade tid) ''GA'' = TradeSell" "segment_offer_id (demo_trade tid) ''GA'' = Some ''9''"
    "trade_id_of (demo_trade tid) = Some tid" "get_str (demo_trade tid) ''ledger_close_time'' = None"
    by (simp_all add: segment_side_def segment_offer_id_def trade_id_of_def scalar_owned_def demo_trade_def get_str_def)
  ultimately show ?thesis by (simp add: fill_segment_of_def t p demo_working_fill_def)
qed

lemma demo_fills:
  "\<exists>f. compress_account_trades L [demo_trade ''1'', demo_trade ''2''] ''GA'' = Inr [f]"
proof -
  obtain p where p: "format_price_ratio 2 1 = Inr p"
    using round_ratio_Inr [of 20000000 1]
    by (auto simp: format_price_ratio_def checked_i128_def i128_min_def i128_max_def stroops_per_xlm_def)
  have "\<exists>w. merge_fill (demo_working_fill ''1'') (demo_working_fill ''2'') = Inr w \<and> wf_price_n w = 2 \<and> wf_price_d w = 1"
    by (simp add: merge_fill_def demo_working_fill_def checked_add_def checked_i64_def arith_defs)
  then obtain w where w: "merge_fill (demo_working_fill ''1'') (demo_working_fill ''2'') = Inr w"
    "wf_price_n w = 2" "wf_price_d w = 1" by blast
  have "can_merge [demo_working_fill ''1''] (demo_working_fill ''2'')" "\<not> can_merge [] (demo_working_fill ''1'')"
    by (simp_all add: can_merge_def fill_key_def demo_working_fill_def)
  then show ?thesis using p w by (simp add: compress_account_trades_def demo_segment finish_fill_def)
qed


end
