(* ===== verification/Trustline.thy ===== *)
theory Trustline
  imports Payment
begin

text \<open>
  trustline.rs: adding a trust line, changing its limit, removing it.
\<close>

section \<open>Requests and reviews\<close>

definition default_trustline_limit :: string where "default_trustline_limit = ''708269837873.6765''"

datatype trustline_action = TlaAdd "string option" | TlaSetLimit string | TlaRemove

record trustline_request =
  tq_wallet :: "string option"
  tq_asset :: string
  tq_action :: trustline_action

datatype trustline_operation = TloAdd | TloSetLimit | TloRemove

fun trustline_operation_label :: "trustline_operation \<Rightarrow> string" where
  "trustline_operation_label TloAdd = ''add''"
| "trustline_operation_label TloSetLimit = ''limit''"
| "trustline_operation_label TloRemove = ''remove''"

datatype trustline_authorization = TlFull | TlMaintainLiabilities | TlUnauthorized

fun trustline_authorization_label :: "trustline_authorization \<Rightarrow> string" where
  "trustline_authorization_label TlFull = ''full''"
| "trustline_authorization_label TlMaintainLiabilities = ''maintain liabilities only''"
| "trustline_authorization_label TlUnauthorized = ''unauthorized''"

record trustline_review =
  tr_operation :: trustline_operation
  tr_wallet_name :: string
  tr_source :: string
  tr_asset :: string
  tr_limit :: "string option"
  tr_authorization :: "trustline_authorization option"
  tr_clawback_enabled :: "bool option"
  tr_fee_xlm :: string
  tr_network :: string
  tr_timeout_seconds :: nat
  tr_ledger_authorization :: ledger_authorization_snapshot

record prepared_trustline =
  pt_review :: trustline_review
  pt_wallet :: wallet_record
  pt_envelope :: envelope

section \<open>The checks\<close>

definition find_trustline :: "stellar_lib \<Rightarrow> json \<Rightarrow> asset \<Rightarrow> json option" where
  "find_trustline L account a =
     Option.bind (get_array account ''balances'')
       (find (\<lambda>raw. get_str raw ''asset_type'' \<noteq> Some ''liquidity_pool_shares'' \<and> matches_balance L a raw))"

definition ensure_native_capacity :: "json \<Rightarrow> int \<Rightarrow> int \<Rightarrow> int \<Rightarrow> unit result" where
  "ensure_native_capacity account base_reserve fee additional_reserve =
     and_then (ok_or ''Insufficient XLM for reserve and fee: available 0''
         (Option.bind (get_array account ''balances'') (find (\<lambda>raw. get_str raw ''asset_type'' = Some ''native'')))) (\<lambda>native.
     and_then (balance_stroops native ''balance'') (\<lambda>balance.
     and_then (balance_stroops native ''selling_liabilities'') (\<lambda>selling.
     and_then (minimum_balance_stroops account base_reserve) (\<lambda>minimum.
     let free = max 0 (saturating_sub (saturating_sub balance selling) minimum) in
     and_then (ok_or ''required XLM reserve overflow'' (checked_add fee additional_reserve)) (\<lambda>required.
       if free < required
       then Inl (''Insufficient XLM for reserve and fee: need '' @ format_stroops required
         @ '', available '' @ format_stroops free)
       else Inr ())))))"

definition initial_trustline_state :: "json \<Rightarrow> (trustline_authorization \<times> bool) result" where
  "initial_trustline_state issuer =
     and_then (ok_or ''Horizon returned malformed issuer flags''
         (Option.bind (json_get issuer ''flags'') (\<lambda>v. map_option (\<lambda>_. v) (as_object v)))) (\<lambda>flags.
     and_then (ok_or ''Horizon returned malformed issuer authorization flags'' (get_bool flags ''auth_required'')) (\<lambda>auth_required.
     and_then (ok_or ''Horizon returned malformed issuer clawback flags'' (get_bool flags ''auth_clawback_enabled'')) (\<lambda>clawback.
       Inr (if auth_required then TlUnauthorized else TlFull, clawback))))"

definition existing_trustline_state :: "json \<Rightarrow> (trustline_authorization \<times> bool) result" where
  "existing_trustline_state raw =
     and_then (ok_or ''Horizon returned malformed trustline authorization state'' (get_bool raw ''is_authorized'')) (\<lambda>full.
     and_then (ok_or ''Horizon returned malformed trustline authorization state''
         (get_bool raw ''is_authorized_to_maintain_liabilities'')) (\<lambda>maintain.
     and_then (ok_or ''Horizon returned malformed trustline clawback state'' (get_bool raw ''is_clawback_enabled'')) (\<lambda>clawback.
       Inr (if full then TlFull else if maintain then TlMaintainLiabilities else TlUnauthorized, clawback))))"

definition liquidity_pool_uses_asset :: "stellar_lib \<Rightarrow> json \<Rightarrow> asset \<Rightarrow> bool result" where
  "liquidity_pool_uses_asset L pool a =
     and_then (ok_or ''Horizon returned malformed liquidity-pool reserves'' (get_array pool ''reserves'')) (\<lambda>reserves.
       Inr (list_ex (\<lambda>reserve. get_str reserve ''asset'' = Some (asset_display L a)) reserves))"

fun ensure_no_pool_uses :: "stellar_lib \<Rightarrow> horizon \<Rightarrow> asset \<Rightarrow> json list \<Rightarrow> unit result" where
  "ensure_no_pool_uses L H a [] = Inr ()"
| "ensure_no_pool_uses L H a (raw # rest) =
     (if get_str raw ''asset_type'' \<noteq> Some ''liquidity_pool_shares'' then ensure_no_pool_uses L H a rest
      else
        and_then (ok_or ''Horizon returned malformed liquidity-pool balance'' (get_str raw ''liquidity_pool_id'')) (\<lambda>pool_id.
        and_then (get_liquidity_pool H pool_id) (\<lambda>pool.
        and_then (liquidity_pool_uses_asset L pool a) (\<lambda>used.
          if used
          then Inl (''Trustline cannot be removed while liquidity pool '' @ pool_id @ '' uses '' @ asset_display L a)
          else ensure_no_pool_uses L H a rest))))"

definition ensure_not_used_by_liquidity_pool :: "stellar_lib \<Rightarrow> horizon \<Rightarrow> json \<Rightarrow> asset \<Rightarrow> unit result" where
  "ensure_not_used_by_liquidity_pool L H account a =
     and_then (ok_or ''Horizon returned malformed balance data'' (get_array account ''balances''))
       (ensure_no_pool_uses L H a)"

definition parse_limit :: "string \<Rightarrow> int result" where
  "parse_limit value =
     map_err (\<lambda>_. ''Trustline limit must be greater than zero with at most 7 decimal places'')
       (parse_stroops value True)"

section \<open>Preparing and submitting\<close>

type_synonym trustline_plan =
  "trustline_operation \<times> int \<times> trustline_authorization option \<times> bool option"

definition plan_add :: "'rpc fresnica_client \<Rightarrow> json \<Rightarrow> ledger_parameters \<Rightarrow> asset \<Rightarrow> json option \<Rightarrow> string option
     \<Rightarrow> trustline_plan result" where
  "plan_add C account ledger a existing limit =
     (let L = fc_stellar C; issuer = the (asset_issuer L a) in
      if existing \<noteq> None
      then Inl (''Trustline already exists for '' @ asset_display L a @ ''; use trust limit to change its limit'')
      else
        and_then (get_account_optional (fc_gateway C) issuer) (\<lambda>found.
        and_then (ok_or (''Asset issuer account does not exist: '' @ issuer) found) (\<lambda>issuer_account.
        and_then (initial_trustline_state issuer_account) (\<lambda>(authorization, clawback).
        and_then (ensure_native_capacity account (base_reserve_in_stroops ledger) (base_fee_in_stroops ledger)
            (base_reserve_in_stroops ledger)) (\<lambda>_.
        and_then (parse_limit (case limit of Some l \<Rightarrow> l | None \<Rightarrow> default_trustline_limit)) (\<lambda>l.
          Inr (TloAdd, l, Some authorization, Some clawback)))))))"

definition plan_set_limit :: "'rpc fresnica_client \<Rightarrow> json \<Rightarrow> ledger_parameters \<Rightarrow> asset \<Rightarrow> json option \<Rightarrow> string
     \<Rightarrow> trustline_plan result" where
  "plan_set_limit C account ledger a existing limit_text =
     (let L = fc_stellar C; issuer = the (asset_issuer L a) in
      and_then (ok_or (''Trustline does not exist for '' @ asset_display L a @ ''; use trust add first'') existing) (\<lambda>raw.
      and_then (parse_limit limit_text) (\<lambda>limit.
      and_then (balance_stroops raw ''balance'') (\<lambda>balance.
      and_then (balance_stroops raw ''buying_liabilities'') (\<lambda>buying.
      and_then (ok_or ''trustline committed balance overflow'' (checked_add balance buying)) (\<lambda>committed.
      if limit < committed
      then Inl (''Trustline limit cannot be below current balance plus buying liabilities ('' @ format_stroops committed @ '')'')
      else
        and_then (account_exists (fc_gateway C) issuer) (\<lambda>found.
        if \<not> found then Inl (''Asset issuer account does not exist: '' @ issuer)
        else
          and_then (existing_trustline_state raw) (\<lambda>(authorization, clawback).
          and_then (ensure_native_capacity account (base_reserve_in_stroops ledger) (base_fee_in_stroops ledger) 0) (\<lambda>_.
            Inr (TloSetLimit, limit, Some authorization, Some clawback))))))))))"

definition plan_remove :: "'rpc fresnica_client \<Rightarrow> json \<Rightarrow> ledger_parameters \<Rightarrow> asset \<Rightarrow> json option
     \<Rightarrow> trustline_plan result" where
  "plan_remove C account ledger a existing =
     (let L = fc_stellar C in
      and_then (ok_or (''Trustline does not exist for '' @ asset_display L a) existing) (\<lambda>raw.
      and_then (balance_stroops raw ''balance'') (\<lambda>balance.
      and_then (balance_stroops raw ''selling_liabilities'') (\<lambda>selling.
      and_then (balance_stroops raw ''buying_liabilities'') (\<lambda>buying.
      if balance \<noteq> 0 \<or> selling \<noteq> 0 \<or> buying \<noteq> 0
      then Inl ''Trustline cannot be removed while balance or liabilities are non-zero''
      else
        and_then (ensure_not_used_by_liquidity_pool L (fc_gateway C) account a) (\<lambda>_.
        and_then (ensure_native_capacity account (base_reserve_in_stroops ledger) (base_fee_in_stroops ledger) 0) (\<lambda>_.
          Inr (TloRemove, 0, None, None))))))))"

definition plan_trustline :: "'rpc fresnica_client \<Rightarrow> json \<Rightarrow> ledger_parameters \<Rightarrow> asset \<Rightarrow> trustline_action
     \<Rightarrow> trustline_plan result" where
  "plan_trustline C account ledger a action =
     (let existing = find_trustline (fc_stellar C) account a
      in case action of
           TlaAdd limit \<Rightarrow> plan_add C account ledger a existing limit
         | TlaSetLimit limit \<Rightarrow> plan_set_limit C account ledger a existing limit
         | TlaRemove \<Rightarrow> plan_remove C account ledger a existing)"

definition prepare_trustline_with_wallet ::
  "'rpc fresnica_client \<Rightarrow> int \<Rightarrow> wallet_record \<Rightarrow> string \<Rightarrow> trustline_action \<Rightarrow> client_disk
     \<Rightarrow> prepared_trustline result" where
  "prepare_trustline_with_wallet C now r asset_text action disk =
     (let L = fc_stellar C in
      and_then (asset_parse_issued L asset_text) (\<lambda>a.
      if asset_issuer L a = Some (wr_address r)
      then Inl ''An asset issuer cannot create a trustline to its own asset''
      else
        and_then (get_account (fc_gateway C) (wr_address r)) (\<lambda>account.
        and_then (get_ledger_parameters (fc_gateway C)) (\<lambda>ledger.
        and_then (plan_trustline C account ledger a action) (\<lambda>(operation, limit, authorization, clawback).
        and_then (to_change_trust_xdr a) (\<lambda>line.
        and_then (account_sequence account) (\<lambda>sequence.
        and_then (build_single_with_timeout L now (wr_address r) (ChangeTrustOp line limit) sequence
            (base_fee_in_stroops ledger) None (fc_timeout C)) (\<lambda>e.
        and_then (client_authorization_snapshot C disk e account) (\<lambda>ledger_authorization.
          Inr \<lparr>pt_review =
                 \<lparr>tr_operation = operation, tr_wallet_name = wr_name r, tr_source = wr_address r,
                  tr_asset = asset_display L a,
                  tr_limit = (if operation \<noteq> TloRemove then Some (format_stroops limit) else None),
                  tr_authorization = authorization, tr_clawback_enabled = clawback,
                  tr_fee_xlm = format_stroops (base_fee_in_stroops ledger), tr_network = wr_network r,
                  tr_timeout_seconds = fc_timeout C, tr_ledger_authorization = ledger_authorization\<rparr>,
               pt_wallet = r, pt_envelope = e\<rparr>)))))))))"

definition prepare_trustline ::
  "'rpc fresnica_client \<Rightarrow> int \<Rightarrow> trustline_request \<Rightarrow> client_disk \<Rightarrow> prepared_trustline result \<times> client_disk" where
  "prepare_trustline C now q disk =
     (case client_write_wallet C (tq_wallet q) disk of
        (Inl error, disk') \<Rightarrow> (Inl error, disk')
      | (Inr r, disk') \<Rightarrow> (prepare_trustline_with_wallet C now r (tq_asset q) (tq_action q) disk', disk'))"

definition submit_trustline ::
  "'rpc fresnica_client \<Rightarrow> int \<Rightarrow> int \<Rightarrow> prepared_trustline \<Rightarrow> string \<Rightarrow> client_disk
     \<Rightarrow> transaction_submission result \<times> client_disk" where
  "submit_trustline C now now' prepared passcode disk =
     client_submit C now now' (pt_wallet prepared) (pt_envelope prepared) passcode disk"

definition submit_trustline_with_providers ::
  "'rpc fresnica_client \<Rightarrow> int \<Rightarrow> int \<Rightarrow> prepared_trustline \<Rightarrow> string option \<Rightarrow> system_auth_provider list
     \<Rightarrow> external_provider list \<Rightarrow> client_disk \<Rightarrow> transaction_submission result \<times> client_disk" where
  "submit_trustline_with_providers C now now' prepared passcode system_auths externals disk =
     client_submit_with_providers C now now' (pt_wallet prepared) (pt_envelope prepared) passcode
       system_auths externals disk"

section \<open>What a prepared change is\<close>

lemma prepare_trustline_Inr:
  assumes "prepare_trustline_with_wallet C now r asset_text action disk = Inr p"
  shows "\<exists>a account ledger operation limit authorization clawback line sequence e ledger_authorization.
    asset_parse_issued (fc_stellar C) asset_text = Inr a \<and> asset_issuer (fc_stellar C) a \<noteq> Some (wr_address r) \<and>
    get_account (fc_gateway C) (wr_address r) = Inr account \<and> get_ledger_parameters (fc_gateway C) = Inr ledger \<and>
    plan_trustline C account ledger a action = Inr (operation, limit, authorization, clawback) \<and>
    to_change_trust_xdr a = Inr line \<and> account_sequence account = Inr sequence \<and>
    build_single_with_timeout (fc_stellar C) now (wr_address r) (ChangeTrustOp line limit) sequence
      (base_fee_in_stroops ledger) None (fc_timeout C) = Inr e \<and>
    client_authorization_snapshot C disk e account = Inr ledger_authorization \<and>
    p = \<lparr>pt_review =
           \<lparr>tr_operation = operation, tr_wallet_name = wr_name r, tr_source = wr_address r,
            tr_asset = asset_display (fc_stellar C) a,
            tr_limit = (if operation \<noteq> TloRemove then Some (format_stroops limit) else None),
            tr_authorization = authorization, tr_clawback_enabled = clawback,
            tr_fee_xlm = format_stroops (base_fee_in_stroops ledger), tr_network = wr_network r,
            tr_timeout_seconds = fc_timeout C, tr_ledger_authorization = ledger_authorization\<rparr>,
         pt_wallet = r, pt_envelope = e\<rparr>"
proof -
  obtain a where a: "asset_parse_issued (fc_stellar C) asset_text = Inr a"
    "asset_issuer (fc_stellar C) a \<noteq> Some (wr_address r)"
    using assms by (auto simp: prepare_trustline_with_wallet_def Let_def and_then_Inr split: if_split_asm)
  with assms show ?thesis
    unfolding prepare_trustline_with_wallet_def Let_def
    by (simp only: and_then.simps if_False simp_thms and_then_Inr split_paired_Ex prod.case sum.inject) blast
qed

lemma parse_limit_Inr: "parse_limit s = Inr v \<Longrightarrow> 0 < v \<and> v \<le> i64_max"
  by (auto simp: parse_limit_def result_simps dest: parse_stroops_range)

lemma ensure_no_pool_uses_Inr:
  "ensure_no_pool_uses L H a bs = Inr u \<longleftrightarrow>
     (\<forall>b \<in> set bs. get_str b ''asset_type'' = Some ''liquidity_pool_shares'' \<longrightarrow>
        (\<exists>pool_id pool. get_str b ''liquidity_pool_id'' = Some pool_id \<and> get_liquidity_pool H pool_id = Inr pool \<and>
           liquidity_pool_uses_asset L pool a = Inr False))"
  by (induction bs) (auto simp: and_then_Inr)

text \<open>What each kind of change requires of the trust line Horizon reports, and what limit it sets.\<close>

definition trustline_change_allowed ::
  "'rpc fresnica_client \<Rightarrow> json \<Rightarrow> asset \<Rightarrow> trustline_operation \<Rightarrow> int \<Rightarrow> bool" where
  "trustline_change_allowed C account a operation limit \<longleftrightarrow>
     (case operation of
        TloAdd \<Rightarrow> find_trustline (fc_stellar C) account a = None \<and> 0 < limit
      | TloSetLimit \<Rightarrow>
          (\<exists>raw balance buying. find_trustline (fc_stellar C) account a = Some raw \<and>
             balance_stroops raw ''balance'' = Inr balance \<and> balance_stroops raw ''buying_liabilities'' = Inr buying \<and>
             balance + buying \<le> limit \<and> 0 < limit)
      | TloRemove \<Rightarrow>
          limit = 0 \<and>
          (\<exists>raw bs. find_trustline (fc_stellar C) account a = Some raw \<and> balance_stroops raw ''balance'' = Inr 0 \<and>
             balance_stroops raw ''selling_liabilities'' = Inr 0 \<and> balance_stroops raw ''buying_liabilities'' = Inr 0 \<and>
             get_array account ''balances'' = Some bs \<and> ensure_no_pool_uses (fc_stellar C) (fc_gateway C) a bs = Inr ()))"

lemma plan_add_Inr:
  "plan_add C account ledger a (find_trustline (fc_stellar C) account a) limit_text = Inr (operation, limit, s, cb) \<Longrightarrow>
     operation = TloAdd \<and> trustline_change_allowed C account a operation limit"
  by (auto simp: plan_add_def Let_def and_then_Inr trustline_change_allowed_def dest: parse_limit_Inr split: if_split_asm)

lemma plan_set_limit_Inr:
  "plan_set_limit C account ledger a (find_trustline (fc_stellar C) account a) limit_text = Inr (operation, limit, s, cb) \<Longrightarrow>
     operation = TloSetLimit \<and> trustline_change_allowed C account a operation limit"
  by (auto simp: plan_set_limit_def Let_def and_then_Inr trustline_change_allowed_def checked_add_Some
      dest: parse_limit_Inr split: if_split_asm)

lemma plan_remove_Inr:
  "plan_remove C account ledger a (find_trustline (fc_stellar C) account a) = Inr (operation, limit, s, cb) \<Longrightarrow>
     operation = TloRemove \<and> trustline_change_allowed C account a operation limit"
  by (auto simp: plan_remove_def Let_def and_then_Inr trustline_change_allowed_def
      ensure_not_used_by_liquidity_pool_def split: if_split_asm)

lemma plan_trustline_allowed:
  "plan_trustline C account ledger a action = Inr (operation, limit, s, cb) \<Longrightarrow>
     trustline_change_allowed C account a operation limit"
  by (cases action) (auto simp: plan_trustline_def Let_def dest: plan_add_Inr plan_set_limit_Inr plan_remove_Inr)

lemma plan_trustline_range:
  assumes "plan_trustline C account ledger a action = Inr (operation, limit, s, cb)"
  shows "0 \<le> limit \<and> limit \<le> i64_max"
  using assms by (cases action)
    (auto simp: plan_trustline_def plan_add_def plan_set_limit_def plan_remove_def Let_def and_then_Inr arith_defs
      dest!: parse_limit_Inr split: if_split_asm)

lemma asset_parse_issued_ok: "public_key_codec L \<Longrightarrow> asset_parse_issued L s = Inr a \<Longrightarrow> asset_ok L a"
  by (auto simp: asset_parse_issued_def asset_issued_ok split: option.split_asm)

lemma build_without_memo:
  assumes "build_single_with_timeout L now src body sequence fee None timeout = Inr e"
  shows "\<exists>k t. e = EnvTx t [] \<and> public_key_from_string L src = Some k \<and> tx_source t = MuxEd25519 k \<and>
    tx_fee t = fee \<and> tx_seq_num t = sequence + 1 \<and> tx_memo t = MemoNone \<and>
    tx_cond t = PrecondTime \<lparr>min_time = 0, max_time = nat (now + int timeout)\<rparr> \<and>
    tx_operations t = [\<lparr>op_source = None, op_body = body\<rparr>]"
  using assms
  by (auto simp: build_single_with_timeout_def and_then_Inr text_memo_def build_single_with_memo_and_timeout_def build_Inr)

section \<open>Properties\<close>

text \<open>C15. A trust line change does what the review says and only what the account allows: the prepared
  operation sets the reviewed limit on the reviewed asset; a line is added only where there is none, a
  limit never goes below the balance and the buying liabilities, and a line is removed only when it is
  empty and no liquidity pool of the account uses the asset.\<close>

theorem trustline_change_safe:
  assumes "public_key_codec (fc_stellar C)"
    and "prepare_trustline_with_wallet C now r asset_text action disk = Inr p"
  shows "\<exists>t k a line limit account. pt_envelope p = EnvTx t [] \<and>
    public_key_from_string (fc_stellar C) (tr_source (pt_review p)) = Some k \<and> tx_source t = MuxEd25519 k \<and>
    tx_operations t = [\<lparr>op_source = None, op_body = ChangeTrustOp line limit\<rparr>] \<and>
    asset_parse (fc_stellar C) (tr_asset (pt_review p)) = Inr a \<and> to_change_trust_xdr a = Inr line \<and>
    (case tr_limit (pt_review p) of None \<Rightarrow> limit = 0 | Some text \<Rightarrow> parse_stroops text True = Inr limit) \<and>
    get_account (fc_gateway C) (tr_source (pt_review p)) = Inr account \<and>
    trustline_change_allowed C account a (tr_operation (pt_review p)) limit"
proof -
  obtain a account ledger operation limit authorization clawback line sequence e ledger_authorization where
    f: "asset_parse_issued (fc_stellar C) asset_text = Inr a"
      "get_account (fc_gateway C) (wr_address r) = Inr account"
      "plan_trustline C account ledger a action = Inr (operation, limit, authorization, clawback)"
      "to_change_trust_xdr a = Inr line"
      "build_single_with_timeout (fc_stellar C) now (wr_address r) (ChangeTrustOp line limit) sequence
        (base_fee_in_stroops ledger) None (fc_timeout C) = Inr e"
    and p: "tr_operation (pt_review p) = operation" "tr_source (pt_review p) = wr_address r"
      "tr_asset (pt_review p) = asset_display (fc_stellar C) a"
      "tr_limit (pt_review p) = (if operation \<noteq> TloRemove then Some (format_stroops limit) else None)"
      "pt_envelope p = e"
    using prepare_trustline_Inr [OF assms(2)] by auto
  have allowed: "trustline_change_allowed C account a operation limit" by (rule plan_trustline_allowed [OF f(3)])
  have "asset_parse (fc_stellar C) (asset_display (fc_stellar C) a) = Inr a"
    by (rule asset_parse_display [OF assms(1) asset_parse_issued_ok [OF assms(1) f(1)]])
  moreover have "case tr_limit (pt_review p) of None \<Rightarrow> limit = 0 | Some text \<Rightarrow> parse_stroops text True = Inr limit"
    using allowed plan_trustline_range [OF f(3)] stroops.parse_print_positive [of limit]
    by (cases operation) (auto simp: p(4) trustline_change_allowed_def)
  ultimately show ?thesis using build_without_memo [OF f(5)] f(2,4) allowed p by fastforce
qed

text \<open>The example: an account adds a line for an asset of another account.\<close>

definition demo_issuer :: bytes where "demo_issuer = replicate 32 9"

definition demo_issuer_account :: json where
  "demo_issuer_account = JObject [(''flags'', JObject [(''auth_required'', JBool False),
     (''auth_clawback_enabled'', JBool False)])]"

definition demo_issuing :: "unit fresnica_client" where
  "demo_issuing = demo_online\<lparr>fc_gateway := demo_gateway\<lparr>hz_get := (\<lambda>url.
     if url = ''/accounts/'' @ demo_key_text demo_issuer then GetBody (Inr demo_issuer_account)
     else hz_get demo_gateway url)\<rparr>\<rparr>"

definition demo_usd :: asset where "demo_usd = AssetCreditAlphanum4 (pad_code 4 ''USD'') demo_issuer"

lemma demo_issuer_simps [simp]: "length demo_issuer = 32" "demo_key_text demo_key \<noteq> demo_key_text demo_issuer"
proof -
  show "length demo_issuer = 32" by (simp add: demo_issuer_def)
  have "demo_key \<noteq> demo_issuer" by (simp add: demo_key_def demo_issuer_def numeral_eq_Suc)
  moreover have "demo_parse_key (demo_key_text demo_key) = Some demo_key"
    "demo_parse_key (demo_key_text demo_issuer) = Some demo_issuer"
    using demo_lib_simps(3) [of demo_key] demo_lib_simps(3) [of demo_issuer] by (simp_all add: demo_issuer_def)
  ultimately show "demo_key_text demo_key \<noteq> demo_key_text demo_issuer" by (metis option.inject)
qed

lemma demo_issuing_simps [simp]:
  "fc_stellar demo_issuing = demo_lib" "fc_timeout demo_issuing = 300"
  "get_account (fc_gateway demo_issuing) (demo_key_text demo_key) = Inr demo_horizon_account"
  "get_account_optional (fc_gateway demo_issuing) (demo_key_text demo_issuer) = Inr (Some demo_issuer_account)"
  "get_ledger_parameters (fc_gateway demo_issuing) = Inr \<lparr>base_fee_in_stroops = 100, base_reserve_in_stroops = 5000000\<rparr>"
  "client_authorization_snapshot demo_issuing = client_authorization_snapshot demo_online"
proof -
  let ?H = "fc_gateway demo_issuing"
  have url: "hz_base_url ?H = []" "hz_get ?H url =
      (if url = ''/accounts/'' @ demo_key_text demo_issuer then GetBody (Inr demo_issuer_account) else hz_get demo_gateway url)"
    "hz_base_url demo_gateway = []" for url
    by (simp_all add: demo_issuing_def demo_gateway_def)
  show "fc_stellar demo_issuing = demo_lib" by (simp add: demo_issuing_def demo_online_def demo_client_def fc_stellar_def demo_contact_libs_def)
  show "fc_timeout demo_issuing = 300" by (simp add: demo_issuing_def)
  have own: "get_account ?H (demo_key_text demo_key) = get_account demo_gateway (demo_key_text demo_key)"
    unfolding get_account_def get_json_def by (simp add: url)
  then show "get_account ?H (demo_key_text demo_key) = Inr demo_horizon_account" by simp
  have "get_json ?H ''/ledgers?order=desc&limit=1'' e = get_json demo_gateway ''/ledgers?order=desc&limit=1'' e" for e
    unfolding get_json_def by (simp add: url)
  then show "get_ledger_parameters ?H = Inr \<lparr>base_fee_in_stroops = 100, base_reserve_in_stroops = 5000000\<rparr>"
    using demo_ledger by (simp add: get_ledger_parameters_def)
  show "get_account_optional ?H (demo_key_text demo_issuer) = Inr (Some demo_issuer_account)"
    unfolding get_account_optional_def get_optional_def by (simp add: url read_json_def)
  show "client_authorization_snapshot demo_issuing = client_authorization_snapshot demo_online"
    by (simp add: fun_eq_iff client_authorization_snapshot_def demo_issuing_def fc_stellar_def fc_network_def)
qed

lemma demo_prepared_trustline:
  "\<exists>p. prepare_trustline_with_wallet demo_issuing 0 (demo_wallet ''a'') (asset_display demo_lib demo_usd)
     (TlaAdd (Some (format_stroops 10000000))) demo_client_disk = Inr p"
proof -
  have v: "valid_code ''USD''" by (simp add: valid_code_def is_ascii_alphanumeric_def)
  have "asset_parse demo_lib (''USD'' @ '':'' @ public_key_to_string demo_lib demo_issuer) = Inr demo_usd"
    using asset_parse_display_issued [OF demo_public_key_codec demo_issuer_simps(1) v] by (simp add: demo_usd_def)
  moreover have "\<not> eq_ignore_ascii_case (''USD'' @ '':'' @ public_key_to_string demo_lib demo_issuer) ''XLM''"
    by (rule not_xlm) simp
  ultimately have parsed: "asset_parse_issued demo_lib (asset_display demo_lib demo_usd) = Inr demo_usd"
    using v by (simp add: asset_parse_def demo_usd_def)
  have plan: "plan_trustline demo_issuing demo_horizon_account \<lparr>base_fee_in_stroops = 100, base_reserve_in_stroops = 5000000\<rparr>
      demo_usd (TlaAdd (Some (format_stroops 10000000))) = Inr (TloAdd, 10000000, Some TlFull, Some False)"
  proof -
    have "find_trustline demo_lib demo_horizon_account demo_usd = None"
      by (simp add: find_trustline_def matches_balance_def demo_native_balance_def get_str_def demo_usd_def)
    moreover have "initial_trustline_state demo_issuer_account = Inr (TlFull, False)"
      by (simp add: initial_trustline_state_def demo_issuer_account_def get_bool_def)
    moreover have "ensure_native_capacity demo_horizon_account 5000000 100 5000000 = Inr ()"
      by (simp add: ensure_native_capacity_def saturating_sub_def saturate_i64_def checked_add_def checked_i64_def arith_defs)
    moreover have "parse_limit (format_stroops 10000000) = Inr 10000000"
      by (simp add: parse_limit_def stroops.parse_print_positive arith_defs)
    ultimately show ?thesis by (simp add: plan_trustline_def plan_add_def Let_def demo_usd_def)
  qed
  have "in_u32 100" "in_i64 8" "in_u64 300" by (simp_all add: arith_defs)
  then obtain t where e: "build_single_with_timeout demo_lib 0 (demo_key_text demo_key)
      (ChangeTrustOp (CtCreditAlphanum4 (pad_code 4 ''USD'') demo_issuer) 10000000) 7 100 None 300 = Inr (EnvTx t [])"
    and t: "tx_source t = MuxEd25519 demo_key"
      "tx_operations t = [\<lparr>op_source = None, op_body = ChangeTrustOp (CtCreditAlphanum4 (pad_code 4 ''USD'') demo_issuer) 10000000\<rparr>]"
      "tx_cond t = PrecondTime \<lparr>min_time = 0, max_time = 300\<rparr>"
    by (simp add: build_single_with_timeout_def text_memo_def build_single_with_memo_and_timeout_def build_Inr max_operations_per_tx_def)
  from demo_snapshot [OF t] obtain s where
    "client_authorization_snapshot demo_online demo_client_disk (EnvTx t []) demo_horizon_account = Inr s" by auto
  moreover have "wr_address (demo_wallet ''a'') = demo_key_text demo_key" by (simp add: demo_wallet_def)
  ultimately show ?thesis using e parsed plan
    by (simp add: prepare_trustline_with_wallet_def) (simp add: demo_usd_def demo_issuer_simps(2) [symmetric])
qed

theorem trustline_change_safe_witness:
  "\<exists>p t line limit. prepare_trustline_with_wallet demo_issuing 0 (demo_wallet ''a'') (asset_display demo_lib demo_usd)
     (TlaAdd (Some (format_stroops 10000000))) demo_client_disk = Inr p \<and> pt_envelope p = EnvTx t [] \<and>
     tx_operations t = [\<lparr>op_source = None, op_body = ChangeTrustOp line limit\<rparr>]"
proof -
  obtain p where p: "prepare_trustline_with_wallet demo_issuing 0 (demo_wallet ''a'') (asset_display demo_lib demo_usd)
     (TlaAdd (Some (format_stroops 10000000))) demo_client_disk = Inr p" using demo_prepared_trustline by blast
  from trustline_change_safe [where C = demo_issuing, unfolded demo_issuing_simps(1), OF demo_public_key_codec p] p
  show ?thesis by blast
qed

end
