(* ===== verification/Offers.thy ===== *)
theory Offers
  imports Trustline Market
begin

text \<open>
  The writing half of dex.rs: creating an offer (with its receiving trust line where asked for),
  updating one, cancelling one.
\<close>

section \<open>Requests and reviews\<close>

fun offer_side_label :: "offer_side \<Rightarrow> string" where
  "offer_side_label Buy = ''BUY''"
| "offer_side_label Sell = ''SELL''"

fun offer_side_operation_label :: "offer_side \<Rightarrow> string" where
  "offer_side_operation_label Buy = ''ManageBuyOffer''"
| "offer_side_operation_label Sell = ''ManageSellOffer''"

text \<open>The selling and the buying asset of a side of a market.\<close>

fun side_assets :: "offer_side \<Rightarrow> asset \<Rightarrow> asset \<Rightarrow> asset \<times> asset" where
  "side_assets Buy base counter = (counter, base)"
| "side_assets Sell base counter = (base, counter)"

datatype offer_action = OfferCreate | OfferUpdate | OfferCancel

fun offer_action_label :: "offer_action \<Rightarrow> string" where
  "offer_action_label OfferCreate = ''create''"
| "offer_action_label OfferUpdate = ''update''"
| "offer_action_label OfferCancel = ''cancel''"

datatype offer_operation_kind = ManageBuyOffer | ManageSellOffer

fun offer_operation_label :: "offer_operation_kind \<Rightarrow> string" where
  "offer_operation_label ManageBuyOffer = ''ManageBuyOffer''"
| "offer_operation_label ManageSellOffer = ''ManageSellOffer''"

record offer_terms =
  ot_base :: string
  ot_counter :: string
  ot_amount :: string
  ot_price :: string

datatype offer_request =
    CreateOffer "string option" offer_side offer_terms bool
  | UpdateOffer "string option" int offer_terms
  | CancelOffer "string option" int

record trade_details =
  td_side :: offer_side
  td_base :: string
  td_counter :: string
  td_amount :: string
  td_price :: string
  td_requested_price :: "string option"
  td_price_n :: int
  td_price_d :: int
  td_total :: string
  td_trustline_asset :: "string option"
  td_trustline_limit :: "string option"

datatype offer_review_details = TradeDetails trade_details | CancelDetails string string

record offer_review =
  or_action :: offer_action
  or_operation :: offer_operation_kind
  or_wallet_name :: string
  or_source :: string
  or_offer_id :: "int option"
  or_fee_xlm :: string
  or_network :: string
  or_timeout_seconds :: nat
  or_details :: offer_review_details
  or_ledger_authorization :: ledger_authorization_snapshot

record prepared_offer =
  po_review :: offer_review
  po_wallet :: wallet_record
  po_envelope :: envelope

section \<open>The operation of an offer\<close>

fun operation_for_side :: "offer_side \<Rightarrow> offer_operation_kind" where
  "operation_for_side Buy = ManageBuyOffer"
| "operation_for_side Sell = ManageSellOffer"

fun offer_operation :: "offer_side \<Rightarrow> asset \<Rightarrow> asset \<Rightarrow> int \<Rightarrow> price \<Rightarrow> int \<Rightarrow> operation_body" where
  "offer_operation Buy base counter amount p offer_id = ManageBuyOfferOp counter base amount p offer_id"
| "offer_operation Sell base counter amount p offer_id = ManageSellOfferOp base counter amount p offer_id"

definition infer_side :: "asset \<Rightarrow> asset \<Rightarrow> asset \<Rightarrow> asset \<Rightarrow> offer_side result" where
  "infer_side selling buying base counter =
     (if selling = base \<and> buying = counter then Inr Sell
      else if selling = counter \<and> buying = base then Inr Buy
      else Inl ''Offer update must keep the current market pair and BUY/SELL side'')"

definition parse_offer_value :: "string \<Rightarrow> string \<Rightarrow> int result" where
  "parse_offer_value value label =
     map_err (\<lambda>_. ''Offer '' @ label @ '' must be greater than zero with at most 7 decimal places'')
       (parse_stroops value True)"

definition validate_offer_id :: "int \<Rightarrow> unit result" where
  "validate_offer_id offer_id = (if offer_id > 0 then Inr () else Inl ''offer id must be a positive integer'')"

definition ensure_offer_owner :: "json \<Rightarrow> wallet_record \<Rightarrow> unit result" where
  "ensure_offer_owner offer r =
     and_then (ok_or ''Horizon returned malformed offer seller'' (get_str offer ''seller'')) (\<lambda>seller.
       if seller \<noteq> wr_address r then Inl (''Offer is owned by '' @ seller @ '', not wallet '' @ wr_address r)
       else Inr ())"

section \<open>What the account can offer\<close>

definition available_balance :: "stellar_lib \<Rightarrow> json \<Rightarrow> asset \<Rightarrow> int result" where
  "available_balance L account a =
     and_then (ok_or ''Horizon returned malformed balance data'' (get_array account ''balances'')) (\<lambda>balances.
       case find (matches_balance L a) balances of
         None \<Rightarrow> Inr 0
       | Some raw \<Rightarrow>
           and_then (balance_stroops raw ''balance'') (\<lambda>balance.
           and_then (balance_stroops raw ''selling_liabilities'') (\<lambda>selling.
             Inr (max 0 (saturating_sub balance selling)))))"

definition receiving_capacity :: "stellar_lib \<Rightarrow> json \<Rightarrow> asset \<Rightarrow> string \<Rightarrow> int option \<Rightarrow> int result" where
  "receiving_capacity L account a account_id new_trustline_limit =
     (if issuer_is L a account_id then Inr i64_max
      else
        and_then (ok_or ''Horizon returned malformed balance data'' (get_array account ''balances'')) (\<lambda>balances.
        let raw = find (matches_balance L a) balances in
        if is_native a then
          and_then (ok_or ''Horizon returned no native balance'' raw) (\<lambda>b.
          and_then (balance_stroops b ''balance'') (\<lambda>balance.
          and_then (balance_stroops b ''buying_liabilities'') (\<lambda>buying.
          and_then (ok_or ''native receiving capacity overflow'' (checked_add balance buying)) (\<lambda>committed.
            Inr (saturating_sub i64_max committed)))))
        else (case raw of
            None \<Rightarrow> Inr (case new_trustline_limit of Some l \<Rightarrow> l | None \<Rightarrow> 0)
          | Some b \<Rightarrow>
              and_then (balance_stroops b ''limit'') (\<lambda>limit.
              and_then (balance_stroops b ''balance'') (\<lambda>balance.
              and_then (balance_stroops b ''buying_liabilities'') (\<lambda>buying.
              and_then (ok_or ''trustline receiving capacity overflow'' (checked_add balance buying)) (\<lambda>committed.
                Inr (max 0 (saturating_sub limit committed)))))))))"

definition ensure_full_offer_authorization :: "stellar_lib \<Rightarrow> json \<Rightarrow> asset \<Rightarrow> string \<Rightarrow> unit result" where
  "ensure_full_offer_authorization L account a account_id =
     (if is_native a \<or> issuer_is L a account_id then Inr ()
      else
        and_then (ok_or ''Horizon returned malformed balance data'' (get_array account ''balances'')) (\<lambda>balances.
        and_then (ok_or (''Trustline is missing for '' @ asset_display L a) (find (matches_balance L a) balances)) (\<lambda>raw.
          case get_bool raw ''is_authorized'' of
            Some True \<Rightarrow> Inr ()
          | Some False \<Rightarrow>
              Inl (''Trustline for '' @ asset_display L a @ '' is not fully authorized for offer management'')
          | None \<Rightarrow> Inl (''Horizon returned malformed authorization state for '' @ asset_display L a))))"

definition issuer_requires_authorization :: "json \<Rightarrow> bool result" where
  "issuer_requires_authorization account =
     ok_or ''Horizon returned malformed issuer authorization flags''
       (Option.bind (get_object account ''flags'') (\<lambda>flags. get_bool flags ''auth_required''))"

definition account_can_hold :: "stellar_lib \<Rightarrow> json \<Rightarrow> asset \<Rightarrow> string \<Rightarrow> bool" where
  "account_can_hold L account a account_id \<longleftrightarrow>
     is_native a \<or> issuer_is L a account_id \<or>
     (case get_array account ''balances'' of None \<Rightarrow> False | Some balances \<Rightarrow> list_ex (matches_balance L a) balances)"

definition ensure_offer_fee_capacity :: "stellar_lib \<Rightarrow> json \<Rightarrow> int \<Rightarrow> int \<Rightarrow> unit result" where
  "ensure_offer_fee_capacity L account base_reserve fee =
     and_then (available_balance L account AssetNative) (\<lambda>available.
     and_then (minimum_balance_stroops account base_reserve) (\<lambda>minimum.
     let free = max 0 (saturating_sub available minimum) in
       if free < fee
       then Inl (''Insufficient XLM for transaction fee: need '' @ format_stroops fee @ '', available '' @ format_stroops free)
       else Inr ()))"

definition default_limit_stroops :: "int result" where
  "default_limit_stroops =
     map_err (\<lambda>_. ''invalid Fresnica trustline policy limit'') (parse_stroops default_trustline_limit True)"

text \<open>The selling half of the check of a new offer, then the whole.\<close>

definition preflight_selling ::
  "stellar_lib \<Rightarrow> json \<Rightarrow> string \<Rightarrow> asset \<Rightarrow> int \<Rightarrow> int \<Rightarrow> int \<Rightarrow> int \<Rightarrow> unit result" where
  "preflight_selling L account account_id selling required_selling base_reserve fee extra_subentries =
     and_then (available_balance L account selling) (\<lambda>available_selling.
     and_then (ok_or ''offer reserve overflow'' (checked_mul base_reserve extra_subentries)) (\<lambda>extra_reserve.
     and_then (minimum_balance_stroops account base_reserve) (\<lambda>minimum.
     and_then (ok_or ''offer reserve overflow'' (checked_add minimum extra_reserve)) (\<lambda>future_minimum.
     if is_native selling then
       and_then (ok_or ''offer requirement overflow''
           (Option.bind (checked_add required_selling future_minimum) (\<lambda>v. checked_add v fee))) (\<lambda>required.
         if required > available_selling
         then Inl (''Insufficient XLM for offer: need '' @ format_stroops required @ '', available ''
           @ format_stroops available_selling)
         else Inr ())
     else if \<not> issuer_is L selling account_id \<and> required_selling > available_selling
     then Inl (''Insufficient '' @ asset_display L selling @ '' for offer: need '' @ format_stroops required_selling
       @ '', available '' @ format_stroops available_selling)
     else
       and_then (available_balance L account AssetNative) (\<lambda>available_native.
       and_then (ok_or ''offer XLM requirement overflow'' (checked_add future_minimum fee)) (\<lambda>required_native.
         if required_native > available_native
         then Inl (''Insufficient XLM for offer reserve and fee: need '' @ format_stroops required_native
           @ '', available '' @ format_stroops available_native)
         else Inr ()))))))"

definition preflight_create ::
  "stellar_lib \<Rightarrow> json \<Rightarrow> string \<Rightarrow> offer_side \<Rightarrow> asset \<Rightarrow> asset \<Rightarrow> int \<Rightarrow> price \<Rightarrow> int \<Rightarrow> int \<Rightarrow> int \<Rightarrow> bool
     \<Rightarrow> unit result" where
  "preflight_create L account account_id side selling buying amount p base_reserve fee extra_subentries adds_trustline =
     and_then (offer_liabilities side amount p) (\<lambda>liabilities.
     and_then (preflight_selling L account account_id selling (liability_selling liabilities) base_reserve fee
         extra_subentries) (\<lambda>_.
     and_then (if adds_trustline then map_ok Some default_limit_stroops else Inr None) (\<lambda>new_limit.
     and_then (receiving_capacity L account buying account_id new_limit) (\<lambda>capacity.
       if liability_buying liabilities > capacity
       then Inl (''Insufficient receiving capacity for '' @ asset_display L buying @ '': need ''
         @ format_stroops (liability_buying liabilities) @ '', available '' @ format_stroops capacity)
       else Inr ()))))"

definition preflight_update_selling ::
  "stellar_lib \<Rightarrow> json \<Rightarrow> asset \<Rightarrow> int \<Rightarrow> int \<Rightarrow> int \<Rightarrow> int \<Rightarrow> unit result" where
  "preflight_update_selling L account selling new_selling old_selling base_reserve fee =
     and_then (available_balance L account selling) (\<lambda>available.
     and_then (ok_or ''offer selling capacity overflow'' (checked_add available old_selling)) (\<lambda>after_release.
     if is_native selling then
       and_then (minimum_balance_stroops account base_reserve) (\<lambda>minimum.
       and_then (ok_or ''offer requirement overflow''
           (Option.bind (checked_add new_selling minimum) (\<lambda>v. checked_add v fee))) (\<lambda>required.
         if required > after_release
         then Inl (''Insufficient XLM for offer update: need '' @ format_stroops required @ '', available ''
           @ format_stroops after_release)
         else Inr ()))
     else if new_selling > after_release
     then Inl (''Insufficient '' @ asset_display L selling @ '' for offer update: need '' @ format_stroops new_selling
       @ '', available '' @ format_stroops after_release)
     else Inr ()))"

definition preflight_update ::
  "stellar_lib \<Rightarrow> json \<Rightarrow> string \<Rightarrow> offer_side \<Rightarrow> asset \<Rightarrow> asset \<Rightarrow> int \<Rightarrow> price \<Rightarrow> int \<Rightarrow> price \<Rightarrow> int \<Rightarrow> int
     \<Rightarrow> unit result" where
  "preflight_update L account account_id side selling buying amount p old_amount old_price base_reserve fee =
     and_then (ensure_offer_fee_capacity L account base_reserve fee) (\<lambda>_.
     and_then (offer_liabilities side amount p) (\<lambda>new.
     and_then (offer_liabilities Sell old_amount old_price) (\<lambda>old.
     and_then (if issuer_is L selling account_id then Inr ()
         else preflight_update_selling L account selling (liability_selling new) (liability_selling old) base_reserve fee) (\<lambda>_.
     and_then (if issuer_is L buying account_id then Inr i64_max
         else and_then (receiving_capacity L account buying account_id None) (\<lambda>capacity.
           ok_or ''offer receiving capacity overflow'' (checked_add capacity (liability_buying old)))) (\<lambda>after_release.
       if liability_buying new > after_release
       then Inl (''Insufficient receiving capacity for '' @ asset_display L buying @ '' offer update: need ''
         @ format_stroops (liability_buying new) @ '', available '' @ format_stroops after_release)
       else Inr ())))))"

section \<open>Preparing and submitting\<close>

definition checked_mul_u32 :: "int \<Rightarrow> int \<Rightarrow> int option" where
  "checked_mul_u32 a b = (if in_u32 (a * b) then Some (a * b) else None)"

text \<open>The review of a trade: \<open>OfferReviewDetails::Trade\<close> of a create or an update.\<close>

definition trade_review ::
  "stellar_lib \<Rightarrow> offer_side \<Rightarrow> asset \<Rightarrow> asset \<Rightarrow> int \<Rightarrow> int \<Rightarrow> price \<Rightarrow> asset option \<Rightarrow> offer_review_details result" where
  "trade_review L side base counter amount price_stroops p new_line =
     and_then (format_price_ratio (price_n p) (price_d p)) (\<lambda>price_text'.
     and_then (format_price_product amount p) (\<lambda>total.
       Inr (TradeDetails
         \<lparr>td_side = side, td_base = asset_display L base, td_counter = asset_display L counter,
          td_amount = format_stroops amount, td_price = price_text',
          td_requested_price = requested_price_if_approximated price_stroops p, td_price_n = price_n p,
          td_price_d = price_d p, td_total = total, td_trustline_asset = map_option (asset_display L) new_line,
          td_trustline_limit = map_option (\<lambda>_. default_trustline_limit) new_line\<rparr>)))"

text \<open>What follows the checks in each of the three: the transaction, the snapshot, the review.\<close>

definition finish_offer ::
  "'rpc fresnica_client \<Rightarrow> int \<Rightarrow> wallet_record \<Rightarrow> json \<Rightarrow> ledger_parameters \<Rightarrow> operation_body list
     \<Rightarrow> offer_action \<Rightarrow> offer_operation_kind \<Rightarrow> int option \<Rightarrow> int \<Rightarrow> offer_review_details result
     \<Rightarrow> client_disk \<Rightarrow> prepared_offer result" where
  "finish_offer C now r account ledger operations action operation offer_id total_fee details disk =
     and_then (account_sequence account) (\<lambda>sequence.
     and_then (build_operation_envelope_with_timeout (fc_stellar C) now (wr_address r) operations sequence
         (base_fee_in_stroops ledger) None (fc_timeout C)) (\<lambda>e.
     and_then (client_authorization_snapshot C disk e account) (\<lambda>authorization.
     and_then details (\<lambda>details'.
       Inr \<lparr>po_review =
              \<lparr>or_action = action, or_operation = operation, or_wallet_name = wr_name r, or_source = wr_address r,
               or_offer_id = offer_id, or_fee_xlm = format_stroops total_fee, or_network = wr_network r,
               or_timeout_seconds = fc_timeout C, or_details = details', or_ledger_authorization = authorization\<rparr>,
            po_wallet = r, po_envelope = e\<rparr>))))"

definition parse_trade :: "stellar_lib \<Rightarrow> offer_terms \<Rightarrow> (asset \<times> asset \<times> int \<times> int \<times> price) result" where
  "parse_trade L terms =
     and_then (asset_parse L (ot_base terms)) (\<lambda>base.
     and_then (asset_parse L (ot_counter terms)) (\<lambda>counter.
     and_then (ensure_pair base counter) (\<lambda>_.
     and_then (parse_offer_value (ot_amount terms) ''amount'') (\<lambda>amount.
     and_then (parse_offer_value (ot_price terms) ''price'') (\<lambda>price_stroops.
     and_then (stellar_price price_stroops) (\<lambda>p.
       Inr (base, counter, amount, price_stroops, p)))))))"

definition ensure_receiving_line ::
  "'rpc fresnica_client \<Rightarrow> json \<Rightarrow> string \<Rightarrow> asset \<Rightarrow> bool \<Rightarrow> bool \<Rightarrow> unit result" where
  "ensure_receiving_line C account account_id buying adds_trustline allow_trustline =
     (let L = fc_stellar C in
      if \<not> adds_trustline then ensure_full_offer_authorization L account buying account_id
      else if \<not> allow_trustline
      then Inl (''Receiving trustline is missing for '' @ asset_display L buying
        @ ''. Add it first or explicitly allow adding the trustline.'')
      else
        and_then (ok_or ''issued receiving asset is missing an issuer'' (asset_issuer L buying)) (\<lambda>issuer.
        and_then (get_account (fc_gateway C) issuer) (\<lambda>issuer_account.
        and_then (issuer_requires_authorization issuer_account) (\<lambda>required.
          if required
          then Inl (''Receiving trustline for '' @ asset_display L buying
            @ '' requires issuer authorization before an offer can be created'')
          else Inr ()))))"

definition receiving_line_op :: "asset \<Rightarrow> operation_body result" where
  "receiving_line_op a =
     and_then (to_change_trust_xdr a) (\<lambda>line.
     and_then default_limit_stroops (\<lambda>limit. Inr (ChangeTrustOp line limit)))"

definition prepare_offer_create_with_wallet ::
  "'rpc fresnica_client \<Rightarrow> int \<Rightarrow> wallet_record \<Rightarrow> offer_side \<Rightarrow> offer_terms \<Rightarrow> bool \<Rightarrow> client_disk
     \<Rightarrow> prepared_offer result" where
  "prepare_offer_create_with_wallet C now r side terms allow_trustline disk =
     (let L = fc_stellar C in
     and_then (parse_trade L terms) (\<lambda>(base, counter, amount, price_stroops, p).
     and_then (get_account (fc_gateway C) (wr_address r)) (\<lambda>account.
     and_then (get_ledger_parameters (fc_gateway C)) (\<lambda>ledger.
     let selling = fst (side_assets side base counter);
         buying = snd (side_assets side base counter);
         adds_trustline = \<not> account_can_hold L account buying (wr_address r);
         operation_count = (if adds_trustline then 2 else 1)
     in
     and_then (ensure_full_offer_authorization L account selling (wr_address r)) (\<lambda>_.
     and_then (ensure_receiving_line C account (wr_address r) buying adds_trustline allow_trustline) (\<lambda>_.
     and_then (ok_or ''transaction fee overflow'' (checked_mul_u32 (base_fee_in_stroops ledger) operation_count)) (\<lambda>total_fee.
     and_then (preflight_create L account (wr_address r) side selling buying amount p
         (base_reserve_in_stroops ledger) total_fee operation_count adds_trustline) (\<lambda>_.
     and_then (if adds_trustline then map_ok (\<lambda>b. [b]) (receiving_line_op buying) else Inr []) (\<lambda>line.
       finish_offer C now r account ledger (line @ [offer_operation side base counter amount p 0])
         OfferCreate (operation_for_side side) None total_fee
         (trade_review L side base counter amount price_stroops p (if adds_trustline then Some buying else None))
         disk)))))))))"

text \<open>The stored offer an update or a cancellation is about: its owner, assets and price.\<close>

definition stored_offer :: "'rpc fresnica_client \<Rightarrow> wallet_record \<Rightarrow> int \<Rightarrow> (json \<times> asset \<times> asset) result" where
  "stored_offer C r offer_id =
     and_then (get_offer (fc_gateway C) offer_id) (\<lambda>raw.
     and_then (ensure_offer_owner raw r) (\<lambda>_.
     and_then (horizon_offer_asset (fc_stellar C) raw ''selling'') (\<lambda>selling.
     and_then (horizon_offer_asset (fc_stellar C) raw ''buying'') (\<lambda>buying.
       Inr (raw, selling, buying)))))"

definition stored_amount :: "json \<Rightarrow> int result" where
  "stored_amount raw =
     and_then (ok_or ''Horizon returned malformed offer amount'' (get_str raw ''amount'')) (\<lambda>value.
       map_err (\<lambda>_. ''Horizon returned malformed offer amount'') (parse_stroops value False))"

definition prepare_offer_update_with_wallet ::
  "'rpc fresnica_client \<Rightarrow> int \<Rightarrow> wallet_record \<Rightarrow> int \<Rightarrow> offer_terms \<Rightarrow> client_disk \<Rightarrow> prepared_offer result" where
  "prepare_offer_update_with_wallet C now r offer_id terms disk =
     (let L = fc_stellar C in
     and_then (parse_trade L terms) (\<lambda>(base, counter, amount, price_stroops, p).
     and_then (stored_offer C r offer_id) (\<lambda>(raw, stored_selling, stored_buying).
     and_then (infer_side stored_selling stored_buying base counter) (\<lambda>side.
     and_then (get_account (fc_gateway C) (wr_address r)) (\<lambda>account.
     and_then (get_ledger_parameters (fc_gateway C)) (\<lambda>ledger.
     let selling = fst (side_assets side base counter);
         buying = snd (side_assets side base counter);
         total_fee = base_fee_in_stroops ledger
     in
     and_then (ensure_full_offer_authorization L account selling (wr_address r)) (\<lambda>_.
     and_then (ensure_full_offer_authorization L account buying (wr_address r)) (\<lambda>_.
     and_then (stored_amount raw) (\<lambda>old_amount.
     and_then (horizon_price raw) (\<lambda>old_price.
     and_then (preflight_update L account (wr_address r) side selling buying amount p old_amount old_price
         (base_reserve_in_stroops ledger) total_fee) (\<lambda>_.
       finish_offer C now r account ledger [offer_operation side base counter amount p offer_id]
         OfferUpdate (operation_for_side side) (Some offer_id) total_fee
         (trade_review L side base counter amount price_stroops p None) disk)))))))))))"

definition prepare_offer_cancel_with_wallet ::
  "'rpc fresnica_client \<Rightarrow> int \<Rightarrow> wallet_record \<Rightarrow> int \<Rightarrow> client_disk \<Rightarrow> prepared_offer result" where
  "prepare_offer_cancel_with_wallet C now r offer_id disk =
     (let L = fc_stellar C in
     and_then (stored_offer C r offer_id) (\<lambda>(raw, selling, buying).
     and_then (horizon_price raw) (\<lambda>p.
     and_then (get_account (fc_gateway C) (wr_address r)) (\<lambda>account.
     and_then (get_ledger_parameters (fc_gateway C)) (\<lambda>ledger.
     and_then (ensure_offer_fee_capacity L account (base_reserve_in_stroops ledger) (base_fee_in_stroops ledger)) (\<lambda>_.
       finish_offer C now r account ledger [ManageSellOfferOp selling buying 0 p offer_id]
         OfferCancel ManageSellOffer (Some offer_id) (base_fee_in_stroops ledger)
         (Inr (CancelDetails (asset_display L selling) (asset_display L buying))) disk))))))"

definition prepare_offer_create ::
  "'rpc fresnica_client \<Rightarrow> int \<Rightarrow> string option \<Rightarrow> offer_side \<Rightarrow> offer_terms \<Rightarrow> bool \<Rightarrow> client_disk
     \<Rightarrow> prepared_offer result \<times> client_disk" where
  "prepare_offer_create C now name side terms allow_trustline disk =
     (case client_write_wallet C name disk of
        (Inl error, disk') \<Rightarrow> (Inl error, disk')
      | (Inr r, disk') \<Rightarrow> (prepare_offer_create_with_wallet C now r side terms allow_trustline disk', disk'))"

definition prepare_offer_update ::
  "'rpc fresnica_client \<Rightarrow> int \<Rightarrow> string option \<Rightarrow> int \<Rightarrow> offer_terms \<Rightarrow> client_disk
     \<Rightarrow> prepared_offer result \<times> client_disk" where
  "prepare_offer_update C now name offer_id terms disk =
     (case validate_offer_id offer_id of
        Inl error \<Rightarrow> (Inl error, disk)
      | Inr _ \<Rightarrow>
          (case client_write_wallet C name disk of
             (Inl error, disk') \<Rightarrow> (Inl error, disk')
           | (Inr r, disk') \<Rightarrow> (prepare_offer_update_with_wallet C now r offer_id terms disk', disk')))"

definition prepare_offer_cancel ::
  "'rpc fresnica_client \<Rightarrow> int \<Rightarrow> string option \<Rightarrow> int \<Rightarrow> client_disk \<Rightarrow> prepared_offer result \<times> client_disk" where
  "prepare_offer_cancel C now name offer_id disk =
     (case validate_offer_id offer_id of
        Inl error \<Rightarrow> (Inl error, disk)
      | Inr _ \<Rightarrow>
          (case client_write_wallet C name disk of
             (Inl error, disk') \<Rightarrow> (Inl error, disk')
           | (Inr r, disk') \<Rightarrow> (prepare_offer_cancel_with_wallet C now r offer_id disk', disk')))"

fun prepare_offer ::
  "'rpc fresnica_client \<Rightarrow> int \<Rightarrow> offer_request \<Rightarrow> client_disk \<Rightarrow> prepared_offer result \<times> client_disk" where
  "prepare_offer C now (CreateOffer name side terms allow_trustline) disk =
     prepare_offer_create C now name side terms allow_trustline disk"
| "prepare_offer C now (UpdateOffer name offer_id terms) disk = prepare_offer_update C now name offer_id terms disk"
| "prepare_offer C now (CancelOffer name offer_id) disk = prepare_offer_cancel C now name offer_id disk"

definition submit_offer ::
  "'rpc fresnica_client \<Rightarrow> int \<Rightarrow> int \<Rightarrow> prepared_offer \<Rightarrow> string \<Rightarrow> client_disk
     \<Rightarrow> transaction_submission result \<times> client_disk" where
  "submit_offer C now now' prepared passcode disk =
     client_submit C now now' (po_wallet prepared) (po_envelope prepared) passcode disk"

definition submit_offer_with_providers ::
  "'rpc fresnica_client \<Rightarrow> int \<Rightarrow> int \<Rightarrow> prepared_offer \<Rightarrow> string option \<Rightarrow> system_auth_provider list
     \<Rightarrow> external_provider list \<Rightarrow> client_disk \<Rightarrow> transaction_submission result \<times> client_disk" where
  "submit_offer_with_providers C now now' prepared passcode system_auths externals disk =
     client_submit_with_providers C now now' (po_wallet prepared) (po_envelope prepared) passcode
       system_auths externals disk"

section \<open>What a prepared offer is\<close>

lemma build_operations_Inr:
  assumes "build_operation_envelope_with_timeout L now src bodies sequence fee None timeout = Inr e"
  shows "\<exists>k t. e = EnvTx t [] \<and> public_key_from_string L src = Some k \<and> tx_source t = MuxEd25519 k \<and>
    tx_fee t = fee * int (length bodies) \<and> tx_memo t = MemoNone \<and>
    tx_operations t = map (\<lambda>b. \<lparr>op_source = None, op_body = b\<rparr>) bodies"
  using assms by (auto simp: build_operation_envelope_with_timeout_def and_then_Inr text_memo_def build_Inr)

lemma finish_offer_Inr:
  assumes "finish_offer C now r account ledger operations action operation offer_id total_fee details disk = Inr p"
  shows "\<exists>k t details'. po_envelope p = EnvTx t [] \<and> public_key_from_string (fc_stellar C) (wr_address r) = Some k \<and>
    tx_source t = MuxEd25519 k \<and> tx_operations t = map (\<lambda>b. \<lparr>op_source = None, op_body = b\<rparr>) operations \<and>
    tx_fee t = base_fee_in_stroops ledger * int (length operations) \<and>
    details = Inr details' \<and> or_details (po_review p) = details' \<and> or_action (po_review p) = action \<and>
    or_operation (po_review p) = operation \<and> or_source (po_review p) = wr_address r \<and>
    or_offer_id (po_review p) = offer_id \<and> or_fee_xlm (po_review p) = format_stroops total_fee"
  using assms unfolding finish_offer_def and_then_Inr sum.inject
  by (elim exE conjE) (drule build_operations_Inr, auto)

lemma parse_trade_Inr:
  "parse_trade L terms = Inr (base, counter, amount, price_stroops, p) \<Longrightarrow>
     asset_parse L (ot_base terms) = Inr base \<and> asset_parse L (ot_counter terms) = Inr counter \<and> base \<noteq> counter \<and>
     0 < amount \<and> amount \<le> i64_max \<and> 0 < price_stroops \<and> price_stroops \<le> i64_max \<and> stellar_price price_stroops = Inr p"
  unfolding parse_trade_def and_then_Inr ensure_pair_def parse_offer_value_def
  by (auto simp: result_simps dest!: parse_stroops_range split: if_split_asm)

lemma trade_review_Inr:
  "trade_review L side base counter amount price_stroops p new_line = Inr d \<longleftrightarrow>
     (\<exists>price_text' total. format_price_ratio (price_n p) (price_d p) = Inr price_text' \<and>
        format_price_product amount p = Inr total \<and>
        d = TradeDetails
          \<lparr>td_side = side, td_base = asset_display L base, td_counter = asset_display L counter,
           td_amount = format_stroops amount, td_price = price_text',
           td_requested_price = requested_price_if_approximated price_stroops p, td_price_n = price_n p,
           td_price_d = price_d p, td_total = total, td_trustline_asset = map_option (asset_display L) new_line,
           td_trustline_limit = map_option (\<lambda>_. default_trustline_limit) new_line\<rparr>)"
  by (auto simp: trade_review_def and_then_Inr)

lemma stored_offer_Inr:
  "stored_offer C r offer_id = Inr (raw, selling, buying) \<longleftrightarrow>
     get_offer (fc_gateway C) offer_id = Inr raw \<and> get_str raw ''seller'' = Some (wr_address r) \<and>
     horizon_offer_asset (fc_stellar C) raw ''selling'' = Inr selling \<and>
     horizon_offer_asset (fc_stellar C) raw ''buying'' = Inr buying"
  by (auto simp: stored_offer_def and_then_Inr ensure_offer_owner_def result_simps split: if_split_asm)

lemma offer_create_Inr:
  assumes "prepare_offer_create_with_wallet C now r side terms allow disk = Inr p"
  shows "\<exists>base counter amount price_stroops pr account ledger total_fee line.
    parse_trade (fc_stellar C) terms = Inr (base, counter, amount, price_stroops, pr) \<and>
    get_account (fc_gateway C) (wr_address r) = Inr account \<and> get_ledger_parameters (fc_gateway C) = Inr ledger \<and>
    (let selling = fst (side_assets side base counter); buying = snd (side_assets side base counter);
         adds = \<not> account_can_hold (fc_stellar C) account buying (wr_address r); count = (if adds then 2 else 1) in
       ensure_full_offer_authorization (fc_stellar C) account selling (wr_address r) = Inr () \<and>
       ensure_receiving_line C account (wr_address r) buying adds allow = Inr () \<and>
       checked_mul_u32 (base_fee_in_stroops ledger) count = Some total_fee \<and>
       preflight_create (fc_stellar C) account (wr_address r) side selling buying amount pr
         (base_reserve_in_stroops ledger) total_fee count adds = Inr () \<and>
       (if adds then map_ok (\<lambda>b. [b]) (receiving_line_op buying) else Inr []) = Inr line \<and>
       finish_offer C now r account ledger (line @ [offer_operation side base counter amount pr 0])
         OfferCreate (operation_for_side side) None total_fee
         (trade_review (fc_stellar C) side base counter amount price_stroops pr (if adds then Some buying else None))
         disk = Inr p)"
  using assms
  unfolding prepare_offer_create_with_wallet_def Let_def and_then_Inr split_paired_Ex prod.case ok_or_Inr
  by (elim exE conjE) (intro exI conjI; assumption?; simp)

lemma offer_update_Inr:
  assumes "prepare_offer_update_with_wallet C now r offer_id terms disk = Inr p"
  shows "\<exists>base counter amount price_stroops pr raw selling buying side account ledger.
    parse_trade (fc_stellar C) terms = Inr (base, counter, amount, price_stroops, pr) \<and>
    stored_offer C r offer_id = Inr (raw, selling, buying) \<and>
    infer_side selling buying base counter = Inr side \<and>
    get_account (fc_gateway C) (wr_address r) = Inr account \<and> get_ledger_parameters (fc_gateway C) = Inr ledger \<and>
    finish_offer C now r account ledger [offer_operation side base counter amount pr offer_id]
      OfferUpdate (operation_for_side side) (Some offer_id) (base_fee_in_stroops ledger)
      (trade_review (fc_stellar C) side base counter amount price_stroops pr None) disk = Inr p"
  using assms unfolding prepare_offer_update_with_wallet_def Let_def and_then_Inr split_paired_Ex prod.case by blast

lemma offer_cancel_Inr:
  assumes "prepare_offer_cancel_with_wallet C now r offer_id disk = Inr p"
  shows "\<exists>raw selling buying pr account ledger.
    stored_offer C r offer_id = Inr (raw, selling, buying) \<and> horizon_price raw = Inr pr \<and>
    get_account (fc_gateway C) (wr_address r) = Inr account \<and> get_ledger_parameters (fc_gateway C) = Inr ledger \<and>
    finish_offer C now r account ledger [ManageSellOfferOp selling buying 0 pr offer_id]
      OfferCancel ManageSellOffer (Some offer_id) (base_fee_in_stroops ledger)
      (Inr (CancelDetails (asset_display (fc_stellar C) selling) (asset_display (fc_stellar C) buying))) disk = Inr p"
  using assms unfolding prepare_offer_cancel_with_wallet_def Let_def and_then_Inr split_paired_Ex prod.case by blast

text \<open>What the review says of the operations: the trust line it announces, then the offer, read back
  from the texts the user sees.\<close>

definition trade_says :: "stellar_lib \<Rightarrow> trade_details \<Rightarrow> int \<Rightarrow> operation_body list \<Rightarrow> bool" where
  "trade_says L d offer_id bodies \<longleftrightarrow>
     (\<exists>base counter amount line.
        asset_parse L (td_base d) = Inr base \<and> asset_parse L (td_counter d) = Inr counter \<and> base \<noteq> counter \<and>
        parse_stroops (td_amount d) True = Inr amount \<and>
        price_ok \<lparr>price_n = td_price_n d, price_d = td_price_d d\<rparr> \<and>
        bodies = line @ [offer_operation (td_side d) base counter amount
          \<lparr>price_n = td_price_n d, price_d = td_price_d d\<rparr> offer_id] \<and>
        (case (td_trustline_asset d, td_trustline_limit d) of
           (None, None) \<Rightarrow> line = []
         | (Some a_text, Some l_text) \<Rightarrow>
             (\<exists>a l limit. asset_parse L a_text = Inr a \<and> a = snd (side_assets (td_side d) base counter) \<and>
                to_change_trust_xdr a = Inr l \<and> parse_stroops l_text True = Inr limit \<and> line = [ChangeTrustOp l limit])
         | _ \<Rightarrow> False))"

lemma offer_liabilities_nonneg:
  assumes "price_ok p" "0 \<le> amount" "amount \<le> i64_max" "offer_liabilities side amount p = Inr l"
  shows "0 \<le> liability_selling l \<and> 0 \<le> liability_buying l"
proof -
  have "\<exists>s b. exchange_v10_normal_liabilities (price_n p) (price_d p) amount i64_max = Inr (s, b) \<and> 0 \<le> s \<and> 0 \<le> b"
    "\<exists>s b. exchange_v10_normal_liabilities (price_d p) (price_n p) i64_max amount = Inr (s, b) \<and> 0 \<le> s \<and> 0 \<le> b"
    using exchange_spec [of "price_n p" "price_d p" amount i64_max]
      exchange_spec [of "price_d p" "price_n p" i64_max amount] assms(1-3)
    by (simp_all add: price_ok_def i64_max_def) blast+
  with assms(4) show ?thesis by (cases side) (auto simp: offer_liabilities_def)
qed

lemma default_limit: "default_limit_stroops = Inr v \<longleftrightarrow> parse_stroops default_trustline_limit True = Inr v"
  by (simp add: default_limit_stroops_def result_simps)

lemma trade_says_reviewed:
  assumes codec: "public_key_codec L" and parsed: "parse_trade L terms = Inr (base, counter, amount, price_stroops, p)"
    and line: "(if adds then map_ok (\<lambda>b. [b]) (receiving_line_op buying) else Inr []) = Inr line"
    and buying: "buying = snd (side_assets side base counter)"
    and review: "trade_review L side base counter amount price_stroops p (if adds then Some buying else None) = Inr (TradeDetails d)"
  shows "trade_says L d offer_id (line @ [offer_operation side base counter amount p offer_id])"
proof -
  note t = parse_trade_Inr [OF parsed]
  obtain pr where "stellar_price price_stroops = Inr pr" "price_ok pr"
    using stellar_price_spec [of price_stroops] t by blast
  then have p: "price_ok p" using t by simp
  have ok: "asset_ok L base" "asset_ok L counter" using t asset_parse_ok [OF codec] by blast+
  then have shown: "asset_parse L (asset_display L base) = Inr base" "asset_parse L (asset_display L counter) = Inr counter"
    by (simp_all add: asset_parse_display [OF codec])
  then have b: "asset_parse L (asset_display L buying) = Inr buying" using buying by (cases side) auto
  have amount: "parse_stroops (format_stroops amount) True = Inr amount" using t by (simp add: stroops.parse_print_positive)
  have d: "td_side d = side" "td_base d = asset_display L base" "td_counter d = asset_display L counter"
    "td_amount d = format_stroops amount" "\<lparr>price_n = td_price_n d, price_d = td_price_d d\<rparr> = p"
    "td_trustline_asset d = (if adds then Some (asset_display L buying) else None)"
    "td_trustline_limit d = (if adds then Some default_trustline_limit else None)"
    using review by (auto simp: trade_review_Inr)
  show ?thesis
    unfolding trade_says_def d
    using line shown b amount p t buying
    by (intro exI [of _ base] exI [of _ counter] exI [of _ amount] exI [of _ line] conjI)
      (auto simp: receiving_line_op_def and_then_Inr default_limit map_ok_Inr split: if_split_asm)
qed

section \<open>What a new offer may promise\<close>

lemma available_balance_covers:
  assumes "available_balance L account a = Inr v" "x \<le> v" "0 < x"
  shows "\<exists>bs b balance selling. get_array account ''balances'' = Some bs \<and> find (matches_balance L a) bs = Some b \<and>
    b \<in> set bs \<and> matches_balance L a b \<and> balance_stroops b ''balance'' = Inr balance \<and>
    balance_stroops b ''selling_liabilities'' = Inr selling \<and> selling + x \<le> balance"
proof -
  obtain bs where bs: "get_array account ''balances'' = Some bs"
    using assms(1) by (auto simp: available_balance_def and_then_Inr)
  then obtain b where b: "find (matches_balance L a) bs = Some b"
    using assms by (cases "find (matches_balance L a) bs") (auto simp: available_balance_def)
  then obtain balance selling where f: "balance_stroops b ''balance'' = Inr balance"
      "balance_stroops b ''selling_liabilities'' = Inr selling" "v = max 0 (saturating_sub balance selling)"
    using assms(1) bs by (auto simp: available_balance_def and_then_Inr)
  have "selling + x \<le> balance"
    using f(3) assms(2,3) balance_stroops_range [OF f(1)] balance_stroops_range [OF f(2)]
    by (auto simp: sub_nonneg_exact max_def split: if_splits)
  moreover have "b \<in> set bs" "matches_balance L a b" using b by (auto simp: find_Some_iff)
  ultimately show ?thesis using bs b f by blast
qed

text \<open>The native side: \<open>v\<close> above the minimum balance of the account.\<close>

lemma native_covers:
  assumes "available_balance L account AssetNative = Inr available"
    and "minimum_balance_stroops account base_reserve = Inr minimum" "0 \<le> base_reserve"
    and "v + minimum \<le> available" "0 < v"
  shows "native_can_pay account base_reserve v"
proof -
  have "0 \<le> minimum" using minimum_balance_range [OF assms(2,3)] by simp
  then have "0 < v + minimum" using assms(5) by simp
  from available_balance_covers [OF assms(1,4) this] obtain bs b balance selling where
    f: "get_array account ''balances'' = Some bs" "b \<in> set bs" "matches_balance L AssetNative b"
      "balance_stroops b ''balance'' = Inr balance" "balance_stroops b ''selling_liabilities'' = Inr selling"
      "selling + (v + minimum) \<le> balance" by blast
  then have "get_str b ''asset_type'' = Some ''native''" by (simp add: matches_balance_def)
  moreover have "v \<le> max 0 (balance - selling - minimum)" using f(6) by simp
  ultimately show ?thesis using f(1,2,4,5) assms(2) unfolding native_can_pay_def by blast
qed

lemma full_authorization_line:
  assumes "ensure_full_offer_authorization L account a account_id = Inr ()" "\<not> is_native a" "\<not> issuer_is L a account_id"
    and "get_array account ''balances'' = Some bs" "find (matches_balance L a) bs = Some b"
  shows "get_bool b ''is_authorized'' = Some True"
  using assms by (auto simp: ensure_full_offer_authorization_def split: option.splits bool.splits)

lemma preflight_selling_covers:
  assumes "preflight_selling L account account_id selling x base_reserve fee count = Inr ()"
    and "ensure_full_offer_authorization L account selling account_id = Inr ()"
    and "0 \<le> x" "0 \<le> base_reserve" "0 \<le> fee" "0 < count"
  shows "(let v = base_reserve * count + fee + (if is_native selling then x else 0) in
      v = 0 \<or> native_can_pay account base_reserve v) \<and>
    (is_native selling \<or> issuer_is L selling account_id \<or> x = 0 \<or> trustline_can_pay L account selling x)"
proof -
  obtain available minimum where f: "available_balance L account selling = Inr available"
      "minimum_balance_stroops account base_reserve = Inr minimum"
    using assms(1) unfolding preflight_selling_def and_then_Inr by blast
  show ?thesis
  proof (cases "is_native selling")
    case True
    then have a: "selling = AssetNative" by (cases selling) auto
    from assms(1) f True have "x + (minimum + base_reserve * count) + fee \<le> available"
      by (auto simp: preflight_selling_def and_then_Inr checked_add_Some checked_mul_Some
        Option.bind_eq_Some_conv split: if_split_asm)
    then have "base_reserve * count + fee + x + minimum \<le> available" by simp
    moreover have "0 \<le> base_reserve * count + fee + x" using assms by simp
    ultimately show ?thesis using native_covers [OF f(1) [unfolded a] f(2) assms(4), of "base_reserve * count + fee + x"] True
      by (cases "base_reserve * count + fee + x = 0") (simp_all add: Let_def)
  next
    case False
    from assms(1) f False obtain available_native where
      g: "issuer_is L selling account_id \<or> x \<le> available" "available_balance L account AssetNative = Inr available_native"
        "minimum + base_reserve * count + fee \<le> available_native"
      by (auto simp: preflight_selling_def and_then_Inr checked_add_Some checked_mul_Some split: if_split_asm)
    have sold: "trustline_can_pay L account selling x" if "\<not> issuer_is L selling account_id" "0 < x"
    proof -
      from g(1) that have "x \<le> available" by simp
      from available_balance_covers [OF f(1) this that(2)] full_authorization_line [OF assms(2) False that(1)]
      show ?thesis unfolding trustline_can_pay_def by fast
    qed
    have "base_reserve * count + fee + minimum \<le> available_native" using g(3) by simp
    moreover have "0 \<le> base_reserve * count + fee" using assms by simp
    ultimately have "base_reserve * count + fee = 0 \<or> native_can_pay account base_reserve (base_reserve * count + fee)"
      using native_covers [OF g(2) f(2) assms(4), of "base_reserve * count + fee"] by linarith
    moreover have "issuer_is L selling account_id \<or> x = 0 \<or> trustline_can_pay L account selling x"
      using sold assms(3) by linarith
    ultimately show ?thesis using False by (simp add: Let_def)
  qed
qed

lemma receiving_capacity_holds:
  assumes "receiving_capacity L account a account_id None = Inr capacity" "x \<le> capacity" "0 < x"
    and "\<not> issuer_is L a account_id" "ensure_full_offer_authorization L account a account_id = Inr ()"
  shows "account_can_receive L account a x"
proof -
  obtain bs where bs: "get_array account ''balances'' = Some bs"
    using assms(1,4) by (auto simp: receiving_capacity_def and_then_Inr)
  show ?thesis
  proof (cases "is_native a")
    case True
    with assms(1,4) bs obtain b balance buying where f: "find (matches_balance L a) bs = Some b"
        "balance_stroops b ''balance'' = Inr balance" "balance_stroops b ''buying_liabilities'' = Inr buying"
        "capacity = saturating_sub i64_max (balance + buying)" "in_i64 (balance + buying)"
      by (auto simp: receiving_capacity_def and_then_Inr Let_def checked_add_Some)
    have "balance + buying + x \<le> i64_max"
      using f(4,5) assms(2) balance_stroops_range [OF f(2)] balance_stroops_range [OF f(3)]
      by (auto simp: sub_nonneg_exact in_i64_def)
    moreover have "b \<in> set bs" "matches_balance L a b" using f(1) by (auto simp: find_Some_iff)
    ultimately show ?thesis using f bs True unfolding account_can_receive_def by force
  next
    case False
    then obtain b where b: "find (matches_balance L a) bs = Some b"
      using assms bs by (cases "find (matches_balance L a) bs") (auto simp: receiving_capacity_def)
    with assms(1,4) bs False obtain balance buying limit where f: "balance_stroops b ''limit'' = Inr limit"
        "balance_stroops b ''balance'' = Inr balance" "balance_stroops b ''buying_liabilities'' = Inr buying"
        "capacity = max 0 (saturating_sub limit (balance + buying))" "in_i64 (balance + buying)"
      by (auto simp: receiving_capacity_def and_then_Inr Let_def checked_add_Some)
    have "balance + buying + x \<le> limit"
      using f(4,5) assms(2,3) balance_stroops_range [OF f(1)] balance_stroops_range [OF f(2)]
        balance_stroops_range [OF f(3)] by (auto simp: sub_nonneg_exact in_i64_def max_def split: if_splits)
    moreover have "b \<in> set bs" "matches_balance L a b" using b by (auto simp: find_Some_iff)
    moreover note full_authorization_line [OF assms(5) False assms(4) bs b]
    ultimately show ?thesis using f bs False unfolding account_can_receive_def by force
  qed
qed

lemma receiving_capacity_new_line:
  assumes "receiving_capacity L account a account_id (Some limit) = Inr capacity"
    and "\<not> account_can_hold L account a account_id"
  shows "capacity = limit"
proof -
  obtain bs where bs: "get_array account ''balances'' = Some bs" "\<not> list_ex (matches_balance L a) bs"
    using assms by (auto simp: receiving_capacity_def account_can_hold_def and_then_Inr)
  then have "find (matches_balance L a) bs = None" by (simp add: find_None_iff list_ex_iff)
  with assms bs show ?thesis by (auto simp: receiving_capacity_def account_can_hold_def Let_def)
qed

section \<open>Properties\<close>

text \<open>C20. What the user reviews is what is signed, for every offer request: a reviewed trade reads back
  as the one offer operation of the prepared transaction, after the receiving trust line exactly where
  the review announces one; a reviewed update keeps the side of an offer that belongs to the source; a
  reviewed cancellation sets the amount of an offer of the source, of the reviewed assets, to zero.\<close>

theorem reviewed_offer_is_prepared:
  assumes codec: "public_key_codec (fc_stellar C)" and prepared: "prepare_offer C now q disk = (Inr p, disk')"
  shows "\<exists>t k bodies. po_envelope p = EnvTx t [] \<and> public_key_from_string (fc_stellar C) (or_source (po_review p)) = Some k \<and>
    tx_source t = MuxEd25519 k \<and> tx_operations t = map (\<lambda>b. \<lparr>op_source = None, op_body = b\<rparr>) bodies \<and>
    (case (or_action (po_review p), or_offer_id (po_review p), or_details (po_review p)) of
       (OfferCreate, None, TradeDetails d) \<Rightarrow> trade_says (fc_stellar C) d 0 bodies
     | (OfferUpdate, Some offer_id, TradeDetails d) \<Rightarrow> 0 < offer_id \<and> trade_says (fc_stellar C) d offer_id bodies \<and>
         (\<exists>raw selling buying base counter. get_offer (fc_gateway C) offer_id = Inr raw \<and>
            get_str raw ''seller'' = Some (or_source (po_review p)) \<and>
            horizon_offer_asset (fc_stellar C) raw ''selling'' = Inr selling \<and>
            horizon_offer_asset (fc_stellar C) raw ''buying'' = Inr buying \<and>
            asset_parse (fc_stellar C) (td_base d) = Inr base \<and> asset_parse (fc_stellar C) (td_counter d) = Inr counter \<and>
            (selling, buying) = side_assets (td_side d) base counter)
     | (OfferCancel, Some offer_id, CancelDetails s b) \<Rightarrow> 0 < offer_id \<and>
         (\<exists>raw selling buying pr. get_offer (fc_gateway C) offer_id = Inr raw \<and>
            get_str raw ''seller'' = Some (or_source (po_review p)) \<and>
            asset_parse (fc_stellar C) s = Inr selling \<and> asset_parse (fc_stellar C) b = Inr buying \<and>
            horizon_offer_asset (fc_stellar C) raw ''selling'' = Inr selling \<and>
            horizon_offer_asset (fc_stellar C) raw ''buying'' = Inr buying \<and>
            bodies = [ManageSellOfferOp selling buying 0 pr offer_id])
     | _ \<Rightarrow> False)"
proof (cases q)
  case (CreateOffer name side terms allow)
  then obtain r where "prepare_offer_create_with_wallet C now r side terms allow disk' = Inr p"
    using prepared by (auto simp: prepare_offer_create_def split: prod.splits sum.splits)
  from offer_create_Inr [OF this] obtain base counter amount price_stroops pr account ledger total_fee line adds where
    f: "parse_trade (fc_stellar C) terms = Inr (base, counter, amount, price_stroops, pr)"
      "(if adds then map_ok (\<lambda>b. [b]) (receiving_line_op (snd (side_assets side base counter))) else Inr []) = Inr line"
      "finish_offer C now r account ledger (line @ [offer_operation side base counter amount pr 0])
         OfferCreate (operation_for_side side) None total_fee
         (trade_review (fc_stellar C) side base counter amount price_stroops pr
           (if adds then Some (snd (side_assets side base counter)) else None)) disk' = Inr p"
    unfolding Let_def by blast
  from finish_offer_Inr [OF f(3)] obtain d where
    d: "trade_review (fc_stellar C) side base counter amount price_stroops pr
      (if adds then Some (snd (side_assets side base counter)) else None) = Inr (TradeDetails d)"
      "or_details (po_review p) = TradeDetails d"
    unfolding trade_review_Inr by blast
  from finish_offer_Inr [OF f(3)] obtain k t where
    e: "po_envelope p = EnvTx t []" "public_key_from_string (fc_stellar C) (wr_address r) = Some k"
      "tx_source t = MuxEd25519 k"
      "tx_operations t = map (\<lambda>b. \<lparr>op_source = None, op_body = b\<rparr>) (line @ [offer_operation side base counter amount pr 0])"
      "or_action (po_review p) = OfferCreate" "or_source (po_review p) = wr_address r" "or_offer_id (po_review p) = None"
    by blast
  from trade_says_reviewed [OF codec f(1,2) refl d(1)] show ?thesis
    by (intro exI [of _ t] exI [of _ k] exI [of _ "line @ [offer_operation side base counter amount pr 0]"])
      (simp only: e d(2) prod.case option.case offer_action.case offer_review_details.case simp_thms)
next
  case (UpdateOffer name offer_id terms)
  then obtain r where pos: "0 < offer_id" and "prepare_offer_update_with_wallet C now r offer_id terms disk' = Inr p"
    using prepared by (auto simp: prepare_offer_update_def validate_offer_id_def split: prod.splits sum.splits if_split_asm)
  from offer_update_Inr [OF this(2)] obtain base counter amount price_stroops pr raw selling buying side account ledger where
    f: "parse_trade (fc_stellar C) terms = Inr (base, counter, amount, price_stroops, pr)"
      "stored_offer C r offer_id = Inr (raw, selling, buying)" "infer_side selling buying base counter = Inr side"
      "finish_offer C now r account ledger ([] @ [offer_operation side base counter amount pr offer_id])
         OfferUpdate (operation_for_side side) (Some offer_id) (base_fee_in_stroops ledger)
         (trade_review (fc_stellar C) side base counter amount price_stroops pr
           (if False then Some (snd (side_assets side base counter)) else None)) disk' = Inr p"
    by auto
  from finish_offer_Inr [OF f(4)] obtain d where
    d: "trade_review (fc_stellar C) side base counter amount price_stroops pr
      (if False then Some (snd (side_assets side base counter)) else None) = Inr (TradeDetails d)"
      "or_details (po_review p) = TradeDetails d"
    unfolding trade_review_Inr by blast
  have sides: "(selling, buying) = side_assets side base counter"
    using f(3) by (auto simp: infer_side_def split: if_split_asm)
  have "td_side d = side" "asset_parse (fc_stellar C) (td_base d) = Inr base"
    "asset_parse (fc_stellar C) (td_counter d) = Inr counter"
    using d(1) parse_trade_Inr [OF f(1)] asset_parse_ok [OF codec] asset_parse_display [OF codec]
    by (auto simp: trade_review_Inr)
  with sides f(2) have stored: "\<exists>raw selling buying base counter. get_offer (fc_gateway C) offer_id = Inr raw \<and>
      get_str raw ''seller'' = Some (wr_address r) \<and>
      horizon_offer_asset (fc_stellar C) raw ''selling'' = Inr selling \<and>
      horizon_offer_asset (fc_stellar C) raw ''buying'' = Inr buying \<and>
      asset_parse (fc_stellar C) (td_base d) = Inr base \<and> asset_parse (fc_stellar C) (td_counter d) = Inr counter \<and>
      (selling, buying) = side_assets (td_side d) base counter"
    unfolding stored_offer_Inr by blast
  from finish_offer_Inr [OF f(4)] obtain k t where
    e: "po_envelope p = EnvTx t []" "public_key_from_string (fc_stellar C) (wr_address r) = Some k"
      "tx_source t = MuxEd25519 k"
      "tx_operations t = map (\<lambda>b. \<lparr>op_source = None, op_body = b\<rparr>) ([] @ [offer_operation side base counter amount pr offer_id])"
      "or_action (po_review p) = OfferUpdate" "or_source (po_review p) = wr_address r" "or_offer_id (po_review p) = Some offer_id"
    by blast
  from trade_says_reviewed [OF codec f(1) _ refl d(1), of "[]" offer_id] stored pos show ?thesis
    by (intro exI [of _ t] exI [of _ k] exI [of _ "[] @ [offer_operation side base counter amount pr offer_id]"])
      (simp only: e d(2) prod.case option.case offer_action.case offer_review_details.case simp_thms if_False)
next
  case (CancelOffer name offer_id)
  then obtain r where pos: "0 < offer_id" and "prepare_offer_cancel_with_wallet C now r offer_id disk' = Inr p"
    using prepared by (auto simp: prepare_offer_cancel_def validate_offer_id_def split: prod.splits sum.splits if_split_asm)
  from offer_cancel_Inr [OF this(2)] obtain raw selling buying pr account ledger where
    f: "stored_offer C r offer_id = Inr (raw, selling, buying)"
      "finish_offer C now r account ledger [ManageSellOfferOp selling buying 0 pr offer_id]
        OfferCancel ManageSellOffer (Some offer_id) (base_fee_in_stroops ledger)
        (Inr (CancelDetails (asset_display (fc_stellar C) selling) (asset_display (fc_stellar C) buying))) disk' = Inr p"
    by blast
  have "asset_ok (fc_stellar C) selling" "asset_ok (fc_stellar C) buying"
    using f(1) unfolding stored_offer_Inr horizon_offer_asset_def
    by (auto simp: and_then_Inr intro: asset_from_horizon_ok [OF codec])
  then have "asset_parse (fc_stellar C) (asset_display (fc_stellar C) selling) = Inr selling"
    "asset_parse (fc_stellar C) (asset_display (fc_stellar C) buying) = Inr buying"
    by (simp_all add: asset_parse_display [OF codec])
  with f(1) have stored: "\<exists>raw s b pr'. get_offer (fc_gateway C) offer_id = Inr raw \<and>
      get_str raw ''seller'' = Some (wr_address r) \<and>
      asset_parse (fc_stellar C) (asset_display (fc_stellar C) selling) = Inr s \<and>
      asset_parse (fc_stellar C) (asset_display (fc_stellar C) buying) = Inr b \<and>
      horizon_offer_asset (fc_stellar C) raw ''selling'' = Inr s \<and>
      horizon_offer_asset (fc_stellar C) raw ''buying'' = Inr b \<and>
      [ManageSellOfferOp selling buying 0 pr offer_id] = [ManageSellOfferOp s b 0 pr' offer_id]"
    unfolding stored_offer_Inr by blast
  from finish_offer_Inr [OF f(2)] obtain k t where
    e: "po_envelope p = EnvTx t []" "public_key_from_string (fc_stellar C) (wr_address r) = Some k"
      "tx_source t = MuxEd25519 k"
      "tx_operations t = map (\<lambda>b. \<lparr>op_source = None, op_body = b\<rparr>) [ManageSellOfferOp selling buying 0 pr offer_id]"
      "or_action (po_review p) = OfferCancel" "or_source (po_review p) = wr_address r" "or_offer_id (po_review p) = Some offer_id"
      "or_details (po_review p) = CancelDetails (asset_display (fc_stellar C) selling) (asset_display (fc_stellar C) buying)"
    by blast
  from stored pos show ?thesis
    by (intro exI [of _ t] exI [of _ k] exI [of _ "[ManageSellOfferOp selling buying 0 pr offer_id]"])
      (simp only: e prod.case option.case offer_action.case offer_review_details.case simp_thms)
qed

text \<open>C21. A new offer is backed: what it promises at its price (its liabilities on both sides) is there.
  The account pays the fee, the reserve of the new entries and what is sold in XLM out of what is free;
  an issued asset is sold from an authorized line or by its issuer; what is bought fits an authorized
  line, the native balance, or the limit of the line the same transaction adds.\<close>

theorem new_offer_is_backed:
  assumes "prepare_offer_create_with_wallet C now r side terms allow disk = Inr p"
  shows "\<exists>account ledger base counter amount price_stroops pr l selling buying adds count.
    get_account (fc_gateway C) (wr_address r) = Inr account \<and> get_ledger_parameters (fc_gateway C) = Inr ledger \<and>
    parse_trade (fc_stellar C) terms = Inr (base, counter, amount, price_stroops, pr) \<and>
    (selling, buying) = side_assets side base counter \<and>
    adds = (\<not> account_can_hold (fc_stellar C) account buying (wr_address r)) \<and> count = (if adds then 2 else 1) \<and>
    offer_liabilities side amount pr = Inr l \<and> (adds \<longrightarrow> allow) \<and>
    (let v = base_reserve_in_stroops ledger * count + base_fee_in_stroops ledger * count +
           (if is_native selling then liability_selling l else 0) in
       v = 0 \<or> native_can_pay account (base_reserve_in_stroops ledger) v) \<and>
    (is_native selling \<or> issuer_is (fc_stellar C) selling (wr_address r) \<or> liability_selling l = 0 \<or>
       trustline_can_pay (fc_stellar C) account selling (liability_selling l)) \<and>
    (if adds then \<exists>limit. default_limit_stroops = Inr limit \<and> liability_buying l \<le> limit
     else issuer_is (fc_stellar C) buying (wr_address r) \<or> liability_buying l = 0 \<or>
       account_can_receive (fc_stellar C) account buying (liability_buying l))"
proof -
  obtain base counter amount price_stroops pr account ledger total_fee selling buying adds count where
    f: "parse_trade (fc_stellar C) terms = Inr (base, counter, amount, price_stroops, pr)"
      "get_account (fc_gateway C) (wr_address r) = Inr account" "get_ledger_parameters (fc_gateway C) = Inr ledger"
    and sides: "selling = fst (side_assets side base counter)" "buying = snd (side_assets side base counter)"
    and adds: "adds = (\<not> account_can_hold (fc_stellar C) account buying (wr_address r))" "count = (if adds then 2 else 1)"
    and auth: "ensure_full_offer_authorization (fc_stellar C) account selling (wr_address r) = Inr ()"
      "ensure_receiving_line C account (wr_address r) buying adds allow = Inr ()"
    and fee: "checked_mul_u32 (base_fee_in_stroops ledger) count = Some total_fee"
    and preflight: "preflight_create (fc_stellar C) account (wr_address r) side selling buying amount pr
      (base_reserve_in_stroops ledger) total_fee count adds = Inr ()"
    using offer_create_Inr [OF assms] unfolding Let_def by blast
  from preflight obtain l new_limit capacity where
    l: "offer_liabilities side amount pr = Inr l"
      "preflight_selling (fc_stellar C) account (wr_address r) selling (liability_selling l)
        (base_reserve_in_stroops ledger) total_fee count = Inr ()"
      "(if adds then map_ok Some default_limit_stroops else Inr None) = Inr new_limit"
      "receiving_capacity (fc_stellar C) account buying (wr_address r) new_limit = Inr capacity"
      "liability_buying l \<le> capacity"
    by (auto simp: preflight_create_def and_then_Inr split: if_split_asm)
  have pr: "price_ok pr"
    using parse_trade_Inr [OF f(1)] stellar_price_spec [of price_stroops] by force
  have pos: "0 \<le> liability_selling l \<and> 0 \<le> liability_buying l"
    using parse_trade_Inr [OF f(1)] l(1) by (intro offer_liabilities_nonneg [OF pr]) auto
  note lr = get_ledger_parameters_range [OF f(3)]
  have tf: "total_fee = base_fee_in_stroops ledger * count" "0 \<le> total_fee"
    using fee by (auto simp: checked_mul_u32_def in_u32_def split: if_split_asm)
  have count: "0 < count" using adds(2) by simp
  from preflight_selling_covers [OF l(2) auth(1) conjunct1 [OF pos] _ tf(2) count] lr
  have sell: "(let v = base_reserve_in_stroops ledger * count + base_fee_in_stroops ledger * count +
           (if is_native selling then liability_selling l else 0) in
       v = 0 \<or> native_can_pay account (base_reserve_in_stroops ledger) v)"
    "is_native selling \<or> issuer_is (fc_stellar C) selling (wr_address r) \<or> liability_selling l = 0 \<or>
       trustline_can_pay (fc_stellar C) account selling (liability_selling l)"
    unfolding tf(1) by blast+
  have buy: "if adds then \<exists>limit. default_limit_stroops = Inr limit \<and> liability_buying l \<le> limit
     else issuer_is (fc_stellar C) buying (wr_address r) \<or> liability_buying l = 0 \<or>
       account_can_receive (fc_stellar C) account buying (liability_buying l)"
  proof (cases adds)
    case True
    with l(3) obtain limit where d: "default_limit_stroops = Inr limit" "new_limit = Some limit" by (auto simp: map_ok_Inr)
    with receiving_capacity_new_line [of "fc_stellar C" account buying "wr_address r" limit capacity] l(4,5) adds(1) True
    show ?thesis by auto
  next
    case False
    with auth(2) have "ensure_full_offer_authorization (fc_stellar C) account buying (wr_address r) = Inr ()"
      by (simp add: ensure_receiving_line_def)
    with receiving_capacity_holds [OF _ l(5)] l(3,4) False pos show ?thesis by force
  qed
  have allowed: "adds \<longrightarrow> allow" using auth(2) by (auto simp: ensure_receiving_line_def Let_def split: if_split_asm)
  show ?thesis
    apply (rule exI [of _ account], rule exI [of _ ledger], rule exI [of _ base], rule exI [of _ counter],
        rule exI [of _ amount], rule exI [of _ price_stroops], rule exI [of _ pr], rule exI [of _ l],
        rule exI [of _ selling], rule exI [of _ buying], rule exI [of _ adds], rule exI [of _ count])
    apply (intro conjI)
              apply (rule f adds l(1) allowed sell buy)+
       apply (simp add: sides)
      apply (rule adds l(1) allowed sell buy)+
    done
qed

text \<open>The example: one XLM offered for an asset the account issues itself.\<close>

definition demo_own :: asset where "demo_own = AssetCreditAlphanum4 (pad_code 4 ''USD'') demo_key"

definition demo_terms :: offer_terms where
  "demo_terms = \<lparr>ot_base = ''XLM'', ot_counter = asset_display demo_lib demo_own,
     ot_amount = format_stroops 10000000, ot_price = format_stroops 10000000\<rparr>"

lemma demo_price: "stellar_price 10000000 = Inr \<lparr>price_n = 1, price_d = 1\<rparr>"
  by (simp add: stellar_price_def stroops_per_xlm_def price_loop.simps checked_mul_def checked_add_def checked_i64_def
      arith_defs in_i32_def i32_max_def)

lemma demo_own_parses: "asset_parse demo_lib (asset_display demo_lib demo_own) = Inr demo_own"
proof (rule asset_parse_display [OF demo_public_key_codec])
  show "asset_ok demo_lib demo_own"
    using decode_pad_code [of "''USD''" 4] by (simp add: demo_own_def valid_code_def is_ascii_alphanumeric_def)
qed

lemma demo_trade:
  "parse_trade demo_lib demo_terms = Inr (AssetNative, demo_own, 10000000, 10000000, \<lparr>price_n = 1, price_d = 1\<rparr>)"
proof -
  have "parse_stroops (format_stroops 10000000) True = Inr 10000000"
    by (simp add: stroops.parse_print_positive arith_defs)
  moreover have "asset_parse demo_lib ''XLM'' = Inr AssetNative" by (simp add: asset_parse_def eq_ignore_ascii_case_def)
  moreover have "demo_own \<noteq> AssetNative" by (simp add: demo_own_def)
  ultimately show ?thesis
    by (simp add: parse_trade_def demo_terms_def demo_own_parses ensure_pair_def parse_offer_value_def demo_price)
qed

lemma demo_liabilities: "offer_liabilities Sell 10000000 \<lparr>price_n = 1, price_d = 1\<rparr> =
    Inr \<lparr>liability_selling = 10000000, liability_buying = 10000000\<rparr>"
  by (simp add: offer_liabilities_def exchange_v10_normal_liabilities_def ceil_div_def checked_i128_def
      i128_min_def i128_max_def checked_i64_def arith_defs)

lemma demo_trade_accepted:
  "issuer_is demo_lib demo_own (demo_key_text demo_key)"
  "ensure_full_offer_authorization demo_lib demo_horizon_account AssetNative (demo_key_text demo_key) = Inr ()"
  "ensure_full_offer_authorization demo_lib demo_horizon_account demo_own (demo_key_text demo_key) = Inr ()"
  "preflight_create demo_lib demo_horizon_account (demo_key_text demo_key) Sell AssetNative demo_own 10000000
     \<lparr>price_n = 1, price_d = 1\<rparr> 5000000 100 1 False = Inr ()"
proof -
  show own: "issuer_is demo_lib demo_own (demo_key_text demo_key)" by (simp add: issuer_is_def demo_own_def)
  show "ensure_full_offer_authorization demo_lib demo_horizon_account AssetNative (demo_key_text demo_key) = Inr ()"
    "ensure_full_offer_authorization demo_lib demo_horizon_account demo_own (demo_key_text demo_key) = Inr ()"
    using own by (simp_all add: ensure_full_offer_authorization_def)
  note demo_liabilities
  moreover have "available_balance demo_lib demo_horizon_account AssetNative = Inr 1000000000"
    by (simp add: available_balance_def matches_balance_def saturating_sub_def saturate_i64_def arith_defs)
  ultimately show "preflight_create demo_lib demo_horizon_account (demo_key_text demo_key) Sell AssetNative demo_own 10000000
     \<lparr>price_n = 1, price_d = 1\<rparr> 5000000 100 1 False = Inr ()"
    using own by (simp add: preflight_create_def preflight_selling_def receiving_capacity_def checked_mul_def
        checked_add_def checked_i64_def arith_defs)
qed

lemma demo_trade_review:
  "\<exists>d. trade_review demo_lib Sell AssetNative demo_own 10000000 10000000 \<lparr>price_n = 1, price_d = 1\<rparr> None = Inr (TradeDetails d)"
  by (simp add: trade_review_def format_price_ratio_def format_price_product_def round_ratio_def checked_i128_def
      i128_min_def i128_max_def stroops_per_xlm_def saturating_mul_i128_def checked_i64_def arith_defs Let_def)

lemma demo_prepared_offer:
  "\<exists>p. prepare_offer_create_with_wallet demo_online 0 (demo_wallet ''a'') Sell demo_terms False demo_client_disk = Inr p"
proof -
  let ?body = "offer_operation Sell AssetNative demo_own 10000000 \<lparr>price_n = 1, price_d = 1\<rparr> 0"
  have "in_u32 100" "in_i64 8" "in_u64 300" by (simp_all add: arith_defs)
  then obtain t where e: "build_operation_envelope_with_timeout demo_lib 0 (demo_key_text demo_key) [?body] 7 100 None 300 =
      Inr (EnvTx t [])"
    and t: "tx_source t = MuxEd25519 demo_key" "tx_operations t = [\<lparr>op_source = None, op_body = ?body\<rparr>]"
      "tx_cond t = PrecondTime \<lparr>min_time = 0, max_time = 300\<rparr>"
    by (simp add: build_operation_envelope_with_timeout_def text_memo_def build_Inr max_operations_per_tx_def)
  from demo_snapshot [OF t] obtain s where
    s: "client_authorization_snapshot demo_online demo_client_disk (EnvTx t []) demo_horizon_account = Inr s" by auto
  from demo_trade_review obtain d where
    d: "trade_review demo_lib Sell AssetNative demo_own 10000000 10000000 \<lparr>price_n = 1, price_d = 1\<rparr> None = Inr (TradeDetails d)" by blast
  have w: "wr_address (demo_wallet ''a'') = demo_key_text demo_key" by (simp add: demo_wallet_def)
  have hold: "account_can_hold demo_lib demo_horizon_account demo_own (demo_key_text demo_key)"
    using demo_trade_accepted(1) by (simp add: account_can_hold_def)
  have "checked_mul_u32 100 1 = Some 100" by (simp add: checked_mul_u32_def arith_defs)
  then show ?thesis
    using demo_trade demo_trade_accepted hold s d e w
    by (simp add: prepare_offer_create_with_wallet_def ensure_receiving_line_def finish_offer_def Let_def)
qed

lemma demo_write_wallet:
  "client_write_wallet demo_online (Some ''a'') demo_client_disk = (Inr (demo_wallet ''a''), demo_client_disk)"
proof -
  obtain rs where rs: "set rs = stored_records demo_wallet_disk"
    "list_all (\<lambda>r. storage_load demo_lib (wr_name r) demo_wallet_disk = Inr r) rs"
    using storage_list_ok [OF demo_listing demo_wallet_stored] by blast
  have "demo_wallet ''a'' \<in> stored_records demo_wallet_disk"
    by (auto simp: stored_records_def demo_wallet_disk_def)
  then have "storage_load demo_lib ''a'' demo_wallet_disk = Inr (demo_wallet ''a'')"
    using rs by (auto simp: list_all_iff demo_wallet_def)
  then have resolved: "storage_resolve demo_lib demo_wallet_env (Some ''a'') demo_wallet_disk = Inr (demo_wallet ''a'')"
    by (simp add: storage_resolve_def)
  have network: "wr_network (demo_wallet ''a'') = ''testnet''" by (simp add: demo_wallet_def)
  show ?thesis
    by (simp add: client_write_wallet_def resolve_write_wallet_def resolve_network_wallet_def resolved network
      demo_client_disk_def reconcile_and_ensure_clear_def reconcile_with_def pending_load_def)
qed

theorem reviewed_offer_is_prepared_witness:
  "\<exists>p t bodies. prepare_offer demo_online 0 (CreateOffer (Some ''a'') Sell demo_terms False) demo_client_disk =
       (Inr p, demo_client_disk) \<and>
     po_envelope p = EnvTx t [] \<and> tx_operations t = map (\<lambda>b. \<lparr>op_source = None, op_body = b\<rparr>) bodies"
proof -
  obtain p where "prepare_offer_create_with_wallet demo_online 0 (demo_wallet ''a'') Sell demo_terms False
      demo_client_disk = Inr p" using demo_prepared_offer by blast
  then have p: "prepare_offer demo_online 0 (CreateOffer (Some ''a'') Sell demo_terms False) demo_client_disk =
      (Inr p, demo_client_disk)"
    by (simp add: prepare_offer_create_def demo_write_wallet)
  from reviewed_offer_is_prepared [OF _ p] demo_public_key_codec p show ?thesis by (simp only: demo_online_simps(1)) blast
qed

theorem new_offer_is_backed_witness:
  "\<exists>account v. get_account demo_gateway (demo_key_text demo_key) = Inr account \<and>
     (v = 0 \<or> native_can_pay account 5000000 v) \<and> 5000100 \<le> v"
proof -
  obtain p where p: "prepare_offer_create_with_wallet demo_online 0 (demo_wallet ''a'') Sell demo_terms False
      demo_client_disk = Inr p" using demo_prepared_offer by blast
  have w: "wr_address (demo_wallet ''a'') = demo_key_text demo_key" by (simp add: demo_wallet_def)
  have hold: "account_can_hold demo_lib demo_horizon_account demo_own (demo_key_text demo_key)"
    using demo_trade_accepted(1) by (simp add: account_can_hold_def)
  from new_offer_is_backed [OF p] have "native_can_pay demo_horizon_account 5000000 15000100"
    by (simp add: demo_trade w hold demo_liabilities Let_def)
  then show ?thesis by (intro exI [of _ demo_horizon_account] exI [of _ 15000100]) simp
qed

end
