(* ===== verification/Process.thy ===== *)
theory Process
  imports Bindings
begin

text \<open>
  bindings/process/src/main.rs: the process binding. One request, a JSON object on standard input, names an operation
  of the SDK and carries its arguments; one response with the result or an error code goes to standard
  output. Arguments are taken out of the object in the order of the source, so the first missing or
  mistyped one gives the error.
\<close>

section \<open>Errors\<close>

datatype bridge_error = InvalidRequest string | InvalidField string | BridgeSdk sdk_error

fun bridge_code :: "bridge_error \<Rightarrow> string" where
  "bridge_code (InvalidRequest _) = ''invalid-input''"
| "bridge_code (InvalidField _) = ''invalid-input''"
| "bridge_code (BridgeSdk e) = sdk_error_code_str (sdk_code e)"

fun bridge_message :: "bridge_error \<Rightarrow> string" where
  "bridge_message (InvalidRequest m) = m"
| "bridge_message (InvalidField f) = ''invalid or missing field: '' @ f"
| "bridge_message (BridgeSdk e) = sdk_message e"

section \<open>Taking arguments\<close>

text \<open>The fields of the request that have not been taken yet are threaded through.\<close>

type_synonym fields = "(string \<times> json) list"
type_synonym 'a taken = "fields \<Rightarrow> bridge_error + 'a \<times> fields"

definition take_then :: "'a taken \<Rightarrow> ('a \<Rightarrow> fields \<Rightarrow> bridge_error + 'b) \<Rightarrow> fields \<Rightarrow> bridge_error + 'b" where
  "take_then t f m = and_then (t m) (\<lambda>(x, m'). f x m')"

definition process_take_value :: "string \<Rightarrow> json taken" where
  "process_take_value key m =
     (case object_remove m key of
        (Some v, m') \<Rightarrow> Inr (v, m')
      | (None, _) \<Rightarrow> Inl (InvalidRequest ''missing required field''))"

definition process_take_string :: "string \<Rightarrow> string taken" where
  "process_take_string key m =
     (case object_remove m key of
        (Some (JString s), m') \<Rightarrow> Inr (s, m')
      | _ \<Rightarrow> Inl (InvalidField key))"

definition process_take_optional_sensitive_string :: "string \<Rightarrow> string taken" where
  "process_take_optional_sensitive_string key m =
     (case object_remove m key of
        (None, m') \<Rightarrow> Inr ([], m')
      | (Some JNull, m') \<Rightarrow> Inr ([], m')
      | (Some (JString s), m') \<Rightarrow> Inr (s, m')
      | _ \<Rightarrow> Inl (InvalidField key))"

definition process_take_optional_string :: "string \<Rightarrow> string option taken" where
  "process_take_optional_string key m =
     (case object_remove m key of
        (None, m') \<Rightarrow> Inr (None, m')
      | (Some JNull, m') \<Rightarrow> Inr (None, m')
      | (Some (JString s), m') \<Rightarrow> Inr (Some s, m')
      | _ \<Rightarrow> Inl (InvalidField key))"

definition process_take_optional_u32 :: "string \<Rightarrow> nat \<Rightarrow> nat taken" where
  "process_take_optional_u32 key fallback m =
     (case object_remove m key of
        (None, m') \<Rightarrow> Inr (fallback, m')
      | (Some JNull, m') \<Rightarrow> Inr (fallback, m')
      | (Some (JNumber n), m') \<Rightarrow>
          (case number_as_u64 n of
             Some v \<Rightarrow> if int v \<le> u32_max then Inr (v, m') else Inl (InvalidField key)
           | None \<Rightarrow> Inl (InvalidField key))
      | _ \<Rightarrow> Inl (InvalidField key))"

text \<open>Base64 is the standard alphabet, as everywhere in the core.\<close>

definition process_decode_base64 :: "sdk_libs \<Rightarrow> string \<Rightarrow> string \<Rightarrow> bridge_error + bytes" where
  "process_decode_base64 B encoded field = ok_or (InvalidField field) (cl_base64_decode (lib_crypto B) encoded)"

definition process_encode :: "sdk_libs \<Rightarrow> bytes \<Rightarrow> json" where
  "process_encode B b = JString (cl_base64_encode (lib_crypto B) b)"

text \<open>A string field in base64.\<close>

definition take_base64 :: "sdk_libs \<Rightarrow> string \<Rightarrow> bytes taken" where
  "take_base64 B key m =
     and_then (process_take_string key m) (\<lambda>(s, m'). map_ok (\<lambda>b. (b, m')) (process_decode_base64 B s key))"

text \<open>\<open>Value::to_string\<close>: the text that \<open>serde_json::to_string\<close> gives, which fails for no \<open>Value\<close>.\<close>

definition value_text :: "sdk_libs \<Rightarrow> json \<Rightarrow> string" where
  "value_text B v = (case lib_json_to_string B v of Inr s \<Rightarrow> s | Inl _ \<Rightarrow> [])"

definition from_sdk :: "sdk_error + 'a \<Rightarrow> bridge_error + 'a" where
  "from_sdk r = map_err BridgeSdk r"

definition parse_envelope_json :: "sdk_libs \<Rightarrow> string \<Rightarrow> bridge_error + json" where
  "parse_envelope_json B encoded =
     map_err (\<lambda>_. InvalidRequest ''SDK returned invalid envelope JSON'') (lib_json_from_string B encoded)"

definition protected_json :: "sdk_libs \<Rightarrow> sdk_protected_software_signer \<Rightarrow> bridge_error + json" where
  "protected_json B p =
     map_ok (\<lambda>v. JObject [(''signer_public_key'', JString (sps_signer_public_key p)), (''envelope'', v)])
       (parse_envelope_json B (sps_envelope_json p))"

fun json_option :: "('a \<Rightarrow> json) \<Rightarrow> 'a option \<Rightarrow> json" where
  "json_option f None = JNull"
| "json_option f (Some x) = f x"

section \<open>Operations\<close>

definition process_binding_api_version :: nat where "process_binding_api_version = 2"
definition process_binding_version :: string where "process_binding_version = ''0.2.0''"

definition process_version :: json where
  "process_version = JObject
     [(''process_binding_version'', JString process_binding_version),
      (''process_binding_api_version'', JNumber (PosInt process_binding_api_version)),
      (''sdk_api_version'', JNumber (PosInt sdk_api_version)),
      (''client_api_version'', JNumber (PosInt (sdv_core_client_api_version sdk_version_of))),
      (''protocol_version'', JNumber (PosInt process_binding_api_version))]"

definition process_parse_account :: "sdk_libs \<Rightarrow> fields \<Rightarrow> bridge_error + json" where
  "process_parse_account B =
     take_then (process_take_string ''address'') (\<lambda>address _.
     and_then (from_sdk (sdk_parse_account B address)) (\<lambda>identity.
       Inr (JObject [(''address'', JString (ai_address identity)),
         (''kind'', JString (case ai_kind identity of Classic \<Rightarrow> ''classic'' | Contract \<Rightarrow> ''contract'')),
         (''public_key'', json_option JString (ai_public_key identity))])))"

definition process_protect_secret :: "sdk_libs \<Rightarrow> fields \<Rightarrow> bridge_error + json" where
  "process_protect_secret B =
     take_then (process_take_string ''secret'') (\<lambda>secret.
     take_then (process_take_string ''passcode'') (\<lambda>passcode.
     take_then (process_take_optional_string ''expected_signer_public_key'') (\<lambda>expected _.
     and_then (from_sdk (sdk_protect_secret B secret passcode expected)) (protected_json B))))"

definition process_protect_mnemonic :: "sdk_libs \<Rightarrow> fields \<Rightarrow> bridge_error + json" where
  "process_protect_mnemonic B =
     take_then (process_take_string ''mnemonic'') (\<lambda>mnemonic.
     take_then (process_take_optional_sensitive_string ''mnemonic_passphrase'') (\<lambda>mnemonic_passphrase.
     take_then (process_take_optional_u32 ''index'' 0) (\<lambda>index.
     take_then (process_take_optional_string ''language'') (\<lambda>language.
     take_then (process_take_string ''passcode'') (\<lambda>passcode.
     take_then (process_take_optional_string ''expected_signer_public_key'') (\<lambda>expected _.
     and_then (from_sdk (sdk_protect_mnemonic B mnemonic mnemonic_passphrase index language passcode expected))
       (protected_json B)))))))"

definition process_generate_mnemonic :: "sdk_libs \<Rightarrow> fields \<Rightarrow> bridge_error + json" where
  "process_generate_mnemonic B =
     take_then (process_take_optional_string ''language'') (\<lambda>language.
     take_then (process_take_optional_u32 ''strength'' 256) (\<lambda>strength.
     take_then (process_take_optional_sensitive_string ''mnemonic_passphrase'') (\<lambda>mnemonic_passphrase.
     take_then (process_take_optional_u32 ''index'' 0) (\<lambda>index.
     take_then (process_take_string ''passcode'') (\<lambda>passcode _.
     and_then (from_sdk (sdk_generate_mnemonic B (case language of Some l \<Rightarrow> l | None \<Rightarrow> ''english'') strength
         mnemonic_passphrase index passcode)) (\<lambda>generated.
     and_then (parse_envelope_json B (sps_envelope_json (sgm_signer generated))) (\<lambda>envelope.
       Inr (JObject [(''signer_public_key'', JString (sps_signer_public_key (sgm_signer generated))),
         (''envelope'', envelope), (''mnemonic'', JString (sgm_mnemonic generated)),
         (''language'', JString (sgm_language generated)), (''index'', JNumber (PosInt (sgm_index generated)))]))))))))"

definition process_derive_mnemonic_signer :: "sdk_libs \<Rightarrow> fields \<Rightarrow> bridge_error + json" where
  "process_derive_mnemonic_signer B =
     take_then (process_take_value ''envelope'') (\<lambda>envelope.
     take_then (process_take_string ''passcode'') (\<lambda>passcode.
     take_then (process_take_string ''expected_signer_public_key'') (\<lambda>expected.
     take_then (process_take_optional_u32 ''index'' 0) (\<lambda>index _.
     and_then (from_sdk (sdk_derive_mnemonic_signer B (value_text B envelope) passcode expected index)) (protected_json B)))))"

definition process_reprotect :: "sdk_libs \<Rightarrow> fields \<Rightarrow> bridge_error + json" where
  "process_reprotect B =
     take_then (process_take_value ''envelope'') (\<lambda>envelope.
     take_then (process_take_string ''current_passcode'') (\<lambda>current_passcode.
     take_then (process_take_string ''new_passcode'') (\<lambda>new_passcode.
     take_then (process_take_string ''expected_signer_public_key'') (\<lambda>expected _.
     and_then (from_sdk (sdk_reprotect B (value_text B envelope) current_passcode new_passcode expected)) (protected_json B)))))"

definition process_derive_unlock_key :: "sdk_libs \<Rightarrow> fields \<Rightarrow> bridge_error + json" where
  "process_derive_unlock_key B =
     take_then (process_take_value ''envelope'') (\<lambda>envelope.
     take_then (process_take_string ''passcode'') (\<lambda>passcode.
     take_then (process_take_string ''expected_signer_public_key'') (\<lambda>expected _.
     and_then (from_sdk (sdk_derive_unlock_key B (value_text B envelope) passcode expected)) (\<lambda>key.
       Inr (JObject [(''unlock_key'', process_encode B key)])))))"

definition process_validate_unlock_key :: "sdk_libs \<Rightarrow> fields \<Rightarrow> bridge_error + json" where
  "process_validate_unlock_key B =
     take_then (process_take_value ''envelope'') (\<lambda>envelope.
     take_then (take_base64 B ''unlock_key'') (\<lambda>unlock_key.
     take_then (process_take_string ''expected_signer_public_key'') (\<lambda>expected _.
     and_then (from_sdk (sdk_validate_unlock_key B (value_text B envelope) unlock_key expected)) (\<lambda>_.
       Inr (JObject [])))))"

definition process_sign_transaction :: "sdk_libs \<Rightarrow> fields \<Rightarrow> bridge_error + json" where
  "process_sign_transaction B =
     take_then (process_take_value ''envelope'') (\<lambda>envelope.
     take_then (take_base64 B ''unlock_key'') (\<lambda>unlock_key.
     take_then (process_take_string ''expected_signer_public_key'') (\<lambda>expected.
     take_then (take_base64 B ''transaction_xdr'') (\<lambda>transaction_xdr.
     take_then (process_take_string ''network_passphrase'') (\<lambda>network_passphrase _.
     and_then (from_sdk (sdk_sign_transaction_xdr B (value_text B envelope) unlock_key expected transaction_xdr
         network_passphrase)) (\<lambda>signed.
       Inr (JObject [(''transaction_xdr'', process_encode B signed)])))))))"

definition process_sign_transaction_with_passcode :: "sdk_libs \<Rightarrow> fields \<Rightarrow> bridge_error + json" where
  "process_sign_transaction_with_passcode B =
     take_then (process_take_value ''envelope'') (\<lambda>envelope.
     take_then (process_take_string ''passcode'') (\<lambda>passcode.
     take_then (process_take_string ''expected_signer_public_key'') (\<lambda>expected.
     take_then (take_base64 B ''transaction_xdr'') (\<lambda>transaction_xdr.
     take_then (process_take_string ''network_passphrase'') (\<lambda>network_passphrase _.
     and_then (from_sdk (sdk_sign_transaction_xdr_with_passcode B (value_text B envelope) passcode expected transaction_xdr
         network_passphrase)) (\<lambda>signed.
       Inr (JObject [(''transaction_xdr'', process_encode B signed)])))))))"

definition process_sign_soroban_authorization :: "sdk_libs \<Rightarrow> fields \<Rightarrow> bridge_error + json" where
  "process_sign_soroban_authorization B =
     take_then (process_take_value ''envelope'') (\<lambda>envelope.
     take_then (take_base64 B ''unlock_key'') (\<lambda>unlock_key.
     take_then (process_take_string ''expected_signer_public_key'') (\<lambda>expected.
     take_then (take_base64 B ''authorization_entry_xdr'') (\<lambda>authorization_entry_xdr.
     take_then (process_take_string ''network_passphrase'') (\<lambda>network_passphrase _.
     and_then (from_sdk (sdk_sign_soroban_authorization_xdr B (value_text B envelope) unlock_key expected
         authorization_entry_xdr network_passphrase)) (\<lambda>signed.
       Inr (JObject [(''authorization_entry_xdr'', process_encode B signed)])))))))"

definition process_sign_soroban_authorization_with_passcode :: "sdk_libs \<Rightarrow> fields \<Rightarrow> bridge_error + json" where
  "process_sign_soroban_authorization_with_passcode B =
     take_then (process_take_value ''envelope'') (\<lambda>envelope.
     take_then (process_take_string ''passcode'') (\<lambda>passcode.
     take_then (process_take_string ''expected_signer_public_key'') (\<lambda>expected.
     take_then (take_base64 B ''authorization_entry_xdr'') (\<lambda>authorization_entry_xdr.
     take_then (process_take_string ''network_passphrase'') (\<lambda>network_passphrase _.
     and_then (from_sdk (sdk_sign_soroban_authorization_xdr_with_passcode B (value_text B envelope) passcode expected
         authorization_entry_xdr network_passphrase)) (\<lambda>signed.
       Inr (JObject [(''authorization_entry_xdr'', process_encode B signed)])))))))"

definition process_reveal :: "sdk_libs \<Rightarrow> fields \<Rightarrow> bridge_error + json" where
  "process_reveal B =
     take_then (process_take_value ''envelope'') (\<lambda>envelope.
     take_then (process_take_string ''passcode'') (\<lambda>passcode.
     take_then (process_take_string ''expected_signer_public_key'') (\<lambda>expected _.
     and_then (from_sdk (sdk_reveal B (value_text B envelope) passcode expected)) (\<lambda>material.
       Inr (case sem_kind material of
          SdkSecret \<Rightarrow> JObject [(''kind'', JString ''secret''), (''secret'', json_option JString (sem_secret material))]
        | SdkMnemonic \<Rightarrow> JObject [(''kind'', JString ''mnemonic''), (''mnemonic'', json_option JString (sem_mnemonic material)),
            (''mnemonic_passphrase'', json_option JString (sem_mnemonic_passphrase material)),
            (''index'', json_option (\<lambda>i. JNumber (PosInt i)) (sem_index material)),
            (''language'', json_option JString (sem_language material))])))))"

definition process_prepare_ed25519_signing :: "sdk_libs \<Rightarrow> fields \<Rightarrow> bridge_error + json" where
  "process_prepare_ed25519_signing B =
     take_then (take_base64 B ''transaction_xdr'') (\<lambda>transaction_xdr.
     take_then (process_take_string ''network_passphrase'') (\<lambda>network_passphrase _.
     and_then (from_sdk (sdk_prepare_ed25519_signing B transaction_xdr network_passphrase)) (\<lambda>prepared.
       Inr (JObject [(''transaction_hash'', process_encode B (tsr_hash prepared)),
         (''transaction_xdr'', process_encode B (tsr_xdr prepared)),
         (''network_passphrase'', JString (tsr_network_passphrase prepared))]))))"

definition process_apply_ed25519_signature :: "sdk_libs \<Rightarrow> fields \<Rightarrow> bridge_error + json" where
  "process_apply_ed25519_signature B =
     take_then (take_base64 B ''transaction_xdr'') (\<lambda>transaction_xdr.
     take_then (process_take_string ''network_passphrase'') (\<lambda>network_passphrase.
     take_then (process_take_string ''signer_public_key'') (\<lambda>signer_public_key.
     take_then (take_base64 B ''signature'') (\<lambda>signature _.
     and_then (from_sdk (sdk_apply_ed25519_signature B transaction_xdr network_passphrase signer_public_key signature)) (\<lambda>signed.
       Inr (JObject [(''transaction_xdr'', process_encode B signed)]))))))"

definition process_prepare_soroban_authorization_signing :: "sdk_libs \<Rightarrow> fields \<Rightarrow> bridge_error + json" where
  "process_prepare_soroban_authorization_signing B =
     take_then (take_base64 B ''authorization_entry_xdr'') (\<lambda>authorization_entry_xdr.
     take_then (process_take_string ''network_passphrase'') (\<lambda>network_passphrase _.
     and_then (from_sdk (sdk_prepare_soroban_authorization_signing B authorization_entry_xdr network_passphrase)) (\<lambda>prepared.
       Inr (JObject [(''authorization_hash'', process_encode B (ssr_hash prepared)),
         (''authorization_entry_xdr'', process_encode B (ssr_entry_xdr prepared)),
         (''authorization_preimage_xdr'', process_encode B (ssr_preimage_xdr prepared)),
         (''network_passphrase'', JString (ssr_network_passphrase prepared))]))))"

definition process_apply_soroban_ed25519_signature :: "sdk_libs \<Rightarrow> fields \<Rightarrow> bridge_error + json" where
  "process_apply_soroban_ed25519_signature B =
     take_then (take_base64 B ''authorization_entry_xdr'') (\<lambda>authorization_entry_xdr.
     take_then (process_take_string ''network_passphrase'') (\<lambda>network_passphrase.
     take_then (process_take_string ''signer_public_key'') (\<lambda>signer_public_key.
     take_then (take_base64 B ''signature'') (\<lambda>signature _.
     and_then (from_sdk (sdk_apply_soroban_ed25519_signature B authorization_entry_xdr network_passphrase signer_public_key
         signature)) (\<lambda>signed.
       Inr (JObject [(''authorization_entry_xdr'', process_encode B signed)]))))))"

section \<open>Requests and responses\<close>

definition process_operation :: "sdk_libs \<Rightarrow> string \<Rightarrow> fields \<Rightarrow> bridge_error + json" where
  "process_operation B operation m =
     (if operation = ''version'' then Inr process_version
      else if operation = ''parse-account'' then process_parse_account B m
      else if operation = ''protect-secret'' then process_protect_secret B m
      else if operation = ''protect-mnemonic'' then process_protect_mnemonic B m
      else if operation = ''generate-mnemonic'' then process_generate_mnemonic B m
      else if operation = ''derive-mnemonic-signer'' then process_derive_mnemonic_signer B m
      else if operation = ''reprotect'' then process_reprotect B m
      else if operation = ''derive-unlock-key'' then process_derive_unlock_key B m
      else if operation = ''validate-unlock-key'' then process_validate_unlock_key B m
      else if operation = ''sign-transaction'' then process_sign_transaction B m
      else if operation = ''sign-transaction-with-passcode'' then process_sign_transaction_with_passcode B m
      else if operation = ''sign-soroban-authorization'' then process_sign_soroban_authorization B m
      else if operation = ''sign-soroban-authorization-with-passcode'' then process_sign_soroban_authorization_with_passcode B m
      else if operation = ''reveal'' then process_reveal B m
      else if operation = ''prepare-ed25519-signing'' then process_prepare_ed25519_signing B m
      else if operation = ''apply-ed25519-signature'' then process_apply_ed25519_signature B m
      else if operation = ''prepare-soroban-authorization-signing'' then process_prepare_soroban_authorization_signing B m
      else if operation = ''apply-soroban-ed25519-signature'' then process_apply_soroban_ed25519_signature B m
      else Inl (InvalidRequest ''unsupported operation''))"

definition process_request :: "sdk_libs \<Rightarrow> fields \<Rightarrow> bridge_error + json" where
  "process_request B = take_then (process_take_string ''operation'') (process_operation B)"

text \<open>What is read from standard input: \<open>None\<close> when reading fails or the bytes are not UTF-8.\<close>

definition process_run :: "sdk_libs \<Rightarrow> string option \<Rightarrow> bridge_error + json" where
  "process_run B input =
     and_then (ok_or (InvalidRequest ''unable to read request'') input) (\<lambda>input.
     and_then (map_err (\<lambda>_. InvalidRequest ''request must be valid JSON'') (lib_json_from_string B input)) (\<lambda>request.
     and_then (ok_or (InvalidRequest ''request must be a JSON object'') (as_object request)) (process_request B)))"

text \<open>The response and the exit code; \<open>written\<close> tells whether standard output took the response.\<close>

definition write_response :: "bool \<Rightarrow> json \<Rightarrow> nat \<Rightarrow> json option \<times> nat" where
  "write_response written response exit_code = (if written then (Some response, exit_code) else (None, 3))"

definition process_main :: "sdk_libs \<Rightarrow> bool \<Rightarrow> string option \<Rightarrow> json option \<times> nat" where
  "process_main B written input =
     (case process_run B input of
        Inr result \<Rightarrow> write_response written
          (JObject [(''ok'', JBool True), (''protocol_version'', JNumber (PosInt process_binding_api_version)),
            (''result'', result)]) 0
      | Inl error \<Rightarrow> write_response written
          (JObject [(''ok'', JBool False), (''protocol_version'', JNumber (PosInt process_binding_api_version)),
            (''error'', JObject [(''code'', JString (bridge_code error)), (''message'', JString (bridge_message error))])]) 2)"


section \<open>Requests one after another\<close>

definition request :: "string \<Rightarrow> fields \<Rightarrow> fields" where
  "request operation arguments = (''operation'', JString operation) # arguments"

lemma take_then_Inr [simp]: "t m = Inr (x, m') \<Longrightarrow> take_then t f m = f x m'"
  by (simp add: take_then_def)

lemma process_request_operation:
  "''operation'' \<notin> fst ` set arguments \<Longrightarrow> process_request B (request operation arguments) = process_operation B operation arguments"
proof -
  assume "''operation'' \<notin> fst ` set arguments"
  then have "filter (\<lambda>(k, _). k \<noteq> ''operation'') arguments = arguments" by (intro filter_True) force
  then show ?thesis
    by (simp add: process_request_def request_def take_then_def process_take_string_def object_remove_def)
qed

text \<open>Each argument that is there is taken.\<close>

lemma take_present [simp]:
  "map_of m k = Some v \<Longrightarrow> process_take_value k m = Inr (v, snd (object_remove m k))"
  "map_of m k = Some (JString s) \<Longrightarrow> process_take_string k m = Inr (s, snd (object_remove m k))"
  "map_of m k = Some (JString s) \<Longrightarrow> take_base64 B k m =
     map_ok (\<lambda>b. (b, snd (object_remove m k))) (process_decode_base64 B s k)"
  "map_of m k = None \<Longrightarrow> process_take_optional_string k m = Inr (None, snd (object_remove m k))"
  by (simp_all add: process_take_value_def process_take_string_def take_base64_def process_take_optional_string_def object_remove_def)

lemma decode_encoded:
  assumes "payload_codec (lib_crypto B)" "process_encode B b = JString s"
  shows "cl_base64_decode (lib_crypto B) s = Some b"
  using assms by (auto simp: process_encode_def crypto_laws)

text \<open>What \<open>serde_json\<close> writes for a value, it reads as that value.\<close>

definition json_text_codec :: "sdk_libs \<Rightarrow> bool" where
  "json_text_codec B \<longleftrightarrow> (\<forall>v s. lib_json_to_string B v = Inr s \<longrightarrow> lib_json_from_string B s = Inr v)"

lemma protected_json_envelope:
  assumes "json_text_codec B" "sdk_protected_signer B p = Inr q"
  shows "protected_json B q = Inr (JObject [(''signer_public_key'', JString (cps_signer_public_key p)), (''envelope'', cps_envelope p)])"
    "sdk_parse_envelope B (value_text B (cps_envelope p)) = Inr (cps_envelope p)"
  using assms
  by (auto simp: json_text_codec_def sdk_protected_signer_def protected_json_def parse_envelope_json_def sdk_parse_envelope_def
      value_text_def and_then_Inr)

section \<open>Properties\<close>

text \<open>C32. Across the process boundary, too, signing with a passcode is signing with the unlock key that the passcode
  derives. If a request for the unlock key is answered with a text, then a signing request that carries
  this text has the response, result or error, of the request that carries the passcode instead: for
  transactions and for Soroban authorization entries.\<close>

theorem process_passcode_signing_is_key_signing:
  assumes "kdf_sized (lib_crypto B)" "payload_codec (lib_crypto B)"
    and "process_request B (request ''derive-unlock-key'' [(''envelope'', v), (''passcode'', JString pw),
        (''expected_signer_public_key'', JString k)]) = Inr (JObject [(''unlock_key'', JString u)])"
  shows "process_request B (request ''sign-transaction'' [(''envelope'', v), (''unlock_key'', JString u),
        (''expected_signer_public_key'', JString k), (''transaction_xdr'', JString x), (''network_passphrase'', JString np)]) =
      process_request B (request ''sign-transaction-with-passcode'' [(''envelope'', v), (''passcode'', JString pw),
        (''expected_signer_public_key'', JString k), (''transaction_xdr'', JString x), (''network_passphrase'', JString np)]) \<and>
    process_request B (request ''sign-soroban-authorization'' [(''envelope'', v), (''unlock_key'', JString u),
        (''expected_signer_public_key'', JString k), (''authorization_entry_xdr'', JString x), (''network_passphrase'', JString np)]) =
      process_request B (request ''sign-soroban-authorization-with-passcode'' [(''envelope'', v), (''passcode'', JString pw),
        (''expected_signer_public_key'', JString k), (''authorization_entry_xdr'', JString x), (''network_passphrase'', JString np)])"
proof -
  from assms(3) obtain key where key: "sdk_derive_unlock_key B (value_text B v) pw k = Inr key" "process_encode B key = JString u"
    by (auto simp: process_request_operation process_operation_def process_derive_unlock_key_def from_sdk_def and_then_Inr)
  note decoded = decode_encoded [OF assms(2) key(2)]
  note same = passcode_signing_is_key_signing [OF assms(1), of "value_text B v" pw k]
  show ?thesis
    by (cases "cl_base64_decode (lib_crypto B) x")
      (simp_all add: process_request_operation process_operation_def process_sign_transaction_def decoded key(1) same
        process_sign_transaction_with_passcode_def process_sign_soroban_authorization_def take_then_def
        process_sign_soroban_authorization_with_passcode_def process_decode_base64_def)
qed


text \<open>C31. What the process hands out, it takes back. The answer to a request that protects a secret has a public key
  and an envelope; with these two and the passcode, later requests derive an unlock key, accept that
  key as one of the envelope and of that identity, and reveal the secret that was protected, without
  the white space around it.\<close>

theorem process_protected_secret_unlocks:
  assumes "crypto_ok (lib_crypto B)" "kdf_sized (lib_crypto B)" "json_text_codec B"
    and "public_key_codec (lib_stellar B)" "public_key_text_plain (lib_stellar B)" "ed25519_correct (lib_stellar B)"
    and "process_request B (request ''protect-secret'' [(''secret'', JString secret), (''passcode'', JString pw)]) = Inr response"
  shows "\<exists>k v u. response = JObject [(''signer_public_key'', JString k), (''envelope'', v)] \<and>
    process_request B (request ''derive-unlock-key'' [(''envelope'', v), (''passcode'', JString pw),
      (''expected_signer_public_key'', JString k)]) = Inr (JObject [(''unlock_key'', JString u)]) \<and>
    process_request B (request ''validate-unlock-key'' [(''envelope'', v), (''unlock_key'', JString u),
      (''expected_signer_public_key'', JString k)]) = Inr (JObject []) \<and>
    process_request B (request ''reveal'' [(''envelope'', v), (''passcode'', JString pw),
      (''expected_signer_public_key'', JString k)]) = Inr (JObject [(''kind'', JString ''secret''), (''secret'', JString (trim secret))])"
proof -
  from assms(7) obtain p q where
    p: "client_protect_secret (lib_stellar B) (registry_new (lib_crypto B)) secret pw None = Inr p"
    and q: "sdk_protected_signer B p = Inr q" "protected_json B q = Inr response"
    by (auto simp: process_request_operation process_operation_def process_protect_secret_def object_remove_def from_sdk_def
        sdk_protect_secret_def and_then_Inr)
  note envelope = protected_json_envelope [OF assms(3) q(1)]
  from p obtain w where w: "protect_secret_signing_material (lib_stellar B) (registry_new (lib_crypto B)) secret pw = Inr w"
      "cps_signer_public_key p = pwm_public_key w" "cps_envelope p = pwm_envelope w"
    by (auto simp: client_protect_secret_def and_then_Inr)
  from protected_secret_usable [OF assms(1,4-6) w(1), of "lib_mnemonic B"] obtain key s where
    usable: "derive_verified_unlock_key (lib_stellar B) (lib_crypto B) (lib_mnemonic B) (pwm_envelope w) pw (pwm_public_key w) = Inr key"
      "unlock_software_signer (lib_stellar B) (lib_crypto B) (lib_mnemonic B) (pwm_envelope w) key (pwm_public_key w) = Inr s"
      "export_signing_material (lib_stellar B) (lib_mnemonic B) (registry_new (lib_crypto B)) (pwm_envelope w) pw (pwm_public_key w) =
         Inr (MaterialSecret (trim secret))" by blast
  then have client: "client_derive_unlock_key (lib_stellar B) (lib_crypto B) (lib_mnemonic B) (pwm_envelope w) pw (pwm_public_key w) = Inr key"
    by (simp add: client_derive_unlock_key_def)
  obtain u where u: "process_encode B key = JString u" by (simp add: process_encode_def)
  have parsed: "sdk_parse_envelope B (value_text B (pwm_envelope w)) = Inr (pwm_envelope w)"
    using envelope(2) w(3) by simp
  have sized: "sdk_unlock_key key = Inr key"
    using client_unlock_key_sized [OF assms(2) client] by (simp add: sdk_unlock_key_def)
  have decoded: "cl_base64_decode (lib_crypto B) u = Some key"
    using assms(1) u by (intro decode_encoded) (simp_all add: crypto_ok_def)
  have "response = JObject [(''signer_public_key'', JString (pwm_public_key w)), (''envelope'', pwm_envelope w)]"
    using q(2) envelope(1) w(2,3) by simp
  moreover have "sdk_derive_unlock_key B (value_text B (pwm_envelope w)) pw (pwm_public_key w) = Inr key"
    "sdk_validate_unlock_key B (value_text B (pwm_envelope w)) key (pwm_public_key w) = Inr ()"
    "sdk_reveal B (value_text B (pwm_envelope w)) pw (pwm_public_key w) = Inr \<lparr>sem_kind = SdkSecret, sem_secret = Some (trim secret),
       sem_mnemonic = None, sem_mnemonic_passphrase = None, sem_index = None, sem_language = None\<rparr>"
    by (simp_all add: sdk_derive_unlock_key_def sdk_validate_unlock_key_def sdk_reveal_def client_validate_unlock_key_def
        client_reveal_def parsed client sized usable)
  ultimately show ?thesis
    by (intro exI [of _ "pwm_public_key w"] exI [of _ "pwm_envelope w"] exI [of _ u])
      (simp add: process_request_operation process_operation_def process_derive_unlock_key_def process_validate_unlock_key_def
        process_reveal_def take_then_def process_decode_base64_def from_sdk_def u decoded)
qed

section \<open>Example\<close>

text \<open>A JSON text form that knows one envelope.\<close>

definition demo_process_sdk :: "json \<Rightarrow> sdk_libs" where
  "demo_process_sdk v =
     \<lparr>lib_stellar = demo_lib, lib_soroban = demo_soroban_lib, lib_crypto = demo_crypto, lib_mnemonic = demo_mnemonics,
      lib_json_to_string = (\<lambda>x. if x = v then Inr ''E'' else Inl ''unknown''),
      lib_json_from_string = (\<lambda>s. if s = ''E'' then Inr v else Inl ''unknown'')\<rparr>"

lemma demo_process_libs [simp]:
  "lib_stellar (demo_process_sdk v) = demo_lib" "lib_crypto (demo_process_sdk v) = demo_crypto"
  by (simp_all add: demo_process_sdk_def)

lemma demo_process_text: "json_text_codec (demo_process_sdk v)"
  by (simp add: json_text_codec_def demo_process_sdk_def)

lemma demo_process_protected:
  obtains v response where "process_request (demo_process_sdk v) (request ''protect-secret''
    [(''secret'', JString demo_secret), (''passcode'', JString ''pw'')]) = Inr response"
proof -
  obtain w where w: "protect_secret_signing_material demo_lib (registry_new demo_crypto) demo_secret ''pw'' = Inr w"
    using demo_protected [of "''pw''"] by blast
  let ?B = "demo_process_sdk (pwm_envelope w)"
  have "sdk_protect_secret ?B demo_secret ''pw'' None = Inr \<lparr>sps_signer_public_key = pwm_public_key w, sps_envelope_json = ''E''\<rparr>"
    by (simp add: sdk_protect_secret_def client_protect_secret_def w ensure_expected_signer_public_key_def sdk_protected_signer_def)
      (simp add: demo_process_sdk_def)
  then show ?thesis
    by (intro that [of "pwm_envelope w" "JObject [(''signer_public_key'', JString (pwm_public_key w)), (''envelope'', pwm_envelope w)]"])
      (simp add: process_request_operation process_operation_def process_protect_secret_def object_remove_def from_sdk_def
        protected_json_def parse_envelope_json_def, simp add: demo_process_sdk_def)
qed

theorem process_protected_secret_unlocks_witness:
  "\<exists>v k e u. process_request (demo_process_sdk v) (request ''derive-unlock-key'' [(''envelope'', e), (''passcode'', JString ''pw''),
      (''expected_signer_public_key'', JString k)]) = Inr (JObject [(''unlock_key'', JString u)])"
proof -
  obtain v response where r: "process_request (demo_process_sdk v) (request ''protect-secret''
    [(''secret'', JString demo_secret), (''passcode'', JString ''pw'')]) = Inr response" by (rule demo_process_protected)
  from process_protected_secret_unlocks [OF _ _ demo_process_text _ _ _ r] demo_crypto_ok demo_kdf_sized
    demo_public_key_codec demo_public_key_text_plain demo_ed25519_correct
  show ?thesis by auto
qed

theorem process_passcode_signing_is_key_signing_witness:
  "\<exists>B v u k. process_request B (request ''sign-transaction'' [(''envelope'', v), (''unlock_key'', JString u),
        (''expected_signer_public_key'', JString k), (''transaction_xdr'', JString []), (''network_passphrase'', JString [])]) =
      process_request B (request ''sign-transaction-with-passcode'' [(''envelope'', v), (''passcode'', JString ''pw''),
        (''expected_signer_public_key'', JString k), (''transaction_xdr'', JString []), (''network_passphrase'', JString [])])"
proof -
  obtain w where w: "protect_secret_signing_material demo_lib (registry_new demo_crypto) demo_secret ''pw'' = Inr w"
    using demo_protected [of "''pw''"] by blast
  let ?B = "demo_process_sdk (pwm_envelope w)" and ?k = "pwm_public_key w"
  from protected_secret_usable [OF demo_crypto_ok demo_public_key_codec demo_public_key_text_plain demo_ed25519_correct w,
      of demo_mnemonics] obtain key where
    "derive_verified_unlock_key demo_lib demo_crypto demo_mnemonics (pwm_envelope w) ''pw'' ?k = Inr key" by blast
  then have "sdk_derive_unlock_key ?B (value_text ?B (pwm_envelope w)) ''pw'' ?k = Inr key"
    by (simp add: sdk_derive_unlock_key_def sdk_parse_envelope_def value_text_def client_derive_unlock_key_def)
      (simp add: demo_process_sdk_def)
  moreover obtain u where "process_encode ?B key = JString u" by (simp add: process_encode_def)
  ultimately have derived: "process_request ?B (request ''derive-unlock-key'' [(''envelope'', pwm_envelope w),
      (''passcode'', JString ''pw''), (''expected_signer_public_key'', JString ?k)]) = Inr (JObject [(''unlock_key'', JString u)])"
    by (simp add: process_request_operation process_operation_def process_derive_unlock_key_def take_then_def from_sdk_def)
  have "payload_codec (lib_crypto ?B)" "kdf_sized (lib_crypto ?B)"
    using demo_crypto_ok demo_kdf_sized by (simp_all add: crypto_ok_def)
  from process_passcode_signing_is_key_signing [OF this(2,1) derived] show ?thesis by blast
qed

end
