(* ===== verification/Submission.thy ===== *)
theory Submission
  imports Coordinated Client
begin

text \<open>
  Submission: what the three writing paths (payment.rs, trustline.rs, dex.rs) do with a prepared
  transaction. Coordination.thy and Client.thy hold the definitions; this theory joins what was proved
  of signing, of the ledger plan and of the pending store.
\<close>

lemma coordinated_success:
  assumes "signing_laws (lib_stellar B)" "list_all (external_ok (lib_stellar B)) xs" "finite (lap_extra_signers p)"
    and "sign_with_ed25519_providers B env disk p network passcode sas xs e = (Inr (), e')"
  shows "\<exists>np keys ds S. network_passphrase network = Inr np \<and>
    e' = with_signatures e (env_signatures e @ ds) \<and> distinct keys \<and> key_conditions keys \<subseteq> signer_conditions p \<and>
    list_all2 (decorated_by (lib_stellar B) np e) keys ds \<and>
    satisfied_transaction_conditions (lib_stellar B) p e' np = Inr S \<and> plan_satisfiable_by p S"
proof -
  from assms(4) obtain np S0 where np: "network_passphrase network = Inr np"
      "satisfied_transaction_conditions (lib_stellar B) p e np = Inr S0"
    and step: "sign_needed_with_ed25519_providers B env disk p S0 {} 0 network passcode sas xs e = (Inr (), e')"
    and checked: "ensure_coordinated (lib_stellar B) p np e' = Inr ()"
    by (auto simp: sign_with_ed25519_providers_def and_then_Inr split: sum.splits prod.splits
        elim!: and_then.elims)
  from needed_signed [OF assms(1-3) step] np(1) obtain keys ds where
    "e' = with_signatures e (env_signatures e @ ds)" "distinct keys" "key_conditions keys \<subseteq> signer_conditions p - S0"
    "list_all2 (decorated_by (lib_stellar B) np e) keys ds" by blast
  with np(1) checked show ?thesis by (auto simp: ensure_coordinated_def and_then_Inr result_simps)
qed

lemma load_plan_finite: "load_plan_with L e fetch = Inr p \<Longrightarrow> finite (lap_extra_signers p)"
  by (auto simp: load_plan_with_def plan_classic_ledger_authorization_def and_then_Inr dest: extra_signer_conditions_finite)

lemma submit_signed_Inr:
  assumes "submit_signed_transaction L env submit now account network e disk = (Inr s, disk')"
  shows "\<exists>np h xdr response. ensure_transaction_not_expired now e = Inr () \<and> network_passphrase network = Inr np \<and>
    transaction_hash L e np = Inr h \<and> transaction_xdr_bytes L e = Inr xdr \<and>
    submit (base64_encode L xdr) = Inr response \<and>
    ts_hash s = (case get_str response ''hash'' of Some x \<Rightarrow> x | None \<Rightarrow> hex h) \<and> disk' = disk"
  using assms
  by (auto simp: submit_signed_transaction_def and_then_Inr result_simps split: sum.splits prod.splits submission_error.splits
      elim!: and_then.elims)

lemma sign_and_submit_by_Inr:
  assumes "sign_and_submit_by sign L penv fetch submit now now' r network e pd = (Inr s, e', pd')"
  shows "\<exists>p. load_plan_with L e fetch = Inr p \<and> sign p e = (Inr (), e') \<and>
    submit_signed_transaction L penv submit now' (wr_address r) network e' pd = (Inr s, pd')"
proof (cases "and_then (ensure_transaction_not_expired now e) (\<lambda>_. load_plan_with L e fetch)")
  case (Inr p)
  then have plan: "load_plan_with L e fetch = Inr p" by (auto simp: and_then_Inr)
  obtain u e1 where step: "sign p e = (u, e1)" by fastforce
  with assms Inr obtain x where "u = Inr x" by (cases u) (auto simp: sign_and_submit_by_def)
  with step assms Inr plan show ?thesis by (auto simp: sign_and_submit_by_def split: prod.splits)
qed (use assms in \<open>simp add: sign_and_submit_by_def\<close>)

section \<open>Properties\<close>

text \<open>C3. What is submitted is the transaction that was prepared: when a submission succeeds, Horizon
  got the encoding of the prepared transaction with nothing but signatures added, one valid signature
  per asked signer of the ledger plan of that transaction; the signatures satisfy the plan, the
  transaction had not expired, the hash reported is that of the prepared transaction (or the one
  Horizon answered with), and nothing on disk changed.\<close>

theorem submission_is_prepared_transaction:
  assumes "signing_laws (fc_stellar C)" "list_all (external_ok (fc_stellar C)) xs"
    and "client_submit_with_providers C now now' r (EnvTx t []) passcode sas xs disk = (Inr s, disk')"
  shows "\<exists>np p keys ds xdr h response S. network_passphrase (fc_network C) = Inr np \<and>
    load_plan_with (fc_stellar C) (EnvTx t []) (get_account (fc_gateway C)) = Inr p \<and>
    distinct keys \<and> key_conditions keys \<subseteq> signer_conditions p \<and>
    list_all2 (decorated_by (fc_stellar C) np (EnvTx t [])) keys ds \<and>
    satisfied_transaction_conditions (fc_stellar C) p (EnvTx t ds) np = Inr S \<and> plan_satisfiable_by p S \<and>
    transaction_xdr_bytes (fc_stellar C) (EnvTx t ds) = Inr xdr \<and>
    submit_transaction (fc_gateway C) (base64_encode (fc_stellar C) xdr) = Inr response \<and>
    ensure_transaction_not_expired now' (EnvTx t ds) = Inr () \<and>
    transaction_hash (fc_stellar C) (EnvTx t []) np = Inr h \<and>
    ts_hash s = (case get_str response ''hash'' of Some x \<Rightarrow> x | None \<Rightarrow> hex h) \<and> disk' = disk"
proof -
  note L = fc_stellar_def
  from assms(3) obtain p e' pd where
    plan: "load_plan_with (fc_stellar C) (EnvTx t []) (get_account (fc_gateway C)) = Inr p"
    and sign: "sign_with_ed25519_providers (fc_libs C) (fc_storage C) (kd_wallets disk) p (fc_network C) passcode sas xs
      (EnvTx t []) = (Inr (), e')"
    and submit: "submit_signed_transaction (fc_stellar C) (fc_pending C) (submit_transaction (fc_gateway C)) now'
      (wr_address r) (fc_network C) e' (kd_pending disk) = (Inr s, pd)"
    and disk': "disk' = disk\<lparr>kd_pending := pd\<rparr>"
    by (auto simp: client_submit_with_providers_def sign_and_submit_with_providers_def L split: prod.splits
        dest!: sign_and_submit_by_Inr)
  from coordinated_success [OF assms(1,2) [unfolded L] load_plan_finite [OF plan] sign] obtain np keys ds S where
    k: "network_passphrase (fc_network C) = Inr np" "e' = EnvTx t ds" "distinct keys"
      "key_conditions keys \<subseteq> signer_conditions p" "list_all2 (decorated_by (fc_stellar C) np (EnvTx t [])) keys ds"
      "satisfied_transaction_conditions (fc_stellar C) p (EnvTx t ds) np = Inr S" "plan_satisfiable_by p S"
    unfolding L by auto
  from submit_signed_Inr [OF submit] k(1,2) obtain h xdr response where
    u: "ensure_transaction_not_expired now' (EnvTx t ds) = Inr ()" "transaction_hash (fc_stellar C) (EnvTx t ds) np = Inr h"
      "transaction_xdr_bytes (fc_stellar C) (EnvTx t ds) = Inr xdr"
      "submit_transaction (fc_gateway C) (base64_encode (fc_stellar C) xdr) = Inr response"
      "ts_hash s = (case get_str response ''hash'' of Some x \<Rightarrow> x | None \<Rightarrow> hex h)" "pd = kd_pending disk"
    by auto
  have "hash_excludes_signatures (fc_stellar C)" using assms(1) by (simp add: signing_laws_def)
  from transaction_hash_with_signatures [OF this, of "EnvTx t ds" "[]" np] u(2)
  have "transaction_hash (fc_stellar C) (EnvTx t []) np = Inr h" by simp
  moreover have "disk' = disk" using disk' u(6) by simp
  ultimately show ?thesis
    using plan k u by (intro exI [of _ np] exI [of _ p] exI [of _ keys] exI [of _ ds] exI [of _ xdr] exI [of _ h]
      exI [of _ response] exI [of _ S] conjI)
qed

section \<open>Example\<close>

text \<open>An account with one signer, an external provider for it, and a Horizon that accepts what is posted.\<close>

definition demo_signed_account :: json where
  "demo_signed_account = JObject
     [(''account_id'', JString (demo_key_text demo_key)),
      (''thresholds'', JObject [(''low_threshold'', JNumber (PosInt 0)), (''med_threshold'', JNumber (PosInt 2)),
         (''high_threshold'', JNumber (PosInt 3))]),
      (''signers'', JArray [JObject [(''key'', JString (demo_key_text demo_key)),
         (''type'', JString ''ed25519_public_key''), (''weight'', JNumber (PosInt 1))]])]"

definition demo_submitting :: "unit fresnica_client" where
  "demo_submitting = demo_client\<lparr>fc_libs := demo_sdk, fc_gateway :=
     \<lparr>hz_base_url = [],
      hz_get = (\<lambda>url. if url = ''/accounts/'' @ demo_key_text demo_key then GetBody (Inr demo_signed_account) else GetStatus 404),
      hz_post = (\<lambda>url body. Inr \<lparr>po_status = 200, po_body = Inr []\<rparr>), hz_parse = (\<lambda>_. Inr (JObject []))\<rparr>\<rparr>"

definition demo_empty_disk :: client_disk where
  "demo_empty_disk = demo_client_disk\<lparr>kd_wallets := empty_wallet_disk\<rparr>"

lemma demo_submitting_simps:
  "fc_libs demo_submitting = demo_sdk" "fc_stellar demo_submitting = demo_xdr_lib"
  "fc_network demo_submitting = ''testnet''" "fc_storage demo_submitting = demo_wallet_env"
  "get_account (fc_gateway demo_submitting) (demo_key_text demo_key) = Inr demo_signed_account"
  by (simp_all add: demo_submitting_def demo_client_def fc_stellar_def fc_network_def)
    (simp add: get_account_def get_json_def read_json_def)

lemma demo_submitting_plan:
  "load_plan_with demo_xdr_lib demo_env (get_account (fc_gateway demo_submitting)) = Inr demo_plan"
proof -
  have a: "authorization_from_horizon demo_xdr_lib demo_signed_account = Inr demo_account"
    using demo_key_simps demo_signer_key
    by (simp add: authorization_from_horizon_def demo_signed_account_def json_string_def json_u8_def get_str_def
      get_array_def account_id_from_string_def u64_max_def horizon_signer_def horizon_signer_kind_def
      demo_xdr_lib_fields demo_account_def)
  have plan: "plan_classic_ledger_authorization demo_xdr_lib demo_env [demo_account] = Inr demo_plan"
    by (simp add: plan_classic_ledger_authorization_def classic_authorization_uses_def demo_env_def demo_tx_def
      extra_signer_conditions_def demo_account_def demo_plan_def add_requirement_def Let_def demo_xdr_lib_fields)
  have demo_account_id: "laa_account_id demo_account = demo_key_text demo_key" by (simp add: demo_account_def)
  have uses: "\<exists>us. classic_authorization_uses demo_xdr_lib demo_env = Inr us \<and> set (map rau_account_id us) = {demo_key_text demo_key}"
    by (simp add: classic_authorization_uses_def demo_env_def demo_tx_def demo_xdr_lib_fields Let_def)
  then show ?thesis
    by (auto simp: load_plan_with_def demo_submitting_simps a plan demo_account_id)
qed

lemma demo_submitted:
  "\<exists>s. client_submit_with_providers demo_submitting 0 0 (demo_wallet ''a'') demo_env None [] [demo_external]
     demo_empty_disk = (Inr s, demo_empty_disk)"
proof -
  note sign = demo_coordinated_ok
  have fresh: "ensure_transaction_not_expired 0 demo_env = Inr ()" "ensure_transaction_not_expired 0 (demo_xdr_decode [7]) = Inr ()"
    by (simp_all add: ensure_transaction_not_expired_def ensure_not_expired_at_def demo_env_def demo_tx_def demo_xdr_decode_def)
  have hash: "transaction_hash demo_xdr_lib (demo_xdr_decode [7]) testnet_passphrase = Inr (demo_pad 32 [1])"
    by (simp add: transaction_hash_def demo_xdr_lib_fields demo_hash_def demo_xdr_decode_def demo_tx_def)
  have post: "submit_transaction (fc_gateway demo_submitting) body = Inr (JObject [])" for body
    by (simp add: submit_transaction_def demo_submitting_def)
  have disk: "kd_wallets demo_empty_disk = empty_wallet_disk" by (simp add: demo_empty_disk_def)
  have xdr: "transaction_xdr_bytes demo_xdr_lib (demo_xdr_decode [7]) = Inr [7]"
    by (simp add: transaction_xdr_bytes_def demo_codec)
  show ?thesis
    by (simp add: client_submit_with_providers_def sign_and_submit_with_providers_def sign_and_submit_by_def
      demo_submitting_simps disk fresh demo_submitting_plan sign submit_signed_transaction_def demo_testnet hash xdr post)
qed

theorem submission_is_prepared_transaction_witness:
  "\<exists>s ds xdr response. submit_transaction (fc_gateway demo_submitting) (base64_encode demo_xdr_lib xdr) = Inr response \<and>
     transaction_xdr_bytes demo_xdr_lib (EnvTx (demo_tx [BumpSequenceOp 2]) ds) = Inr xdr \<and>
     client_submit_with_providers demo_submitting 0 0 (demo_wallet ''a'') demo_env None [] [demo_external]
       demo_empty_disk = (Inr s, demo_empty_disk)"
proof -
  obtain s where s: "client_submit_with_providers demo_submitting 0 0 (demo_wallet ''a'') (EnvTx (demo_tx [BumpSequenceOp 2]) [])
      None [] [demo_external] demo_empty_disk = (Inr s, demo_empty_disk)"
    using demo_submitted by (auto simp: demo_env_def)
  from submission_is_prepared_transaction [where C = demo_submitting, unfolded demo_submitting_simps(2),
      OF demo_xdr_laws demo_external_ok s] s show ?thesis unfolding demo_env_def by blast
qed

end
