(* ===== verification/Token.thy ===== *)
theory Token
  imports Contract Client Detached Asset
begin

text \<open>
  The contract operations of the client (service.rs), and token.rs: tokens by contract or by asset, token
  amounts, balances and transfers over the contract calls.
\<close>

section \<open>Contract operations of the client (service.rs)\<close>

text \<open>The RPC endpoint of the client, with the reading of contracts. An operation that makes several contract
  calls, one after the other, sees the endpoint as it is at each of them.\<close>

record contract_host =
  ch_gateway :: "nat \<Rightarrow> rpc_gateway"
  ch_contracts :: "nat \<Rightarrow> contract_client"

definition client_contract_interface ::
  "spec_lib \<Rightarrow> contract_host fresnica_client \<Rightarrow> string \<Rightarrow> contract_interface result" where
  "client_contract_interface P C contract_id =
     and_then (fc_rpc_gateway C) (\<lambda>h. contract_interface_at (fc_libs C) P (ch_contracts h 0) contract_id)"

definition client_prepare_detached_token_transfer_authorization ::
  "'rpc fresnica_client \<Rightarrow> client_disk \<Rightarrow> detached_transfer_request \<Rightarrow> prepared_detached result" where
  "client_prepare_detached_token_transfer_authorization C disk request =
     prepare_detached_token_transfer_authorization (fc_libs C) (fc_storage C) (kd_wallets disk) (fc_network C) request"

definition client_sign_detached_token_transfer_authorization ::
  "'rpc fresnica_client \<Rightarrow> client_disk \<Rightarrow> prepared_detached \<Rightarrow> string \<Rightarrow> bytes result" where
  "client_sign_detached_token_transfer_authorization C disk p passcode =
     sign_detached_token_transfer_authorization (fc_libs C) (fc_storage C) (kd_wallets disk) passcode p"

definition client_sign_detached_token_transfer_authorization_with_system_auth ::
  "'rpc fresnica_client \<Rightarrow> client_disk \<Rightarrow> prepared_detached \<Rightarrow> string option \<Rightarrow> system_auth_provider list \<Rightarrow> bytes result" where
  "client_sign_detached_token_transfer_authorization_with_system_auth C disk p passcode sas =
     sign_detached_token_transfer_authorization_with_system_auth (fc_libs C) (fc_storage C) (kd_wallets disk) passcode sas p"

text \<open>A call of the contract modules on the client's endpoint at call \<open>n\<close>, libraries, storage and pending
  transactions.\<close>

definition with_contract_rpc ::
  "contract_host fresnica_client \<Rightarrow> nat \<Rightarrow> client_disk
     \<Rightarrow> (contract_client \<Rightarrow> rpc_gateway \<Rightarrow> pending_disk \<Rightarrow> 'a result \<times> pending_disk) \<Rightarrow> 'a result \<times> client_disk" where
  "with_contract_rpc C n disk f =
     (case fc_rpc_gateway C of
        Inl error \<Rightarrow> (Inl error, disk)
      | Inr h \<Rightarrow> (case f (ch_contracts h n) (ch_gateway h n) (kd_pending disk) of (r, pd) \<Rightarrow> (r, disk\<lparr>kd_pending := pd\<rparr>)))"

definition client_prepare_contract_invoke ::
  "spec_lib \<Rightarrow> contract_host fresnica_client \<Rightarrow> nat \<Rightarrow> int \<Rightarrow> contract_invoke_request \<Rightarrow> client_disk
     \<Rightarrow> prepared_contract_invoke result \<times> client_disk" where
  "client_prepare_contract_invoke P C n now R disk =
     with_contract_rpc C n disk (\<lambda>X G pd.
       prepare_contract_invoke (fc_libs C) P X (fc_storage C) (kd_wallets disk) (fc_pending C) G now R pd)"

definition client_prepare_contract_invoke_outcome ::
  "spec_lib \<Rightarrow> contract_host fresnica_client \<Rightarrow> nat \<Rightarrow> int \<Rightarrow> contract_invoke_request \<Rightarrow> client_disk
     \<Rightarrow> contract_invoke_preparation result \<times> client_disk" where
  "client_prepare_contract_invoke_outcome P C n now R disk =
     with_contract_rpc C n disk (\<lambda>X G pd.
       prepare_contract_invoke_outcome (fc_libs C) P X (fc_storage C) (kd_wallets disk) (fc_pending C) G now R pd)"

definition client_simulate_contract_invoke ::
  "spec_lib \<Rightarrow> contract_host fresnica_client \<Rightarrow> int \<Rightarrow> contract_invoke_request \<Rightarrow> contract_simulation_result result" where
  "client_simulate_contract_invoke P C now R =
     and_then (fc_rpc_gateway C) (\<lambda>h.
       simulate_contract_invoke (fc_libs C) P (ch_contracts h 0) (ch_gateway h 0) now R)"

definition client_authorize_contract_invoke ::
  "'rpc fresnica_client \<Rightarrow> client_disk \<Rightarrow> string \<Rightarrow> prepared_contract_invoke \<Rightarrow> unit result \<times> prepared_contract_invoke" where
  "client_authorize_contract_invoke C disk passcode p =
     authorize_contract_invoke (fc_libs C) (fc_storage C) (kd_wallets disk) passcode p"

definition client_authorize_contract_invoke_with_system_auth ::
  "'rpc fresnica_client \<Rightarrow> client_disk \<Rightarrow> string option \<Rightarrow> system_auth_provider list \<Rightarrow> prepared_contract_invoke
     \<Rightarrow> unit result \<times> prepared_contract_invoke" where
  "client_authorize_contract_invoke_with_system_auth C disk passcode sas p =
     authorize_contract_invoke_with_system_auth (fc_libs C) (fc_storage C) (kd_wallets disk) passcode sas p"

definition client_sign_contract_invoke ::
  "'rpc fresnica_client \<Rightarrow> int \<Rightarrow> client_disk \<Rightarrow> string \<Rightarrow> prepared_contract_invoke \<Rightarrow> unit result \<times> prepared_contract_invoke" where
  "client_sign_contract_invoke C now disk passcode p =
     sign_contract_invoke (fc_libs C) (fc_storage C) (kd_wallets disk) (get_account (fc_gateway C)) now passcode p"

definition client_sign_contract_invoke_with_providers ::
  "'rpc fresnica_client \<Rightarrow> int \<Rightarrow> client_disk \<Rightarrow> string option \<Rightarrow> system_auth_provider list \<Rightarrow> external_provider list
     \<Rightarrow> prepared_contract_invoke \<Rightarrow> unit result \<times> prepared_contract_invoke" where
  "client_sign_contract_invoke_with_providers C now disk passcode sas xs p =
     sign_contract_invoke_with_providers (fc_libs C) (fc_storage C) (kd_wallets disk) (get_account (fc_gateway C)) now
       passcode sas xs p"

definition client_submit_contract_invoke ::
  "contract_host fresnica_client \<Rightarrow> prepared_contract_invoke \<Rightarrow> client_disk \<Rightarrow> transaction_submission result \<times> client_disk" where
  "client_submit_contract_invoke C p disk =
     with_contract_rpc C 0 disk (\<lambda>X G pd. submit_contract_invoke (fc_stellar C) (fc_pending C) G p pd)"

section \<open>Tokens\<close>

definition stellar_asset_token_decimals :: nat where "stellar_asset_token_decimals = 7"

datatype resolved_token_source = TokenStellarAsset string | TokenContract

record resolved_token =
  rt_contract_id :: string
  rt_source :: resolved_token_source

record token_amount =
  ta_raw :: int
  ta_decimals :: nat
  ta_amount :: "string option"

text \<open>XDR of the preimage of an asset contract's id: the network id and the asset.\<close>

record token_lib =
  contract_id_preimage_xdr :: "nat \<Rightarrow> bytes \<Rightarrow> asset \<Rightarrow> string + bytes"

definition contract_id_from_asset :: "sdk_libs \<Rightarrow> token_lib \<Rightarrow> asset \<Rightarrow> string \<Rightarrow> string result" where
  "contract_id_from_asset B T a passphrase =
     (let L = lib_stellar B in
      and_then (map_err (\<lambda>error. ''unable to encode Stellar Asset Contract id preimage: '' @ error)
          (contract_id_preimage_xdr T xdr_depth_limit (sha256 L (bytes_of passphrase)) a)) (\<lambda>xdr.
        Inr (contract_to_string (lib_soroban B) (sha256 L xdr))))"

definition resolve_token :: "sdk_libs \<Rightarrow> token_lib \<Rightarrow> string \<Rightarrow> string \<Rightarrow> resolved_token result" where
  "resolve_token B T reference network =
     (let reference = trim reference; L = lib_stellar B in
      if reference = [] then Inl ''token reference cannot be empty''
      else case contract_from_string (lib_soroban B) reference of
             Some contract \<Rightarrow> Inr \<lparr>rt_contract_id = contract_to_string (lib_soroban B) contract, rt_source = TokenContract\<rparr>
           | None \<Rightarrow>
               (let asset_text = (if eq_ignore_ascii_case reference ''native'' then ''XLM'' else reference) in
                and_then (map_err (\<lambda>error. ''token must be XLM, native, CODE:GISSUER, or a C... contract id: '' @ error)
                    (asset_parse L asset_text)) (\<lambda>a.
                and_then (network_passphrase network) (\<lambda>passphrase.
                and_then (contract_id_from_asset B T a passphrase) (\<lambda>contract_id.
                  Inr \<lparr>rt_contract_id = contract_id, rt_source = TokenStellarAsset (asset_display L a)\<rparr>)))))"

section \<open>Amounts\<close>

definition i128_max :: int where "i128_max = 170141183460469231731687303715884105727"
definition i128_min :: int where "i128_min = -170141183460469231731687303715884105728"

text \<open>\<open>str::parse::<i128>\<close>.\<close>

definition parse_i128 :: "string \<Rightarrow> int option" where
  "parse_i128 s =
     (let in_range = (\<lambda>i. if i128_min \<le> i \<and> i \<le> i128_max then Some i else None) in
      if s \<noteq> [] \<and> hd s = CHR ''-'' then Option.bind (parse_digits (tl s)) (\<lambda>n. in_range (- int n))
      else Option.bind (parse_digits (if s \<noteq> [] \<and> hd s = CHR ''+'' then tl s else s)) (\<lambda>n. in_range (int n)))"

definition token_amount_digits :: nat where "token_amount_digits = 39"

definition parse_token_amount :: "string \<Rightarrow> nat \<Rightarrow> int result" where
  "parse_token_amount text_value decimals =
     (let v = trim text_value; bad = Inl ''token transfer amount must be a positive decimal number'' in
      if v = [] \<or> hd v = CHR ''-'' \<or> hd v = CHR ''+'' then bad
      else
        (let parts = split_on (CHR ''.'') v; whole = hd parts;
             fraction = trim_end_matches (CHR ''0'') (case tl parts of [] \<Rightarrow> [] | f # _ \<Rightarrow> f) in
         if length parts > 2 \<or> whole = [] \<or> \<not> all_digits whole \<or> \<not> all_digits fraction then bad
         else if length fraction > decimals
         then Inl (''token transfer amount has more than '' @ nat_to_dec decimals @ '' decimal places'')
         else
           (let significant = dropWhile (\<lambda>c. c = CHR ''0'') (whole @ fraction);
                trailing_zeros = decimals - length fraction in
            if significant = [] then Inl ''token transfer amount must be greater than zero''
            else if length significant + trailing_zeros > token_amount_digits
            then Inl ''token transfer amount is outside the i128 range''
            else and_then (ok_or ''token transfer amount is outside the i128 range''
                   (parse_i128 (significant @ replicate trailing_zeros (CHR ''0'')))) (\<lambda>raw.
                 if raw \<le> 0 then Inl ''token transfer amount must be greater than zero'' else Inr raw))))"

definition format_fixed_point :: "int \<Rightarrow> nat \<Rightarrow> string option" where
  "format_fixed_point raw decimals =
     (if decimals > 38 then None
      else
        (let digits = nat_to_dec (nat \<bar>raw\<bar>); signed_text = (\<lambda>s. if raw < 0 then ''-'' @ s else s) in
         if decimals = 0 then Some (signed_text digits)
         else
           (let (whole, fraction) =
                  (if length digits \<le> decimals
                   then (''0'', replicate (decimals - length digits) (CHR ''0'') @ digits)
                   else (take (length digits - decimals) digits, drop (length digits - decimals) digits));
                fraction = trim_end_matches (CHR ''0'') fraction in
            Some (signed_text (if fraction = [] then whole else whole @ ''.'' @ fraction)))))"

definition parse_integer_text :: "spec_lib \<Rightarrow> json option \<Rightarrow> string \<Rightarrow> string result" where
  "parse_integer_text P v label =
     (case v of
        Some (JString s) \<Rightarrow> Inr s
      | Some (JNumber n) \<Rightarrow> Inr (number_to_string n)
      | Some other \<Rightarrow> Inl (''SEP-41 '' @ label @ '' returned a non-integer value: '' @
          (case spl_json_to_string P other of Inr s \<Rightarrow> s | Inl _ \<Rightarrow> []))
      | None \<Rightarrow> Inl (''SEP-41 '' @ label @ '' returned no value''))"

definition parse_i128_output :: "spec_lib \<Rightarrow> json option \<Rightarrow> string \<Rightarrow> int result" where
  "parse_i128_output P v label =
     and_then (parse_integer_text P v label) (\<lambda>s.
       ok_or (''SEP-41 '' @ label @ '' returned a value outside i128 range'') (parse_i128 s))"

definition parse_u32_output :: "spec_lib \<Rightarrow> json option \<Rightarrow> string \<Rightarrow> int result" where
  "parse_u32_output P v label =
     and_then (parse_integer_text P v label) (\<lambda>s.
       ok_or (''SEP-41 '' @ label @ '' returned a value outside u32 range'') (parse_u32 s))"

section \<open>Balances\<close>

definition ensure_current_sep41 :: "contract_capabilities \<Rightarrow> string \<Rightarrow> unit result" where
  "ensure_current_sep41 capabilities contract_id =
     (if s41_current_interface_compatible (cc_sep41 capabilities) then Inr ()
      else Inl (''contract '' @ contract_id @ '' is not compatible with the current SEP-41 interface''))"

definition executable_label :: "executable_observation \<Rightarrow> string" where
  "executable_label o1 =
     (case eo_wasm_hash o1 of
        Some h \<Rightarrow> executable_kind_str (eo_kind o1) @ '':'' @ h
      | None \<Rightarrow> executable_kind_str (eo_kind o1))"

definition ensure_same_executable :: "executable_observation \<Rightarrow> executable_observation \<Rightarrow> unit result" where
  "ensure_same_executable first second =
     (if first = second then Inr ()
      else Inl (''token contract executable changed during the operation from '' @ executable_label first @ '' to '' @
             executable_label second @ ''; retry after inspecting the contract''))"

definition read_only_token_call :: "string \<Rightarrow> contract_invoke_preparation \<Rightarrow> contract_read_result result" where
  "read_only_token_call function_name outcome =
     (case outcome of
        TransactionCall _ \<Rightarrow>
          Inl (''SEP-41 '' @ function_name @ '' unexpectedly requires a write transaction; refusing token read'')
      | ReadOnlyCall r \<Rightarrow>
          and_then (ensure_current_sep41 (crr_capabilities r) (crr_contract_id r)) (\<lambda>_. Inr r))"

definition token_read ::
  "spec_lib \<Rightarrow> contract_host fresnica_client \<Rightarrow> nat \<Rightarrow> int \<Rightarrow> contract_invoke_request \<Rightarrow> string \<Rightarrow> client_disk
     \<Rightarrow> contract_read_result result \<times> client_disk" where
  "token_read P C n now R function_name disk =
     (case client_prepare_contract_invoke_outcome P C n now R disk of
        (r, disk') \<Rightarrow> (and_then r (read_only_token_call function_name), disk'))"

definition decimals_request :: "resolved_token \<Rightarrow> contract_invoke_request" where
  "decimals_request token = contract_invoke_request_new_positional (rt_contract_id token) ''decimals'' []"

text \<open>\<open>value.trim().trim_matches('"').to_ascii_lowercase()\<close>, compared.\<close>

definition same_argument_value :: "string \<Rightarrow> string \<Rightarrow> bool" where
  "same_argument_value v candidate \<longleftrightarrow>
     map to_ascii_lower (trim_matches dquote (trim v)) = map to_ascii_lower (trim_matches dquote (trim candidate))"

record token_balance_request =
  tbq_token :: resolved_token
  tbq_owner :: string
  tbq_address_names :: contract_address_names

definition token_balance_request_new :: "resolved_token \<Rightarrow> string \<Rightarrow> token_balance_request" where
  "token_balance_request_new token owner =
     \<lparr>tbq_token = token, tbq_owner = owner, tbq_address_names = address_names_empty\<rparr>"

definition balance_references_argument_value :: "token_balance_request \<Rightarrow> string \<Rightarrow> bool" where
  "balance_references_argument_value q candidate = same_argument_value (tbq_owner q) candidate"

definition balance_add_address_name :: "string \<Rightarrow> string \<Rightarrow> token_balance_request \<Rightarrow> token_balance_request result" where
  "balance_add_address_name name address q =
     map_ok (\<lambda>A. q\<lparr>tbq_address_names := A\<rparr>) (address_names_add name address (tbq_address_names q))"

record token_balance_result =
  tbr_token :: resolved_token
  tbr_owner :: json
  tbr_amount :: token_amount
  tbr_contract :: contract_read_result

definition balance_request_of :: "token_balance_request \<Rightarrow> contract_invoke_request" where
  "balance_request_of q =
     set_address_names (tbq_address_names q)
       (contract_invoke_request_new_positional (rt_contract_id (tbq_token q)) ''balance'' [tbq_owner q])"

definition shown_amount :: "int \<Rightarrow> nat \<Rightarrow> token_amount" where
  "shown_amount raw decimals = \<lparr>ta_raw = raw, ta_decimals = decimals, ta_amount = format_fixed_point raw decimals\<rparr>"

text \<open>What is made of the two readings; an asset's contract is not asked for its decimals.\<close>

definition token_balance_of ::
  "token_balance_request \<Rightarrow> contract_read_result \<Rightarrow> int \<Rightarrow> nat \<Rightarrow> token_balance_result result" where
  "token_balance_of q balance raw decimals =
     and_then (ok_or ''SEP-41 balance review is missing its owner argument''
         (case crr_arguments balance of [] \<Rightarrow> None | a # _ \<Rightarrow> Some (car_value a))) (\<lambda>owner.
       Inr \<lparr>tbr_token = tbq_token q, tbr_owner = owner, tbr_amount = shown_amount raw decimals, tbr_contract = balance\<rparr>)"

definition token_balance ::
  "spec_lib \<Rightarrow> contract_host fresnica_client \<Rightarrow> int \<Rightarrow> token_balance_request \<Rightarrow> client_disk
     \<Rightarrow> token_balance_result result \<times> client_disk" where
  "token_balance P C now q disk =
     (case token_read P C 0 now (balance_request_of q) ''balance'' disk of
        (Inl error, disk') \<Rightarrow> (Inl error, disk')
      | (Inr balance, disk') \<Rightarrow>
          (case parse_i128_output P (crr_output balance) ''balance'' of
             Inl error \<Rightarrow> (Inl error, disk')
           | Inr raw \<Rightarrow>
               (case rt_source (tbq_token q) of
                  TokenStellarAsset _ \<Rightarrow> (token_balance_of q balance raw stellar_asset_token_decimals, disk')
                | TokenContract \<Rightarrow>
                    (case token_read P C 1 now (decimals_request (tbq_token q)) ''decimals'' disk' of
                       (r, disk'') \<Rightarrow>
                         (and_then r (\<lambda>decimals.
                          and_then (ensure_same_executable (crr_executable balance) (crr_executable decimals)) (\<lambda>_.
                          and_then (parse_u32_output P (crr_output decimals) ''decimals'') (\<lambda>d.
                            token_balance_of q balance raw (nat d)))), disk'')))))"

section \<open>Transfers\<close>

record token_transfer_request =
  ttq_token :: resolved_token
  ttq_wallet :: "string option"
  ttq_amount :: string
  ttq_destination :: string
  ttq_address_names :: contract_address_names

definition token_transfer_request_new :: "resolved_token \<Rightarrow> string \<Rightarrow> string \<Rightarrow> token_transfer_request" where
  "token_transfer_request_new token amt destination =
     \<lparr>ttq_token = token, ttq_wallet = None, ttq_amount = amt, ttq_destination = destination,
      ttq_address_names = address_names_empty\<rparr>"

definition transfer_references_argument_value :: "token_transfer_request \<Rightarrow> string \<Rightarrow> bool" where
  "transfer_references_argument_value q candidate = same_argument_value (ttq_destination q) candidate"

definition transfer_add_address_name :: "string \<Rightarrow> string \<Rightarrow> token_transfer_request \<Rightarrow> token_transfer_request result" where
  "transfer_add_address_name name address q =
     map_ok (\<lambda>A. q\<lparr>ttq_address_names := A\<rparr>) (address_names_add name address (ttq_address_names q))"

record prepared_token_transfer =
  ptt_token :: resolved_token
  ptt_wallet_name :: string
  ptt_wallet_address :: string
  ptt_destination :: json
  ptt_amount_input :: string
  ptt_amount :: token_amount
  ptt_contract :: prepared_contract_invoke

definition transfer_request_of :: "token_transfer_request \<Rightarrow> wallet_record \<Rightarrow> int \<Rightarrow> contract_invoke_request" where
  "transfer_request_of q r raw =
     set_address_names (ttq_address_names q)
       ((contract_invoke_request_new_positional (rt_contract_id (ttq_token q)) ''transfer''
           [wr_address r, ttq_destination q, int_to_dec raw])\<lparr>ciq_wallet := Some (wr_name r)\<rparr>)"

text \<open>The checks of the prepared transaction, after \<open>prepare_contract_invoke_outcome\<close>.\<close>

definition token_transfer_of ::
  "token_transfer_request \<Rightarrow> wallet_record \<Rightarrow> contract_read_result option \<Rightarrow> int \<Rightarrow> nat \<Rightarrow> contract_invoke_preparation
     \<Rightarrow> prepared_token_transfer result" where
  "token_transfer_of q r observation raw decimals outcome =
     (case outcome of
        ReadOnlyCall _ \<Rightarrow> Inl ''SEP-41 transfer unexpectedly simulated as read-only; refusing token transfer''
      | TransactionCall prepared \<Rightarrow>
          (let review = pci_review prepared in
           and_then (ensure_current_sep41 (civ_capabilities review) (civ_contract_id review)) (\<lambda>_.
           and_then (case observation of
               Some d \<Rightarrow> ensure_same_executable (crr_executable d) (civ_executable review)
             | None \<Rightarrow> Inr ()) (\<lambda>_.
           and_then (ok_or ''SEP-41 transfer review is missing its source argument''
               (case civ_arguments review of [] \<Rightarrow> None | a # _ \<Rightarrow> Some (car_value a))) (\<lambda>source.
           and_then (ensure (source = JString (wr_address r))
               ''prepared SEP-41 transfer source does not match the selected Fresnica wallet'') (\<lambda>_.
           and_then (ok_or ''SEP-41 transfer review is missing its destination argument''
               (case civ_arguments review of _ # a # _ \<Rightarrow> Some (car_value a) | _ \<Rightarrow> None)) (\<lambda>destination.
             Inr \<lparr>ptt_token = ttq_token q, ptt_wallet_name = wr_name r, ptt_wallet_address = wr_address r,
                  ptt_destination = destination, ptt_amount_input = ttq_amount q,
                  ptt_amount = shown_amount raw decimals, ptt_contract = prepared\<rparr>)))))))"

text \<open>The first reading: the decimals of a contract token, with the observation they come from.\<close>

definition transfer_decimals ::
  "spec_lib \<Rightarrow> contract_host fresnica_client \<Rightarrow> int \<Rightarrow> resolved_token \<Rightarrow> client_disk
     \<Rightarrow> (contract_read_result option \<times> nat) result \<times> client_disk" where
  "transfer_decimals P C now token disk =
     (case rt_source token of
        TokenStellarAsset _ \<Rightarrow> (Inr (None, stellar_asset_token_decimals), disk)
      | TokenContract \<Rightarrow>
          (case token_read P C 0 now (decimals_request token) ''decimals'' disk of
             (r, disk') \<Rightarrow>
               (and_then r (\<lambda>result.
                  map_ok (\<lambda>d. (Some result, nat d)) (parse_u32_output P (crr_output result) ''decimals'')), disk')))"

definition prepare_token_transfer ::
  "spec_lib \<Rightarrow> contract_host fresnica_client \<Rightarrow> int \<Rightarrow> token_transfer_request \<Rightarrow> client_disk
     \<Rightarrow> prepared_token_transfer result \<times> client_disk" where
  "prepare_token_transfer P C now q disk =
     (case client_resolve_wallet C (ttq_wallet q) disk of
        Inl error \<Rightarrow> (Inl error, disk)
      | Inr r \<Rightarrow>
          (case transfer_decimals P C now (ttq_token q) disk of
             (Inl error, disk') \<Rightarrow> (Inl error, disk')
           | (Inr (observation, decimals), disk') \<Rightarrow>
               (case parse_token_amount (ttq_amount q) decimals of
                  Inl error \<Rightarrow> (Inl error, disk')
                | Inr raw \<Rightarrow>
                    (case client_prepare_contract_invoke_outcome P C 1 now (transfer_request_of q r raw) disk' of
                       (outcome, disk'') \<Rightarrow>
                         (and_then outcome (token_transfer_of q r observation raw decimals), disk'')))))"

section \<open>Reading an amount and showing it\<close>

lemma dropWhile_zeros_value: "dec_val (dropWhile (\<lambda>c. c = CHR ''0'') s) = dec_val s"
  by (induction s) (auto simp: dec_val_Cons digit_val_def)

lemma leading_digit_bound:
  assumes "all_digits s" "s \<noteq> []" "hd s \<noteq> CHR ''0''"
  shows "10 ^ (length s - 1) \<le> dec_val s"
proof -
  obtain c r where s: "s = c # r" using assms(2) by (cases s) auto
  have "digit_val c \<noteq> 0"
  proof
    assume "digit_val c = 0"
    with assms(1) s have "of_char c = (48 :: nat)" by (auto simp: all_digits_def is_ascii_digit_def digit_val_def)
    then have "of_char c = (of_char (CHR ''0'') :: nat)" by simp
    then have "c = CHR ''0''" by (simp only: of_char_eq_iff)
    with assms(3) s show False by simp
  qed
  then have "1 * 10 ^ length r \<le> digit_val c * 10 ^ length r" by (intro mult_right_mono) auto
  also have "\<dots> \<le> dec_val s" by (simp add: s dec_val_Cons)
  finally show ?thesis by (simp add: s)
qed

lemma all_digits_dropWhile: "all_digits s \<Longrightarrow> all_digits (dropWhile P s)"
  by (auto simp: all_digits_def list_all_iff dest: set_dropWhileD)

lemma parse_i128_digits:
  "s \<noteq> [] \<Longrightarrow> all_digits s \<Longrightarrow> parse_i128 s = (if int (dec_val s) \<le> i128_max then Some (int (dec_val s)) else None)"
proof -
  assume s: "s \<noteq> []" "all_digits s"
  then obtain c r where c: "s = c # r" "is_ascii_digit c" by (cases s) (auto simp: all_digits_def)
  have "c \<noteq> CHR ''-''" "c \<noteq> CHR ''+''" using c(2) by (auto simp: is_ascii_digit_def)
  with s c(1) show ?thesis by (simp add: parse_i128_def parse_digits_def i128_min_def Let_def)
qed

text \<open>A text with the parts \<open>w\<close> and \<open>f\<close>: \<open>w\<close> alone when \<open>f\<close> is empty, else \<open>w.f\<close>.\<close>

definition decimal_parts :: "string \<Rightarrow> string \<Rightarrow> string" where
  "decimal_parts w f = (if f = [] then w else w @ ''.'' @ f)"

lemma digits_no_point: "all_digits s \<Longrightarrow> CHR ''.'' \<notin> set s"
  by (auto simp: all_digits_def list_all_iff is_ascii_digit_def)

lemma all_digits_plain: "all_digits s \<Longrightarrow> list_all plain_char s"
  by (auto simp: all_digits_def list_all_iff plain_digit)

lemma parse_token_amount_parts:
  assumes w: "w \<noteq> []" "all_digits w" and f: "all_digits f" "trim_end_matches (CHR ''0'') f = f" "length f \<le> d"
    and raw: "raw = int (dec_val (w @ f) * 10 ^ (d - length f))" "0 < raw" "raw \<le> i128_max"
  shows "parse_token_amount (decimal_parts w f) d = Inr raw"
proof -
  let ?v = "decimal_parts w f" and ?s = "dropWhile (\<lambda>c. c = CHR ''0'') (w @ f)" and ?z = "d - length f"
  have "list_all plain_char ?v"
    using all_digits_plain [OF w(2)] all_digits_plain [OF f(1)]
    by (auto simp: decimal_parts_def plain_char_def is_ascii_byte_def is_ascii_ws_def)
  then have trimmed: "trim ?v = ?v" by (rule trim_plain)
  obtain c r where c: "w = c # r" "is_ascii_digit c" using w by (cases w) (auto simp: all_digits_def)
  have sign: "?v \<noteq> []" "hd ?v \<noteq> CHR ''-''" "hd ?v \<noteq> CHR ''+''"
    using c by (auto simp: decimal_parts_def is_ascii_digit_def)
  have parts: "split_on (CHR ''.'') ?v = (if f = [] then [w] else [w, f])"
    using digits_no_point [OF w(2)] digits_no_point [OF f(1)]
    by (simp add: decimal_parts_def split_on_none split_on_append)
  have value_s: "dec_val ?s = dec_val (w @ f)" by (rule dropWhile_zeros_value)
  have digits_s: "all_digits ?s" using w f by (intro all_digits_dropWhile) (simp add: all_digits_append)
  have nz: "dec_val (w @ f) \<noteq> 0"
  proof
    assume "dec_val (w @ f) = 0"
    with raw show False by simp
  qed
  have ne: "?s \<noteq> []"
  proof
    assume "?s = []"
    then have "dec_val ?s = dec_val []" by (rule arg_cong)
    then show False using nz unfolding value_s by (simp add: dec_val_def)
  qed
  then have "hd ?s \<noteq> CHR ''0''" using hd_dropWhile by blast
  then have "10 ^ (length ?s - 1) * 10 ^ ?z \<le> dec_val ?s * 10 ^ ?z"
    using leading_digit_bound [OF digits_s ne] by simp
  also have "\<dots> = nat raw" unfolding value_s raw(1) by (rule nat_int [symmetric])
  also have "\<dots> < 10 ^ 39" using raw(3) by (simp add: i128_max_def)
  finally have "(10::nat) ^ (length ?s - 1 + ?z) < 10 ^ 39" by (simp add: power_add)
  then have "length ?s - 1 + ?z < 39" by (rule power_less_imp_less_exp [rotated]) simp
  then have len: "length ?s + ?z \<le> token_amount_digits" by (simp add: token_amount_digits_def)
  have "int (dec_val (?s @ replicate ?z (CHR ''0''))) = raw"
    unfolding dec_val_append dec_val_zeros value_s raw(1) by simp
  moreover have "all_digits (?s @ replicate ?z (CHR ''0''))"
    using digits_s by (simp add: all_digits_append) (simp add: all_digits_def list_all_iff is_ascii_digit_def)
  ultimately have "parse_i128 (?s @ replicate ?z (CHR ''0'')) = Some raw"
    using ne raw by (simp add: parse_i128_digits)
  then have i128: "and_then (ok_or e (parse_i128 (?s @ replicate ?z (CHR ''0''))))
      (\<lambda>raw. if raw \<le> 0 then bad else Inr raw) = Inr raw" for e :: string and bad
    using raw(2) by simp
  have ps: "hd (split_on (CHR ''.'') ?v) = w" "\<not> 2 < length (split_on (CHR ''.'') ?v)"
    "trim_end_matches (CHR ''0'') (case tl (split_on (CHR ''.'') ?v) of [] \<Rightarrow> [] | x # _ \<Rightarrow> x) = f"
    using f(2) unfolding parts by (cases "f = []"; simp)+
  show ?thesis
    unfolding parse_token_amount_def Let_def trimmed ps i128
    by (simp only: sign w f(1) ne ps leD [OF f(3)] leD [OF len] simp_thms if_False if_True)
qed

lemma trim_end_matches_idem: "trim_end_matches c (trim_end_matches c s) = trim_end_matches c s"
  by (simp add: trim_end_matches_def)

lemma trimmed_zeros:
  assumes "all_digits f"
  shows "all_digits (trim_end_matches (CHR ''0'') f)" "length (trim_end_matches (CHR ''0'') f) \<le> length f"
    "dec_val (w @ f) = dec_val (w @ trim_end_matches (CHR ''0'') f) * 10 ^ (length f - length (trim_end_matches (CHR ''0'') f))"
proof -
  let ?t = "trim_end_matches (CHR ''0'') f"
  have f: "f = ?t @ replicate (length f - length ?t) (CHR ''0'')" by (rule trim_end_matches_decomp)
  show "all_digits ?t" using assms f by (metis all_digits_append)
  show "length ?t \<le> length f" using length_dropWhile_le [of "\<lambda>x. x = CHR ''0''" "rev f"] by (simp add: trim_end_matches_def)
  have "dec_val (w @ f) = dec_val ((w @ ?t) @ replicate (length f - length ?t) (CHR ''0''))" using f by simp
  then show "dec_val (w @ f) = dec_val (w @ ?t) * 10 ^ (length f - length ?t)"
    by (simp only: dec_val_append [of "w @ ?t"] dec_val_zeros length_replicate)
qed

lemma format_fixed_point_parts:
  assumes "0 \<le> raw" "d \<le> 38"
  shows "\<exists>w f. w \<noteq> [] \<and> all_digits w \<and> all_digits f \<and> length f = d \<and> int (dec_val (w @ f)) = raw \<and>
    format_fixed_point raw d = Some (decimal_parts w (trim_end_matches (CHR ''0'') f))"
proof -
  let ?n = "nat_to_dec (nat raw)"
  have n: "all_digits ?n" "dec_val ?n = nat raw" "?n \<noteq> []" by (simp_all add: all_digits_nat_to_dec dec_val_nat_to_dec)
  consider "d = 0" | "d \<noteq> 0" "length ?n \<le> d" | "d \<noteq> 0" "d < length ?n" by linarith
  then show ?thesis
  proof cases
    case 1
    then show ?thesis
      using assms n by (intro exI [of _ ?n] exI [of _ "[]"])
        (simp add: format_fixed_point_def decimal_parts_def trim_end_matches_def Let_def)
  next
    case 2
    have zeros: "all_digits (replicate k (CHR ''0''))" for k
      by (simp add: all_digits_def list_all_iff is_ascii_digit_def)
    show ?thesis
      using assms n 2 zeros by (intro exI [of _ "''0''"] exI [of _ "replicate (d - length ?n) (CHR ''0'') @ ?n"])
        (simp add: format_fixed_point_def decimal_parts_def Let_def all_digits_append dec_val_append dec_val_zeros dec_val_Cons
          digit_val_def all_digits_def is_ascii_digit_def)
  next
    case 3
    let ?k = "length ?n - d"
    have "all_digits (take ?k ?n)" "all_digits (drop ?k ?n)"
      using n(1) by (metis all_digits_append append_take_drop_id)+
    moreover have "dec_val (take ?k ?n @ drop ?k ?n) = nat raw" by (simp only: append_take_drop_id n(2))
    ultimately show ?thesis
      using assms n 3 by (intro exI [of _ "take ?k ?n"] exI [of _ "drop ?k ?n"])
        (simp add: format_fixed_point_def decimal_parts_def Let_def)
  qed
qed

lemma parse_format_fixed_point:
  assumes "0 < raw" "raw \<le> i128_max" "d \<le> 38"
  shows "\<exists>t. format_fixed_point raw d = Some t \<and> parse_token_amount t d = Inr raw"
proof -
  obtain w f where wf: "w \<noteq> []" "all_digits w" "all_digits f" "length f = d" "int (dec_val (w @ f)) = raw"
    and shown: "format_fixed_point raw d = Some (decimal_parts w (trim_end_matches (CHR ''0'') f))"
    using format_fixed_point_parts [of raw d] assms by auto
  note t = trimmed_zeros [OF wf(3)]
  have "parse_token_amount (decimal_parts w (trim_end_matches (CHR ''0'') f)) d = Inr raw"
  proof (rule parse_token_amount_parts)
    show "raw = int (dec_val (w @ trim_end_matches (CHR ''0'') f) * 10 ^ (d - length (trim_end_matches (CHR ''0'') f)))"
      using wf(4,5) t(3) [of w] by simp
  qed (use wf t assms in \<open>auto simp: trim_end_matches_idem\<close>)
  with shown show ?thesis by blast
qed

lemma parse_token_amount_range:
  "parse_token_amount s d = Inr raw \<Longrightarrow> 0 < raw \<and> raw \<le> i128_max"
  by (auto simp: parse_token_amount_def parse_i128_def Let_def and_then_Inr Option.bind_eq_Some_conv split: if_splits)

section \<open>What a prepared transfer is\<close>

lemma with_contract_rpc_Inr:
  "with_contract_rpc C n disk f = (Inr a, disk') \<longleftrightarrow>
     (\<exists>h pd. fc_rpc_gateway C = Inr h \<and> f (ch_contracts h n) (ch_gateway h n) (kd_pending disk) = (Inr a, pd) \<and>
        disk' = disk\<lparr>kd_pending := pd\<rparr>)"
  by (auto simp: with_contract_rpc_def split: sum.splits prod.splits)

lemma ensure_same_executable_Inr [simp]: "ensure_same_executable a b = Inr u \<longleftrightarrow> a = b"
  by (simp add: ensure_same_executable_def)

lemma ensure_current_sep41_Inr [simp]:
  "ensure_current_sep41 c contract = Inr u \<longleftrightarrow> s41_current_interface_compatible (cc_sep41 c)"
  by (simp add: ensure_current_sep41_def)

lemma token_transfer_of_Inr:
  assumes "token_transfer_of q r observation raw decimals outcome = Inr p"
  shows "outcome = TransactionCall (ptt_contract p) \<and>
    s41_current_interface_compatible (cc_sep41 (civ_capabilities (pci_review (ptt_contract p)))) \<and>
    (\<forall>d. observation = Some d \<longrightarrow> crr_executable d = civ_executable (pci_review (ptt_contract p))) \<and>
    (\<exists>rest. map car_value (civ_arguments (pci_review (ptt_contract p))) = JString (wr_address r) # ptt_destination p # rest) \<and>
    ptt_wallet_address p = wr_address r \<and> ptt_amount p = shown_amount raw decimals"
proof (cases outcome)
  case (TransactionCall c)
  with assms show ?thesis
    by (auto simp: token_transfer_of_def Let_def and_then_Inr split: option.splits list.splits if_splits)
qed (use assms in \<open>simp add: token_transfer_of_def\<close>)

text \<open>Where the decimals come from: fixed for an asset, read from the contract otherwise.\<close>

definition decimals_observed ::
  "spec_lib \<Rightarrow> contract_host fresnica_client \<Rightarrow> int \<Rightarrow> resolved_token \<Rightarrow> client_disk \<Rightarrow> executable_observation \<Rightarrow> nat \<Rightarrow> bool" where
  "decimals_observed P C now token disk executable decimals \<longleftrightarrow>
     (case rt_source token of
        TokenStellarAsset _ \<Rightarrow> decimals = stellar_asset_token_decimals
      | TokenContract \<Rightarrow>
          (\<exists>d disk'. token_read P C 0 now (decimals_request token) ''decimals'' disk = (Inr d, disk') \<and>
             map_ok nat (parse_u32_output P (crr_output d) ''decimals'') = Inr decimals \<and> crr_executable d = executable))"

lemma transfer_decimals_observed:
  assumes "transfer_decimals P C now token disk = (Inr (observation, decimals), disk')"
    and "\<forall>d. observation = Some d \<longrightarrow> crr_executable d = executable"
  shows "decimals_observed P C now token disk executable decimals"
  using assms
  by (auto simp: transfer_decimals_def decimals_observed_def and_then_Inr map_ok_Inr
      split: resolved_token_source.splits prod.splits)

lemma transfer_request_contract [simp]: "ciq_contract_id (transfer_request_of q r raw) = rt_contract_id (ttq_token q)"
  by (simp add: transfer_request_of_def contract_invoke_request_new_positional_def set_address_names_def)

section \<open>Properties\<close>


text \<open>C29. An accepted token amount is a positive i128 that can be shown and read back. Whatever text the user gave,
  the raw amount is positive and at most the greatest i128; and when the token's decimals can be shown
  at all (at most 38), the fixed-point text of the raw amount exists and reads as exactly the same raw
  amount.\<close>

theorem token_amount_roundtrip:
  assumes "parse_token_amount s decimals = Inr raw"
  shows "0 < raw \<and> raw \<le> i128_max \<and>
    (decimals \<le> 38 \<longrightarrow> (\<exists>t. format_fixed_point raw decimals = Some t \<and> parse_token_amount t decimals = Inr raw))"
  using parse_token_amount_range [OF assms] parse_format_fixed_point by blast

theorem token_amount_roundtrip_witness:
  "\<exists>t. format_fixed_point 15000000 7 = Some t \<and> parse_token_amount t 7 = Inr 15000000"
proof -
  have "parse_token_amount (decimal_parts ''1'' ''5'') 7 = Inr 15000000"
    by (rule parse_token_amount_parts) (simp_all add: all_digits_def is_ascii_digit_def trim_end_matches_def dec_val_def
      digit_val_def i128_max_def)
  from token_amount_roundtrip [OF this] show ?thesis by simp
qed

end
