(* ===== verification/TokenExample.thy ===== *)
theory TokenExample
  imports Token ContractExample
begin

text \<open>
  A token transfer on concrete input: the witness of the transfer property of Token.thy, on the demo token.
\<close>

section \<open>Example\<close>

definition demo_token_client :: "contract_host fresnica_client" where
  "demo_token_client =
     \<lparr>fc_profile = \<lparr>np_network = ''testnet'', np_horizon_url = ''https://horizon'', np_rpc_url = None\<rparr>,
      fc_libs = demo_soroban_sdk, fc_storage = demo_wallet_env, fc_contacts = demo_contact_env,
      fc_pending = demo_pending_env 5, fc_catalog = demo_catalog_env, fc_gateway = demo_gateway,
      fc_rpc = Some \<lparr>ch_gateway = (\<lambda>_. demo_rpc), ch_contracts = (\<lambda>_. demo_contract_client)\<rparr>, fc_timeout = 300\<rparr>"

definition demo_token :: resolved_token where
  "demo_token = \<lparr>rt_contract_id = demo_contract_text (replicate 32 3), rt_source = TokenStellarAsset ''XLM''\<rparr>"

definition demo_transfer_request :: token_transfer_request where
  "demo_transfer_request = (token_transfer_request_new demo_token ''1'' ''B'')\<lparr>ttq_wallet := Some ''a''\<rparr>"

lemma demo_token_client_simps [simp]:
  "fc_libs demo_token_client = demo_soroban_sdk" "fc_stellar demo_token_client = lib_stellar demo_soroban_sdk"
  "fc_storage demo_token_client = demo_wallet_env" "fc_pending demo_token_client = demo_pending_env 5"
  "fc_network demo_token_client = ''testnet''"
  "fc_rpc_gateway demo_token_client = Inr \<lparr>ch_gateway = (\<lambda>_. demo_rpc), ch_contracts = (\<lambda>_. demo_contract_client)\<rparr>"
  by (simp_all add: demo_token_client_def fc_stellar_def fc_network_def fc_rpc_gateway_def)

lemma demo_token_wallet: "client_resolve_wallet demo_token_client (Some ''a'') demo_client_disk = Inr (demo_wallet ''a'')"
  using demo_soroban_wallet
  by (simp add: client_resolve_wallet_def resolve_network_wallet_def demo_client_disk_def and_then_Inr split: if_splits)

lemma demo_token_amount: "parse_token_amount ''1'' 7 = Inr 10000000"
proof -
  have "parse_token_amount (decimal_parts ''1'' []) 7 = Inr 10000000"
    by (rule parse_token_amount_parts) (simp_all add: all_digits_def is_ascii_digit_def trim_end_matches_def dec_val_def
      digit_val_def i128_max_def)
  then show ?thesis by (simp add: decimal_parts_def)
qed

lemma demo_transfer_resolved:
  "resolve_request demo_spec_lib es (transfer_request_of demo_transfer_request (demo_wallet ''a'') 10000000) =
     Inr (demo_request, demo_argument_reviews)"
proof (rule demo_resolved_args)
  let ?R = "transfer_request_of demo_transfer_request (demo_wallet ''a'') 10000000"
  have reviewed: "make_argument_review demo_spec_lib demo_spec n (contract_type_name demo_spec_lib TyAddress) TyAddress (demo_value TyAddress) =
      Inr (demo_argument_review n TyAddress)"
    "make_argument_review demo_spec_lib demo_spec n (contract_type_name demo_spec_lib TyMuxedAddress) TyMuxedAddress
       (demo_value TyMuxedAddress) = Inr (demo_argument_review n TyMuxedAddress)"
    "make_argument_review demo_spec_lib demo_spec n (contract_type_name demo_spec_lib TyI128) TyI128 (demo_value TyI128) =
      Inr (demo_argument_review n TyI128)" for n
    by (rule demo_reviews, simp)+
  have "ciq_positional_arguments ?R = Some [wr_address (demo_wallet ''a''), ''B'', int_to_dec 10000000]"
    by (simp add: transfer_request_of_def contract_invoke_request_new_positional_def set_address_names_def
        demo_transfer_request_def token_transfer_request_new_def)
  then show "resolve_arguments demo_spec_lib demo_spec demo_function ?R = Inr
      (zip (map demo_value [TyAddress, TyMuxedAddress, TyI128]) demo_argument_reviews)"
    by (simp add: resolve_arguments_def demo_parses reviewed demo_argument_reviews_def del: contract_type_name.simps)
  show "?R = (contract_invoke_request_new (demo_contract_text (replicate 32 3)) ''transfer'' [])\<lparr>ciq_wallet := Some ''a'',
      ciq_positional_arguments := Some [wr_address (demo_wallet ''a''), ''B'', int_to_dec 10000000],
      ciq_address_names := address_names_empty\<rparr>"
    by (simp add: transfer_request_of_def contract_invoke_request_new_positional_def contract_invoke_request_new_def
        set_address_names_def demo_transfer_request_def token_transfer_request_new_def demo_token_def demo_wallet_def)
qed

lemma demo_simulated: "simulate_soroban_invoke demo_soroban_sdk demo_rpc 0 demo_request = Inr demo_simulation"
proof -
  have "demo_parse_account read_only_simulation_account = Some demo_key" by (simp add: demo_parse_account_def)
  then have "\<exists>e. build_candidate_for_source demo_soroban_sdk 0 read_only_simulation_account demo_request 0 100 = Inr e"
    by (simp add: build_candidate_for_source_def demo_request_def soroban_invoke_request_new_def demo_soroban_lib_keys
      demo_contract_known build_single_operation_envelope_def build_single_with_timeout_def text_memo_def
      build_single_with_memo_and_timeout_def build_Inr default_classic_transaction_timeout_seconds_def
      max_operations_per_tx_def arith_defs)
  moreover have "verify_network demo_rpc = Inr ()" "simulate_transaction demo_rpc e = Inr demo_simulation" for e
    by (simp_all add: verify_network_def simulate_transaction_def demo_rpc_def)
  ultimately show ?thesis by (auto simp: simulate_soroban_invoke_def)
qed

lemma demo_sends: "validate_soroban_simulation demo_simulation = Inr ()" "simulation_requires_send demo_simulation = Inr True"
  by (simp_all add: validate_soroban_simulation_Inr simulation_requires_send_def simulation_effects_of_def demo_simulation_def
      demo_resources_def requires_send_def)

lemma demo_ascii_lower:
  "to_ascii_lower CHR ''A'' = CHR ''a''" "to_ascii_lower CHR ''I'' = CHR ''i''" "to_ascii_lower CHR ''S'' = CHR ''s''"
  "to_ascii_lower CHR ''U'' = CHR ''u''" "c \<in> set ''degilnrst1238'' \<Longrightarrow> to_ascii_lower c = c"
  by (code_simp, code_simp, code_simp, code_simp) (auto simp: to_ascii_lower_def)

lemma demo_type_names:
  "contract_type_name demo_spec_lib TyAddress = ''address''" "contract_type_name demo_spec_lib TyI128 = ''i128''"
  "contract_type_name demo_spec_lib TyMuxedAddress = ''muxed_address''"
  "contract_type_name demo_spec_lib TyU32 = ''u32''" "contract_type_name demo_spec_lib TyString = ''string''"
  by (simp_all add: demo_spec_lib_def demo_type_name_def demo_ascii_lower)

lemma demo_token_compatible: "sep41_interface_compatible demo_spec_lib (map SpecFunction demo_token_functions)"
  by (simp add: sep41_interface_compatible_def function_signature_matches_def demo_token_functions_def demo_function_def
      demo_signature_def demo_type_names del: contract_type_name.simps)

definition demo_transfer_call :: prepared_contract_invoke where
  "demo_transfer_call = \<lparr>pci_review = invoke_review_from_soroban (ps_review demo_prepared_soroban) (css_executable demo_snapshot) []
      (capabilities_from_spec demo_spec_lib (css_executable demo_snapshot) [] (css_entries demo_snapshot)) demo_argument_reviews,
     pci_prepared = demo_prepared_soroban\<rparr>"

definition demo_transfer :: prepared_token_transfer where
  "demo_transfer = \<lparr>ptt_token = demo_token, ptt_wallet_name = ''a'', ptt_wallet_address = demo_key_text demo_key,
     ptt_destination = JString (demo_key_text demo_key), ptt_amount_input = ''1'', ptt_amount = shown_amount 10000000 7,
     ptt_contract = demo_transfer_call\<rparr>"

lemma demo_transfer_outcome:
  "client_prepare_contract_invoke_outcome demo_spec_lib demo_token_client 1 0
     (transfer_request_of demo_transfer_request (demo_wallet ''a'') 10000000) demo_client_disk =
   (Inr (TransactionCall demo_transfer_call), demo_client_disk)"
proof -
  have contract: "ciq_contract_id (transfer_request_of demo_transfer_request (demo_wallet ''a'') 10000000) =
      ciq_contract_id demo_contract_request"
    by (simp add: demo_transfer_request_def token_transfer_request_new_def demo_token_def demo_contract_request_def
        contract_invoke_request_new_def)
  have disk: "kd_wallets demo_client_disk = demo_wallet_disk" "kd_pending demo_client_disk = \<lparr>pd_store = NoFile, pd_temporary = None\<rparr>"
    "demo_client_disk\<lparr>kd_pending := \<lparr>pd_store = NoFile, pd_temporary = None\<rparr>\<rparr> = demo_client_disk"
    by (simp_all add: demo_client_disk_def)
  have finished: "finish_contract_invoke demo_soroban_sdk demo_spec_lib demo_contract_client
      (transfer_request_of demo_transfer_request (demo_wallet ''a'') 10000000) demo_snapshot demo_argument_reviews
      demo_prepared_soroban = Inr demo_transfer_call"
    unfolding finish_contract_invoke_Inr contract
    by (simp add: demo_snapshot_taken demo_soroban_lib_keys demo_transfer_call_def) (simp add: demo_snapshot_def)
  show ?thesis
    by (simp add: client_prepare_contract_invoke_outcome_def with_contract_rpc_def prepare_contract_invoke_outcome_def contract disk
        demo_snapshot_taken demo_soroban_lib_keys demo_transfer_resolved demo_simulated demo_sends demo_prepares finished
        del: transfer_request_contract)
qed

lemma demo_transfer_prepared:
  "prepare_token_transfer demo_spec_lib demo_token_client 0 demo_transfer_request demo_client_disk = (Inr demo_transfer, demo_client_disk)"
proof -
  have request: "ttq_wallet demo_transfer_request = Some ''a''" "ttq_token demo_transfer_request = demo_token"
    "ttq_amount demo_transfer_request = ''1''" "rt_source demo_token = TokenStellarAsset ''XLM''"
    by (simp_all add: demo_transfer_request_def token_transfer_request_new_def demo_token_def)
  have review: "s41_current_interface_compatible (cc_sep41 (civ_capabilities (pci_review demo_transfer_call)))"
    "civ_arguments (pci_review demo_transfer_call) = demo_argument_reviews"
    using demo_token_compatible
    by (simp_all add: demo_transfer_call_def invoke_review_from_soroban_def capabilities_from_spec_def demo_snapshot_def)
  have checked: "token_transfer_of demo_transfer_request (demo_wallet ''a'') None 10000000 7 (TransactionCall demo_transfer_call) =
      Inr demo_transfer"
    using review
    by (simp add: token_transfer_of_def request ensure_current_sep41_def demo_argument_reviews_def demo_argument_review_def
        demo_json_def demo_wallet_def demo_transfer_def Let_def)
  show ?thesis
    by (simp add: prepare_token_transfer_def request demo_token_wallet transfer_decimals_def stellar_asset_token_decimals_def
        demo_token_amount demo_transfer_outcome [unfolded One_nat_def] checked)
qed


end
