(* ===== verification/Spec2Isabelle.thy ===== *)
theory Spec2Isabelle
  imports Prelude Json Amount Stellar CoreSigning AgentAccess Asset LedgerAuth
    SigningSelection TxBuilder Pending DexMath SecretStore Protection Anchor AnchorExample AnchorHttp
    AnchorSafety AnchorTransfer Bindings Catalog Client ClientApi Contacts Contract ContractArgs
    ContractExample ContractSpec Coordinated Coordination Detached DetachedExample Gateway Market Offers
    Payment Process Rpc Sdk Sep10 Soroban SorobanExample SorobanFlow SorobanTx Storage Submission Token
    TokenExample Trustline Views Wallets
begin

text \<open>
  Fresnica is a Stellar wallet in Rust. This development models its security core
  (src/core/rust), the SDK facade over it (src/sdk/rust), its bindings (src/bindings) and the reference client
  (src/reference/rust-client), and proves what a user who reviews, signs and submits relies on:
  that the transaction which leaves the wallet is the reviewed one, inside the limits that were
  checked, signed by enough of the right keys and by no other, and that stored secrets open only
  where they should.

  \<^bold>\<open>The program.\<close> The core keeps secrets: an envelope encrypts the wallet material
  (secret_store.rs, protection.rs, wallet_material.rs), protected_signer.rs opens it for one signature
  and compares the derived key with the expected identity, and signer.rs, transaction.rs, message.rs and
  soroban_authorization.rs make and check signatures. client_api.rs and the SDK turn every error into a
  stable code, which the native, browser and process bindings hand on. The client owns files (wallet
  records, contacts, the pending transaction, an asset cache), reads the network through Horizon and
  Stellar RPC, prepares an operation with every check before a review is shown, plans which ledger
  signers must sign (ledger_authorization.rs), selects and asks them (signing_coordination.rs) and
  submits (transaction.rs); a submission whose outcome is not known blocks the account until it is
  reconciled. On top are payments, trust lines, DEX offers, Soroban and contract calls, tokens, and the
  anchor protocols.

  \<^bold>\<open>Theories and sources.\<close> Each theory keeps the source's operations, one definition for one
  function, in the source's order.
    \<^item> Prelude: results, fixed-width arithmetic, byte strings and their parsing, the locales
      \<open>text_codec\<close> and \<open>preserved\<close>. Json: \<open>serde_json::Value\<close>. Stellar: the XDR types and the
      record \<open>stellar_lib\<close> of third-party functions.
    \<^item> Core: CoreSigning (signer.rs, transaction.rs, message.rs), AgentAccess (agent_access.rs),
      SecretStore (secret_store.rs, account.rs), Protection (protection.rs, wallet.rs,
      wallet_material.rs, protected_signer.rs), Soroban (soroban_authorization.rs), ClientApi
      (client_api.rs), Sdk (sdk/rust/src/lib.rs).
    \<^item> Bindings (bindings/native and bindings/wasm, src/lib.rs) and Process (bindings/process/src/main.rs).
    \<^item> The client's files and services: Storage (storage.rs), Wallets (wallet.rs, system_auth.rs),
      Contacts (contacts.rs), Catalog (asset_catalog.rs), Gateway (horizon_gateway.rs), Views
      (account_state.rs, balance_state.rs, history_state.rs), Client (service.rs).
    \<^item> Classic transactions: Amount, TxBuilder and Pending (transaction.rs), Asset (asset.rs),
      LedgerAuth (ledger_authorization.rs), SigningSelection and Coordination
      (signing_coordination.rs), Coordinated (what coordinated signing does to an envelope),
      Payment (payment.rs), Trustline (trustline.rs), DexMath, Market and Offers (dex.rs),
      Submission (the three writing paths joined).
    \<^item> Soroban: Rpc (rpc_gateway.rs), SorobanTx and Detached (soroban.rs), SorobanFlow (what holds
      from review to end), ContractSpec, ContractArgs and Contract (contract.rs), Token (token.rs
      and the contract methods of service.rs).
    \<^item> Anchors: AnchorHttp (anchor_http.rs), Anchor (anchor.rs, SEP-12), AnchorTransfer and Sep10
      (anchor_protocol.rs: SEP-1, 6, 24 and 10), AnchorSafety (what they send and accept).
    \<^item> SorobanExample, DetachedExample, ContractExample, TokenExample, AnchorExample: concrete runs that the witnesses
      of the long flows use.

  \<^bold>\<open>How the model reads.\<close> A \<open>Result\<close> is a sum, \<open>?\<close> is \<open>and_then\<close>, and each early return is a branch with
  the source's message. A \<open>str\<close> is its UTF-8 bytes. Integers are \<open>int\<close> or \<open>nat\<close> with the checked,
  saturating and range tests of their Rust type written out. Files are state that operations
  return updated: \<open>wallet_disk\<close>, \<open>pending_disk\<close>, the contact file, the catalogue, together
  \<open>client_disk\<close>; the outcome of each system call is a parameter, so a failing write is a branch. The
  network is a function that gives the reply. Where the reply may change between calls the function
  also takes the number of the call, or, for the anchor operations, all requests sent before: those
  return the requests they send, so their destinations and credentials are part of the model. A
  clock is an argument, negative before the Unix epoch; where code reads it twice it is two
  arguments.

  \<^bold>\<open>Parameters.\<close> Third-party code is a record of functions: \<open>stellar_lib\<close> (StrKey, Ed25519, SHA-256, XDR,
  base64), \<open>soroban_lib\<close>, \<open>crypto_lib\<close> (Argon2, scrypt, AES-GCM, random bytes), \<open>mnemonic_lib\<close>,
  \<open>spec_lib\<close> and \<open>contract_spec\<close> (the Soroban specification crates), \<open>rpc_client\<close>, \<open>token_lib\<close>,
  \<open>anchor_lib\<close> (URL, TOML and HTTP crates) and the environments of the stores. What a property
  needs of them is a named hypothesis, such as \<open>public_key_codec\<close>, \<open>ed25519_correct\<close>,
  \<open>hash_excludes_signatures\<close>, \<open>xdr_injective\<close> or \<open>crypto_ok\<close>: documented behaviour of the crate, which
  \<open>demo_lib\<close> and the other example libraries satisfy.

  \<^bold>\<open>What is shown.\<close>
    \<^item> Signing (C1, C2, C22--C24): coordinated signing keeps the transaction and ends only when the plan is
      satisfied by valid signatures; it succeeds when the selected signers can sign; the plan asks
      for exactly the weight that the ledger rules ask for; selection is sound and finds enough
      signers when there are enough.
    \<^item> Review and submission (C3--C8, C13--C15, C20, C21): the envelope that is signed and
      submitted is the prepared one, and the review says what it does, for payments, trust lines,
      offers, Soroban calls, contract calls and detached authorizations; limits are respected.
    \<^item> Anchors (C9--C11, C17, C18): what a challenge must be before it is signed, what is
      exchanged for a token, and where requests and tokens go.
    \<^item> The pending store, submission outcomes and polling (C12, C25--C27): an uncertain submission blocks
      the account,
      reconciling clears it, polling ends.
    \<^item> Values (C16, C19, C28, C29, C39, C40): amounts, prices, token amounts and contract values are read and
      printed without loss,
      inside their ranges; offers' liabilities are bounded.
    \<^item> Stored data and keys (C30, C34--C38): only envelopes with the pinned parameters open, encryption is inverted,
      wallet files stay consistent, protected signing is bound to the identity, an agent signs only inside its
      capability.
    \<^item> Bindings (C31--C33): what the process binding hands out it takes back, signing with a passcode is signing
      with the derived key across the process boundary, and the native binding changes no outcome.

  The shared reasoning is in locales, each interpreted on the model: \<open>text_codec\<close> (text forms; Asset),
  \<open>decimal_codec\<close> (Amount), \<open>preserved\<close> (invariants of event sequences; Pending, Storage), \<open>sealed_box\<close>
  (encryption; SecretStore, Protection), \<open>classic_signer_impl\<close> and \<open>hash_signer_impl\<close> (CoreSigning), and
  \<open>key_signing\<close> (one turn of the signing loop; Coordinated). The requests of anchor operations are
  followed with \<open>sends\<close> and its introduction rules \<open>sends_intros\<close>.

  \<^bold>\<open>Bounds and fuel.\<close> Recursion is structural or has a measure, except for the JSON arguments of a
  contract call, which follow user-defined types: \<open>prepare_json_with_fuel\<close> takes the size of the JSON value as
  fuel and \<open>prepare_json_fuel_enough\<close> shows that more changes nothing. The typing of contract
  values stops at the source's depth of 500, that is 501 nested values. A submitted Soroban transaction is polled
  at most 30 times, as in the source. The \<open>while\<close> loops of signer selection end because
  each turn takes a signer from the finite set that is left. Indices that Rust would panic on
  (\<open>short_address\<close> of a text from Horizon) are options whose \<open>None\<close> is the panic.

  \<^bold>\<open>Not modelled.\<close> Zeroisation of memory and \<open>Debug\<close> printing have no counterpart in a functional model.
  The time-outs, size limit and redirects of the HTTP agents are part of the replies a model function
  may give. The adapters and providers in other languages and the Python reference only call the
  operations above; the crate roots only list modules and re-exports. Test modules
  are not modelled. Asynchronous functions are modelled by their sequence of calls, one operation at a
  time: interleavings of two processes on one wallet directory are not modelled (the source takes no
  file locks).
\<close>

end
